(* ===== verification/Js_Prelude.thy ===== *)
theory Js_Prelude
  imports Main "HOL-Library.Sublist" "HOL-Library.Word"
begin

text \<open>
  Shared vocabulary of the development: the JavaScript string, array and value operations the
  TypeScript sources use, and the lemmas about them that the component theories share.

  A JavaScript string is a list of UTF-16 code units. The model is a \<^typ>\<open>string\<close>: a list of
  \<^typ>\<open>char\<close>, whose 256 values stand for the code units U+0000 to U+00FF, so that
  \<^const>\<open>length\<close> counts what \<^verbatim>\<open>.length\<close> counts. One value is re-assigned: \<^term>\<open>CHR 0x97\<close>
  stands for the em dash U+2014, which the sources print, and not for the C1 control U+0097.
  \<open>trim\<close>, \<open>toLowerCase\<close>, the regular-expression class \<^verbatim>\<open>\s\<close> and the UTF-8 length are the
  ECMAScript ones on that alphabet.
\<close>

named_theorems js_defs "definitions of the JavaScript library operations"

section \<open>Characters\<close>

definition code :: "char \<Rightarrow> nat" where
  "code c = of_char c"

definition is_ws :: "char \<Rightarrow> bool" where
  \<comment> \<open>ECMAScript WhiteSpace and LineTerminator, the class \<^verbatim>\<open>\s\<close>\<close>
  "is_ws c \<longleftrightarrow> (9 \<le> code c \<and> code c \<le> 13) \<or> code c = 32 \<or> code c = 160"

definition is_control :: "char \<Rightarrow> bool" where
  \<comment> \<open>the class \<^verbatim>\<open>[\x00-\x1f\x7f]\<close>\<close>
  "is_control c \<longleftrightarrow> code c \<le> 31 \<or> code c = 127"

definition is_digit :: "char \<Rightarrow> bool" where
  "is_digit c \<longleftrightarrow> 48 \<le> code c \<and> code c \<le> 57"

definition is_lower_az :: "char \<Rightarrow> bool" where
  "is_lower_az c \<longleftrightarrow> 97 \<le> code c \<and> code c \<le> 122"

definition is_upper_az :: "char \<Rightarrow> bool" where
  "is_upper_az c \<longleftrightarrow> 65 \<le> code c \<and> code c \<le> 90"

definition is_hex :: "char \<Rightarrow> bool" where
  \<comment> \<open>the class \<^verbatim>\<open>[a-f0-9]\<close>\<close>
  "is_hex c \<longleftrightarrow> is_digit c \<or> (97 \<le> code c \<and> code c \<le> 102)"

definition is_alnum_lower :: "char \<Rightarrow> bool" where
  "is_alnum_lower c \<longleftrightarrow> is_lower_az c \<or> is_digit c"

definition is_alnum :: "char \<Rightarrow> bool" where
  "is_alnum c \<longleftrightarrow> is_lower_az c \<or> is_upper_az c \<or> is_digit c"

lemmas char_class_defs [js_defs] =
  is_ws_def is_control_def is_digit_def is_lower_az_def is_upper_az_def is_hex_def
  is_alnum_lower_def is_alnum_def code_def

definition lower_char :: "char \<Rightarrow> char" where
  \<comment> \<open>\<^verbatim>\<open>toLowerCase\<close> on U+0000 to U+00FF\<close>
  "lower_char c =
     (if (65 \<le> code c \<and> code c \<le> 90) \<or> (192 \<le> code c \<and> code c \<le> 222 \<and> code c \<noteq> 215)
      then char_of (code c + 32) else c)"

lemma code_less [simp]: "code c < 256"
  by (simp add: code_def)

lemma code_char_of [simp]: "n < 256 \<Longrightarrow> code (char_of n) = n"
  by (simp add: code_def)

lemma code_inject [simp]: "code c = code d \<longleftrightarrow> c = d"
  by (simp add: code_def)

lemma code_lower_char:
  "code (lower_char c) =
     (if (65 \<le> code c \<and> code c \<le> 90) \<or> (192 \<le> code c \<and> code c \<le> 222 \<and> code c \<noteq> 215)
      then code c + 32 else code c)"
  by (simp add: lower_char_def)

lemma lower_char_idem [simp]: "lower_char (lower_char c) = lower_char c"
proof -
  have "code (lower_char (lower_char c)) = code (lower_char c)"
    by (simp add: code_lower_char)
  then show ?thesis by simp
qed

lemma is_ws_lower_char [simp]: "is_ws (lower_char c) = is_ws c"
  by (auto simp: is_ws_def code_lower_char)

lemma is_hex_not_ws: "is_hex c \<Longrightarrow> \<not> is_ws c"
  by (auto simp: is_hex_def is_ws_def is_digit_def)

lemma is_hex_lower: "is_hex c \<Longrightarrow> lower_char c = c"
  by (auto simp: is_hex_def is_digit_def lower_char_def)

lemma is_alnum_lower_lower: "is_alnum_lower c \<Longrightarrow> lower_char c = c"
  by (auto simp: is_alnum_lower_def is_lower_az_def is_digit_def lower_char_def)

lemma is_alnum_lower_not_ws: "is_alnum_lower c \<Longrightarrow> \<not> is_ws c"
  by (auto simp: is_alnum_lower_def is_lower_az_def is_digit_def is_ws_def)

section \<open>Strings\<close>

definition lower :: "string \<Rightarrow> string" where
  "lower s = map lower_char s"

definition trim_start :: "string \<Rightarrow> string" where
  "trim_start s = dropWhile is_ws s"

definition trim_end :: "string \<Rightarrow> string" where
  "trim_end s = rev (dropWhile is_ws (rev s))"

definition trim :: "string \<Rightarrow> string" where
  "trim s = trim_end (trim_start s)"

lemma lower_idem [simp]: "lower (lower s) = lower s"
  by (simp add: lower_def)

lemma length_lower [simp]: "length (lower s) = length s"
  by (simp add: lower_def)

lemma lower_append [simp]: "lower (s @ t) = lower s @ lower t"
  by (simp add: lower_def)

lemma lower_Nil_iff [simp]: "lower s = [] \<longleftrightarrow> s = []"
  by (simp add: lower_def)

lemma lower_id: "(\<And>c. c \<in> set s \<Longrightarrow> lower_char c = c) \<Longrightarrow> lower s = s"
  by (simp add: lower_def map_idI)

lemma trim_start_lower: "trim_start (lower s) = lower (trim_start s)"
  by (induction s) (auto simp: trim_start_def lower_def)

lemma trim_end_lower: "trim_end (lower s) = lower (trim_end s)"
  using trim_start_lower [of "rev s"]
  by (simp add: trim_end_def trim_start_def lower_def rev_map)

lemma trim_lower: "trim (lower s) = lower (trim s)"
  by (simp add: trim_def trim_start_lower trim_end_lower)

lemma dropWhile_Nil_or_hd: "dropWhile P s = [] \<or> \<not> P (hd (dropWhile P s))"
  using hd_dropWhile by blast

lemma trim_ends_not_ws:
  assumes "trim s \<noteq> []"
  shows "\<not> is_ws (hd (trim s))" and "\<not> is_ws (last (trim s))"
proof -
  let ?u = "trim_start s"
  have t: "trim s = rev (dropWhile is_ws (rev ?u))"
    by (simp add: trim_def trim_end_def)
  have ne: "dropWhile is_ws (rev ?u) \<noteq> []"
    using assms t by auto
  show "\<not> is_ws (last (trim s))"
    using hd_dropWhile [OF ne] ne t by (simp add: last_rev)
  obtain w where w: "?u = trim s @ w"
    using t takeWhile_dropWhile_id [of is_ws "rev ?u"]
    by (metis rev_append rev_rev_ident)
  then have "?u \<noteq> []" and "hd ?u = hd (trim s)"
    using assms by auto
  moreover have "\<not> is_ws (hd ?u)"
    using \<open>?u \<noteq> []\<close> hd_dropWhile [of is_ws s] by (simp add: trim_start_def)
  ultimately show "\<not> is_ws (hd (trim s))" by simp
qed

lemma trim_id:
  assumes "s = [] \<or> (\<not> is_ws (hd s) \<and> \<not> is_ws (last s))"
  shows "trim s = s"
proof (cases "s = []")
  case True
  then show ?thesis by (simp add: trim_def trim_start_def trim_end_def)
next
  case False
  with assms have h: "\<not> is_ws (hd s)" and l: "\<not> is_ws (last s)" by auto
  have "dropWhile is_ws s = s"
    using h False by (cases s) auto
  moreover have "dropWhile is_ws (rev s) = rev s"
    using l False by (cases s rule: rev_cases) auto
  ultimately show ?thesis
    by (simp add: trim_def trim_start_def trim_end_def)
qed

lemma trim_trim [simp]: "trim (trim s) = trim s"
proof (cases "trim s = []")
  case True
  have "trim [] = []" by (simp add: trim_def trim_start_def trim_end_def)
  with True show ?thesis by metis
next
  case False
  from trim_ends_not_ws [OF False] show ?thesis by (intro trim_id) simp
qed

lemma trim_no_ws: "(\<And>c. c \<in> set s \<Longrightarrow> \<not> is_ws c) \<Longrightarrow> trim s = s"
  by (cases "s = []") (auto intro!: trim_id)

section \<open>Splitting, joining, searching\<close>

fun split_on :: "char \<Rightarrow> string \<Rightarrow> string list" where
  \<comment> \<open>\<^verbatim>\<open>s.split(c)\<close>: never the empty array\<close>
  "split_on d [] = [[]]"
| "split_on d (c # s) =
     (if c = d then [] # split_on d s
      else (case split_on d s of [] \<Rightarrow> [[c]] | p # ps \<Rightarrow> (c # p) # ps))"

fun join :: "string \<Rightarrow> string list \<Rightarrow> string" where
  "join sep [] = []"
| "join sep [x] = x"
| "join sep (x # y # ys) = x @ sep @ join sep (y # ys)"

lemma split_on_not_Nil [simp]: "split_on d s \<noteq> []"
  by (induction s) (auto split: list.splits)

lemma join_split_on: "join [d] (split_on d s) = s"
proof (induction s)
  case Nil
  then show ?case by simp
next
  case (Cons c s)
  obtain p ps where "split_on d s = p # ps"
    by (cases "split_on d s") auto
  with Cons show ?case
    by (cases ps) auto
qed

lemma split_on_absent: "d \<notin> set x \<Longrightarrow> split_on d x = [x]"
  by (induction x) auto

lemma split_on_append: "d \<notin> set x \<Longrightarrow> split_on d (x @ d # s) = x # split_on d s"
  by (induction x) auto

lemma split_on_join:
  "xs \<noteq> [] \<Longrightarrow> (\<And>x. x \<in> set xs \<Longrightarrow> d \<notin> set x) \<Longrightarrow> split_on d (join [d] xs) = xs"
  by (induction "[d]" xs rule: join.induct) (auto simp: split_on_append split_on_absent)

lemma split_on_no_sep: "p \<in> set (split_on d s) \<Longrightarrow> d \<notin> set p"
  by (induction s arbitrary: p) (auto split: if_splits list.splits)

lemma split_on_chars: "p \<in> set (split_on d s) \<Longrightarrow> set p \<subseteq> set s"
  by (induction s arbitrary: p) (fastforce split: if_splits list.splits)+

lemma split_on_cover: "c \<in> set s \<Longrightarrow> c = d \<or> (\<exists>p \<in> set (split_on d s). c \<in> set p)"
proof (induction s)
  case Nil
  then show ?case by simp
next
  case (Cons x s)
  obtain p ps where "split_on d s = p # ps"
    by (cases "split_on d s") auto
  with Cons show ?case by auto
qed

definition index_of :: "char \<Rightarrow> string \<Rightarrow> int" where
  \<comment> \<open>\<^verbatim>\<open>s.indexOf(c)\<close> for a one-character argument; -1 when absent\<close>
  "index_of c s = (if c \<in> set s then int (length (takeWhile (\<lambda>x. x \<noteq> c) s)) else -1)"

definition last_index_of :: "char \<Rightarrow> string \<Rightarrow> int" where
  \<comment> \<open>\<^verbatim>\<open>s.lastIndexOf(c)\<close> for a one-character argument; -1 when absent\<close>
  "last_index_of c s =
     (if c \<in> set s then int (length s) - 1 - int (length (takeWhile (\<lambda>x. x \<noteq> c) (rev s))) else -1)"

lemma last_index_of_append:
  "c \<notin> set b \<Longrightarrow> last_index_of c (a @ c # b) = int (length a)"
proof -
  assume "c \<notin> set b"
  then have "takeWhile (\<lambda>x. x \<noteq> c) (rev b @ c # rev a) = rev b"
    by (subst takeWhile_append2) auto
  then show ?thesis by (simp add: last_index_of_def)
qed

lemma last_index_of_split:
  assumes "c \<in> set s"
  obtains a b where "s = a @ c # b" and "c \<notin> set b" and "last_index_of c s = int (length a)"
  by (metis assms last_index_of_append split_list_last)

lemma last_index_of_absent: "c \<notin> set s \<Longrightarrow> last_index_of c s = -1"
  by (simp add: last_index_of_def)

definition uniq :: "'a list \<Rightarrow> 'a list" where
  \<comment> \<open>\<^verbatim>\<open>[...new Set(xs)]\<close>: the first occurrences, in order\<close>
  "uniq xs = rev (remdups (rev xs))"

lemma set_uniq [simp]: "set (uniq xs) = set xs"
  by (simp add: uniq_def)

lemma distinct_uniq [simp]: "distinct (uniq xs)"
  by (simp add: uniq_def)

lemma uniq_id: "distinct xs \<Longrightarrow> uniq xs = xs"
  by (simp add: uniq_def distinct_remdups_id)

lemma length_uniq: "length (uniq xs) \<le> length xs"
  by (metis length_remdups_leq length_rev uniq_def)

definition last_n :: "nat \<Rightarrow> 'a list \<Rightarrow> 'a list" where
  \<comment> \<open>\<^verbatim>\<open>xs.slice(-n)\<close> for positive \<^term>\<open>n\<close>\<close>
  "last_n n xs = drop (length xs - n) xs"

lemma length_last_n: "length (last_n n xs) \<le> n"
  by (simp add: last_n_def)

lemma set_last_n: "set (last_n n xs) \<subseteq> set xs"
  by (simp add: last_n_def set_drop_subset)

lemma distinct_last_n: "distinct xs \<Longrightarrow> distinct (last_n n xs)"
  by (simp add: last_n_def)

definition utf8_length :: "string \<Rightarrow> nat" where
  \<comment> \<open>\<^verbatim>\<open>new TextEncoder().encode(s).byteLength\<close>\<close>
  "utf8_length s = sum_list (map (\<lambda>c. if code c < 128 then 1 else if c = CHR 0x97 then 3 else 2) s)"

lemma utf8_length_append [simp]: "utf8_length (s @ t) = utf8_length s + utf8_length t"
  by (simp add: utf8_length_def)

lemma utf8_length_ge: "length s \<le> utf8_length s"
  by (induction s) (auto simp: utf8_length_def)

type_synonym byte = "8 word"

definition utf8_char :: "char \<Rightarrow> byte list" where
  "utf8_char c =
     (if code c < 128 then [of_nat (code c)]
      else if c = CHR 0x97 then [0xE2, 0x80, 0x94]
      else [of_nat (192 + code c div 64), of_nat (128 + code c mod 64)])"

definition utf8_encode :: "string \<Rightarrow> byte list" where
  \<comment> \<open>\<^verbatim>\<open>new TextEncoder().encode(s)\<close>\<close>
  "utf8_encode s = concat (map utf8_char s)"

lemma length_utf8_encode: "length (utf8_encode s) = utf8_length s"
  by (induction s) (auto simp: utf8_encode_def utf8_length_def utf8_char_def)

definition replace_char :: "char \<Rightarrow> string \<Rightarrow> string \<Rightarrow> string" where
  \<comment> \<open>\<^verbatim>\<open>s.replaceAll(c, r)\<close> for a one-character pattern\<close>
  "replace_char c r s = concat (map (\<lambda>x. if x = c then r else [x]) s)"

lemma replace_char_append [simp]: "replace_char c r (s @ t) = replace_char c r s @ replace_char c r t"
  by (simp add: replace_char_def)

lemma set_replace_char: "set (replace_char c r s) \<subseteq> (set s - {c}) \<union> set r"
  by (auto simp: replace_char_def split: if_splits)

definition hex_digit :: "nat \<Rightarrow> char" where
  "hex_digit n = (if n < 10 then char_of (48 + n) else char_of (87 + n))"

definition hex_byte :: "byte \<Rightarrow> string" where
  \<comment> \<open>\<^verbatim>\<open>byte.toString(16).padStart(2, "0")\<close>\<close>
  "hex_byte b = [hex_digit (unat b div 16), hex_digit (unat b mod 16)]"

definition hex :: "byte list \<Rightarrow> string" where
  "hex bytes = concat (map hex_byte bytes)"

lemma length_hex [simp]: "length (hex bs) = 2 * length bs"
  by (induction bs) (auto simp: hex_def hex_byte_def)

lemma is_hex_hex_digit: "n < 16 \<Longrightarrow> is_hex (hex_digit n)"
  by (auto simp: hex_digit_def is_hex_def is_digit_def)

lemma unat_byte_div: "unat (b :: byte) div 16 < 16"
proof -
  have "unat b < 2 ^ LENGTH(8)" by (rule unsigned_less)
  then show ?thesis by simp
qed

lemma hex_chars: "c \<in> set (hex bs) \<Longrightarrow> is_hex c"
  by (auto simp: hex_def hex_byte_def is_hex_hex_digit unat_byte_div)

fun show_nat :: "nat \<Rightarrow> string" where
  \<comment> \<open>\<^verbatim>\<open>`${n}`\<close> of a non-negative integer\<close>
  "show_nat n = (if n < 10 then [char_of (48 + n)] else show_nat (n div 10) @ [char_of (48 + n mod 10)])"

declare show_nat.simps [simp del]

section \<open>Angle-bracketed message identifiers\<close>

definition id_char :: "char \<Rightarrow> bool" where
  \<comment> \<open>the class \<^verbatim>\<open>[^<>\s]\<close>\<close>
  "id_char c \<longleftrightarrow> c \<noteq> CHR ''<'' \<and> c \<noteq> CHR ''>'' \<and> \<not> is_ws c"

definition is_angle_id :: "string \<Rightarrow> bool" where
  \<comment> \<open>the test \<^verbatim>\<open>/^<[^<>\s]+>$/\<close>\<close>
  "is_angle_id s \<longleftrightarrow> 3 \<le> length s \<and> hd s = CHR ''<'' \<and> last s = CHR ''>'' \<and> list_all id_char (butlast (tl s))"

lemma dropWhile_Cons_length [termination_simp]:
  "dropWhile P xs = d # r \<Longrightarrow> length r < Suc (length xs)"
  by (metis Suc_le_lessD length_Cons length_dropWhile_le less_Suc_eq)

fun angle_ids :: "string \<Rightarrow> string list" where
  \<comment> \<open>\<^verbatim>\<open>s.match(/<[^<>\s]+>/g) ?? []\<close>\<close>
  "angle_ids [] = []"
| "angle_ids (c # s) =
     (if c = CHR ''<'' then
        (case dropWhile id_char s of
           [] \<Rightarrow> angle_ids s
         | d # r \<Rightarrow>
             if d = CHR ''>'' \<and> takeWhile id_char s \<noteq> []
             then (CHR ''<'' # takeWhile id_char s @ [CHR ''>'']) # angle_ids r
             else angle_ids s)
      else angle_ids s)"

lemma is_angle_idI:
  "b \<noteq> [] \<Longrightarrow> (\<And>c. c \<in> set b \<Longrightarrow> id_char c) \<Longrightarrow> is_angle_id (CHR ''<'' # b @ [CHR ''>''])"
  by (auto simp: is_angle_id_def list_all_iff butlast_append Suc_le_eq)

lemma angle_ids_valid: "x \<in> set (angle_ids s) \<Longrightarrow> is_angle_id x"
proof (induction s rule: angle_ids.induct)
  case 1
  then show ?case by simp
next
  case (2 c s)
  then show ?case
    by (auto split: if_splits list.splits intro!: is_angle_idI dest: set_takeWhileD)
qed

lemma is_angle_id_form:
  assumes "is_angle_id x"
  obtains b where "x = CHR ''<'' # b @ [CHR ''>'']" and "b \<noteq> []" and "\<And>c. c \<in> set b \<Longrightarrow> id_char c"
proof -
  from assms have len: "3 \<le> length x" and h: "hd x = CHR ''<''" and l: "last x = CHR ''>''"
    and a: "list_all id_char (butlast (tl x))"
    by (auto simp: is_angle_id_def)
  obtain c y where x: "x = c # y" using len by (cases x) auto
  with len have y: "y \<noteq> []" by auto
  have "x = CHR ''<'' # butlast y @ [CHR ''>'']"
    using x h l y by (metis append_butlast_last_id last_ConsR list.sel(1))
  moreover have "butlast y \<noteq> []" using len x y by (cases y) auto
  ultimately show thesis
    using that [of "butlast y"] a x by (auto simp: list_all_iff)
qed

lemma angle_ids_of_id: "is_angle_id x \<Longrightarrow> angle_ids (x @ s) = x # angle_ids s"
proof (erule is_angle_id_form)
  fix b assume x: "x = CHR ''<'' # b @ [CHR ''>'']" and b: "b \<noteq> []" "\<And>c. c \<in> set b \<Longrightarrow> id_char c"
  have nid: "\<not> id_char (CHR ''>'')" by (simp add: id_char_def)
  have d: "dropWhile id_char (b @ CHR ''>'' # s) = CHR ''>'' # s"
    using b nid by (subst dropWhile_append2) auto
  have t: "takeWhile id_char (b @ CHR ''>'' # s) = b"
    using b nid by (subst takeWhile_append2) auto
  show "angle_ids (x @ s) = x # angle_ids s"
    using b by (simp add: x d t)
qed

lemma angle_ids_space: "angle_ids (CHR '' '' # s) = angle_ids s"
  by simp

lemma angle_ids_join:
  "(\<And>x. x \<in> set xs \<Longrightarrow> is_angle_id x) \<Longrightarrow> angle_ids (join '' '' xs) = xs"
proof (induction "'' ''" xs rule: join.induct)
  case 1
  then show ?case by simp
next
  case (2 x)
  then show ?case using angle_ids_of_id [of x "[]"] by simp
next
  case (3 x y ys)
  then show ?case by (simp add: angle_ids_of_id angle_ids_space del: angle_ids.simps(2) join.simps)
      (simp add: angle_ids_of_id)
qed

section \<open>Digests written in hexadecimal\<close>

definition is_sha256_hex :: "string \<Rightarrow> bool" where
  \<comment> \<open>the test \<^verbatim>\<open>/^[a-f0-9]{64}$/\<close>\<close>
  "is_sha256_hex s \<longleftrightarrow> length s = 64 \<and> list_all is_hex s"

section \<open>Values of unknown type\<close>

text \<open>
  What \<^verbatim>\<open>JSON.parse\<close> or the structured clone of a queue message can hand the code. An object is
  the list of its own enumerable properties in order; \<open>JNonInt\<close> stands for every number that is not
  an integer (fractions, NaN, the infinities), on which the sources only ever test integrality.
\<close>

datatype jv =
    JUndefined
  | JNull
  | JBool bool
  | JInt int
  | JNonInt
  | JString string
  | JArray "jv list"
  | JBuffer "byte list"
  | JObject "(string \<times> jv) list"

definition js_get :: "jv \<Rightarrow> string \<Rightarrow> jv" where
  \<comment> \<open>\<^verbatim>\<open>value[key]\<close> for a key that is no inherited property\<close>
  "js_get v k = (case v of JObject ps \<Rightarrow> (case map_of ps k of Some x \<Rightarrow> x | None \<Rightarrow> JUndefined) | _ \<Rightarrow> JUndefined)"

definition js_keys :: "jv \<Rightarrow> string list" where
  \<comment> \<open>\<^verbatim>\<open>Object.keys(value)\<close> of a record\<close>
  "js_keys v = (case v of JObject ps \<Rightarrow> map fst ps | _ \<Rightarrow> [])"

definition js_entries :: "jv \<Rightarrow> (string \<times> jv) list" where
  "js_entries v = (case v of JObject ps \<Rightarrow> ps | _ \<Rightarrow> [])"

definition js_is_record :: "jv \<Rightarrow> bool" where
  \<comment> \<open>\<^verbatim>\<open>Boolean(value) && typeof value === "object" && !Array.isArray(value)\<close>\<close>
  "js_is_record v = (case v of JObject _ \<Rightarrow> True | JBuffer _ \<Rightarrow> True | _ \<Rightarrow> False)"

definition js_is_string :: "jv \<Rightarrow> bool" where
  "js_is_string v = (case v of JString _ \<Rightarrow> True | _ \<Rightarrow> False)"

definition max_safe_integer :: int where
  "max_safe_integer = 9007199254740991"

definition js_is_safe_integer :: "jv \<Rightarrow> bool" where
  "js_is_safe_integer v = (case v of JInt n \<Rightarrow> \<bar>n\<bar> \<le> max_safe_integer | _ \<Rightarrow> False)"

lemmas js_value_defs [js_defs] =
  js_get_def js_keys_def js_entries_def js_is_record_def js_is_string_def js_is_safe_integer_def
  max_safe_integer_def

lemma js_is_string_iff: "js_is_string v \<longleftrightarrow> (\<exists>s. v = JString s)"
  by (cases v) (auto simp: js_is_string_def)

section \<open>Options and results\<close>

text \<open>A routine that can throw returns a sum; \<open>Inl\<close> carries what was thrown.\<close>

definition catch :: "'a \<Rightarrow> ('e + 'a) \<Rightarrow> 'a" where
  "catch d r = (case r of Inl _ \<Rightarrow> d | Inr x \<Rightarrow> x)"

definition bindE :: "('e + 'a) \<Rightarrow> ('a \<Rightarrow> 'e + 'b) \<Rightarrow> 'e + 'b" where
  \<comment> \<open>the rest of a routine after a step that can throw\<close>
  "bindE r f = (case r of Inl e \<Rightarrow> Inl e | Inr x \<Rightarrow> f x)"

definition throwIf :: "bool \<Rightarrow> 'e \<Rightarrow> 'e + unit" where
  \<comment> \<open>\<^verbatim>\<open>if (c) throw e;\<close>\<close>
  "throwIf c e = (if c then Inl e else Inr ())"

lemma bindE_simps [simp]: "bindE (Inl e) f = Inl e" "bindE (Inr x) f = f x"
  by (simp_all add: bindE_def)

lemma bindE_Inr_iff: "bindE r f = Inr y \<longleftrightarrow> (\<exists>x. r = Inr x \<and> f x = Inr y)"
  by (auto simp: bindE_def split: sum.splits)

lemma bindE_Inl_iff: "bindE r f = Inl e \<longleftrightarrow> r = Inl e \<or> (\<exists>x. r = Inr x \<and> f x = Inl e)"
  by (auto simp: bindE_def split: sum.splits)

lemma throwIf_Inr_iff [simp]: "throwIf c e = Inr u \<longleftrightarrow> \<not> c"
  by (simp add: throwIf_def)

lemma throwIf_Inl_iff [simp]: "throwIf c e = Inl e' \<longleftrightarrow> c \<and> e = e'"
  by (simp add: throwIf_def)

lemma throwIf_simps [simp]: "throwIf True e = Inl e" "throwIf False e = Inr ()"
  by (simp_all add: throwIf_def)

fun traverse :: "('a \<Rightarrow> 'e + 'b) \<Rightarrow> 'a list \<Rightarrow> 'e + 'b list" where
  \<comment> \<open>\<^verbatim>\<open>xs.map(f)\<close> for a callback that can throw: the first throw wins\<close>
  "traverse f [] = Inr []"
| "traverse f (x # xs) =
     (case f x of
        Inl e \<Rightarrow> Inl e
      | Inr y \<Rightarrow> (case traverse f xs of Inl e \<Rightarrow> Inl e | Inr ys \<Rightarrow> Inr (y # ys)))"

lemma traverse_Inr:
  "traverse f xs = Inr ys \<longleftrightarrow> list_all2 (\<lambda>x y. f x = Inr y) xs ys"
  by (induction xs arbitrary: ys) (auto simp: list_all2_Cons1 split: sum.splits, metis Inr_inject)

lemma traverse_cong [fundef_cong]:
  "xs = ys \<Longrightarrow> (\<And>x. x \<in> set ys \<Longrightarrow> f x = g x) \<Longrightarrow> traverse f xs = traverse g ys"
  by (induction ys arbitrary: xs) (auto split: sum.splits)

end
