(* ===== verification/Platform.thy ===== *)
theory Platform
  imports Js_Prelude
begin

text \<open>
  What the sources take from the Workers runtime and what this development therefore takes as a
  parameter: the SHA-256 digest of the Web Crypto service, the clock's date parser and printer, and
  the locale's string comparison. They are the fields of one record, the first argument of every
  definition that uses them. Everything computed from them (\<^verbatim>\<open>sha256Hex\<close>, the JSON text that is
  hashed, the storage identifiers) is defined here from the sources.
\<close>

record platform =
  pf_digest :: "byte list \<Rightarrow> byte list"          \<comment> \<open>\<^verbatim>\<open>crypto.subtle.digest("SHA-256", bytes)\<close>\<close>
  pf_date_parse :: "string \<Rightarrow> int option"         \<comment> \<open>\<^verbatim>\<open>Date.parse\<close>, \<^const>\<open>None\<close> for NaN\<close>
  pf_to_iso :: "int \<Rightarrow> string"                     \<comment> \<open>\<^verbatim>\<open>new Date(ms).toISOString()\<close>\<close>
  pf_locale_le :: "string \<Rightarrow> string \<Rightarrow> bool"      \<comment> \<open>\<^verbatim>\<open>left.localeCompare(right) <= 0\<close>\<close>

section \<open>Digests\<close>

definition sha256Hex :: "platform \<Rightarrow> string \<Rightarrow> string" where
  "sha256Hex pf value = hex (pf_digest pf (utf8_encode value))"

definition sha256Hex_bytes :: "platform \<Rightarrow> byte list \<Rightarrow> string" where
  "sha256Hex_bytes pf value = hex (pf_digest pf value)"

definition digest_ok :: "platform \<Rightarrow> bool" where
  \<comment> \<open>the documented contract of SHA-256: a digest has 32 bytes\<close>
  "digest_ok pf \<longleftrightarrow> (\<forall>x. length (pf_digest pf x) = 32)"

lemma sha256Hex_is_hex: "digest_ok pf \<Longrightarrow> is_sha256_hex (sha256Hex pf v)"
  by (auto simp: is_sha256_hex_def sha256Hex_def digest_ok_def list_all_iff dest: hex_chars)

section \<open>JSON text\<close>

definition json_char :: "char \<Rightarrow> string" where
  "json_char c =
     (if c = CHR 0x22 then [CHR 0x5C, CHR 0x22]
      else if c = CHR 0x5C then [CHR 0x5C, CHR 0x5C]
      else if code c = 8 then [CHR 0x5C, CHR ''b'']
      else if code c = 9 then [CHR 0x5C, CHR ''t'']
      else if code c = 10 then [CHR 0x5C, CHR ''n'']
      else if code c = 12 then [CHR 0x5C, CHR ''f'']
      else if code c = 13 then [CHR 0x5C, CHR ''r'']
      else if code c < 32 then CHR 0x5C # ''u00'' @ [hex_digit (code c div 16), hex_digit (code c mod 16)]
      else [c])"

definition json_quote :: "string \<Rightarrow> string" where
  "json_quote s = CHR 0x22 # concat (map json_char s) @ [CHR 0x22]"

definition show_int :: "int \<Rightarrow> string" where
  "show_int n = (if n < 0 then CHR ''-'' # show_nat (nat (- n)) else show_nat (nat n))"

fun json_stringify :: "jv \<Rightarrow> string" where
  \<comment> \<open>\<^verbatim>\<open>JSON.stringify\<close>; undefined is dropped from objects and is null in arrays. The sources never
      print a non-integral number: that case stands for NaN, which prints as null.\<close>
  "json_stringify JUndefined = ''null''"
| "json_stringify JNull = ''null''"
| "json_stringify (JBool b) = (if b then ''true'' else ''false'')"
| "json_stringify (JInt n) = show_int n"
| "json_stringify JNonInt = ''null''"
| "json_stringify (JString s) = json_quote s"
| "json_stringify (JArray vs) = ''['' @ join '','' (map json_stringify vs) @ '']''"
| "json_stringify (JBuffer n) = ''{}''"
| "json_stringify (JObject ps) =
     ''{'' @ join '','' (map (\<lambda>(k, v). json_quote k @ '':'' @ json_stringify v)
                         (filter (\<lambda>(k, v). v \<noteq> JUndefined) ps)) @ ''}''"

definition jopt :: "string option \<Rightarrow> jv" where
  \<comment> \<open>an optional string as the property \<^verbatim>\<open>value ?? null\<close>\<close>
  "jopt v = (case v of None \<Rightarrow> JNull | Some s \<Rightarrow> JString s)"

definition jundef :: "string option \<Rightarrow> jv" where
  \<comment> \<open>an optional string as the property \<^verbatim>\<open>value\<close>\<close>
  "jundef v = (case v of None \<Rightarrow> JUndefined | Some s \<Rightarrow> JString s)"

definition jstrings :: "string list \<Rightarrow> jv" where
  "jstrings xs = JArray (map JString xs)"

section \<open>Percent encoding and storage identifiers\<close>

definition uri_unreserved :: "char \<Rightarrow> bool" where
  "uri_unreserved c \<longleftrightarrow> is_alnum c \<or> c \<in> {CHR ''-'', CHR ''_'', CHR ''.'', CHR ''!'', CHR ''~'',
     CHR ''*'', CHR 0x27, CHR ''('', CHR '')''}"

definition upper_hex_digit :: "nat \<Rightarrow> char" where
  "upper_hex_digit n = (if n < 10 then char_of (48 + n) else char_of (55 + n))"

definition percent_byte :: "byte \<Rightarrow> string" where
  "percent_byte b = [CHR ''%'', upper_hex_digit (unat b div 16), upper_hex_digit (unat b mod 16)]"

definition encodeURIComponent :: "string \<Rightarrow> string" where
  "encodeURIComponent s =
     concat (map (\<lambda>c. if uri_unreserved c then [c] else concat (map percent_byte (utf8_char c))) s)"

definition policyStorageId :: "string \<Rightarrow> string list \<Rightarrow> string" where
  \<comment> \<open>\<^verbatim>\<open>workers/shared/policy-inventory.ts\<close>\<close>
  "policyStorageId pre parts = join '':'' (pre # map (\<lambda>v. encodeURIComponent (lower (trim v))) parts)"

definition stableId :: "string \<Rightarrow> string list \<Rightarrow> string" where
  \<comment> \<open>\<^verbatim>\<open>workers/mail-router/src/inbound-repository.ts\<close>\<close>
  "stableId pre parts = join '':'' (pre # map (\<lambda>v. encodeURIComponent (lower (trim v))) parts)"

lemma upper_hex_digit_alnum: "n < 16 \<Longrightarrow> is_alnum (upper_hex_digit n)"
  by (auto simp: upper_hex_digit_def is_alnum_def is_upper_az_def is_digit_def)

lemma percent_byte_chars: "c \<in> set (percent_byte b) \<Longrightarrow> c = CHR ''%'' \<or> is_alnum c"
  by (auto simp: percent_byte_def unat_byte_div upper_hex_digit_alnum)

lemma encodeURIComponent_chars: "c \<in> set (encodeURIComponent s) \<Longrightarrow> uri_unreserved c \<or> c = CHR ''%''"
  by (auto simp: encodeURIComponent_def uri_unreserved_def split: if_splits dest: percent_byte_chars)

lemma encodeURIComponent_no_colon: "CHR '':'' \<notin> set (encodeURIComponent s)"
  using encodeURIComponent_chars [of "CHR '':''" s] by (auto simp: uri_unreserved_def js_defs)

lemma upper_hex_digit_inj: "m < 16 \<Longrightarrow> n < 16 \<Longrightarrow> upper_hex_digit m = upper_hex_digit n \<Longrightarrow> m = n"
proof -
  assume m: "m < 16" and n: "n < 16" and e: "upper_hex_digit m = upper_hex_digit n"
  from e have "code (upper_hex_digit m) = code (upper_hex_digit n)" by simp
  with m n show "m = n" by (auto simp: upper_hex_digit_def split: if_splits)
qed

lemma percent_byte_inj: "percent_byte a @ s = percent_byte b @ t \<Longrightarrow> a = b \<and> s = t"
proof -
  assume "percent_byte a @ s = percent_byte b @ t"
  then have st: "s = t" and "upper_hex_digit (unat a div 16) = upper_hex_digit (unat b div 16)"
    and "upper_hex_digit (unat a mod 16) = upper_hex_digit (unat b mod 16)"
    by (auto simp: percent_byte_def)
  then have "unat a div 16 = unat b div 16" and "unat a mod 16 = unat b mod 16"
    by (auto intro: upper_hex_digit_inj unat_byte_div)
  then have "unat a = unat b" by (metis div_mult_mod_eq)
  then have "a = b" by (simp add: unsigned_word_eqI)
  with st show ?thesis by simp
qed

lemma utf8_char_cases:
  obtains (ascii) "code c < 128" "utf8_char c = [of_nat (code c)]"
  | (dash) "c = CHR 0x97" "utf8_char c = [0xE2, 0x80, 0x94]"
  | (two) "128 \<le> code c" "c \<noteq> CHR 0x97" "utf8_char c = [of_nat (192 + code c div 64), of_nat (128 + code c mod 64)]"
  by (cases "code c < 128"; cases "c = CHR 0x97") (auto simp: utf8_char_def)

lemma unat_byte_of_nat: "n < 256 \<Longrightarrow> unat (of_nat n :: byte) = n"
  by (simp add: unsigned_of_nat take_bit_nat_eq_self)

lemma utf8_bytes_inj:
  "concat (map percent_byte (utf8_char c)) @ s = concat (map percent_byte (utf8_char d)) @ t \<Longrightarrow> c = d \<and> s = t"
proof -
  assume e: "concat (map percent_byte (utf8_char c)) @ s = concat (map percent_byte (utf8_char d)) @ t"
  have lt: "code x div 64 < 4" for x using code_less [of x] by (simp add: less_mult_imp_div_less)
  have two: "code x = 64 * (code x div 64) + code x mod 64" for x by simp
  have n: "unat (192 + of_nat (code x div 64) :: byte) = 192 + code x div 64"
       "unat (128 + of_nat (code x mod 64) :: byte) = 128 + code x mod 64" for x
    using lt [of x] unat_byte_of_nat [of "192 + code x div 64"] unat_byte_of_nat [of "128 + code x mod 64"]
    by (simp_all add: less_imp_le_nat)
  have a: "unat (of_nat (code x) :: byte) = code x" for x by (simp add: unat_byte_of_nat)
  have dash: "unat (0xE2 :: byte) = 226" by simp
  show ?thesis
  proof (cases c rule: utf8_char_cases)
    case ascii
    then show ?thesis using e
      by (cases d rule: utf8_char_cases) (auto dest!: percent_byte_inj dest: arg_cong [where f = unat] simp: a n dash)
  next
    case c: dash
    show ?thesis
    proof (cases d rule: utf8_char_cases)
      case ascii
      have "(0xE2 :: byte) = of_nat (code d)"
        using e c(2) ascii(2) by (auto dest!: percent_byte_inj)
      then have "226 = code d" using dash a [of d] by metis
      with ascii(1) show ?thesis by simp
    next
      case d: dash
      then show ?thesis using e c by (auto dest!: percent_byte_inj)
    next
      case two
      have "(0xE2 :: byte) = 192 + of_nat (code d div 64)"
        using e c(2) two(3) by (auto dest!: percent_byte_inj)
      then have "226 = 192 + code d div 64" using dash n(1) [of d] by metis
      with lt [of d] show ?thesis by simp
    qed
  next
    case c: two
    show ?thesis
    proof (cases d rule: utf8_char_cases)
      case ascii
      have "(192 + of_nat (code c div 64) :: byte) = of_nat (code d)"
        using e c(3) ascii(2) by (auto dest!: percent_byte_inj)
      then have "192 + code c div 64 = code d" using a [of d] n(1) [of c] by metis
      with ascii(1) show ?thesis by simp
    next
      case dash
      have "(192 + of_nat (code c div 64) :: byte) = 0xE2"
        using e c(3) dash(2) by (auto dest!: percent_byte_inj)
      then have "226 = 192 + code c div 64" using \<open>unat (0xE2 :: byte) = 226\<close> n(1) [of c] by metis
      with lt [of c] show ?thesis by simp
    next
      case d: two
      have "(192 + of_nat (code c div 64) :: byte) = 192 + of_nat (code d div 64)"
        and "(128 + of_nat (code c mod 64) :: byte) = 128 + of_nat (code d mod 64)" and st: "s = t"
        using e c(3) d(3) by (auto dest!: percent_byte_inj)
      then have "code c div 64 = code d div 64" and "code c mod 64 = code d mod 64"
        using n by (metis add_left_cancel)+
      then have "code c = code d" using two by metis
      with st show ?thesis by simp
    qed
  qed
qed

lemma percent_not_unreserved: "\<not> uri_unreserved (CHR ''%'')"
  by (simp add: uri_unreserved_def js_defs)

lemma percent_char_hd:
  obtains r where "concat (map percent_byte (utf8_char c)) = CHR ''%'' # r"
  by (cases c rule: utf8_char_cases) (auto simp: percent_byte_def)

lemma encodeURIComponent_Cons:
  "encodeURIComponent (c # s) =
     (if uri_unreserved c then [c] else concat (map percent_byte (utf8_char c))) @ encodeURIComponent s"
  by (simp add: encodeURIComponent_def)

lemma encodeURIComponent_Nil [simp]: "encodeURIComponent [] = []"
  by (simp add: encodeURIComponent_def)

lemma encodeURIComponent_Nil_iff: "encodeURIComponent s = [] \<longleftrightarrow> s = []"
proof (cases s)
  case (Cons c r)
  obtain q where "concat (map percent_byte (utf8_char c)) = CHR ''%'' # q"
    by (rule percent_char_hd)
  with Cons show ?thesis by (simp add: encodeURIComponent_Cons)
qed simp

lemma encodeURIComponent_inj: "encodeURIComponent s = encodeURIComponent t \<Longrightarrow> s = t"
proof (induction s arbitrary: t)
  case Nil
  then show ?case by (metis encodeURIComponent_Nil encodeURIComponent_Nil_iff)
next
  case (Cons c s)
  then obtain d t' where t: "t = d # t'"
    by (metis encodeURIComponent_Nil encodeURIComponent_Nil_iff neq_Nil_conv)
  obtain q where q: "concat (map percent_byte (utf8_char c)) = CHR ''%'' # q"
    by (rule percent_char_hd)
  obtain q' where q': "concat (map percent_byte (utf8_char d)) = CHR ''%'' # q'"
    by (rule percent_char_hd)
  have e: "encodeURIComponent (c # s) = encodeURIComponent (d # t')"
    using Cons.prems t by simp
  have "c = d \<and> encodeURIComponent s = encodeURIComponent t'"
  proof (cases "uri_unreserved c = uri_unreserved d")
    case True
    then show ?thesis using e
      by (cases "uri_unreserved c") (auto simp: encodeURIComponent_Cons dest: utf8_bytes_inj)
  next
    case False
    then show ?thesis using e q q' percent_not_unreserved
      by (auto simp: encodeURIComponent_Cons split: if_splits)
  qed
  with Cons.IH t show ?case by blast
qed

text \<open>A storage identifier determines its parts, up to the trimming and lowering of each.\<close>

lemma policyStorageId_inj:
  assumes "policyStorageId p xs = policyStorageId q ys" and "CHR '':'' \<notin> set p" and "CHR '':'' \<notin> set q"
  shows "p = q \<and> map (\<lambda>v. lower (trim v)) xs = map (\<lambda>v. lower (trim v)) ys"
proof -
  have s: "split_on (CHR '':'') (policyStorageId r zs) = r # map (\<lambda>v. encodeURIComponent (lower (trim v))) zs"
    if "CHR '':'' \<notin> set r" for r zs
    unfolding policyStorageId_def
    by (rule split_on_join) (use that in \<open>auto simp: encodeURIComponent_no_colon\<close>)
  have "p # map (\<lambda>v. encodeURIComponent (lower (trim v))) xs = q # map (\<lambda>v. encodeURIComponent (lower (trim v))) ys"
    using s [OF assms(2), of xs] s [OF assms(3), of ys] assms(1) by simp
  then have pq: "p = q" and m: "map encodeURIComponent (map (\<lambda>v. lower (trim v)) xs) =
      map encodeURIComponent (map (\<lambda>v. lower (trim v)) ys)"
    by (simp_all add: comp_def)
  have "inj encodeURIComponent"
    by (auto intro: injI encodeURIComponent_inj)
  then show ?thesis using m pq by (metis map_injective)
qed

lemma stableId_eq_policyStorageId: "stableId = policyStorageId"
  by (simp add: fun_eq_iff stableId_def policyStorageId_def)

end
