(* ===== verification/Contracts.thy ===== *)
theory Contracts
  imports Js_Prelude
begin

text \<open>
  \<^verbatim>\<open>workers/shared/contracts.ts\<close>: the worker environment, the queue job types, the derivation of the
  operator-delivery configuration from the environment strings, the storage keys of the raw archive
  and of the relay spool, and the readiness report.

  A binding (database, bucket, queue, mail sender) is a flag: whether it is configured. A string
  variable is an option, \<^const>\<open>None\<close> for \<^verbatim>\<open>undefined\<close>.
\<close>

section \<open>The environment\<close>

record maildesk_env =
  env_DB :: bool
  env_RAW_MAIL :: bool
  env_POLICY_STORE :: bool
  env_RELAY_SPOOL :: bool
  env_MAIL_JOBS :: bool
  env_EMAIL :: bool
  env_RESEND_API_KEY :: "string option"
  env_API_TOKEN :: "string option"
  env_PROOF_API_TOKEN :: "string option"
  env_REPLY_API_MODE :: "string option"
  env_OUTBOUND_MODE :: "string option"
  env_POLICY_JSON :: "string option"
  env_VERIFIED_SENDER_DOMAINS :: "string option"
  env_OPERATOR_DELIVERY_MODE :: "string option"
  env_RELAY_PROCESSING_MODE :: "string option"
  env_INBOUND_RELAY_MODE :: "string option"
  env_REPLY_RELAY_MODE :: "string option"
  env_ORDINARY_REPLY_MODE :: "string option"
  env_RUNTIME_ARTIFACTS_SHA256 :: "string option"
  env_TOPOLOGY_SHA256 :: "string option"
  env_REPLY_DOMAIN :: "string option"
  env_REPLY_TOKEN_TTL_DAYS :: "string option"
  env_SPOOL_RETENTION_DAYS :: "string option"
  env_MAX_ENCODED_MESSAGE_BYTES :: "string option"

definition empty_env :: maildesk_env where
  "empty_env =
     \<lparr> env_DB = False, env_RAW_MAIL = False, env_POLICY_STORE = False, env_RELAY_SPOOL = False,
       env_MAIL_JOBS = False, env_EMAIL = False, env_RESEND_API_KEY = None, env_API_TOKEN = None,
       env_PROOF_API_TOKEN = None, env_REPLY_API_MODE = None, env_OUTBOUND_MODE = None,
       env_POLICY_JSON = None, env_VERIFIED_SENDER_DOMAINS = None,
       env_OPERATOR_DELIVERY_MODE = None, env_RELAY_PROCESSING_MODE = None,
       env_INBOUND_RELAY_MODE = None, env_REPLY_RELAY_MODE = None, env_ORDINARY_REPLY_MODE = None,
       env_RUNTIME_ARTIFACTS_SHA256 = None, env_TOPOLOGY_SHA256 = None, env_REPLY_DOMAIN = None,
       env_REPLY_TOKEN_TTL_DAYS = None, env_SPOOL_RETENTION_DAYS = None,
       env_MAX_ENCODED_MESSAGE_BYTES = None \<rparr>"

definition truthy :: "string option \<Rightarrow> bool" where
  \<comment> \<open>\<^verbatim>\<open>Boolean(value)\<close> of an optional string\<close>
  "truthy v = (case v of None \<Rightarrow> False | Some s \<Rightarrow> s \<noteq> [])"

datatype operator_delivery_mode = Web_Desk | Inbox_Relay | Delivery_Invalid

datatype processing_mode = Processing_Disabled | Processing_Enabled | Processing_Invalid

record operator_delivery_config =
  odc_mode :: operator_delivery_mode
  odc_inboundProcessingMode :: processing_mode
  odc_replyProcessingMode :: processing_mode
  odc_replyDomain :: "string option"
  odc_replyTokenTtlDays :: nat
  odc_spoolRetentionDays :: nat
  odc_maxEncodedMessageBytes :: nat
  odc_bannerMode :: string

datatype route_kind = Role_Alias | Personal_Alias | Catch_All | Sink

section \<open>Configuration\<close>

definition relayMode :: "string option \<Rightarrow> processing_mode" where
  "relayMode value =
     (if value = None \<or> value = Some ''disabled'' then Processing_Disabled
      else if value = Some ''enabled'' then Processing_Enabled else Processing_Invalid)"

definition valid_label :: "string \<Rightarrow> bool" where
  \<comment> \<open>\<^verbatim>\<open>[a-z0-9](?:[a-z0-9-]{0,61}[a-z0-9])?\<close>\<close>
  "valid_label l \<longleftrightarrow>
     l \<noteq> [] \<and> length l \<le> 63 \<and> is_alnum_lower (hd l) \<and> is_alnum_lower (last l) \<and>
     list_all (\<lambda>c. is_alnum_lower c \<or> c = CHR ''-'') l"

definition valid_domain :: "string \<Rightarrow> bool" where
  \<comment> \<open>\<^verbatim>\<open>/^(?=.{1,253}$)label(?:\.label)*$/\<close>, used by \<^verbatim>\<open>normalizeDomain\<close> and \<^verbatim>\<open>normalizeMailbox\<close>\<close>
  "valid_domain d \<longleftrightarrow> 1 \<le> length d \<and> length d \<le> 253 \<and> list_all valid_label (split_on (CHR ''.'') d)"

definition normalizeDomain :: "string option \<Rightarrow> string option" where
  "normalizeDomain value =
     (case value of None \<Rightarrow> None
      | Some v \<Rightarrow> (let domain = lower (trim v) in if valid_domain domain then Some domain else None))"

definition nat_of_digits :: "string \<Rightarrow> nat" where
  "nat_of_digits s = foldl (\<lambda>n c. 10 * n + (code c - 48)) 0 s"

definition boundedPositiveInteger :: "string option \<Rightarrow> nat \<Rightarrow> nat \<Rightarrow> nat \<Rightarrow> nat" where
  "boundedPositiveInteger value fallback minimum maximum =
     (case value of None \<Rightarrow> fallback
      | Some v \<Rightarrow>
          if v = [] \<or> \<not> list_all is_digit v then fallback
          else (let parsed = nat_of_digits v in
            if int parsed \<le> max_safe_integer \<and> minimum \<le> parsed \<and> parsed \<le> maximum
            then parsed else fallback))"

definition operatorDeliveryConfig :: "maildesk_env \<Rightarrow> operator_delivery_config" where
  "operatorDeliveryConfig env =
     (let configuredMode = env_OPERATOR_DELIVERY_MODE env;
          legacyMode = env_RELAY_PROCESSING_MODE env;
          hasSplitMode = env_INBOUND_RELAY_MODE env \<noteq> None \<or> env_REPLY_RELAY_MODE env \<noteq> None;
          mixedModes = legacyMode \<noteq> None \<and> hasSplitMode;
          orElse = (\<lambda>a b :: string option. if a = None then b else a)
      in \<lparr> odc_mode = (if configuredMode = Some ''web_desk'' then Web_Desk
                       else if configuredMode = Some ''inbox_relay'' then Inbox_Relay
                       else Delivery_Invalid),
           odc_inboundProcessingMode =
             relayMode (if mixedModes then Some ''invalid'' else orElse (env_INBOUND_RELAY_MODE env) legacyMode),
           odc_replyProcessingMode =
             relayMode (if mixedModes then Some ''invalid'' else orElse (env_REPLY_RELAY_MODE env) legacyMode),
           odc_replyDomain = normalizeDomain (env_REPLY_DOMAIN env),
           odc_replyTokenTtlDays = boundedPositiveInteger (env_REPLY_TOKEN_TTL_DAYS env) 90 1 365,
           odc_spoolRetentionDays = boundedPositiveInteger (env_SPOOL_RETENTION_DAYS env) 7 1 30,
           odc_maxEncodedMessageBytes =
             boundedPositiveInteger (env_MAX_ENCODED_MESSAGE_BYTES env) (5 * 1024 * 1024) (64 * 1024) (5 * 1024 * 1024),
           odc_bannerMode = ''inline'' \<rparr>)"

section \<open>Storage keys\<close>

definition key_char :: "char \<Rightarrow> bool" where
  \<comment> \<open>the class \<^verbatim>\<open>[a-zA-Z0-9._-]\<close>\<close>
  "key_char c \<longleftrightarrow> is_alnum c \<or> c = CHR ''.'' \<or> c = CHR ''_'' \<or> c = CHR ''-''"

definition safe_id :: "string \<Rightarrow> string" where
  "safe_id s = map (\<lambda>c. if key_char c then c else CHR ''_'') s"

definition rawMailKey :: "string \<Rightarrow> string \<Rightarrow> string \<Rightarrow> string" where
  \<comment> \<open>the first argument is \<^verbatim>\<open>new Date().toISOString()\<close>\<close>
  "rawMailKey nowIso messageId deliveryId =
     ''raw/'' @ take 10 nowIso @ ''/'' @ safe_id messageId @ ''__'' @ deliveryId @ ''.eml''"

definition date_prefix :: "string \<Rightarrow> bool" where
  \<comment> \<open>\<^verbatim>\<open>/^\d{4}-\d{2}-\d{2}/\<close>\<close>
  "date_prefix s \<longleftrightarrow> 10 \<le> length s \<and> list_all is_digit (take 4 s) \<and> s ! 4 = CHR ''-'' \<and>
     list_all is_digit (take 2 (drop 5 s)) \<and> s ! 7 = CHR ''-'' \<and> list_all is_digit (take 2 (drop 8 s))"

definition relaySpoolKey :: "string \<Rightarrow> string \<Rightarrow> string" where
  "relaySpoolKey attemptId receivedAt =
     (let day = (if date_prefix receivedAt then take 10 receivedAt else ''undated'')
      in ''relay-spool/'' @ day @ ''/'' @ safe_id attemptId @ ''.eml'')"

section \<open>Readiness\<close>

record readiness_check =
  rc_name :: string
  rc_ok :: bool
  rc_detail :: "string option"

record readiness_report =
  rr_ok :: bool
  rr_checks :: "readiness_check list"

definition readiness_check :: "string \<Rightarrow> bool \<Rightarrow> string option \<Rightarrow> readiness_check" where
  "readiness_check n b d = \<lparr> rc_name = n, rc_ok = b, rc_detail = d \<rparr>"

fun mode_name :: "operator_delivery_mode \<Rightarrow> string" where
  "mode_name Web_Desk = ''web_desk''"
| "mode_name Inbox_Relay = ''inbox_relay''"
| "mode_name Delivery_Invalid = ''invalid''"

fun processing_name :: "processing_mode \<Rightarrow> string" where
  "processing_name Processing_Disabled = ''disabled''"
| "processing_name Processing_Enabled = ''enabled''"
| "processing_name Processing_Invalid = ''invalid''"

definition with_default :: "string \<Rightarrow> string option \<Rightarrow> string" where
  \<comment> \<open>\<^verbatim>\<open>value ?? fallback\<close>\<close>
  "with_default d v = (case v of None \<Rightarrow> d | Some s \<Rightarrow> s)"

definition outbound_check :: "maildesk_env \<Rightarrow> readiness_check" where
  "outbound_check env =
     (let outboundMode = with_default ''disabled'' (env_OUTBOUND_MODE env) in
      if outboundMode = ''cloudflare_email_service''
      then readiness_check ''outbound_sender'' (env_EMAIL env) (Some ''cloudflare_email_service'')
      else if outboundMode = ''resend''
      then readiness_check ''outbound_sender'' (truthy (env_RESEND_API_KEY env)) (Some ''resend'')
      else if outboundMode = ''disabled''
      then readiness_check ''outbound_sender'' True (Some ''disabled'')
      else readiness_check ''outbound_sender'' False (Some (''invalid outbound mode: '' @ outboundMode)))"

definition readiness :: "maildesk_env \<Rightarrow> string option \<Rightarrow> readiness_report" where
  \<comment> \<open>the second argument is the outcome of \<^verbatim>\<open>SELECT 1\<close>: \<^const>\<open>None\<close>, or the detail of the error it raised\<close>
  "readiness env db_error =
     (let replyApiMode = with_default ''disabled'' (env_REPLY_API_MODE env);
          delivery = operatorDeliveryConfig env;
          base =
            [readiness_check ''db_binding'' (env_DB env) None] @
            (if odc_mode delivery = Web_Desk
             then [readiness_check ''raw_mail_binding'' (env_RAW_MAIL env) None] else []) @
            [readiness_check ''mail_jobs_binding'' (env_MAIL_JOBS env) None,
             readiness_check ''reply_api''
               (replyApiMode = ''disabled'' \<or>
                (replyApiMode = ''token'' \<and> (truthy (env_API_TOKEN env) \<or> truthy (env_PROOF_API_TOKEN env))))
               (Some replyApiMode),
             readiness_check ''policy_config'' (truthy (env_POLICY_JSON env) \<or> env_POLICY_STORE env)
               (Some (if env_POLICY_STORE env then ''active_revision'' else ''optional inline development policy'')),
             readiness_check ''operator_delivery_mode'' (odc_mode delivery \<noteq> Delivery_Invalid)
               (Some (mode_name (odc_mode delivery)))];
          relay =
            (if odc_mode delivery = Inbox_Relay then
               [readiness_check ''policy_store_binding'' (env_POLICY_STORE env) (Some ''immutable_policy_revisions''),
                readiness_check ''relay_spool_binding'' (env_RELAY_SPOOL env) (Some ''temporary_mime_only''),
                readiness_check ''inbound_relay_mode'' (odc_inboundProcessingMode delivery \<noteq> Processing_Invalid)
                  (Some (processing_name (odc_inboundProcessingMode delivery))),
                readiness_check ''reply_relay_mode'' (odc_replyProcessingMode delivery \<noteq> Processing_Invalid)
                  (Some (processing_name (odc_replyProcessingMode delivery))),
                readiness_check ''reply_domain'' (truthy (odc_replyDomain delivery))
                  (Some (with_default ''missing'' (odc_replyDomain delivery))),
                readiness_check ''operator_delivery_sender'' (env_EMAIL env) (Some ''cloudflare_email_service'')]
             else []);
          query =
            (if env_DB env then
               (case db_error of
                  None \<Rightarrow> [readiness_check ''db_query'' True None]
                | Some e \<Rightarrow> [readiness_check ''db_query'' False (Some e)])
             else []);
          checks = base @ relay @ [outbound_check env] @ query
      in \<lparr> rr_ok = list_all (\<lambda>c. rc_ok c \<or> rc_name c = ''policy_config'') checks, rr_checks = checks \<rparr>)"

section \<open>Lemmas\<close>

lemma boundedPositiveInteger_range:
  "minimum \<le> fallback \<Longrightarrow> fallback \<le> maximum \<Longrightarrow>
   minimum \<le> boundedPositiveInteger v fallback minimum maximum \<and>
   boundedPositiveInteger v fallback minimum maximum \<le> maximum"
  by (auto simp: boundedPositiveInteger_def Let_def split: option.splits)

lemma valid_label_chars: "valid_label l \<Longrightarrow> c \<in> set l \<Longrightarrow> is_alnum_lower c \<or> c = CHR ''-''"
  by (auto simp: valid_label_def list_all_iff)

lemma valid_domain_chars:
  assumes "valid_domain d" and "c \<in> set d"
  shows "is_alnum_lower c \<or> c = CHR ''-'' \<or> c = CHR ''.''"
proof -
  from split_on_cover [OF assms(2), of "CHR ''.''"]
  consider "c = CHR ''.''" | p where "p \<in> set (split_on (CHR ''.'') d)" and "c \<in> set p"
    by blast
  then show ?thesis
    by cases (use assms(1) in \<open>auto simp: valid_domain_def list_all_iff dest: valid_label_chars\<close>)
qed

lemma domain_char_facts:
  "is_alnum_lower c \<or> c = CHR ''-'' \<or> c = CHR ''.'' \<Longrightarrow>
   \<not> is_ws c \<and> lower_char c = c \<and> c \<noteq> CHR ''@'' \<and> \<not> is_control c"
  by (auto simp: js_defs lower_char_def)

lemma valid_domain_facts:
  assumes "valid_domain d"
  shows "lower d = d" and "trim d = d" and "CHR ''@'' \<notin> set d" and "d \<noteq> []"
proof -
  have f: "\<And>c. c \<in> set d \<Longrightarrow> \<not> is_ws c \<and> lower_char c = c \<and> c \<noteq> CHR ''@''"
    using valid_domain_chars [OF assms] domain_char_facts by blast
  from f show "lower d = d" by (intro lower_id) blast
  from f show "trim d = d" by (intro trim_no_ws) blast
  from f show "CHR ''@'' \<notin> set d" by blast
  from assms show "d \<noteq> []" by (auto simp: valid_domain_def)
qed

lemma normalizeDomain_valid: "normalizeDomain v = Some d \<Longrightarrow> valid_domain d"
  by (auto simp: normalizeDomain_def Let_def split: option.splits if_splits)

lemma normalizeDomain_of_valid: "valid_domain d \<Longrightarrow> normalizeDomain (Some d) = Some d"
  by (simp add: normalizeDomain_def valid_domain_facts)

lemma safe_id_chars: "c \<in> set (safe_id s) \<Longrightarrow> key_char c"
  by (auto simp: safe_id_def key_char_def)

lemma safe_id_safe: "(\<And>c. c \<in> set s \<Longrightarrow> key_char c) \<Longrightarrow> safe_id s = s"
  by (simp add: safe_id_def map_idI)

lemma key_char_no_slash: "\<not> key_char (CHR ''/'')"
  by (simp add: key_char_def js_defs)

end
