(* ===== verification/Router.thy ===== *)
theory Router
  imports Contracts
begin

text \<open>
  \<^verbatim>\<open>workers/shared/router.ts\<close>: the TypeScript adapter in front of the Rust router compiled to
  WebAssembly. The four WebAssembly entry points are generated code; they are the fields of
  \<open>router_core\<close>: each takes the request value that the adapter serialises and gives back what
  \<^verbatim>\<open>JSON.parse\<close> makes of the response text, or the message of the error it throws. Everything the
  adapter does with a response, every rejection included, is defined here.
\<close>

record router_core =
  core_project_policy :: "jv \<Rightarrow> string + jv"
  core_route_message :: "jv \<Rightarrow> string + jv"
  core_authorize_reply :: "jv \<Rightarrow> string + jv"
  core_resolve_reply_target :: "jv \<Rightarrow> string + jv"

section \<open>The adapter's types\<close>

datatype sender_adapter = Cloudflare_Email_Service | Resend

fun adapter_name :: "sender_adapter \<Rightarrow> string" where
  "adapter_name Cloudflare_Email_Service = ''cloudflare_email_service''"
| "adapter_name Resend = ''resend''"

definition parse_adapter :: "string \<Rightarrow> sender_adapter option" where
  "parse_adapter s =
     (if s = ''cloudflare_email_service'' then Some Cloudflare_Email_Service
      else if s = ''resend'' then Some Resend else None)"

fun kind_name :: "route_kind \<Rightarrow> string" where
  "kind_name Role_Alias = ''role_alias''"
| "kind_name Personal_Alias = ''personal_alias''"
| "kind_name Catch_All = ''catch_all''"
| "kind_name Sink = ''sink''"

definition parse_kind :: "string \<Rightarrow> route_kind option" where
  "parse_kind s =
     (if s = ''role_alias'' then Some Role_Alias
      else if s = ''personal_alias'' then Some Personal_Alias
      else if s = ''catch_all'' then Some Catch_All
      else if s = ''sink'' then Some Sink else None)"

record identity_profile =
  ip_profileRef :: string
  ip_publicAddress :: string
  ip_displayName :: string
  ip_signatureProfileRef :: string
  ip_signatureText :: string
  ip_senderAdapter :: sender_adapter

datatype disposition_target = Mailbox_Target "string list" | Work_Queue_Target string

record disposition_candidate =
  dc_destinationRef :: string
  dc_accountableRef :: string
  dc_target :: disposition_target

record route_disposition =
  rd_routeRef :: string
  rd_candidates :: "disposition_candidate list"

record operator_identity =
  oi_publicAddress :: string
  oi_identityProfile :: "identity_profile option"

record route_decision =
  de_domain :: string
  de_localPart :: string
  de_routeKind :: route_kind
  de_operators :: "string list"
  de_defaultReplyIdentity :: string
  de_allowedReplyIdentities :: "string list"
  de_identityProfile :: "identity_profile option"
  de_operatorReplyIdentities :: "(string \<times> operator_identity) list option"
  de_disposition :: "route_disposition option"

record reply_authorization =
  ra_fromIdentity :: string
  ra_envelopeSender :: string
  ra_identityProfile :: "identity_profile option"

record router_error =
  re_kind :: string
  re_message :: string

record policy_projection =
  pp_protectedOperators :: "string list"
  pp_routes :: "(route_decision \<times> string) list"    \<comment> \<open>a decision and its \<^verbatim>\<open>routeRef\<close>\<close>

record inbound_message =
  im_envelopeTo :: string
  im_headerFrom :: string
  im_messageId :: "string option"
  im_subject :: "string option"

section \<open>Reading one value\<close>

definition requireString :: "jv \<Rightarrow> string \<Rightarrow> string + string" where
  "requireString value key =
     (case js_get value key of
        JString s \<Rightarrow> Inr s
      | _ \<Rightarrow> Inl (''Rust router field '' @ key @ '' must be a string''))"

definition as_string :: "jv \<Rightarrow> string option" where
  "as_string v = (case v of JString s \<Rightarrow> Some s | _ \<Rightarrow> None)"

definition requireStringArray :: "jv \<Rightarrow> string \<Rightarrow> string + string list" where
  "requireStringArray value key =
     (case js_get value key of
        JArray vs \<Rightarrow>
          (if list_all js_is_string vs then Inr (map (the \<circ> as_string) vs)
           else Inl (''Rust router field '' @ key @ '' must be a string array''))
      | _ \<Rightarrow> Inl (''Rust router field '' @ key @ '' must be a string array''))"

definition mapIdentityProfile :: "jv \<Rightarrow> string + identity_profile" where
  "mapIdentityProfile value =
     (if \<not> js_is_record value then Inl ''Rust identity profile must be an object''
      else bindE (requireString value ''sender_adapter'') (\<lambda>senderAdapter.
        case parse_adapter senderAdapter of
          None \<Rightarrow> Inl (''invalid Rust sender adapter: '' @ senderAdapter)
        | Some adapter \<Rightarrow>
            bindE (requireString value ''profile_ref'') (\<lambda>profileRef.
            bindE (requireString value ''public_address'') (\<lambda>publicAddress.
            bindE (requireString value ''display_name'') (\<lambda>displayName.
            bindE (requireString value ''signature_profile_ref'') (\<lambda>signatureProfileRef.
            bindE (requireString value ''signature_text'') (\<lambda>signatureText.
              Inr \<lparr> ip_profileRef = profileRef, ip_publicAddress = publicAddress,
                    ip_displayName = displayName, ip_signatureProfileRef = signatureProfileRef,
                    ip_signatureText = signatureText, ip_senderAdapter = adapter \<rparr>)))))))"

definition mapDispositionCandidate :: "jv \<Rightarrow> string + disposition_candidate" where
  "mapDispositionCandidate value =
     (if \<not> js_is_record value \<or> \<not> js_is_record (js_get value ''target'')
      then Inl ''Rust router disposition candidate must contain a target''
      else
        bindE (requireString (js_get value ''target'') ''kind'') (\<lambda>kind.
        bindE (requireString value ''destination_ref'') (\<lambda>destinationRef.
        bindE (requireString value ''accountable_ref'') (\<lambda>accountableRef.
          if kind = ''mailbox'' then
            bindE (requireStringArray (js_get value ''target'') ''recipients'') (\<lambda>recipients.
              Inr \<lparr> dc_destinationRef = destinationRef, dc_accountableRef = accountableRef,
                    dc_target = Mailbox_Target recipients \<rparr>)
          else if kind = ''work_queue'' then
            bindE (requireString (js_get value ''target'') ''queue_ref'') (\<lambda>queueRef.
              Inr \<lparr> dc_destinationRef = destinationRef, dc_accountableRef = accountableRef,
                    dc_target = Work_Queue_Target queueRef \<rparr>)
          else Inl (''invalid Rust disposition target kind: '' @ kind)))))"

definition mapRouteDisposition :: "jv \<Rightarrow> string + route_disposition" where
  "mapRouteDisposition value =
     (case (js_is_record value, js_get value ''candidates'') of
        (True, JArray cs) \<Rightarrow>
          bindE (requireString value ''route_ref'') (\<lambda>routeRef.
          bindE (traverse mapDispositionCandidate cs) (\<lambda>candidates.
            Inr \<lparr> rd_routeRef = routeRef, rd_candidates = candidates \<rparr>))
      | _ \<Rightarrow> Inl ''Rust router disposition must contain candidates'')"

definition optionally :: "(jv \<Rightarrow> string + 'a) \<Rightarrow> jv \<Rightarrow> string + 'a option" where
  \<comment> \<open>\<^verbatim>\<open>if (value.key !== undefined) result.key = f(value.key)\<close>\<close>
  "optionally f v = (if v = JUndefined then Inr None else bindE (f v) (\<lambda>x. Inr (Some x)))"

definition mapOperatorIdentity :: "string list \<Rightarrow> string \<times> jv \<Rightarrow> string + (string \<times> operator_identity)" where
  "mapOperatorIdentity operators entry =
     (let operator = fst entry; binding = snd entry in
      if operator \<notin> set operators \<or> \<not> js_is_record binding \<or>
         list_ex (\<lambda>key. key \<notin> {''public_address'', ''identity_profile''}) (js_keys binding)
      then Inl ''invalid Rust operator identity binding''
      else
        bindE (requireString binding ''public_address'') (\<lambda>publicAddress.
        bindE (optionally mapIdentityProfile (js_get binding ''identity_profile'')) (\<lambda>profile.
          Inr (operator, \<lparr> oi_publicAddress = publicAddress, oi_identityProfile = profile \<rparr>))))"

definition mapOperatorIdentities :: "string list \<Rightarrow> jv \<Rightarrow> string + (string \<times> operator_identity) list" where
  "mapOperatorIdentities operators value =
     (if \<not> js_is_record value then Inl ''invalid Rust operator identities''
      else traverse (mapOperatorIdentity operators) (js_entries value))"

definition mapRouteDecision :: "jv \<Rightarrow> string + route_decision" where
  "mapRouteDecision value =
     bindE (requireString value ''route_kind'') (\<lambda>routeKind.
       case parse_kind routeKind of
         None \<Rightarrow> Inl (''invalid Rust route kind: '' @ routeKind)
       | Some kind \<Rightarrow>
           bindE (requireString value ''domain'') (\<lambda>domain.
           bindE (requireString value ''local_part'') (\<lambda>localPart.
           bindE (requireStringArray value ''operators'') (\<lambda>operators.
           bindE (requireString value ''default_reply_identity'') (\<lambda>defaultReplyIdentity.
           bindE (requireStringArray value ''allowed_reply_identities'') (\<lambda>allowedReplyIdentities.
           bindE (optionally mapIdentityProfile (js_get value ''identity_profile'')) (\<lambda>profile.
           bindE (optionally (mapOperatorIdentities operators) (js_get value ''operator_reply_identities'')) (\<lambda>identities.
           bindE (optionally mapRouteDisposition (js_get value ''disposition'')) (\<lambda>disposition.
             Inr \<lparr> de_domain = domain, de_localPart = localPart, de_routeKind = kind,
                   de_operators = operators, de_defaultReplyIdentity = defaultReplyIdentity,
                   de_allowedReplyIdentities = allowedReplyIdentities, de_identityProfile = profile,
                   de_operatorReplyIdentities = identities, de_disposition = disposition \<rparr>)))))))))"

section \<open>Responses\<close>

definition adapter_failure :: "string \<Rightarrow> router_error" where
  "adapter_failure m = \<lparr> re_kind = ''adapter_failure'', re_message = m \<rparr>"

definition null_property :: "jv \<Rightarrow> string \<Rightarrow> string + jv" where
  \<comment> \<open>reading a property throws on null, and JSON has no undefined\<close>
  "null_property v k =
     (if v = JNull then Inl (''Cannot read properties of null (reading '' @ CHR 0x27 # k @ [CHR 0x27, CHR '')''])
      else Inr (js_get v k))"

definition parseAdapterResponse :: "(string + jv) \<Rightarrow> (jv \<Rightarrow> string + 'a) \<Rightarrow> router_error + 'a" where
  "parseAdapterResponse responseJson mapValue =
     (let body =
        bindE responseJson (\<lambda>response.
        bindE (null_property response ''status'') (\<lambda>status.
          if status = JString ''ok'' \<and> js_is_record (js_get response ''value'')
          then bindE (mapValue (js_get response ''value'')) (\<lambda>v. Inr (Inr v))
          else if status = JString ''error'' \<and> js_is_record (js_get response ''error'')
          then bindE (requireString (js_get response ''error'') ''kind'') (\<lambda>kind.
               bindE (requireString (js_get response ''error'') ''message'') (\<lambda>message.
                 Inr (Inl \<lparr> re_kind = kind, re_message = message \<rparr>)))
          else Inr (Inl (adapter_failure ''Rust router returned an invalid adapter response''))))
      in case body of Inl thrown \<Rightarrow> Inl (adapter_failure thrown) | Inr result \<Rightarrow> result)"

definition routeInbound :: "router_core \<Rightarrow> jv \<Rightarrow> inbound_message \<Rightarrow> router_error + route_decision" where
  "routeInbound core policy message =
     parseAdapterResponse
       (core_route_message core
          (JObject [(''policy'', policy),
                    (''message'', JObject [(''envelope_to'', JString (im_envelopeTo message)),
                                           (''header_from'', JString (im_headerFrom message)),
                                           (''message_id'', case im_messageId message of None \<Rightarrow> JNull | Some s \<Rightarrow> JString s),
                                           (''subject'', case im_subject message of None \<Rightarrow> JNull | Some s \<Rightarrow> JString s)])]))
       mapRouteDecision"

definition mapAuthorization :: "jv \<Rightarrow> string + reply_authorization" where
  "mapAuthorization value =
     bindE (requireString value ''from_identity'') (\<lambda>fromIdentity.
     bindE (requireString value ''envelope_sender'') (\<lambda>envelopeSender.
     bindE (optionally mapIdentityProfile (js_get value ''identity_profile'')) (\<lambda>profile.
       Inr \<lparr> ra_fromIdentity = fromIdentity, ra_envelopeSender = envelopeSender, ra_identityProfile = profile \<rparr>)))"

definition authorizeReplyWithPolicy ::
  "router_core \<Rightarrow> jv \<Rightarrow> string \<Rightarrow> string \<Rightarrow> string option \<Rightarrow> router_error + reply_authorization" where
  "authorizeReplyWithPolicy core policy envelopeTo operator requestedIdentity =
     parseAdapterResponse
       (core_authorize_reply core
          (JObject [(''policy'', policy), (''envelope_to'', JString envelopeTo), (''operator'', JString operator),
                    (''requested_identity'', case requestedIdentity of None \<Rightarrow> JNull | Some s \<Rightarrow> JString s)]))
       mapAuthorization"

definition resolveReplyTarget :: "router_core \<Rightarrow> string list \<Rightarrow> router_error + string" where
  "resolveReplyTarget core candidates =
     parseAdapterResponse (core_resolve_reply_target core (JObject [(''candidates'', JArray (map JString candidates))]))
       (\<lambda>value. requireString value ''recipient'')"

definition mapProjectedRoute :: "jv \<Rightarrow> string + (route_decision \<times> string)" where
  "mapProjectedRoute row =
     (if \<not> js_is_record row then Inl ''invalid projected route''
      else bindE (mapRouteDecision row) (\<lambda>decision.
           bindE (requireString row ''route_ref'') (\<lambda>routeRef. Inr (decision, routeRef))))"

definition projectPolicy :: "router_core \<Rightarrow> jv \<Rightarrow> router_error + policy_projection" where
  "projectPolicy core policy =
     parseAdapterResponse (core_project_policy core policy)
       (\<lambda>value. case (js_get value ''schema_version'', js_get value ''routes'') of
          (JInt v, JArray rows) \<Rightarrow>
            (if v \<noteq> 1 then Inl ''unsupported Rust policy projection''
             else bindE (requireStringArray value ''protected_operators'') (\<lambda>protectedOperators.
                  bindE (traverse mapProjectedRoute rows) (\<lambda>routes.
                    Inr \<lparr> pp_protectedOperators = protectedOperators, pp_routes = routes \<rparr>)))
        | _ \<Rightarrow> Inl ''unsupported Rust policy projection'')"

section \<open>Lemmas\<close>

text \<open>The JSON values that the adapter reads back, one for each of its types.\<close>

definition profile_json :: "identity_profile \<Rightarrow> jv" where
  "profile_json p =
     JObject [(''profile_ref'', JString (ip_profileRef p)), (''public_address'', JString (ip_publicAddress p)),
              (''display_name'', JString (ip_displayName p)),
              (''signature_profile_ref'', JString (ip_signatureProfileRef p)),
              (''signature_text'', JString (ip_signatureText p)),
              (''sender_adapter'', JString (adapter_name (ip_senderAdapter p)))]"

fun target_json :: "disposition_target \<Rightarrow> jv" where
  "target_json (Mailbox_Target rs) = JObject [(''kind'', JString ''mailbox''), (''recipients'', JArray (map JString rs))]"
| "target_json (Work_Queue_Target q) = JObject [(''kind'', JString ''work_queue''), (''queue_ref'', JString q)]"

definition candidate_json :: "disposition_candidate \<Rightarrow> jv" where
  "candidate_json c =
     JObject [(''destination_ref'', JString (dc_destinationRef c)), (''accountable_ref'', JString (dc_accountableRef c)),
              (''target'', target_json (dc_target c))]"

definition disposition_json :: "route_disposition \<Rightarrow> jv" where
  "disposition_json d =
     JObject [(''route_ref'', JString (rd_routeRef d)), (''candidates'', JArray (map candidate_json (rd_candidates d)))]"

definition optional_field :: "string \<Rightarrow> ('a \<Rightarrow> jv) \<Rightarrow> 'a option \<Rightarrow> (string \<times> jv) list" where
  "optional_field k f v = (case v of None \<Rightarrow> [] | Some x \<Rightarrow> [(k, f x)])"

definition identity_json :: "operator_identity \<Rightarrow> jv" where
  "identity_json b =
     JObject ((''public_address'', JString (oi_publicAddress b)) #
              optional_field ''identity_profile'' profile_json (oi_identityProfile b))"

definition decision_json :: "route_decision \<Rightarrow> jv" where
  "decision_json d =
     JObject ([(''domain'', JString (de_domain d)), (''local_part'', JString (de_localPart d)),
               (''route_kind'', JString (kind_name (de_routeKind d))),
               (''operators'', JArray (map JString (de_operators d))),
               (''default_reply_identity'', JString (de_defaultReplyIdentity d)),
               (''allowed_reply_identities'', JArray (map JString (de_allowedReplyIdentities d)))] @
              optional_field ''identity_profile'' profile_json (de_identityProfile d) @
              optional_field ''operator_reply_identities''
                (\<lambda>bs. JObject (map (\<lambda>(k, b). (k, identity_json b)) bs)) (de_operatorReplyIdentities d) @
              optional_field ''disposition'' disposition_json (de_disposition d))"

definition operators_bound :: "route_decision \<Rightarrow> bool" where
  \<comment> \<open>every operator with an identity of its own is an operator of the route\<close>
  "operators_bound d \<longleftrightarrow>
     (case de_operatorReplyIdentities d of None \<Rightarrow> True
      | Some bs \<Rightarrow> list_all (\<lambda>b. fst b \<in> set (de_operators d)) bs)"

lemma parse_adapter_name [simp]: "parse_adapter (adapter_name a) = Some a"
  by (cases a) (auto simp: parse_adapter_def)

lemma parse_kind_name [simp]: "parse_kind (kind_name k) = Some k"
  by (cases k) (auto simp: parse_kind_def)

lemma requireString_JObject [simp]:
  "requireString (JObject ps) k =
     (case map_of ps k of Some (JString s) \<Rightarrow> Inr s | _ \<Rightarrow> Inl (''Rust router field '' @ k @ '' must be a string''))"
  by (auto simp: requireString_def js_get_def split: option.splits jv.splits)

lemma js_get_JObject [simp]: "js_get (JObject ps) k = (case map_of ps k of Some x \<Rightarrow> x | None \<Rightarrow> JUndefined)"
  by (simp add: js_get_def)

lemma js_is_record_JObject [simp]: "js_is_record (JObject ps)"
  by (simp add: js_is_record_def)

lemma string_array_JString:
  "list_all js_is_string (map JString xs)" "map (the \<circ> as_string) (map JString xs) = xs"
  by (auto simp: list_all_iff js_is_string_def as_string_def comp_def)

lemma requireStringArray_JObject:
  "map_of ps k = Some (JArray (map JString xs)) \<Longrightarrow> requireStringArray (JObject ps) k = Inr xs"
  using string_array_JString [of xs] by (simp add: requireStringArray_def del: map_map)

lemma traverse_map_inverse:
  "(\<And>x. x \<in> set xs \<Longrightarrow> f (g x) = Inr x) \<Longrightarrow> traverse f (map g xs) = Inr xs"
  by (induction xs) auto

lemma profile_roundtrip: "mapIdentityProfile (profile_json p) = Inr p"
  by (simp add: mapIdentityProfile_def profile_json_def)

lemma candidate_roundtrip: "mapDispositionCandidate (candidate_json c) = Inr c"
  by (cases "dc_target c")
     (simp_all add: mapDispositionCandidate_def candidate_json_def requireStringArray_JObject)

lemma disposition_roundtrip: "mapRouteDisposition (disposition_json d) = Inr d"
  by (simp add: mapRouteDisposition_def disposition_json_def traverse_map_inverse candidate_roundtrip)

lemma optionally_field:
  assumes "\<And>x. v = Some x \<Longrightarrow> f (g x) = Inr x" and "\<And>x. v = Some x \<Longrightarrow> g x \<noteq> JUndefined"
  shows "optionally f (case v of None \<Rightarrow> JUndefined | Some x \<Rightarrow> g x) = Inr v"
  using assms by (cases v) (auto simp: optionally_def)

lemma identity_roundtrip:
  "o' \<in> set ops \<Longrightarrow> mapOperatorIdentity ops (o', identity_json b) = Inr (o', b)"
  by (cases "oi_identityProfile b")
     (auto simp: mapOperatorIdentity_def identity_json_def optional_field_def js_keys_def optionally_def
        profile_roundtrip, simp add: profile_json_def)

lemma map_of_optional_field [simp]:
  "map_of (optional_field k f v) k' = (if k = k' then map_option f v else None)"
  by (cases v) (auto simp: optional_field_def)

lemma optionally_map_option:
  assumes "\<And>x. v = Some x \<Longrightarrow> f (g x) = Inr x" and "\<And>x. g x \<noteq> JUndefined"
  shows "optionally f (case map_option g v of None \<Rightarrow> JUndefined | Some x \<Rightarrow> x) = Inr v"
  using assms by (cases v) (auto simp: optionally_def)

lemma json_defined: "profile_json p \<noteq> JUndefined" "disposition_json d \<noteq> JUndefined"
  by (simp_all add: profile_json_def disposition_json_def)

lemma decision_roundtrip: "operators_bound d \<Longrightarrow> mapRouteDecision (decision_json d) = Inr d"
proof -
  assume ob: "operators_bound d"
  have ids: "optionally (mapOperatorIdentities (de_operators d))
      (case map_option (\<lambda>bs. JObject (map (\<lambda>(k, b). (k, identity_json b)) bs)) (de_operatorReplyIdentities d)
       of None \<Rightarrow> JUndefined | Some x \<Rightarrow> x) = Inr (de_operatorReplyIdentities d)"
  proof (rule optionally_map_option)
    fix bs assume "de_operatorReplyIdentities d = Some bs"
    with ob have "\<And>b. b \<in> set bs \<Longrightarrow> fst b \<in> set (de_operators d)"
      by (auto simp: operators_bound_def list_all_iff)
    then show "mapOperatorIdentities (de_operators d) (JObject (map (\<lambda>(k, b). (k, identity_json b)) bs)) = Inr bs"
      by (auto simp: mapOperatorIdentities_def js_entries_def identity_roundtrip intro!: traverse_map_inverse)
  qed simp
  note prof = optionally_map_option [of "de_identityProfile d" mapIdentityProfile profile_json, OF profile_roundtrip json_defined(1)]
  note disp = optionally_map_option [of "de_disposition d" mapRouteDisposition disposition_json, OF disposition_roundtrip json_defined(2)]
  let ?get = "\<lambda>f v. case map_option f v of None \<Rightarrow> JUndefined | Some x \<Rightarrow> x"
  have g: "js_get (decision_json d) ''identity_profile'' = ?get profile_json (de_identityProfile d)"
    "js_get (decision_json d) ''operator_reply_identities'' =
       ?get (\<lambda>bs. JObject (map (\<lambda>(k, b). (k, identity_json b)) bs)) (de_operatorReplyIdentities d)"
    "js_get (decision_json d) ''disposition'' = ?get disposition_json (de_disposition d)"
    by (cases "de_identityProfile d"; cases "de_operatorReplyIdentities d"; cases "de_disposition d";
        simp add: decision_json_def map_add_def)+
  have s: "requireString (decision_json d) ''route_kind'' = Inr (kind_name (de_routeKind d))"
    "requireString (decision_json d) ''domain'' = Inr (de_domain d)"
    "requireString (decision_json d) ''local_part'' = Inr (de_localPart d)"
    "requireString (decision_json d) ''default_reply_identity'' = Inr (de_defaultReplyIdentity d)"
    "requireStringArray (decision_json d) ''operators'' = Inr (de_operators d)"
    "requireStringArray (decision_json d) ''allowed_reply_identities'' = Inr (de_allowedReplyIdentities d)"
    by (simp_all add: decision_json_def requireStringArray_JObject)
  show ?thesis
    unfolding mapRouteDecision_def g s bindE_simps parse_kind_name option.case ids prof disp by simp
qed

lemma mapOperatorIdentity_bound:
  "mapOperatorIdentity ops e = Inr r \<Longrightarrow> fst r \<in> set ops \<and> fst r = fst e"
  by (auto simp: mapOperatorIdentity_def Let_def bindE_Inr_iff split: if_splits)

lemma mapOperatorIdentities_bound:
  "mapOperatorIdentities ops v = Inr rs \<Longrightarrow> list_all (\<lambda>b. fst b \<in> set ops) rs"
proof -
  assume "mapOperatorIdentities ops v = Inr rs"
  then have "list_all2 (\<lambda>x y. mapOperatorIdentity ops x = Inr y) (js_entries v) rs"
    by (auto simp: mapOperatorIdentities_def traverse_Inr split: if_splits)
  then show ?thesis
    by (auto simp: list_all_length list_all2_conv_all_nth dest!: mapOperatorIdentity_bound)
qed

lemma mapRouteDecision_bound: "mapRouteDecision v = Inr d \<Longrightarrow> operators_bound d"
  by (auto simp: mapRouteDecision_def bindE_Inr_iff optionally_def operators_bound_def
        dest: mapOperatorIdentities_bound split: option.splits if_splits)

lemma parseAdapterResponse_ok:
  "parseAdapterResponse r f = Inr x \<longleftrightarrow>
   (\<exists>v. r = Inr v \<and> js_get v ''status'' = JString ''ok'' \<and> js_is_record (js_get v ''value'') \<and>
        f (js_get v ''value'') = Inr x)"
  by (auto simp: parseAdapterResponse_def Let_def bindE_def null_property_def js_get_def
        split: sum.splits if_splits)

end
