(* ===== verification/Job_Codec.thy ===== *)
theory Job_Codec
  imports Js_Prelude
begin

text \<open>
  \<^verbatim>\<open>workers/shared/job-codec.ts\<close>, with \<^verbatim>\<open>replyAuthorizationKind\<close> and \<^verbatim>\<open>admissionTable\<close> of
  \<^verbatim>\<open>ordinary-reply.ts\<close>: the closed decoder in front of every queue message. Queue data is a value of
  unknown type; a decoded job is the value itself.
\<close>

section \<open>Checks on one value\<close>

definition text_max :: "nat \<Rightarrow> jv \<Rightarrow> bool" where
  "text_max m v = (case v of JString s \<Rightarrow> length s \<le> m | _ \<Rightarrow> False)"

abbreviation text_field :: "jv \<Rightarrow> bool" where "text_field \<equiv> text_max 1024"

definition digest_field :: "jv \<Rightarrow> bool" where
  "digest_field v = (case v of JString s \<Rightarrow> is_sha256_hex s | _ \<Rightarrow> False)"

definition strings_field :: "jv \<Rightarrow> bool" where
  "strings_field v = (case v of JArray vs \<Rightarrow> length vs \<le> 100 \<and> list_all text_field vs | _ \<Rightarrow> False)"

definition optional_keys :: "jv \<Rightarrow> string list \<Rightarrow> (jv \<Rightarrow> bool) \<Rightarrow> bool" where
  "optional_keys row keys check = list_all (\<lambda>k. js_get row k = JUndefined \<or> check (js_get row k)) keys"

definition required_keys :: "jv \<Rightarrow> string list \<Rightarrow> (jv \<Rightarrow> bool) \<Rightarrow> bool" where
  "required_keys row keys check = list_all (\<lambda>k. check (js_get row k)) keys"

definition closed_keys :: "jv \<Rightarrow> string list \<Rightarrow> bool" where
  "closed_keys row keys = list_all (\<lambda>k. k \<in> set keys) (js_keys row)"

definition array_of :: "(jv \<Rightarrow> bool) \<Rightarrow> jv \<Rightarrow> bool" where
  \<comment> \<open>\<^verbatim>\<open>Array.isArray(v) && v.length <= 100 && v.every(check)\<close>\<close>
  "array_of check v = (case v of JArray vs \<Rightarrow> length vs \<le> 100 \<and> list_all check vs | _ \<Rightarrow> False)"

fun js_String :: "jv \<Rightarrow> string" where
  \<comment> \<open>\<^verbatim>\<open>String(value)\<close>: an array prints as its elements joined by commas, null and undefined as nothing\<close>
  "js_String JUndefined = ''undefined''"
| "js_String JNull = ''null''"
| "js_String (JBool b) = (if b then ''true'' else ''false'')"
| "js_String (JInt n) = (if n < 0 then CHR ''-'' # show_nat (nat (- n)) else show_nat (nat n))"
| "js_String JNonInt = ''NaN''"
| "js_String (JString s) = s"
| "js_String (JArray vs) =
     join '','' (map (\<lambda>v. if v = JUndefined \<or> v = JNull then [] else js_String v) vs)"
| "js_String (JBuffer n) = ''[object ArrayBuffer]''"
| "js_String (JObject ps) = ''[object Object]''"

definition safe_natural :: "jv \<Rightarrow> bool" where
  "safe_natural v = (case v of JInt n \<Rightarrow> 0 \<le> n \<and> n \<le> max_safe_integer | _ \<Rightarrow> False)"

section \<open>Reply authorization\<close>

datatype authorization_kind = Canary | Ordinary

definition replyAuthorizationKind :: "jv \<Rightarrow> authorization_kind option" where
  "replyAuthorizationKind value =
     (let schemaVersion = js_get value ''schemaVersion''; admissionKind = js_get value ''admissionKind'';
          activationId = js_get value ''activationId'' in
      if schemaVersion = JUndefined \<and> admissionKind = JUndefined \<and> activationId = JUndefined then Some Canary
      else if schemaVersion \<noteq> JInt 2 then None
      else if admissionKind = JString ''canary'' \<and> activationId = JUndefined then Some Canary
      else if admissionKind = JString ''ordinary'' \<and> js_is_string activationId \<and> activationId \<noteq> JString []
      then Some Ordinary else None)"

fun admissionTable :: "authorization_kind \<Rightarrow> string" where
  "admissionTable Canary = ''reply_admissions''"
| "admissionTable Ordinary = ''ordinary_reply_admissions''"

definition authorizationFields :: "string list" where
  "authorizationFields = [''schemaVersion'', ''payloadVersion'', ''admissionKind'', ''activationId'']"

definition transactionFields :: "string list" where
  "transactionFields = [''transactionSha256'', ''attemptSha256'', ''claimedPayloadSha256'',
     ''desiredStateSha256'', ''identityProfileSha256'']"

definition authorizationShape :: "jv \<Rightarrow> bool" where
  "authorizationShape row =
     (case replyAuthorizationKind row of
        None \<Rightarrow> False
      | Some kind \<Rightarrow>
          if js_get row ''schemaVersion'' = JUndefined then js_get row ''payloadVersion'' = JUndefined
          else if kind = Ordinary then js_get row ''payloadVersion'' = JInt 2
          else js_get row ''payloadVersion'' = JInt 1 \<or> js_get row ''payloadVersion'' = JInt 2)"

section \<open>The decoder\<close>

definition attachment_entry :: "jv \<Rightarrow> bool" where
  "attachment_entry entry \<longleftrightarrow>
     js_is_record entry \<and>
     closed_keys entry [''disposition'', ''filename'', ''type'', ''content'', ''contentId''] \<and>
     required_keys entry [''filename'', ''type''] text_field \<and>
     (case js_get entry ''content'' of JBuffer n \<Rightarrow> length n \<le> 5 * 1024 * 1024 | _ \<Rightarrow> False) \<and>
     (if js_get entry ''disposition'' = JString ''inline'' then text_field (js_get entry ''contentId'')
      else js_get entry ''disposition'' = JString ''attachment'' \<and> js_get entry ''contentId'' = JUndefined)"

definition isAttachmentArray :: "jv \<Rightarrow> bool" where
  "isAttachmentArray value = array_of attachment_entry value"

definition headers_field :: "jv \<Rightarrow> bool" where
  "headers_field item \<longleftrightarrow>
     js_is_record item \<and> length (js_keys item) \<le> 100 \<and>
     list_all (\<lambda>(key, entry). length key \<le> 256 \<and> text_max 8192 entry) (js_entries item)"

definition inbox_reply_keys :: "string list" where
  "inbox_reply_keys =
     [''kind'', ''attemptId'', ''admissionId'', ''relayId'', ''operator'',
       ''operatorMessageId'', ''rawR2Key'', ''rawSha256'', ''receivedAt''] @ transactionFields @ authorizationFields"

definition inbox_reply_shape :: "jv \<Rightarrow> bool" where
  "inbox_reply_shape value \<longleftrightarrow>
     closed_keys value inbox_reply_keys \<and>
     authorizationShape value \<and>
     required_keys value [''attemptId'', ''admissionId'', ''relayId'', ''operator'', ''operatorMessageId'',
       ''rawR2Key'', ''receivedAt''] text_field \<and>
     required_keys value (transactionFields @ [''rawSha256'']) digest_field"

definition outbound_reply_keys :: "string list" where
  "outbound_reply_keys =
     [''kind'', ''messageId'', ''threadId'', ''operator'', ''envelopeTo'', ''fromIdentity'',
       ''to'', ''cc'', ''bcc'', ''replyTo'', ''subject'', ''text'', ''html'', ''headers'', ''attachments'',
       ''policySha256'', ''admissionId'', ''relayAttemptId'', ''relaySpoolKey'', ''queuedAt'',
       ''requestedIdentity'', ''fromDisplayName'', ''identityProfileRef'', ''signatureProfileRef'',
       ''senderAdapter''] @ transactionFields @ authorizationFields"

definition outbound_reply_shape :: "jv \<Rightarrow> bool" where
  "outbound_reply_shape value \<longleftrightarrow>
     closed_keys value outbound_reply_keys \<and>
     authorizationShape value \<and>
     required_keys value [''messageId'', ''threadId'', ''operator'', ''envelopeTo'', ''fromIdentity'',
       ''queuedAt'', ''subject''] text_field \<and>
     strings_field (js_get value ''to'') \<and>
     optional_keys value [''cc'', ''bcc''] strings_field \<and>
     optional_keys value [''replyTo'', ''admissionId'', ''relayAttemptId'', ''relaySpoolKey'',
       ''requestedIdentity'', ''fromDisplayName'', ''identityProfileRef'', ''signatureProfileRef''] text_field \<and>
     optional_keys value (transactionFields @ [''policySha256'']) digest_field \<and>
     optional_keys value [''text'', ''html''] (text_max (5 * 1024 * 1024)) \<and>
     (js_is_string (js_get value ''text'') \<or> js_is_string (js_get value ''html'')) \<and>
     optional_keys value [''headers''] headers_field \<and>
     optional_keys value [''attachments''] isAttachmentArray \<and>
     optional_keys value [''senderAdapter''] (\<lambda>item. item = JString ''resend'' \<or> item = JString ''cloudflare_email_service'')"

definition forward_error_entry :: "jv \<Rightarrow> bool" where
  "forward_error_entry entry \<longleftrightarrow>
     js_is_record entry \<and> closed_keys entry [''recipient'', ''error''] \<and>
     required_keys entry [''recipient'', ''error''] text_field"

definition inbound_email_keys :: "string list" where
  "inbound_email_keys =
     [''kind'', ''messageId'', ''deliveryId'', ''envelopeTo'', ''envelopeFrom'', ''routeKind'',
       ''forwardedTo'', ''forwardErrors'', ''defaultReplyIdentity'', ''rawR2Key'', ''rawSize'', ''storageError'',
       ''receivedAt'']"

definition inbound_email_shape :: "jv \<Rightarrow> bool" where
  "inbound_email_shape value \<longleftrightarrow>
     closed_keys value inbound_email_keys \<and>
     required_keys value [''messageId'', ''deliveryId'', ''envelopeTo'', ''envelopeFrom'', ''rawR2Key'',
       ''receivedAt''] text_field \<and>
     safe_natural (js_get value ''rawSize'') \<and>
     optional_keys value [''defaultReplyIdentity'', ''storageError''] text_field \<and>
     optional_keys value [''forwardedTo''] strings_field \<and>
     optional_keys value [''routeKind'']
       (\<lambda>item. js_String item \<in> {''role_alias'', ''personal_alias'', ''catch_all'', ''sink''}) \<and>
     optional_keys value [''forwardErrors''] (array_of forward_error_entry)"

definition persisted_keys :: "string list" where
  "persisted_keys =
     [''kind'', ''messageId'', ''threadId'', ''routeId'', ''queuedAt'']"

definition persisted_shape :: "jv \<Rightarrow> bool" where
  "persisted_shape value \<longleftrightarrow>
     closed_keys value persisted_keys \<and>
     required_keys value [''messageId'', ''threadId'', ''routeId'', ''queuedAt''] text_field"

definition work_item_keys :: "string list" where
  "work_item_keys =
     [''kind'', ''messageId'', ''deliveryId'', ''queueRef'', ''routeRef'', ''destinationRef'',
       ''accountableRef'', ''rawR2Key'', ''receivedAt'']"

definition work_item_shape :: "jv \<Rightarrow> bool" where
  "work_item_shape value \<longleftrightarrow>
     closed_keys value work_item_keys \<and>
     required_keys value [''messageId'', ''deliveryId'', ''queueRef'', ''routeRef'', ''destinationRef'',
       ''accountableRef'', ''rawR2Key'', ''receivedAt''] text_field"

definition result_entry :: "jv \<Rightarrow> bool" where
  "result_entry entry \<longleftrightarrow>
     js_is_record entry \<and>
     closed_keys entry [''operatorRef'', ''deliveryPayloadR2Key'', ''ok'', ''providerMessageId'', ''errorCode''] \<and>
     required_keys entry [''operatorRef'', ''deliveryPayloadR2Key''] text_field \<and>
     (case js_get entry ''ok'' of JBool _ \<Rightarrow> True | _ \<Rightarrow> False) \<and>
     optional_keys entry [''providerMessageId'', ''errorCode''] text_field"

definition delivery_result_keys :: "string list" where
  "delivery_result_keys =
     [''kind'', ''deliveryId'', ''relayId'', ''threadId'', ''routeId'', ''policySha256'',
       ''status'', ''results'', ''relaySpoolKey'', ''receivedAt'']"

definition delivery_result_shape :: "jv \<Rightarrow> bool" where
  "delivery_result_shape value \<longleftrightarrow>
     closed_keys value delivery_result_keys \<and>
     required_keys value [''deliveryId'', ''relayId'', ''threadId'', ''routeId'', ''relaySpoolKey'',
       ''receivedAt''] text_field \<and>
     digest_field (js_get value ''policySha256'') \<and>
     js_String (js_get value ''status'') \<in> {''provider_accepted'', ''partial_delivery'', ''recovery_required'', ''failed''} \<and>
     array_of result_entry (js_get value ''results'')"

definition job_shape :: "string \<Rightarrow> jv \<Rightarrow> bool" where
  "job_shape kind value \<longleftrightarrow>
     (if kind = ''inbox_reply_received'' then inbox_reply_shape value
      else if kind = ''outbound_reply_requested'' then outbound_reply_shape value
      else if kind = ''inbound_email_received'' then inbound_email_shape value
      else if kind = ''inbound_email_persisted'' then persisted_shape value
      else if kind = ''inbound_work_item_received'' then work_item_shape value
      else if kind = ''inbound_delivery_result'' then delivery_result_shape value
      else False)"

definition decodeMailJob :: "jv \<Rightarrow> jv option" where
  "decodeMailJob value =
     (if \<not> js_is_record value \<or> \<not> text_field (js_get value ''kind'') then None
      else (case js_get value ''kind'' of
              JString kind \<Rightarrow> if job_shape kind value then Some value else None
            | _ \<Rightarrow> None))"

definition isOutboundReplyRequestedJob :: "jv \<Rightarrow> bool" where
  "isOutboundReplyRequestedJob value =
     (case decodeMailJob value of None \<Rightarrow> False
      | Some j \<Rightarrow> js_get j ''kind'' = JString ''outbound_reply_requested'')"

section \<open>Lemmas\<close>

lemmas job_shape_defs =
  inbox_reply_shape_def outbound_reply_shape_def inbound_email_shape_def persisted_shape_def
  work_item_shape_def delivery_result_shape_def

definition known_keys :: "string list" where
  \<comment> \<open>every property a job of any kind can have\<close>
  "known_keys = inbox_reply_keys @ outbound_reply_keys @ inbound_email_keys @ persisted_keys @
     work_item_keys @ delivery_result_keys"

lemma closed_keys_mono: "closed_keys v ks \<Longrightarrow> set ks \<subseteq> set ls \<Longrightarrow> closed_keys v ls"
  by (auto simp: closed_keys_def list_all_iff)

lemma decodeMailJob_Some:
  "decodeMailJob v = Some j \<longleftrightarrow>
   v = j \<and> js_is_record v \<and> (\<exists>k. js_get v ''kind'' = JString k \<and> length k \<le> 1024 \<and> job_shape k v)"
  by (auto simp: decodeMailJob_def text_max_def split: jv.splits)

lemma decodeMailJob_closed:
  assumes "decodeMailJob v = Some j"
  shows "closed_keys j known_keys"
proof -
  from assms obtain k where j: "v = j" and s: "job_shape k v"
    by (auto simp: decodeMailJob_Some)
  have "\<exists>ks \<in> {inbox_reply_keys, outbound_reply_keys, inbound_email_keys, persisted_keys, work_item_keys,
      delivery_result_keys}. closed_keys v ks"
    using s unfolding job_shape_def job_shape_defs by (auto split: if_splits)
  with j show ?thesis by (auto simp: known_keys_def intro: closed_keys_mono)
qed

lemma decodeMailJob_idem: "decodeMailJob v = Some j \<Longrightarrow> decodeMailJob j = Some j"
  by (auto simp: decodeMailJob_Some)

text \<open>Authority in a queue message: an ordinary claim names its activation and the second payload version.\<close>

lemma ordinary_authorization:
  assumes "decodeMailJob v = Some j" "js_get j ''kind'' \<in> {JString ''inbox_reply_received'', JString ''outbound_reply_requested''}"
    and "js_get j ''admissionKind'' = JString ''ordinary''"
  shows "js_get j ''schemaVersion'' = JInt 2 \<and> js_get j ''payloadVersion'' = JInt 2 \<and>
         (\<exists>a. js_get j ''activationId'' = JString a \<and> a \<noteq> [])"
proof -
  from assms have "authorizationShape j"
    by (auto simp: decodeMailJob_Some job_shape_def inbox_reply_shape_def outbound_reply_shape_def)
  with assms(3) show ?thesis
    by (auto simp: authorizationShape_def replyAuthorizationKind_def Let_def js_is_string_iff
        split: if_splits option.splits)
qed

lemma unversioned_is_canary:
  assumes "authorizationShape j" "js_get j ''schemaVersion'' = JUndefined"
  shows "replyAuthorizationKind j = Some Canary"
  using assms by (auto simp: authorizationShape_def replyAuthorizationKind_def Let_def split: if_splits option.splits)

end
