(* ===== verification/Database.thy ===== *)
theory Database
  imports Platform Router Job_Codec
begin

text \<open>
  The D1 tables that the workers' statements read and write, from \<^verbatim>\<open>migrations/\<close>: one record per row
  with the columns the statements use, one list per table. A TEXT column that holds JSON is the parsed
  value (\<^const>\<open>None\<close> when the text does not parse). Views that end in rows of the owner's governance
  ledgers (current activations, active quarantines) are lists of what the view shows.

  Times: \<open>julianday\<close> of a column is a parameter, in milliseconds, \<^const>\<open>None\<close> for NULL, and a
  comparison with NULL is not true. The generation of a route is a column that the statements read; the
  triggers of \<^verbatim>\<open>migrations/0015\<close> that advance it when evidence changes are steps of the others.
\<close>

section \<open>Rows\<close>

record audit_row =
  ae_id :: string
  ae_dedupe_key :: "string option"
  ae_thread_id :: "string option"
  ae_actor :: string
  ae_action :: string
  ae_detail :: "jv option"

record thread_row =
  th_id :: string
  th_domain_id :: string
  th_route_id :: string
  th_external_sender :: string
  th_subject :: "string option"

record message_row =
  ms_id :: string
  ms_thread_id :: string
  ms_direction :: string
  ms_envelope_from :: "string option"
  ms_envelope_to :: string
  ms_header_message_id :: "string option"
  ms_in_reply_to :: "string option"
  ms_raw_r2_key :: "string option"
  ms_delivery_status :: string
  ms_retention_class :: string

record relay_row =
  rr_id :: string
  rr_token_sha256 :: string
  rr_thread_id :: string
  rr_route_id :: string
  rr_external_recipient :: string
  rr_reply_identity :: string
  rr_original_message_id :: "string option"
  rr_references :: "jv option"
  rr_expires_at :: string
  rr_revoked_at :: "string option"
  rr_superseded_by :: "string option"

record attempt_row =
  ra_id :: string
  ra_relay_id :: string
  ra_operator :: string
  ra_operator_message_id :: string
  ra_raw_r2_key :: "string option"
  ra_raw_sha256 :: "string option"
  ra_status :: string
  ra_provider_message_id :: "string option"
  ra_error_code :: "string option"
  ra_identity_version :: nat
  ra_payload_version :: nat
  ra_admission_kind :: "authorization_kind option"
  ra_admission_id :: "string option"
  ra_transaction_sha256 :: "string option"
  ra_attempt_sha256 :: "string option"
  ra_claimed_payload_sha256 :: "string option"
  ra_desired_state_sha256 :: "string option"
  ra_identity_profile_sha256 :: "string option"
  ra_policy_sha256 :: "string option"
  ra_operator_ref :: "string option"
  ra_operator_set_sha256 :: "string option"
  ra_dispatch_received_at :: "string option"

text \<open>
  \<^verbatim>\<open>reply_admissions\<close> and \<^verbatim>\<open>ordinary_reply_admissions\<close> are two tables with the view
  \<^verbatim>\<open>reply_admissions_all\<close> over both. A row carries the table it is in as its kind, as the view shows it.
\<close>

record admission_row =
  ad_kind :: authorization_kind
  ad_activation_id :: "string option"
  ad_id :: string
  ad_transaction_sha256 :: string
  ad_relay_id :: string
  ad_thread_id :: string
  ad_route_id :: string
  ad_policy_sha256 :: string
  ad_desired_state_sha256 :: string
  ad_operator_set_sha256 :: string
  ad_admitted_operator_ref :: string
  ad_operator_id :: "string option"                \<comment> \<open>ordinary admissions only\<close>
  ad_inbound_delivery_id :: "string option"        \<comment> \<open>canary admissions only\<close>
  ad_public_identity :: string
  ad_sender_domain :: string
  ad_identity_profile_ref :: string
  ad_identity_profile_sha256 :: string
  ad_display_name :: string
  ad_signature_profile_ref :: string
  ad_signature_sha256 :: string
  ad_sender_adapter :: string
  ad_admitted_at :: string
  ad_expires_at :: string
  ad_status :: string
  ad_claimed_attempt_id :: "string option"
  ad_claimed_attempt_sha256 :: "string option"
  ad_claimed_payload_sha256 :: "string option"
  ad_claimed_at :: "string option"
  ad_provider_boundary_at :: "string option"
  ad_terminal_at :: "string option"
  ad_error_code :: "string option"

record route_row =
  ar_id :: string
  ar_domain_id :: string
  ar_local_part :: string
  ar_kind :: string
  ar_decision_kind :: string
  ar_default_reply_identity_id :: string
  ar_enabled :: bool
  ar_policy_sha256 :: "string option"
  ar_status_generation :: int

record domain_row =
  dm_id :: string
  dm_domain :: string

record operator_row =
  op_id :: string
  op_email :: string

record identity_row =
  id_id :: string
  id_domain_id :: string
  id_address :: string
  id_kind :: string

record binding_row =                                \<comment> \<open>\<^verbatim>\<open>alias_route_reply_identities\<close>\<close>
  bi_route_id :: string
  bi_operator_id :: string
  bi_public_identity_id :: string
  bi_policy_sha256 :: string
  bi_reply_mode :: string

record revision_row =
  pr_policy_sha256 :: string
  pr_r2_object_key :: string
  pr_expected_domain_count :: nat
  pr_expected_route_count :: nat

record runtime_row =
  rt_active_policy_sha256 :: string
  rt_active_policy_r2_key :: string

record health_row =
  rh_route_id :: string
  rh_policy_sha256 :: "string option"
  rh_desired_provider :: string
  rh_last_inbox_verified_at :: "string option"
  rh_last_reply_verified_at :: "string option"
  rh_inbound_status :: string
  rh_reply_status :: string
  rh_last_reply_at :: "string option"
  rh_last_inbound_at :: "string option"
  rh_last_inbound_provider_accepted_at :: "string option"
  rh_last_inbound_provider_message_ids :: "string list"
  rh_last_reply_provider_accepted_at :: "string option"
  rh_last_reply_provider_message_id :: "string option"
  rh_last_error_code :: "string option"

record activation_row =                             \<comment> \<open>\<^verbatim>\<open>current_route_reply_authorizations\<close>\<close>
  ac_id :: string
  ac_route_id :: string
  ac_policy_sha256 :: string
  ac_desired_state_sha256 :: string
  ac_public_identity :: string
  ac_identity_profile_ref :: string
  ac_identity_profile_sha256 :: string
  ac_operator_set_sha256 :: string
  ac_sender_adapter :: string
  ac_sender_domain :: string
  ac_runtime_artifacts_sha256 :: string
  ac_topology_sha256 :: string
  ac_expires_at :: "string option"
  ac_inbox_proof_id :: string
  ac_reply_proof_id :: string

record proof_row =                                  \<comment> \<open>\<^verbatim>\<open>route_proofs\<close>\<close>
  pv_id :: string
  pv_route_id :: string
  pv_policy_sha256 :: string
  pv_proof_kind :: string
  pv_verified_at :: string

record status_row =                                 \<comment> \<open>\<^verbatim>\<open>route_status_projection\<close>\<close>
  st_route_id :: string
  st_projection_revision :: string
  st_source_generation :: int
  st_policy_sha256 :: string
  st_observed_at :: string
  st_valid_until :: string
  st_projection :: jv

record delivery_row =                               \<comment> \<open>\<^verbatim>\<open>inbound_deliveries\<close>\<close>
  dl_id :: string
  dl_fingerprint_sha256 :: string
  dl_relay_id :: string
  dl_thread_id :: string
  dl_route_id :: string
  dl_policy_sha256 :: string
  dl_raw_r2_key :: "string option"
  dl_received_at :: string
  dl_status :: string

record recipient_row =                              \<comment> \<open>\<^verbatim>\<open>inbound_recipient_deliveries\<close>\<close>
  rd_delivery_id :: string
  rd_operator_ref :: string
  rd_delivery_message_id :: string
  rd_delivery_payload_r2_key :: string
  rd_delivery_payload_sha256 :: string
  rd_status :: string
  rd_provider_message_id :: "string option"
  rd_error_code :: "string option"

record canary_row =                                 \<comment> \<open>\<^verbatim>\<open>mail_canary_state\<close>, one row\<close>
  cn_last_report_sha256 :: "string option"
  cn_last_notified_at_ms :: int
  cn_attempt_id :: "string option"
  cn_attempt_state :: string
  cn_last_coverage_at_ms :: int

record ledger_row =                                 \<comment> \<open>\<^verbatim>\<open>route_proof_ledger\<close>\<close>
  lg_route_id :: string
  lg_plane :: string
  lg_policy_sha256 :: string
  lg_verified_at_ms :: "int option"
  lg_updated_at_ms :: int

record db =
  db_audit :: "audit_row list"
  db_threads :: "thread_row list"
  db_messages :: "message_row list"
  db_relays :: "relay_row list"
  db_attempts :: "attempt_row list"
  db_admissions :: "admission_row list"
  db_routes :: "route_row list"
  db_domains :: "domain_row list"
  db_operators :: "operator_row list"
  db_identities :: "identity_row list"
  db_route_operators :: "(string \<times> string) list"   \<comment> \<open>route id, operator id\<close>
  db_bindings :: "binding_row list"
  db_revisions :: "revision_row list"
  db_runtime :: "runtime_row option"
  db_projection_state :: "(string \<times> string) list"
  db_health :: "health_row list"
  db_activations :: "activation_row list"
  db_quarantined_routes :: "string list"
  db_deliveries :: "delivery_row list"
  db_recipients :: "recipient_row list"
  db_proofs :: "proof_row list"
  db_status :: "status_row list"
  db_canary :: "canary_row option"
  db_rotation :: "(string \<times> int \<times> string) list"    \<comment> \<open>route id, selected at, reason\<close>
  db_ledger :: "ledger_row list"

definition empty_db :: db where
  "empty_db = \<lparr> db_audit = [], db_threads = [], db_messages = [], db_relays = [], db_attempts = [],
     db_admissions = [], db_routes = [], db_domains = [], db_operators = [], db_identities = [],
     db_route_operators = [], db_bindings = [], db_revisions = [], db_runtime = None,
     db_projection_state = [], db_health = [], db_activations = [], db_quarantined_routes = [],
     db_deliveries = [], db_recipients = [], db_proofs = [], db_status = [],
     db_canary = Some \<lparr> cn_last_report_sha256 = None, cn_last_notified_at_ms = 0, cn_attempt_id = None,
       cn_attempt_state = ''idle'', cn_last_coverage_at_ms = 0 \<rparr>, db_rotation = [], db_ledger = [] \<rparr>"

section \<open>Common parts of statements\<close>

definition first_row :: "('a \<Rightarrow> bool) \<Rightarrow> 'a list \<Rightarrow> 'a option" where
  \<comment> \<open>\<^verbatim>\<open>SELECT ... WHERE P LIMIT 1\<close>\<close>
  "first_row P rows = find P rows"

definition update_where :: "('a \<Rightarrow> bool) \<Rightarrow> ('a \<Rightarrow> 'a) \<Rightarrow> 'a list \<Rightarrow> 'a list" where
  \<comment> \<open>\<^verbatim>\<open>UPDATE ... SET f WHERE P\<close>\<close>
  "update_where P f rows = map (\<lambda>r. if P r then f r else r) rows"

definition changes :: "('a \<Rightarrow> bool) \<Rightarrow> 'a list \<Rightarrow> nat" where
  \<comment> \<open>\<^verbatim>\<open>meta.changes\<close> of such an update\<close>
  "changes P rows = length (filter P rows)"

definition active_policy :: "db \<Rightarrow> string option" where
  "active_policy d = map_option rt_active_policy_sha256 (db_runtime d)"

definition projection_value :: "string \<Rightarrow> db \<Rightarrow> string option" where
  "projection_value k d = map_of (db_projection_state d) k"

definition route_quarantined :: "string \<Rightarrow> db \<Rightarrow> bool" where
  "route_quarantined route d \<longleftrightarrow> route \<in> set (db_quarantined_routes d)"

fun insert_ordered :: "('a \<Rightarrow> string) \<Rightarrow> 'a \<Rightarrow> 'a list \<Rightarrow> 'a list" where
  "insert_ordered key x [] = [x]"
| "insert_ordered key x (y # ys) =
     (if lexordp_eq (map code (key x)) (map code (key y)) then x # y # ys else y # insert_ordered key x ys)"

definition order_by :: "('a \<Rightarrow> string) \<Rightarrow> 'a list \<Rightarrow> 'a list" where
  \<comment> \<open>ORDER BY a TEXT column, and \<^verbatim>\<open>Array.prototype.sort()\<close> of strings: by code unit\<close>
  "order_by key xs = foldr (insert_ordered key) xs []"

definition operator_email :: "db \<Rightarrow> string \<Rightarrow> string option" where
  "operator_email d i = map_option op_email (find (\<lambda>o'. op_id o' = i) (db_operators d))"

definition route_operator_emails :: "string \<Rightarrow> db \<Rightarrow> string list" where
  \<comment> \<open>\<^verbatim>\<open>json_group_array(email)\<close> over the route's operators, ordered by email\<close>
  "route_operator_emails route d =
     order_by id (List.map_filter (\<lambda>(r, o'). if r = route then operator_email d o' else None) (db_route_operators d))"

definition identity_address :: "db \<Rightarrow> string \<Rightarrow> string option" where
  "identity_address d i = map_option id_address (find (\<lambda>r. id_id r = i) (db_identities d))"

definition domain_name :: "db \<Rightarrow> string \<Rightarrow> string option" where
  "domain_name d i = map_option dm_domain (find (\<lambda>r. dm_id r = i) (db_domains d))"

definition route_address :: "db \<Rightarrow> route_row \<Rightarrow> string option" where
  \<comment> \<open>\<^verbatim>\<open>ar.local_part || '@' || d.domain\<close>\<close>
  "route_address d ar = map_option (\<lambda>dom. ar_local_part ar @ ''@'' @ dom) (domain_name d (ar_domain_id ar))"

definition reply_identity_bindings :: "string \<Rightarrow> string \<Rightarrow> db \<Rightarrow> string list list" where
  \<comment> \<open>\<^verbatim>\<open>replyIdentityBindingsSql\<close>: operator, public address and mode, ordered by operator\<close>
  "reply_identity_bindings route policy d =
     map (\<lambda>(a, b, c). [a, b, c])
       (order_by fst
         (List.map_filter (\<lambda>bi.
            if bi_route_id bi = route \<and> bi_policy_sha256 bi = policy then
              (case (operator_email d (bi_operator_id bi), identity_address d (bi_public_identity_id bi)) of
                 (Some e, Some a) \<Rightarrow> Some (e, a, bi_reply_mode bi) | _ \<Rightarrow> None)
            else None) (db_bindings d)))"

definition sql_le :: "int option \<Rightarrow> int option \<Rightarrow> bool" where
  "sql_le a b = (case (a, b) of (Some x, Some y) \<Rightarrow> x \<le> y | _ \<Rightarrow> False)"

definition sql_less :: "int option \<Rightarrow> int option \<Rightarrow> bool" where
  "sql_less a b = (case (a, b) of (Some x, Some y) \<Rightarrow> x < y | _ \<Rightarrow> False)"

section \<open>Lemmas\<close>

lemma set_insert_ordered [simp]: "set (insert_ordered key x xs) = insert x (set xs)"
  by (induction xs) auto

lemma set_order_by [simp]: "set (order_by key xs) = set xs"
  by (induction xs) (auto simp: order_by_def)

lemma length_update_where [simp]: "length (update_where P f rows) = length rows"
  by (simp add: update_where_def)

lemma set_update_where: "set (update_where P f rows) = (\<lambda>r. if P r then f r else r) ` set rows"
  by (simp add: update_where_def)

lemma changes_pos: "0 < changes P rows \<longleftrightarrow> (\<exists>r \<in> set rows. P r)"
  by (induction rows) (auto simp: changes_def)

lemma update_where_none: "\<not> 0 < changes P rows \<Longrightarrow> update_where P f rows = rows"
  by (auto simp: update_where_def changes_pos intro: map_idI)

lemma first_row_SomeD: "first_row P rows = Some r \<Longrightarrow> r \<in> set rows \<and> P r"
  by (auto simp: first_row_def find_Some_iff)

lemma first_row_None_iff: "first_row P rows = None \<longleftrightarrow> (\<forall>r \<in> set rows. \<not> P r)"
  by (auto simp: first_row_def find_None_iff)

end
