(* ===== verification/Reply_Text.thy ===== *)
theory Reply_Text
  imports Js_Prelude
begin

text \<open>
  \<^verbatim>\<open>workers/shared/reply-text.ts\<close> and \<^verbatim>\<open>workers/shared/reply-text-legacy.ts\<close>: what of an operator's
  plaintext reply is sent to the correspondent. The text is cut into lines once; every regular
  expression of the sources is anchored at line boundaries, so each is a test on one line.
\<close>

abbreviation newline :: char where "newline \<equiv> CHR 0x0A"
abbreviation carriage_return :: char where "carriage_return \<equiv> CHR 0x0D"

definition is_blank :: "char \<Rightarrow> bool" where
  \<comment> \<open>the class \<^verbatim>\<open>[ \t]\<close>\<close>
  "is_blank c \<longleftrightarrow> c = CHR 0x20 \<or> c = CHR 0x09"

definition rstrip_blank :: "string \<Rightarrow> string" where
  "rstrip_blank s = rev (dropWhile is_blank (rev s))"

fun normalize_newlines :: "string \<Rightarrow> string" where
  \<comment> \<open>\<^verbatim>\<open>value.replaceAll("\r\n", "\n").replaceAll("\r", "\n")\<close>\<close>
  "normalize_newlines [] = []"
| "normalize_newlines [c] = [if c = carriage_return then newline else c]"
| "normalize_newlines (c # d # s) =
     (if c = carriage_return then
        (if d = newline then newline # normalize_newlines s else newline # normalize_newlines (d # s))
      else c # normalize_newlines (d # s))"

datatype reply_error =
    Unrecognized_Context
  | No_Public_Message
  | Signature_Empty
  | Retains_Context
  | Signature_Boundary_Ambiguous

section \<open>The current renderer\<close>

definition strip_quote_lead :: "string \<Rightarrow> string" where
  \<comment> \<open>what follows \<^verbatim>\<open>[ \t]*(?:>+[ \t]*)?\<close>\<close>
  "strip_quote_lead l = dropWhile is_blank (dropWhile (\<lambda>c. c = CHR ''>'') (dropWhile is_blank l))"

definition context_words :: "string list" where
  "context_words = [''maildesk route'', ''reply behavior:'', ''--- original message ---'']"

definition maildesk_context_line :: "string \<Rightarrow> bool" where
  "maildesk_context_line l \<longleftrightarrow> lower (rstrip_blank (strip_quote_lead l)) \<in> set context_words"

definition maildesk_context :: "string \<Rightarrow> bool" where
  \<comment> \<open>\<^verbatim>\<open>MAILDESK_CONTEXT.test(s)\<close>\<close>
  "maildesk_context s \<longleftrightarrow> list_ex maildesk_context_line (split_on newline s)"

definition attribution_body :: "string \<Rightarrow> bool" where
  \<comment> \<open>\<^verbatim>\<open>On [^\n]{1,500} wrote:[ \t]*$\<close>\<close>
  "attribution_body s \<longleftrightarrow>
     (let r = rstrip_blank s in
      prefix ''On '' r \<and> suffix '' wrote:'' r \<and> 11 \<le> length r \<and> length r \<le> 510)"

definition apple_attribution :: "string \<Rightarrow> bool" where
  "apple_attribution l \<longleftrightarrow> attribution_body (strip_quote_lead l)"

definition quoted_line :: "string \<Rightarrow> bool" where
  \<comment> \<open>\<^verbatim>\<open>/^[ \t]*>/\<close>\<close>
  "quoted_line l \<longleftrightarrow> (case dropWhile is_blank l of [] \<Rightarrow> False | c # _ \<Rightarrow> c = CHR ''>'')"

definition quote_starts :: "string \<Rightarrow> string list \<Rightarrow> bool" where
  \<comment> \<open>the line opens a quotation: an attribution whose remaining non-empty lines are all quoted\<close>
  "quote_starts l rest \<longleftrightarrow>
     apple_attribution l \<and>
     (let suffix = filter (\<lambda>x. trim x \<noteq> []) rest in suffix \<noteq> [] \<and> list_all quoted_line suffix)"

fun before_quote :: "string list \<Rightarrow> string list" where
  \<comment> \<open>\<^verbatim>\<open>quoteAt < 0 ? lines : lines.slice(0, quoteAt)\<close>\<close>
  "before_quote [] = []"
| "before_quote (l # ls) = (if quote_starts l ls then [] else l # before_quote ls)"

fun has_quote :: "string list \<Rightarrow> bool" where
  "has_quote [] = False"
| "has_quote (l # ls) = (quote_starts l ls \<or> has_quote ls)"

fun before_signature :: "string list \<Rightarrow> string list" where
  \<comment> \<open>the lines before the first line \<^verbatim>\<open>-- \<close> that ends in a newline: \<^verbatim>\<open>/(?:^|\n)-- \n/\<close>\<close>
  "before_signature [] = []"
| "before_signature [l] = [l]"
| "before_signature (l # m # ls) = (if l = ''-- '' then [] else l # before_signature (m # ls))"

fun has_signature :: "string list \<Rightarrow> bool" where
  "has_signature [] = False"
| "has_signature [l] = False"
| "has_signature (l # m # ls) = (l = ''-- '' \<or> has_signature (m # ls))"

definition strip_newlines :: "string \<Rightarrow> string" where
  \<comment> \<open>\<^verbatim>\<open>s.replace(/^\n+|\n+$/g, "")\<close>\<close>
  "strip_newlines s =
     rev (dropWhile (\<lambda>c. c = newline) (rev (dropWhile (\<lambda>c. c = newline) s)))"

record reply_text_parts =
  rt_authored :: string
  rt_quoteRemoved :: bool
  rt_signatureRemoved :: bool

definition parseReplyText :: "string \<Rightarrow> reply_error + reply_text_parts" where
  "parseReplyText value =
     (let lines = split_on newline (normalize_newlines value);
          unquoted = before_quote lines in
      if list_ex maildesk_context_line unquoted then Inl Unrecognized_Context
      else (let authored = strip_newlines (join [newline] (before_signature unquoted)) in
        if trim authored = [] then Inl No_Public_Message
        else Inr \<lparr> rt_authored = authored, rt_quoteRemoved = has_quote lines,
                   rt_signatureRemoved = has_signature unquoted \<rparr>))"

definition signature_block :: "string \<Rightarrow> string" where
  "signature_block signature = [newline, newline] @ ''-- '' @ [newline] @ signature"

definition renderPublicReplyText :: "string \<Rightarrow> string \<Rightarrow> reply_error + string" where
  "renderPublicReplyText operatorText publicSignature =
     (case parseReplyText operatorText of
        Inl e \<Rightarrow> Inl e
      | Inr parsed \<Rightarrow>
          (let signature = trim publicSignature in
           if signature = [] then Inl Signature_Empty
           else (let rendered = rt_authored parsed @ signature_block signature in
             if maildesk_context rendered then Inl Retains_Context else Inr rendered)))"

section \<open>The frozen renderer of pre-cutover claims\<close>

definition legacy_context_line :: "string \<Rightarrow> bool" where
  \<comment> \<open>\<^verbatim>\<open>[ \t]*>?[ \t]*(?:words)[ \t]*\<close>, at most one quote mark\<close>
  "legacy_context_line l \<longleftrightarrow>
     (let s = dropWhile is_blank l;
          t = (case s of [] \<Rightarrow> [] | c # r \<Rightarrow> if c = CHR ''>'' then r else s)
      in lower (rstrip_blank (dropWhile is_blank t)) \<in> set context_words)"

definition legacy_context :: "string \<Rightarrow> bool" where
  "legacy_context s \<longleftrightarrow> list_ex legacy_context_line (split_on newline s)"

definition legacy_attribution :: "string \<Rightarrow> bool" where
  \<comment> \<open>the attribution test under the flags \<^verbatim>\<open>im\<close>\<close>
  "legacy_attribution l \<longleftrightarrow>
     (let r = lower (rstrip_blank (strip_quote_lead l)) in
      prefix ''on '' r \<and> suffix '' wrote:'' r \<and> 11 \<le> length r \<and> length r \<le> 510)"

definition blank_line :: "string \<Rightarrow> bool" where
  "blank_line l \<longleftrightarrow> list_all is_blank l"

definition opens_text :: "string \<Rightarrow> bool" where
  \<comment> \<open>the lookahead \<^verbatim>\<open>(?=[^\n \t])\<close> at the start of a line\<close>
  "opens_text l \<longleftrightarrow> (case l of [] \<Rightarrow> False | c # _ \<Rightarrow> \<not> is_blank c)"

definition position_after :: "string list \<Rightarrow> nat \<Rightarrow> nat" where
  \<comment> \<open>the offset at which the first \<^term>\<open>i\<close> lines end\<close>
  "position_after ls i = length (join [newline] (take i ls))"

definition legacy_signature :: "string list \<Rightarrow> nat option" where
  \<comment> \<open>\<^verbatim>\<open>/(?:^|\n)-- ?\n/.exec(unquoted)?.index\<close>\<close>
  "legacy_signature ls =
     (case filter (\<lambda>i. ls ! i = ''-- '' \<or> ls ! i = ''--'') [0..<length ls - 1] of
        [] \<Rightarrow> None | i # _ \<Rightarrow> Some (position_after ls i))"

definition gap_end :: "string list \<Rightarrow> nat \<Rightarrow> nat" where
  \<comment> \<open>the first line after \<^term>\<open>j\<close> that is not blank\<close>
  "gap_end ls j = j + 1 + length (takeWhile blank_line (drop (Suc j) ls))"

definition wide_gaps :: "string list \<Rightarrow> (nat \<times> nat) list" where
  \<comment> \<open>the matches of \<^verbatim>\<open>/\n(?:[ \t]*\n){2,}(?=[^\n \t])/g\<close>: the line before the gap, the line after it\<close>
  "wide_gaps ls =
     map (\<lambda>j. (j, gap_end ls j))
       (filter (\<lambda>j. (j = 0 \<or> \<not> blank_line (ls ! j)) \<and> j + 3 \<le> gap_end ls j \<and>
                    gap_end ls j < length ls \<and> opens_text (ls ! gap_end ls j))
         [0..<length ls])"

definition narrow_gaps :: "string list \<Rightarrow> (nat \<times> nat) list" where
  \<comment> \<open>the matches of \<^verbatim>\<open>/\n[ \t]*\n(?=[^\n \t])/g\<close>\<close>
  "narrow_gaps ls =
     map (\<lambda>j. (j, j + 2))
       (filter (\<lambda>j. j + 2 < length ls \<and> blank_line (ls ! (j + 1)) \<and> opens_text (ls ! (j + 2)))
         [0..<length ls])"

definition gap_suffix :: "string list \<Rightarrow> nat \<Rightarrow> string" where
  "gap_suffix ls k = trim (join [newline] (drop k ls))"

definition bounded_apple_signature :: "string \<Rightarrow> string list \<Rightarrow> bool" where
  "bounded_apple_signature suf suffixLines \<longleftrightarrow>
     0 < length suf \<and> length suf \<le> 1000 \<and> length suffixLines \<le> 8 \<and>
     list_all (\<lambda>l. length l \<le> 200) suffixLines"

fun squeeze_ws :: "string \<Rightarrow> string" where
  \<comment> \<open>\<^verbatim>\<open>s.replace(/\s+/g, " ")\<close>\<close>
  "squeeze_ws [] = []"
| "squeeze_ws (c # s) =
     (if is_ws c then
        (case s of [] \<Rightarrow> '' '' | d # _ \<Rightarrow> if is_ws d then squeeze_ws s else CHR 0x20 # squeeze_ws s)
      else c # squeeze_ws s)"

definition wide_boundary :: "string list \<Rightarrow> nat option" where
  "wide_boundary ls =
     (case rev (wide_gaps ls) of
        [] \<Rightarrow> None
      | (j, k) # _ \<Rightarrow>
          (let suf = gap_suffix ls k;
               suffixLines = filter (\<lambda>l. trim l \<noteq> []) (split_on newline suf) in
           if bounded_apple_signature suf suffixLines then Some (position_after ls (j + 1)) else None))"

definition named_signature :: "string list \<Rightarrow> string \<Rightarrow> nat \<Rightarrow> bool" where
  "named_signature ls senderName k \<longleftrightarrow>
     (let suf = gap_suffix ls k;
          suffixLines = filter (\<lambda>l. l \<noteq> []) (map trim (split_on newline suf))
      in bounded_apple_signature suf suffixLines \<and> suffixLines \<noteq> [] \<and>
         lower (squeeze_ws (hd suffixLines)) = senderName)"

definition named_boundary :: "string list \<Rightarrow> string \<Rightarrow> nat option" where
  "named_boundary ls authenticatedSenderName =
     (let senderName = lower (squeeze_ws (trim authenticatedSenderName)) in
      case filter (\<lambda>(j, k). named_signature ls senderName k) (rev (narrow_gaps ls)) of
        [] \<Rightarrow> None
      | (j, k) # _ \<Rightarrow> Some (position_after ls (j + 1)))"

definition renderLegacyClaimedReplyText :: "string \<Rightarrow> string \<Rightarrow> string option \<Rightarrow> reply_error + string" where
  "renderLegacyClaimedReplyText operatorText signatureText authenticatedSenderName =
     (let normalized = normalize_newlines operatorText;
          lines = split_on newline normalized;
          kept = takeWhile (\<lambda>l. \<not> legacy_attribution l) lines;
          quotedReply = list_ex legacy_attribution lines in
      if \<not> quotedReply \<and> legacy_context normalized then Inl Unrecognized_Context
      else
        (let unquoted = (if quotedReply then concat (map (\<lambda>l. l @ [newline]) kept) else normalized);
             ls = split_on newline unquoted;
             b1 = legacy_signature ls;
             b2 = (if b1 = None \<and> quotedReply then wide_boundary ls else b1);
             b3 = (case authenticatedSenderName of
                     None \<Rightarrow> b2
                   | Some n \<Rightarrow> if b2 = None \<and> quotedReply \<and> trim n \<noteq> [] then named_boundary ls n else b2)
         in case b3 of
              None \<Rightarrow> Inl Signature_Boundary_Ambiguous
            | Some signatureBoundary \<Rightarrow>
                (let authored = trim (take signatureBoundary unquoted) in
                 if authored = [] then Inl No_Public_Message
                 else (let signature = trim signatureText in
                   if signature = [] then Inl Signature_Empty
                   else (let rendered = authored @ signature_block signature in
                     if legacy_context rendered then Inl Retains_Context else Inr rendered)))))"

section \<open>Lemmas\<close>

lemma normalize_newlines_no_cr: "carriage_return \<notin> set (normalize_newlines s)"
  by (induction s rule: normalize_newlines.induct) auto

lemma normalize_newlines_id: "carriage_return \<notin> set s \<Longrightarrow> normalize_newlines s = s"
  by (induction s rule: normalize_newlines.induct) auto

lemma before_quote_prefix: "prefix (before_quote ls) ls"
  by (induction ls) auto

lemma before_quote_id: "\<not> has_quote ls \<Longrightarrow> before_quote ls = ls"
  by (induction ls) auto

lemma before_signature_prefix: "prefix (before_signature ls) ls"
  by (induction ls rule: before_signature.induct) auto

lemma before_signature_id: "\<not> has_signature ls \<Longrightarrow> before_signature ls = ls"
  by (induction ls rule: before_signature.induct) auto

lemma before_signature_no_delimiter:
  "has_signature ls \<Longrightarrow> ''-- '' \<notin> set (before_signature ls)"
  by (induction ls rule: before_signature.induct) auto

lemma join_prefix: "prefix xs ys \<Longrightarrow> prefix (join sep xs) (join sep ys)"
proof (induction sep xs arbitrary: ys rule: join.induct)
  case (1 sep)
  then show ?case by simp
next
  case (2 sep x)
  then obtain zs where "ys = x # zs" by (auto simp: prefix_def)
  then show ?case by (cases zs) auto
next
  case (3 sep x y zs)
  then obtain ws where "ys = x # ws" and "prefix (y # zs) ws" by (auto simp: prefix_def)
  then show ?case using "3.IH" [of ws] by (cases ws) auto
qed

lemma strip_newlines_sublist: "sublist (strip_newlines s) s"
proof -
  have a: "suffix (dropWhile P t) t" for P and t :: string
    by (metis suffix_def takeWhile_dropWhile_id)
  have "prefix (strip_newlines s) (dropWhile (\<lambda>c. c = newline) s)"
    using a [of "\<lambda>c. c = newline" "rev (dropWhile (\<lambda>c. c = newline) s)"]
    by (simp add: strip_newlines_def suffix_to_prefix)
  moreover have "suffix (dropWhile (\<lambda>c. c = newline) s) s" by (rule a)
  ultimately show ?thesis
    by (meson prefix_imp_sublist sublist_order.order_trans suffix_imp_sublist)
qed

text \<open>What \<^const>\<open>parseReplyText\<close> keeps is one contiguous piece of what was written.\<close>

lemma parseReplyText_sublist:
  assumes "parseReplyText v = Inr p"
  shows "sublist (rt_authored p) (normalize_newlines v)"
proof -
  let ?ls = "split_on newline (normalize_newlines v)"
  have p: "rt_authored p = strip_newlines (join [newline] (before_signature (before_quote ?ls)))"
    using assms by (auto simp: parseReplyText_def Let_def split: if_splits)
  have "prefix (before_signature (before_quote ?ls)) ?ls"
    by (meson before_quote_prefix before_signature_prefix prefix_order.order_trans)
  then have "prefix (join [newline] (before_signature (before_quote ?ls))) (normalize_newlines v)"
    using join_prefix [of _ ?ls "[newline]"] by (simp add: join_split_on)
  then show ?thesis unfolding p
    by (meson prefix_imp_sublist strip_newlines_sublist sublist_order.order_trans)
qed

lemma renderPublicReplyText_ok:
  "renderPublicReplyText t s = Inr r \<Longrightarrow>
   \<exists>p. parseReplyText t = Inr p \<and> trim s \<noteq> [] \<and> r = rt_authored p @ signature_block (trim s) \<and> \<not> maildesk_context r"
  by (auto simp: renderPublicReplyText_def Let_def split: sum.splits if_splits)

end
