(* ===== verification/Relay_Mail.thy ===== *)
theory Relay_Mail
  imports Router Reply_Text Platform "HOL-Library.Multiset"
begin

text \<open>
  \<^verbatim>\<open>workers/shared/inbox-relay.ts\<close>, \<^verbatim>\<open>message-identity.ts\<close> and \<^verbatim>\<open>identity-profile-contract.ts\<close>:
  relay tokens and addresses, mailbox and header normalisation, the parsed form of a message, the
  operator's copy, the reply payload, its digest and the bound on its encoded size. The MIME parser
  (PostalMime) is a third-party package: what it returns is an argument.
\<close>

section \<open>Messages\<close>

datatype disposition = Inline string | Attached

record attachment =
  at_disposition :: disposition
  at_filename :: string
  at_type :: string
  at_content :: "byte list"

record mailbox =
  mb_name :: string
  mb_address :: string

record relay_email =
  pe_from :: mailbox
  pe_subject :: string
  pe_text :: string
  pe_html :: "string option"
  pe_messageId :: "string option"
  pe_inReplyTo :: "string option"
  pe_references :: "string list"
  pe_attachments :: "attachment list"

datatype postal_address = Postal_Group | Postal_Mailbox mailbox

record postal_attachment =
  pa_filename :: "string option"
  pa_mimeType :: string
  pa_disposition :: "string option"
  pa_contentId :: "string option"
  pa_content :: "byte list option"          \<comment> \<open>\<^const>\<open>None\<close>: neither a buffer nor a view\<close>

record postal_email =
  po_from :: "postal_address option"
  po_subject :: "string option"
  po_text :: "string option"
  po_html :: "string option"
  po_messageId :: "string option"
  po_inReplyTo :: "string option"
  po_references :: "string option"
  po_attachments :: "postal_attachment list"

record mail_payload =
  mp_subject :: string
  mp_text :: "string option"
  mp_html :: "string option"
  mp_headers :: "(string \<times> string) list"
  mp_attachments :: "attachment list"

datatype reply_availability = Canary_Only | Ordinary_Activated | Quarantined

record operator_delivery_input =
  di_operator :: string
  di_receivedAddress :: string
  di_replyIdentity :: string
  di_identityProfile :: "identity_profile option"
  di_replyProcessingMode :: processing_mode
  di_replyAvailability :: "reply_availability option"
  di_routeKind :: route_kind
  di_operatorCount :: nat
  di_relayAddress :: string
  di_deliveryMessageId :: string

record operator_delivery =
  od_from_name :: string
  od_from_email :: string
  od_to :: string
  od_replyTo :: string
  od_subject :: string
  od_text :: string
  od_html :: string
  od_headers :: "(string \<times> string) list"
  od_attachments :: "attachment list"

section \<open>Mailboxes and relay tokens\<close>

definition normalizeMailbox :: "string \<Rightarrow> string" where
  "normalizeMailbox value =
     (let mailbox = lower (trim value);
          at = last_index_of (CHR ''@'') mailbox;
          domain = drop (nat (at + 1)) mailbox in
      if at \<le> 0 \<or> at = int (length mailbox) - 1 \<or> 320 < length mailbox \<or> CHR ''@'' \<in> set domain \<or>
         \<not> valid_domain domain \<or> list_ex (\<lambda>c. is_ws c \<or> is_control c) mailbox
      then [] else mailbox)"

definition is_relay_token :: "string \<Rightarrow> bool" where
  "is_relay_token t \<longleftrightarrow> length t = 62 \<and> list_all is_hex t"

definition is_legacy_relay_token :: "string \<Rightarrow> bool" where
  "is_legacy_relay_token t \<longleftrightarrow> length t = 64 \<and> list_all is_hex t"

definition generateRelayToken :: "byte list \<Rightarrow> string" where
  \<comment> \<open>the argument is what \<^verbatim>\<open>crypto.getRandomValues\<close> filled the 31 bytes with\<close>
  "generateRelayToken bytes = hex bytes"

definition relayAddress :: "string \<Rightarrow> string \<Rightarrow> string + string" where
  "relayAddress token replyDomain =
     (if \<not> is_relay_token token then Inl ''relay token is invalid''
      else Inr (''r+'' @ token @ ''@'' @ replyDomain))"

definition relayTokenFromRecipient :: "string \<Rightarrow> string \<Rightarrow> string option" where
  "relayTokenFromRecipient recipient replyDomain =
     (let mailbox = normalizeMailbox recipient;
          suf = ''@'' @ replyDomain in
      if \<not> suffix suf mailbox then None
      else (let localPart = take (length mailbox - length suf) mailbox in
        if \<not> prefix ''r+'' localPart then None
        else (let token = drop 2 localPart in
          if is_relay_token token \<or> is_legacy_relay_token token then Some token else None)))"

definition tokenExpiresAt :: "platform \<Rightarrow> int \<Rightarrow> nat \<Rightarrow> string" where
  "tokenExpiresAt pf now ttlDays = pf_to_iso pf (now + int ttlDays * 86400000)"

definition relayRecordIsActive :: "platform \<Rightarrow> string \<Rightarrow> string option \<Rightarrow> int \<Rightarrow> bool" where
  "relayRecordIsActive pf expiresAt revokedAt nowMs =
     (if truthy revokedAt then False
      else (case pf_date_parse pf expiresAt of None \<Rightarrow> False | Some expiryMs \<Rightarrow> nowMs < expiryMs))"

section \<open>Header text\<close>

fun squeeze_controls :: "string \<Rightarrow> string" where
  \<comment> \<open>\<^verbatim>\<open>value.replace(/[\r\n\x00-\x1f\x7f]+/g, " ")\<close>\<close>
  "squeeze_controls [] = []"
| "squeeze_controls (c # s) =
     (if is_control c then
        (case s of [] \<Rightarrow> '' '' | d # _ \<Rightarrow> if is_control d then squeeze_controls s else CHR 0x20 # squeeze_controls s)
      else c # squeeze_controls s)"

definition boundedHeaderText :: "string \<Rightarrow> nat \<Rightarrow> string" where
  "boundedHeaderText value maxLength = take maxLength (trim (squeeze_controls value))"

definition or_else :: "string \<Rightarrow> string \<Rightarrow> string" where
  \<comment> \<open>\<^verbatim>\<open>value || fallback\<close>\<close>
  "or_else v fallback = (if v = [] then fallback else v)"

definition opt_or :: "string option \<Rightarrow> string \<Rightarrow> string" where
  "opt_or v fallback = (case v of None \<Rightarrow> fallback | Some s \<Rightarrow> or_else s fallback)"

definition nonempty :: "string option \<Rightarrow> string option" where
  \<comment> \<open>\<^verbatim>\<open>value || undefined\<close>\<close>
  "nonempty v = (if truthy v then v else None)"

definition safeFilename :: "string option \<Rightarrow> string" where
  "safeFilename value =
     (let filename = trim (map (\<lambda>c. if c \<in> {CHR 0x0D, CHR 0x0A, CHR 0x5C, CHR ''/''} then CHR ''_'' else c)
                             (opt_or value ''attachment.bin''))
      in boundedHeaderText (or_else filename ''attachment.bin'') 255)"

definition media_char :: "char \<Rightarrow> bool" where
  \<comment> \<open>the class \<^verbatim>\<open>[a-z0-9!#$&^_.+-]\<close>\<close>
  "media_char c \<longleftrightarrow> is_alnum_lower c \<or> c \<in> set ''!#$&^_.+-''"

definition is_media_type :: "string \<Rightarrow> bool" where
  "is_media_type s \<longleftrightarrow>
     (case split_on (CHR ''/'') s of
        [a, b] \<Rightarrow> a \<noteq> [] \<and> b \<noteq> [] \<and> list_all media_char a \<and> list_all media_char b
      | _ \<Rightarrow> False)"

definition safeContentType :: "string \<Rightarrow> string" where
  "safeContentType value =
     (let contentType = lower (trim value) in
      if is_media_type contentType then contentType else ''application/octet-stream'')"

definition validMessageId :: "string option \<Rightarrow> bool" where
  "validMessageId value =
     (case value of None \<Rightarrow> False | Some v \<Rightarrow> v \<noteq> [] \<and> length v \<le> 998 \<and> is_angle_id v)"

definition validMessageIds :: "string option \<Rightarrow> string list" where
  "validMessageIds value =
     (case value of None \<Rightarrow> []
      | Some v \<Rightarrow> if v = [] \<or> 8000 < length v then [] else last_n 50 (uniq (angle_ids v)))"

definition formatMailbox :: "mailbox \<Rightarrow> string" where
  "formatMailbox m =
     (if mb_name m \<noteq> [] then mb_name m @ '' <'' @ mb_address m @ ''>'' else mb_address m)"

definition escapeHtml :: "string \<Rightarrow> string" where
  "escapeHtml value =
     replace_char (CHR 0x27) ''&#39;''
       (replace_char (CHR 0x22) ''&quot;''
         (replace_char (CHR ''>'') ''&gt;''
           (replace_char (CHR ''<'') ''&lt;''
             (replace_char (CHR ''&'') ''&amp;'' value))))"

section \<open>The parsed message\<close>

definition singleMailbox :: "postal_address option \<Rightarrow> mailbox option" where
  "singleMailbox address = (case address of Some (Postal_Mailbox m) \<Rightarrow> Some m | _ \<Rightarrow> None)"

definition mailAttachment :: "postal_attachment \<Rightarrow> string + attachment" where
  "mailAttachment a =
     (case pa_content a of
        None \<Rightarrow> Inl ''attachment decoder returned an unsupported payload''
      | Some content \<Rightarrow>
          Inr \<lparr> at_disposition =
                  (if pa_disposition a = Some ''inline'' \<and> truthy (pa_contentId a)
                   then Inline (boundedHeaderText (opt_or (pa_contentId a) []) 200) else Attached),
                at_filename = safeFilename (pa_filename a),
                at_type = safeContentType (pa_mimeType a),
                at_content = content \<rparr>)"

definition parseRelayEmail :: "(string + postal_email) \<Rightarrow> string + relay_email" where
  \<comment> \<open>the argument is the outcome of \<^verbatim>\<open>PostalMime.parse(raw, ...)\<close>\<close>
  "parseRelayEmail outcome =
     bindE outcome (\<lambda>parsed.
       case singleMailbox (po_from parsed) of
         None \<Rightarrow> Inl ''message From header must contain one mailbox''
       | Some from \<Rightarrow>
           if normalizeMailbox (mb_address from) = []
           then Inl ''message From header must contain one mailbox''
           else bindE (traverse mailAttachment (po_attachments parsed)) (\<lambda>attachments.
             Inr \<lparr> pe_from = \<lparr> mb_name = boundedHeaderText (mb_name from) 200,
                              mb_address = normalizeMailbox (mb_address from) \<rparr>,
                   pe_subject = boundedHeaderText (opt_or (po_subject parsed) ''(no subject)'') 998,
                   pe_text = opt_or (po_text parsed) [],
                   pe_html = nonempty (po_html parsed),
                   pe_messageId = (if validMessageId (po_messageId parsed) then po_messageId parsed else None),
                   pe_inReplyTo = (if validMessageId (po_inReplyTo parsed) then po_inReplyTo parsed else None),
                   pe_references = validMessageIds (po_references parsed),
                   pe_attachments = attachments \<rparr>))"

definition safeConversationHeaders :: "relay_email \<Rightarrow> (string \<times> string) list" where
  "safeConversationHeaders parsed =
     (if truthy (pe_inReplyTo parsed) then [(''In-Reply-To'', the (pe_inReplyTo parsed))] else []) @
     (if pe_references parsed \<noteq> [] then [(''References'', join '' '' (pe_references parsed))] else [])"

section \<open>The operator's copy\<close>

definition policyResult :: "operator_delivery_input \<Rightarrow> string" where
  "policyResult input =
     (if di_routeKind input = Personal_Alias \<or> di_operatorCount input = 1
      then ''Delivered to the designated operator''
      else ''Delivered to '' @ show_nat (di_operatorCount input) @ '' authorized operators'')"

definition profileMailbox :: "identity_profile \<Rightarrow> string" where
  "profileMailbox p = ip_displayName p @ '' <'' @ ip_publicAddress p @ ''>''"

definition replyBehavior :: "operator_delivery_input \<Rightarrow> string" where
  "replyBehavior input =
     (if di_replyProcessingMode input \<noteq> Processing_Enabled
      then ''Reply unavailable '' @ [CHR 0x97] @ '' reply relay is not enabled.''
      else (case di_identityProfile input of
        None \<Rightarrow> ''Reply unavailable '' @ [CHR 0x97] @ '' the public identity profile is not configured.''
      | Some profile \<Rightarrow>
          if di_replyAvailability input = Some Quarantined
          then ''Reply unavailable '' @ [CHR 0x97] @ '' this route is quarantined for review.''
          else if di_replyAvailability input = Some Ordinary_Activated
          then ''Reply normally in this inbox. Maildesk will send the response as '' @ profileMailbox profile @ ''.''
          else ''Ordinary replies are not activated. A canary reply requires its own controller admission.''))"

definition bannerText :: "relay_email \<Rightarrow> operator_delivery_input \<Rightarrow> string" where
  "bannerText parsed input =
     join [newline]
       ([''Maildesk route'', '''',
         ''Received at: '' @ di_receivedAddress input,
         ''Original sender: '' @ formatMailbox (pe_from parsed),
         ''Policy result: '' @ policyResult input] @
        (case di_identityProfile input of
           None \<Rightarrow> [] | Some p \<Rightarrow> [''Public reply identity: '' @ profileMailbox p]) @
        ['''', ''Reply behavior:'', replyBehavior input,
         ''Your personal operator address will not be sent to the correspondent.''])"

definition bannerHtml :: "relay_email \<Rightarrow> operator_delivery_input \<Rightarrow> string" where
  \<open>bannerHtml parsed input =
     ''<section style="border:1px solid #cbd5e1;border-radius:8px;padding:16px;margin:0 0 20px;font-family:system-ui,sans-serif;color:#0f172a;background:#f8fafc"><strong>Maildesk route</strong><dl><dt>Received at</dt><dd>'' @
     escapeHtml (di_receivedAddress input) @
     ''</dd><dt>Original sender</dt><dd>'' @ escapeHtml (formatMailbox (pe_from parsed)) @
     ''</dd><dt>Policy result</dt><dd>'' @ escapeHtml (policyResult input) @ ''</dd>'' @
     (case di_identityProfile input of
        None \<Rightarrow> []
      | Some p \<Rightarrow> ''<dt>Public reply identity</dt><dd>'' @ escapeHtml (ip_displayName p) @
                  '' &lt;'' @ escapeHtml (ip_publicAddress p) @ ''&gt;</dd>'') @
     ''</dl><p><strong>Reply behavior:</strong><br>'' @ escapeHtml (replyBehavior input) @
     '' Your personal operator address will not be sent to the correspondent.</p></section>''\<close>

definition buildOperatorDelivery :: "relay_email \<Rightarrow> operator_delivery_input \<Rightarrow> operator_delivery" where
  \<open>buildOperatorDelivery parsed input =
     (let senderLabel = or_else (mb_name (pe_from parsed)) (mb_address (pe_from parsed));
          refs = filter (\<lambda>v. v \<noteq> []) (pe_references parsed @
                   (case pe_messageId parsed of None \<Rightarrow> [] | Some m \<Rightarrow> [m]))
      in \<lparr> od_from_name = boundedHeaderText (senderLabel @ '' via '' @ di_receivedAddress input) 200,
           od_from_email = di_replyIdentity input,
           od_to = di_operator input,
           od_replyTo = di_relayAddress input,
           od_subject = pe_subject parsed,
           od_text = bannerText parsed input @ [newline, newline] @ ''--- Original message ---'' @
                     [newline, newline] @ or_else (pe_text parsed) ''(HTML-only message)'',
           od_html = bannerHtml parsed input @ ''<div>'' @
                     opt_or (pe_html parsed)
                       (''<pre style="white-space:pre-wrap">'' @ escapeHtml (pe_text parsed) @ ''</pre>'') @
                     ''</div>'',
           od_headers =
             [(''X-Maildesk-Delivery-ID'', di_deliveryMessageId input),
              (''X-Maildesk-Original-To'', di_receivedAddress input),
              (''X-Maildesk-Route-Kind'', kind_name (di_routeKind input)),
              (''X-Maildesk-Reply-Identity'', di_replyIdentity input)] @
             (if truthy (pe_messageId parsed) then [(''In-Reply-To'', the (pe_messageId parsed))] else []) @
             (if refs \<noteq> [] then [(''References'', join '' '' refs)] else []),
           od_attachments = pe_attachments parsed \<rparr>)\<close>

section \<open>The reply payload\<close>

fun reply_error_message :: "reply_error \<Rightarrow> string" where
  "reply_error_message Unrecognized_Context = ''operator reply retains unrecognized Maildesk routing context''"
| "reply_error_message No_Public_Message = ''operator reply has no public message after identity normalization''"
| "reply_error_message Signature_Empty = ''identity profile signature is empty''"
| "reply_error_message Retains_Context = ''operator reply retains Maildesk routing context''"
| "reply_error_message Signature_Boundary_Ambiguous = ''operator reply private signature boundary is ambiguous''"

datatype payload_version = V1 | V2

definition outboundReplyPayload ::
  "relay_email \<Rightarrow> identity_profile option \<Rightarrow> payload_version \<Rightarrow> string + mail_payload" where
  \<open>outboundReplyPayload parsed identityProfile payloadVersion =
     (if trim (pe_text parsed) = [] then Inl ''operator replies require a plaintext MIME alternative''
      else
        (let rendered =
           (case identityProfile of
              None \<Rightarrow> Inr (pe_text parsed)
            | Some profile \<Rightarrow>
                (case payloadVersion of
                   V1 \<Rightarrow> renderLegacyClaimedReplyText (pe_text parsed) (ip_signatureText profile)
                           (Some (mb_name (pe_from parsed)))
                 | V2 \<Rightarrow> renderPublicReplyText (pe_text parsed) (ip_signatureText profile)))
         in case rendered of
              Inl e \<Rightarrow> Inl (reply_error_message e)
            | Inr text \<Rightarrow>
                Inr \<lparr> mp_subject = pe_subject parsed, mp_text = Some text,
                      mp_html = Some (''<pre style="white-space:pre-wrap">'' @ escapeHtml text @ ''</pre>''),
                      mp_headers = [], mp_attachments = pe_attachments parsed \<rparr>))\<close>

definition encodedTextCeiling :: "string \<Rightarrow> nat" where
  "encodedTextCeiling value = utf8_length value * 4"

definition ceil_div :: "nat \<Rightarrow> nat \<Rightarrow> nat" where
  "ceil_div a b = (a + b - 1) div b"

definition content_id :: "attachment \<Rightarrow> string option" where
  "content_id a = (case at_disposition a of Inline cid \<Rightarrow> Some cid | Attached \<Rightarrow> None)"

definition attachmentCeiling :: "attachment \<Rightarrow> nat" where
  "attachmentCeiling a =
     (let base64Bytes = ceil_div (length (at_content a)) 3 * 4;
          base64LineBreaks = ceil_div base64Bytes 76 * 2
      in base64Bytes + base64LineBreaks + encodedTextCeiling (at_filename a) +
         encodedTextCeiling (at_type a) + encodedTextCeiling (opt_or (content_id a) []) + 1024)"

definition encodedMessageUpperBound :: "mail_payload \<Rightarrow> nat" where
  "encodedMessageUpperBound input =
     16 * 1024 + encodedTextCeiling (mp_subject input) + encodedTextCeiling (opt_or (mp_text input) []) +
     encodedTextCeiling (opt_or (mp_html input) []) +
     sum_list (map (\<lambda>(name, value). utf8_length name + encodedTextCeiling value + 4) (mp_headers input)) +
     sum_list (map attachmentCeiling (mp_attachments input))"

definition assertWithinRelayLimit :: "mail_payload \<Rightarrow> operator_delivery_config \<Rightarrow> string + unit" where
  "assertWithinRelayLimit input config =
     throwIf (odc_maxEncodedMessageBytes config < encodedMessageUpperBound input)
       ''maildesk relay message exceeds the configured encoded-size limit''"

section \<open>Digests and identities\<close>

definition identityProfileDigestInputV1 :: "identity_profile \<Rightarrow> string \<Rightarrow> jv" where
  "identityProfileDigestInputV1 profile signatureSha256 =
     JObject [(''schema_version'', JInt 1), (''profile_ref'', JString (ip_profileRef profile)),
              (''public_address'', JString (lower (trim (ip_publicAddress profile)))),
              (''display_name'', JString (ip_displayName profile)),
              (''signature_profile_ref'', JString (ip_signatureProfileRef profile)),
              (''signature_sha256'', JString signatureSha256),
              (''sender_adapter'', JString (adapter_name (ip_senderAdapter profile)))]"

definition publicIdentityProfileSha256 :: "platform \<Rightarrow> identity_profile \<Rightarrow> string" where
  "publicIdentityProfileSha256 pf profile =
     sha256Hex pf (json_stringify
       (identityProfileDigestInputV1 profile (sha256Hex pf (ip_signatureText profile))))"

fun insert_by :: "('a \<Rightarrow> 'a \<Rightarrow> bool) \<Rightarrow> 'a \<Rightarrow> 'a list \<Rightarrow> 'a list" where
  "insert_by le x [] = [x]"
| "insert_by le x (y # ys) = (if le x y then x # y # ys else y # insert_by le x ys)"

definition sort_by :: "('a \<Rightarrow> 'a \<Rightarrow> bool) \<Rightarrow> 'a list \<Rightarrow> 'a list" where
  \<comment> \<open>the stable \<^verbatim>\<open>Array.prototype.sort\<close> under the order of its comparator\<close>
  "sort_by le xs = foldr (insert_by le) xs []"

definition attachment_json :: "platform \<Rightarrow> attachment \<Rightarrow> jv" where
  "attachment_json pf a =
     JObject [(''disposition'', JString (case at_disposition a of Inline _ \<Rightarrow> ''inline'' | Attached \<Rightarrow> ''attachment'')),
              (''content_id'', jopt (content_id a)), (''filename'', JString (at_filename a)),
              (''type'', JString (at_type a)),
              (''content_sha256'', JString (sha256Hex_bytes pf (at_content a)))]"

definition outboundRelayPayloadSha256 :: "platform \<Rightarrow> mail_payload \<Rightarrow> string" where
  "outboundRelayPayloadSha256 pf payload =
     sha256Hex pf (json_stringify
       (JObject [(''subject'', JString (mp_subject payload)), (''text'', jopt (mp_text payload)),
                 (''html'', jopt (mp_html payload)),
                 (''headers'', JObject (map (\<lambda>(k, v). (k, JString v))
                    (sort_by (\<lambda>l r. pf_locale_le pf (fst l) (fst r)) (mp_headers payload)))),
                 (''attachments'', JArray (map (attachment_json pf) (mp_attachments payload)))]))"

definition identity_char :: "char \<Rightarrow> bool" where
  \<comment> \<open>the class \<^verbatim>\<open>[\x21-\x3b\x3d\x3f-\x7e]\<close>\<close>
  "identity_char c \<longleftrightarrow> (33 \<le> code c \<and> code c \<le> 59) \<or> code c = 61 \<or> (63 \<le> code c \<and> code c \<le> 126)"

definition messageIdentity :: "string option \<Rightarrow> string option" where
  "messageIdentity value =
     (case value of None \<Rightarrow> None
      | Some v \<Rightarrow>
          if v \<noteq> [] \<and> length v \<le> 998 \<and> 3 \<le> length v \<and> hd v = CHR ''<'' \<and> last v = CHR ''>'' \<and>
             list_all identity_char (butlast (tl v))
          then Some v else None)"

definition replyAttemptIdentities :: "platform \<Rightarrow> string \<Rightarrow> string \<Rightarrow> string + (string \<times> string)" where
  \<comment> \<open>the pair (\<^verbatim>\<open>current\<close>, \<^verbatim>\<open>legacy\<close>)\<close>
  "replyAttemptIdentities pf relayId messageId =
     (case messageIdentity (Some messageId) of
        None \<Rightarrow> Inl ''invalid opaque message identity''
      | Some identity \<Rightarrow>
          Inr (''relay-attempt:'' @ sha256Hex pf (''maildesk-reply-identity-v2'' @ [CHR 0x00] @ relayId @ [CHR 0x00] @ identity),
               ''relay-attempt:'' @ sha256Hex pf (relayId @ [CHR 0x00] @ lower identity)))"

section \<open>Lemmas on mailboxes and tokens\<close>

definition is_mailbox :: "string \<Rightarrow> bool" where
  \<comment> \<open>a normal form of \<^const>\<open>normalizeMailbox\<close>\<close>
  "is_mailbox m \<longleftrightarrow>
     length m \<le> 320 \<and> lower m = m \<and> list_all (\<lambda>c. \<not> is_ws c \<and> \<not> is_control c) m \<and>
     0 < last_index_of (CHR ''@'') m \<and> valid_domain (drop (nat (last_index_of (CHR ''@'') m + 1)) m)"

lemma is_mailboxI:
  assumes "l \<noteq> []" "valid_domain d" "length l + length d \<le> 319" "lower l = l"
    "\<And>c. c \<in> set l \<Longrightarrow> \<not> is_ws c \<and> \<not> is_control c"
  shows "is_mailbox (l @ CHR ''@'' # d)"
proof -
  note vd = valid_domain_facts [OF assms(2)]
  have dc: "\<And>c. c \<in> set d \<Longrightarrow> \<not> is_ws c \<and> \<not> is_control c"
    using valid_domain_chars [OF assms(2)] domain_char_facts by blast
  have at: "\<not> is_ws (CHR ''@'') \<and> \<not> is_control (CHR ''@'') \<and> lower_char (CHR ''@'') = CHR ''@''"
    by (simp add: js_defs lower_char_def)
  have "lower (l @ CHR ''@'' # d) = l @ CHR ''@'' # d"
    using vd(1) assms(4) at by (simp add: lower_def)
  then show ?thesis
    using assms dc at last_index_of_append [OF vd(3), of l]
    by (auto simp: is_mailbox_def list_all_iff nat_add_distrib)
qed

lemma is_mailbox_form:
  assumes "is_mailbox m"
  obtains l d where "m = l @ CHR ''@'' # d" and "l \<noteq> []" and "valid_domain d" and "length m \<le> 320"
proof -
  from assms have "CHR ''@'' \<in> set m"
    by (auto simp: is_mailbox_def last_index_of_def split: if_splits)
  then obtain l d where "m = l @ CHR ''@'' # d" "CHR ''@'' \<notin> set d"
    "last_index_of (CHR ''@'') m = int (length l)"
    by (rule last_index_of_split)
  then show thesis
    using that [of l d] assms by (auto simp: is_mailbox_def nat_add_distrib)
qed

lemma is_mailbox_normal: "is_mailbox m \<Longrightarrow> normalizeMailbox m = m"
proof -
  assume m: "is_mailbox m"
  obtain l d where f: "m = l @ CHR ''@'' # d" "l \<noteq> []" "valid_domain d" "length m \<le> 320"
    using m by (rule is_mailbox_form)
  have t: "lower (trim m) = m"
    using m trim_no_ws [of m] by (auto simp: is_mailbox_def list_all_iff)
  note vd = valid_domain_facts [OF f(3)]
  have at: "last_index_of (CHR ''@'') m = int (length l)"
    using f(1) last_index_of_append [OF vd(3)] by simp
  have dr: "drop (nat (int (length l) + 1)) m = d"
    using f(1) by (simp add: nat_add_distrib)
  have noctl: "\<not> list_ex (\<lambda>c. is_ws c \<or> is_control c) m"
    using m by (auto simp: is_mailbox_def list_all_iff list_ex_iff)
  show ?thesis
    unfolding normalizeMailbox_def Let_def t at dr
    using f vd noctl by auto
qed

lemma normalizeMailbox_is_mailbox: "normalizeMailbox v \<noteq> [] \<Longrightarrow> is_mailbox (normalizeMailbox v)"
  by (auto simp: normalizeMailbox_def Let_def is_mailbox_def list_all_iff list_ex_iff split: if_splits)

lemma normalizeMailbox_Nil: "normalizeMailbox [] = []"
  by (simp add: normalizeMailbox_def Let_def last_index_of_def trim_def trim_start_def trim_end_def)

lemma normalizeMailbox_idem: "normalizeMailbox (normalizeMailbox v) = normalizeMailbox v"
  by (cases "normalizeMailbox v = []")
     (simp_all add: normalizeMailbox_Nil is_mailbox_normal normalizeMailbox_is_mailbox)

lemma relay_mailbox:
  assumes "is_relay_token t" "valid_domain d"
  shows "is_mailbox (''r+'' @ t @ ''@'' @ d)"
proof -
  have hx: "\<And>c. c \<in> set t \<Longrightarrow> is_hex c" and len: "length t = 62"
    using assms(1) by (auto simp: is_relay_token_def list_all_iff)
  have ctl: "\<And>c. is_hex c \<Longrightarrow> \<not> is_control c"
    by (auto simp: is_hex_def is_digit_def is_control_def)
  have "lower (''r+'' @ t) = ''r+'' @ t"
    using hx is_hex_lower by (auto simp: lower_def lower_char_def code_def map_idI)
  moreover have "\<And>c. c \<in> set (''r+'' @ t) \<Longrightarrow> \<not> is_ws c \<and> \<not> is_control c"
    using hx is_hex_not_ws ctl by (auto simp: js_defs)
  ultimately show ?thesis
    using is_mailboxI [of "''r+'' @ t" d] assms(2) len by (simp add: valid_domain_def)
qed

lemma relayTokenFromRecipient_of:
  assumes "normalizeMailbox recipient = ''r+'' @ t @ ''@'' @ d" "is_relay_token t"
  shows "relayTokenFromRecipient recipient d = Some t"
proof -
  have "take (length (''r+'' @ t @ ''@'' @ d) - length (''@'' @ d)) (''r+'' @ t @ ''@'' @ d) = ''r+'' @ t"
    by simp
  moreover have "suffix (''@'' @ d) (''r+'' @ t @ ''@'' @ d)"
    by (simp add: suffix_def)
  ultimately show ?thesis
    unfolding relayTokenFromRecipient_def Let_def assms(1) using assms(2) by simp
qed

lemma relayTokenFromRecipient_sound:
  assumes "relayTokenFromRecipient recipient d = Some t"
  shows "normalizeMailbox recipient = ''r+'' @ t @ ''@'' @ d \<and> (is_relay_token t \<or> is_legacy_relay_token t)"
proof -
  let ?m = "normalizeMailbox recipient"
  from assms have sx: "suffix (''@'' @ d) ?m"
    and px: "prefix ''r+'' (take (length ?m - length (''@'' @ d)) ?m)"
    and t: "t = drop 2 (take (length ?m - length (''@'' @ d)) ?m)"
    and ok: "is_relay_token t \<or> is_legacy_relay_token t"
    by (auto simp: relayTokenFromRecipient_def Let_def split: if_splits)
  from sx obtain p where p: "?m = p @ ''@'' @ d" by (auto simp: suffix_def)
  from px p obtain q where "p = ''r+'' @ q" by (auto simp: prefix_def)
  with p t ok show ?thesis by simp
qed

lemma generateRelayToken_valid: "length bytes = 31 \<Longrightarrow> is_relay_token (generateRelayToken bytes)"
  by (auto simp: is_relay_token_def generateRelayToken_def list_all_iff dest: hex_chars)

section \<open>Lemmas on header text\<close>

lemma trim_set: "set (trim s) \<subseteq> set s"
proof -
  have d: "set (dropWhile P xs) \<subseteq> set xs" for P and xs :: string
    by (auto dest: set_dropWhileD)
  show ?thesis
    using d [of is_ws s] d [of is_ws "rev (dropWhile is_ws s)"]
    unfolding trim_def trim_start_def trim_end_def by auto
qed

lemma squeeze_controls_chars: "c \<in> set (squeeze_controls s) \<Longrightarrow> \<not> is_control c"
proof (induction s rule: squeeze_controls.induct)
  case 1
  then show ?case by simp
next
  case (2 x s)
  have sp: "\<not> is_control (CHR 0x20)" by (simp add: js_defs)
  show ?case using 2 sp by (auto split: if_splits list.splits)
qed

definition header_safe :: "nat \<Rightarrow> string \<Rightarrow> bool" where
  "header_safe n s \<longleftrightarrow> length s \<le> n \<and> list_all (\<lambda>c. \<not> is_control c) s"

lemma boundedHeaderText_safe [intro]: "header_safe n (boundedHeaderText v n)"
proof -
  have "set (take n (trim (squeeze_controls v))) \<subseteq> set (squeeze_controls v)"
    using trim_set set_take_subset by fast
  then show ?thesis
    using squeeze_controls_chars by (auto simp: header_safe_def boundedHeaderText_def list_all_iff)
qed

lemma squeeze_controls_set: "set (squeeze_controls s) \<subseteq> insert (CHR 0x20) (set s)"
proof (induction s)
  case Nil
  show ?case by simp
next
  case (Cons c s)
  then show ?case by (cases s) auto
qed

lemma boundedHeaderText_set: "set (boundedHeaderText v n) \<subseteq> insert (CHR 0x20) (set v)"
proof -
  have "set (boundedHeaderText v n) \<subseteq> set (trim (squeeze_controls v))"
    by (simp add: boundedHeaderText_def set_take_subset)
  also have "\<dots> \<subseteq> set (squeeze_controls v)" by (rule trim_set)
  also have "\<dots> \<subseteq> insert (CHR 0x20) (set v)" by (rule squeeze_controls_set)
  finally show ?thesis .
qed

lemma safeFilename_no_separator:
  "CHR ''/'' \<notin> set (safeFilename v) \<and> CHR 0x5C \<notin> set (safeFilename v)"
proof -
  let ?m = "map (\<lambda>c. if c \<in> {CHR 0x0D, CHR 0x0A, CHR 0x5C, CHR ''/''} then CHR ''_'' else c)
              (opt_or v ''attachment.bin'')"
  have "CHR ''/'' \<notin> set ?m \<and> CHR 0x5C \<notin> set ?m" by auto
  then have "CHR ''/'' \<notin> set (or_else (trim ?m) ''attachment.bin'') \<and>
             CHR 0x5C \<notin> set (or_else (trim ?m) ''attachment.bin'')"
    using trim_set [of ?m] by (auto simp: or_else_def)
  then show ?thesis
    unfolding safeFilename_def Let_def using boundedHeaderText_set by blast
qed

definition attachment_safe :: "attachment \<Rightarrow> bool" where
  "attachment_safe a \<longleftrightarrow>
     header_safe 255 (at_filename a) \<and> CHR ''/'' \<notin> set (at_filename a) \<and> CHR 0x5C \<notin> set (at_filename a) \<and>
     is_media_type (at_type a) \<and>
     (case at_disposition a of Inline cid \<Rightarrow> header_safe 200 cid | Attached \<Rightarrow> True)"

lemma safeContentType_valid: "is_media_type (safeContentType v)"
proof -
  have "is_media_type ''application/octet-stream''"
    by (simp add: is_media_type_def media_char_def js_defs)
  then show ?thesis by (simp add: safeContentType_def Let_def)
qed

lemma mailAttachment_safe: "mailAttachment a = Inr b \<Longrightarrow> attachment_safe b"
  using safeFilename_no_separator
  by (auto simp: mailAttachment_def attachment_safe_def safeContentType_valid safeFilename_def Let_def
      split: option.splits)

lemma validMessageIds_valid:
  "x \<in> set (validMessageIds v) \<Longrightarrow> is_angle_id x"
  using set_last_n
  by (fastforce simp: validMessageIds_def dest: angle_ids_valid split: option.splits if_splits)

lemma validMessageIds_bounded: "length (validMessageIds v) \<le> 50" "distinct (validMessageIds v)"
  by (auto simp: validMessageIds_def length_last_n distinct_last_n split: option.splits)

lemma validMessageId_iff: "validMessageId (Some m) \<longleftrightarrow> length m \<le> 998 \<and> is_angle_id m"
  by (auto simp: validMessageId_def is_angle_id_def)

definition relay_email_ok :: "relay_email \<Rightarrow> bool" where
  "relay_email_ok e \<longleftrightarrow>
     is_mailbox (mb_address (pe_from e)) \<and> header_safe 200 (mb_name (pe_from e)) \<and>
     header_safe 998 (pe_subject e) \<and>
     (\<forall>m. pe_messageId e = Some m \<longrightarrow> length m \<le> 998 \<and> is_angle_id m) \<and>
     (\<forall>m. pe_inReplyTo e = Some m \<longrightarrow> length m \<le> 998 \<and> is_angle_id m) \<and>
     length (pe_references e) \<le> 50 \<and> distinct (pe_references e) \<and> list_all is_angle_id (pe_references e) \<and>
     list_all attachment_safe (pe_attachments e)"

lemma traverse_mailAttachment_safe:
  "traverse mailAttachment xs = Inr ys \<Longrightarrow> list_all attachment_safe ys"
  by (auto simp: traverse_Inr list_all_length list_all2_conv_all_nth mailAttachment_safe)

lemma parseRelayEmail_ok:
  assumes "parseRelayEmail outcome = Inr e"
  shows "relay_email_ok e"
proof -
  from assms obtain parsed where "outcome = Inr parsed"
    by (cases outcome) (auto simp: parseRelayEmail_def)
  moreover obtain sender where "singleMailbox (po_from parsed) = Some sender"
    using assms calculation by (cases "singleMailbox (po_from parsed)") (auto simp: parseRelayEmail_def)
  moreover have nm: "normalizeMailbox (mb_address sender) \<noteq> []"
    using assms calculation by (auto simp: parseRelayEmail_def)
  moreover obtain as where as: "traverse mailAttachment (po_attachments parsed) = Inr as"
    using assms calculation
    by (cases "traverse mailAttachment (po_attachments parsed)") (auto simp: parseRelayEmail_def)
  ultimately have e: "e =
             \<lparr> pe_from = \<lparr> mb_name = boundedHeaderText (mb_name sender) 200,
                          mb_address = normalizeMailbox (mb_address sender) \<rparr>,
               pe_subject = boundedHeaderText (opt_or (po_subject parsed) ''(no subject)'') 998,
               pe_text = opt_or (po_text parsed) [],
               pe_html = nonempty (po_html parsed),
               pe_messageId = (if validMessageId (po_messageId parsed) then po_messageId parsed else None),
               pe_inReplyTo = (if validMessageId (po_inReplyTo parsed) then po_inReplyTo parsed else None),
               pe_references = validMessageIds (po_references parsed),
               pe_attachments = as \<rparr>"
    using assms by (simp add: parseRelayEmail_def)
  show ?thesis
    unfolding relay_email_ok_def e
    using normalizeMailbox_is_mailbox [OF nm] traverse_mailAttachment_safe [OF as] validMessageIds_bounded
    by (auto simp: validMessageId_iff list_all_iff dest: validMessageIds_valid)
qed

lemma references_roundtrip:
  assumes "parseRelayEmail outcome = Inr e" and "(''References'', v) \<in> set (safeConversationHeaders e)"
  shows "angle_ids v = pe_references e"
proof -
  have "v = join '' '' (pe_references e)"
    using assms(2) by (auto simp: safeConversationHeaders_def split: if_splits)
  moreover have "list_all is_angle_id (pe_references e)"
    using parseRelayEmail_ok [OF assms(1)] by (simp add: relay_email_ok_def)
  ultimately show ?thesis by (simp add: angle_ids_join list_all_iff)
qed

section \<open>Lemmas on HTML text\<close>

definition html_char :: "char \<Rightarrow> string" where
  "html_char c =
     (if c = CHR ''&'' then ''&amp;'' else if c = CHR ''<'' then ''&lt;'' else if c = CHR ''>'' then ''&gt;''
      else if c = CHR 0x22 then ''&quot;'' else if c = CHR 0x27 then ''&#39;'' else [c])"

lemma replace_char_Cons: "replace_char c r (x # s) = (if x = c then r else [x]) @ replace_char c r s"
  by (simp add: replace_char_def)

lemma replace_char_Nil [simp]: "replace_char c r [] = []"
  by (simp add: replace_char_def)

lemma escapeHtml_Nil [simp]: "escapeHtml [] = []"
  by (simp add: escapeHtml_def)

lemma escapeHtml_Cons: "escapeHtml (c # s) = html_char c @ escapeHtml s"
proof -
  consider "c = CHR ''&''" | "c = CHR ''<''" | "c = CHR ''>''" | "c = CHR 0x22" | "c = CHR 0x27"
    | "html_char c = [c]" "c \<noteq> CHR ''&''" "c \<noteq> CHR ''<''" "c \<noteq> CHR ''>''" "c \<noteq> CHR 0x22" "c \<noteq> CHR 0x27"
    by (auto simp: html_char_def)
  then show ?thesis
    by cases (simp_all add: escapeHtml_def replace_char_Cons html_char_def)
qed

lemma escapeHtml_concat: "escapeHtml s = concat (map html_char s)"
  by (induction s) (simp_all add: escapeHtml_Cons)

lemma html_char_safe: "c \<in> set (html_char d) \<Longrightarrow> c \<notin> {CHR ''<'', CHR ''>'', CHR 0x22, CHR 0x27}"
  by (auto simp: html_char_def split: if_splits)

lemma escapeHtml_safe: "c \<in> set (escapeHtml s) \<Longrightarrow> c \<notin> {CHR ''<'', CHR ''>'', CHR 0x22, CHR 0x27}"
  by (auto simp: escapeHtml_concat dest: html_char_safe)

lemma html_char_prefix_free: "html_char c @ s = html_char d @ t \<Longrightarrow> c = d \<and> s = t"
  by (auto simp: html_char_def split: if_splits)

lemma html_char_not_Nil [simp]: "html_char c \<noteq> []"
  by (simp add: html_char_def)

lemma escapeHtml_inj: "escapeHtml s = escapeHtml t \<Longrightarrow> s = t"
proof (induction s arbitrary: t)
  case Nil
  then show ?case by (cases t) (simp_all add: escapeHtml_Cons)
next
  case (Cons c s)
  then show ?case
    by (cases t) (auto simp: escapeHtml_Cons dest: html_char_prefix_free)
qed

section \<open>Lemmas on the size bound\<close>

definition attachment_bytes :: "attachment \<Rightarrow> nat" where
  "attachment_bytes a =
     length (at_content a) + utf8_length (at_filename a) + utf8_length (at_type a) +
     utf8_length (opt_or (content_id a) [])"

definition payload_bytes :: "mail_payload \<Rightarrow> nat" where
  \<comment> \<open>the bytes of everything a payload carries\<close>
  "payload_bytes p =
     utf8_length (mp_subject p) + utf8_length (opt_or (mp_text p) []) + utf8_length (opt_or (mp_html p) []) +
     sum_list (map (\<lambda>(n, v). utf8_length n + utf8_length v) (mp_headers p)) +
     sum_list (map attachment_bytes (mp_attachments p))"

lemma ceil_div_mult: "0 < b \<Longrightarrow> a \<le> ceil_div a b * b"
proof -
  assume b: "0 < b"
  have "(a + b - 1) div b * b = (a + b - 1) - (a + b - 1) mod b"
    by (metis minus_mod_eq_div_mult)
  moreover have "(a + b - 1) mod b \<le> b - 1"
    using b by (metis Suc_pred' less_Suc_eq_le mod_less_divisor)
  ultimately show ?thesis using b by (simp add: ceil_div_def)
qed

lemma attachmentCeiling_bound: "attachment_bytes a + 1024 \<le> attachmentCeiling a"
  using ceil_div_mult [of 3 "length (at_content a)"]
  by (simp add: attachment_bytes_def attachmentCeiling_def Let_def encodedTextCeiling_def)

lemma sum_list_mono_map: "(\<And>x. x \<in> set xs \<Longrightarrow> f x \<le> (g x :: nat)) \<Longrightarrow> sum_list (map f xs) \<le> sum_list (map g xs)"
  by (rule sum_list_mono)

lemma encodedMessageUpperBound_bytes: "payload_bytes p + 16384 \<le> encodedMessageUpperBound p"
proof -
  have "sum_list (map attachment_bytes (mp_attachments p)) \<le> sum_list (map attachmentCeiling (mp_attachments p))"
    using attachmentCeiling_bound by (intro sum_list_mono_map) (meson le_add1 le_trans)
  moreover have "sum_list (map (\<lambda>(n, v). utf8_length n + utf8_length v) (mp_headers p)) \<le>
      sum_list (map (\<lambda>(n, v). utf8_length n + encodedTextCeiling v + 4) (mp_headers p))"
    by (intro sum_list_mono_map) (auto simp: encodedTextCeiling_def)
  ultimately show ?thesis
    by (simp add: payload_bytes_def encodedMessageUpperBound_def encodedTextCeiling_def)
qed

section \<open>Lemmas on the payload digest\<close>

lemma mset_insert_by [simp]: "mset (insert_by le x xs) = add_mset x (mset xs)"
  by (induction xs) auto

lemma mset_sort_by [simp]: "mset (sort_by le xs) = mset xs"
  by (induction xs) (auto simp: sort_by_def)

lemma set_insert_by [simp]: "set (insert_by le x xs) = insert x (set xs)"
  by (induction xs) auto

lemma insert_by_sorted:
  assumes "\<And>x y. le x y \<or> le y x" "\<And>x y z. le x y \<Longrightarrow> le y z \<Longrightarrow> le x z" "sorted_wrt le xs"
  shows "sorted_wrt le (insert_by le x xs)"
  using assms(3)
proof (induction xs)
  case Nil
  then show ?case by simp
next
  case (Cons y ys)
  then show ?case using assms(1,2) by auto
qed

lemma sort_by_sorted:
  assumes "\<And>x y. le x y \<or> le y x" "\<And>x y z. le x y \<Longrightarrow> le y z \<Longrightarrow> le x z"
  shows "sorted_wrt le (sort_by le xs)"
proof (induction xs)
  case Nil
  then show ?case by (simp add: sort_by_def)
next
  case (Cons x xs)
  then show ?case
    using insert_by_sorted [where le = le and x = x and xs = "sort_by le xs"] assms
    by (simp add: sort_by_def)
qed

lemma sorted_wrt_unique:
  assumes "\<And>x y. x \<in> set xs \<Longrightarrow> y \<in> set xs \<Longrightarrow> le x y \<Longrightarrow> le y x \<Longrightarrow> x = y"
  shows "sorted_wrt le xs \<Longrightarrow> sorted_wrt le ys \<Longrightarrow> mset xs = mset ys \<Longrightarrow> xs = ys"
  using assms
proof (induction xs arbitrary: ys)
  case Nil
  then show ?case by simp
next
  case (Cons x xs)
  then obtain y zs where ys: "ys = y # zs" by (cases ys) auto
  have st: "set (x # xs) = set (y # zs)"
    using Cons.prems(3) ys by (metis set_mset_mset)
  have "x = y"
  proof (rule ccontr)
    assume "x \<noteq> y"
    then have "y \<in> set xs" and "x \<in> set zs" using st by (auto simp: insert_eq_iff)
    then have "le x y" and "le y x" using Cons.prems(1,2) ys by auto
    then show False using Cons.prems(4) [of x y] \<open>x \<noteq> y\<close> \<open>y \<in> set xs\<close> by simp
  qed
  moreover have "xs = zs"
    using Cons.IH [of zs] Cons.prems ys \<open>x = y\<close> by auto
  ultimately show ?case using ys by simp
qed

definition locale_order :: "(string \<Rightarrow> string \<Rightarrow> bool) \<Rightarrow> bool" where
  \<comment> \<open>the contract of \<^verbatim>\<open>localeCompare\<close>: its sign is a total preorder\<close>
  "locale_order le \<longleftrightarrow> (\<forall>x y. le x y \<or> le y x) \<and> (\<forall>x y z. le x y \<longrightarrow> le y z \<longrightarrow> le x z)"

lemma sort_headers_unique:
  assumes "locale_order le" "mset hs = mset hs'"
    and "\<And>h h'. h \<in> set hs \<Longrightarrow> h' \<in> set hs \<Longrightarrow> le (fst h) (fst h') \<Longrightarrow> le (fst h') (fst h) \<Longrightarrow> h = h'"
  shows "sort_by (\<lambda>l r. le (fst l) (fst r)) hs = sort_by (\<lambda>l r. le (fst l) (fst r)) hs'"
proof (rule sorted_wrt_unique [where le = "\<lambda>l r. le (fst l) (fst r)"])
  show "sorted_wrt (\<lambda>l r. le (fst l) (fst r)) (sort_by (\<lambda>l r. le (fst l) (fst r)) hs)"
    and "sorted_wrt (\<lambda>l r. le (fst l) (fst r)) (sort_by (\<lambda>l r. le (fst l) (fst r)) hs')"
    by (rule sort_by_sorted; use assms(1) in \<open>unfold locale_order_def, blast\<close>)+
  show "mset (sort_by (\<lambda>l r. le (fst l) (fst r)) hs) = mset (sort_by (\<lambda>l r. le (fst l) (fst r)) hs')"
    using assms(2) by simp
  have st: "set (sort_by (\<lambda>l r. le (fst l) (fst r)) hs) = set hs"
    by (metis mset_sort_by set_mset_mset)
  show "h = h'" if "h \<in> set (sort_by (\<lambda>l r. le (fst l) (fst r)) hs)"
    "h' \<in> set (sort_by (\<lambda>l r. le (fst l) (fst r)) hs)" "le (fst h) (fst h')" "le (fst h') (fst h)" for h h'
    using that st assms(3) by simp
qed

lemma payload_digest_header_order:
  assumes "locale_order (pf_locale_le pf)" "mset hs = mset (mp_headers p)"
    and "\<And>h h'. h \<in> set hs \<Longrightarrow> h' \<in> set hs \<Longrightarrow> pf_locale_le pf (fst h) (fst h') \<Longrightarrow>
           pf_locale_le pf (fst h') (fst h) \<Longrightarrow> h = h'"
  shows "outboundRelayPayloadSha256 pf (p\<lparr>mp_headers := hs\<rparr>) = outboundRelayPayloadSha256 pf p"
  using sort_headers_unique [OF assms] by (simp add: outboundRelayPayloadSha256_def)

text \<open>The operator's own address reaches the message only as its recipient.\<close>

lemma operator_irrelevant:
  "replyBehavior (i\<lparr>di_operator := x\<rparr>) = replyBehavior i"
  "policyResult (i\<lparr>di_operator := x\<rparr>) = policyResult i"
  by (cases "di_identityProfile i"; simp add: replyBehavior_def policyResult_def)+

lemma operator_address_only_recipient:
  "buildOperatorDelivery e (i\<lparr>di_operator := x\<rparr>) = (buildOperatorDelivery e i)\<lparr>od_to := x\<rparr>"
  by (simp add: buildOperatorDelivery_def bannerText_def bannerHtml_def operator_irrelevant Let_def)

end
