(* ===== verification/Effects.thy ===== *)
theory Effects
  imports Database Relay_Mail
begin

text \<open>
  The world the workers act on, and the effects. A worker step is a function from the world to a result
  and the next world (explicit state passing); a thrown value is \<^const>\<open>Inl\<close>.

  Every \<^verbatim>\<open>await\<close> on a binding consumes one tick of the schedule. A tick says how long the call took,
  what other invocations did to the database in the meantime, and how the call ended: \<open>Done\<close>,
  \<open>Fails\<close> (it threw and had no effect) or \<open>Fails_After\<close> (it took effect and its acknowledgement was
  lost). An exhausted schedule is \<open>Done\<close> without interference, so every run is total.
\<close>

section \<open>The world\<close>

datatype exn = Exn string jv                        \<comment> \<open>the message and the property \<^verbatim>\<open>code\<close>\<close>

fun exn_message :: "exn \<Rightarrow> string" where "exn_message (Exn m _) = m"
fun exn_code :: "exn \<Rightarrow> jv" where "exn_code (Exn _ c) = c"

abbreviation Err :: "string \<Rightarrow> exn" where "Err m \<equiv> Exn m JUndefined"

datatype call_end = Done | Fails exn | Fails_After exn

record tick =
  tk_elapsed :: nat
  tk_others :: "db \<Rightarrow> db"
  tk_end :: call_end

record email_message =
  em_from_email :: string
  em_from_name :: "string option"
  em_to :: "string list"
  em_cc :: "string list option"
  em_bcc :: "string list option"
  em_reply_to :: string
  em_subject :: string
  em_text :: "string option"
  em_html :: "string option"
  em_headers :: "(string \<times> string) list"
  em_attachments :: "attachment list option"

datatype provider_call =
    Email_Send email_message                        \<comment> \<open>\<^verbatim>\<open>env.EMAIL.send\<close>\<close>
  | Resend_Post string string                       \<comment> \<open>the idempotency key and the body\<close>

datatype mail_reply = Mail_Accepted "string option" | Mail_Thrown exn

datatype http_reply = Http_Response nat "jv option" | Http_Failed

datatype dns_reply = Dns_Response bool "jv option" | Dns_Failed   \<comment> \<open>\<^verbatim>\<open>response.ok\<close> and the parsed body\<close>

record url =                                        \<comment> \<open>\<^verbatim>\<open>new URL(text)\<close>\<close>
  ur_href :: string
  ur_protocol :: string
  ur_username :: string
  ur_password :: string
  ur_host :: string
  ur_hostname :: string
  ur_origin :: string
  ur_pathname :: string
  ur_search :: string
  ur_hash :: string

record world =
  w_now :: int
  w_db :: db
  w_spool :: "(string \<times> byte list) list"
  w_raw :: "(string \<times> byte list) list"
  w_policy :: "(string \<times> byte list) list"
  w_jobs :: "jv list"
  w_calls :: "provider_call list"
  w_mail :: "mail_reply list"
  w_http :: "http_reply list"
  w_forwards :: "(string \<times> (string \<times> string) list) list"   \<comment> \<open>\<^verbatim>\<open>message.forward\<close>: address, headers\<close>
  w_forward_replies :: "mail_reply list"
  w_affected :: "string list"                       \<comment> \<open>the set of routes that the invocation touched\<close>
  w_dns :: "dns_reply list"
  w_lookups :: "string list"                        \<comment> \<open>the names asked of the resolver\<close>
  w_keys :: "(string \<times> int \<times> byte list) list"       \<comment> \<open>\<^verbatim>\<open>keyCache\<close>: when an entry expires, and the key\<close>
  w_pings :: "string list"                          \<comment> \<open>\<^verbatim>\<open>POST\<close> of the heartbeat, by address\<close>
  w_ping_replies :: "http_reply list"
  w_uuids :: nat
  w_ticks :: "tick list"

definition world_of :: "int \<Rightarrow> db \<Rightarrow> world" where
  \<comment> \<open>a world with no objects, no history and no interference\<close>
  "world_of t d = \<lparr> w_now = t, w_db = d, w_spool = [], w_raw = [], w_policy = [], w_jobs = [], w_calls = [],
     w_mail = [], w_http = [], w_forwards = [], w_forward_replies = [], w_affected = [], w_dns = [], w_lookups = [],
     w_keys = [], w_pings = [], w_ping_replies = [], w_uuids = 0, w_ticks = [] \<rparr>"

record services =
  sv_platform :: platform
  sv_core :: router_core
  sv_env :: maildesk_env
  sv_uuid :: "nat \<Rightarrow> string"                          \<comment> \<open>\<^verbatim>\<open>crypto.randomUUID()\<close>\<close>
  sv_random :: "nat \<Rightarrow> byte list"                     \<comment> \<open>\<^verbatim>\<open>crypto.getRandomValues\<close>\<close>
  sv_julian :: "string \<Rightarrow> int option"                 \<comment> \<open>SQLite's \<^verbatim>\<open>julianday\<close>, in milliseconds\<close>
  sv_timestamp :: "int \<Rightarrow> string"                     \<comment> \<open>SQLite's \<^verbatim>\<open>CURRENT_TIMESTAMP\<close>\<close>
  sv_json_parse :: "string \<Rightarrow> jv option"
  sv_mime :: "byte list \<Rightarrow> string + postal_email"     \<comment> \<open>\<^verbatim>\<open>PostalMime.parse\<close>\<close>
  sv_nfkc :: "string \<Rightarrow> string"                       \<comment> \<open>\<^verbatim>\<open>normalize("NFKC")\<close>\<close>
  sv_utf8_decode :: "byte list \<Rightarrow> string"             \<comment> \<open>\<^verbatim>\<open>new TextDecoder().decode\<close>\<close>
  sv_code_point :: "nat \<Rightarrow> string"                    \<comment> \<open>\<^verbatim>\<open>String.fromCodePoint\<close>\<close>
  sv_number :: "string \<Rightarrow> int option"                 \<comment> \<open>\<^verbatim>\<open>Number(text)\<close>, when that is a safe integer\<close>
  sv_addresses :: "string \<Rightarrow> string option list"      \<comment> \<open>\<^verbatim>\<open>addressParser\<close> of postal-mime: the addresses\<close>
  sv_rsa_bits :: "byte list \<Rightarrow> nat option"            \<comment> \<open>\<^verbatim>\<open>crypto.subtle.importKey\<close>: the modulus length\<close>
  sv_rsa_verify :: "byte list \<Rightarrow> byte list \<Rightarrow> byte list \<Rightarrow> bool"   \<comment> \<open>\<^verbatim>\<open>crypto.subtle.verify\<close>: key, signature, data\<close>
  sv_url :: "string \<Rightarrow> url option"                   \<comment> \<open>\<^const>\<open>None\<close> when the constructor throws\<close>

definition sha :: "services \<Rightarrow> string \<Rightarrow> string" where
  "sha sv = sha256Hex (sv_platform sv)"

section \<open>Sequencing\<close>

type_synonym 'a act = "world \<Rightarrow> (exn + 'a) \<times> world"

definition ret :: "'a \<Rightarrow> 'a act" where
  "ret x w = (Inr x, w)"

definition throw :: "exn \<Rightarrow> 'a act" where
  "throw e w = (Inl e, w)"

definition andThen :: "'a act \<Rightarrow> ('a \<Rightarrow> 'b act) \<Rightarrow> 'b act" where
  "andThen m f w = (case m w of (Inl e, w') \<Rightarrow> (Inl e, w') | (Inr x, w') \<Rightarrow> f x w')"

definition followedBy :: "unit act \<Rightarrow> 'b act \<Rightarrow> 'b act" where
  "followedBy m k = andThen m (\<lambda>_. k)"

definition tryCatch :: "'a act \<Rightarrow> (exn \<Rightarrow> 'a act) \<Rightarrow> 'a act" where
  "tryCatch m h w = (case m w of (Inl e, w') \<Rightarrow> h e w' | (Inr x, w') \<Rightarrow> (Inr x, w'))"

definition ignoreError :: "unit act \<Rightarrow> unit act" where
  \<comment> \<open>\<^verbatim>\<open>.catch(() => undefined)\<close>\<close>
  "ignoreError m = tryCatch m (\<lambda>_. ret ())"

definition unless :: "bool \<Rightarrow> unit act \<Rightarrow> unit act" where
  "unless c m = (if c then ret () else m)"

definition liftE :: "string + 'a \<Rightarrow> 'a act" where
  "liftE r = (case r of Inl m \<Rightarrow> throw (Err m) | Inr x \<Rightarrow> ret x)"

fun forEach :: "('a \<Rightarrow> unit act) \<Rightarrow> 'a list \<Rightarrow> unit act" where
  "forEach f [] = ret ()"
| "forEach f (x # xs) = followedBy (f x) (forEach f xs)"

fun mapAct :: "('a \<Rightarrow> 'b act) \<Rightarrow> 'a list \<Rightarrow> 'b list act" where
  "mapAct f [] = ret []"
| "mapAct f (x # xs) = andThen (f x) (\<lambda>y. andThen (mapAct f xs) (\<lambda>ys. ret (y # ys)))"

fun allOf :: "('a \<Rightarrow> unit act) \<Rightarrow> 'a list \<Rightarrow> unit act" where
  \<comment> \<open>\<^verbatim>\<open>await Promise.all(xs.map(f))\<close>: every call is made; the first failure is thrown\<close>
  "allOf f [] = ret ()"
| "allOf f (x # xs) =
     andThen (tryCatch (andThen (f x) (\<lambda>_. ret None)) (\<lambda>e. ret (Some e))) (\<lambda>failed.
       case failed of
         None \<Rightarrow> allOf f xs
       | Some e \<Rightarrow> andThen (tryCatch (allOf f xs) (\<lambda>_. ret ())) (\<lambda>_. throw e))"

section \<open>Effects\<close>

definition readClock :: "int act" where
  \<comment> \<open>\<^verbatim>\<open>Date.now()\<close>\<close>
  "readClock w = (Inr (w_now w), w)"

definition randomUUID :: "services \<Rightarrow> string act" where
  "randomUUID sv w = (Inr (sv_uuid sv (w_uuids w)), w\<lparr>w_uuids := Suc (w_uuids w)\<rparr>)"

definition begin_call :: "world \<Rightarrow> call_end \<times> world" where
  \<comment> \<open>the time that passes, and what the others do, before a call takes effect\<close>
  "begin_call w =
     (case w_ticks w of
        [] \<Rightarrow> (Done, w)
      | t # ts \<Rightarrow> (tk_end t, w\<lparr>w_ticks := ts, w_now := w_now w + int (tk_elapsed t), w_db := tk_others t (w_db w)\<rparr>))"

definition call :: "(world \<Rightarrow> (exn + 'a) \<times> world) \<Rightarrow> 'a act" where
  \<comment> \<open>an asynchronous call of a binding with the given effect\<close>
  "call eff w =
     (case begin_call w of
        (Done, w') \<Rightarrow> eff w'
      | (Fails e, w') \<Rightarrow> (Inl e, w')
      | (Fails_After e, w') \<Rightarrow> (Inl e, snd (eff w')))"

type_synonym 'a statement = "int \<Rightarrow> db \<Rightarrow> exn + 'a \<times> db"

definition d1 :: "'a statement \<Rightarrow> 'a act" where
  \<comment> \<open>one D1 statement; a statement that a constraint or a trigger aborts changes nothing\<close>
  "d1 stmt = call (\<lambda>w. case stmt (w_now w) (w_db w) of
     Inl e \<Rightarrow> (Inl e, w) | Inr (x, d) \<Rightarrow> (Inr x, w\<lparr>w_db := d\<rparr>))"

definition query :: "(int \<Rightarrow> db \<Rightarrow> 'a) \<Rightarrow> 'a statement" where
  "query f t d = Inr (f t d, d)"

definition command :: "(int \<Rightarrow> db \<Rightarrow> nat \<times> db) \<Rightarrow> nat statement" where
  "command f t d = Inr (f t d)"

fun batch :: "nat statement list \<Rightarrow> nat list statement" where
  \<comment> \<open>\<^verbatim>\<open>env.DB.batch\<close>: one transaction\<close>
  "batch [] t d = Inr ([], d)"
| "batch (s # ss) t d =
     (case s t d of
        Inl e \<Rightarrow> Inl e
      | Inr (n, d') \<Rightarrow> (case batch ss t d' of Inl e \<Rightarrow> Inl e | Inr (ns, d'') \<Rightarrow> Inr (n # ns, d'')))"

definition alist_put :: "string \<Rightarrow> 'b \<Rightarrow> (string \<times> 'b) list \<Rightarrow> (string \<times> 'b) list" where
  "alist_put k v kvs = (k, v) # filter (\<lambda>p. fst p \<noteq> k) kvs"

definition alist_del :: "string \<Rightarrow> (string \<times> 'b) list \<Rightarrow> (string \<times> 'b) list" where
  "alist_del k kvs = filter (\<lambda>p. fst p \<noteq> k) kvs"

definition spoolPut :: "string \<Rightarrow> byte list \<Rightarrow> unit act" where
  "spoolPut k v = call (\<lambda>w. (Inr (), w\<lparr>w_spool := alist_put k v (w_spool w)\<rparr>))"

definition spoolGet :: "string \<Rightarrow> byte list option act" where
  "spoolGet k = call (\<lambda>w. (Inr (map_of (w_spool w) k), w))"

definition spoolDelete :: "string \<Rightarrow> unit act" where
  "spoolDelete k = call (\<lambda>w. (Inr (), w\<lparr>w_spool := alist_del k (w_spool w)\<rparr>))"

definition policyGet :: "string \<Rightarrow> byte list option act" where
  "policyGet k = call (\<lambda>w. (Inr (map_of (w_policy w) k), w))"

definition rawPut :: "string \<Rightarrow> byte list \<Rightarrow> unit act" where
  "rawPut k v = call (\<lambda>w. (Inr (), w\<lparr>w_raw := alist_put k v (w_raw w)\<rparr>))"

definition queueSend :: "jv \<Rightarrow> unit act" where
  "queueSend j = call (\<lambda>w. (Inr (), w\<lparr>w_jobs := w_jobs w @ [j]\<rparr>))"

definition emailSend :: "email_message \<Rightarrow> string option act" where
  \<comment> \<open>one call of the mail service; the message is on the wire whatever the caller learns of it\<close>
  "emailSend m = call (\<lambda>w.
     (let w' = w\<lparr>w_calls := w_calls w @ [Email_Send m], w_mail := tl (w_mail w)\<rparr> in
      case w_mail w of
        Mail_Thrown e # _ \<Rightarrow> (Inl e, w')
      | Mail_Accepted i # _ \<Rightarrow> (Inr i, w')
      | [] \<Rightarrow> (Inr (Some ''message-id''), w')))"

definition httpPost :: "string \<Rightarrow> string \<Rightarrow> (nat \<times> jv option) act" where
  \<comment> \<open>\<^verbatim>\<open>fetch\<close> of the Resend endpoint: the status and the parsed body\<close>
  "httpPost idempotencyKey body = call (\<lambda>w.
     (let w' = w\<lparr>w_calls := w_calls w @ [Resend_Post idempotencyKey body], w_http := tl (w_http w)\<rparr> in
      case w_http w of
        Http_Failed # _ \<Rightarrow> (Inl (Err ''fetch failed''), w')
      | Http_Response s b # _ \<Rightarrow> (Inr (s, b), w')
      | [] \<Rightarrow> (Inr (200, None), w')))"

definition messageForward :: "string \<Rightarrow> (string \<times> string) list \<Rightarrow> string option act" where
  "messageForward to headers = call (\<lambda>w.
     (let w' = w\<lparr>w_forwards := w_forwards w @ [(to, headers)], w_forward_replies := tl (w_forward_replies w)\<rparr> in
      case w_forward_replies w of
        Mail_Thrown e # _ \<Rightarrow> (Inl e, w')
      | Mail_Accepted i # _ \<Rightarrow> (Inr i, w')
      | [] \<Rightarrow> (Inr None, w')))"

definition dnsQuery :: "int \<Rightarrow> string \<Rightarrow> (bool \<times> jv option) act" where
  \<comment> \<open>a lookup that is aborted at the deadline\<close>
  "dnsQuery deadline name = call (\<lambda>w.
     (let w' = w\<lparr>w_lookups := w_lookups w @ [name], w_dns := tl (w_dns w)\<rparr> in
      if deadline \<le> w_now w then (Inl (Err ''request deadline exceeded''), w')
      else (case w_dns w of
              Dns_Response ok body # _ \<Rightarrow> (Inr (ok, body), w')
            | Dns_Failed # _ \<Rightarrow> (Inl (Err ''fetch failed''), w')
            | [] \<Rightarrow> (Inl (Err ''fetch failed''), w'))))"

definition pingPost :: "int \<Rightarrow> string \<Rightarrow> nat act" where
  \<comment> \<open>a request that is aborted at the deadline: the status\<close>
  "pingPost deadline address = call (\<lambda>w.
     (let w' = w\<lparr>w_pings := w_pings w @ [address], w_ping_replies := tl (w_ping_replies w)\<rparr> in
      if deadline \<le> w_now w then (Inl (Err ''request deadline exceeded''), w')
      else (case w_ping_replies w of
              Http_Failed # _ \<Rightarrow> (Inl (Err ''fetch failed''), w')
            | Http_Response s _ # _ \<Rightarrow> (Inr s, w')
            | [] \<Rightarrow> (Inr 200, w'))))"

definition addAffected :: "string \<Rightarrow> unit act" where
  \<comment> \<open>\<^verbatim>\<open>affectedRoutes?.add(routeId)\<close>\<close>
  "addAffected i w = (Inr (), w\<lparr>w_affected := uniq (w_affected w @ [i])\<rparr>)"

section \<open>Lemmas\<close>

lemma ret_run [simp]: "ret x w = (Inr x, w)"
  by (simp add: ret_def)

lemma throw_run [simp]: "throw e w = (Inl e, w)"
  by (simp add: throw_def)

lemma andThen_ret [simp]: "andThen (ret x) f = f x"
  by (simp add: fun_eq_iff andThen_def)

lemma andThen_throw [simp]: "andThen (throw e) f = throw e"
  by (simp add: fun_eq_iff andThen_def)

lemma andThen_assoc: "andThen (andThen m f) g = andThen m (\<lambda>x. andThen (f x) g)"
  by (auto simp: fun_eq_iff andThen_def split: prod.splits sum.splits)

lemma andThen_ret_right [simp]: "andThen m ret = m"
  by (auto simp: fun_eq_iff andThen_def split: prod.splits sum.splits)

lemma liftE_simps [simp]: "liftE (Inr x) = ret x" "liftE (Inl m) = throw (Err m)"
  by (simp_all add: liftE_def)

text \<open>
  A relation between the world before and after that holds of every step, holds of every run: the proof
  principle behind all the safety properties of the workers.
\<close>

definition preserves :: "(world \<Rightarrow> world \<Rightarrow> bool) \<Rightarrow> 'a act \<Rightarrow> bool" where
  "preserves R m \<longleftrightarrow> (\<forall>w. R w (snd (m w)))"

lemma preservesI: "(\<And>w. R w (snd (m w))) \<Longrightarrow> preserves R m"
  by (simp add: preserves_def)

lemma preservesD: "preserves R m \<Longrightarrow> R w (snd (m w))"
  by (simp add: preserves_def)

named_theorems preserves_intros "rules that show a run to respect a relation between worlds"

locale world_relation =
  fixes R :: "world \<Rightarrow> world \<Rightarrow> bool"
  assumes reflexive: "R w w"
    and transitive: "R u v \<Longrightarrow> R v w \<Longrightarrow> R u w"
begin

lemma ret: "preserves R (ret x)"
  by (simp add: preserves_def reflexive)

lemma throw: "preserves R (throw e)"
  by (simp add: preserves_def reflexive)

lemma result: "preserves R (Pair r)"
  by (simp add: preserves_def reflexive)

lemma andThen: "preserves R m \<Longrightarrow> (\<And>x. preserves R (f x)) \<Longrightarrow> preserves R (andThen m f)"
  unfolding preserves_def andThen_def
  by (auto split: prod.splits sum.splits) (metis snd_conv transitive)+

lemma andThen_result:
  assumes "preserves R m" "\<And>x w. fst (m w) = Inr x \<Longrightarrow> preserves R (f x)"
  shows "preserves R (andThen m f)"
proof (rule preservesI)
  fix w
  obtain r v where m: "m w = (r, v)" by (cases "m w")
  then have "R w v" using assms(1) by (metis preservesD snd_conv)
  moreover have "r = Inr x \<Longrightarrow> R v (snd (f x v))" for x
    using assms(2) [of w x] m by (simp add: preserves_def)
  ultimately show "R w (snd (andThen m f w))"
    using m transitive by (cases r) (auto simp: andThen_def)
qed

lemma followedBy: "preserves R m \<Longrightarrow> preserves R k \<Longrightarrow> preserves R (followedBy m k)"
  by (simp add: followedBy_def andThen)

lemma tryCatch: "preserves R m \<Longrightarrow> (\<And>e. preserves R (h e)) \<Longrightarrow> preserves R (tryCatch m h)"
  unfolding preserves_def tryCatch_def
  by (auto split: prod.splits sum.splits) (metis snd_conv transitive)+

lemma ignoreError: "preserves R m \<Longrightarrow> preserves R (ignoreError m)"
  by (simp add: ignoreError_def tryCatch ret)

lemma unless: "(\<not> c \<Longrightarrow> preserves R m) \<Longrightarrow> preserves R (unless c m)"
  by (simp add: unless_def ret)

lemma liftE: "preserves R (liftE r)"
  by (simp add: liftE_def ret throw split: sum.splits)

lemma forEach: "(\<And>x. x \<in> set xs \<Longrightarrow> preserves R (f x)) \<Longrightarrow> preserves R (forEach f xs)"
  by (induction xs) (simp_all add: ret followedBy)

lemma mapAct: "(\<And>x. x \<in> set xs \<Longrightarrow> preserves R (f x)) \<Longrightarrow> preserves R (mapAct f xs)"
  by (induction xs) (auto simp: ret intro!: andThen)

lemma allOf: "(\<And>x. x \<in> set xs \<Longrightarrow> preserves R (f x)) \<Longrightarrow> preserves R (allOf f xs)"
  by (induction xs) (auto simp: ret throw intro!: andThen tryCatch split: option.split)

lemma if_split: "(c \<Longrightarrow> preserves R a) \<Longrightarrow> (\<not> c \<Longrightarrow> preserves R b) \<Longrightarrow> preserves R (if c then a else b)"
  by simp

lemma readClock: "preserves R readClock"
  by (simp add: preserves_def readClock_def reflexive)

lemmas run_rules =
  ret throw result andThen followedBy tryCatch ignoreError unless liftE forEach mapAct allOf readClock

end

lemma begin_call_snd:
  "\<exists>t f ts. snd (begin_call w) = w\<lparr>w_now := w_now w + int t, w_db := f (w_db w), w_ticks := ts\<rparr> \<and>
     (f = id \<or> (\<exists>k \<in> set (w_ticks w). f = tk_others k)) \<and> set ts \<subseteq> set (w_ticks w)"
proof (cases "w_ticks w")
  case Nil
  then show ?thesis
    by (intro exI [of _ 0] exI [of _ id] exI [of _ "[]"]) (simp add: begin_call_def)
next
  case (Cons k ts)
  then show ?thesis
    by (intro exI [of _ "tk_elapsed k"] exI [of _ "tk_others k"] exI [of _ ts]) (auto simp: begin_call_def)
qed

end
