(* ===== verification/Interference.thy ===== *)
theory Interference
  imports Effects
begin

text \<open>
  Reasoning about whole runs. An effect relation relates the world before and after: it is kept by the
  passing of time, by the storage effects, and by every change of the database that its \<open>step\<close> admits;
  then it is kept by every run made of such effects. A trace relation relates what an observer of the
  database and of the provider sees, and is kept by a run when the other invocations keep it too.
\<close>

section \<open>Relations kept by effects\<close>

locale effect_relation = world_relation R for R +
  fixes step :: "db \<Rightarrow> db \<Rightarrow> bool"
  assumes elapse: "R w (snd (begin_call w))"
    and uuids: "R w (w\<lparr>w_uuids := n\<rparr>)"
    and spool: "R w (w\<lparr>w_spool := s\<rparr>)"
    and raw: "R w (w\<lparr>w_raw := r\<rparr>)"
    and jobs: "R w (w\<lparr>w_jobs := j\<rparr>)"
    and database: "step (w_db w) d \<Longrightarrow> R w (w\<lparr>w_db := d\<rparr>)"
begin

lemma call: "(\<And>w. R w (snd (eff w))) \<Longrightarrow> preserves R (call eff)"
  unfolding preserves_def call_def
  by (auto split: prod.splits call_end.splits) (metis elapse snd_conv transitive)+

lemma d1:
  assumes "\<And>t d x d'. stmt t d = Inr (x, d') \<Longrightarrow> step d d'"
  shows "preserves R (d1 stmt)"
  unfolding d1_def
  by (rule call) (auto simp: reflexive intro: database assms split: sum.splits)

lemma d1_query: "preserves R (d1 (query f))"
proof -
  have "preserves R (call (\<lambda>w. (Inr (f (w_now w) (w_db w)), w)))"
    by (rule call) (simp add: reflexive)
  then show ?thesis by (simp add: d1_def query_def)
qed

lemma randomUUID: "preserves R (randomUUID sv)"
  by (rule preservesI) (simp add: randomUUID_def uuids)

lemma spoolPut: "preserves R (spoolPut k v)"
  unfolding spoolPut_def by (rule call) (simp add: spool)

lemma spoolGet: "preserves R (spoolGet k)"
  unfolding spoolGet_def by (rule call) (simp add: reflexive)

lemma spoolDelete: "preserves R (spoolDelete k)"
  unfolding spoolDelete_def by (rule call) (simp add: spool)

lemma policyGet: "preserves R (policyGet k)"
  unfolding policyGet_def by (rule call) (simp add: reflexive)

lemma rawPut: "preserves R (rawPut k v)"
  unfolding rawPut_def by (rule call) (simp add: raw)

lemma queueSend: "preserves R (queueSend j)"
  unfolding queueSend_def by (rule call) (simp add: jobs)

lemmas effect_rules = d1_query randomUUID spoolPut spoolGet spoolDelete policyGet rawPut queueSend

end

section \<open>Interference\<close>

definition seen :: "world \<Rightarrow> db \<times> nat" where
  "seen w = (w_db w, length (w_calls w))"

definition others_respect :: "(db \<times> nat \<Rightarrow> db \<times> nat \<Rightarrow> bool) \<Rightarrow> world \<Rightarrow> bool" where
  "others_respect P w \<longleftrightarrow> (\<forall>k \<in> set (w_ticks w). \<forall>d n. P (d, n) (tk_others k d, n))"

definition under :: "(db \<times> nat \<Rightarrow> db \<times> nat \<Rightarrow> bool) \<Rightarrow> world \<Rightarrow> world \<Rightarrow> bool" where
  "under P w w' \<longleftrightarrow>
     (others_respect P w \<longrightarrow> P (seen w) (seen w') \<and> set (w_ticks w') \<subseteq> set (w_ticks w))"

lemma others_respect_mono: "others_respect P w \<Longrightarrow> set (w_ticks w') \<subseteq> set (w_ticks w) \<Longrightarrow> others_respect P w'"
  by (auto simp: others_respect_def)

lemma others_respect_none [simp]: "w_ticks w = [] \<Longrightarrow> others_respect P w"
  by (simp add: others_respect_def)

lemma underD: "under P w w' \<Longrightarrow> others_respect P w \<Longrightarrow> P (seen w) (seen w')"
  by (simp add: under_def)

lemma under_others: "under P w w' \<Longrightarrow> others_respect P w \<Longrightarrow> others_respect P w'"
  by (auto simp: under_def intro: others_respect_mono)

lemma preserves_underD:
  "preserves (under P) m \<Longrightarrow> others_respect P w \<Longrightarrow>
   P (seen w) (seen (snd (m w))) \<and> others_respect P (snd (m w))"
  using preservesD underD under_others by metis

locale trace_relation =
  fixes P :: "db \<times> nat \<Rightarrow> db \<times> nat \<Rightarrow> bool"
  assumes seen_refl: "P s s"
    and seen_trans: "P s t \<Longrightarrow> P t u \<Longrightarrow> P s u"

sublocale trace_relation \<subseteq> effect_relation "under P" "\<lambda>d d'. \<forall>n. P (d, n) (d', n)"
proof
  fix u v w :: world
  show "under P w w" by (simp add: under_def seen_refl)
  show "under P u v \<Longrightarrow> under P v w \<Longrightarrow> under P u w"
    by (auto simp: under_def intro: seen_trans others_respect_mono)
  show "under P w (snd (begin_call w))"
    by (cases "w_ticks w") (auto simp: under_def begin_call_def seen_def seen_refl others_respect_def)
qed (auto simp: under_def seen_def seen_refl)

section \<open>What is handed to the provider\<close>

definition calls_by :: "(provider_call \<Rightarrow> bool) \<Rightarrow> world \<Rightarrow> world \<Rightarrow> bool" where
  \<comment> \<open>every provider call that is made satisfies the predicate\<close>
  "calls_by good w w' \<longleftrightarrow> (\<exists>cs. w_calls w' = w_calls w @ cs \<and> list_all good cs)"

interpretation calls: effect_relation "calls_by good" "\<lambda>d d'. True" for good
proof
  fix u v w :: world
  show "calls_by good w (snd (begin_call w))"
    by (cases "w_ticks w") (auto simp: calls_by_def begin_call_def)
  show "calls_by good u v \<Longrightarrow> calls_by good v w \<Longrightarrow> calls_by good u w"
    by (fastforce simp: calls_by_def)
qed (auto simp: calls_by_def)

lemma emailSend_calls: "good (Email_Send m) \<Longrightarrow> preserves (calls_by good) (emailSend m)"
  unfolding emailSend_def
  by (rule calls.call) (auto simp: calls_by_def Let_def split: list.splits mail_reply.splits)

lemma httpPost_calls: "good (Resend_Post i b) \<Longrightarrow> preserves (calls_by good) (httpPost i b)"
  unfolding httpPost_def
  by (rule calls.call) (auto simp: calls_by_def Let_def split: list.splits http_reply.splits)

end
