(* ===== verification/Policy.thy ===== *)
theory Policy
  imports Interference
begin

text \<open>
  \<^verbatim>\<open>workers/shared/policy-inventory.ts\<close> and \<^verbatim>\<open>workers/shared/policy-store.ts\<close>: the active policy is the
  revision that the database points at, its stored bytes hash to that revision, and the route inventory
  in the database is exactly what the router projects from it. JSON texts that the code compares as
  strings are compared here as the values they print.
\<close>

section \<open>The route inventory\<close>

definition storage_kind :: "route_decision \<Rightarrow> string" where
  "storage_kind r = (if de_routeKind r = Personal_Alias then ''personal'' else ''role'')"

definition route_storage_id :: "route_decision \<Rightarrow> string" where
  "route_storage_id r = policyStorageId ''route'' [de_domain r, de_localPart r]"

definition own_identity :: "route_decision \<Rightarrow> string \<Rightarrow> operator_identity option" where
  \<comment> \<open>\<^verbatim>\<open>route.operatorReplyIdentities?.[operator]\<close>\<close>
  "own_identity r operator =
     (case de_operatorReplyIdentities r of None \<Rightarrow> None | Some bs \<Rightarrow> map_of bs operator)"

definition routeReplyIdentityBindings :: "route_decision \<Rightarrow> string + string list list" where
  "routeReplyIdentityBindings r =
     (if (case de_operatorReplyIdentities r of None \<Rightarrow> False
          | Some bs \<Rightarrow> order_by id (map fst bs) \<noteq> order_by id (de_operators r))
      then Inl ''operator public identity membership differs from policy''
      else Inr (map (\<lambda>operator.
        [operator,
         case own_identity r operator of None \<Rightarrow> de_defaultReplyIdentity r | Some b \<Rightarrow> oi_publicAddress b,
         if de_operatorReplyIdentities r = None then ''role_first'' else ''personal_first'']) (de_operators r)))"

record inventory_row =
  iv_route_id :: string
  iv_domain_id :: string
  iv_domain :: string
  iv_local_part :: string
  iv_storage_kind :: string
  iv_decision_kind :: string
  iv_reply_identity_id :: string
  iv_reply_identity :: string
  iv_policy_sha256 :: "string option"
  iv_operators :: "string list"
  iv_bindings :: "string list list"

definition inventory_of :: "db \<Rightarrow> route_row \<Rightarrow> inventory_row option" where
  "inventory_of d ar =
     (case (domain_name d (ar_domain_id ar), identity_address d (ar_default_reply_identity_id ar)) of
        (Some dname, Some address) \<Rightarrow> Some
          \<lparr> iv_route_id = ar_id ar, iv_domain_id = ar_domain_id ar, iv_domain = dname,
            iv_local_part = ar_local_part ar, iv_storage_kind = ar_kind ar,
            iv_decision_kind = ar_decision_kind ar,
            iv_reply_identity_id = ar_default_reply_identity_id ar, iv_reply_identity = address,
            iv_policy_sha256 = ar_policy_sha256 ar, iv_operators = route_operator_emails (ar_id ar) d,
            iv_bindings = (case ar_policy_sha256 ar of None \<Rightarrow> []
                           | Some p \<Rightarrow> reply_identity_bindings (ar_id ar) p d) \<rparr>
      | _ \<Rightarrow> None)"

definition policy_inventory :: "db \<Rightarrow> inventory_row list" where
  \<comment> \<open>\<^verbatim>\<open>POLICY_INVENTORY_SQL\<close>\<close>
  "policy_inventory d =
     take 10001 (order_by iv_route_id (List.map_filter (inventory_of d) (filter ar_enabled (db_routes d))))"

definition row_matches :: "string option \<Rightarrow> route_decision \<Rightarrow> inventory_row \<Rightarrow> bool" where
  "row_matches policySha256 route row \<longleftrightarrow>
     iv_domain_id row = policyStorageId ''domain'' [de_domain route] \<and>
     iv_domain row = de_domain route \<and> iv_local_part row = de_localPart route \<and>
     iv_storage_kind row = storage_kind route \<and> iv_decision_kind row = kind_name (de_routeKind route) \<and>
     iv_reply_identity row = de_defaultReplyIdentity route \<and>
     iv_reply_identity_id row = policyStorageId ''identity'' [de_defaultReplyIdentity route] \<and>
     (policySha256 = None \<or> iv_policy_sha256 row = policySha256)"

fun check_inventory ::
  "string option \<Rightarrow> (string \<times> route_decision) list \<Rightarrow> inventory_row list \<Rightarrow> string + unit" where
  "check_inventory policySha256 expected [] = Inr ()"
| "check_inventory policySha256 expected (row # rows) =
     (case map_of expected (iv_route_id row) of
        None \<Rightarrow> Inl ''route projection differs from policy''
      | Some route \<Rightarrow>
          if \<not> row_matches policySha256 route row then Inl ''route projection differs from policy''
          else if order_by id (iv_operators row) \<noteq> de_operators route
          then Inl ''route operator projection differs from policy''
          else bindE (routeReplyIdentityBindings route) (\<lambda>bindings.
            if iv_bindings row \<noteq> bindings then Inl ''operator public identity projection differs from policy''
            else check_inventory policySha256 (alist_del (iv_route_id row) expected) rows))"

definition expected_routes :: "policy_projection \<Rightarrow> (string \<times> route_decision) list" where
  "expected_routes p = fold (\<lambda>(r, _) m. alist_put (route_storage_id r) r m) (pp_routes p) []"

definition assertPolicyInventory ::
  "policy_projection \<Rightarrow> inventory_row list \<Rightarrow> string option \<Rightarrow> string + unit" where
  "assertPolicyInventory projection rows policySha256 =
     (let expected = expected_routes projection in
      if length rows \<noteq> length expected \<or> 10000 < length rows
      then Inl ''route projection membership differs from policy''
      else check_inventory policySha256 expected rows)"

definition guarded_route :: "string \<Rightarrow> route_decision \<Rightarrow> db \<Rightarrow> bool" where
  \<comment> \<open>\<^verbatim>\<open>atomicPolicyRouteMatchSql\<close> with \<^verbatim>\<open>atomicPolicyRouteBindings(route)\<close>, for a route whose bindings exist\<close>
  "guarded_route routeId route d =
     list_ex (\<lambda>ar.
       ar_id ar = routeId \<and> ar_enabled ar \<and> ar_id ar = route_storage_id route \<and>
       ar_domain_id ar = policyStorageId ''domain'' [de_domain route] \<and>
       domain_name d (ar_domain_id ar) = Some (de_domain route) \<and> ar_local_part ar = de_localPart route \<and>
       ar_kind ar = storage_kind route \<and> ar_decision_kind ar = kind_name (de_routeKind route) \<and>
       ar_default_reply_identity_id ar = policyStorageId ''identity'' [de_defaultReplyIdentity route] \<and>
       identity_address d (ar_default_reply_identity_id ar) = Some (de_defaultReplyIdentity route) \<and>
       route_operator_emails (ar_id ar) d = de_operators route \<and>
       Inr (case ar_policy_sha256 ar of None \<Rightarrow> [] | Some p \<Rightarrow> reply_identity_bindings (ar_id ar) p d) =
         routeReplyIdentityBindings route) (db_routes d)"

section \<open>The active policy\<close>

record active_policy_value =
  ap_policy :: jv
  ap_sha256 :: string
  ap_r2ObjectKey :: string
  ap_projection :: policy_projection

record policy_pointer =
  pt_active_policy_sha256 :: string
  pt_active_policy_r2_key :: string
  pt_revision_sha256 :: string
  pt_revision_r2_key :: string
  pt_expected_domain_count :: nat
  pt_expected_route_count :: nat
  pt_projected_route_count :: nat
  pt_projected_domain_count :: nat

definition policy_pointer_of :: "db \<Rightarrow> policy_pointer option" where
  "policy_pointer_of d =
     (case db_runtime d of
        None \<Rightarrow> None
      | Some rs \<Rightarrow>
          (case first_row (\<lambda>pr. pr_policy_sha256 pr = rt_active_policy_sha256 rs) (db_revisions d) of
             None \<Rightarrow> None
           | Some pr \<Rightarrow>
               (let rows = filter (\<lambda>ar. ar_enabled ar \<and> ar_policy_sha256 ar = Some (rt_active_policy_sha256 rs)) (db_routes d)
                in Some \<lparr> pt_active_policy_sha256 = rt_active_policy_sha256 rs,
                     pt_active_policy_r2_key = rt_active_policy_r2_key rs,
                     pt_revision_sha256 = pr_policy_sha256 pr, pt_revision_r2_key = pr_r2_object_key pr,
                     pt_expected_domain_count = pr_expected_domain_count pr,
                     pt_expected_route_count = pr_expected_route_count pr,
                     pt_projected_route_count = length rows,
                     pt_projected_domain_count = length (uniq (map ar_domain_id rows)) \<rparr>)))"

definition pointer_key :: "policy_pointer \<Rightarrow> string" where
  "pointer_key p = ''config/policy/'' @ pt_active_policy_sha256 p @ ''.json''"

definition pointer_agrees :: "policy_pointer \<Rightarrow> bool" where
  "pointer_agrees p \<longleftrightarrow>
     is_sha256_hex (pt_active_policy_sha256 p) \<and>
     pt_active_policy_sha256 p = pt_revision_sha256 p \<and>
     pt_active_policy_r2_key p = pt_revision_r2_key p \<and>
     pt_active_policy_r2_key p = pointer_key p \<and>
     pt_projected_route_count p = pt_expected_route_count p \<and>
     pt_projected_domain_count p = pt_expected_domain_count p"

definition typeof_object :: "jv \<Rightarrow> bool" where
  \<comment> \<open>\<^verbatim>\<open>v && typeof v === "object"\<close>\<close>
  "typeof_object v \<longleftrightarrow> (case v of JObject _ \<Rightarrow> True | JArray _ \<Rightarrow> True | JBuffer _ \<Rightarrow> True | _ \<Rightarrow> False)"

definition parsePolicy :: "services \<Rightarrow> string \<Rightarrow> jv option" where
  "parsePolicy sv value =
     (case sv_json_parse sv value of
        None \<Rightarrow> None
      | Some parsed \<Rightarrow>
          if typeof_object parsed \<and> typeof_object (js_get parsed ''domains'') then Some parsed else None)"

definition router_value :: "router_error + 'a \<Rightarrow> 'a option" where
  "router_value r = (case r of Inl _ \<Rightarrow> None | Inr x \<Rightarrow> Some x)"

definition policy_of_bytes :: "services \<Rightarrow> policy_pointer \<Rightarrow> byte list \<Rightarrow> active_policy_value option" where
  \<comment> \<open>the checks between the read of the stored object and the read of the inventory\<close>
  "policy_of_bytes sv p bytes =
     (if sha256Hex_bytes (sv_platform sv) bytes \<noteq> pt_active_policy_sha256 p then None
      else (case parsePolicy sv (sv_utf8_decode sv bytes) of
              None \<Rightarrow> None
            | Some policy \<Rightarrow>
                (case projectPolicy (sv_core sv) policy of
                   Inl _ \<Rightarrow> None
                 | Inr projection \<Rightarrow>
                     if length (uniq (map (\<lambda>r. de_domain (fst r)) (pp_routes projection))) \<noteq> pt_expected_domain_count p \<or>
                        length (pp_routes projection) \<noteq> pt_expected_route_count p then None
                     else Some \<lparr> ap_policy = policy, ap_sha256 = pt_active_policy_sha256 p,
                                 ap_r2ObjectKey = pointer_key p, ap_projection = projection \<rparr>)))"

definition inlinePolicy :: "services \<Rightarrow> string \<Rightarrow> active_policy_value option" where
  "inlinePolicy sv text =
     (case parsePolicy sv text of
        None \<Rightarrow> None
      | Some policy \<Rightarrow>
          map_option (\<lambda>projection. \<lparr> ap_policy = policy, ap_sha256 = sha sv text,
              ap_r2ObjectKey = ''inline:development'', ap_projection = projection \<rparr>)
            (router_value (projectPolicy (sv_core sv) policy)))"

definition checkInventory :: "active_policy_value \<Rightarrow> active_policy_value option act" where
  \<comment> \<open>the last \<^verbatim>\<open>try\<close> block: a failed read and a failed check both give null\<close>
  "checkInventory v =
     tryCatch
       (andThen (d1 (query (\<lambda>_ d. policy_inventory d))) (\<lambda>rows.
        andThen (liftE (assertPolicyInventory (ap_projection v) rows (Some (ap_sha256 v)))) (\<lambda>_. ret (Some v))))
       (\<lambda>_. ret None)"

definition loadActivePolicy :: "services \<Rightarrow> active_policy_value option act" where
  "loadActivePolicy sv =
     (let env = sv_env sv; mode = env_OPERATOR_DELIVERY_MODE env in
      if mode \<noteq> Some ''web_desk'' \<and> mode \<noteq> Some ''inbox_relay'' then ret None
      else if mode = Some ''web_desk'' \<and> truthy (env_POLICY_JSON env)
      then ret (inlinePolicy sv (the (env_POLICY_JSON env)))
      else if \<not> env_POLICY_STORE env then ret None
      else andThen (d1 (query (\<lambda>_ d. policy_pointer_of d))) (\<lambda>row.
        case row of
          None \<Rightarrow> ret None
        | Some p \<Rightarrow>
            if \<not> pointer_agrees p then ret None
            else andThen (policyGet (pointer_key p)) (\<lambda>object.
              case object of
                None \<Rightarrow> ret None
              | Some bytes \<Rightarrow>
                  (case policy_of_bytes sv p bytes of None \<Rightarrow> ret None | Some v \<Rightarrow> checkInventory v))))"

section \<open>Lemmas\<close>

lemma alist_del_keys: "fst ` set (alist_del k kvs) = fst ` set kvs - {k}"
  by (auto simp: alist_del_def)

lemma distinct_alist_del: "distinct (map fst kvs) \<Longrightarrow> distinct (map fst (alist_del k kvs))"
  by (induction kvs) (auto simp: alist_del_def)

lemma map_of_alist_del: "map_of (alist_del k kvs) j = (if j = k then None else map_of kvs j)"
  by (induction kvs) (auto simp: alist_del_def)

lemma distinct_alist_put: "distinct (map fst kvs) \<Longrightarrow> distinct (map fst (alist_put k v kvs))"
  using distinct_alist_del [of kvs k] by (auto simp: alist_put_def alist_del_def)

lemma map_of_alist_put: "map_of (alist_put k v kvs) j = (if j = k then Some v else map_of kvs j)"
  using map_of_alist_del [of k kvs j] by (auto simp: alist_put_def alist_del_def)

lemma length_alist_del:
  "distinct (map fst kvs) \<Longrightarrow> k \<in> fst ` set kvs \<Longrightarrow> Suc (length (alist_del k kvs)) = length kvs"
proof (induction kvs)
  case (Cons p kvs)
  have "filter (\<lambda>q. fst q \<noteq> fst p) kvs = kvs"
    using Cons.prems(1) unfolding filter_id_conv by (metis distinct.simps(2) image_eqI list.simps(9) list.set_map)
  with Cons show ?case by (auto simp: alist_del_def)
qed simp

definition row_agrees :: "string option \<Rightarrow> route_decision \<Rightarrow> inventory_row \<Rightarrow> bool" where
  \<comment> \<open>everything that is compared for one route\<close>
  "row_agrees policySha256 route row \<longleftrightarrow>
     row_matches policySha256 route row \<and> order_by id (iv_operators row) = de_operators route \<and>
     routeReplyIdentityBindings route = Inr (iv_bindings row)"

lemma check_inventory_Cons:
  "check_inventory p e (row # rows) = Inr () \<longleftrightarrow>
   (\<exists>route. map_of e (iv_route_id row) = Some route \<and> row_agrees p route row \<and>
      check_inventory p (alist_del (iv_route_id row) e) rows = Inr ())"
  by (cases "map_of e (iv_route_id row)"; cases "routeReplyIdentityBindings (the (map_of e (iv_route_id row)))")
     (auto simp: row_agrees_def bindE_def)

lemma check_inventory_exact:
  assumes "check_inventory p e rows = Inr ()" "distinct (map fst e)" "length rows = length e"
  shows "distinct (map iv_route_id rows) \<and> iv_route_id ` set rows = fst ` set e \<and>
     (\<forall>row \<in> set rows. \<exists>route. map_of e (iv_route_id row) = Some route \<and> row_agrees p route row)"
  using assms
proof (induction rows arbitrary: e)
  case (Cons row rows)
  let ?k = "iv_route_id row" and ?e = "alist_del (iv_route_id row) e"
  obtain route where r: "map_of e ?k = Some route" "row_agrees p route row"
    and c: "check_inventory p ?e rows = Inr ()"
    using Cons.prems(1) check_inventory_Cons by blast
  have k: "?k \<in> fst ` set e" using r(1) by (metis domI dom_map_of_conv_image_fst)
  have "Suc (length ?e) = length e" using length_alist_del Cons.prems(2) k by blast
  then have l: "length rows = length ?e" using Cons.prems(3) by simp
  note ih = Cons.IH [OF c distinct_alist_del [OF Cons.prems(2)] l]
  have ids: "iv_route_id ` set rows = fst ` set e - {?k}"
    using ih by (simp add: alist_del_keys)
  then have "?k \<notin> iv_route_id ` set rows" by simp
  moreover have "\<forall>x \<in> set rows. \<exists>route. map_of e (iv_route_id x) = Some route \<and> row_agrees p route x"
    using ih by (metis map_of_alist_del option.distinct(1))
  ultimately show ?case using ih ids k r by auto
qed auto

lemma expected_routes_distinct: "distinct (map fst (expected_routes p))"
proof -
  have "distinct (map fst m) \<Longrightarrow> distinct (map fst (fold (\<lambda>(r, _) m. alist_put (route_storage_id r) r m) rs m))" for rs m
    by (induction rs arbitrary: m) (auto simp: distinct_alist_put)
  from this [of "[]" "pp_routes p"] show ?thesis by (simp add: expected_routes_def)
qed

lemma expected_routes_keys: "map_of (expected_routes p) k = Some r \<Longrightarrow> k = route_storage_id r \<and> r \<in> fst ` set (pp_routes p)"
proof -
  have "(\<And>j q. map_of m j = Some q \<Longrightarrow> j = route_storage_id q \<and> q \<in> S) \<Longrightarrow> fst ` set rs \<subseteq> S \<Longrightarrow>
      map_of (fold (\<lambda>(r, _) m. alist_put (route_storage_id r) r m) rs m) k = Some r \<Longrightarrow>
      k = route_storage_id r \<and> r \<in> S" for rs m S
  proof (induction rs arbitrary: m)
    case (Cons x rs)
    show ?case
      by (rule Cons.IH [of "alist_put (route_storage_id (fst x)) (fst x) m"])
        (use Cons.prems in \<open>auto simp: map_of_alist_put case_prod_unfold split: if_splits\<close>)
  qed auto
  from this [of "[]" "fst ` set (pp_routes p)" "pp_routes p"] show "map_of (expected_routes p) k = Some r \<Longrightarrow> ?thesis"
    by (simp add: expected_routes_def)
qed

lemma assertPolicyInventory_exact:
  assumes "assertPolicyInventory p rows psha = Inr ()"
  shows "distinct (map iv_route_id rows) \<and> length rows \<le> 10000 \<and>
     iv_route_id ` set rows = fst ` set (expected_routes p) \<and>
     (\<forall>row \<in> set rows. \<exists>route. map_of (expected_routes p) (iv_route_id row) = Some route \<and> row_agrees psha route row)"
  using assms check_inventory_exact [OF _ expected_routes_distinct]
  by (auto simp: assertPolicyInventory_def Let_def split: if_splits)

lemma insert_ordered_sorted:
  "sorted_wrt (\<lambda>a b. lexordp_eq (map code (key a)) (map code (key b))) xs \<Longrightarrow>
   sorted_wrt (\<lambda>a b. lexordp_eq (map code (key a)) (map code (key b))) (insert_ordered key x xs)"
proof (induction xs)
  case (Cons y ys)
  then show ?case
    using lexordp_eq_linear [of "map code (key x)" "map code (key y)"] lexordp_eq_trans by auto
qed simp

lemma order_by_sorted: "sorted_wrt (\<lambda>a b. lexordp_eq (map code (key a)) (map code (key b))) (order_by key xs)"
  by (induction xs) (simp_all add: order_by_def insert_ordered_sorted)

lemma order_by_of_sorted:
  "sorted_wrt (\<lambda>a b. lexordp_eq (map code (key a)) (map code (key b))) xs \<Longrightarrow> order_by key xs = xs"
proof (induction xs)
  case (Cons x xs)
  then show ?case by (cases xs) (auto simp: order_by_def)
qed (simp add: order_by_def)

lemma order_by_idem [simp]: "order_by key (order_by key xs) = order_by key xs"
  by (rule order_by_of_sorted) (rule order_by_sorted)

lemma route_operator_emails_ordered [simp]: "order_by id (route_operator_emails r d) = route_operator_emails r d"
  by (simp add: route_operator_emails_def)

text \<open>
  The check of a loaded policy and the guard inside a claiming statement are the same condition: an
  inventory that passes the first makes the second true of every route, in the database it was read from.
\<close>

lemma policy_inventory_rows:
  "row \<in> set (policy_inventory d) \<Longrightarrow> \<exists>ar \<in> set (db_routes d). ar_enabled ar \<and> inventory_of d ar = Some row"
  unfolding policy_inventory_def List.map_filter_def by (fastforce dest: in_set_takeD)

lemma inventory_guard:
  assumes "assertPolicyInventory p (policy_inventory d) (Some psha) = Inr ()"
    and "map_of (expected_routes p) i = Some route"
  shows "guarded_route i route d"
proof -
  note ex = assertPolicyInventory_exact [OF assms(1)]
  have "i \<in> fst ` set (expected_routes p)" using assms(2) by (metis domI dom_map_of_conv_image_fst)
  then have "i \<in> iv_route_id ` set (policy_inventory d)" using ex by metis
  then obtain row where row: "row \<in> set (policy_inventory d)" "iv_route_id row = i" by blast
  then have agrees: "row_agrees (Some psha) route row" using ex assms(2) by fastforce
  obtain ar where ar: "ar \<in> set (db_routes d)" "ar_enabled ar" "inventory_of d ar = Some row"
    using policy_inventory_rows row(1) by blast
  then have "ar_id ar = i" "i = route_storage_id route"
    using row(2) expected_routes_keys [OF assms(2)] by (auto simp: inventory_of_def split: option.splits)
  with ar agrees show ?thesis
    by (fastforce simp: guarded_route_def list_ex_iff inventory_of_def row_agrees_def row_matches_def
        split: option.splits)
qed

text \<open>What a successful load establishes, when nothing else writes meanwhile.\<close>

lemma pointer_active: "policy_pointer_of d = Some p \<Longrightarrow> active_policy d = Some (pt_active_policy_sha256 p)"
  by (auto simp: policy_pointer_of_def active_policy_def Let_def split: option.splits)

lemma policy_of_bytes_Some:
  "policy_of_bytes sv p bytes = Some v \<Longrightarrow>
     ap_sha256 v = pt_active_policy_sha256 p \<and> sha256Hex_bytes (sv_platform sv) bytes = ap_sha256 v \<and>
     ap_r2ObjectKey v = pointer_key p \<and> parsePolicy sv (sv_utf8_decode sv bytes) = Some (ap_policy v) \<and>
     projectPolicy (sv_core sv) (ap_policy v) = Inr (ap_projection v) \<and>
     length (pp_routes (ap_projection v)) = pt_expected_route_count p"
  by (auto simp: policy_of_bytes_def split: if_splits option.splits sum.splits)

lemma loadActivePolicy_stored:
  assumes "fst (loadActivePolicy sv w) = Inr (Some v)" "w_ticks w = []"
    and "env_OPERATOR_DELIVERY_MODE (sv_env sv) = Some ''inbox_relay''"
  obtains bytes where "active_policy (w_db w) = Some (ap_sha256 v)" "is_sha256_hex (ap_sha256 v)"
    and "map_of (w_policy w) (''config/policy/'' @ ap_sha256 v @ ''.json'') = Some bytes"
    and "sha256Hex_bytes (sv_platform sv) bytes = ap_sha256 v"
    and "parsePolicy sv (sv_utf8_decode sv bytes) = Some (ap_policy v)"
    and "projectPolicy (sv_core sv) (ap_policy v) = Inr (ap_projection v)"
    and "assertPolicyInventory (ap_projection v) (policy_inventory (w_db w)) (Some (ap_sha256 v)) = Inr ()"
proof -
  note run = loadActivePolicy_def Let_def andThen_def d1_def call_def begin_call_def query_def policyGet_def
  obtain p where p: "policy_pointer_of (w_db w) = Some p" "pointer_agrees p"
    using assms by (auto simp: run split: option.splits if_splits)
  obtain bytes where b: "map_of (w_policy w) (pointer_key p) = Some bytes"
    using assms p by (auto simp: run split: option.splits if_splits)
  obtain u where u: "policy_of_bytes sv p bytes = Some u"
    using assms p b by (auto simp: run split: option.splits if_splits)
  have c: "fst (checkInventory u w) = Inr (Some v)"
    using assms p b u by (auto simp: run split: if_splits)
  have "v = u \<and> assertPolicyInventory (ap_projection u) (policy_inventory (w_db w)) (Some (ap_sha256 u)) = Inr ()"
    using c assms(2)
    by (cases "assertPolicyInventory (ap_projection u) (policy_inventory (w_db w)) (Some (ap_sha256 u))")
       (auto simp: checkInventory_def tryCatch_def andThen_def d1_def call_def begin_call_def query_def)
  with that [of bytes] p b policy_of_bytes_Some [OF u] pointer_active [OF p(1)] show thesis
    by (auto simp: pointer_agrees_def pointer_key_def)
qed

definition genuine_policy :: "services \<Rightarrow> active_policy_value \<Rightarrow> bool" where
  \<comment> \<open>the policy is what the bytes with its digest say\<close>
  "genuine_policy sv v \<longleftrightarrow>
     is_sha256_hex (ap_sha256 v) \<and> projectPolicy (sv_core sv) (ap_policy v) = Inr (ap_projection v) \<and>
     (\<exists>bytes. sha256Hex_bytes (sv_platform sv) bytes = ap_sha256 v \<and>
        parsePolicy sv (sv_utf8_decode sv bytes) = Some (ap_policy v))"

lemma loadActivePolicy_genuine:
  assumes "fst (loadActivePolicy sv w) = Inr (Some v)"
    and "odc_mode (operatorDeliveryConfig (sv_env sv)) = Inbox_Relay"
  shows "genuine_policy sv v"
proof -
  have mode: "env_OPERATOR_DELIVERY_MODE (sv_env sv) = Some ''inbox_relay''"
    using assms(2) by (auto simp: operatorDeliveryConfig_def Let_def split: if_splits)
  have check: "fst (checkInventory u x) = Inr (Some v) \<Longrightarrow> u = v" for u x
    by (auto simp: checkInventory_def tryCatch_def andThen_def liftE_def split: prod.splits sum.splits)
  from assms(1) mode obtain p bytes where p: "pointer_agrees p" "policy_of_bytes sv p bytes = Some v"
    by (auto simp: loadActivePolicy_def Let_def andThen_def dest!: check split: prod.splits sum.splits option.splits if_splits)
  then show ?thesis
    using policy_of_bytes_Some [OF p(2)] by (auto simp: genuine_policy_def pointer_agrees_def)
qed

context effect_relation
begin

lemma loadActivePolicy: "preserves R (loadActivePolicy sv)"
  by (auto simp: loadActivePolicy_def checkInventory_def Let_def
      intro!: if_split run_rules effect_rules split: option.splits)

end

end
