(* ===== verification/Jobs.thy ===== *)
theory Jobs
  imports Job_Codec Relay_Mail
begin

text \<open>
  The queue jobs of \<^verbatim>\<open>workers/shared/contracts.ts\<close> as records, and the reading of a decoded queue
  message as one of them. The three kinds that the consumer only audits stay values.
\<close>

record outbound_job =
  oj_schemaVersion :: jv
  oj_payloadVersion :: jv
  oj_admissionKind :: jv
  oj_activationId :: jv
  oj_messageId :: string
  oj_threadId :: string
  oj_operator :: string
  oj_envelopeTo :: string
  oj_fromIdentity :: string
  oj_fromDisplayName :: "string option"
  oj_identityProfileRef :: "string option"
  oj_signatureProfileRef :: "string option"
  oj_senderAdapter :: "string option"
  oj_to :: "string list"
  oj_cc :: "string list option"
  oj_bcc :: "string list option"
  oj_replyTo :: "string option"
  oj_subject :: string
  oj_text :: "string option"
  oj_html :: "string option"
  oj_headers :: "(string \<times> string) list option"
  oj_attachments :: "attachment list option"
  oj_requestedIdentity :: "string option"
  oj_policySha256 :: "string option"
  oj_admissionId :: "string option"
  oj_transactionSha256 :: "string option"
  oj_attemptSha256 :: "string option"
  oj_claimedPayloadSha256 :: "string option"
  oj_desiredStateSha256 :: "string option"
  oj_identityProfileSha256 :: "string option"
  oj_relayAttemptId :: "string option"
  oj_relaySpoolKey :: "string option"
  oj_queuedAt :: string

record inbox_job =
  ij_schemaVersion :: jv
  ij_payloadVersion :: jv
  ij_admissionKind :: jv
  ij_activationId :: jv
  ij_attemptId :: string
  ij_admissionId :: string
  ij_transactionSha256 :: string
  ij_attemptSha256 :: string
  ij_claimedPayloadSha256 :: string
  ij_desiredStateSha256 :: string
  ij_identityProfileSha256 :: string
  ij_relayId :: string
  ij_operator :: string
  ij_operatorMessageId :: string
  ij_rawR2Key :: string
  ij_rawSha256 :: string
  ij_receivedAt :: string

record recipient_result =
  rr_operatorRef :: string
  rr_deliveryPayloadR2Key :: string
  rr_ok :: bool
  rr_providerMessageId :: "string option"
  rr_errorCode :: "string option"

record result_job =
  rj_deliveryId :: string
  rj_relayId :: string
  rj_threadId :: string
  rj_routeId :: string
  rj_policySha256 :: string
  rj_status :: string
  rj_results :: "recipient_result list"
  rj_relaySpoolKey :: string
  rj_receivedAt :: string

datatype mail_job =
    Inbox_Reply_Received inbox_job
  | Outbound_Reply_Requested outbound_job
  | Inbound_Delivery_Result result_job
  | Inbound_Email_Received jv
  | Inbound_Work_Item_Received jv
  | Inbound_Email_Persisted jv

fun job_kind :: "mail_job \<Rightarrow> string" where
  "job_kind (Inbox_Reply_Received _) = ''inbox_reply_received''"
| "job_kind (Outbound_Reply_Requested _) = ''outbound_reply_requested''"
| "job_kind (Inbound_Delivery_Result _) = ''inbound_delivery_result''"
| "job_kind (Inbound_Email_Received _) = ''inbound_email_received''"
| "job_kind (Inbound_Work_Item_Received _) = ''inbound_work_item_received''"
| "job_kind (Inbound_Email_Persisted _) = ''inbound_email_persisted''"

section \<open>Reading a decoded value\<close>

definition str_field :: "jv \<Rightarrow> string \<Rightarrow> string" where
  "str_field v k = (case js_get v k of JString s \<Rightarrow> s | _ \<Rightarrow> [])"

definition opt_field :: "jv \<Rightarrow> string \<Rightarrow> string option" where
  "opt_field v k = as_string (js_get v k)"

definition strs_field :: "jv \<Rightarrow> string \<Rightarrow> string list option" where
  "strs_field v k = (case js_get v k of JArray vs \<Rightarrow> Some (List.map_filter as_string vs) | _ \<Rightarrow> None)"

definition as_attachment :: "jv \<Rightarrow> attachment" where
  "as_attachment v =
     \<lparr> at_disposition = (if js_get v ''disposition'' = JString ''inline'' then Inline (str_field v ''contentId'') else Attached),
       at_filename = str_field v ''filename'', at_type = str_field v ''type'',
       at_content = (case js_get v ''content'' of JBuffer b \<Rightarrow> b | _ \<Rightarrow> []) \<rparr>"

definition as_outbound_job :: "jv \<Rightarrow> outbound_job" where
  "as_outbound_job v =
     \<lparr> oj_schemaVersion = js_get v ''schemaVersion'', oj_payloadVersion = js_get v ''payloadVersion'',
       oj_admissionKind = js_get v ''admissionKind'', oj_activationId = js_get v ''activationId'',
       oj_messageId = str_field v ''messageId'', oj_threadId = str_field v ''threadId'',
       oj_operator = str_field v ''operator'', oj_envelopeTo = str_field v ''envelopeTo'',
       oj_fromIdentity = str_field v ''fromIdentity'', oj_fromDisplayName = opt_field v ''fromDisplayName'',
       oj_identityProfileRef = opt_field v ''identityProfileRef'',
       oj_signatureProfileRef = opt_field v ''signatureProfileRef'',
       oj_senderAdapter = opt_field v ''senderAdapter'',
       oj_to = (case strs_field v ''to'' of None \<Rightarrow> [] | Some xs \<Rightarrow> xs), oj_cc = strs_field v ''cc'',
       oj_bcc = strs_field v ''bcc'', oj_replyTo = opt_field v ''replyTo'', oj_subject = str_field v ''subject'',
       oj_text = opt_field v ''text'', oj_html = opt_field v ''html'',
       oj_headers = (if js_get v ''headers'' = JUndefined then None
                     else Some (map (\<lambda>(k, x). (k, case x of JString s \<Rightarrow> s | _ \<Rightarrow> [])) (js_entries (js_get v ''headers'')))),
       oj_attachments = (case js_get v ''attachments'' of JArray vs \<Rightarrow> Some (map as_attachment vs) | _ \<Rightarrow> None),
       oj_requestedIdentity = opt_field v ''requestedIdentity'', oj_policySha256 = opt_field v ''policySha256'',
       oj_admissionId = opt_field v ''admissionId'', oj_transactionSha256 = opt_field v ''transactionSha256'',
       oj_attemptSha256 = opt_field v ''attemptSha256'',
       oj_claimedPayloadSha256 = opt_field v ''claimedPayloadSha256'',
       oj_desiredStateSha256 = opt_field v ''desiredStateSha256'',
       oj_identityProfileSha256 = opt_field v ''identityProfileSha256'',
       oj_relayAttemptId = opt_field v ''relayAttemptId'', oj_relaySpoolKey = opt_field v ''relaySpoolKey'',
       oj_queuedAt = str_field v ''queuedAt'' \<rparr>"

definition as_inbox_job :: "jv \<Rightarrow> inbox_job" where
  "as_inbox_job v =
     \<lparr> ij_schemaVersion = js_get v ''schemaVersion'', ij_payloadVersion = js_get v ''payloadVersion'',
       ij_admissionKind = js_get v ''admissionKind'', ij_activationId = js_get v ''activationId'',
       ij_attemptId = str_field v ''attemptId'', ij_admissionId = str_field v ''admissionId'',
       ij_transactionSha256 = str_field v ''transactionSha256'', ij_attemptSha256 = str_field v ''attemptSha256'',
       ij_claimedPayloadSha256 = str_field v ''claimedPayloadSha256'',
       ij_desiredStateSha256 = str_field v ''desiredStateSha256'',
       ij_identityProfileSha256 = str_field v ''identityProfileSha256'',
       ij_relayId = str_field v ''relayId'', ij_operator = str_field v ''operator'',
       ij_operatorMessageId = str_field v ''operatorMessageId'', ij_rawR2Key = str_field v ''rawR2Key'',
       ij_rawSha256 = str_field v ''rawSha256'', ij_receivedAt = str_field v ''receivedAt'' \<rparr>"

definition as_recipient_result :: "jv \<Rightarrow> recipient_result" where
  "as_recipient_result v =
     \<lparr> rr_operatorRef = str_field v ''operatorRef'', rr_deliveryPayloadR2Key = str_field v ''deliveryPayloadR2Key'',
       rr_ok = (js_get v ''ok'' = JBool True), rr_providerMessageId = opt_field v ''providerMessageId'',
       rr_errorCode = opt_field v ''errorCode'' \<rparr>"

definition as_result_job :: "jv \<Rightarrow> result_job" where
  "as_result_job v =
     \<lparr> rj_deliveryId = str_field v ''deliveryId'', rj_relayId = str_field v ''relayId'',
       rj_threadId = str_field v ''threadId'', rj_routeId = str_field v ''routeId'',
       rj_policySha256 = str_field v ''policySha256'', rj_status = js_String (js_get v ''status''),
       rj_results = (case js_get v ''results'' of JArray vs \<Rightarrow> map as_recipient_result vs | _ \<Rightarrow> []),
       rj_relaySpoolKey = str_field v ''relaySpoolKey'', rj_receivedAt = str_field v ''receivedAt'' \<rparr>"

definition as_mail_job :: "jv \<Rightarrow> mail_job" where
  \<comment> \<open>the cast of a value that \<^const>\<open>decodeMailJob\<close> returned\<close>
  "as_mail_job v =
     (let kind = str_field v ''kind'' in
      if kind = ''inbox_reply_received'' then Inbox_Reply_Received (as_inbox_job v)
      else if kind = ''outbound_reply_requested'' then Outbound_Reply_Requested (as_outbound_job v)
      else if kind = ''inbound_delivery_result'' then Inbound_Delivery_Result (as_result_job v)
      else if kind = ''inbound_email_received'' then Inbound_Email_Received v
      else if kind = ''inbound_work_item_received'' then Inbound_Work_Item_Received v
      else Inbound_Email_Persisted v)"

section \<open>Writing a job\<close>

definition undef_field :: "string \<Rightarrow> jv \<Rightarrow> (string \<times> jv) list" where
  \<comment> \<open>a property that is left out when it is undefined\<close>
  "undef_field k v = (if v = JUndefined then [] else [(k, v)])"

definition inbox_job_json :: "inbox_job \<Rightarrow> jv" where
  "inbox_job_json j = JObject
     ((''kind'', JString ''inbox_reply_received'') #
      undef_field ''schemaVersion'' (ij_schemaVersion j) @ undef_field ''payloadVersion'' (ij_payloadVersion j) @
      undef_field ''admissionKind'' (ij_admissionKind j) @ undef_field ''activationId'' (ij_activationId j) @
      [(''attemptId'', JString (ij_attemptId j)), (''admissionId'', JString (ij_admissionId j)),
       (''transactionSha256'', JString (ij_transactionSha256 j)), (''attemptSha256'', JString (ij_attemptSha256 j)),
       (''claimedPayloadSha256'', JString (ij_claimedPayloadSha256 j)),
       (''desiredStateSha256'', JString (ij_desiredStateSha256 j)),
       (''identityProfileSha256'', JString (ij_identityProfileSha256 j)), (''relayId'', JString (ij_relayId j)),
       (''operator'', JString (ij_operator j)), (''operatorMessageId'', JString (ij_operatorMessageId j)),
       (''rawR2Key'', JString (ij_rawR2Key j)), (''rawSha256'', JString (ij_rawSha256 j)),
       (''receivedAt'', JString (ij_receivedAt j))])"

definition recipient_result_json :: "recipient_result \<Rightarrow> jv" where
  "recipient_result_json r = JObject
     ([(''operatorRef'', JString (rr_operatorRef r)), (''deliveryPayloadR2Key'', JString (rr_deliveryPayloadR2Key r)),
       (''ok'', JBool (rr_ok r))] @
      undef_field ''providerMessageId'' (jundef (rr_providerMessageId r)) @
      undef_field ''errorCode'' (jundef (rr_errorCode r)))"

definition result_job_json :: "result_job \<Rightarrow> jv" where
  "result_job_json j = JObject
     [(''kind'', JString ''inbound_delivery_result''), (''deliveryId'', JString (rj_deliveryId j)),
      (''relayId'', JString (rj_relayId j)), (''threadId'', JString (rj_threadId j)),
      (''routeId'', JString (rj_routeId j)), (''policySha256'', JString (rj_policySha256 j)),
      (''status'', JString (rj_status j)), (''results'', JArray (map recipient_result_json (rj_results j))),
      (''relaySpoolKey'', JString (rj_relaySpoolKey j)), (''receivedAt'', JString (rj_receivedAt j))]"

definition outbound_authorization :: "outbound_job \<Rightarrow> authorization_kind option" where
  "outbound_authorization j = replyAuthorizationKind
     (JObject [(''schemaVersion'', oj_schemaVersion j), (''admissionKind'', oj_admissionKind j),
               (''activationId'', oj_activationId j)])"

definition inbox_authorization :: "inbox_job \<Rightarrow> authorization_kind option" where
  "inbox_authorization j = replyAuthorizationKind
     (JObject [(''schemaVersion'', ij_schemaVersion j), (''admissionKind'', ij_admissionKind j),
               (''activationId'', ij_activationId j)])"

section \<open>Lemmas\<close>

lemma js_get_undef_field:
  "map_of (undef_field k v @ ps) k' = (if k = k' \<and> v \<noteq> JUndefined then Some v else map_of ps k')"
  by (auto simp: undef_field_def)

definition bounded_text :: "string \<Rightarrow> bool" where
  "bounded_text s \<longleftrightarrow> length s \<le> 1024"

definition recipient_result_ok :: "recipient_result \<Rightarrow> bool" where
  "recipient_result_ok r \<longleftrightarrow>
     bounded_text (rr_operatorRef r) \<and> bounded_text (rr_deliveryPayloadR2Key r) \<and>
     pred_option bounded_text (rr_providerMessageId r) \<and> pred_option bounded_text (rr_errorCode r)"

definition result_job_ok :: "result_job \<Rightarrow> bool" where
  "result_job_ok j \<longleftrightarrow>
     list_all bounded_text [rj_deliveryId j, rj_relayId j, rj_threadId j, rj_routeId j, rj_relaySpoolKey j, rj_receivedAt j] \<and>
     is_sha256_hex (rj_policySha256 j) \<and>
     rj_status j \<in> {''provider_accepted'', ''partial_delivery'', ''recovery_required'', ''failed''} \<and>
     length (rj_results j) \<le> 100 \<and> list_all recipient_result_ok (rj_results j)"

lemma recipient_result_get:
  "js_get (recipient_result_json r) ''operatorRef'' = JString (rr_operatorRef r)"
  "js_get (recipient_result_json r) ''deliveryPayloadR2Key'' = JString (rr_deliveryPayloadR2Key r)"
  "js_get (recipient_result_json r) ''ok'' = JBool (rr_ok r)"
  "js_get (recipient_result_json r) ''providerMessageId'' = jundef (rr_providerMessageId r)"
  "js_get (recipient_result_json r) ''errorCode'' = jundef (rr_errorCode r)"
  by (cases "rr_providerMessageId r"; cases "rr_errorCode r";
      simp add: recipient_result_json_def undef_field_def jundef_def)+

lemma recipient_result_entry: "recipient_result_ok r \<Longrightarrow> result_entry (recipient_result_json r)"
  unfolding result_entry_def required_keys_def optional_keys_def list.pred_inject recipient_result_get
  by (cases "rr_providerMessageId r"; cases "rr_errorCode r")
     (auto simp: recipient_result_json_def undef_field_def jundef_def closed_keys_def js_keys_def
        recipient_result_ok_def bounded_text_def text_max_def)

lemma recipient_result_roundtrip: "as_recipient_result (recipient_result_json r) = r"
  by (cases "rr_providerMessageId r"; cases "rr_errorCode r")
     (simp_all add: as_recipient_result_def str_field_def opt_field_def recipient_result_get jundef_def as_string_def)

lemma result_job_decodes:
  assumes "result_job_ok j"
  shows "decodeMailJob (result_job_json j) = Some (result_job_json j)"
proof -
  have "list_all result_entry (map recipient_result_json (rj_results j))"
    using assms by (auto simp: result_job_ok_def list_all_iff intro: recipient_result_entry)
  then have "delivery_result_shape (result_job_json j)"
    using assms
    by (auto simp: delivery_result_shape_def result_job_json_def closed_keys_def js_keys_def delivery_result_keys_def
        required_keys_def text_max_def digest_field_def array_of_def result_job_ok_def bounded_text_def)
  then show ?thesis
    by (simp add: decodeMailJob_Some job_shape_def) (simp add: result_job_json_def)
qed

lemma result_job_roundtrip: "as_mail_job (result_job_json j) = Inbound_Delivery_Result j"
proof -
  have k: "str_field (result_job_json j) ''kind'' = ''inbound_delivery_result''"
    by (simp add: str_field_def result_job_json_def)
  have "as_result_job (result_job_json j) = j"
    by (simp add: as_result_job_def str_field_def result_job_json_def comp_def recipient_result_roundtrip)
  with k show ?thesis by (simp add: as_mail_job_def)
qed

definition inbox_job_ok :: "inbox_job \<Rightarrow> bool" where
  \<comment> \<open>what a writer of the queue has to observe\<close>
  "inbox_job_ok j \<longleftrightarrow>
     list_all bounded_text [ij_attemptId j, ij_admissionId j, ij_relayId j, ij_operator j, ij_operatorMessageId j,
       ij_rawR2Key j, ij_receivedAt j] \<and>
     list_all is_sha256_hex [ij_transactionSha256 j, ij_attemptSha256 j, ij_claimedPayloadSha256 j,
       ij_desiredStateSha256 j, ij_identityProfileSha256 j, ij_rawSha256 j] \<and>
     authorizationShape (inbox_job_json j)"

lemma map_of_undef_field: "map_of (undef_field k v) k' = (if k = k' \<and> v \<noteq> JUndefined then Some v else None)"
  by (simp add: undef_field_def)

lemma inbox_job_fields:
  "js_get (inbox_job_json j) ''kind'' = JString ''inbox_reply_received''"
  "js_get (inbox_job_json j) ''schemaVersion'' = ij_schemaVersion j"
  "js_get (inbox_job_json j) ''payloadVersion'' = ij_payloadVersion j"
  "js_get (inbox_job_json j) ''admissionKind'' = ij_admissionKind j"
  "js_get (inbox_job_json j) ''activationId'' = ij_activationId j"
  "js_get (inbox_job_json j) ''attemptId'' = JString (ij_attemptId j)"
  "js_get (inbox_job_json j) ''admissionId'' = JString (ij_admissionId j)"
  "js_get (inbox_job_json j) ''transactionSha256'' = JString (ij_transactionSha256 j)"
  "js_get (inbox_job_json j) ''attemptSha256'' = JString (ij_attemptSha256 j)"
  "js_get (inbox_job_json j) ''claimedPayloadSha256'' = JString (ij_claimedPayloadSha256 j)"
  "js_get (inbox_job_json j) ''desiredStateSha256'' = JString (ij_desiredStateSha256 j)"
  "js_get (inbox_job_json j) ''identityProfileSha256'' = JString (ij_identityProfileSha256 j)"
  "js_get (inbox_job_json j) ''relayId'' = JString (ij_relayId j)"
  "js_get (inbox_job_json j) ''operator'' = JString (ij_operator j)"
  "js_get (inbox_job_json j) ''operatorMessageId'' = JString (ij_operatorMessageId j)"
  "js_get (inbox_job_json j) ''rawR2Key'' = JString (ij_rawR2Key j)"
  "js_get (inbox_job_json j) ''rawSha256'' = JString (ij_rawSha256 j)"
  "js_get (inbox_job_json j) ''receivedAt'' = JString (ij_receivedAt j)"
  by (simp_all add: inbox_job_json_def map_of_undef_field map_add_def)

lemma undef_field_keys: "fst ` set (undef_field k v) \<subseteq> {k}"
  by (simp add: undef_field_def)

lemma inbox_job_keys: "closed_keys (inbox_job_json j) inbox_reply_keys"
  using undef_field_keys
  by (fastforce simp: closed_keys_def inbox_job_json_def js_keys_def list_all_iff inbox_reply_keys_def
      transactionFields_def authorizationFields_def)

lemma inbox_job_decodes:
  assumes "inbox_job_ok j"
  shows "decodeMailJob (inbox_job_json j) = Some (inbox_job_json j)"
proof -
  have "inbox_reply_shape (inbox_job_json j)"
    using assms inbox_job_keys [of j]
    by (simp add: inbox_reply_shape_def required_keys_def inbox_job_fields inbox_job_ok_def bounded_text_def
        text_max_def digest_field_def transactionFields_def)
  moreover have "js_is_record (inbox_job_json j)" by (simp add: inbox_job_json_def)
  ultimately show ?thesis
    by (simp add: decodeMailJob_Some job_shape_def inbox_job_fields)
qed

lemma inbox_job_roundtrip: "as_mail_job (inbox_job_json j) = Inbox_Reply_Received j"
  by (simp add: as_mail_job_def as_inbox_job_def str_field_def inbox_job_fields)

end
