(* ===== verification/Outbound_Content.thy ===== *)
theory Outbound_Content
  imports Effects Jobs
begin

text \<open>
  The pure parts of \<^verbatim>\<open>workers/shared/outbound/\<close>: \<^verbatim>\<open>configuration.ts\<close>, \<^verbatim>\<open>conversation.ts\<close>,
  \<^verbatim>\<open>provider-errors.ts\<close>, and the content inspection of \<^verbatim>\<open>privacy.ts\<close>.
\<close>

section \<open>Configuration\<close>

datatype outbound_mode = Mode_Disabled | Mode_Cloudflare | Mode_Resend | Mode_Invalid

fun outbound_mode_name :: "outbound_mode \<Rightarrow> string" where
  "outbound_mode_name Mode_Disabled = ''disabled''"
| "outbound_mode_name Mode_Cloudflare = ''cloudflare_email_service''"
| "outbound_mode_name Mode_Resend = ''resend''"
| "outbound_mode_name Mode_Invalid = ''invalid''"

definition configuredOutboundMode :: "maildesk_env \<Rightarrow> outbound_mode" where
  "configuredOutboundMode env =
     (let mode = with_default ''disabled'' (env_OUTBOUND_MODE env) in
      if mode = ''disabled'' then Mode_Disabled
      else if mode = ''cloudflare_email_service'' then Mode_Cloudflare
      else if mode = ''resend'' then Mode_Resend else Mode_Invalid)"

definition simple_mailbox :: "string \<Rightarrow> string" where
  \<comment> \<open>\<^verbatim>\<open>normalizeMailbox\<close> of \<^verbatim>\<open>configuration.ts\<close>\<close>
  "simple_mailbox address = lower (trim address)"

definition parseMailbox :: "string \<Rightarrow> (string \<times> string) option" where
  \<comment> \<open>the local part and the domain\<close>
  "parseMailbox address =
     (let normalized = simple_mailbox address; atIndex = last_index_of (CHR ''@'') normalized in
      if atIndex \<le> 0 \<or> atIndex = int (length normalized) - 1 then None
      else Some (take (nat atIndex) normalized, drop (nat (atIndex + 1)) normalized))"

definition senderDomain :: "string \<Rightarrow> string" where
  "senderDomain address = (case parseMailbox address of None \<Rightarrow> [] | Some (_, d) \<Rightarrow> d)"

definition isVerifiedSenderDomain :: "string \<Rightarrow> maildesk_env \<Rightarrow> bool" where
  "isVerifiedSenderDomain domain env =
     (case env_VERIFIED_SENDER_DOMAINS env of
        None \<Rightarrow> False
      | Some v \<Rightarrow>
          let configured = trim v in
          if configured = [] then False
          else (let domains = filter (\<lambda>d. d \<noteq> []) (map (\<lambda>p. lower (trim p)) (split_on (CHR '','') configured)) in
            if list_ex (\<lambda>d. CHR ''*'' \<in> set d) domains then False else domain \<in> set domains))"

section \<open>Conversation headers\<close>

definition messageHeader :: "(string \<times> string) list option \<Rightarrow> string \<Rightarrow> string option" where
  "messageHeader headers name =
     (case headers of None \<Rightarrow> None
      | Some hs \<Rightarrow> map_option snd (find (\<lambda>h. lower (fst h) = lower name) hs))"

definition canonicalConversationHeaders :: "outbound_job \<Rightarrow> (string \<times> string) list" where
  "canonicalConversationHeaders job =
     (let inReplyTo = messageHeader (oj_headers job) ''in-reply-to'';
          references = validMessageIds (messageHeader (oj_headers job) ''references'') in
      (if validMessageId inReplyTo then [(''In-Reply-To'', the inReplyTo)] else []) @
      (if references \<noteq> [] then [(''References'', join '' '' references)] else []))"

definition storedReferences :: "jv option \<Rightarrow> string list" where
  "storedReferences value =
     (case value of
        Some (JArray vs) \<Rightarrow>
          last_n 50 (uniq (filter (\<lambda>s. validMessageId (Some s)) (List.map_filter as_string vs)))
      | _ \<Rightarrow> [])"

section \<open>Provider errors\<close>

record send_result =
  sr_providerBoundaryClaimed :: bool
  sr_ok :: bool
  sr_provider :: string
  sr_providerMessageId :: "string option"
  sr_error :: "string option"
  sr_httpStatus :: "nat option"
  sr_retryable :: "bool option"
  sr_ambiguous :: "bool option"
  sr_response :: "jv option"
  sr_notClaimed :: bool

definition send_failure :: "string \<Rightarrow> string \<Rightarrow> send_result" where
  \<comment> \<open>\<^verbatim>\<open>{ ok: false, provider, error }\<close>\<close>
  "send_failure provider error =
     \<lparr> sr_providerBoundaryClaimed = False, sr_ok = False, sr_provider = provider, sr_providerMessageId = None,
       sr_error = Some error, sr_httpStatus = None, sr_retryable = None, sr_ambiguous = None,
       sr_response = None, sr_notClaimed = False \<rparr>"

definition definitive_rejections :: "string list" where
  "definitive_rejections =
     [''E_VALIDATION_ERROR'', ''E_FIELD_MISSING'', ''E_TOO_MANY_RECIPIENTS'', ''E_TOO_MANY_ATTACHMENTS'',
      ''E_SENDER_NOT_VERIFIED'', ''E_RECIPIENT_NOT_ALLOWED'', ''E_RECIPIENT_SUPPRESSED'',
      ''E_SENDER_DOMAIN_NOT_AVAILABLE'', ''E_CONTENT_TOO_LARGE'', ''E_DELIVERY_FAILED'',
      ''E_RATE_LIMIT_EXCEEDED'', ''E_DAILY_LIMIT_EXCEEDED'', ''E_HEADER_NOT_ALLOWED'',
      ''E_HEADER_USE_API_FIELD'', ''E_HEADER_VALUE_INVALID'', ''E_HEADER_VALUE_TOO_LONG'',
      ''E_HEADER_NAME_INVALID'', ''E_HEADERS_TOO_LARGE'', ''E_HEADERS_TOO_MANY'']"

definition error_code_text :: "nat \<Rightarrow> string \<Rightarrow> bool" where
  \<comment> \<open>\<^verbatim>\<open>/^E_[A-Z0-9_]{1,n}$/\<close>\<close>
  "error_code_text n s \<longleftrightarrow>
     prefix ''E_'' s \<and> 1 \<le> length (drop 2 s) \<and> length (drop 2 s) \<le> n \<and>
     list_all (\<lambda>c. is_upper_az c \<or> is_digit c \<or> c = CHR ''_'') (drop 2 s)"

definition providerErrorCode :: "exn \<Rightarrow> string option" where
  "providerErrorCode error =
     (case exn_code error of JString code' \<Rightarrow> if error_code_text 80 code' then Some code' else None | _ \<Rightarrow> None)"

definition cloudflareEmailServiceFailure :: "exn \<Rightarrow> send_result" where
  "cloudflareEmailServiceFailure error =
     (case providerErrorCode error of
        Some code' \<Rightarrow>
          if code' \<in> set definitive_rejections
          then send_failure ''cloudflare_email_service'' (''cloudflare_email_service:'' @ code')
          else (send_failure ''cloudflare_email_service'' (''cloudflare_email_service:'' @ code' @ '':outcome_unknown''))
                 \<lparr>sr_ambiguous := Some True\<rparr>
      | None \<Rightarrow> (send_failure ''cloudflare_email_service'' ''Cloudflare Email Service send outcome is unknown'')
                 \<lparr>sr_ambiguous := Some True\<rparr>)"

definition embedded_code :: "string \<Rightarrow> string option" where
  \<comment> \<open>\<^verbatim>\<open>/^cloudflare_email_service:(E_[A-Z0-9_]{1,80})(?::outcome_unknown)?$/.exec(s)?.[1]\<close>\<close>
  "embedded_code s =
     (case split_on (CHR '':'') s of
        [p, c] \<Rightarrow> if p = ''cloudflare_email_service'' \<and> error_code_text 80 c then Some c else None
      | [p, c, u] \<Rightarrow>
          if p = ''cloudflare_email_service'' \<and> error_code_text 80 c \<and> u = ''outcome_unknown'' then Some c else None
      | _ \<Rightarrow> None)"

definition terminalProviderErrorCode :: "send_result \<Rightarrow> string \<Rightarrow> string option" where
  "terminalProviderErrorCode result status =
     (if \<not> truthy (sr_error result) then None
      else (case embedded_code (the (sr_error result)) of Some c \<Rightarrow> Some c | None \<Rightarrow> Some status))"

section \<open>Text that a reader of the message would see\<close>

function replace_matches :: "(string \<Rightarrow> (string \<times> string) option) \<Rightarrow> string \<Rightarrow> string" where
  \<comment> \<open>a global \<^verbatim>\<open>replace\<close>: the matcher gives the replacement and what follows the match\<close>
  "replace_matches m [] = []"
| "replace_matches m (c # s) =
     (case m (c # s) of
        Some (r, rest) \<Rightarrow> if length rest \<le> length s then r @ replace_matches m rest else c # replace_matches m s
      | None \<Rightarrow> c # replace_matches m s)"
  by pat_completeness auto
termination by (relation "measure (\<lambda>(m, s). length s)") auto

fun after_first :: "(string \<Rightarrow> string option) \<Rightarrow> string \<Rightarrow> string option" where
  \<comment> \<open>what follows the first place where the matcher succeeds\<close>
  "after_first m [] = m []"
| "after_first m (c # s) = (case m (c # s) of Some r \<Rightarrow> Some r | None \<Rightarrow> after_first m s)"

definition literal :: "string \<Rightarrow> string \<Rightarrow> string option" where
  "literal p s = (if prefix p s then Some (drop (length p) s) else None)"

definition literal_ci :: "string \<Rightarrow> string \<Rightarrow> string option" where
  "literal_ci p s = (if p = lower (take (length p) s) then Some (drop (length p) s) else None)"

definition after_gt :: "string \<Rightarrow> string option" where
  \<comment> \<open>\<^verbatim>\<open>[^>]*>\<close>\<close>
  "after_gt s = (case dropWhile (\<lambda>c. c \<noteq> CHR ''>'') s of [] \<Rightarrow> None | _ # r \<Rightarrow> Some r)"

definition is_word :: "char \<Rightarrow> bool" where
  "is_word c \<longleftrightarrow> is_alnum c \<or> c = CHR ''_''"

definition close_tag :: "string \<Rightarrow> string \<Rightarrow> string option" where
  \<comment> \<open>\<^verbatim>\<open><\/name\s*>\<close> under the flag \<^verbatim>\<open>i\<close>\<close>
  "close_tag name s =
     Option.bind (literal_ci (''</'' @ name) s)
       (\<lambda>r. literal ''>'' (dropWhile is_ws r))"

definition element :: "string \<Rightarrow> string \<Rightarrow> (string \<times> string) option" where
  \<comment> \<open>\<^verbatim>\<open><name\b[^>]*>[\s\S]*?<\/name\s*>\<close>, replaced by nothing\<close>
  "element name s =
     Option.bind (literal_ci (''<'' @ name) s) (\<lambda>r.
       if (case r of [] \<Rightarrow> False | c # _ \<Rightarrow> is_word c) then None
       else Option.bind (after_gt r) (\<lambda>body.
              map_option (\<lambda>rest. ([], rest)) (after_first (close_tag name) body)))"

definition comment :: "string \<Rightarrow> (string \<times> string) option" where
  "comment s =
     Option.bind (literal ''<!--'' s) (\<lambda>body. map_option (\<lambda>rest. ([], rest)) (after_first (literal ''-->'') body))"

definition tag :: "string \<Rightarrow> (string \<times> string) option" where
  "tag s = Option.bind (literal ''<'' s) (\<lambda>r. map_option (\<lambda>rest. ([], rest)) (after_gt r))"

definition htmlVisibleText :: "string \<Rightarrow> string" where
  "htmlVisibleText html =
     replace_matches tag
       (replace_matches (element ''style'')
         (replace_matches (element ''script'')
           (replace_matches comment html)))"

section \<open>Decoding\<close>

definition is_hex_ci :: "char \<Rightarrow> bool" where
  "is_hex_ci c \<longleftrightarrow> is_hex (lower_char c)"

definition digit_value :: "char \<Rightarrow> nat" where
  "digit_value c = (if is_digit c then code c - 48 else code (lower_char c) - 87)"

definition parse_radix :: "nat \<Rightarrow> string \<Rightarrow> nat" where
  "parse_radix b s = foldl (\<lambda>n c. b * n + digit_value c) 0 s"

definition decodeHtmlCodePoint :: "services \<Rightarrow> string \<Rightarrow> string \<Rightarrow> nat \<Rightarrow> string" where
  "decodeHtmlCodePoint sv entity digits radix =
     (let codePoint = parse_radix radix digits in
      if max_safe_integer < int codePoint \<or> codePoint = 0 \<or> 0x10FFFF < codePoint \<or>
         (0xD800 \<le> codePoint \<and> codePoint \<le> 0xDFFF)
      then entity else sv_code_point sv codePoint)"

definition numeric_entity :: "services \<Rightarrow> (string \<Rightarrow> string option) \<Rightarrow> (char \<Rightarrow> bool) \<Rightarrow> nat \<Rightarrow> string \<Rightarrow> (string \<times> string) option" where
  "numeric_entity sv opening isDigit radix s =
     Option.bind (opening s) (\<lambda>r.
       let digits = takeWhile isDigit r; after = dropWhile isDigit r;
           rest = (case after of [] \<Rightarrow> [] | c # t \<Rightarrow> if c = CHR '';'' then t else after) in
       if digits = [] then None
       else Some (decodeHtmlCodePoint sv (take (length s - length rest) s) digits radix, rest))"

definition named_entity :: "string \<Rightarrow> string \<Rightarrow> string \<Rightarrow> (string \<times> string) option" where
  "named_entity name r s = map_option (\<lambda>rest. (r, rest)) (literal_ci (''&'' @ name @ '';'') s)"

definition decodeHtmlEntities :: "services \<Rightarrow> string \<Rightarrow> string" where
  "decodeHtmlEntities sv value =
     fold (\<lambda>m s. replace_matches m s)
       [numeric_entity sv (literal_ci ''&#x'') is_hex_ci 16, numeric_entity sv (literal ''&#'') is_digit 10,
        named_entity ''tab'' [CHR 0x09], named_entity ''newline'' [CHR 0x0A], named_entity ''commat'' ''@'',
        named_entity ''period'' ''.'', named_entity ''percnt'' ''%'', named_entity ''amp'' ''&'']
       value"

fun percent_run :: "string \<Rightarrow> byte list \<times> string" where
  \<comment> \<open>\<^verbatim>\<open>(?:%[0-9a-f]{2})*\<close> under the flag \<^verbatim>\<open>i\<close>\<close>
  "percent_run (p # a # b # s) =
     (if p = CHR ''%'' \<and> is_hex_ci a \<and> is_hex_ci b
      then (let (bs, rest) = percent_run s in (of_nat (16 * digit_value a + digit_value b) # bs, rest))
      else ([], p # a # b # s))"
| "percent_run s = ([], s)"

definition percent_bytes :: "services \<Rightarrow> string \<Rightarrow> (string \<times> string) option" where
  "percent_bytes sv s =
     (let (bs, rest) = percent_run s in if bs = [] then None else Some (sv_utf8_decode sv bs, rest))"

definition decodePercentEncodedBytes :: "services \<Rightarrow> string \<Rightarrow> string" where
  "decodePercentEncodedBytes sv value = replace_matches (percent_bytes sv) value"

definition canonicalVisibleText :: "services \<Rightarrow> string \<Rightarrow> string" where
  \<comment> \<open>the soft hyphen is the one default-ignorable code point of the alphabet\<close>
  "canonicalVisibleText sv value =
     filter (\<lambda>c. c \<notin> {CHR 0x09, CHR 0x0A, CHR 0x0D}) (filter (\<lambda>c. c \<noteq> CHR 0xAD) (lower (sv_nfkc sv value)))"

definition decode_round :: "services \<Rightarrow> string \<Rightarrow> string" where
  "decode_round sv current = canonicalVisibleText sv (decodePercentEncodedBytes sv (decodeHtmlEntities sv current))"

fun visible_rounds :: "services \<Rightarrow> nat \<Rightarrow> string \<Rightarrow> string \<times> bool" where
  \<comment> \<open>the value and whether decoding is complete\<close>
  "visible_rounds sv 0 current = (current, decode_round sv current = current)"
| "visible_rounds sv (Suc n) current =
     (let next' = decode_round sv current in
      if next' = current then (current, True) else visible_rounds sv n next')"

definition normalizedVisibleValue :: "services \<Rightarrow> string \<Rightarrow> string \<times> bool" where
  \<comment> \<open>\<^verbatim>\<open>MAX_PRIVACY_DECODING_ROUNDS\<close> is 4\<close>
  "normalizedVisibleValue sv value = visible_rounds sv 4 (canonicalVisibleText sv value)"

section \<open>Inspection\<close>

definition outwardVisibleValues :: "outbound_job \<Rightarrow> string list" where
  "outwardVisibleValues job =
     [oj_fromIdentity job, with_default (oj_fromIdentity job) (oj_replyTo job)] @ oj_to job @
     (case oj_cc job of None \<Rightarrow> [] | Some xs \<Rightarrow> xs) @ (case oj_bcc job of None \<Rightarrow> [] | Some xs \<Rightarrow> xs) @
     [oj_subject job, with_default [] (oj_text job), with_default [] (oj_html job),
      htmlVisibleText (with_default [] (oj_html job))] @
     concat (map (\<lambda>(k, v). [k, v]) (canonicalConversationHeaders job))"

fun contains_text :: "string \<Rightarrow> string \<Rightarrow> bool" where
  \<comment> \<open>\<^verbatim>\<open>s.includes(p)\<close>\<close>
  "contains_text p [] = (p = [])"
| "contains_text p (c # s) = (prefix p (c # s) \<or> contains_text p s)"

fun opaque_recipient :: "string \<Rightarrow> bool" where
  \<comment> \<open>\<^verbatim>\<open>/r\+[a-f0-9]{62}(?:[a-f0-9]{2})?(?![a-f0-9])/i\<close>\<close>
  "opaque_recipient [] = False"
| "opaque_recipient (c # s) =
     ((case literal_ci ''r+'' (c # s) of
         None \<Rightarrow> False
       | Some r \<Rightarrow> length (takeWhile is_hex_ci r) = 62 \<or> length (takeWhile is_hex_ci r) = 64)
      \<or> opaque_recipient s)"

definition outboundPrivacyFailure :: "services \<Rightarrow> outbound_job \<Rightarrow> jv \<Rightarrow> string option" where
  "outboundPrivacyFailure sv job policy =
     (if (case oj_attachments job of None \<Rightarrow> False | Some as \<Rightarrow> as \<noteq> [])
      then Some ''outbound attachments are disabled until format-aware privacy inspection is configured''
      else (case projectPolicy (sv_core sv) policy of
        Inl _ \<Rightarrow> Some ''outbound privacy policy is invalid''
      | Inr projection \<Rightarrow>
          let visible = map (normalizedVisibleValue sv) (outwardVisibleValues job);
              protected = map (normalizedVisibleValue sv) (pp_protectedOperators projection) in
          if list_ex (\<lambda>v. \<not> snd v) (visible @ protected)
          then Some ''outbound content encoding exceeds privacy inspection limits''
          else if list_ex (\<lambda>v. opaque_recipient (fst v)) visible
          then Some ''outbound content contains an opaque relay recipient''
          else if list_ex (\<lambda>p. fst p \<noteq> [] \<and> list_ex (\<lambda>v. contains_text (fst p) (fst v)) visible) protected
          then Some ''outbound content contains a private operator identity''
          else None))"

function hex_runs :: "string \<Rightarrow> string list" where
  \<comment> \<open>the maximal runs of \<^verbatim>\<open>[a-f0-9]\<close>\<close>
  "hex_runs [] = []"
| "hex_runs (c # s) =
     (if is_hex c then takeWhile is_hex (c # s) # hex_runs (dropWhile is_hex s) else hex_runs s)"
  by pat_completeness auto
termination by (relation "measure length") (auto simp: length_dropWhile_le less_Suc_eq_le)

definition token_candidates :: "services \<Rightarrow> outbound_job \<Rightarrow> string list" where
  "token_candidates sv job =
     uniq (concat (map (\<lambda>v. filter (\<lambda>r. length r = 62 \<or> length r = 64)
                          (hex_runs (fst (normalizedVisibleValue sv v)))) (outwardVisibleValues job)))"

definition relay_with_token :: "string \<Rightarrow> relay_row option statement" where
  "relay_with_token tokenHash = query (\<lambda>_ d. first_row (\<lambda>r. rr_token_sha256 r = tokenHash) (db_relays d))"

fun token_scan :: "services \<Rightarrow> string list \<Rightarrow> string option act" where
  "token_scan sv [] = ret None"
| "token_scan sv (candidate # cs) =
     andThen
       (tryCatch
         (andThen (d1 (relay_with_token (sha sv candidate))) (\<lambda>row.
            ret (if row = None then None else Some ''outbound content contains a private relay token'')))
         (\<lambda>_. ret (Some ''outbound token inspection is unavailable'')))
       (\<lambda>found. case found of Some e \<Rightarrow> ret (Some e) | None \<Rightarrow> token_scan sv cs)"

definition outboundOpaqueTokenFailure :: "services \<Rightarrow> outbound_job \<Rightarrow> string option act" where
  "outboundOpaqueTokenFailure sv job =
     (let candidates = token_candidates sv job in
      if 32 < length candidates then ret (Some ''outbound token inspection limit exceeded'')
      else token_scan sv candidates)"

section \<open>Lemmas\<close>

lemma includes_sublist: "contains_text p s \<longleftrightarrow> sublist p s"
proof (induction s)
  case Nil
  then show ?case by simp
next
  case (Cons c s)
  then show ?case by (auto simp: sublist_Cons_right)
qed

lemma visible_rounds_complete: "visible_rounds sv n s = (v, True) \<Longrightarrow> decode_round sv v = v"
  by (induction n arbitrary: s) (auto simp: Let_def split: if_splits)

lemma normalizedVisibleValue_fixpoint: "normalizedVisibleValue sv s = (v, True) \<Longrightarrow> decode_round sv v = v"
  by (auto simp: normalizedVisibleValue_def visible_rounds_complete)

lemma four_checks_None:
  "(if d then Some w else if a then Some x else if b then Some y else if c then Some z else None) = None \<Longrightarrow>
   \<not> a \<and> \<not> b \<and> \<not> c"
  by (simp split: if_splits)

lemma outboundPrivacyFailure_None:
  assumes "outboundPrivacyFailure sv job policy = None"
  shows "\<exists>projection. projectPolicy (sv_core sv) policy = Inr projection \<and>
    (oj_attachments job = None \<or> oj_attachments job = Some []) \<and>
    (\<forall>s \<in> set (outwardVisibleValues job). \<exists>v. normalizedVisibleValue sv s = (v, True) \<and> \<not> opaque_recipient v \<and>
       (\<forall>p \<in> set (pp_protectedOperators projection). \<exists>q. normalizedVisibleValue sv p = (q, True) \<and>
          (q \<noteq> [] \<longrightarrow> \<not> sublist q v)))"
proof -
  from assms have a: "oj_attachments job = None \<or> oj_attachments job = Some []"
    by (auto simp: outboundPrivacyFailure_def split: if_splits option.splits)
  from assms a obtain projection where p: "projectPolicy (sv_core sv) policy = Inr projection"
    by (cases "projectPolicy (sv_core sv) policy") (auto simp: outboundPrivacyFailure_def)
  let ?n = "normalizedVisibleValue sv"
  let ?vis = "map ?n (outwardVisibleValues job)" and ?prot = "map ?n (pp_protectedOperators projection)"
  have "\<not> list_ex (\<lambda>v. \<not> snd v) (?vis @ ?prot) \<and> \<not> list_ex (\<lambda>v. opaque_recipient (fst v)) ?vis \<and>
    \<not> list_ex (\<lambda>p. fst p \<noteq> [] \<and> list_ex (\<lambda>v. contains_text (fst p) (fst v)) ?vis) ?prot"
    by (rule four_checks_None [OF assms [unfolded outboundPrivacyFailure_def p Let_def sum.case]])
  then have c: "\<forall>v \<in> set ?vis \<union> set ?prot. snd v" and o': "\<forall>v \<in> set ?vis. \<not> opaque_recipient (fst v)"
    and i: "\<forall>p \<in> set ?prot. fst p \<noteq> [] \<longrightarrow> (\<forall>v \<in> set ?vis. \<not> contains_text (fst p) (fst v))"
    unfolding list_ex_iff set_append by blast+
  have "\<exists>v. ?n s = (v, True) \<and> \<not> opaque_recipient v \<and>
       (\<forall>p \<in> set (pp_protectedOperators projection). \<exists>q. ?n p = (q, True) \<and> (q \<noteq> [] \<longrightarrow> \<not> sublist q v))"
    if "s \<in> set (outwardVisibleValues job)" for s
  proof (rule exI [of _ "fst (?n s)"], intro conjI ballI)
    have "snd (?n s)" using c that by auto
    then show "?n s = (fst (?n s), True)" by (metis prod.collapse)
    show "\<not> opaque_recipient (fst (?n s))" using o' that by auto
    fix p assume p: "p \<in> set (pp_protectedOperators projection)"
    then have "snd (?n p)" using c by auto
    then have "?n p = (fst (?n p), True)" by (metis prod.collapse)
    moreover have "fst (?n p) \<noteq> [] \<longrightarrow> \<not> sublist (fst (?n p)) (fst (?n s))"
      using i p that by (auto simp: includes_sublist)
    ultimately show "\<exists>q. ?n p = (q, True) \<and> (q \<noteq> [] \<longrightarrow> \<not> sublist q (fst (?n s)))" by blast
  qed
  with a p show ?thesis by blast
qed

lemma canonical_headers_valid:
  "(k, v) \<in> set (canonicalConversationHeaders job) \<Longrightarrow>
   (k = ''In-Reply-To'' \<and> is_angle_id v) \<or>
   (k = ''References'' \<and> angle_ids v = validMessageIds (messageHeader (oj_headers job) ''references''))"
  by (auto simp: canonicalConversationHeaders_def Let_def validMessageId_def validMessageIds_valid angle_ids_join
      split: if_splits option.splits)

text \<open>Every failure of the mail service is either a definitive rejection or ambiguous, never retryable.\<close>

lemma cloudflare_failure_shape:
  "\<not> sr_ok (cloudflareEmailServiceFailure e) \<and> sr_retryable (cloudflareEmailServiceFailure e) = None \<and>
   (sr_ambiguous (cloudflareEmailServiceFailure e) = None \<longleftrightarrow>
     (\<exists>c \<in> set definitive_rejections. exn_code e = JString c \<and> error_code_text 80 c))"
  by (auto simp: cloudflareEmailServiceFailure_def providerErrorCode_def send_failure_def split: jv.splits option.splits if_splits)

lemma error_code_no_colon: "error_code_text n c \<Longrightarrow> CHR '':'' \<notin> set c"
proof
  assume e: "error_code_text n c" and m: "CHR '':'' \<in> set c"
  then have "CHR '':'' \<in> set (take 2 c) \<or> CHR '':'' \<in> set (drop 2 c)"
    by (metis append_take_drop_id Un_iff set_append)
  moreover from e have "take 2 c = ''E_''" by (auto simp: error_code_text_def prefix_def)
  ultimately show False
    using e by (auto simp: error_code_text_def list_all_iff js_defs)
qed

lemma terminal_code_of_failure:
  assumes "exn_code e = JString c" "error_code_text 80 c"
  shows "terminalProviderErrorCode (cloudflareEmailServiceFailure e) status = Some c"
proof -
  note nc = error_code_no_colon [OF assms(2)]
  have s1: "split_on (CHR '':'') (''cloudflare_email_service:'' @ c) = [''cloudflare_email_service'', c]"
    using split_on_append [of "CHR '':''" "''cloudflare_email_service''" c] split_on_absent [OF nc] by simp
  have s2: "split_on (CHR '':'') (''cloudflare_email_service:'' @ c @ '':outcome_unknown'') =
      [''cloudflare_email_service'', c, ''outcome_unknown'']"
    using split_on_append [of "CHR '':''" "''cloudflare_email_service''" "c @ '':outcome_unknown''"]
      split_on_append [OF nc, of "''outcome_unknown''"] by simp
  show ?thesis
    using assms s1 s2
    by (simp add: cloudflareEmailServiceFailure_def providerErrorCode_def terminalProviderErrorCode_def send_failure_def
        truthy_def embedded_code_def)
qed

end
