(* ===== verification/Reply_Claims.thy ===== *)
theory Reply_Claims
  imports Policy Jobs Outbound_Content
begin

text \<open>
  \<^verbatim>\<open>workers/shared/outbound/reply-authorization.ts\<close> and the claim statements of
  \<^verbatim>\<open>workers/shared/reply-recovery.ts\<close> and \<^verbatim>\<open>ordinary-reply.ts\<close>: the SQL statements that decide whether a
  reply may cross the provider boundary, with the triggers of \<^verbatim>\<open>migrations/0013\<close> and \<^verbatim>\<open>0014\<close> that they
  rely on, and the functions that run them. A statement is a function of the instant and the tables.
\<close>

section \<open>SQL comparisons\<close>

definition sql_lower :: "string \<Rightarrow> string" where
  \<comment> \<open>SQLite's \<^verbatim>\<open>lower\<close>: ASCII only\<close>
  "sql_lower s = map (\<lambda>c. if is_upper_az c then char_of (code c + 32) else c) s"

definition sql_eq :: "'a option \<Rightarrow> 'a option \<Rightarrow> bool" where
  \<comment> \<open>\<^verbatim>\<open>a = b\<close>, not true when either is NULL\<close>
  "sql_eq a b \<longleftrightarrow> a \<noteq> None \<and> a = b"

definition julian :: "services \<Rightarrow> string option \<Rightarrow> int option" where
  "julian sv v = Option.bind v (sv_julian sv)"

definition hours_23 :: int where "hours_23 = 82800000"

section \<open>Triggers\<close>

definition attempt_terminal :: "string \<Rightarrow> bool" where
  "attempt_terminal s \<longleftrightarrow> s \<in> {''provider_accepted'', ''failed'', ''recovery_required''}"

definition admission_terminal :: "string \<Rightarrow> bool" where
  "admission_terminal s \<longleftrightarrow> s \<in> {''provider_accepted'', ''failed'', ''recovery_required'', ''revoked'', ''expired'', ''superseded''}"

definition attempt_aborts :: "attempt_row \<Rightarrow> attempt_row \<Rightarrow> bool" where
  \<comment> \<open>\<^verbatim>\<open>relay_attempts_terminal_no_reopen\<close> and \<^verbatim>\<open>relay_attempts_spool_generation_immutable\<close>\<close>
  "attempt_aborts r r' \<longleftrightarrow>
     (attempt_terminal (ra_status r) \<and> ra_status r' \<noteq> ra_status r) \<or>
     (ra_raw_r2_key r' \<noteq> ra_raw_r2_key r \<and> \<not> (ra_raw_r2_key r' = None \<and> ra_status r' = ''provider_accepted''))"

definition admission_aborts :: "admission_row \<Rightarrow> admission_row \<Rightarrow> bool" where
  \<comment> \<open>\<^verbatim>\<open>reply_admissions_terminal_no_reopen\<close> and \<^verbatim>\<open>ordinary_reply_terminal\<close>\<close>
  "admission_aborts r r' \<longleftrightarrow> admission_terminal (ad_status r) \<and> ad_status r' \<noteq> ad_status r"

definition update_attempts :: "(attempt_row \<Rightarrow> bool) \<Rightarrow> (attempt_row \<Rightarrow> attempt_row) \<Rightarrow> nat statement" where
  "update_attempts P f t d =
     (if list_ex (\<lambda>r. P r \<and> attempt_aborts r (f r)) (db_attempts d) then Inl (Err ''reply attempt trigger'')
      else Inr (changes P (db_attempts d), d\<lparr>db_attempts := update_where P f (db_attempts d)\<rparr>))"

definition update_admissions ::
  "authorization_kind \<Rightarrow> (admission_row \<Rightarrow> bool) \<Rightarrow> (admission_row \<Rightarrow> admission_row) \<Rightarrow> nat statement" where
  \<comment> \<open>an update of the table of the kind\<close>
  "update_admissions kind P f t d =
     (let Q = (\<lambda>r. ad_kind r = kind \<and> P r) in
      if list_ex (\<lambda>r. Q r \<and> admission_aborts r (f r)) (db_admissions d) then Inl (Err ''reply admission trigger'')
      else Inr (changes Q (db_admissions d), d\<lparr>db_admissions := update_where Q f (db_admissions d)\<rparr>))"

section \<open>Conditions shared by the statements\<close>

definition relay_open :: "relay_row \<Rightarrow> bool" where
  "relay_open rr \<longleftrightarrow> rr_revoked_at rr = None \<and> rr_superseded_by rr = None"

definition relay_unexpired :: "services \<Rightarrow> int \<Rightarrow> relay_row \<Rightarrow> bool" where
  "relay_unexpired sv t rr \<longleftrightarrow> sql_less (Some t) (sv_julian sv (rr_expires_at rr))"

definition admission_window :: "services \<Rightarrow> int \<Rightarrow> admission_row \<Rightarrow> bool" where
  \<comment> \<open>admitted and not expired at the instant\<close>
  "admission_window sv t rad \<longleftrightarrow>
     sql_le (sv_julian sv (ad_admitted_at rad)) (Some t) \<and> sql_less (Some t) (sv_julian sv (ad_expires_at rad))"

definition idempotent_resume :: "services \<Rightarrow> int \<Rightarrow> admission_row \<Rightarrow> bool" where
  \<comment> \<open>a Resend send still within the provider's idempotency window\<close>
  "idempotent_resume sv t rad \<longleftrightarrow>
     ad_status rad = ''sending'' \<and> ad_sender_adapter rad = ''resend'' \<and>
     sql_less (Some (t - hours_23)) (julian sv (ad_provider_boundary_at rad))"

definition sendable :: "services \<Rightarrow> int \<Rightarrow> admission_row \<Rightarrow> bool" where
  "sendable sv t rad \<longleftrightarrow> ad_status rad = ''claimed'' \<or> idempotent_resume sv t rad"

definition operator_holds_identity :: "db \<Rightarrow> route_row \<Rightarrow> string \<Rightarrow> string \<Rightarrow> bool" where
  \<comment> \<open>the route's current policy binds the operator (by email) to the public address\<close>
  "operator_holds_identity d ar email address \<longleftrightarrow>
     list_ex (\<lambda>bi. bi_route_id bi = ar_id ar \<and> ar_policy_sha256 ar = Some (bi_policy_sha256 bi) \<and>
       operator_email d (bi_operator_id bi) = Some email \<and>
       identity_address d (bi_public_identity_id bi) = Some address) (db_bindings d)"

definition attempt_by_id :: "string option \<Rightarrow> db \<Rightarrow> attempt_row option" where
  "attempt_by_id i d = (case i of None \<Rightarrow> None | Some a \<Rightarrow> first_row (\<lambda>r. ra_id r = a) (db_attempts d))"

definition relay_by_id :: "string \<Rightarrow> db \<Rightarrow> relay_row option" where
  "relay_by_id i d = first_row (\<lambda>r. rr_id r = i) (db_relays d)"

definition route_by_id :: "string \<Rightarrow> db \<Rightarrow> route_row option" where
  "route_by_id i d = first_row (\<lambda>r. ar_id r = i) (db_routes d)"

definition thread_by_id :: "string \<Rightarrow> db \<Rightarrow> thread_row option" where
  "thread_by_id i d = first_row (\<lambda>r. th_id r = i) (db_threads d)"

definition admissions_of_attempt :: "attempt_row \<Rightarrow> db \<Rightarrow> admission_row list" where
  \<comment> \<open>\<^verbatim>\<open>reply_admissions_all rad ON rad.claimed_attempt_id = rat.id\<close>\<close>
  "admissions_of_attempt rat d = filter (\<lambda>rad. ad_claimed_attempt_id rad = Some (ra_id rat)) (db_admissions d)"

definition blocker_of :: "relay_row \<Rightarrow> db \<Rightarrow> string option" where
  "blocker_of rr d =
     (if rr_revoked_at rr \<noteq> None then Some ''relay_revoked''
      else if rr_superseded_by rr \<noteq> None then Some ''relay_superseded''
      else if route_quarantined (rr_route_id rr) d then Some ''route_quarantined'' else None)"

section \<open>The statements\<close>

definition claimed_reply_spool :: "services \<Rightarrow> inbox_job \<Rightarrow> authorization_kind \<Rightarrow> int \<Rightarrow> db \<Rightarrow> string option" where
  \<comment> \<open>\<^verbatim>\<open>CLAIMED_REPLY_SPOOL_SQL\<close>\<close>
  "claimed_reply_spool sv job kind t d =
     (case attempt_by_id (Some (ij_attemptId job)) d of
        None \<Rightarrow> None
      | Some rat \<Rightarrow>
          (case relay_by_id (ra_relay_id rat) d of
             None \<Rightarrow> None
           | Some rr \<Rightarrow>
               if ra_relay_id rat = ij_relayId job \<and> ra_operator rat = ij_operator job \<and>
                  ra_operator_message_id rat = ij_operatorMessageId job \<and>
                  ra_raw_r2_key rat = Some (ij_rawR2Key job) \<and> ra_raw_sha256 rat = Some (ij_rawSha256 job) \<and>
                  ra_status rat \<in> {''receiving'', ''queued'', ''authorized''} \<and>
                  relay_open rr \<and> \<not> route_quarantined (rr_route_id rr) d \<and>
                  list_ex (\<lambda>rad. ad_id rad = ij_admissionId job \<and>
                    ad_transaction_sha256 rad = ij_transactionSha256 job \<and>
                    ad_claimed_attempt_sha256 rad = Some (ij_attemptSha256 job) \<and>
                    ad_claimed_payload_sha256 rad = Some (ij_claimedPayloadSha256 job) \<and>
                    ad_desired_state_sha256 rad = ij_desiredStateSha256 job \<and>
                    ad_identity_profile_sha256 rad = ij_identityProfileSha256 job \<and>
                    ad_kind rad = kind \<and> ad_activation_id rad = as_string (ij_activationId job) \<and>
                    sendable sv t rad \<and> admission_window sv t rad) (admissions_of_attempt rat d)
               then Some (ra_id rat) else None))"

definition payload_of_job :: "outbound_job \<Rightarrow> mail_payload" where
  "payload_of_job job =
     \<lparr> mp_subject = oj_subject job, mp_text = oj_text job, mp_html = oj_html job,
       mp_headers = (case oj_headers job of None \<Rightarrow> [] | Some hs \<Rightarrow> hs),
       mp_attachments = (case oj_attachments job of None \<Rightarrow> [] | Some as \<Rightarrow> as) \<rparr>"

definition outboundPayloadSha256 :: "services \<Rightarrow> outbound_job \<Rightarrow> string" where
  "outboundPayloadSha256 sv job = outboundRelayPayloadSha256 (sv_platform sv) (payload_of_job job)"


definition authorized_outbound_reply ::
  "services \<Rightarrow> outbound_job \<Rightarrow> string \<Rightarrow> string \<Rightarrow> string \<Rightarrow> string \<Rightarrow> int \<Rightarrow> db \<Rightarrow> string option" where
  \<comment> \<open>\<^verbatim>\<open>AUTHORIZED_OUTBOUND_REPLY_SQL\<close> with the normalized operator, route, recipient and identity\<close>
  "authorized_outbound_reply sv job operator route recipient identity t d =
     (case attempt_by_id (oj_relayAttemptId job) d of
        None \<Rightarrow> None
      | Some rat \<Rightarrow>
          (case relay_by_id (ra_relay_id rat) d of
             None \<Rightarrow> None
           | Some rr \<Rightarrow>
               (case route_by_id (rr_route_id rr) d of
                  None \<Rightarrow> None
                | Some ar \<Rightarrow>
                    if sql_eq (ra_raw_r2_key rat) (oj_relaySpoolKey job) \<and> sql_lower (ra_operator rat) = operator \<and>
                       ra_status rat = ''authorized'' \<and> rr_thread_id rr = oj_threadId job \<and>
                       map_option sql_lower (route_address d ar) = Some route \<and>
                       sql_lower (rr_external_recipient rr) = recipient \<and>
                       relay_open rr \<and> relay_unexpired sv t rr \<and> \<not> route_quarantined (rr_route_id rr) d \<and>
                       ar_enabled ar \<and> sql_eq (ar_policy_sha256 ar) (oj_policySha256 job) \<and>
                       sql_eq (active_policy d) (oj_policySha256 job) \<and>
                       list_ex (\<lambda>ae. ae_dedupe_key ae =
                            map_option (\<lambda>a. a @ '':inbox_reply_authorized'') (oj_relayAttemptId job) \<and>
                          ae_thread_id ae = Some (rr_thread_id rr) \<and>
                          (case ae_detail ae of None \<Rightarrow> False
                           | Some detail \<Rightarrow>
                               js_get detail ''outboundPayloadSha256'' = JString (outboundPayloadSha256 sv job)))
                         (db_audit d) \<and>
                       list_ex (\<lambda>rad. sql_lower (ad_public_identity rad) = identity \<and>
                          operator_holds_identity d ar (ra_operator rat) (ad_public_identity rad) \<and>
                          Some (ad_id rad) = oj_admissionId job \<and>
                          Some (ad_transaction_sha256 rad) = oj_transactionSha256 job \<and>
                          sql_eq (ad_claimed_attempt_sha256 rad) (oj_attemptSha256 job) \<and>
                          sql_eq (ad_claimed_payload_sha256 rad) (oj_claimedPayloadSha256 job) \<and>
                          Some (ad_desired_state_sha256 rad) = oj_desiredStateSha256 job \<and>
                          projection_value ''active_desired_state_sha256'' d = Some (ad_desired_state_sha256 rad) \<and>
                          Some (ad_identity_profile_sha256 rad) = oj_identityProfileSha256 job \<and>
                          outbound_authorization job = Some (ad_kind rad) \<and>
                          ad_activation_id rad = as_string (oj_activationId job) \<and>
                          sendable sv t rad \<and> admission_window sv t rad) (admissions_of_attempt rat d)
                    then Some (ra_id rat) else None)))"

definition reply_target_candidates :: "outbound_job \<Rightarrow> db \<Rightarrow> (string \<times> string) option" where
  \<comment> \<open>\<^verbatim>\<open>OUTBOUND_REPLY_TARGET_CANDIDATES_SQL\<close>: the relay's recipient and the thread's external sender\<close>
  "reply_target_candidates job d =
     (case attempt_by_id (oj_relayAttemptId job) d of
        None \<Rightarrow> None
      | Some rat \<Rightarrow>
          (case relay_by_id (ra_relay_id rat) d of
             None \<Rightarrow> None
           | Some rr \<Rightarrow>
               (case thread_by_id (rr_thread_id rr) d of
                  None \<Rightarrow> None
                | Some th \<Rightarrow>
                    if th_route_id th = rr_route_id rr \<and> rr_thread_id rr = oj_threadId job
                    then Some (rr_external_recipient rr, sql_lower (th_external_sender th)) else None)))"

definition boundary_condition ::
  "services \<Rightarrow> outbound_job \<Rightarrow> authorization_kind \<Rightarrow> route_decision \<Rightarrow> int \<Rightarrow> db \<Rightarrow> admission_row \<Rightarrow> bool" where
  \<comment> \<open>the WHERE clause of \<^verbatim>\<open>CLAIM_OUTBOUND_PROVIDER_BOUNDARY_SQL\<close> and its ordinary variant\<close>
  "boundary_condition sv job kind route t d rad \<longleftrightarrow>
     Some (ad_id rad) = oj_admissionId job \<and> Some (ad_transaction_sha256 rad) = oj_transactionSha256 job \<and>
     sql_eq (ad_claimed_attempt_id rad) (oj_relayAttemptId job) \<and>
     sql_eq (ad_claimed_attempt_sha256 rad) (oj_attemptSha256 job) \<and>
     sql_eq (ad_claimed_payload_sha256 rad) (oj_claimedPayloadSha256 job) \<and>
     Some (ad_desired_state_sha256 rad) = oj_desiredStateSha256 job \<and>
     Some (ad_identity_profile_sha256 rad) = oj_identityProfileSha256 job \<and>
     Some (ad_policy_sha256 rad) = oj_policySha256 job \<and>
     (ad_status rad = ''claimed'' \<or>
        (idempotent_resume sv t rad \<and> configuredOutboundMode (sv_env sv) = Mode_Resend)) \<and>
     admission_window sv t rad \<and>
     sql_eq (active_policy d) (oj_policySha256 job) \<and>
     sql_eq (projection_value ''active_desired_state_sha256'' d) (oj_desiredStateSha256 job) \<and>
     (case relay_by_id (ad_relay_id rad) d of
        None \<Rightarrow> False
      | Some rr \<Rightarrow>
          relay_open rr \<and> relay_unexpired sv t rr \<and>
          (case (route_by_id (rr_route_id rr) d, attempt_by_id (ad_claimed_attempt_id rad) d) of
             (Some ar, Some rat) \<Rightarrow>
               ar_enabled ar \<and> sql_eq (ar_policy_sha256 ar) (oj_policySha256 job) \<and>
               operator_holds_identity d ar (ra_operator rat) (ad_public_identity rad)
           | _ \<Rightarrow> False)) \<and>
     route_operator_emails (ad_route_id rad) d = de_operators route \<and>
     \<not> route_quarantined (ad_route_id rad) d \<and>
     guarded_route (ad_route_id rad) route d \<and>
     (kind = Ordinary \<longrightarrow>
        list_ex (\<lambda>a. Some (ac_id a) = ad_activation_id rad \<and> ac_route_id a = ad_route_id rad \<and>
          ac_policy_sha256 a = ad_policy_sha256 rad \<and> ac_desired_state_sha256 a = ad_desired_state_sha256 rad \<and>
          ac_identity_profile_sha256 a = ad_identity_profile_sha256 rad \<and>
          ac_operator_set_sha256 a = ad_operator_set_sha256 rad) (db_activations d))"

definition cross_boundary :: "services \<Rightarrow> int \<Rightarrow> admission_row \<Rightarrow> admission_row" where
  "cross_boundary sv t rad =
     rad\<lparr>ad_status := ''sending'',
         ad_provider_boundary_at :=
           (case ad_provider_boundary_at rad of None \<Rightarrow> Some (sv_timestamp sv t) | Some b \<Rightarrow> Some b)\<rparr>"

definition claim_boundary_statement ::
  "services \<Rightarrow> outbound_job \<Rightarrow> authorization_kind \<Rightarrow> route_decision \<Rightarrow> nat statement" where
  "claim_boundary_statement sv job kind route t d =
     update_admissions kind (boundary_condition sv job kind route t d) (cross_boundary sv t) t d"

section \<open>The functions\<close>

definition requireBound :: "string option list \<Rightarrow> 'a act \<Rightarrow> 'a act" where
  \<comment> \<open>D1 refuses to bind \<^verbatim>\<open>undefined\<close>\<close>
  "requireBound values m = (if list_all (\<lambda>v. v \<noteq> None) values then m else throw (Err ''D1_TYPE_ERROR''))"

definition containment_state :: "outbound_job \<Rightarrow> db \<Rightarrow> string option" where
  \<comment> \<open>\<^verbatim>\<open>OUTBOUND_CONTAINMENT_STATE_SQL\<close>\<close>
  "containment_state job d =
     (case attempt_by_id (oj_relayAttemptId job) d of
        None \<Rightarrow> None
      | Some rat \<Rightarrow>
          (case relay_by_id (ra_relay_id rat) d of
             None \<Rightarrow> None
           | Some rr \<Rightarrow>
               if list_ex (\<lambda>rad. Some (ad_id rad) = oj_admissionId job \<and>
                    Some (ad_transaction_sha256 rad) = oj_transactionSha256 job) (admissions_of_attempt rat d)
               then blocker_of rr d else None))"

definition outboundContainmentBlocker :: "outbound_job \<Rightarrow> string option act" where
  "outboundContainmentBlocker job =
     (if \<not> truthy (oj_relayAttemptId job) \<or> \<not> truthy (oj_admissionId job) \<or> \<not> truthy (oj_transactionSha256 job)
      then ret (Some ''state_unavailable'')
      else tryCatch (d1 (query (\<lambda>_ d. containment_state job d))) (\<lambda>_. ret (Some ''state_unavailable'')))"

definition filled :: "string option \<Rightarrow> bool" where
  \<comment> \<open>\<^verbatim>\<open>Boolean(value?.trim())\<close>\<close>
  "filled v \<longleftrightarrow> (case v of None \<Rightarrow> False | Some s \<Rightarrow> trim s \<noteq> [])"

definition digest :: "string option \<Rightarrow> bool" where
  "digest v \<longleftrightarrow> (case v of None \<Rightarrow> False | Some s \<Rightarrow> is_sha256_hex s)"

definition hasInboxRelayTransactionBindings :: "outbound_job \<Rightarrow> bool" where
  "hasInboxRelayTransactionBindings job \<longleftrightarrow>
     outbound_authorization job \<noteq> None \<and> filled (oj_admissionId job) \<and>
     digest (oj_transactionSha256 job) \<and> digest (oj_attemptSha256 job) \<and>
     digest (oj_claimedPayloadSha256 job) \<and> digest (oj_desiredStateSha256 job) \<and>
     digest (oj_identityProfileSha256 job) \<and>
     filled (oj_relayAttemptId job) \<and> filled (oj_relaySpoolKey job) \<and> digest (oj_policySha256 job) \<and>
     filled (oj_identityProfileRef job) \<and> filled (oj_signatureProfileRef job) \<and>
     filled (oj_fromDisplayName job) \<and> truthy (oj_senderAdapter job) \<and> filled (oj_requestedIdentity job)"

definition attempt_prefix :: string where "attempt_prefix = ''relay-attempt:''"

definition message_of_attempt :: "string option \<Rightarrow> string option" where
  \<comment> \<open>the message id that an attempt id names\<close>
  "message_of_attempt attemptId =
     (case attemptId of None \<Rightarrow> None
      | Some a \<Rightarrow> if prefix attempt_prefix a then Some (drop (length attempt_prefix) a) else None)"

definition strip_attempt_prefix :: "string \<Rightarrow> string" where
  \<comment> \<open>\<^verbatim>\<open>attemptId.replace(/^relay-attempt:/, "")\<close>\<close>
  "strip_attempt_prefix a = (if prefix attempt_prefix a then drop (length attempt_prefix) a else a)"

definition is_nonempty :: "'a list option \<Rightarrow> bool" where
  "is_nonempty v \<longleftrightarrow> (case v of None \<Rightarrow> False | Some xs \<Rightarrow> xs \<noteq> [])"

definition transaction_mismatch :: string where
  "transaction_mismatch = ''inbox relay job does not match its durable transaction''"

definition checkDurableTransaction ::
  "services \<Rightarrow> outbound_job \<Rightarrow> string \<Rightarrow> string \<Rightarrow> string \<Rightarrow> string \<Rightarrow> string option act" where
  \<comment> \<open>the second read of \<^verbatim>\<open>verifyAuthorizedOutboundTransaction\<close>\<close>
  "checkDurableTransaction sv job operator route recipient identity =
     tryCatch
       (andThen (d1 (query (authorized_outbound_reply sv job operator route recipient identity))) (\<lambda>row.
          ret (if sql_eq row (oj_relayAttemptId job) then None else Some transaction_mismatch)))
       (\<lambda>_. ret (Some ''inbox relay durable transaction read is unavailable''))"

definition verifyAuthorizedOutboundTransaction :: "services \<Rightarrow> outbound_job \<Rightarrow> string option act" where
  "verifyAuthorizedOutboundTransaction sv job =
     (if length (oj_to job) \<noteq> 1 \<or> is_nonempty (oj_cc job) \<or> is_nonempty (oj_bcc job) \<or>
         \<not> truthy (message_of_attempt (oj_relayAttemptId job)) \<or>
         Some (oj_messageId job) \<noteq> message_of_attempt (oj_relayAttemptId job)
      then ret (Some transaction_mismatch)
      else if Some (outboundPayloadSha256 sv job) \<noteq> oj_claimedPayloadSha256 job
      then ret (Some ''inbox relay payload does not match its controller admission claim'')
      else
        (let recipient = normalizeMailbox (hd (oj_to job)); operator = normalizeMailbox (oj_operator job);
             route = normalizeMailbox (oj_envelopeTo job); identity = normalizeMailbox (oj_fromIdentity job) in
         if recipient = [] \<or> operator = [] \<or> route = [] \<or> identity = [] then ret (Some transaction_mismatch)
         else
           andThen (tryCatch (andThen (d1 (query (\<lambda>_ d. reply_target_candidates job d))) (\<lambda>row. ret (Some row)))
                             (\<lambda>_. ret None)) (\<lambda>targetRow.
             case targetRow of
               None \<Rightarrow> ret (Some ''reply_target_unavailable'')
             | Some row \<Rightarrow>
                 (case resolveReplyTarget (sv_core sv) (case row of None \<Rightarrow> [] | Some (a, b) \<Rightarrow> [a, b]) of
                    Inl e \<Rightarrow> ret (Some (re_kind e))
                  | Inr target \<Rightarrow>
                      if target \<noteq> recipient then ret (Some ''reply_target_mismatch'')
                      else checkDurableTransaction sv job operator route recipient identity))))"

definition claimOutboundProviderBoundary :: "services \<Rightarrow> outbound_job \<Rightarrow> route_decision \<Rightarrow> bool act" where
  "claimOutboundProviderBoundary sv job expectedRoute =
     (if \<not> hasInboxRelayTransactionBindings job \<or> \<not> truthy (oj_policySha256 job) then ret False
      else (case outbound_authorization job of
              None \<Rightarrow> ret False
            | Some kind \<Rightarrow>
                andThen (liftE (routeReplyIdentityBindings expectedRoute)) (\<lambda>_.
                andThen (d1 (claim_boundary_statement sv job kind expectedRoute)) (\<lambda>n. ret (0 < n)))))"

definition unsent_claim :: "outbound_job \<Rightarrow> admission_row \<Rightarrow> bool" where
  "unsent_claim job rad \<longleftrightarrow>
     Some (ad_id rad) = oj_admissionId job \<and> Some (ad_transaction_sha256 rad) = oj_transactionSha256 job \<and>
     sql_eq (ad_claimed_attempt_id rad) (oj_relayAttemptId job) \<and>
     sql_eq (ad_claimed_attempt_sha256 rad) (oj_attemptSha256 job) \<and>
     sql_eq (ad_claimed_payload_sha256 rad) (oj_claimedPayloadSha256 job) \<and> ad_status rad = ''claimed''"

definition reject_claim :: "services \<Rightarrow> int \<Rightarrow> admission_row \<Rightarrow> admission_row" where
  "reject_claim sv t rad =
     rad\<lparr>ad_status := ''failed'', ad_terminal_at :=
           (case ad_terminal_at rad of None \<Rightarrow> Some (sv_timestamp sv t) | Some v \<Rightarrow> Some v),
         ad_error_code := Some ''pre_boundary_rejected''\<rparr>"

definition claimReplyFailureBeforeBoundary :: "services \<Rightarrow> outbound_job \<Rightarrow> bool act" where
  "claimReplyFailureBeforeBoundary sv job =
     (case outbound_authorization job of
        None \<Rightarrow> ret False
      | Some kind \<Rightarrow>
          if \<not> truthy (oj_admissionId job) \<or> \<not> truthy (oj_relayAttemptId job) then ret False
          else requireBound [oj_transactionSha256 job, oj_attemptSha256 job, oj_claimedPayloadSha256 job]
            (andThen (d1 (\<lambda>t d. update_admissions kind (unsent_claim job) (reject_claim sv t) t d))
               (\<lambda>n. ret (0 < n))))"

definition loadOrdinaryRouteAuthorization ::
  "services \<Rightarrow> string \<Rightarrow> string \<Rightarrow> string \<Rightarrow> string \<Rightarrow> activation_row option act" where
  \<comment> \<open>\<^verbatim>\<open>ordinary-reply.ts\<close>: the route, the policy, the identity profile and the operator set\<close>
  "loadOrdinaryRouteAuthorization sv routeId policySha256 identityProfileSha256 operatorSetSha256 =
     (let env = sv_env sv in
      if env_ORDINARY_REPLY_MODE env \<noteq> Some ''enabled'' \<or> \<not> digest (env_RUNTIME_ARTIFACTS_SHA256 env) \<or>
         \<not> digest (env_TOPOLOGY_SHA256 env) then ret None
      else d1 (query (\<lambda>_ d. first_row (\<lambda>a. ac_route_id a = routeId \<and> ac_policy_sha256 a = policySha256 \<and>
             ac_identity_profile_sha256 a = identityProfileSha256 \<and>
             ac_operator_set_sha256 a = operatorSetSha256 \<and>
             Some (ac_sender_adapter a) = env_OUTBOUND_MODE env \<and>
             Some (ac_runtime_artifacts_sha256 a) = env_RUNTIME_ARTIFACTS_SHA256 env \<and>
             Some (ac_topology_sha256 a) = env_TOPOLOGY_SHA256 env) (db_activations d))))"

record stored_claim =
  sc_attempt :: attempt_row
  sc_admission :: admission_row
  sc_route_address :: string

definition stored_reply_claim :: "string \<Rightarrow> db \<Rightarrow> stored_claim option" where
  \<comment> \<open>\<^verbatim>\<open>STORED_REPLY_CLAIM_SQL\<close>\<close>
  "stored_reply_claim attemptId d =
     (case attempt_by_id (Some attemptId) d of
        None \<Rightarrow> None
      | Some rat \<Rightarrow>
          (case first_row (\<lambda>rad. Some (ad_id rad) = ra_admission_id rat \<and> Some (ad_kind rad) = ra_admission_kind rat \<and>
                  Some (ad_transaction_sha256 rad) = ra_transaction_sha256 rat \<and>
                  sql_eq (ad_claimed_attempt_sha256 rad) (ra_attempt_sha256 rat) \<and>
                  sql_eq (ad_claimed_payload_sha256 rad) (ra_claimed_payload_sha256 rat))
                (admissions_of_attempt rat d) of
             None \<Rightarrow> None
           | Some rad \<Rightarrow>
               (case Option.bind (route_by_id (ad_route_id rad) d) (route_address d) of
                  None \<Rightarrow> None
                | Some address \<Rightarrow>
                    Some \<lparr> sc_attempt = rat, sc_admission = rad, sc_route_address = address \<rparr>)))"

definition loadStoredReplyClaim :: "string \<Rightarrow> stored_claim option act" where
  "loadStoredReplyClaim attemptId = d1 (query (\<lambda>_ d. stored_reply_claim attemptId d))"

end
