(* ===== verification/Audit_Log.thy ===== *)
theory Audit_Log
  imports Effects Jobs Outbound_Content
begin

text \<open>
  \<^verbatim>\<open>workers/shared/outbound/audit.ts\<close> and \<^verbatim>\<open>workers/shared/ingress-audit.ts\<close>: the append-only audit
  log, keyed by an idempotency key, and the reading of a stored terminal send result.

  The log is used through one contract, the locale \<open>dedupe_log\<close>: the first writer of a key wins and
  nothing that was written changes.
\<close>

section \<open>The contract of an idempotent log\<close>

locale dedupe_log =
  fixes append :: "'i \<Rightarrow> 'k \<Rightarrow> 'v \<Rightarrow> 's \<Rightarrow> bool \<times> 's"
    and lookup :: "'k \<Rightarrow> 's \<Rightarrow> 'v option"
    and stored :: "'v \<Rightarrow> 'v"
    and used :: "'i \<Rightarrow> 's \<Rightarrow> bool"
  assumes append_new: "lookup k s = None \<Longrightarrow> \<not> used i s \<Longrightarrow>
      fst (append i k v s) \<and> lookup k (snd (append i k v s)) = Some (stored v)"
    and stored_idem: "stored (stored v) = stored v"
    and append_old: "lookup k s = Some u \<Longrightarrow> append i k v s = (False, s)"
    and append_other: "k \<noteq> k' \<Longrightarrow> lookup k' (snd (append i k v s)) = lookup k' s"
begin

definition run :: "('i \<times> 'k \<times> 'v) list \<Rightarrow> 's \<Rightarrow> 's" where
  "run ws s = fold (\<lambda>(i, k, v) s. snd (append i k v s)) ws s"

lemma append_keeps: "lookup k s = Some u \<Longrightarrow> lookup k (snd (append i k' v s)) = Some u"
  using append_old [of k s u] append_other [of k' k i v s] by (cases "k = k'") auto

lemma run_keeps: "lookup k s = Some u \<Longrightarrow> lookup k (run ws s) = Some u"
proof (induction ws arbitrary: s)
  case Nil
  then show ?case by (simp add: run_def)
next
  case (Cons w ws)
  obtain i k' v where w: "w = (i, k', v)" by (cases w)
  then have "lookup k (run ws (snd (append i k' v s))) = Some u"
    using Cons.IH Cons.prems append_keeps by blast
  with w show ?case by (simp add: run_def)
qed

lemma first_writer_wins:
  assumes "lookup k s = None" "\<not> used i s"
  shows "lookup k (run ((i, k, v) # ws) s) = Some (stored v)"
proof -
  have "lookup k (snd (append i k v s)) = Some (stored v)"
    using append_new [OF assms] by blast
  then have "lookup k (run ws (snd (append i k v s))) = Some (stored v)" by (rule run_keeps)
  then show ?thesis by (simp add: run_def)
qed

lemma redelivery_is_noop:
  assumes "lookup k s = None" "\<not> used i s"
  shows "append j k u (snd (append i k v s)) = (False, snd (append i k v s))"
  using append_new [OF assms, of v] append_old by metis

end

section \<open>The audit table\<close>

fun json_clean :: "jv \<Rightarrow> jv" where
  \<comment> \<open>\<^verbatim>\<open>JSON.parse(JSON.stringify(value))\<close>: undefined properties are left out\<close>
  "json_clean (JObject ps) =
     JObject (map (\<lambda>(k, v). (k, json_clean v)) (filter (\<lambda>(k, v). v \<noteq> JUndefined) ps))"
| "json_clean (JArray vs) = JArray (map json_clean vs)"
| "json_clean JUndefined = JNull"
| "json_clean v = v"

definition audit_lookup :: "string \<Rightarrow> db \<Rightarrow> audit_row option" where
  "audit_lookup key d = first_row (\<lambda>r. ae_dedupe_key r = Some key) (db_audit d)"

definition audit_conflict :: "string \<Rightarrow> string option \<Rightarrow> db \<Rightarrow> bool" where
  \<comment> \<open>the primary key, or the partial unique index on the idempotency key\<close>
  "audit_conflict i key d \<longleftrightarrow>
     list_ex (\<lambda>r. ae_id r = i \<or> (key \<noteq> None \<and> ae_dedupe_key r = key)) (db_audit d)"

definition insertAudit ::
  "string \<Rightarrow> string option \<Rightarrow> (db \<Rightarrow> string option) \<Rightarrow> string \<Rightarrow> string \<Rightarrow> jv \<Rightarrow> nat statement" where
  \<comment> \<open>\<^verbatim>\<open>INSERT OR IGNORE INTO audit_events\<close>; the thread id is a function of the database\<close>
  "insertAudit i key thread actor action detail t d =
     (if audit_conflict i key d then Inr (0, d)
      else Inr (1, d\<lparr>db_audit := db_audit d @ [\<lparr> ae_id = i, ae_dedupe_key = key, ae_thread_id = thread d,
             ae_actor = actor, ae_action = action, ae_detail = Some (json_clean detail) \<rparr>]\<rparr>))"

definition existing_thread :: "string option \<Rightarrow> db \<Rightarrow> string option" where
  \<comment> \<open>\<^verbatim>\<open>(SELECT id FROM threads WHERE id = ?3)\<close>\<close>
  "existing_thread thread d =
     (case thread of None \<Rightarrow> None | Some i \<Rightarrow> map_option th_id (first_row (\<lambda>r. th_id r = i) (db_threads d)))"

definition recordAuditEvent ::
  "services \<Rightarrow> string \<Rightarrow> string \<Rightarrow> jv \<Rightarrow> string option \<Rightarrow> string option \<Rightarrow> bool act" where
  "recordAuditEvent sv actor action detail dedupeKey threadId =
     andThen (randomUUID sv) (\<lambda>i.
     andThen (d1 (insertAudit i dedupeKey (existing_thread threadId) actor action detail)) (\<lambda>n. ret (0 < n)))"

definition recordAudit ::
  "services \<Rightarrow> string \<Rightarrow> string option \<Rightarrow> string \<Rightarrow> string \<Rightarrow> jv \<Rightarrow> unit act" where
  \<comment> \<open>\<^verbatim>\<open>ingress-audit.ts\<close>; the thread must exist, or the foreign key aborts the statement\<close>
  "recordAudit sv dedupeKey threadId actor action detail =
     andThen (randomUUID sv) (\<lambda>i.
     andThen (d1 (\<lambda>t d.
       if audit_conflict i (Some dedupeKey) d then Inr (0, d)
       else if threadId \<noteq> None \<and> existing_thread threadId d = None
       then Inl (Err ''FOREIGN KEY constraint failed'')
       else insertAudit i (Some dedupeKey) (\<lambda>_. threadId) actor action detail t d)) (\<lambda>_. ret ()))"

definition recordEvent ::
  "services \<Rightarrow> string \<Rightarrow> string \<Rightarrow> jv \<Rightarrow> string option \<Rightarrow> string option \<Rightarrow> unit act" where
  \<comment> \<open>a call of \<^const>\<open>recordAuditEvent\<close> whose result is not used\<close>
  "recordEvent sv actor action detail dedupeKey threadId =
     andThen (recordAuditEvent sv actor action detail dedupeKey threadId) (\<lambda>_. ret ())"

section \<open>Stored send results\<close>

datatype terminal_action = Reply_Delivered | Reply_Failed | Reply_Recovery_Required

fun terminal_name :: "terminal_action \<Rightarrow> string" where
  "terminal_name Reply_Delivered = ''outbound_reply_delivered''"
| "terminal_name Reply_Failed = ''outbound_reply_failed''"
| "terminal_name Reply_Recovery_Required = ''outbound_reply_recovery_required''"

definition isTerminalSendAction :: "string \<Rightarrow> terminal_action option" where
  "isTerminalSendAction value =
     (if value = ''outbound_reply_delivered'' then Some Reply_Delivered
      else if value = ''outbound_reply_failed'' then Some Reply_Failed
      else if value = ''outbound_reply_recovery_required'' then Some Reply_Recovery_Required else None)"

definition is_number :: "jv \<Rightarrow> bool" where
  "is_number v = (case v of JInt _ \<Rightarrow> True | JNonInt \<Rightarrow> True | _ \<Rightarrow> False)"

definition is_boolean :: "jv \<Rightarrow> bool" where
  "is_boolean v = (case v of JBool _ \<Rightarrow> True | _ \<Rightarrow> False)"

definition undefined_or :: "(jv \<Rightarrow> bool) \<Rightarrow> jv \<Rightarrow> bool" where
  "undefined_or P v \<longleftrightarrow> v = JUndefined \<or> P v"

definition isStoredOutboundSendResult :: "jv \<Rightarrow> bool" where
  "isStoredOutboundSendResult result \<longleftrightarrow>
     js_is_record result \<and> is_boolean (js_get result ''ok'') \<and> js_is_string (js_get result ''provider'') \<and>
     undefined_or js_is_string (js_get result ''providerMessageId'') \<and>
     undefined_or js_is_string (js_get result ''error'') \<and> undefined_or is_number (js_get result ''status'') \<and>
     undefined_or is_boolean (js_get result ''retryable'') \<and> undefined_or is_boolean (js_get result ''ambiguous'')"

definition as_bool_option :: "jv \<Rightarrow> bool option" where
  "as_bool_option v = (case v of JBool b \<Rightarrow> Some b | _ \<Rightarrow> None)"

definition as_send_result :: "jv \<Rightarrow> send_result" where
  "as_send_result v =
     \<lparr> sr_providerBoundaryClaimed = False, sr_ok = (js_get v ''ok'' = JBool True),
       sr_provider = str_field v ''provider'', sr_providerMessageId = opt_field v ''providerMessageId'',
       sr_error = opt_field v ''error'',
       sr_httpStatus = (case js_get v ''status'' of JInt n \<Rightarrow> Some (nat n) | _ \<Rightarrow> None),
       sr_retryable = as_bool_option (js_get v ''retryable''),
       sr_ambiguous = as_bool_option (js_get v ''ambiguous''), sr_response = None, sr_notClaimed = False \<rparr>"

definition jbool_opt :: "bool option \<Rightarrow> jv" where
  "jbool_opt v = (case v of None \<Rightarrow> JUndefined | Some b \<Rightarrow> JBool b)"

definition auditSendResult :: "send_result \<Rightarrow> jv" where
  "auditSendResult r = JObject
     [(''ok'', JBool (sr_ok r)), (''provider'', JString (sr_provider r)),
      (''providerMessageId'', jundef (sr_providerMessageId r)), (''error'', jundef (sr_error r)),
      (''status'', case sr_httpStatus r of None \<Rightarrow> JUndefined | Some n \<Rightarrow> JInt (int n)),
      (''retryable'', jbool_opt (sr_retryable r)), (''ambiguous'', jbool_opt (sr_ambiguous r))]"

definition terminal_of_row :: "audit_row option \<Rightarrow> string + (terminal_action \<times> send_result) option" where
  "terminal_of_row row =
     (case row of
        None \<Rightarrow> Inr None
      | Some r \<Rightarrow>
          (case isTerminalSendAction (ae_action r) of
             None \<Rightarrow> Inl ''outbound terminal audit action is invalid''
           | Some action \<Rightarrow>
               (case ae_detail r of
                  None \<Rightarrow> Inl ''outbound terminal audit detail is invalid''
                | Some detail \<Rightarrow>
                    if \<not> js_is_record detail \<or> ''result'' \<notin> set (js_keys detail)
                    then Inl ''outbound terminal audit result is missing''
                    else if \<not> isStoredOutboundSendResult (js_get detail ''result'')
                    then Inl ''outbound terminal audit result is invalid''
                    else Inr (Some (action, as_send_result (js_get detail ''result''))))))"

definition terminalSendRecordForDedupeKey :: "string \<Rightarrow> (terminal_action \<times> send_result) option act" where
  "terminalSendRecordForDedupeKey dedupeKey =
     andThen (d1 (query (\<lambda>_ d. audit_lookup dedupeKey d))) (\<lambda>row. liftE (terminal_of_row row))"

definition auditOutboundModeForClaim :: "string \<Rightarrow> string option act" where
  "auditOutboundModeForClaim dedupeKey =
     andThen (d1 (query (\<lambda>_ d. audit_lookup dedupeKey d))) (\<lambda>row.
       ret (case row of
              None \<Rightarrow> None
            | Some r \<Rightarrow> (case ae_detail r of None \<Rightarrow> None | Some detail \<Rightarrow> opt_field detail ''outboundMode'')))"

definition auditOperator :: "services \<Rightarrow> string \<Rightarrow> string" where
  "auditOperator sv operator =
     (case odc_mode (operatorDeliveryConfig (sv_env sv)) of
        Inbox_Relay \<Rightarrow> ''operator:'' @ sha sv (normalizeMailbox operator)
      | Web_Desk \<Rightarrow> operator
      | Delivery_Invalid \<Rightarrow> ''operator:invalid'')"

definition recordOutboundDuplicateSuppressed :: "services \<Rightarrow> outbound_job \<Rightarrow> string \<Rightarrow> unit act" where
  "recordOutboundDuplicateSuppressed sv job observedState =
     recordEvent sv ''system'' ''outbound_reply_duplicate_suppressed''
       (JObject [(''messageIdSha256'', JString (sha sv (oj_messageId job))), (''admissionId'', jopt (oj_admissionId job)),
                 (''transactionSha256'', jopt (oj_transactionSha256 job)), (''attemptSha256'', jopt (oj_attemptSha256 job)),
                 (''outcome'', JString ''duplicate_suppressed''), (''observedState'', JString observedState),
                 (''providerReplay'', JBool False)])
       (Some (oj_messageId job @ '':outbound_reply_duplicate_suppressed'')) (Some (oj_threadId job))"

section \<open>Lemmas\<close>

definition audit_append :: "string \<Rightarrow> string \<Rightarrow> string \<times> string \<times> jv \<Rightarrow> db \<Rightarrow> bool \<times> db" where
  \<comment> \<open>one keyed event, as \<^const>\<open>recordAuditEvent\<close> writes it\<close>
  "audit_append i k v d =
     (case insertAudit i (Some k) (\<lambda>_. None) (fst v) (fst (snd v)) (snd (snd v)) 0 d of
        Inl _ \<Rightarrow> (False, d) | Inr (n, d') \<Rightarrow> (0 < n, d'))"

definition audit_event :: "string \<Rightarrow> db \<Rightarrow> (string \<times> string \<times> jv) option" where
  "audit_event k d = map_option (\<lambda>r. (ae_actor r, ae_action r, case ae_detail r of None \<Rightarrow> JNull | Some v \<Rightarrow> v)) (audit_lookup k d)"

definition audit_id_used :: "string \<Rightarrow> db \<Rightarrow> bool" where
  "audit_id_used i d \<longleftrightarrow> i \<in> ae_id ` set (db_audit d)"

lemma audit_lookup_None: "audit_lookup k d = None \<longleftrightarrow> (\<forall>r \<in> set (db_audit d). ae_dedupe_key r \<noteq> Some k)"
  by (simp add: audit_lookup_def first_row_None_iff)

lemma find_snoc: "find P (xs @ [x]) = (case find P xs of Some y \<Rightarrow> Some y | None \<Rightarrow> if P x then Some x else None)"
  by (induction xs) auto

lemma audit_lookup_append:
  "audit_lookup k (d\<lparr>db_audit := db_audit d @ [r]\<rparr>) =
     (case audit_lookup k d of Some x \<Rightarrow> Some x | None \<Rightarrow> if ae_dedupe_key r = Some k then Some r else None)"
  by (simp add: audit_lookup_def first_row_def find_snoc split: option.splits)

lemma json_clean_defined [simp]: "json_clean v \<noteq> JUndefined"
  by (cases v) auto

lemma json_clean_idem [simp]: "json_clean (json_clean v) = json_clean v"
  by (induction v rule: json_clean.induct) (auto simp: filter_map o_def case_prod_unfold)

definition audit_stored :: "string \<times> string \<times> jv \<Rightarrow> string \<times> string \<times> jv" where
  "audit_stored v = (fst v, fst (snd v), json_clean (snd (snd v)))"

interpretation audit_log: dedupe_log audit_append audit_event audit_stored audit_id_used
proof unfold_locales
  fix k s i v
  assume "audit_event k s = None" "\<not> audit_id_used i s"
  then have "\<not> audit_conflict i (Some k) s" "audit_lookup k s = None"
    by (auto simp: audit_event_def audit_id_used_def audit_conflict_def audit_lookup_None list_ex_iff)
  then show "fst (audit_append i k v s) \<and> audit_event k (snd (audit_append i k v s)) = Some (audit_stored v)"
    by (simp add: audit_append_def insertAudit_def audit_event_def audit_lookup_append audit_stored_def)
next
  fix k s u i v
  assume "audit_event k s = Some u"
  then have "audit_conflict i (Some k) s"
    by (auto simp: audit_event_def audit_lookup_def audit_conflict_def list_ex_iff dest: first_row_SomeD)
  then show "audit_append i k v s = (False, s)"
    by (simp add: audit_append_def insertAudit_def)
next
  fix k k' :: string and i v s
  assume "k \<noteq> k'"
  then show "audit_event k' (snd (audit_append i k v s)) = audit_event k' s"
    by (simp add: audit_append_def insertAudit_def audit_event_def audit_lookup_append split: option.splits)
qed (simp add: audit_stored_def)

end
