(* ===== verification/Terminal.thy ===== *)
theory Terminal
  imports Reply_Claims Audit_Log
begin

text \<open>
  \<^verbatim>\<open>workers/shared/outbound/terminal.ts\<close>: the recording of the outcome of a send, once, and its
  projection onto the attempt, the admission, the route health and the spool.
\<close>

section \<open>Statements\<close>

fun terminal_status :: "terminal_action \<Rightarrow> string" where
  "terminal_status Reply_Delivered = ''provider_accepted''"
| "terminal_status Reply_Recovery_Required = ''recovery_required''"
| "terminal_status Reply_Failed = ''failed''"

definition terminal_outcome :: "terminal_action \<Rightarrow> string" where
  "terminal_outcome action = terminal_status action"

definition finish_attempt :: "outbound_job \<Rightarrow> string \<Rightarrow> send_result \<Rightarrow> nat statement" where
  "finish_attempt job status result =
     update_attempts (\<lambda>r. Some (ra_id r) = oj_relayAttemptId job)
       (\<lambda>r. r\<lparr>ra_status := status, ra_provider_message_id := sr_providerMessageId result,
             ra_error_code := terminalProviderErrorCode result status\<rparr>)"

definition finish_admission ::
  "services \<Rightarrow> outbound_job \<Rightarrow> authorization_kind \<Rightarrow> string \<Rightarrow> send_result \<Rightarrow> nat statement" where
  "finish_admission sv job kind status result t d =
     update_admissions kind
       (\<lambda>r. Some (ad_id r) = oj_admissionId job \<and> Some (ad_transaction_sha256 r) = oj_transactionSha256 job \<and>
            sql_eq (ad_claimed_attempt_id r) (oj_relayAttemptId job) \<and> ad_status r \<in> {''claimed'', ''sending'', status})
       (\<lambda>r. r\<lparr>ad_status := status,
             ad_terminal_at := (case ad_terminal_at r of None \<Rightarrow> Some (sv_timestamp sv t) | Some v \<Rightarrow> Some v),
             ad_error_code := terminalProviderErrorCode result status\<rparr>) t d"

definition route_of_attempt :: "string option \<Rightarrow> db \<Rightarrow> string option" where
  "route_of_attempt attemptId d =
     Option.bind (attempt_by_id attemptId d) (\<lambda>ra. map_option rr_route_id (relay_by_id (ra_relay_id ra) d))"

definition update_health :: "(health_row \<Rightarrow> bool) \<Rightarrow> (health_row \<Rightarrow> health_row) \<Rightarrow> nat statement" where
  "update_health P f t d = Inr (changes P (db_health d), d\<lparr>db_health := update_where P f (db_health d)\<rparr>)"

definition project_reply_health :: "services \<Rightarrow> outbound_job \<Rightarrow> string \<Rightarrow> send_result \<Rightarrow> nat statement" where
  "project_reply_health sv job status result t d =
     update_health
       (\<lambda>r. sql_eq (Some (rh_route_id r)) (route_of_attempt (oj_relayAttemptId job) d) \<and>
            sql_eq (rh_policy_sha256 r) (oj_policySha256 job) \<and> sql_eq (active_policy d) (oj_policySha256 job))
       (\<lambda>r. let accepted = (status = ''provider_accepted''); stamp = Some (sv_timestamp sv t) in
          r\<lparr>rh_reply_status := (if accepted \<and> rh_reply_status r = ''reply_verified'' then rh_reply_status r else status),
            rh_last_reply_at := (if accepted then stamp else rh_last_reply_at r),
            rh_last_reply_provider_accepted_at := (if accepted then stamp else rh_last_reply_provider_accepted_at r),
            rh_last_reply_provider_message_id :=
              (if accepted then sr_providerMessageId result else rh_last_reply_provider_message_id r),
            rh_last_error_code := terminalProviderErrorCode result status\<rparr>) t d"

definition retire_spool :: "outbound_job \<Rightarrow> nat statement" where
  "retire_spool job =
     update_attempts (\<lambda>r. Some (ra_id r) = oj_relayAttemptId job) (\<lambda>r. r\<lparr>ra_raw_r2_key := None\<rparr>)"

section \<open>The functions\<close>

definition cleanup_spool :: "services \<Rightarrow> outbound_job \<Rightarrow> terminal_action \<Rightarrow> unit act" where
  \<comment> \<open>the block that follows the projection in both of its branches\<close>
  "cleanup_spool sv job action =
     unless (\<not> (action = Reply_Delivered \<and> truthy (oj_relaySpoolKey job)))
       (if \<not> env_RELAY_SPOOL (sv_env sv) then throw (Err ''relay spool binding unavailable'')
        else followedBy (spoolDelete (the (oj_relaySpoolKey job)))
               (andThen (d1 (retire_spool job)) (\<lambda>_. ret ())))"

definition superseded_result :: "services \<Rightarrow> outbound_job \<Rightarrow> send_result \<Rightarrow> unit act" where
  "superseded_result sv job result =
     andThen (d1 (query (\<lambda>_ d. active_policy d))) (\<lambda>runtime.
       if \<not> truthy runtime \<or> runtime = oj_policySha256 job
       then throw (Err ''active route health revision is unavailable for terminal reply projection'')
       else recordEvent sv ''system'' ''outbound_reply_result_superseded''
         (JObject [(''messageId'', JString (oj_messageId job)), (''threadId'', JString (oj_threadId job)),
                   (''relayAttemptId'', jundef (oj_relayAttemptId job)), (''policySha256'', jundef (oj_policySha256 job)),
                   (''result'', auditSendResult result)])
         (Some (oj_messageId job @ '':outbound_reply_result_superseded'')) (Some (oj_threadId job)))"

definition finalizeTerminalSendState ::
  "services \<Rightarrow> outbound_job \<Rightarrow> terminal_action \<Rightarrow> send_result \<Rightarrow> unit act" where
  "finalizeTerminalSendState sv job action result =
     (if \<not> truthy (oj_relayAttemptId job) then ret ()
      else if \<not> truthy (oj_policySha256 job) then throw (Err ''relay terminal result is missing policy authority'')
      else
        (let status = terminal_status action;
             kind = (case outbound_authorization job of None \<Rightarrow> Canary | Some k \<Rightarrow> k) in
         andThen (d1 (finish_attempt job status result)) (\<lambda>_.
         followedBy
           (unless (\<not> (truthy (oj_admissionId job) \<and> truthy (oj_transactionSha256 job)))
              (andThen (d1 (finish_admission sv job kind status result)) (\<lambda>_. ret ())))
           (andThen (d1 (project_reply_health sv job status result)) (\<lambda>n.
              followedBy (unless (0 < n) (superseded_result sv job result)) (cleanup_spool sv job action))))))"

definition recordTerminalSendEvent ::
  "services \<Rightarrow> outbound_job \<Rightarrow> terminal_action \<Rightarrow> send_result \<Rightarrow> unit act" where
  "recordTerminalSendEvent sv job action result =
     (let key = oj_messageId job @ '':outbound_reply_result'' in
      andThen (recordAuditEvent sv (auditOperator sv (oj_operator job)) (terminal_name action)
        (JObject [(''messageId'', JString (oj_messageId job)), (''threadId'', JString (oj_threadId job)),
                  (''fromIdentity'', JString (oj_fromIdentity job)), (''to'', jstrings (oj_to job)),
                  (''outcome'', JString (terminal_outcome action)), (''result'', auditSendResult result)])
        (Some key) (Some (oj_threadId job))) (\<lambda>recorded.
      andThen (if recorded then ret (Some (action, result)) else terminalSendRecordForDedupeKey key) (\<lambda>durable.
        case durable of
          None \<Rightarrow> throw (Err ''terminal send result is unavailable'')
        | Some (a, r) \<Rightarrow> finalizeTerminalSendState sv job a r)))"

section \<open>A redelivered inbox job\<close>

definition version_or_1 :: "jv \<Rightarrow> jv" where
  "version_or_1 v = (if v = JUndefined \<or> v = JNull then JInt 1 else v)"

definition inboxJobMatchesClaim :: "inbox_job \<Rightarrow> stored_claim \<Rightarrow> bool" where
  "inboxJobMatchesClaim job claim \<longleftrightarrow>
     (let rat = sc_attempt claim in
      version_or_1 (ij_payloadVersion job) = JInt (int (ra_payload_version rat)) \<and>
      inbox_authorization job = ra_admission_kind rat \<and>
      as_string (ij_activationId job) = ad_activation_id (sc_admission claim) \<and>
      ij_attemptId job = ra_id rat \<and> ij_relayId job = ra_relay_id rat \<and>
      Some (ij_admissionId job) = ra_admission_id rat \<and>
      Some (ij_transactionSha256 job) = ra_transaction_sha256 rat \<and>
      Some (ij_attemptSha256 job) = ra_attempt_sha256 rat \<and>
      Some (ij_claimedPayloadSha256 job) = ra_claimed_payload_sha256 rat \<and>
      Some (ij_desiredStateSha256 job) = ra_desired_state_sha256 rat \<and>
      Some (ij_identityProfileSha256 job) = ra_identity_profile_sha256 rat \<and>
      ij_operator job = ra_operator rat \<and> ij_operatorMessageId job = ra_operator_message_id rat \<and>
      Some (ij_rawSha256 job) = ra_raw_sha256 rat)"

fun kind_text :: "authorization_kind \<Rightarrow> string" where
  "kind_text Canary = ''canary''"
| "kind_text Ordinary = ''ordinary''"

definition terminal_job :: "stored_claim \<Rightarrow> outbound_job" where
  \<comment> \<open>the job that \<^verbatim>\<open>resumeInboxTerminal\<close> rebuilds from the claim\<close>
  "terminal_job claim =
     (let rat = sc_attempt claim; rad = sc_admission claim in
      \<lparr> oj_schemaVersion = JInt 2, oj_payloadVersion = JUndefined,
        oj_admissionKind = JString (kind_text (ad_kind rad)),
        oj_activationId = (if truthy (ad_activation_id rad) then jundef (ad_activation_id rad) else JUndefined),
        oj_messageId = strip_attempt_prefix (ra_id rat), oj_threadId = ad_thread_id rad,
        oj_operator = ra_operator rat, oj_envelopeTo = sc_route_address claim,
        oj_fromIdentity = ad_public_identity rad, oj_fromDisplayName = None, oj_identityProfileRef = None,
        oj_signatureProfileRef = None, oj_senderAdapter = None, oj_to = [], oj_cc = None, oj_bcc = None,
        oj_replyTo = None, oj_subject = [], oj_text = None, oj_html = None, oj_headers = None,
        oj_attachments = None, oj_requestedIdentity = None, oj_policySha256 = ra_policy_sha256 rat,
        oj_admissionId = ra_admission_id rat, oj_transactionSha256 = ra_transaction_sha256 rat,
        oj_attemptSha256 = None, oj_claimedPayloadSha256 = None, oj_desiredStateSha256 = None,
        oj_identityProfileSha256 = None, oj_relayAttemptId = Some (ra_id rat),
        oj_relaySpoolKey = ra_raw_r2_key rat, oj_queuedAt = with_default [] (ra_dispatch_received_at rat) \<rparr>)"

definition resumeInboxTerminal :: "services \<Rightarrow> inbox_job \<Rightarrow> bool act" where
  "resumeInboxTerminal sv job =
     andThen (terminalSendRecordForDedupeKey (strip_attempt_prefix (ij_attemptId job) @ '':outbound_reply_result'')) (\<lambda>terminal.
     andThen (loadStoredReplyClaim (ij_attemptId job)) (\<lambda>stored.
       case stored of
         None \<Rightarrow> if terminal \<noteq> None then throw (Err ''terminal result has no immutable reply claim'') else ret False
       | Some claim \<Rightarrow>
           if ra_id (sc_attempt claim) = [] then
             (if terminal \<noteq> None then throw (Err ''terminal result has no immutable reply claim'') else ret False)
           else if \<not> inboxJobMatchesClaim job claim then ret True
           else (case terminal of
             Some (action, result) \<Rightarrow>
               followedBy (finalizeTerminalSendState sv (terminal_job claim) action result) (ret True)
           | None \<Rightarrow>
               ret (attempt_terminal (ra_status (sc_attempt claim)) \<or>
                    (ad_status (sc_admission claim) = ''sending'' \<and>
                     configuredOutboundMode (sv_env sv) \<noteq> Mode_Resend)))))"

end
