(* ===== verification/Provider.thy ===== *)
theory Provider
  imports Terminal
begin

text \<open>
  \<^verbatim>\<open>workers/shared/outbound/provider.ts\<close>: the one place that hands a reply to a mail provider. Every
  check comes before the claim of the boundary; after the claim there are two audit records and the
  call itself. The timeout of the Resend request is a failed call of the schedule.
\<close>

definition responseId :: "jv option \<Rightarrow> string option" where
  "responseId value = (case value of None \<Rightarrow> None | Some v \<Rightarrow> as_string (js_get v ''id''))"

definition jstrings_opt :: "string list option \<Rightarrow> jv" where
  "jstrings_opt v = (case v of None \<Rightarrow> JUndefined | Some xs \<Rightarrow> jstrings xs)"

definition resendRequestBody :: "outbound_job \<Rightarrow> string option \<Rightarrow> string" where
  \<comment> \<open>the second argument defaults to the display name of the job\<close>
  "resendRequestBody job publicDisplayName =
     (let name = (if publicDisplayName = None then oj_fromDisplayName job else publicDisplayName) in
      json_stringify (JObject
        [(''from'', JString (if truthy name then the name @ '' <'' @ oj_fromIdentity job @ ''>'' else oj_fromIdentity job)),
         (''to'', jstrings (oj_to job)), (''cc'', jstrings_opt (oj_cc job)), (''bcc'', jstrings_opt (oj_bcc job)),
         (''reply_to'', jstrings [oj_fromIdentity job]), (''subject'', JString (oj_subject job)),
         (''text'', jundef (oj_text job)), (''html'', jundef (oj_html job)),
         (''headers'', JObject (map (\<lambda>(k, v). (k, JString v)) (canonicalConversationHeaders job)))]))"

definition resend_response :: "nat \<Rightarrow> jv option \<Rightarrow> send_result" where
  "resend_response status body =
     (if status < 200 \<or> 300 \<le> status
      then (send_failure ''resend'' (''Resend send failed with '' @ show_nat status))
             \<lparr>sr_httpStatus := Some status,
              sr_retryable := Some (status = 408 \<or> status = 429 \<or> 500 \<le> status), sr_response := body\<rparr>
      else \<lparr> sr_providerBoundaryClaimed = False, sr_ok = True, sr_provider = ''resend'',
             sr_providerMessageId = responseId body, sr_error = None, sr_httpStatus = None,
             sr_retryable = None, sr_ambiguous = None, sr_response = body, sr_notClaimed = False \<rparr>)"

definition sendWithResend :: "outbound_job \<Rightarrow> string option \<Rightarrow> send_result act" where
  "sendWithResend job publicDisplayName =
     tryCatch
       (andThen (httpPost (oj_messageId job) (resendRequestBody job publicDisplayName))
          (\<lambda>(status, body). ret (resend_response status body)))
       (\<lambda>_. ret ((send_failure ''resend'' ''Resend request failed before a confirmed result'')
                   \<lparr>sr_retryable := Some True\<rparr>))"

definition email_of_job :: "outbound_job \<Rightarrow> string option \<Rightarrow> email_message" where
  "email_of_job job publicDisplayName =
     \<lparr> em_from_email = oj_fromIdentity job,
       em_from_name = (if truthy publicDisplayName then publicDisplayName else None),
       em_to = oj_to job, em_cc = oj_cc job, em_bcc = oj_bcc job, em_reply_to = oj_fromIdentity job,
       em_subject = oj_subject job, em_text = oj_text job, em_html = oj_html job,
       em_headers = canonicalConversationHeaders job, em_attachments = oj_attachments job \<rparr>"

definition accepted_by_cloudflare :: "string option \<Rightarrow> send_result" where
  "accepted_by_cloudflare messageId =
     \<lparr> sr_providerBoundaryClaimed = True, sr_ok = True, sr_provider = ''cloudflare_email_service'',
       sr_providerMessageId = messageId, sr_error = None, sr_httpStatus = None, sr_retryable = None,
       sr_ambiguous = None, sr_response = None, sr_notClaimed = False \<rparr>"

definition claimed_result :: "send_result \<Rightarrow> send_result" where
  "claimed_result r = r\<lparr>sr_providerBoundaryClaimed := True\<rparr>"

definition call_provider :: "services \<Rightarrow> outbound_job \<Rightarrow> string option \<Rightarrow> send_result act" where
  \<comment> \<open>the last part of \<^verbatim>\<open>sendOutboundReply\<close>\<close>
  "call_provider sv job publicDisplayName =
     (let env = sv_env sv; mode = configuredOutboundMode env in
      if mode = Mode_Cloudflare then
        (if \<not> env_EMAIL env
         then ret (claimed_result (send_failure (outbound_mode_name mode) ''Cloudflare Email Service binding is not configured''))
         else tryCatch
                (andThen (emailSend (email_of_job job publicDisplayName)) (\<lambda>i. ret (accepted_by_cloudflare i)))
                (\<lambda>error. ret (claimed_result (cloudflareEmailServiceFailure error))))
      else if mode = Mode_Resend then
        (if \<not> truthy (env_RESEND_API_KEY env)
         then ret (claimed_result (send_failure (outbound_mode_name mode) ''RESEND_API_KEY is not configured''))
         else if is_nonempty (oj_attachments job)
         then ret (claimed_result (send_failure (outbound_mode_name mode) ''Resend relay attachments are not configured''))
         else andThen (sendWithResend job publicDisplayName) (\<lambda>r. ret (claimed_result r)))
      else ret (send_failure ''invalid'' ''outbound mode is invalid''))"

definition record_attempt :: "services \<Rightarrow> outbound_job \<Rightarrow> string option \<Rightarrow> nat \<Rightarrow> unit act" where
  \<comment> \<open>the two audit records between the claim and the call\<close>
  "record_attempt sv job publicDisplayName attempt =
     followedBy
       (recordEvent sv (auditOperator sv (oj_operator job)) ''outbound_reply_authorized''
         (JObject [(''messageId'', JString (oj_messageId job)), (''threadId'', JString (oj_threadId job)),
                   (''fromIdentity'', JString (oj_fromIdentity job)), (''fromDisplayName'', jundef publicDisplayName),
                   (''identityProfileRef'', jundef (oj_identityProfileRef job)),
                   (''signatureProfileRef'', jundef (oj_signatureProfileRef job)), (''to'', jstrings (oj_to job))])
         (Some (oj_messageId job @ '':outbound_reply_authorized'')) (Some (oj_threadId job)))
       (recordEvent sv (auditOperator sv (oj_operator job)) ''outbound_reply_send_attempted''
         (JObject [(''messageId'', JString (oj_messageId job)), (''threadId'', JString (oj_threadId job)),
                   (''fromIdentity'', JString (oj_fromIdentity job)), (''to'', jstrings (oj_to job)),
                   (''provider'', JString (outbound_mode_name (configuredOutboundMode (sv_env sv)))),
                   (''attempt'', JInt (int attempt))])
         (Some (oj_messageId job @ '':outbound_reply_send_attempted:'' @ show_nat attempt))
         (Some (oj_threadId job)))"

definition profile_matches :: "outbound_job \<Rightarrow> identity_profile \<Rightarrow> bool" where
  "profile_matches job p \<longleftrightarrow>
     oj_identityProfileRef job = Some (ip_profileRef p) \<and>
     oj_signatureProfileRef job = Some (ip_signatureProfileRef p) \<and>
     oj_fromDisplayName job = Some (ip_displayName p) \<and>
     oj_senderAdapter job = Some (adapter_name (ip_senderAdapter p)) \<and>
     oj_requestedIdentity job = Some (ip_publicAddress p)"

definition authorized_profile :: "services \<Rightarrow> outbound_job \<Rightarrow> active_policy_value \<Rightarrow> string + identity_profile" where
  \<comment> \<open>the checks against the active policy; an error is the \<^verbatim>\<open>error\<close> of the failed result\<close>
  "authorized_profile sv job policy =
     (if Some (ap_sha256 policy) \<noteq> oj_policySha256 job then Inl ''relay policy revision is no longer active''
      else (case authorizeReplyWithPolicy (sv_core sv) (ap_policy policy) (oj_envelopeTo job) (oj_operator job)
                   (Some (oj_fromIdentity job)) of
              Inl e \<Rightarrow> Inl (if re_kind e = ''ambiguous_identity_profile'' then re_kind e
                            else ''public identity profile is unavailable'')
            | Inr a \<Rightarrow>
                (case ra_identityProfile a of
                   None \<Rightarrow> Inl ''public identity profile is unavailable''
                 | Some profile \<Rightarrow>
                     if ra_fromIdentity a \<noteq> oj_fromIdentity job then Inl ''public identity profile is unavailable''
                     else if \<not> profile_matches job profile
                     then Inl ''public identity profile does not match active policy''
                     else if adapter_name (ip_senderAdapter profile) \<noteq> outbound_mode_name (configuredOutboundMode (sv_env sv))
                     then Inl ''public identity sender adapter does not match runtime mode''
                     else Inr profile)))"

definition projected_route :: "active_policy_value \<Rightarrow> string \<Rightarrow> route_decision option" where
  \<comment> \<open>the first projected route whose address is the given one\<close>
  "projected_route policy address =
     map_option fst (find (\<lambda>r. de_localPart (fst r) @ ''@'' @ de_domain (fst r) = address) (pp_routes (ap_projection policy)))"

definition transport_route_id :: "route_decision \<Rightarrow> string" where
  \<comment> \<open>\<^verbatim>\<open>`route:${encodeURIComponent(domain)}:${encodeURIComponent(localPart)}`\<close>\<close>
  "transport_route_id r = ''route:'' @ encodeURIComponent (de_domain r) @ '':'' @ encodeURIComponent (de_localPart r)"

definition operator_set_sha256 :: "services \<Rightarrow> route_decision \<Rightarrow> string" where
  "operator_set_sha256 sv r = sha sv (json_stringify (jstrings (de_operators r)))"

definition is_active_ordinary :: "services \<Rightarrow> outbound_job \<Rightarrow> active_policy_value \<Rightarrow> identity_profile \<Rightarrow> route_decision \<Rightarrow> bool act" where
  \<comment> \<open>canary claims pass; an ordinary claim needs its activation to be current\<close>
  "is_active_ordinary sv job policy profile route =
     (if outbound_authorization job \<noteq> Some Ordinary then ret True
      else andThen (loadOrdinaryRouteAuthorization sv (transport_route_id route) (ap_sha256 policy)
             (publicIdentityProfileSha256 (sv_platform sv) profile) (operator_set_sha256 sv route)) (\<lambda>current.
             ret (case current of None \<Rightarrow> False | Some a \<Rightarrow> JString (ac_id a) = oj_activationId job)))"

definition lost_boundary :: "services \<Rightarrow> outbound_job \<Rightarrow> send_result act" where
  \<comment> \<open>what is reported when the claim changed no row\<close>
  "lost_boundary sv job =
     (let fail = send_failure (outbound_mode_name (configuredOutboundMode (sv_env sv))) in
      andThen (d1 (query (\<lambda>_ d. first_row (\<lambda>r. Some (ad_id r) = oj_admissionId job \<and>
          Some (ad_transaction_sha256 r) = oj_transactionSha256 job) (db_admissions d)))) (\<lambda>owner.
        if (case owner of None \<Rightarrow> False
            | Some r \<Rightarrow> ad_status r \<in> {''sending'', ''provider_accepted'', ''recovery_required''})
        then ret ((fail ''provider attempt belongs to an existing claim'')\<lparr>sr_notClaimed := True\<rparr>)
        else andThen (outboundContainmentBlocker job) (\<lambda>blocker.
          ret (fail (case blocker of
             Some b \<Rightarrow> if b = [] then ''controller admission is stale, consumed, or no longer authoritative''
                       else ''reply_containment_'' @ b
           | None \<Rightarrow> ''controller admission is stale, consumed, or no longer authoritative'')))))"

definition deliver :: "services \<Rightarrow> outbound_job \<Rightarrow> string option \<Rightarrow> nat \<Rightarrow> send_result act" where
  "deliver sv job publicDisplayName attempt =
     followedBy (record_attempt sv job publicDisplayName attempt) (call_provider sv job publicDisplayName)"

definition claim_and_deliver ::
  "services \<Rightarrow> outbound_job \<Rightarrow> route_decision \<Rightarrow> identity_profile \<Rightarrow> nat \<Rightarrow> send_result act" where
  "claim_and_deliver sv job route profile attempt =
     andThen (claimOutboundProviderBoundary sv job route) (\<lambda>boundary.
       if boundary then deliver sv job (Some (ip_displayName profile)) attempt else lost_boundary sv job)"

definition truthy_blocker :: "string option \<Rightarrow> string option" where
  "truthy_blocker b = (if truthy b then b else None)"

definition send_bound :: "services \<Rightarrow> outbound_job \<Rightarrow> nat \<Rightarrow> active_policy_value \<Rightarrow> identity_profile \<Rightarrow> send_result act" where
  \<comment> \<open>from the containment check to the claim\<close>
  "send_bound sv job attempt policy profile =
     (let fail = (\<lambda>e. ret (send_failure (outbound_mode_name (configuredOutboundMode (sv_env sv))) e)) in
      andThen (outboundContainmentBlocker job) (\<lambda>blocker.
        case truthy_blocker blocker of
          Some b \<Rightarrow> fail (''reply_containment_'' @ b)
        | None \<Rightarrow>
            andThen (verifyAuthorizedOutboundTransaction sv job) (\<lambda>binding.
              case binding of
                Some e \<Rightarrow> fail e
              | None \<Rightarrow>
                  andThen (case outboundPrivacyFailure sv job (ap_policy policy) of
                             Some e \<Rightarrow> ret (Some e) | None \<Rightarrow> outboundOpaqueTokenFailure sv job) (\<lambda>privacyFailure.
                    case truthy_blocker privacyFailure of
                      Some e \<Rightarrow> fail e
                    | None \<Rightarrow>
                        (case projected_route policy (oj_envelopeTo job) of
                           None \<Rightarrow> fail ''route projection unavailable''
                         | Some projected \<Rightarrow>
                             andThen (is_active_ordinary sv job policy profile projected) (\<lambda>active.
                               if \<not> active then fail ''ordinary_activation_unavailable''
                               else claim_and_deliver sv job projected profile attempt))))))"

definition send_relay :: "services \<Rightarrow> outbound_job \<Rightarrow> nat \<Rightarrow> send_result act" where
  \<comment> \<open>the branch of the delivery mode \<^verbatim>\<open>inbox_relay\<close>\<close>
  "send_relay sv job attempt =
     (let fail = (\<lambda>e. ret (send_failure (outbound_mode_name (configuredOutboundMode (sv_env sv))) e)) in
      if odc_replyProcessingMode (operatorDeliveryConfig (sv_env sv)) \<noteq> Processing_Enabled
      then fail ''reply processing is disabled''
      else if \<not> hasInboxRelayTransactionBindings job
      then fail ''inbox relay job is missing public identity transaction bindings''
      else andThen (loadActivePolicy sv) (\<lambda>active.
        case active of
          None \<Rightarrow> fail ''active policy is unavailable''
        | Some policy \<Rightarrow>
            (case authorized_profile sv job policy of
               Inl e \<Rightarrow> fail e
             | Inr profile \<Rightarrow> send_bound sv job attempt policy profile)))"

definition sendOutboundReply :: "services \<Rightarrow> outbound_job \<Rightarrow> nat \<Rightarrow> send_result act" where
  "sendOutboundReply sv job attempt =
     (let env = sv_env sv; mode = configuredOutboundMode env; delivery = operatorDeliveryConfig env;
          fail = (\<lambda>e. ret (send_failure (outbound_mode_name mode) e)) in
      if odc_mode delivery = Delivery_Invalid then fail ''operator delivery mode is invalid''
      else if mode = Mode_Disabled then fail ''outbound sending is disabled''
      else if mode = Mode_Invalid then fail ''outbound mode is invalid''
      else if \<not> isVerifiedSenderDomain (senderDomain (oj_fromIdentity job)) env
      then fail ''sender domain is not verified''
      else if odc_mode delivery = Inbox_Relay then send_relay sv job attempt
      else deliver sv job (oj_fromDisplayName job) attempt)"

end
