(* ===== verification/Inbound_Results.thy ===== *)
theory Inbound_Results
  imports Terminal
begin

text \<open>
  \<^verbatim>\<open>workers/shared/outbound/inbound-results.ts\<close>: the consumer side of an inbound delivery result. The
  result in the queue is only believed when it is exactly the durable state of its delivery; its
  projection is idempotent and a receipt closes it.
\<close>

section \<open>The durable state that a result must match\<close>

definition recipients_of :: "string \<Rightarrow> db \<Rightarrow> recipient_row list" where
  "recipients_of deliveryId d = filter (\<lambda>rd. rd_delivery_id rd = deliveryId) (db_recipients d)"

definition result_matches :: "recipient_result \<Rightarrow> recipient_row \<Rightarrow> bool" where
  \<comment> \<open>one queued result against one row; \<^verbatim>\<open>COALESCE(x, '')\<close> makes NULL and the empty string equal\<close>
  "result_matches q rd \<longleftrightarrow>
     rr_operatorRef q = rd_operator_ref rd \<and> rr_deliveryPayloadR2Key q = rd_delivery_payload_r2_key rd \<and>
     (if rr_ok q
      then rd_status rd = ''provider_accepted'' \<and>
           with_default [] (rr_providerMessageId q) = with_default [] (rd_provider_message_id rd)
      else rd_status rd \<in> {''recovery_required'', ''failed''} \<and>
           with_default [] (rr_errorCode q) = with_default [] (rd_error_code rd))"

definition same_recipient :: "recipient_result \<Rightarrow> recipient_row \<Rightarrow> bool" where
  "same_recipient q rd \<longleftrightarrow>
     rr_operatorRef q = rd_operator_ref rd \<and> rr_deliveryPayloadR2Key q = rd_delivery_payload_r2_key rd"

definition status_consistent :: "string \<Rightarrow> recipient_row list \<Rightarrow> bool" where
  \<comment> \<open>the aggregate status against the statuses of the rows\<close>
  "status_consistent status rows \<longleftrightarrow>
     (let accepted = (\<lambda>rd. rd_status rd = ''provider_accepted'') in
      (status = ''provider_accepted'' \<and> list_all accepted rows) \<or>
      (status = ''partial_delivery'' \<and> list_ex accepted rows \<and> list_ex (\<lambda>rd. \<not> accepted rd) rows) \<or>
      (status = ''recovery_required'' \<and> \<not> list_ex accepted rows \<and>
         list_ex (\<lambda>rd. rd_status rd = ''recovery_required'') rows) \<or>
      (status = ''failed'' \<and> list_all (\<lambda>rd. rd_status rd = ''failed'') rows))"

record claimed_result_row =
  cl_rawR2Key :: string
  cl_acceptedPayloadKeys :: "string list"

definition claimed_inbound_result :: "result_job \<Rightarrow> db \<Rightarrow> claimed_result_row option" where
  \<comment> \<open>\<^verbatim>\<open>CLAIMED_INBOUND_RESULT_SQL\<close>\<close>
  "claimed_inbound_result job d =
     (let rows = recipients_of (rj_deliveryId job) d in
      case first_row (\<lambda>dl. dl_id dl = rj_deliveryId job \<and> dl_relay_id dl = rj_relayId job \<and>
             dl_thread_id dl = rj_threadId job \<and> dl_route_id dl = rj_routeId job \<and>
             dl_policy_sha256 dl = rj_policySha256 job \<and> dl_raw_r2_key dl = Some (rj_relaySpoolKey job) \<and>
             dl_received_at dl = rj_receivedAt job) (db_deliveries d) of
        None \<Rightarrow> None
      | Some dl \<Rightarrow>
          if length rows = length (rj_results job) \<and>
             list_all (\<lambda>rd. list_ex (\<lambda>q. result_matches q rd) (rj_results job)) rows \<and>
             list_all (\<lambda>q. list_ex (same_recipient q) rows) (rj_results job) \<and>
             status_consistent (rj_status job) rows
          then Some \<lparr> cl_rawR2Key = rj_relaySpoolKey job,
                 cl_acceptedPayloadKeys = map rd_delivery_payload_r2_key
                   (filter (\<lambda>rd. rd_status rd = ''provider_accepted'') rows) \<rparr>
          else None)"

definition loadClaimedInboundResult :: "result_job \<Rightarrow> claimed_result_row option act" where
  "loadClaimedInboundResult job =
     andThen (d1 (query (\<lambda>_ d. claimed_inbound_result job d))) (\<lambda>row.
       ret (case row of None \<Rightarrow> None | Some r \<Rightarrow> if cl_rawR2Key r = [] then None else Some r))"

section \<open>The receipt\<close>

definition result_order :: "platform \<Rightarrow> recipient_result \<Rightarrow> recipient_result \<Rightarrow> bool" where
  \<comment> \<open>\<^verbatim>\<open>left.operatorRef.localeCompare(...) || left.deliveryPayloadR2Key.localeCompare(...)\<close>\<close>
  "result_order pf l r \<longleftrightarrow>
     (if pf_locale_le pf (rr_operatorRef l) (rr_operatorRef r) \<and> pf_locale_le pf (rr_operatorRef r) (rr_operatorRef l)
      then pf_locale_le pf (rr_deliveryPayloadR2Key l) (rr_deliveryPayloadR2Key r)
      else pf_locale_le pf (rr_operatorRef l) (rr_operatorRef r))"

definition inboundResultSha256 :: "services \<Rightarrow> result_job \<Rightarrow> string" where
  "inboundResultSha256 sv job = sha sv (json_stringify (JObject
     [(''deliveryId'', JString (rj_deliveryId job)), (''relayId'', JString (rj_relayId job)),
      (''threadId'', JString (rj_threadId job)), (''routeId'', JString (rj_routeId job)),
      (''policySha256'', JString (rj_policySha256 job)), (''status'', JString (rj_status job)),
      (''results'', JArray (map (\<lambda>r. JObject
         [(''operatorRef'', JString (rr_operatorRef r)), (''deliveryPayloadR2Key'', JString (rr_deliveryPayloadR2Key r)),
          (''ok'', JBool (rr_ok r)), (''providerMessageId'', jopt (rr_providerMessageId r)),
          (''errorCode'', jopt (rr_errorCode r))])
         (sort_by (result_order (sv_platform sv)) (rj_results job)))),
      (''relaySpoolKey'', JString (rj_relaySpoolKey job)), (''receivedAt'', JString (rj_receivedAt job))]))"

definition cleanup_key :: "result_job \<Rightarrow> string" where
  "cleanup_key job = rj_deliveryId job @ '':operator_delivery_cleanup_complete''"

definition receipt_matches :: "services \<Rightarrow> result_job \<Rightarrow> audit_row option \<Rightarrow> bool" where
  "receipt_matches sv job row =
     (case row of
        None \<Rightarrow> False
      | Some r \<Rightarrow>
          ae_action r = ''operator_delivery_cleanup_complete'' \<and>
          (case ae_detail r of
             None \<Rightarrow> False
           | Some detail \<Rightarrow>
               js_get detail ''deliveryId'' = JString (rj_deliveryId job) \<and>
               js_get detail ''resultSha256'' = JString (inboundResultSha256 sv job)))"

definition inboundCleanupAlreadyComplete :: "services \<Rightarrow> result_job \<Rightarrow> bool act" where
  "inboundCleanupAlreadyComplete sv job =
     andThen (d1 (query (\<lambda>_ d. audit_lookup (cleanup_key job) d))) (\<lambda>row. ret (receipt_matches sv job row))"

definition recordInboundCleanupComplete :: "services \<Rightarrow> result_job \<Rightarrow> unit act" where
  "recordInboundCleanupComplete sv job =
     andThen (recordAuditEvent sv ''system'' ''operator_delivery_cleanup_complete''
       (JObject [(''deliveryId'', JString (rj_deliveryId job)), (''resultSha256'', JString (inboundResultSha256 sv job))])
       (Some (cleanup_key job)) (Some (rj_threadId job))) (\<lambda>inserted.
     andThen (if inserted then ret True else inboundCleanupAlreadyComplete sv job) (\<lambda>complete.
       if complete then ret () else throw (Err ''inbound result cleanup receipt conflicts with durable state'')))"

section \<open>The projection\<close>

definition update_deliveries :: "(delivery_row \<Rightarrow> bool) \<Rightarrow> (delivery_row \<Rightarrow> delivery_row) \<Rightarrow> nat statement" where
  "update_deliveries P f t d =
     Inr (changes P (db_deliveries d), d\<lparr>db_deliveries := update_where P f (db_deliveries d)\<rparr>)"

definition delivery_identity :: "delivery_row \<Rightarrow> delivery_row" where
  \<comment> \<open>a delivery without its status and the key of its raw message\<close>
  "delivery_identity r = r\<lparr>dl_status := [], dl_raw_r2_key := None\<rparr>"

definition persistInboundDeliveryProjection :: "result_job \<Rightarrow> unit act" where
  "persistInboundDeliveryProjection job =
     andThen (d1 (update_deliveries (\<lambda>dl. dl_id dl = rj_deliveryId job \<and> dl_policy_sha256 dl = rj_policySha256 job)
                    (\<lambda>dl. dl\<lparr>dl_status := rj_status job\<rparr>))) (\<lambda>n.
       if 0 < n then ret () else throw (Err ''inbound result delivery projection lost its durable claim''))"

definition clearInboundCleanupAuthority :: "result_job \<Rightarrow> unit act" where
  "clearInboundCleanupAuthority job =
     andThen (d1 (update_deliveries (\<lambda>dl. dl_id dl = rj_deliveryId job \<and> dl_policy_sha256 dl = rj_policySha256 job \<and>
                     dl_status dl = ''provider_accepted'' \<and> dl_raw_r2_key dl = Some (rj_relaySpoolKey job))
                    (\<lambda>dl. dl\<lparr>dl_raw_r2_key := None\<rparr>))) (\<lambda>n.
       if 0 < n then ret () else throw (Err ''inbound result cleanup authority could not be retired''))"

definition deleteAcceptedInboundPayloads :: "services \<Rightarrow> string list \<Rightarrow> unit act" where
  "deleteAcceptedInboundPayloads sv keys =
     (if keys = [] then ret ()
      else if \<not> env_RELAY_SPOOL (sv_env sv) then throw (Err ''relay spool binding unavailable'')
      else forEach spoolDelete keys)"

definition accepted_count :: "result_job \<Rightarrow> nat" where
  "accepted_count job = length (filter rr_ok (rj_results job))"

definition provider_ids :: "result_job \<Rightarrow> string list" where
  "provider_ids job = List.map_filter (\<lambda>r. nonempty (rr_providerMessageId r)) (rj_results job)"

definition project_inbound_health :: "services \<Rightarrow> result_job \<Rightarrow> nat statement" where
  "project_inbound_health sv job t d =
     update_health
       (\<lambda>r. rh_route_id r = rj_routeId job \<and> rh_policy_sha256 r = Some (rj_policySha256 job) \<and>
            active_policy d = Some (rj_policySha256 job))
       (\<lambda>r. let status = rj_status job; accepted = 0 < accepted_count job in
          r\<lparr>rh_inbound_status :=
              (if status = ''provider_accepted'' \<and> rh_inbound_status r = ''inbox_verified'' then rh_inbound_status r else status),
            rh_last_inbound_provider_accepted_at :=
              (if accepted then Some (sv_timestamp sv t) else rh_last_inbound_provider_accepted_at r),
            rh_last_inbound_provider_message_ids :=
              (if accepted then provider_ids job else rh_last_inbound_provider_message_ids r),
            rh_last_error_code := (if status = ''provider_accepted'' then None else Some status)\<rparr>) t d"

definition settle_delivery :: "services \<Rightarrow> result_job \<Rightarrow> claimed_result_row \<Rightarrow> unit act" where
  \<comment> \<open>the tail that both branches of the projection share\<close>
  "settle_delivery sv job claimed =
     followedBy (persistInboundDeliveryProjection job)
     (followedBy (deleteAcceptedInboundPayloads sv (cl_acceptedPayloadKeys claimed))
        (unless (rj_status job \<noteq> ''provider_accepted'')
           (if \<not> env_RELAY_SPOOL (sv_env sv) then throw (Err ''relay spool binding unavailable'')
            else followedBy (spoolDelete (cl_rawR2Key claimed))
                 (followedBy (recordInboundCleanupComplete sv job) (clearInboundCleanupAuthority job)))))"

definition superseded_delivery :: "services \<Rightarrow> result_job \<Rightarrow> unit act" where
  "superseded_delivery sv job =
     andThen (d1 (query (\<lambda>_ d. active_policy d))) (\<lambda>runtime.
       if \<not> truthy runtime \<or> runtime = Some (rj_policySha256 job)
       then throw (Err ''active route health revision is unavailable for inbound result projection'')
       else recordEvent sv ''system'' ''operator_delivery_result_superseded''
         (JObject [(''deliveryId'', JString (rj_deliveryId job)), (''relayId'', JString (rj_relayId job)),
                   (''routeId'', JString (rj_routeId job)), (''policySha256'', JString (rj_policySha256 job)),
                   (''acceptedCount'', JInt (int (accepted_count job))),
                   (''failedCount'', JInt (int (length (rj_results job)) - int (accepted_count job))),
                   (''providerMessageIds'', jstrings (provider_ids job))])
         (Some (rj_deliveryId job @ '':operator_delivery_result_superseded'')) (Some (rj_threadId job)))"

definition record_recipient :: "services \<Rightarrow> result_job \<Rightarrow> nat \<times> recipient_result \<Rightarrow> unit act" where
  "record_recipient sv job entry =
     (let index = fst entry; result = snd entry in
      recordEvent sv ''system''
        (if rr_ok result then ''operator_delivery_recipient_provider_accepted''
         else ''operator_delivery_recipient_recovery_required'')
        (JObject [(''deliveryId'', JString (rj_deliveryId job)), (''relayId'', JString (rj_relayId job)),
                  (''operatorRef'', JString (rr_operatorRef result)),
                  (''providerMessageId'', jundef (rr_providerMessageId result)),
                  (''errorCode'', jundef (rr_errorCode result))])
        (Some (rj_deliveryId job @ '':operator_delivery:'' @ show_nat index)) (Some (rj_threadId job)))"

definition record_delivery :: "services \<Rightarrow> result_job \<Rightarrow> unit act" where
  "record_delivery sv job =
     followedBy (forEach (record_recipient sv job) (List.enumerate 0 (rj_results job)))
       (recordEvent sv ''system''
          (if rj_status job = ''provider_accepted'' then ''operator_delivery_provider_accepted'' else rj_status job)
          (JObject [(''deliveryId'', JString (rj_deliveryId job)), (''relayId'', JString (rj_relayId job)),
                    (''acceptedCount'', JInt (int (accepted_count job))),
                    (''failedCount'', JInt (int (length (rj_results job)) - int (accepted_count job))),
                    (''providerMessageIds'', jstrings (provider_ids job)), (''recoverySpool'', JBool True)])
          (Some (rj_deliveryId job @ '':operator_delivery_result'')) (Some (rj_threadId job)))"

definition projectInboundDeliveryResult :: "services \<Rightarrow> result_job \<Rightarrow> unit act" where
  "projectInboundDeliveryResult sv job =
     andThen (loadClaimedInboundResult job) (\<lambda>claim.
       case claim of
         None \<Rightarrow>
           andThen (inboundCleanupAlreadyComplete sv job) (\<lambda>complete.
             if complete then ret () else throw (Err ''inbound result does not match its durable delivery claim''))
       | Some claimed \<Rightarrow>
           andThen (d1 (project_inbound_health sv job)) (\<lambda>n.
             followedBy (if 0 < n then record_delivery sv job else superseded_delivery sv job)
                        (settle_delivery sv job claimed)))"

end
