(* ===== verification/Route_Status.thy ===== *)
theory Route_Status
  imports Platform
begin

text \<open>
  \<^verbatim>\<open>workers/shared/route-status.ts\<close> and \<^verbatim>\<open>route-status-reader.ts\<close>: the operational classification of a
  route, the JSON projection of it that is stored, and the reader that decides what a stored
  projection may establish. The clock is an argument; \<^const>\<open>None\<close> stands for a number that is not finite.
\<close>

section \<open>The classification\<close>

datatype proof_freshness = Fresh | Stale | Missing | Invalid | Proof_Not_Applicable

datatype delivery_outcome =
  Provider_Accepted | Partial_Delivery | Delivery_Failed | Unknown_Outcome | Unobserved | Outcome_Not_Applicable

datatype enrollment = Required | Excluded | Pending_Enrollment | Scheduled_Enrollment

datatype processing_state = P_Enabled | P_Disabled | P_Unknown

datatype route_class =
  Class_Current | Needs_Attention | Unverified | Class_Stale | Intentionally_Excluded | Class_Disabled
  | Class_Pending | Class_Scheduled

datatype next_action =
  No_Action | Refresh_Projection | Review_Enrollment | Review_Processing_Modes | Reconcile_Provider_Outcome
  | Recover_Dispatch_By_Claim_Id | Observe_Queue | Review_Quarantine | Review_Route_Activation
  | Record_Inbox_Receipt | Record_Reply_Receipt

record route_status_input =
  si_policySha256 :: string
  si_sourceGeneration :: "int option"
  si_bindingCurrent :: bool
  si_enabled :: bool
  si_routeKind :: string
  si_enrollment :: enrollment
  si_inboundProcessing :: processing_state
  si_replyProcessing :: processing_state
  si_ordinaryProcessing :: processing_state
  si_activationId :: "string option"
  si_quarantined :: bool
  si_inboundStatus :: "string option"
  si_replyStatus :: "string option"
  si_inboxObservedAt :: "string option"
  si_replyObservedAt :: "string option"
  si_pendingDispatch :: int
  si_pendingQueue :: int
  si_unknownProviderAttempts :: int

record route_status =
  rs_source_generation :: int
  rs_policy_sha256 :: string
  rs_observed_at :: string
  rs_valid_until :: string
  rs_classification :: route_class
  rs_inbound_processing :: processing_state
  rs_ordinary_authority_active :: bool
  rs_ordinary_reply_enabled :: bool
  rs_activation_id :: "string option"
  rs_inbound_outcome :: delivery_outcome
  rs_reply_outcome :: delivery_outcome
  rs_inbox_proof :: proof_freshness
  rs_reply_proof :: proof_freshness
  rs_pending_dispatch :: int
  rs_pending_queue :: int
  rs_unknown_provider_attempts :: int
  rs_reason_codes :: "string list"
  rs_next_action :: next_action

fun proof_name :: "proof_freshness \<Rightarrow> string" where
  "proof_name Fresh = ''fresh''"
| "proof_name Stale = ''stale''"
| "proof_name Missing = ''missing''"
| "proof_name Invalid = ''invalid''"
| "proof_name Proof_Not_Applicable = ''not_applicable''"

fun outcome_name :: "delivery_outcome \<Rightarrow> string" where
  "outcome_name Provider_Accepted = ''provider_accepted''"
| "outcome_name Partial_Delivery = ''partial_delivery''"
| "outcome_name Delivery_Failed = ''failed''"
| "outcome_name Unknown_Outcome = ''unknown''"
| "outcome_name Unobserved = ''unobserved''"
| "outcome_name Outcome_Not_Applicable = ''not_applicable''"

fun processing_state_name :: "processing_state \<Rightarrow> string" where
  "processing_state_name P_Enabled = ''enabled''"
| "processing_state_name P_Disabled = ''disabled''"
| "processing_state_name P_Unknown = ''unknown''"

fun class_name :: "route_class \<Rightarrow> string" where
  "class_name Class_Current = ''current''"
| "class_name Needs_Attention = ''needs_attention''"
| "class_name Unverified = ''unverified''"
| "class_name Class_Stale = ''stale''"
| "class_name Intentionally_Excluded = ''intentionally_excluded''"
| "class_name Class_Disabled = ''disabled''"
| "class_name Class_Pending = ''pending''"
| "class_name Class_Scheduled = ''scheduled''"

fun action_name :: "next_action \<Rightarrow> string" where
  "action_name No_Action = ''none''"
| "action_name Refresh_Projection = ''refresh_projection''"
| "action_name Review_Enrollment = ''review_enrollment''"
| "action_name Review_Processing_Modes = ''review_processing_modes''"
| "action_name Reconcile_Provider_Outcome = ''reconcile_provider_outcome''"
| "action_name Recover_Dispatch_By_Claim_Id = ''recover_dispatch_by_claim_id''"
| "action_name Observe_Queue = ''observe_queue''"
| "action_name Review_Quarantine = ''review_quarantine''"
| "action_name Review_Route_Activation = ''review_route_activation''"
| "action_name Record_Inbox_Receipt = ''record_inbox_receipt''"
| "action_name Record_Reply_Receipt = ''record_reply_receipt''"

section \<open>Proof times\<close>

definition pat_char :: "char \<Rightarrow> char \<Rightarrow> bool" where
  \<comment> \<open>one position of a pattern in which \<open>d\<close> stands for a digit\<close>
  "pat_char p c = (if p = CHR ''d'' then is_digit c else p = c)"

definition matches :: "string \<Rightarrow> string \<Rightarrow> bool" where
  "matches pat s = list_all2 pat_char pat s"

definition zone_ok :: "string \<Rightarrow> bool" where
  \<comment> \<open>\<^verbatim>\<open>(?:Z|[+-]\d{2}:\d{2})$\<close>\<close>
  "zone_ok z \<longleftrightarrow> z = ''Z'' \<or> matches ''+dd:dd'' z \<or> matches ''-dd:dd'' z"

definition iso_instant :: "string \<Rightarrow> bool" where
  \<comment> \<open>\<^verbatim>\<open>/^\d{4}-\d{2}-\d{2}T\d{2}:\d{2}:\d{2}(?:\.\d+)?(?:Z|[+-]\d{2}:\d{2})$/\<close>\<close>
  "iso_instant s \<longleftrightarrow>
     matches ''dddd-dd-ddTdd:dd:dd'' (take 19 s) \<and>
     (case drop 19 s of
        [] \<Rightarrow> False
      | c # r \<Rightarrow>
          if c = CHR ''.'' then takeWhile is_digit r \<noteq> [] \<and> zone_ok (dropWhile is_digit r)
          else zone_ok (c # r))"

definition normalize_instant :: "string \<Rightarrow> string" where
  \<comment> \<open>SQLite's \<^verbatim>\<open>datetime\<close> form is read as UTC\<close>
  "normalize_instant v =
     (if matches ''dddd-dd-dd dd:dd:dd'' v then take 10 v @ ''T'' @ drop 11 v @ ''Z'' else v)"

definition proofMillis :: "platform \<Rightarrow> string option \<Rightarrow> int \<Rightarrow> int option" where
  "proofMillis pf value now =
     (case value of None \<Rightarrow> None
      | Some v \<Rightarrow>
          if v = [] then None
          else (let normalized = normalize_instant v in
            if \<not> iso_instant normalized then None
            else (case pf_date_parse pf normalized of
                    None \<Rightarrow> None
                  | Some timestamp \<Rightarrow> if timestamp \<le> now then Some timestamp else None)))"

definition proofFreshness :: "platform \<Rightarrow> string option \<Rightarrow> int \<Rightarrow> int \<Rightarrow> proof_freshness" where
  "proofFreshness pf value now maxAgeMs =
     (if value = None \<or> value = Some [] then Missing
      else (case proofMillis pf value now of
              None \<Rightarrow> Invalid
            | Some instant \<Rightarrow> if maxAgeMs \<le> now - instant then Stale else Fresh))"

definition deliveryOutcome :: "string option \<Rightarrow> delivery_outcome" where
  "deliveryOutcome value =
     (if value = Some ''provider_accepted'' then Provider_Accepted
      else if value = Some ''partial_delivery'' then Partial_Delivery
      else if value = Some ''failed'' then Delivery_Failed
      else if value = Some ''unknown'' \<or> value = Some ''recovery_required'' \<or> value = Some ''sending'' then Unknown_Outcome
      else if value = Some ''delivered'' then Provider_Accepted
      else if value = None \<or>
              value \<in> {Some ''declared'', Some ''local_policy_valid'', Some ''edge_verified'', Some ''inbox_verified'',
                       Some ''reply_verified'', Some ''receiving'', Some ''queued'', Some ''authorized''}
      then Unobserved else Unknown_Outcome)"

section \<open>The projection\<close>

definition safe_count :: "int \<Rightarrow> bool" where
  "safe_count n \<longleftrightarrow> 0 \<le> n \<and> n \<le> max_safe_integer"

definition decide_as :: "route_class \<Rightarrow> string \<Rightarrow> next_action \<Rightarrow> route_status \<Rightarrow> route_status" where
  "decide_as c reason action p =
     p\<lparr>rs_classification := c, rs_reason_codes := rs_reason_codes p @ [reason], rs_next_action := action\<rparr>"

definition revoke_authority :: "route_status \<Rightarrow> route_status" where
  "revoke_authority p = p\<lparr>rs_ordinary_authority_active := False, rs_ordinary_reply_enabled := False\<rparr>"

definition outcome_bad :: "delivery_outcome \<Rightarrow> bool" where
  "outcome_bad v \<longleftrightarrow> v \<in> {Unknown_Outcome, Delivery_Failed, Partial_Delivery}"

definition base_status :: "platform \<Rightarrow> route_status_input \<Rightarrow> int \<Rightarrow> int \<Rightarrow> route_status" where
  \<comment> \<open>the projection before its classification is chosen\<close>
  "base_status pf input now maxProofAgeMs =
     (let sink = si_routeKind input = ''sink'';
          authority = \<not> sink \<and> si_activationId input \<noteq> None \<and> \<not> si_quarantined input in
      \<lparr> rs_source_generation = (case si_sourceGeneration input of None \<Rightarrow> 0 | Some g \<Rightarrow> g),
        rs_policy_sha256 = si_policySha256 input,
        rs_observed_at = pf_to_iso pf now,
        rs_valid_until = pf_to_iso pf (now + 7200000),
        rs_classification = Unverified,
        rs_inbound_processing = si_inboundProcessing input,
        rs_ordinary_authority_active = authority,
        rs_ordinary_reply_enabled =
          (authority \<and> si_replyProcessing input = P_Enabled \<and> si_ordinaryProcessing input = P_Enabled),
        rs_activation_id = (if sink then None else si_activationId input),
        rs_inbound_outcome = (if sink then Outcome_Not_Applicable else deliveryOutcome (si_inboundStatus input)),
        rs_reply_outcome = (if sink then Outcome_Not_Applicable else deliveryOutcome (si_replyStatus input)),
        rs_inbox_proof = (if sink then Proof_Not_Applicable
                          else proofFreshness pf (si_inboxObservedAt input) now maxProofAgeMs),
        rs_reply_proof = (if sink then Proof_Not_Applicable
                          else proofFreshness pf (si_replyObservedAt input) now maxProofAgeMs),
        rs_pending_dispatch = si_pendingDispatch input,
        rs_pending_queue = si_pendingQueue input,
        rs_unknown_provider_attempts = si_unknownProviderAttempts input,
        rs_reason_codes = [],
        rs_next_action = No_Action \<rparr>)"

definition classify :: "route_status_input \<Rightarrow> route_status \<Rightarrow> route_status" where
  "classify input p =
     (let sink = si_routeKind input = ''sink'' in
      if \<not> si_bindingCurrent input then
        decide_as Unverified ''projection_binding_missing'' Refresh_Projection (revoke_authority p)
      else if sink \<or> si_enrollment input = Excluded then
        decide_as Intentionally_Excluded
          (if sink then ''sink_no_delivery_reply_not_applicable'' else ''enrollment_excluded'') No_Action (revoke_authority p)
      else if si_enrollment input = Pending_Enrollment then
        decide_as Class_Pending ''enrollment_pending'' Review_Enrollment p
      else if si_enrollment input = Scheduled_Enrollment then
        decide_as Class_Scheduled ''enrollment_scheduled'' Review_Enrollment p
      else if \<not> si_enabled input then
        decide_as Class_Disabled ''route_disabled'' Review_Processing_Modes (p\<lparr>rs_ordinary_reply_enabled := False\<rparr>)
      else if si_quarantined input then decide_as Needs_Attention ''route_quarantined'' Review_Quarantine p
      else if si_unknownProviderAttempts input \<noteq> 0 \<or> outcome_bad (rs_inbound_outcome p) \<or> outcome_bad (rs_reply_outcome p) then
        decide_as Needs_Attention ''provider_outcome_requires_reconciliation'' Reconcile_Provider_Outcome p
      else if si_pendingDispatch input \<noteq> 0 then
        decide_as Needs_Attention ''dispatch_unconfirmed'' Recover_Dispatch_By_Claim_Id p
      else if si_pendingQueue input \<noteq> 0 then decide_as Unverified ''queue_processing_pending'' Observe_Queue p
      else if si_inboundProcessing input \<noteq> P_Enabled then
        decide_as Unverified ''inbound_processing_unconfirmed'' Review_Processing_Modes p
      else if rs_inbox_proof p \<noteq> Fresh then
        decide_as (if rs_inbox_proof p = Stale then Class_Stale else Unverified)
          (''inbox_proof_'' @ proof_name (rs_inbox_proof p)) Record_Inbox_Receipt p
      else if rs_reply_proof p \<noteq> Fresh then
        decide_as (if rs_reply_proof p = Stale then Class_Stale else Unverified)
          (''reply_proof_'' @ proof_name (rs_reply_proof p)) Record_Reply_Receipt p
      else if \<not> rs_ordinary_authority_active p then
        decide_as Unverified ''ordinary_route_not_activated'' Review_Route_Activation p
      else if \<not> rs_ordinary_reply_enabled p then
        decide_as Unverified ''reply_processing_disabled'' Review_Processing_Modes p
      else decide_as Class_Current ''current_independent_observations'' No_Action p)"

definition projectRouteStatus ::
  "platform \<Rightarrow> route_status_input \<Rightarrow> int option \<Rightarrow> int option \<Rightarrow> string + route_status" where
  "projectRouteStatus pf input now maxProofAgeMs =
     (case (now, maxProofAgeMs) of
        (Some t, Some age) \<Rightarrow>
          if age \<le> 0 \<or> \<not> safe_count (si_pendingDispatch input) \<or> \<not> safe_count (si_pendingQueue input) \<or>
             \<not> safe_count (si_unknownProviderAttempts input)
          then Inl ''invalid route status input''
          else Inr (classify input (base_status pf input t age))
      | _ \<Rightarrow> Inl ''invalid route status input'')"

definition status_json :: "route_status \<Rightarrow> jv" where
  \<comment> \<open>the object \<^verbatim>\<open>RouteOperationalStatus\<close> that is stored\<close>
  "status_json p = JObject
     [(''schema_version'', JInt 1), (''projection_revision'', JString ''route-operational-v1''),
      (''policy_sha256'', JString (rs_policy_sha256 p)), (''source_generation'', JInt (rs_source_generation p)),
      (''observed_at'', JString (rs_observed_at p)), (''valid_until'', JString (rs_valid_until p)),
      (''classification'', JString (class_name (rs_classification p))),
      (''inbound_processing'', JString (processing_state_name (rs_inbound_processing p))),
      (''ordinary_authority_active'', JBool (rs_ordinary_authority_active p)),
      (''ordinary_reply_enabled'', JBool (rs_ordinary_reply_enabled p)),
      (''activation_id'', jopt (rs_activation_id p)),
      (''inbound_outcome'', JString (outcome_name (rs_inbound_outcome p))),
      (''reply_outcome'', JString (outcome_name (rs_reply_outcome p))),
      (''inbox_proof'', JString (proof_name (rs_inbox_proof p))),
      (''reply_proof'', JString (proof_name (rs_reply_proof p))),
      (''pending_dispatch'', JInt (rs_pending_dispatch p)), (''pending_queue'', JInt (rs_pending_queue p)),
      (''unknown_provider_attempts'', JInt (rs_unknown_provider_attempts p)),
      (''reason_codes'', jstrings (rs_reason_codes p)), (''next_action'', JString (action_name (rs_next_action p)))]"

section \<open>The reader\<close>

datatype read_state = Read_Current | Read_Stale | Read_Unknown

record status_read =
  sr_state :: read_state
  sr_status :: "jv option"
  sr_reason :: "string option"

definition status_fields :: "string list" where
  "status_fields =
     [''schema_version'', ''projection_revision'', ''source_generation'', ''policy_sha256'', ''observed_at'',
      ''valid_until'', ''classification'', ''inbound_processing'', ''ordinary_authority_active'',
      ''ordinary_reply_enabled'', ''activation_id'', ''inbound_outcome'', ''reply_outcome'', ''inbox_proof'',
      ''reply_proof'', ''pending_dispatch'', ''pending_queue'', ''unknown_provider_attempts'', ''reason_codes'',
      ''next_action'']"

definition classes :: "string list" where
  "classes = [''current'', ''needs_attention'', ''unverified'', ''stale'', ''intentionally_excluded'', ''disabled'',
     ''pending'', ''scheduled'']"

definition outcomes :: "string list" where
  "outcomes = [''provider_accepted'', ''partial_delivery'', ''failed'', ''unknown'', ''unobserved'', ''not_applicable'']"

definition proofs :: "string list" where
  "proofs = [''fresh'', ''stale'', ''missing'', ''invalid'', ''not_applicable'']"

definition actions :: "string list" where
  "actions = [''none'', ''refresh_projection'', ''review_enrollment'', ''review_processing_modes'',
     ''reconcile_provider_outcome'', ''recover_dispatch_by_claim_id'', ''observe_queue'', ''review_quarantine'',
     ''review_route_activation'', ''record_inbox_receipt'', ''record_reply_receipt'']"

definition member_of :: "string list \<Rightarrow> jv \<Rightarrow> bool" where
  "member_of values v = (case v of JString s \<Rightarrow> s \<in> set values | _ \<Rightarrow> False)"

definition count_value :: "jv \<Rightarrow> bool" where
  "count_value v = (case v of JInt n \<Rightarrow> safe_count n | _ \<Rightarrow> False)"

definition string_that :: "(string \<Rightarrow> bool) \<Rightarrow> jv \<Rightarrow> bool" where
  "string_that P v = (case v of JString s \<Rightarrow> P s | _ \<Rightarrow> False)"

definition is_bool :: "jv \<Rightarrow> bool" where
  "is_bool v = (case v of JBool _ \<Rightarrow> True | _ \<Rightarrow> False)"

definition activation_text :: "string \<Rightarrow> bool" where
  \<comment> \<open>\<^verbatim>\<open>/^[a-zA-Z0-9:._-]{1,160}$/\<close>\<close>
  "activation_text s \<longleftrightarrow> s \<noteq> [] \<and> length s \<le> 160 \<and> list_all (\<lambda>c. is_alnum c \<or> c \<in> set '':._-'') s"

definition reason_text :: "string \<Rightarrow> bool" where
  \<comment> \<open>\<^verbatim>\<open>/^[a-z][a-z0-9_]{0,127}$/\<close>\<close>
  "reason_text s \<longleftrightarrow>
     (case s of [] \<Rightarrow> False
      | c # r \<Rightarrow> is_lower_az c \<and> length r \<le> 127 \<and> list_all (\<lambda>x. is_alnum_lower x \<or> x = CHR ''_'') r)"

definition reasons_value :: "jv \<Rightarrow> bool" where
  "reasons_value v =
     (case v of JArray vs \<Rightarrow> vs \<noteq> [] \<and> length vs \<le> 32 \<and> list_all (string_that reason_text) vs | _ \<Rightarrow> False)"

definition statusShape :: "jv \<Rightarrow> bool" where
  "statusShape row \<longleftrightarrow>
     js_is_record row \<and> length (js_keys row) = length status_fields \<and>
     list_all (\<lambda>k. k \<in> set status_fields) (js_keys row) \<and>
     js_get row ''schema_version'' = JInt 1 \<and>
     js_get row ''projection_revision'' = JString ''route-operational-v1'' \<and>
     count_value (js_get row ''source_generation'') \<and> string_that is_sha256_hex (js_get row ''policy_sha256'') \<and>
     js_is_string (js_get row ''observed_at'') \<and> js_is_string (js_get row ''valid_until'') \<and>
     member_of classes (js_get row ''classification'') \<and>
     member_of [''enabled'', ''disabled'', ''unknown''] (js_get row ''inbound_processing'') \<and>
     is_bool (js_get row ''ordinary_authority_active'') \<and> is_bool (js_get row ''ordinary_reply_enabled'') \<and>
     (js_get row ''activation_id'' = JNull \<or> string_that activation_text (js_get row ''activation_id'')) \<and>
     member_of outcomes (js_get row ''inbound_outcome'') \<and> member_of outcomes (js_get row ''reply_outcome'') \<and>
     member_of proofs (js_get row ''inbox_proof'') \<and> member_of proofs (js_get row ''reply_proof'') \<and>
     count_value (js_get row ''pending_dispatch'') \<and> count_value (js_get row ''pending_queue'') \<and>
     count_value (js_get row ''unknown_provider_attempts'') \<and> reasons_value (js_get row ''reason_codes'') \<and>
     member_of actions (js_get row ''next_action'') \<and>
     (js_get row ''ordinary_reply_enabled'' = JBool True \<longrightarrow> js_get row ''ordinary_authority_active'' = JBool True) \<and>
     (js_get row ''ordinary_authority_active'' = JBool True \<longrightarrow> js_get row ''activation_id'' \<noteq> JNull)"

definition strip_sha256_prefix :: "string \<Rightarrow> string" where
  \<comment> \<open>\<^verbatim>\<open>s.replace(/^sha256:/, "")\<close>\<close>
  "strip_sha256_prefix s = (if prefix ''sha256:'' s then drop 7 s else s)"

definition unknown_read :: "string \<Rightarrow> status_read" where
  "unknown_read reason = \<lparr> sr_state = Read_Unknown, sr_status = None, sr_reason = Some reason \<rparr>"

definition string_date :: "platform \<Rightarrow> jv \<Rightarrow> int option" where
  "string_date pf v = (case v of JString s \<Rightarrow> pf_date_parse pf s | _ \<Rightarrow> None)"

definition read_checked :: "platform \<Rightarrow> string \<Rightarrow> jv \<Rightarrow> int option \<Rightarrow> jv \<Rightarrow> status_read" where
  "read_checked pf policySha256 sourceGeneration now value =
     (if \<not> statusShape value then unknown_read ''operational_projection_missing_or_incompatible''
      else if \<not> count_value sourceGeneration \<or> js_get value ''source_generation'' \<noteq> sourceGeneration \<or>
              js_get value ''policy_sha256'' \<noteq> JString (strip_sha256_prefix policySha256)
      then unknown_read ''operational_projection_binding_mismatch''
      else (case (now, string_date pf (js_get value ''observed_at''), string_date pf (js_get value ''valid_until'')) of
              (Some t, Some observed, Some until) \<Rightarrow>
                if t < observed \<or> until \<le> observed then unknown_read ''operational_projection_time_invalid''
                else if until \<le> t
                then \<lparr> sr_state = Read_Stale, sr_status = Some value, sr_reason = Some ''operational_projection_stale'' \<rparr>
                else \<lparr> sr_state = Read_Current, sr_status = Some value, sr_reason = None \<rparr>
            | _ \<Rightarrow> unknown_read ''operational_projection_time_invalid''))"

definition readRouteStatusProjection ::
  "platform \<Rightarrow> (string \<Rightarrow> jv option) \<Rightarrow> jv \<Rightarrow> string \<Rightarrow> jv \<Rightarrow> int option \<Rightarrow> status_read" where
  \<comment> \<open>the second argument is \<^verbatim>\<open>JSON.parse\<close>, \<^const>\<open>None\<close> when it throws\<close>
  "readRouteStatusProjection pf json_parse value policySha256 sourceGeneration now =
     (case value of
        JString s \<Rightarrow>
          (case json_parse s of
             None \<Rightarrow> unknown_read ''operational_projection_invalid''
           | Some parsed \<Rightarrow> read_checked pf policySha256 sourceGeneration now parsed)
      | _ \<Rightarrow> read_checked pf policySha256 sourceGeneration now value)"

definition truthy_count :: "jv \<Rightarrow> bool" where
  "truthy_count v \<longleftrightarrow> v \<noteq> JInt 0"

definition operationalReadinessBlocker :: "status_read \<Rightarrow> string option" where
  "operationalReadinessBlocker r =
     (case (sr_state r, sr_status r) of
        (Read_Current, Some status) \<Rightarrow>
          if truthy_count (js_get status ''pending_dispatch'') then Some ''dispatch_unconfirmed''
          else if truthy_count (js_get status ''unknown_provider_attempts'') \<or>
                  member_of [''partial_delivery'', ''failed'', ''unknown''] (js_get status ''inbound_outcome'') \<or>
                  member_of [''partial_delivery'', ''failed'', ''unknown''] (js_get status ''reply_outcome'')
          then Some ''provider_outcome_requires_reconciliation''
          else if truthy_count (js_get status ''pending_queue'') then Some ''queue_processing_pending''
          else if member_of [''current'', ''intentionally_excluded''] (js_get status ''classification'') then None
          else (case js_get status ''reason_codes'' of
                  JArray (JString s # _) \<Rightarrow> Some s | _ \<Rightarrow> Some ''operational_state_unverified'')
      | _ \<Rightarrow> (case sr_reason r of None \<Rightarrow> Some ''operational_projection_unknown'' | Some s \<Rightarrow> Some s))"

section \<open>Lemmas\<close>

lemma decide_as_fields [simp]:
  "rs_classification (decide_as c r a p) = c"
  "rs_reason_codes (decide_as c r a p) = rs_reason_codes p @ [r]"
  "rs_next_action (decide_as c r a p) = a"
  "rs_ordinary_authority_active (decide_as c r a p) = rs_ordinary_authority_active p"
  "rs_ordinary_reply_enabled (decide_as c r a p) = rs_ordinary_reply_enabled p"
  "rs_activation_id (decide_as c r a p) = rs_activation_id p"
  "rs_source_generation (decide_as c r a p) = rs_source_generation p"
  "rs_policy_sha256 (decide_as c r a p) = rs_policy_sha256 p"
  "rs_observed_at (decide_as c r a p) = rs_observed_at p"
  "rs_valid_until (decide_as c r a p) = rs_valid_until p"
  "rs_inbound_outcome (decide_as c r a p) = rs_inbound_outcome p"
  "rs_reply_outcome (decide_as c r a p) = rs_reply_outcome p"
  "rs_inbox_proof (decide_as c r a p) = rs_inbox_proof p"
  "rs_reply_proof (decide_as c r a p) = rs_reply_proof p"
  "rs_pending_dispatch (decide_as c r a p) = rs_pending_dispatch p"
  "rs_pending_queue (decide_as c r a p) = rs_pending_queue p"
  "rs_unknown_provider_attempts (decide_as c r a p) = rs_unknown_provider_attempts p"
  by (simp_all add: decide_as_def)

lemma revoke_authority_fields [simp]:
  "rs_reason_codes (revoke_authority p) = rs_reason_codes p"
  "\<not> rs_ordinary_authority_active (revoke_authority p)"
  "\<not> rs_ordinary_reply_enabled (revoke_authority p)"
  "rs_activation_id (revoke_authority p) = rs_activation_id p"
  "rs_source_generation (revoke_authority p) = rs_source_generation p"
  "rs_policy_sha256 (revoke_authority p) = rs_policy_sha256 p"
  "rs_observed_at (revoke_authority p) = rs_observed_at p"
  "rs_valid_until (revoke_authority p) = rs_valid_until p"
  "rs_inbound_outcome (revoke_authority p) = rs_inbound_outcome p"
  "rs_reply_outcome (revoke_authority p) = rs_reply_outcome p"
  "rs_pending_dispatch (revoke_authority p) = rs_pending_dispatch p"
  "rs_pending_queue (revoke_authority p) = rs_pending_queue p"
  "rs_unknown_provider_attempts (revoke_authority p) = rs_unknown_provider_attempts p"
  by (simp_all add: revoke_authority_def)

lemma classify_preserves [simp]:
  "rs_activation_id (classify i p) = rs_activation_id p"
  "rs_source_generation (classify i p) = rs_source_generation p"
  "rs_policy_sha256 (classify i p) = rs_policy_sha256 p"
  "rs_observed_at (classify i p) = rs_observed_at p"
  "rs_valid_until (classify i p) = rs_valid_until p"
  "rs_pending_dispatch (classify i p) = rs_pending_dispatch p"
  "rs_pending_queue (classify i p) = rs_pending_queue p"
  "rs_unknown_provider_attempts (classify i p) = rs_unknown_provider_attempts p"
  by (simp_all add: classify_def Let_def)

lemma classify_authority:
  "rs_ordinary_authority_active (classify i p) \<longleftrightarrow>
   rs_ordinary_authority_active p \<and> si_bindingCurrent i \<and> si_routeKind i \<noteq> ''sink'' \<and> si_enrollment i \<noteq> Excluded"
  by (auto simp: classify_def Let_def)

lemma classify_reply:
  "rs_ordinary_reply_enabled (classify i p) \<Longrightarrow> rs_ordinary_reply_enabled p"
  by (auto simp: classify_def Let_def split: if_splits)

lemma proof_reason: "reason_text (''inbox_proof_'' @ proof_name f)" "reason_text (''reply_proof_'' @ proof_name f)"
  by (cases f; simp add: reason_text_def js_defs)+

lemma classify_reasons:
  "rs_reason_codes p = [] \<Longrightarrow> \<exists>r. rs_reason_codes (classify i p) = [r] \<and> reason_text r"
proof -
  assume p: "rs_reason_codes p = []"
  have k: "reason_text ''projection_binding_missing''" "reason_text ''sink_no_delivery_reply_not_applicable''"
    "reason_text ''enrollment_excluded''" "reason_text ''enrollment_pending''" "reason_text ''enrollment_scheduled''"
    "reason_text ''route_disabled''" "reason_text ''route_quarantined''"
    "reason_text ''provider_outcome_requires_reconciliation''" "reason_text ''dispatch_unconfirmed''"
    "reason_text ''queue_processing_pending''" "reason_text ''inbound_processing_unconfirmed''"
    "reason_text ''ordinary_route_not_activated''" "reason_text ''reply_processing_disabled''"
    "reason_text ''current_independent_observations''"
    by (simp_all add: reason_text_def js_defs)
  show ?thesis using p k proof_reason by (simp add: classify_def Let_def)
qed

lemma classify_current:
  assumes "rs_classification (classify i p) = Class_Current"
  shows "si_bindingCurrent i \<and> si_routeKind i \<noteq> ''sink'' \<and> si_enrollment i = Required \<and> si_enabled i \<and>
    \<not> si_quarantined i \<and> si_unknownProviderAttempts i = 0 \<and> \<not> outcome_bad (rs_inbound_outcome p) \<and>
    \<not> outcome_bad (rs_reply_outcome p) \<and> si_pendingDispatch i = 0 \<and> si_pendingQueue i = 0 \<and>
    si_inboundProcessing i = P_Enabled \<and> rs_inbox_proof p = Fresh \<and> rs_reply_proof p = Fresh \<and>
    rs_ordinary_authority_active p \<and> rs_ordinary_reply_enabled p"
proof -
  have e: "si_enrollment i = Required" if "si_enrollment i \<notin> {Excluded, Pending_Enrollment, Scheduled_Enrollment}"
    using that by (cases "si_enrollment i") auto
  show ?thesis using assms e by (auto simp: classify_def Let_def split: if_splits)
qed

lemma classify_current_iff:
  "rs_classification (classify i p) = Class_Current \<longleftrightarrow>
     si_bindingCurrent i \<and> si_routeKind i \<noteq> ''sink'' \<and> si_enrollment i = Required \<and> si_enabled i \<and>
     \<not> si_quarantined i \<and> si_unknownProviderAttempts i = 0 \<and> \<not> outcome_bad (rs_inbound_outcome p) \<and>
     \<not> outcome_bad (rs_reply_outcome p) \<and> si_pendingDispatch i = 0 \<and> si_pendingQueue i = 0 \<and>
     si_inboundProcessing i = P_Enabled \<and> rs_inbox_proof p = Fresh \<and> rs_reply_proof p = Fresh \<and>
     rs_ordinary_authority_active p \<and> rs_ordinary_reply_enabled p" (is "?c \<longleftrightarrow> ?r")
proof
  show "?c \<Longrightarrow> ?r" by (rule classify_current)
  show "?r \<Longrightarrow> ?c" by (simp add: classify_def Let_def)
qed

lemma names_known:
  "class_name c \<in> set classes" "outcome_name x \<in> set outcomes" "proof_name f \<in> set proofs"
  "action_name a \<in> set actions" "processing_state_name s \<in> {''enabled'', ''disabled'', ''unknown''}"
proof -
  show "class_name c \<in> set classes" by (cases c) (simp_all add: classes_def)
  show "outcome_name x \<in> set outcomes" by (cases x) (simp_all add: outcomes_def)
  show "proof_name f \<in> set proofs" by (cases f) (simp_all add: proofs_def)
  show "action_name a \<in> set actions" by (cases a) (simp_all add: actions_def)
  show "processing_state_name s \<in> {''enabled'', ''disabled'', ''unknown''}" by (cases s) simp_all
qed

definition status_wf :: "route_status \<Rightarrow> bool" where
  "status_wf p \<longleftrightarrow>
     safe_count (rs_source_generation p) \<and> is_sha256_hex (rs_policy_sha256 p) \<and>
     (case rs_activation_id p of None \<Rightarrow> True | Some a \<Rightarrow> activation_text a) \<and>
     safe_count (rs_pending_dispatch p) \<and> safe_count (rs_pending_queue p) \<and>
     safe_count (rs_unknown_provider_attempts p) \<and>
     (\<exists>r. rs_reason_codes p = [r] \<and> reason_text r) \<and>
     (rs_ordinary_reply_enabled p \<longrightarrow> rs_ordinary_authority_active p) \<and>
     (rs_ordinary_authority_active p \<longrightarrow> rs_activation_id p \<noteq> None)"

lemma status_json_get:
  "js_get (status_json p) ''schema_version'' = JInt 1"
  "js_get (status_json p) ''projection_revision'' = JString ''route-operational-v1''"
  "js_get (status_json p) ''policy_sha256'' = JString (rs_policy_sha256 p)"
  "js_get (status_json p) ''source_generation'' = JInt (rs_source_generation p)"
  "js_get (status_json p) ''observed_at'' = JString (rs_observed_at p)"
  "js_get (status_json p) ''valid_until'' = JString (rs_valid_until p)"
  "js_get (status_json p) ''classification'' = JString (class_name (rs_classification p))"
  "js_get (status_json p) ''inbound_processing'' = JString (processing_state_name (rs_inbound_processing p))"
  "js_get (status_json p) ''ordinary_authority_active'' = JBool (rs_ordinary_authority_active p)"
  "js_get (status_json p) ''ordinary_reply_enabled'' = JBool (rs_ordinary_reply_enabled p)"
  "js_get (status_json p) ''activation_id'' = jopt (rs_activation_id p)"
  "js_get (status_json p) ''inbound_outcome'' = JString (outcome_name (rs_inbound_outcome p))"
  "js_get (status_json p) ''reply_outcome'' = JString (outcome_name (rs_reply_outcome p))"
  "js_get (status_json p) ''inbox_proof'' = JString (proof_name (rs_inbox_proof p))"
  "js_get (status_json p) ''reply_proof'' = JString (proof_name (rs_reply_proof p))"
  "js_get (status_json p) ''pending_dispatch'' = JInt (rs_pending_dispatch p)"
  "js_get (status_json p) ''pending_queue'' = JInt (rs_pending_queue p)"
  "js_get (status_json p) ''unknown_provider_attempts'' = JInt (rs_unknown_provider_attempts p)"
  "js_get (status_json p) ''reason_codes'' = jstrings (rs_reason_codes p)"
  "js_get (status_json p) ''next_action'' = JString (action_name (rs_next_action p))"
  by (simp_all add: status_json_def js_get_def)

lemma status_json_keys:
  "js_is_record (status_json p)" "length (js_keys (status_json p)) = length status_fields"
  "list_all (\<lambda>k. k \<in> set status_fields) (js_keys (status_json p))"
  by (simp_all add: status_json_def js_is_record_def js_keys_def status_fields_def)

lemma statusShape_status_json: "status_wf p \<Longrightarrow> statusShape (status_json p)"
  unfolding statusShape_def status_json_get status_wf_def
  using status_json_keys names_known
  by (auto simp: count_value_def string_that_def js_is_string_def member_of_def is_bool_def jopt_def jstrings_def
      reasons_value_def split: option.splits)

lemma projectRouteStatus_wf:
  assumes "projectRouteStatus pf i (Some now) (Some age) = Inr p" "is_sha256_hex (si_policySha256 i)"
    and "\<And>g. si_sourceGeneration i = Some g \<Longrightarrow> safe_count g"
    and "\<And>a. si_activationId i = Some a \<Longrightarrow> activation_text a"
  shows "status_wf p"
proof -
  let ?b = "base_status pf i now age"
  from assms(1) have p: "p = classify i ?b" and c: "safe_count (si_pendingDispatch i)"
    "safe_count (si_pendingQueue i)" "safe_count (si_unknownProviderAttempts i)"
    by (auto simp: projectRouteStatus_def split: if_splits)
  have z: "safe_count 0" by (simp add: safe_count_def max_safe_integer_def)
  obtain r where "rs_reason_codes p = [r]" and "reason_text r"
    using classify_reasons [of ?b i] p by (auto simp: base_status_def Let_def)
  moreover have "rs_ordinary_reply_enabled p \<longrightarrow> rs_ordinary_authority_active p"
    unfolding p by (auto simp: classify_def base_status_def Let_def)
  moreover have "rs_ordinary_authority_active p \<longrightarrow> rs_activation_id p \<noteq> None"
    unfolding p classify_authority by (auto simp: base_status_def Let_def)
  ultimately show ?thesis
    using assms c z unfolding status_wf_def p
    by (auto simp: base_status_def Let_def split: option.splits)
qed

definition clock_ok :: "platform \<Rightarrow> bool" where
  \<comment> \<open>the contract of \<^verbatim>\<open>Date\<close>: parsing what \<^verbatim>\<open>toISOString\<close> printed gives the instant back\<close>
  "clock_ok pf \<longleftrightarrow> (\<forall>t. pf_date_parse pf (pf_to_iso pf t) = Some t)"

lemma projectRouteStatus_times:
  assumes "projectRouteStatus pf i (Some now) (Some age) = Inr p"
  shows "rs_observed_at p = pf_to_iso pf now \<and> rs_valid_until p = pf_to_iso pf (now + 7200000) \<and>
    rs_policy_sha256 p = si_policySha256 i \<and>
    rs_source_generation p = (case si_sourceGeneration i of None \<Rightarrow> 0 | Some g \<Rightarrow> g)"
  using assms by (auto simp: projectRouteStatus_def base_status_def Let_def split: if_splits)

lemma strip_prefix_digest: "is_sha256_hex d \<Longrightarrow> strip_sha256_prefix d = d"
proof -
  assume d: "is_sha256_hex d"
  have "\<not> prefix ''sha256:'' d"
  proof
    assume "prefix ''sha256:'' d"
    then have "CHR ''s'' \<in> set d" by (auto simp: prefix_def)
    with d have "is_hex (CHR ''s'')" by (auto simp: is_sha256_hex_def list_all_iff)
    then show False by (simp add: js_defs)
  qed
  then show ?thesis by (simp add: strip_sha256_prefix_def)
qed

lemma read_of_projection:
  assumes "projectRouteStatus pf i (Some now) (Some age) = Inr p" "status_wf p" "clock_ok pf"
  shows "readRouteStatusProjection pf parse (status_json p) (rs_policy_sha256 p) (JInt (rs_source_generation p)) (Some t) =
    (if t < now then unknown_read ''operational_projection_time_invalid''
     else if now + 7200000 \<le> t
     then \<lparr> sr_state = Read_Stale, sr_status = Some (status_json p), sr_reason = Some ''operational_projection_stale'' \<rparr>
     else \<lparr> sr_state = Read_Current, sr_status = Some (status_json p), sr_reason = None \<rparr>)"
proof -
  have obj: "\<exists>ps. status_json p = JObject ps" by (simp add: status_json_def)
  have d: "strip_sha256_prefix (rs_policy_sha256 p) = rs_policy_sha256 p" and g: "safe_count (rs_source_generation p)"
    using assms(2) by (auto simp: status_wf_def strip_prefix_digest)
  have tm: "string_date pf (JString (rs_observed_at p)) = Some now"
    "string_date pf (JString (rs_valid_until p)) = Some (now + 7200000)"
    using projectRouteStatus_times [OF assms(1)] assms(3) by (simp_all add: string_date_def clock_ok_def)
  have "read_checked pf (rs_policy_sha256 p) (JInt (rs_source_generation p)) (Some t) (status_json p) =
    (if t < now then unknown_read ''operational_projection_time_invalid''
     else if now + 7200000 \<le> t
     then \<lparr> sr_state = Read_Stale, sr_status = Some (status_json p), sr_reason = Some ''operational_projection_stale'' \<rparr>
     else \<lparr> sr_state = Read_Current, sr_status = Some (status_json p), sr_reason = None \<rparr>)"
    unfolding read_checked_def status_json_get d tm
    using statusShape_status_json [OF assms(2)] g by (simp add: count_value_def)
  with obj show ?thesis by (auto simp: readRouteStatusProjection_def)
qed

lemma read_checked_current:
  assumes "sr_state (read_checked pf pol g now v) = Read_Current"
  shows "sr_status (read_checked pf pol g now v) = Some v \<and> statusShape v \<and> count_value g \<and>
    js_get v ''source_generation'' = g \<and> js_get v ''policy_sha256'' = JString (strip_sha256_prefix pol) \<and>
    (\<exists>t a b. now = Some t \<and> string_date pf (js_get v ''observed_at'') = Some a \<and>
       string_date pf (js_get v ''valid_until'') = Some b \<and> a \<le> t \<and> t < b)"
  using assms by (auto simp: read_checked_def unknown_read_def split: if_splits option.splits)

lemma operationalReadinessBlocker_None:
  "operationalReadinessBlocker r = None \<longleftrightarrow>
   (\<exists>s. sr_state r = Read_Current \<and> sr_status r = Some s \<and> js_get s ''pending_dispatch'' = JInt 0 \<and>
        js_get s ''unknown_provider_attempts'' = JInt 0 \<and> js_get s ''pending_queue'' = JInt 0 \<and>
        \<not> member_of [''partial_delivery'', ''failed'', ''unknown''] (js_get s ''inbound_outcome'') \<and>
        \<not> member_of [''partial_delivery'', ''failed'', ''unknown''] (js_get s ''reply_outcome'') \<and>
        member_of [''current'', ''intentionally_excluded''] (js_get s ''classification''))"
  by (auto simp: operationalReadinessBlocker_def truthy_count_def
      split: read_state.splits option.splits if_splits jv.splits list.splits)

end
