(* ===== verification/Status_Store.thy ===== *)
theory Status_Store
  imports Policy Route_Status Jobs
begin

text \<open>
  \<^verbatim>\<open>workers/shared/status-store.ts\<close>: the materialisation of the operational status of routes. The input
  of the projection is one query; the save is guarded by the generation that was read, so a projection
  of older evidence never replaces newer evidence.
\<close>

section \<open>The input query\<close>

definition newer_or_equal :: "int option \<Rightarrow> int option \<Rightarrow> bool" where
  \<comment> \<open>the order of \<^verbatim>\<open>ORDER BY julianday(...) DESC\<close>; NULL comes last\<close>
  "newer_or_equal a b \<longleftrightarrow>
     (case b of None \<Rightarrow> True | Some y \<Rightarrow> (case a of None \<Rightarrow> False | Some x \<Rightarrow> y \<le> x))"

fun latest :: "('a \<Rightarrow> int option) \<Rightarrow> 'a list \<Rightarrow> 'a option" where
  "latest key [] = None"
| "latest key (x # xs) =
     (case latest key xs of None \<Rightarrow> Some x | Some y \<Rightarrow> if newer_or_equal (key x) (key y) then Some x else Some y)"

definition orNull :: "'a option \<Rightarrow> 'a option \<Rightarrow> 'a option" where
  \<comment> \<open>\<^verbatim>\<open>COALESCE(a, b)\<close>\<close>
  "orNull a b = (if a = None then b else a)"

record status_input_row =
  sw_route_id :: string
  sw_source_generation :: int
  sw_enabled :: bool
  sw_policy_sha256 :: "string option"
  sw_desired_provider :: string
  sw_inbound_status :: "string option"
  sw_reply_status :: "string option"
  sw_last_inbox_verified_at :: "string option"
  sw_last_reply_verified_at :: "string option"
  sw_authorizations :: jv
  sw_pending_dispatch :: nat
  sw_pending_queue :: nat
  sw_unknown_provider_attempts :: nat
  sw_quarantined :: bool

definition deliveries_of_route :: "route_row \<Rightarrow> db \<Rightarrow> delivery_row list" where
  "deliveries_of_route ar d =
     filter (\<lambda>dl. dl_route_id dl = ar_id ar \<and> Some (dl_policy_sha256 dl) = ar_policy_sha256 ar) (db_deliveries d)"

definition open_recipients :: "delivery_row list \<Rightarrow> string list \<Rightarrow> db \<Rightarrow> recipient_row list" where
  "open_recipients dls statuses d =
     filter (\<lambda>rd. rd_delivery_id rd \<in> set (map dl_id dls) \<and> rd_status rd \<in> set statuses) (db_recipients d)"

definition route_inbound_status :: "services \<Rightarrow> route_row \<Rightarrow> health_row \<Rightarrow> db \<Rightarrow> string option" where
  "route_inbound_status sv ar rh d =
     (let dls = deliveries_of_route ar d;
          unfinished = open_recipients dls [''pending'', ''sending'', ''recovery_required''] d in
      orNull (if unfinished = [] then None
              else if list_ex (\<lambda>rd. rd_status rd \<noteq> ''pending'') unfinished then Some ''recovery_required''
              else Some ''pending'')
        (orNull (map_option dl_status (latest (\<lambda>dl. sv_julian sv (dl_received_at dl)) dls))
                (Some (rh_inbound_status rh))))"

definition route_reply_status :: "services \<Rightarrow> route_row \<Rightarrow> health_row \<Rightarrow> db \<Rightarrow> string option" where
  "route_reply_status sv ar rh d =
     orNull (map_option ad_status (latest (\<lambda>rad. sv_julian sv (ad_admitted_at rad))
               (filter (\<lambda>rad. ad_route_id rad = ar_id ar \<and> Some (ad_policy_sha256 rad) = ar_policy_sha256 ar \<and>
                  ad_status rad \<in> {''sending'', ''provider_accepted'', ''failed'', ''recovery_required''}) (db_admissions d))))
            (Some (rh_reply_status rh))"

definition latest_proof :: "services \<Rightarrow> route_row \<Rightarrow> string \<Rightarrow> db \<Rightarrow> string option" where
  "latest_proof sv ar kind d =
     map_option pv_verified_at (latest (\<lambda>p. sv_julian sv (pv_verified_at p))
       (filter (\<lambda>p. pv_route_id p = ar_id ar \<and> Some (pv_policy_sha256 p) = ar_policy_sha256 ar \<and>
          pv_proof_kind p = kind) (db_proofs d)))"

definition proof_time :: "string \<Rightarrow> db \<Rightarrow> string option" where
  "proof_time i d = map_option pv_verified_at (first_row (\<lambda>p. pv_id p = i) (db_proofs d))"

definition authorization_json :: "db \<Rightarrow> activation_row \<Rightarrow> jv" where
  "authorization_json d ca = JObject
     [(''id'', JString (ac_id ca)), (''public_identity'', JString (ac_public_identity ca)),
      (''identity_profile_sha256'', JString (ac_identity_profile_sha256 ca)),
      (''operator_set_sha256'', JString (ac_operator_set_sha256 ca)),
      (''runtime_artifacts_sha256'', JString (ac_runtime_artifacts_sha256 ca)),
      (''topology_sha256'', JString (ac_topology_sha256 ca)), (''sender_adapter'', JString (ac_sender_adapter ca)),
      (''expires_at'', jopt (ac_expires_at ca)), (''inbox_at'', jopt (proof_time (ac_inbox_proof_id ca) d)),
      (''reply_at'', jopt (proof_time (ac_reply_proof_id ca) d))]"

definition attempts_of_route :: "route_row \<Rightarrow> db \<Rightarrow> attempt_row list" where
  "attempts_of_route ar d =
     filter (\<lambda>rat. list_ex (\<lambda>rr. rr_id rr = ra_relay_id rat \<and> rr_route_id rr = ar_id ar) (db_relays d)) (db_attempts d)"

definition admissions_where :: "attempt_row \<Rightarrow> (string \<Rightarrow> bool) \<Rightarrow> db \<Rightarrow> admission_row list" where
  "admissions_where rat P d =
     filter (\<lambda>rad. ad_claimed_attempt_id rad = Some (ra_id rat) \<and> P (ad_status rad)) (db_admissions d)"

definition count_pending :: "route_row \<Rightarrow> string list \<Rightarrow> db \<Rightarrow> nat" where
  "count_pending ar statuses d =
     sum_list (map (\<lambda>rat. length (admissions_where rat (\<lambda>s. s = ''claimed'') d))
       (filter (\<lambda>rat. ra_status rat \<in> set statuses) (attempts_of_route ar d)))"

definition count_unknown :: "route_row \<Rightarrow> db \<Rightarrow> nat" where
  \<comment> \<open>a LEFT JOIN: an attempt without an admission counts once when it needs recovery\<close>
  "count_unknown ar d =
     sum_list (map (\<lambda>rat.
         if ra_status rat = ''recovery_required'' then max 1 (length (admissions_where rat (\<lambda>_. True) d))
         else length (admissions_where rat (\<lambda>s. s = ''sending'') d)) (attempts_of_route ar d)) +
     length (open_recipients (filter (\<lambda>dl. dl_route_id dl = ar_id ar) (db_deliveries d)) [''sending'', ''recovery_required''] d)"

definition status_input_of :: "services \<Rightarrow> db \<Rightarrow> route_row \<Rightarrow> health_row \<Rightarrow> status_input_row" where
  "status_input_of sv d ar rh =
     \<lparr> sw_route_id = ar_id ar, sw_source_generation = ar_status_generation ar, sw_enabled = ar_enabled ar,
       sw_policy_sha256 = ar_policy_sha256 ar, sw_desired_provider = rh_desired_provider rh,
       sw_inbound_status = route_inbound_status sv ar rh d, sw_reply_status = route_reply_status sv ar rh d,
       sw_last_inbox_verified_at = orNull (latest_proof sv ar ''inbox_verified'' d) (rh_last_inbox_verified_at rh),
       sw_last_reply_verified_at = orNull (latest_proof sv ar ''reply_verified'' d) (rh_last_reply_verified_at rh),
       sw_authorizations = JArray (map (authorization_json d)
          (filter (\<lambda>ca. ac_route_id ca = ar_id ar) (db_activations d))),
       sw_pending_dispatch = count_pending ar [''receiving''] d,
       sw_pending_queue = count_pending ar [''queued'', ''authorized''] d,
       sw_unknown_provider_attempts = count_unknown ar d,
       sw_quarantined = route_quarantined (ar_id ar) d \<rparr>"

definition page_size :: nat where "page_size = 32"

definition after_text :: "string \<Rightarrow> string \<Rightarrow> bool" where
  "after_text a b \<longleftrightarrow> \<not> lexordp_eq (map code b) (map code a)"

definition status_inputs ::
  "services \<Rightarrow> string \<Rightarrow> string \<Rightarrow> string list option \<Rightarrow> db \<Rightarrow> status_input_row list" where
  \<comment> \<open>\<^verbatim>\<open>ROUTE_STATUS_INPUT_SQL\<close>\<close>
  "status_inputs sv policy after scope d =
     take (page_size + 1) (order_by sw_route_id (concat (map (\<lambda>ar.
       if ar_policy_sha256 ar = Some policy \<and> after_text after (ar_id ar) \<and>
          (case scope of None \<Rightarrow> True | Some ids \<Rightarrow> ar_id ar \<in> set ids)
       then map (status_input_of sv d ar) (filter (\<lambda>rh. rh_route_id rh = ar_id ar) (db_health d)) else [])
       (db_routes d))))"

section \<open>Activation coverage\<close>

record coverage =
  cv_representativeId :: string
  cv_expiresAt :: "int option"
  cv_inboxAt :: "string option"
  cv_replyAt :: "string option"

definition coverage_keys :: string where
  "coverage_keys = ''expires_at,id,identity_profile_sha256,inbox_at,operator_set_sha256,public_identity,reply_at,runtime_artifacts_sha256,sender_adapter,topology_sha256''"

record coverage_item =
  ci_id :: string
  ci_expires :: "int option"
  ci_inbox :: "int option"
  ci_reply :: "int option"

definition row_expiry :: "services \<Rightarrow> int \<Rightarrow> jv \<Rightarrow> int option option" where
  \<comment> \<open>\<^const>\<open>None\<close>: the row is refused\<close>
  "row_expiry sv now v =
     (case v of
        JNull \<Rightarrow> Some None
      | JString s \<Rightarrow>
          (case pf_date_parse (sv_platform sv) s of
             None \<Rightarrow> None | Some t \<Rightarrow> if t \<le> now then None else Some (Some t))
      | _ \<Rightarrow> None)"

definition row_proof :: "services \<Rightarrow> int \<Rightarrow> jv \<Rightarrow> int option" where
  "row_proof sv now v = (case v of JString s \<Rightarrow> proofMillis (sv_platform sv) (Some s) now | _ \<Rightarrow> None)"

definition covered_by :: "services \<Rightarrow> string \<Rightarrow> identity_profile \<Rightarrow> jv \<Rightarrow> bool" where
  "covered_by sv operatorSha p row \<longleftrightarrow>
     (let env = sv_env sv in
      (case js_get row ''id'' of JString i \<Rightarrow> activation_text i | _ \<Rightarrow> False) \<and>
      js_get row ''identity_profile_sha256'' = JString (publicIdentityProfileSha256 (sv_platform sv) p) \<and>
      js_get row ''operator_set_sha256'' = JString operatorSha \<and>
      js_get row ''runtime_artifacts_sha256'' = jundef (env_RUNTIME_ARTIFACTS_SHA256 env) \<and>
      js_get row ''topology_sha256'' = jundef (env_TOPOLOGY_SHA256 env) \<and>
      js_get row ''sender_adapter'' = JString (adapter_name (ip_senderAdapter p)) \<and>
      js_get row ''sender_adapter'' = jundef (env_OUTBOUND_MODE env))"

fun coverage_items ::
  "services \<Rightarrow> int \<Rightarrow> string \<Rightarrow> (string \<times> identity_profile) list \<Rightarrow> jv list \<Rightarrow> coverage_item list option" where
  "coverage_items sv now operatorSha expected [] = Some []"
| "coverage_items sv now operatorSha expected (row # rows) =
     (if \<not> typeof_object row \<or> join '','' (order_by id (js_keys row)) \<noteq> coverage_keys then None
      else (case map_of expected (js_String (js_get row ''public_identity'')) of
         None \<Rightarrow> None
       | Some p \<Rightarrow>
           if \<not> covered_by sv operatorSha p row then None
           else (case row_expiry sv now (js_get row ''expires_at'') of
              None \<Rightarrow> None
            | Some expires \<Rightarrow>
                map_option (\<lambda>items.
                    \<lparr> ci_id = str_field row ''id'', ci_expires = expires,
                      ci_inbox = row_proof sv now (js_get row ''inbox_at''),
                      ci_reply = row_proof sv now (js_get row ''reply_at'') \<rparr> # items)
                  (coverage_items sv now operatorSha (alist_del (ip_publicAddress p) expected) rows))))"

definition oldest :: "services \<Rightarrow> int option list \<Rightarrow> string option" where
  "oldest sv instants =
     (if list_ex (\<lambda>t. t = None) instants then None
      else Some (pf_to_iso (sv_platform sv) (Min (set (map the instants)))))"

definition route_profiles :: "route_decision \<Rightarrow> identity_profile option list" where
  "route_profiles route =
     (case de_operatorReplyIdentities route of
        None \<Rightarrow> [de_identityProfile route]
      | Some bs \<Rightarrow> map (\<lambda>b. oi_identityProfile (snd b)) bs)"

definition profiles_by_address :: "identity_profile list \<Rightarrow> (string \<times> identity_profile) list" where
  "profiles_by_address ps = fold (\<lambda>p m. alist_put (ip_publicAddress p) p m) ps []"

definition completeActivationCoverage :: "services \<Rightarrow> route_decision \<Rightarrow> jv option \<Rightarrow> int \<Rightarrow> coverage option" where
  \<comment> \<open>the third argument is the parsed JSON text\<close>
  "completeActivationCoverage sv route raw now =
     (let profiles = route_profiles route in
      if profiles = [] \<or> list_ex (\<lambda>p. p = None) profiles then None
      else (case raw of
         Some (JArray rows) \<Rightarrow>
           (let expected = profiles_by_address (map the profiles) in
            if length rows \<noteq> length expected then None
            else map_option (\<lambda>items.
                \<lparr> cv_representativeId = hd (order_by id (map ci_id items)),
                  cv_expiresAt = (let ts = List.map_filter ci_expires items in if ts = [] then None else Some (Min (set ts))),
                  cv_inboxAt = oldest sv (map ci_inbox items), cv_replyAt = oldest sv (map ci_reply items) \<rparr>)
              (coverage_items sv now (sha sv (json_stringify (jstrings (de_operators route)))) expected rows))
       | _ \<Rightarrow> None))"

section \<open>The refresh\<close>

definition processing_input :: "processing_mode \<Rightarrow> processing_state" where
  "processing_input m =
     (case m of Processing_Enabled \<Rightarrow> P_Enabled | Processing_Disabled \<Rightarrow> P_Disabled | Processing_Invalid \<Rightarrow> P_Unknown)"

definition proof_instants :: "route_decision \<Rightarrow> coverage option \<Rightarrow> status_input_row \<Rightarrow> string option \<times> string option" where
  \<comment> \<open>\<^verbatim>\<open>inboxAt\<close> and \<^verbatim>\<open>replyAt\<close>\<close>
  "proof_instants route cov row =
     (if de_operatorReplyIdentities route = None then (sw_last_inbox_verified_at row, sw_last_reply_verified_at row)
      else (Option.bind cov cv_inboxAt, Option.bind cov cv_replyAt))"

definition status_input ::
  "services \<Rightarrow> string \<Rightarrow> route_decision \<Rightarrow> coverage option \<Rightarrow> status_input_row \<Rightarrow> route_status_input" where
  "status_input sv active route cov row =
     (let config = operatorDeliveryConfig (sv_env sv); at = proof_instants route cov row in
      \<lparr> si_policySha256 = active, si_sourceGeneration = Some (sw_source_generation row),
        si_bindingCurrent = (sw_policy_sha256 row = Some active), si_enabled = sw_enabled row,
        si_routeKind = kind_name (de_routeKind route),
        si_enrollment = (if sw_desired_provider row = ''excluded'' then Excluded else Required),
        si_inboundProcessing = processing_input (odc_inboundProcessingMode config),
        si_replyProcessing = processing_input (odc_replyProcessingMode config),
        si_ordinaryProcessing = (if env_ORDINARY_REPLY_MODE (sv_env sv) = Some ''enabled'' then P_Enabled else P_Disabled),
        si_activationId = map_option cv_representativeId cov, si_quarantined = sw_quarantined row,
        si_inboundStatus = sw_inbound_status row, si_replyStatus = sw_reply_status row,
        si_inboxObservedAt = fst at, si_replyObservedAt = snd at,
        si_pendingDispatch = int (sw_pending_dispatch row), si_pendingQueue = int (sw_pending_queue row),
        si_unknownProviderAttempts = int (sw_unknown_provider_attempts row) \<rparr>)"

definition expirations :: "services \<Rightarrow> int \<Rightarrow> route_status \<Rightarrow> coverage option \<Rightarrow> string option \<times> string option \<Rightarrow> int list" where
  "expirations sv now p cov at =
     filter (\<lambda>t. now < t) (List.map_filter id
       [pf_date_parse (sv_platform sv) (rs_valid_until p), Option.bind cov cv_expiresAt,
        map_option (\<lambda>t. t + 86400000) (proofMillis (sv_platform sv) (fst at) now),
        map_option (\<lambda>t. t + 86400000) (proofMillis (sv_platform sv) (snd at) now)])"

definition row_projection ::
  "services \<Rightarrow> string \<Rightarrow> int \<Rightarrow> route_decision \<Rightarrow> status_input_row \<Rightarrow> string + route_status" where
  "row_projection sv active now route row =
     (let cov = completeActivationCoverage sv route (Some (sw_authorizations row)) now;
          at = proof_instants route cov row in
      bindE (projectRouteStatus (sv_platform sv) (status_input sv active route cov row) (Some now) (Some 86400000)) (\<lambda>p.
        case expirations sv now p cov at of
          [] \<Rightarrow> Inl ''Invalid time value''
        | t # ts \<Rightarrow> Inr (p\<lparr>rs_valid_until := pf_to_iso (sv_platform sv) (Min (set (t # ts)))\<rparr>)))"

definition save_projection :: "string \<Rightarrow> status_input_row \<Rightarrow> route_status \<Rightarrow> nat statement" where
  \<comment> \<open>the guarded upsert\<close>
  "save_projection active row p t d =
     (if list_ex (\<lambda>ar. ar_id ar = sw_route_id row \<and> ar_status_generation ar = sw_source_generation row \<and>
            ar_policy_sha256 ar = Some active) (db_routes d) \<and> active_policy d = Some active
      then Inr (1, d\<lparr>db_status := filter (\<lambda>r. st_route_id r \<noteq> sw_route_id row) (db_status d) @
             [\<lparr> st_route_id = sw_route_id row,
                st_projection_revision = str_field (status_json p) ''projection_revision'',
                st_source_generation = sw_source_generation row, st_policy_sha256 = active,
                st_observed_at = rs_observed_at p, st_valid_until = rs_valid_until p,
                st_projection = status_json p \<rparr>]\<rparr>)
      else Inr (0, d))"

definition refresh_row :: "services \<Rightarrow> active_policy_value \<Rightarrow> int \<Rightarrow> status_input_row \<Rightarrow> nat act" where
  "refresh_row sv active now row =
     (case map_of (expected_routes (ap_projection active)) (sw_route_id row) of
        None \<Rightarrow> ret 0
      | Some route \<Rightarrow>
          andThen (liftE (row_projection sv (ap_sha256 active) now route row)) (\<lambda>p.
            andThen (d1 (save_projection (ap_sha256 active) row p)) (\<lambda>n. ret (if 0 < n then 1 else 0))))"

definition refreshRouteStatuses ::
  "services \<Rightarrow> int \<Rightarrow> string list option \<Rightarrow> string option \<Rightarrow> (nat \<times> string option) act" where
  \<comment> \<open>the scope is \<^verbatim>\<open>routeIds\<close> and \<^verbatim>\<open>afterRouteId\<close>\<close>
  "refreshRouteStatuses sv now routeIds afterRouteId =
     (let ids = map_option uniq routeIds in
      if (case ids of None \<Rightarrow> False
          | Some xs \<Rightarrow> page_size < length xs \<or> list_ex (\<lambda>i. \<not> prefix ''route:'' i \<or> 1024 < length i) xs)
      then throw (Err ''status refresh route scope is invalid'')
      else if ids = Some [] then ret (0, None)
      else if odc_mode (operatorDeliveryConfig (sv_env sv)) \<noteq> Inbox_Relay then ret (0, None)
      else andThen (loadActivePolicy sv) (\<lambda>loaded.
        case loaded of
          None \<Rightarrow> ret (0, None)
        | Some active \<Rightarrow>
            andThen (d1 (query (\<lambda>_ d. status_inputs sv (ap_sha256 active) (with_default [] afterRouteId) ids d))) (\<lambda>rows.
              let page = take page_size rows in
              andThen (mapAct (refresh_row sv active now) page) (\<lambda>ns.
                ret (sum_list ns,
                     if page_size < length rows then Some (sw_route_id (last page)) else None)))))"

end
