(* ===== verification/Queue.thy ===== *)
theory Queue
  imports Provider Inbound_Results Status_Store
begin

text \<open>
  \<^verbatim>\<open>workers/shared/outbound/queue.ts\<close>: the queue consumer. A message is decoded, processed and then
  acknowledged or retried; an authorized operator reply becomes an outbound job in the same run.
\<close>

datatype queue_disposition = Ack | Retry nat

definition MAX_OUTBOUND_ATTEMPTS :: nat where "MAX_OUTBOUND_ATTEMPTS = 6"

definition retryDelaySeconds :: "nat \<Rightarrow> nat" where
  "retryDelaySeconds attempt = min 300 (5 * 2 ^ (attempt - 1))"

definition dedupeBase :: "mail_job \<Rightarrow> string option" where
  "dedupeBase job =
     (case job of
        Inbound_Email_Received v \<Rightarrow> opt_field v ''deliveryId''
      | Inbound_Work_Item_Received v \<Rightarrow> opt_field v ''deliveryId''
      | Outbound_Reply_Requested j \<Rightarrow> Some (oj_messageId j)
      | Inbox_Reply_Received j \<Rightarrow> Some (ij_attemptId j)
      | _ \<Rightarrow> None)"

definition jobThreadId :: "mail_job \<Rightarrow> string option" where
  "jobThreadId job =
     (case job of
        Inbound_Email_Persisted v \<Rightarrow> opt_field v ''threadId''
      | Outbound_Reply_Requested j \<Rightarrow> Some (oj_threadId j)
      | _ \<Rightarrow> None)"

section \<open>Audit details\<close>

definition outbound_detail :: "services \<Rightarrow> outbound_job \<Rightarrow> int \<Rightarrow> jv" where
  "outbound_detail sv job now =
     (let mode = configuredOutboundMode (sv_env sv) in JObject
      [(''kind'', JString ''outbound_reply_requested''), (''messageId'', JString (oj_messageId job)),
       (''threadId'', JString (oj_threadId job)), (''operator'', JString (auditOperator sv (oj_operator job))),
       (''envelopeTo'', JString (oj_envelopeTo job)), (''fromIdentity'', JString (oj_fromIdentity job)),
       (''fromDisplayName'', jundef (oj_fromDisplayName job)),
       (''identityProfileRef'', jundef (oj_identityProfileRef job)),
       (''signatureProfileRef'', jundef (oj_signatureProfileRef job)), (''to'', jstrings (oj_to job)),
       (''outboundMode'', JString (outbound_mode_name mode)),
       (''claimObservedAt'', JString (pf_to_iso (sv_platform sv) now)),
       (''resendRequestSha256'', if mode = Mode_Resend then JString (sha sv (resendRequestBody job None)) else JUndefined),
       (''cc'', jstrings_opt (oj_cc job)), (''replyTo'', jundef (oj_replyTo job)),
       (''subjectLength'', JInt (int (length (oj_subject job)))), (''hasText'', JBool (truthy (oj_text job))),
       (''hasHtml'', JBool (truthy (oj_html job))),
       (''attachmentCount'', JInt (case oj_attachments job of None \<Rightarrow> 0 | Some as \<Rightarrow> int (length as))),
       (''queuedAt'', JString (oj_queuedAt job))])"

definition work_item_detail :: "jv \<Rightarrow> jv" where
  "work_item_detail v = JObject
     ([(''kind'', JString ''inbound_work_item_received''), (''outcome'', JString ''reconciliation_required''),
       (''reason'', JString ''legacy_internal_queue_event_is_not_work_destination_delivery'')] @
      map (\<lambda>k. (k, js_get v k)) [''messageId'', ''deliveryId'', ''queueRef'', ''routeRef'', ''destinationRef'',
        ''accountableRef'', ''rawR2Key'', ''receivedAt''])"

definition auditDetailForJob :: "services \<Rightarrow> mail_job \<Rightarrow> int \<Rightarrow> jv" where
  "auditDetailForJob sv job now =
     (case job of
        Inbox_Reply_Received j \<Rightarrow> JObject
          [(''kind'', JString ''inbox_reply_received''), (''attemptId'', JString (ij_attemptId j)),
           (''relayId'', JString (ij_relayId j)), (''operator'', JString (auditOperator sv (ij_operator j))),
           (''operatorMessageIdSha256'', JString (sha sv (ij_operatorMessageId j))),
           (''receivedAt'', JString (ij_receivedAt j))]
      | Inbound_Work_Item_Received v \<Rightarrow> work_item_detail v
      | Outbound_Reply_Requested j \<Rightarrow> outbound_detail sv j now
      | Inbound_Delivery_Result j \<Rightarrow> result_job_json j
      | Inbound_Email_Received v \<Rightarrow> v
      | Inbound_Email_Persisted v \<Rightarrow> v)"

section \<open>Sending an outbound job\<close>

definition resume_detail_ok :: "services \<Rightarrow> outbound_job \<Rightarrow> audit_row option \<Rightarrow> int \<Rightarrow> bool" where
  "resume_detail_ok sv job row now =
     (case Option.bind row ae_detail of
        None \<Rightarrow> False
      | Some detail \<Rightarrow>
          ''claimObservedAt'' \<in> set (js_keys detail) \<and> ''resendRequestSha256'' \<in> set (js_keys detail) \<and>
          (case js_get detail ''claimObservedAt'' of
             JString s \<Rightarrow>
               (case pf_date_parse (sv_platform sv) s of
                  None \<Rightarrow> False
                | Some time \<Rightarrow> 0 \<le> now - time \<and> now - time < 23 * 3600000)
           | _ \<Rightarrow> False) \<and>
          js_get detail ''resendRequestSha256'' = JString (sha sv (resendRequestBody job None)))"

definition resendClaimCanResume :: "services \<Rightarrow> outbound_job \<Rightarrow> bool act" where
  "resendClaimCanResume sv job =
     (if length (oj_messageId job) < 1 \<or> 256 < length (oj_messageId job) then ret False
      else andThen (d1 (query (\<lambda>_ d. audit_lookup (oj_messageId job @ '':outbound_reply_requested'') d))) (\<lambda>row.
           andThen readClock (\<lambda>now. ret (resume_detail_ok sv job row now))))"

definition finish_send :: "services \<Rightarrow> outbound_job \<Rightarrow> nat \<Rightarrow> send_result \<Rightarrow> queue_disposition act" where
  \<comment> \<open>what follows \<^verbatim>\<open>sendOutboundReply\<close>, after the two early returns\<close>
  "finish_send sv job attempt result =
     (if sr_ok result then followedBy (recordTerminalSendEvent sv job Reply_Delivered result) (ret Ack)
      else if sr_ambiguous result = Some True
      then followedBy (recordTerminalSendEvent sv job Reply_Recovery_Required result) (ret Ack)
      else if sr_retryable result = Some True \<and> attempt < MAX_OUTBOUND_ATTEMPTS then
        (let delaySeconds = retryDelaySeconds attempt in
         followedBy
           (recordEvent sv (auditOperator sv (oj_operator job)) ''outbound_reply_retry_scheduled''
             (JObject [(''messageId'', JString (oj_messageId job)), (''threadId'', JString (oj_threadId job)),
                       (''fromIdentity'', JString (oj_fromIdentity job)), (''to'', jstrings (oj_to job)),
                       (''attempt'', JInt (int attempt)), (''nextAttempt'', JInt (int attempt + 1)),
                       (''delaySeconds'', JInt (int delaySeconds)), (''result'', auditSendResult result)])
             (Some (oj_messageId job @ '':outbound_reply_retry_scheduled:'' @ show_nat attempt)) (Some (oj_threadId job)))
           (ret (Retry delaySeconds)))
      else followedBy (recordTerminalSendEvent sv job Reply_Failed result)
             (ret (if sr_retryable result = Some True then Retry 0 else Ack)))"

definition send_and_finish :: "services \<Rightarrow> outbound_job \<Rightarrow> nat \<Rightarrow> queue_disposition act" where
  "send_and_finish sv job attempt =
     andThen (sendOutboundReply sv job attempt) (\<lambda>result.
       if sr_notClaimed result then ret Ack
       else andThen (if \<not> sr_ok result \<and> truthy (oj_relayAttemptId job) \<and> \<not> sr_providerBoundaryClaimed result
                     then claimReplyFailureBeforeBoundary sv job else ret True) (\<lambda>mine.
            if mine then finish_send sv job attempt result else ret Ack))"

definition recovery_result :: "string option \<Rightarrow> string \<Rightarrow> send_result" where
  "recovery_result claimedMode currentMode =
     (send_failure (with_default ''unknown'' claimedMode)
        (if truthy claimedMode \<and> claimedMode \<noteq> Some currentMode
         then ''outbound provider mode changed before recovery: '' @ the claimedMode @ '' -> '' @ currentMode
         else ''outbound transition lacks a matching request within the provider idempotency window''))
       \<lparr>sr_ambiguous := Some True\<rparr>"

definition known_unsent :: "stored_claim option \<Rightarrow> bool" where
  "known_unsent journal \<longleftrightarrow>
     (case journal of None \<Rightarrow> False
      | Some c \<Rightarrow> ad_status (sc_admission c) = ''claimed'' \<and> ra_status (sc_attempt c) = ''authorized'')"

definition resume_or_recover :: "services \<Rightarrow> outbound_job \<Rightarrow> nat \<Rightarrow> queue_disposition act" where
  \<comment> \<open>the branch of a redelivered job without a terminal result\<close>
  "resume_or_recover sv job attempt =
     (let currentMode = outbound_mode_name (configuredOutboundMode (sv_env sv)) in
      andThen (auditOutboundModeForClaim (oj_messageId job @ '':outbound_reply_requested'')) (\<lambda>claimedMode.
      andThen (if truthy (oj_relayAttemptId job) then loadStoredReplyClaim (the (oj_relayAttemptId job)) else ret None) (\<lambda>journal.
      andThen (if known_unsent journal then ret True
               else if claimedMode \<noteq> Some ''resend'' \<or> Some currentMode \<noteq> claimedMode then ret False
               else resendClaimCanResume sv job) (\<lambda>proceed.
        if proceed then send_and_finish sv job attempt
        else followedBy (recordOutboundDuplicateSuppressed sv job ''non_resumable_claim'')
               (followedBy (recordTerminalSendEvent sv job Reply_Recovery_Required (recovery_result claimedMode currentMode))
                  (ret Ack))))))"

definition recordOutboundJob :: "services \<Rightarrow> outbound_job \<Rightarrow> nat \<Rightarrow> queue_disposition act" where
  \<comment> \<open>\<^verbatim>\<open>recordQueueEvent\<close> for an outbound job\<close>
  "recordOutboundJob sv job attempt =
     (if odc_mode (operatorDeliveryConfig (sv_env sv)) = Delivery_Invalid
      then followedBy (recordTerminalSendEvent sv job Reply_Failed
             (send_failure (outbound_mode_name (configuredOutboundMode (sv_env sv))) ''operator delivery mode is invalid''))
             (ret Ack)
      else
        andThen readClock (\<lambda>now.
        andThen (recordAuditEvent sv ''system'' ''outbound_reply_requested'' (outbound_detail sv job now)
                   (map_option (\<lambda>base. base @ '':outbound_reply_requested'') (nonempty (Some (oj_messageId job))))
                   (Some (oj_threadId job))) (\<lambda>claimed.
          if claimed then send_and_finish sv job attempt
          else andThen (terminalSendRecordForDedupeKey (oj_messageId job @ '':outbound_reply_result'')) (\<lambda>terminal.
            case terminal of
              Some (action, result) \<Rightarrow>
                followedBy (recordOutboundDuplicateSuppressed sv job ''terminal'')
                  (followedBy (finalizeTerminalSendState sv job action result) (ret Ack))
            | None \<Rightarrow> resume_or_recover sv job attempt))))"

section \<open>An operator reply\<close>

definition settle_attempt :: "services \<Rightarrow> inbox_job \<Rightarrow> string \<Rightarrow> string \<Rightarrow> string \<Rightarrow> queue_disposition act" where
  \<comment> \<open>\<^verbatim>\<open>failRelayAttempt\<close> and \<^verbatim>\<open>recoverRelayAttempt\<close>, which differ in the status and the action, and the ACK after them\<close>
  "settle_attempt sv job status action errorCode =
     andThen (d1 (\<lambda>t d. update_attempts
         (\<lambda>r. ra_id r = ij_attemptId job \<and> ra_status r \<in> {''receiving'', ''queued'', ''authorized''} \<and>
            list_ex (\<lambda>rad. ad_status rad = ''claimed'') (admissions_of_attempt r d))
         (\<lambda>r. r\<lparr>ra_status := status, ra_error_code := Some errorCode\<rparr>) t d)) (\<lambda>_.
     followedBy
       (recordEvent sv ''system'' action
          (JObject [(''attemptId'', JString (ij_attemptId job)), (''relayId'', JString (ij_relayId job)),
                    (''errorCode'', JString errorCode)])
          (Some (ij_attemptId job @ '':inbox_reply_result'')) None)
       (ret Ack))"

definition failRelayAttempt :: "services \<Rightarrow> inbox_job \<Rightarrow> string \<Rightarrow> queue_disposition act" where
  "failRelayAttempt sv job errorCode = settle_attempt sv job ''failed'' ''inbox_reply_failed'' errorCode"

definition recoverRelayAttempt :: "services \<Rightarrow> inbox_job \<Rightarrow> string \<Rightarrow> queue_disposition act" where
  "recoverRelayAttempt sv job errorCode =
     settle_attempt sv job ''recovery_required'' ''inbox_reply_recovery_required'' errorCode"

record relay_view =
  rv_relay :: relay_row
  rv_thread_external_sender :: string
  rv_route_address :: string

definition relay_view_of :: "relay_row \<Rightarrow> db \<Rightarrow> relay_view option" where
  \<comment> \<open>the joins that every read of a live relay shares: thread, enabled route, active policy\<close>
  "relay_view_of rr d =
     (case (thread_by_id (rr_thread_id rr) d, route_by_id (rr_route_id rr) d) of
        (Some th, Some ar) \<Rightarrow>
          if th_route_id th = rr_route_id rr \<and> ar_enabled ar \<and> sql_eq (active_policy d) (ar_policy_sha256 ar)
          then map_option (\<lambda>address. \<lparr> rv_relay = rr, rv_thread_external_sender = sql_lower (th_external_sender th),
                 rv_route_address = sql_lower address \<rparr>) (route_address d ar)
          else None
      | _ \<Rightarrow> None)"

definition live_relay :: "string \<Rightarrow> db \<Rightarrow> relay_view option" where
  "live_relay relayId d = Option.bind (relay_by_id relayId d) (\<lambda>rr. relay_view_of rr d)"

definition current_operator_identity :: "active_policy_value \<Rightarrow> string \<Rightarrow> string \<Rightarrow> string option" where
  "current_operator_identity policy address operator =
     Option.bind (projected_route policy address) (\<lambda>route. map_option oi_publicAddress (own_identity route operator))"

definition reply_headers :: "relay_row \<Rightarrow> (string \<times> string) list" where
  "reply_headers rr =
     (let original = (if validMessageId (rr_original_message_id rr) then [the (rr_original_message_id rr)] else []);
          references = storedReferences (rr_references rr) @ original in
      map (\<lambda>i. (''In-Reply-To'', i)) original @
      (if references \<noteq> [] then [(''References'', join '' '' (uniq references))] else []))"

definition payload_version_of :: "jv \<Rightarrow> payload_version" where
  "payload_version_of v = (if version_or_1 v = JInt 1 then V1 else V2)"

definition outbound_of_reply ::
  "inbox_job \<Rightarrow> relay_view \<Rightarrow> string \<Rightarrow> identity_profile \<Rightarrow> string \<Rightarrow> mail_payload \<Rightarrow> string \<Rightarrow> outbound_job" where
  \<comment> \<open>the job that an authorized reply becomes; the arguments are the public identity, the profile, the
      recipient, the payload with its headers, and the active policy\<close>
  "outbound_of_reply job view identity profile recipient payload policySha256 =
     \<lparr> oj_schemaVersion = ij_schemaVersion job, oj_payloadVersion = ij_payloadVersion job,
       oj_admissionKind = ij_admissionKind job, oj_activationId = ij_activationId job,
       oj_messageId = strip_attempt_prefix (ij_attemptId job), oj_threadId = rr_thread_id (rv_relay view),
       oj_operator = ij_operator job, oj_envelopeTo = rv_route_address view, oj_fromIdentity = identity,
       oj_fromDisplayName = Some (ip_displayName profile), oj_identityProfileRef = Some (ip_profileRef profile),
       oj_signatureProfileRef = Some (ip_signatureProfileRef profile),
       oj_senderAdapter = Some (adapter_name (ip_senderAdapter profile)), oj_to = [recipient],
       oj_cc = None, oj_bcc = None, oj_replyTo = Some identity, oj_subject = mp_subject payload,
       oj_text = mp_text payload, oj_html = mp_html payload, oj_headers = Some (mp_headers payload),
       oj_attachments = (if mp_attachments payload = [] then None else Some (mp_attachments payload)), oj_requestedIdentity = Some identity,
       oj_policySha256 = Some policySha256, oj_admissionId = Some (ij_admissionId job),
       oj_transactionSha256 = Some (ij_transactionSha256 job), oj_attemptSha256 = Some (ij_attemptSha256 job),
       oj_claimedPayloadSha256 = Some (ij_claimedPayloadSha256 job),
       oj_desiredStateSha256 = Some (ij_desiredStateSha256 job),
       oj_identityProfileSha256 = Some (ij_identityProfileSha256 job), oj_relayAttemptId = Some (ij_attemptId job),
       oj_relaySpoolKey = Some (ij_rawR2Key job), oj_queuedAt = ij_receivedAt job \<rparr>"

definition reply_of_bytes ::
  "services \<Rightarrow> inbox_job \<Rightarrow> identity_profile \<Rightarrow> relay_row \<Rightarrow> byte list \<Rightarrow> string + mail_payload" where
  \<comment> \<open>from the spooled message to the payload; \<^const>\<open>Inl\<close> is the error code of the failed attempt\<close>
  "reply_of_bytes sv job profile rr bytes =
     (let config = operatorDeliveryConfig (sv_env sv) in
      if odc_maxEncodedMessageBytes config < length bytes then Inl ''reply_too_large''
      else if \<not> is_sha256_hex (ij_rawSha256 job) then Inl ''relay_spool_digest_invalid''
      else if sha256Hex_bytes (sv_platform sv) bytes \<noteq> ij_rawSha256 job then Inl ''relay_spool_digest_mismatch''
      else (case parseRelayEmail (sv_mime sv bytes) of
              Inl _ \<Rightarrow> Inl ''reply_mime_invalid''
            | Inr parsed \<Rightarrow>
                if normalizeMailbox (mb_address (pe_from parsed)) \<noteq> normalizeMailbox (ij_operator job)
                then Inl ''operator_identity_changed''
                else (case outboundReplyPayload parsed (Some profile) (payload_version_of (ij_payloadVersion job)) of
                        Inl e \<Rightarrow> Inl (if contains_text ''plaintext MIME alternative'' e then ''reply_plaintext_required''
                                      else ''reply_identity_normalization_failed'')
                      | Inr payload \<Rightarrow>
                          (case assertWithinRelayLimit payload config of
                             Inl _ \<Rightarrow> Inl ''reply_too_large''
                           | Inr _ \<Rightarrow> Inr (payload\<lparr>mp_headers := reply_headers rr\<rparr>)))))"

definition authorize_dispatch :: "services \<Rightarrow> inbox_job \<Rightarrow> relay_view \<Rightarrow> string \<Rightarrow> identity_profile \<Rightarrow> mail_payload \<Rightarrow> unit act" where
  \<comment> \<open>the attempt becomes authorized and the audit names the digest of what is to be sent\<close>
  "authorize_dispatch sv job view identity profile payload =
     andThen (d1 (update_attempts (\<lambda>r. ra_id r = ij_attemptId job) (\<lambda>r. r\<lparr>ra_status := ''authorized''\<rparr>))) (\<lambda>_.
       recordEvent sv (auditOperator sv (ij_operator job)) ''inbox_reply_authorized''
         (JObject [(''attemptId'', JString (ij_attemptId job)), (''relayId'', JString (ij_relayId job)),
                   (''fromIdentity'', JString identity), (''identityProfileRef'', JString (ip_profileRef profile)),
                   (''signatureProfileRef'', JString (ip_signatureProfileRef profile)),
                   (''outboundPayloadSha256'', JString (outboundRelayPayloadSha256 (sv_platform sv) payload))])
         (Some (ij_attemptId job @ '':inbox_reply_authorized'')) (Some (rr_thread_id (rv_relay view))))"

definition dispatch_reply ::
  "services \<Rightarrow> inbox_job \<Rightarrow> nat \<Rightarrow> authorization_kind \<Rightarrow> relay_view \<Rightarrow> string \<Rightarrow> string \<Rightarrow> identity_profile \<Rightarrow>
   active_policy_value \<Rightarrow> queue_disposition act" where
  \<comment> \<open>from the read of the claimed attempt to the outbound job\<close>
  "dispatch_reply sv job attempt kind view recipient identity profile policy =
     andThen (d1 (query (claimed_reply_spool sv job kind))) (\<lambda>claimedAttempt.
       if claimedAttempt = None then failRelayAttempt sv job ''relay_attempt_integrity_mismatch''
       else andThen (spoolGet (ij_rawR2Key job)) (\<lambda>object.
         case object of
           None \<Rightarrow> recoverRelayAttempt sv job ''relay_spool_missing''
         | Some bytes \<Rightarrow>
             (case reply_of_bytes sv job profile (rv_relay view) bytes of
                Inl errorCode \<Rightarrow> failRelayAttempt sv job errorCode
              | Inr payload \<Rightarrow>
                  followedBy (authorize_dispatch sv job view identity profile payload)
                    (recordOutboundJob sv (outbound_of_reply job view identity profile recipient payload (ap_sha256 policy))
                       attempt))))"

definition ordinary_reply_active ::
  "services \<Rightarrow> inbox_job \<Rightarrow> authorization_kind \<Rightarrow> relay_view \<Rightarrow> identity_profile \<Rightarrow> active_policy_value \<Rightarrow> bool act" where
  "ordinary_reply_active sv job kind view profile policy =
     (if kind \<noteq> Ordinary then ret True
      else (case projected_route policy (rv_route_address view) of
              None \<Rightarrow> ret False
            | Some route \<Rightarrow>
                andThen (loadOrdinaryRouteAuthorization sv (rr_route_id (rv_relay view)) (ap_sha256 policy)
                   (publicIdentityProfileSha256 (sv_platform sv) profile) (operator_set_sha256 sv route)) (\<lambda>active.
                   ret (case active of None \<Rightarrow> False | Some a \<Rightarrow> JString (ac_id a) = ij_activationId job))))"

definition authorized_reply ::
  "services \<Rightarrow> inbox_job \<Rightarrow> relay_view \<Rightarrow> active_policy_value \<Rightarrow> string + (string \<times> identity_profile)" where
  \<comment> \<open>the public identity and its profile, or the error code\<close>
  "authorized_reply sv job view policy =
     (case authorizeReplyWithPolicy (sv_core sv) (ap_policy policy) (rv_route_address view) (ij_operator job) None of
        Inl _ \<Rightarrow> Inl ''operator_no_longer_authorized''
      | Inr a \<Rightarrow>
          if ra_fromIdentity a \<noteq> rr_reply_identity (rv_relay view) \<and>
             Some (ra_fromIdentity a) \<noteq> current_operator_identity policy (rv_route_address view) (ij_operator job)
          then Inl ''operator_no_longer_authorized''
          else (case ra_identityProfile a of
                  None \<Rightarrow> Inl ''identity_profile_unavailable''
                | Some profile \<Rightarrow>
                    if publicIdentityProfileSha256 (sv_platform sv) profile \<noteq> ij_identityProfileSha256 job
                    then Inl ''identity_profile_binding_changed'' else Inr (ra_fromIdentity a, profile)))"

definition processLiveRelay :: "services \<Rightarrow> inbox_job \<Rightarrow> nat \<Rightarrow> authorization_kind \<Rightarrow> relay_view \<Rightarrow> queue_disposition act" where
  "processLiveRelay sv job attempt kind view =
     (case resolveReplyTarget (sv_core sv) [rr_external_recipient (rv_relay view), rv_thread_external_sender view] of
        Inl e \<Rightarrow> failRelayAttempt sv job (re_kind e)
      | Inr recipient \<Rightarrow>
          if normalizeMailbox (rr_external_recipient (rv_relay view)) = [] \<or>
             normalizeMailbox (rr_reply_identity (rv_relay view)) = []
          then failRelayAttempt sv job ''relay_address_invalid''
          else andThen (loadActivePolicy sv) (\<lambda>active.
            case active of
              None \<Rightarrow> recoverRelayAttempt sv job ''policy_unavailable''
            | Some policy \<Rightarrow>
                (case authorized_reply sv job view policy of
                   Inl errorCode \<Rightarrow> failRelayAttempt sv job errorCode
                 | Inr (identity, profile) \<Rightarrow>
                     andThen (ordinary_reply_active sv job kind view profile policy) (\<lambda>current.
                       if \<not> current then failRelayAttempt sv job ''ordinary_activation_unavailable''
                       else dispatch_reply sv job attempt kind view recipient identity profile policy))))"

definition processInboxReply :: "services \<Rightarrow> inbox_job \<Rightarrow> nat \<Rightarrow> queue_disposition act" where
  "processInboxReply sv job attempt =
     (case inbox_authorization job of
        None \<Rightarrow> ret Ack
      | Some kind \<Rightarrow>
          andThen (resumeInboxTerminal sv job) (\<lambda>resumed.
            if resumed then ret Ack
            else (case odc_mode (operatorDeliveryConfig (sv_env sv)) of
                Delivery_Invalid \<Rightarrow> failRelayAttempt sv job ''operator_delivery_mode_invalid''
              | Web_Desk \<Rightarrow> failRelayAttempt sv job ''inbox_relay_disabled''
              | Inbox_Relay \<Rightarrow>
                  if \<not> env_RELAY_SPOOL (sv_env sv) \<or> \<not> env_POLICY_STORE (sv_env sv)
                  then recoverRelayAttempt sv job ''relay_storage_unavailable''
                  else andThen (d1 (query (\<lambda>_ d. live_relay (ij_relayId job) d))) (\<lambda>relay.
                    andThen readClock (\<lambda>now.
                      case relay of
                        None \<Rightarrow> failRelayAttempt sv job ''relay_inactive''
                      | Some view \<Rightarrow>
                          if \<not> relayRecordIsActive (sv_platform sv) (rr_expires_at (rv_relay view))
                                 (rr_revoked_at (rv_relay view)) now
                          then failRelayAttempt sv job ''relay_inactive''
                          else processLiveRelay sv job attempt kind view)))))"

section \<open>The consumer\<close>

definition recordQueueEvent :: "services \<Rightarrow> mail_job \<Rightarrow> nat \<Rightarrow> queue_disposition act" where
  "recordQueueEvent sv job attempt =
     (case job of
        Inbox_Reply_Received j \<Rightarrow> processInboxReply sv j attempt
      | Inbound_Delivery_Result j \<Rightarrow> followedBy (projectInboundDeliveryResult sv j) (ret Ack)
      | Outbound_Reply_Requested j \<Rightarrow> recordOutboundJob sv j attempt
      | _ \<Rightarrow>
          andThen readClock (\<lambda>now.
            followedBy (recordEvent sv ''system'' (job_kind job) (auditDetailForJob sv job now)
                (map_option (\<lambda>base. base @ '':'' @ job_kind job) (nonempty (dedupeBase job))) (jobThreadId job))
              (ret Ack)))"

definition route_of_job :: "mail_job \<Rightarrow> db \<Rightarrow> string option" where
  "route_of_job job d =
     (case job of
        Inbox_Reply_Received j \<Rightarrow> map_option rr_route_id (relay_by_id (ij_relayId j) d)
      | Outbound_Reply_Requested j \<Rightarrow> map_option th_route_id (thread_by_id (oj_threadId j) d)
      | Inbound_Delivery_Result j \<Rightarrow> map_option th_route_id (thread_by_id (rj_threadId j) d)
      | Inbound_Email_Persisted v \<Rightarrow> map_option th_route_id (thread_by_id (str_field v ''threadId'') d)
      | Inbound_Email_Received v \<Rightarrow>
          map_option dl_route_id (first_row (\<lambda>dl. dl_id dl = str_field v ''deliveryId'') (db_deliveries d))
      | Inbound_Work_Item_Received v \<Rightarrow>
          map_option dl_route_id (first_row (\<lambda>dl. dl_id dl = str_field v ''deliveryId'') (db_deliveries d)))"

definition refreshJobRouteStatus :: "services \<Rightarrow> mail_job \<Rightarrow> unit act" where
  "refreshJobRouteStatus sv job =
     (if odc_mode (operatorDeliveryConfig (sv_env sv)) \<noteq> Inbox_Relay then ret ()
      else andThen (d1 (query (\<lambda>_ d. route_of_job job d))) (\<lambda>row.
        case row of
          None \<Rightarrow> ret ()
        | Some route \<Rightarrow>
            andThen readClock (\<lambda>now.
              andThen (refreshRouteStatuses sv now (Some [route]) None) (\<lambda>_. ret ()))))"

definition tryFinally :: "'a act \<Rightarrow> unit act \<Rightarrow> 'a act" where
  \<comment> \<open>\<^verbatim>\<open>try { m } finally { f }\<close> for an \<open>f\<close> that does not throw\<close>
  "tryFinally m f w = (case m w of (r, w') \<Rightarrow> (r, snd (f w')))"

definition processMessage :: "services \<Rightarrow> jv \<times> nat \<Rightarrow> queue_disposition act" where
  \<comment> \<open>one message: its body and its number of attempts\<close>
  "processMessage sv m =
     (case decodeMailJob (fst m) of
        None \<Rightarrow>
          followedBy (recordEvent sv ''system'' ''queue_contract_rejected''
            (JObject [(''reason'', JString ''unsupported_or_malformed_job'')]) None None) (ret Ack)
      | Some value \<Rightarrow>
          (let job = as_mail_job value in
           tryFinally (recordQueueEvent sv job (max 1 (snd m))) (ignoreError (refreshJobRouteStatus sv job))))"

definition processQueueBatch :: "services \<Rightarrow> (jv \<times> nat) list \<Rightarrow> queue_disposition list act" where
  \<comment> \<open>the dispositions of the messages, in order; a thrown error leaves the rest of the batch unacknowledged\<close>
  "processQueueBatch sv messages = mapAct (processMessage sv) messages"

end
