(* ===== verification/Queue_Run.thy ===== *)
theory Queue_Run
  imports Queue
begin

text \<open>
  Runs of the queue consumer, proved once for every relation between worlds that its statements keep:
  the locale \<open>reply_tables\<close> lists the statements and gives the rule of each function, the locale
  \<open>queue_run\<close> adds what a relation has to say of a send and gives the rule of a whole batch.
\<close>

section \<open>What the statements keep\<close>

definition attempt_identity :: "attempt_row \<Rightarrow> attempt_row" where
  \<comment> \<open>the columns under \<^verbatim>\<open>relay_attempts_identity_immutable\<close>: all but the mutable ones\<close>
  "attempt_identity r =
     r\<lparr>ra_status := [], ra_raw_r2_key := None, ra_provider_message_id := None, ra_error_code := None\<rparr>"

definition admission_identity :: "admission_row \<Rightarrow> admission_row" where
  "admission_identity r =
     r\<lparr>ad_status := [], ad_claimed_attempt_id := None, ad_claimed_attempt_sha256 := None,
       ad_claimed_payload_sha256 := None, ad_claimed_at := None, ad_provider_boundary_at := None,
       ad_terminal_at := None, ad_error_code := None\<rparr>"

definition admission_claim :: "admission_row \<Rightarrow> string option \<times> string option \<times> string option \<times> string option" where
  "admission_claim r =
     (ad_claimed_attempt_id r, ad_claimed_attempt_sha256 r, ad_claimed_payload_sha256 r, ad_claimed_at r)"

definition closes :: "admission_row \<Rightarrow> admission_row \<Rightarrow> bool" where
  \<comment> \<open>the admission reaches, or stays in, a terminal state\<close>
  "closes r r' \<longleftrightarrow>
     admission_identity r' = admission_identity r \<and> admission_claim r' = admission_claim r \<and>
     ad_provider_boundary_at r' = ad_provider_boundary_at r \<and> admission_terminal (ad_status r') \<and>
     (admission_terminal (ad_status r) \<longrightarrow> ad_status r' = ad_status r)"

definition transaction_shape :: "services \<Rightarrow> outbound_job \<Rightarrow> bool" where
  \<comment> \<open>what \<^const>\<open>verifyAuthorizedOutboundTransaction\<close> checks without reading anything\<close>
  "transaction_shape sv job \<longleftrightarrow>
     length (oj_to job) = 1 \<and> \<not> is_nonempty (oj_cc job) \<and> \<not> is_nonempty (oj_bcc job) \<and>
     truthy (message_of_attempt (oj_relayAttemptId job)) \<and>
     message_of_attempt (oj_relayAttemptId job) = Some (oj_messageId job) \<and>
     oj_claimedPayloadSha256 job = Some (outboundPayloadSha256 sv job)"

lemma verify_shape:
  assumes "\<not> transaction_shape sv j"
  obtains e where "verifyAuthorizedOutboundTransaction sv j = ret (Some e)"
proof -
  let ?shape = "length (oj_to j) \<noteq> 1 \<or> is_nonempty (oj_cc j) \<or> is_nonempty (oj_bcc j) \<or>
     \<not> truthy (message_of_attempt (oj_relayAttemptId j)) \<or>
     Some (oj_messageId j) \<noteq> message_of_attempt (oj_relayAttemptId j)"
  let ?digest = "Some (outboundPayloadSha256 sv j) \<noteq> oj_claimedPayloadSha256 j"
  consider ?shape | "\<not> ?shape" ?digest
    using assms unfolding transaction_shape_def by argo
  then show thesis
  proof cases
    case 1
    then have "verifyAuthorizedOutboundTransaction sv j = ret (Some transaction_mismatch)"
      unfolding verifyAuthorizedOutboundTransaction_def by (rule if_P)
    then show thesis by (rule that)
  next
    case 2
    then have "verifyAuthorizedOutboundTransaction sv j =
        ret (Some ''inbox relay payload does not match its controller admission claim'')"
      unfolding verifyAuthorizedOutboundTransaction_def by (simp only: if_False if_True not_False_eq_True)
    then show thesis by (rule that)
  qed
qed

lemma outboundPrivacyFailure_text: "outboundPrivacyFailure sv j p = Some e \<Longrightarrow> e \<noteq> []"
  by (auto simp: outboundPrivacyFailure_def Let_def split: if_splits sum.splits option.splits)

lemma update_attempts_Inr:
  "update_attempts P f t d = Inr (n, d') \<longleftrightarrow>
   list_all (\<lambda>r. P r \<longrightarrow> \<not> attempt_aborts r (f r)) (db_attempts d) \<and> n = changes P (db_attempts d) \<and>
   d' = d\<lparr>db_attempts := update_where P f (db_attempts d)\<rparr>"
  by (auto simp: update_attempts_def list_ex_iff list_all_iff)

lemma update_admissions_Inr:
  "update_admissions k P f t d = Inr (n, d') \<longleftrightarrow>
   list_all (\<lambda>r. ad_kind r = k \<and> P r \<longrightarrow> \<not> admission_aborts r (f r)) (db_admissions d) \<and>
   n = changes (\<lambda>r. ad_kind r = k \<and> P r) (db_admissions d) \<and>
   d' = d\<lparr>db_admissions := update_where (\<lambda>r. ad_kind r = k \<and> P r) f (db_admissions d)\<rparr>"
  by (auto simp: update_admissions_def Let_def list_ex_iff list_all_iff)

lemma terminal_status_terminal: "admission_terminal (terminal_status a)" "attempt_terminal (terminal_status a)"
  by (cases a; simp add: admission_terminal_def attempt_terminal_def)+

locale reply_tables = effect_relation R step for R step +
  assumes same: "step d d"
    and audit: "step d (d\<lparr>db_audit := db_audit d @ [r]\<rparr>)"
    and attempts: "update_attempts P f t d = Inr (n, d') \<Longrightarrow>
          (\<And>r. attempt_identity (f r) = attempt_identity r) \<Longrightarrow> step d d'"
    and admissions: "update_admissions k Q g t d = Inr (n, d') \<Longrightarrow>
          (\<And>r. Q r \<Longrightarrow> closes r (g r)) \<Longrightarrow> step d d'"
    and health: "step d (d\<lparr>db_health := h\<rparr>)"
    and deliveries: "(\<And>r. delivery_identity (e r) = delivery_identity r) \<Longrightarrow>
          step d (d\<lparr>db_deliveries := update_where D e (db_deliveries d)\<rparr>)"
    and status: "step d (d\<lparr>db_status := s\<rparr>)"
begin

lemma insertAudit: "preserves R (d1 (insertAudit i k th a ac v))"
  by (rule d1) (auto simp: insertAudit_def same audit split: if_splits)

lemma recordAuditEvent: "preserves R (recordAuditEvent sv a ac v k th)"
  by (auto simp: recordAuditEvent_def intro!: run_rules effect_rules insertAudit)

lemma recordEvent: "preserves R (recordEvent sv a ac v k th)"
  by (auto simp: recordEvent_def intro!: run_rules recordAuditEvent)

lemma update_attempts:
  "(\<And>t d r. attempt_identity (f t d r) = attempt_identity r) \<Longrightarrow>
   preserves R (d1 (\<lambda>t d. update_attempts (P t d) (f t d) t d))"
  by (rule d1) (erule attempts, simp)

lemma update_health: "preserves R (d1 (\<lambda>t d. update_health (P t d) (f t d) t d))"
  by (rule d1) (auto simp: update_health_def health)

lemma update_deliveries: "(\<And>r. delivery_identity (f r) = delivery_identity r) \<Longrightarrow> preserves R (d1 (update_deliveries P f))"
  by (rule d1) (auto simp: update_deliveries_def deliveries)

section \<open>Terminal results\<close>

lemma terminalSendRecordForDedupeKey: "preserves R (terminalSendRecordForDedupeKey k)"
  by (auto simp: terminalSendRecordForDedupeKey_def intro!: run_rules effect_rules)

lemma auditOutboundModeForClaim: "preserves R (auditOutboundModeForClaim k)"
  by (auto simp: auditOutboundModeForClaim_def intro!: run_rules effect_rules)

lemma recordOutboundDuplicateSuppressed: "preserves R (recordOutboundDuplicateSuppressed sv j s)"
  by (simp add: recordOutboundDuplicateSuppressed_def recordEvent)

lemma finish_attempt: "preserves R (d1 (finish_attempt j s r))"
  unfolding finish_attempt_def by (rule d1) (erule attempts, simp add: attempt_identity_def)

lemma finish_admission: "preserves R (d1 (finish_admission sv j k (terminal_status a) r))"
proof (rule d1)
  fix t d x d'
  assume "finish_admission sv j k (terminal_status a) r t d = Inr (x, d')"
  then show "step d d'"
    unfolding finish_admission_def
    by (rule admissions)
       (auto simp: closes_def admission_identity_def admission_claim_def terminal_status_terminal,
        simp_all add: admission_terminal_def)
qed

lemma retire_spool: "preserves R (d1 (retire_spool j))"
  unfolding retire_spool_def by (rule d1) (erule attempts, simp add: attempt_identity_def)

lemma project_reply_health: "preserves R (d1 (project_reply_health sv j s r))"
proof -
  have "project_reply_health sv j s r = (\<lambda>t d. project_reply_health sv j s r t d)" by simp
  then show ?thesis unfolding project_reply_health_def using update_health by simp
qed

lemma cleanup_spool: "preserves R (cleanup_spool sv j a)"
  by (auto simp: cleanup_spool_def intro!: run_rules effect_rules if_split retire_spool)

lemma superseded_result: "preserves R (superseded_result sv j r)"
  by (auto simp: superseded_result_def intro!: run_rules effect_rules if_split recordEvent)

lemma finalizeTerminalSendState: "preserves R (finalizeTerminalSendState sv j a r)"
  by (auto simp: finalizeTerminalSendState_def Let_def
      intro!: if_split run_rules finish_attempt finish_admission project_reply_health superseded_result cleanup_spool)

lemma recordTerminalSendEvent: "preserves R (recordTerminalSendEvent sv j a r)"
  by (auto simp: recordTerminalSendEvent_def Let_def
      intro!: if_split run_rules recordAuditEvent terminalSendRecordForDedupeKey finalizeTerminalSendState split: option.splits)

lemma loadStoredReplyClaim: "preserves R (loadStoredReplyClaim i)"
  by (simp add: loadStoredReplyClaim_def d1_query)

lemma resumeInboxTerminal: "preserves R (resumeInboxTerminal sv j)"
  by (auto simp: resumeInboxTerminal_def
      intro!: run_rules terminalSendRecordForDedupeKey loadStoredReplyClaim finalizeTerminalSendState split: option.splits)

section \<open>Checks before a send\<close>

lemma outboundContainmentBlocker: "preserves R (outboundContainmentBlocker j)"
  by (auto simp: outboundContainmentBlocker_def intro!: if_split run_rules effect_rules)

lemma verifyAuthorizedOutboundTransaction: "preserves R (verifyAuthorizedOutboundTransaction sv j)"
  by (auto simp: verifyAuthorizedOutboundTransaction_def checkDurableTransaction_def Let_def
      intro!: if_split run_rules effect_rules split: option.splits sum.splits)

lemma token_scan: "preserves R (token_scan sv cs)"
  by (induction cs) (auto simp: relay_with_token_def intro!: run_rules effect_rules split: option.splits)

lemma outboundOpaqueTokenFailure: "preserves R (outboundOpaqueTokenFailure sv j)"
  by (auto simp: outboundOpaqueTokenFailure_def Let_def intro!: if_split run_rules token_scan)

lemma loadOrdinaryRouteAuthorization: "preserves R (loadOrdinaryRouteAuthorization sv a b c e)"
  by (auto simp: loadOrdinaryRouteAuthorization_def Let_def intro!: if_split run_rules effect_rules)

lemma is_active_ordinary: "preserves R (is_active_ordinary sv j p i r)"
  by (auto simp: is_active_ordinary_def intro!: if_split run_rules loadOrdinaryRouteAuthorization)

lemma lost_boundary: "preserves R (lost_boundary sv j)"
  by (auto simp: lost_boundary_def Let_def intro!: if_split run_rules effect_rules outboundContainmentBlocker)

lemma record_attempt: "preserves R (record_attempt sv j n a)"
  by (auto simp: record_attempt_def intro!: run_rules recordEvent)

lemma claimReplyFailureBeforeBoundary: "preserves R (claimReplyFailureBeforeBoundary sv j)"
proof -
  have "preserves R (d1 (\<lambda>t d. update_admissions k (unsent_claim j) (reject_claim sv t) t d))" for k
    by (rule d1, erule admissions)
       (auto simp: closes_def admission_identity_def admission_claim_def reject_claim_def unsent_claim_def admission_terminal_def)
  then show ?thesis
    by (auto simp: claimReplyFailureBeforeBoundary_def requireBound_def intro!: if_split run_rules split: option.splits)
qed

lemma send_bound:
  assumes "outboundPrivacyFailure sv j (ap_policy policy) = None \<Longrightarrow> transaction_shape sv j \<Longrightarrow>
      (\<And>route. preserves R (claim_and_deliver sv j route profile n))"
  shows "preserves R (send_bound sv j n policy profile)"
proof (cases "outboundPrivacyFailure sv j (ap_policy policy)")
  case None
  show ?thesis
  proof (cases "transaction_shape sv j")
    case True
    with None show ?thesis
      using assms
      by (auto simp: send_bound_def Let_def intro!: if_split run_rules outboundContainmentBlocker
          verifyAuthorizedOutboundTransaction outboundOpaqueTokenFailure is_active_ordinary split: option.splits)
  next
    case False
    then obtain e where "verifyAuthorizedOutboundTransaction sv j = ret (Some e)"
      by (rule verify_shape)
    then show ?thesis
      by (auto simp: send_bound_def Let_def intro!: if_split run_rules outboundContainmentBlocker split: option.splits)
  qed
next
  case (Some e)
  then have "truthy_blocker (Some e) = Some e"
    using outboundPrivacyFailure_text by (auto simp: truthy_blocker_def truthy_def)
  with Some show ?thesis
    by (auto simp: send_bound_def Let_def intro!: if_split run_rules outboundContainmentBlocker
        verifyAuthorizedOutboundTransaction split: option.splits)
qed

lemma send_relay:
  assumes "\<And>policy profile route w. fst (loadActivePolicy sv w) = Inr (Some policy) \<Longrightarrow>
      hasInboxRelayTransactionBindings j \<Longrightarrow> authorized_profile sv j policy = Inr profile \<Longrightarrow> outboundPrivacyFailure sv j (ap_policy policy) = None \<Longrightarrow>
      transaction_shape sv j \<Longrightarrow> preserves R (claim_and_deliver sv j route profile n)"
  shows "preserves R (send_relay sv j n)"
  using assms
  by (auto simp: send_relay_def Let_def
      intro!: if_split andThen_result loadActivePolicy send_bound ret result split: option.splits sum.splits)

section \<open>Inbound results and route status\<close>

lemma inboundCleanupAlreadyComplete: "preserves R (inboundCleanupAlreadyComplete sv j)"
  by (auto simp: inboundCleanupAlreadyComplete_def intro!: run_rules effect_rules)

lemma project_inbound_health: "preserves R (d1 (project_inbound_health sv j))"
proof -
  have "project_inbound_health sv j = (\<lambda>t d. project_inbound_health sv j t d)" by simp
  then show ?thesis unfolding project_inbound_health_def using update_health by simp
qed

lemma settle_delivery: "preserves R (settle_delivery sv j c)"
  by (auto simp: settle_delivery_def persistInboundDeliveryProjection_def deleteAcceptedInboundPayloads_def
      recordInboundCleanupComplete_def clearInboundCleanupAuthority_def
      delivery_identity_def intro!: if_split run_rules effect_rules update_deliveries recordAuditEvent
      inboundCleanupAlreadyComplete)

lemma record_delivery: "preserves R (record_delivery sv j)"
  by (auto simp: record_delivery_def record_recipient_def Let_def intro!: run_rules recordEvent)

lemma superseded_delivery: "preserves R (superseded_delivery sv j)"
  by (auto simp: superseded_delivery_def intro!: if_split run_rules effect_rules recordEvent)

lemma projectInboundDeliveryResult: "preserves R (projectInboundDeliveryResult sv j)"
  by (auto simp: projectInboundDeliveryResult_def loadClaimedInboundResult_def
      intro!: if_split run_rules effect_rules inboundCleanupAlreadyComplete project_inbound_health record_delivery
        superseded_delivery settle_delivery split: option.splits)

lemma save_projection: "preserves R (d1 (save_projection a r p))"
  by (rule d1) (auto simp: save_projection_def same status split: if_splits)

lemma refreshRouteStatuses: "preserves R (refreshRouteStatuses sv now ids after)"
  by (auto simp: refreshRouteStatuses_def refresh_row_def Let_def
      intro!: if_split run_rules effect_rules loadActivePolicy save_projection split: option.splits)

lemma refreshJobRouteStatus: "preserves R (refreshJobRouteStatus sv j)"
  by (auto simp: refreshJobRouteStatus_def intro!: if_split run_rules effect_rules refreshRouteStatuses split: option.splits)

section \<open>An operator reply up to its dispatch\<close>

lemma settle_attempt: "preserves R (settle_attempt sv j s a e)"
proof -
  have "preserves R (d1 (\<lambda>t d. update_attempts
         (\<lambda>r. ra_id r = ij_attemptId j \<and> ra_status r \<in> {''receiving'', ''queued'', ''authorized''} \<and>
            list_ex (\<lambda>rad. ad_status rad = ''claimed'') (admissions_of_attempt r d))
         (\<lambda>r. r\<lparr>ra_status := s, ra_error_code := Some e\<rparr>) t d))"
    by (rule update_attempts) (simp add: attempt_identity_def)
  then show ?thesis
    by (auto simp: settle_attempt_def intro!: run_rules recordEvent)
qed

lemma failRelayAttempt: "preserves R (failRelayAttempt sv j e)"
  by (simp add: failRelayAttempt_def settle_attempt)

lemma recoverRelayAttempt: "preserves R (recoverRelayAttempt sv j e)"
  by (simp add: recoverRelayAttempt_def settle_attempt)

lemma authorize_dispatch: "preserves R (authorize_dispatch sv j v i p q)"
proof -
  have "preserves R (d1 (update_attempts (\<lambda>r. ra_id r = ij_attemptId j) (\<lambda>r. r\<lparr>ra_status := ''authorized''\<rparr>)))"
    by (rule d1) (erule attempts, simp add: attempt_identity_def)
  then show ?thesis
    by (auto simp: authorize_dispatch_def intro!: run_rules recordEvent)
qed

lemma ordinary_reply_active: "preserves R (ordinary_reply_active sv j k v i p)"
  by (auto simp: ordinary_reply_active_def intro!: if_split run_rules loadOrdinaryRouteAuthorization split: option.splits)

lemma tryFinally: "preserves R m \<Longrightarrow> preserves R f \<Longrightarrow> preserves R (tryFinally m f)"
  unfolding preserves_def tryFinally_def
  by (auto split: prod.splits) (metis snd_conv transitive)

end

section \<open>The consumer\<close>

locale queue_run = reply_tables R step for R step +
  fixes sv :: services
    and ok :: "outbound_job \<Rightarrow> bool"
    and ok_reply :: "inbox_job \<Rightarrow> bool"
  assumes send: "ok j \<Longrightarrow> preserves R (sendOutboundReply sv j n)"
    and derived: "ok_reply i \<Longrightarrow> ok (outbound_of_reply i view identity profile recipient payload policy)"
begin

lemma send_and_finish: "ok j \<Longrightarrow> preserves R (send_and_finish sv j n)"
  by (auto simp: send_and_finish_def finish_send_def Let_def
      intro!: if_split run_rules send claimReplyFailureBeforeBoundary recordTerminalSendEvent recordEvent)

lemma resendClaimCanResume: "preserves R (resendClaimCanResume sv j)"
  by (auto simp: resendClaimCanResume_def intro!: if_split run_rules effect_rules)

lemma resume_or_recover: "ok j \<Longrightarrow> preserves R (resume_or_recover sv j n)"
  by (auto simp: resume_or_recover_def Let_def
      intro!: if_split run_rules auditOutboundModeForClaim loadStoredReplyClaim resendClaimCanResume send_and_finish
        recordOutboundDuplicateSuppressed recordTerminalSendEvent)

lemma recordOutboundJob: "ok j \<Longrightarrow> preserves R (recordOutboundJob sv j n)"
  by (auto simp: recordOutboundJob_def
      intro!: if_split run_rules recordTerminalSendEvent recordAuditEvent send_and_finish terminalSendRecordForDedupeKey
        recordOutboundDuplicateSuppressed finalizeTerminalSendState resume_or_recover split: option.splits)

lemma dispatch_reply: "ok_reply j \<Longrightarrow> preserves R (dispatch_reply sv j n k v r i p q)"
  by (auto simp: dispatch_reply_def
      intro!: if_split run_rules effect_rules failRelayAttempt recoverRelayAttempt authorize_dispatch recordOutboundJob derived
      split: option.splits sum.splits)

lemma processLiveRelay: "ok_reply j \<Longrightarrow> preserves R (processLiveRelay sv j n k v)"
  by (auto simp: processLiveRelay_def
      intro!: if_split run_rules loadActivePolicy failRelayAttempt recoverRelayAttempt ordinary_reply_active dispatch_reply
      split: option.splits sum.splits)

lemma processInboxReply: "ok_reply j \<Longrightarrow> preserves R (processInboxReply sv j n)"
  by (auto simp: processInboxReply_def
      intro!: if_split run_rules effect_rules resumeInboxTerminal failRelayAttempt recoverRelayAttempt processLiveRelay
      split: option.splits operator_delivery_mode.splits)

definition acceptable :: "mail_job \<Rightarrow> bool" where
  "acceptable job =
     (case job of Outbound_Reply_Requested j \<Rightarrow> ok j | Inbox_Reply_Received j \<Rightarrow> ok_reply j | _ \<Rightarrow> True)"

lemma recordQueueEvent: "acceptable job \<Longrightarrow> preserves R (recordQueueEvent sv job n)"
  by (cases job) (auto simp: recordQueueEvent_def acceptable_def
      intro!: run_rules recordEvent processInboxReply recordOutboundJob projectInboundDeliveryResult)

lemma processMessage:
  "(\<And>v. decodeMailJob (fst m) = Some v \<Longrightarrow> acceptable (as_mail_job v)) \<Longrightarrow> preserves R (processMessage sv m)"
  by (auto simp: processMessage_def Let_def
      intro!: run_rules recordEvent tryFinally recordQueueEvent refreshJobRouteStatus split: option.splits)

lemma processQueueBatch:
  "(\<And>m v. m \<in> set ms \<Longrightarrow> decodeMailJob (fst m) = Some v \<Longrightarrow> acceptable (as_mail_job v)) \<Longrightarrow>
   preserves R (processQueueBatch sv ms)"
  by (auto simp: processQueueBatch_def intro!: mapAct processMessage)

end

end
