(* ===== verification/Delivery_Safety.thy ===== *)
theory Delivery_Safety
  imports Queue_Run
begin

text \<open>
  The relations that a run of the queue consumer keeps, each an interpretation of the locale of
  \<open>Queue_Run\<close>: the durable history only moves forward; the number of provider calls is paid for by
  admissions that leave the open states; every provider call carries a checked payload.
\<close>

section \<open>History\<close>

definition forward_rows :: "('a \<Rightarrow> 'a \<Rightarrow> bool) \<Rightarrow> 'a list \<Rightarrow> 'a list \<Rightarrow> bool" where
  \<comment> \<open>no row is deleted, each row takes a step, rows are added at the end\<close>
  "forward_rows step xs ys \<longleftrightarrow> list_all2 step xs (take (length xs) ys)"

definition attempt_step :: "attempt_row \<Rightarrow> attempt_row \<Rightarrow> bool" where
  "attempt_step r r' \<longleftrightarrow>
     attempt_identity r' = attempt_identity r \<and>
     (attempt_terminal (ra_status r) \<longrightarrow> ra_status r' = ra_status r) \<and>
     (ra_raw_r2_key r' = ra_raw_r2_key r \<or> (ra_raw_r2_key r' = None \<and> ra_status r' = ''provider_accepted''))"

datatype phase = Open | Owned | Boundary_Crossed | Closed

fun phase_rank :: "phase \<Rightarrow> nat" where
  "phase_rank Open = 0" | "phase_rank Owned = 1" | "phase_rank Boundary_Crossed = 2" | "phase_rank Closed = 3"

text \<open>The phases of an admission are ordered by its life; an admission never goes back.\<close>

instantiation phase :: linorder
begin

definition less_eq_phase :: "phase \<Rightarrow> phase \<Rightarrow> bool" where
  "less_eq_phase p q \<longleftrightarrow> phase_rank p \<le> phase_rank q"

definition less_phase :: "phase \<Rightarrow> phase \<Rightarrow> bool" where
  "less_phase p q \<longleftrightarrow> phase_rank p < phase_rank q"

instance
proof
  show "p \<le> q \<Longrightarrow> q \<le> p \<Longrightarrow> p = q" for p q :: phase
    by (cases p; cases q) (simp_all add: less_eq_phase_def)
qed (auto simp: less_eq_phase_def less_phase_def)

end

definition phase_of :: "string \<Rightarrow> phase" where
  \<comment> \<open>from the status of an admission\<close>
  "phase_of s =
     (if s = ''admitted'' then Open else if s = ''claimed'' then Owned
      else if s = ''sending'' then Boundary_Crossed else Closed)"

definition admission_step :: "admission_row \<Rightarrow> admission_row \<Rightarrow> bool" where
  "admission_step r r' \<longleftrightarrow>
     admission_identity r' = admission_identity r \<and>
     (ad_claimed_attempt_id r \<noteq> None \<longrightarrow> admission_claim r' = admission_claim r) \<and>
     phase_of (ad_status r) \<le> phase_of (ad_status r') \<and>
     (admission_terminal (ad_status r) \<longrightarrow> ad_status r' = ad_status r) \<and>
     (ad_provider_boundary_at r \<noteq> None \<longrightarrow> ad_provider_boundary_at r' = ad_provider_boundary_at r)"

definition history :: "db \<times> nat \<Rightarrow> db \<times> nat \<Rightarrow> bool" where
  "history s t \<longleftrightarrow>
     prefix (db_audit (fst s)) (db_audit (fst t)) \<and>
     forward_rows attempt_step (db_attempts (fst s)) (db_attempts (fst t)) \<and>
     forward_rows admission_step (db_admissions (fst s)) (db_admissions (fst t)) \<and> snd s \<le> snd t"

lemma forward_rows_refl: "(\<And>r. step r r) \<Longrightarrow> forward_rows step xs xs"
  by (simp add: forward_rows_def list.rel_refl)

lemma forward_rows_trans:
  assumes "\<And>a b c. step a b \<Longrightarrow> step b c \<Longrightarrow> step a c" "forward_rows step xs ys" "forward_rows step ys zs"
  shows "forward_rows step xs zs"
proof -
  have "length xs \<le> length ys" "length ys \<le> length zs"
    using assms(2,3) by (auto simp: forward_rows_def dest!: list_all2_lengthD)
  then show ?thesis
    using assms by (auto simp: forward_rows_def list_all2_conv_all_nth min_def)
qed

lemma forward_rows_append: "(\<And>r. step r r) \<Longrightarrow> forward_rows step xs (xs @ ys)"
  by (simp add: forward_rows_def list.rel_refl)

lemma forward_rows_update:
  "(\<And>r. r \<in> set xs \<Longrightarrow> P r \<Longrightarrow> step r (f r)) \<Longrightarrow> (\<And>r. step r r) \<Longrightarrow> forward_rows step xs (update_where P f xs)"
  by (auto simp: forward_rows_def update_where_def list_all2_conv_all_nth)

lemma forward_rows_nth: "forward_rows step xs ys \<Longrightarrow> i < length xs \<Longrightarrow> i < length ys \<and> step (xs ! i) (ys ! i)"
  by (auto simp: forward_rows_def list_all2_conv_all_nth min_def split: if_splits)

lemma attempt_step_refl [simp]: "attempt_step r r"
  by (simp add: attempt_step_def)

lemma attempt_step_trans:
  assumes "attempt_step a b" "attempt_step b c"
  shows "attempt_step a c"
proof -
  have "attempt_terminal ''provider_accepted''" by (simp add: attempt_terminal_def)
  then show ?thesis using assms unfolding attempt_step_def by metis
qed

lemma admission_step_refl [simp]: "admission_step r r"
  by (simp add: admission_step_def)

lemma admission_step_trans: "admission_step a b \<Longrightarrow> admission_step b c \<Longrightarrow> admission_step a c"
  by (auto simp: admission_step_def admission_claim_def)

lemma attempt_update_step:
  "update_attempts P f t d = Inr (n, d') \<Longrightarrow> (\<And>r. attempt_identity (f r) = attempt_identity r) \<Longrightarrow>
   forward_rows attempt_step (db_attempts d) (db_attempts d')"
  by (auto simp: update_attempts_Inr attempt_step_def attempt_aborts_def list_all_iff intro!: forward_rows_update)

lemma phase_le_Closed [simp]: "p \<le> Closed"
  by (cases p) (simp_all add: less_eq_phase_def)

lemma phase_of_terminal: "admission_terminal s \<Longrightarrow> phase_of s = Closed"
  by (auto simp: phase_of_def admission_terminal_def)

lemma closes_step: "closes r r' \<Longrightarrow> admission_step r r'"
  unfolding closes_def admission_step_def using phase_le_Closed phase_of_terminal by metis

lemma admission_update_step:
  "update_admissions k P f t d = Inr (n, d') \<Longrightarrow> (\<And>r. P r \<Longrightarrow> admission_step r (f r)) \<Longrightarrow>
   forward_rows admission_step (db_admissions d) (db_admissions d')"
  by (auto simp: update_admissions_Inr intro!: forward_rows_update)

interpretation history: trace_relation history
proof
  show "history s s" for s
    by (simp add: history_def forward_rows_refl)
  fix s t u
  assume h: "history s t" "history t u"
  have "forward_rows attempt_step (db_attempts (fst s)) (db_attempts (fst u))"
    by (rule forward_rows_trans [OF attempt_step_trans]) (use h in \<open>auto simp: history_def\<close>)
  moreover have "forward_rows admission_step (db_admissions (fst s)) (db_admissions (fst u))"
    by (rule forward_rows_trans [OF admission_step_trans]) (use h in \<open>auto simp: history_def\<close>)
  moreover have "prefix (db_audit (fst s)) (db_audit (fst u))" "snd s \<le> snd u"
    using h prefix_order.order_trans by (fastforce simp: history_def)+
  ultimately show "history s u" by (simp add: history_def)
qed

interpretation history: reply_tables "under history" "\<lambda>d d'. \<forall>n. history (d, n) (d', n)"
proof
  show "update_attempts P f t d = Inr (n, d') \<Longrightarrow> (\<And>r. attempt_identity (f r) = attempt_identity r) \<Longrightarrow>
      \<forall>n. history (d, n) (d', n)" for P f t d n d'
    using attempt_update_step by (fastforce simp: history_def update_attempts_Inr forward_rows_refl)
  show "update_admissions k Q g t d = Inr (n, d') \<Longrightarrow> (\<And>r. Q r \<Longrightarrow> closes r (g r)) \<Longrightarrow>
      \<forall>n. history (d, n) (d', n)" for k Q g t d n d'
    using admission_update_step closes_step by (fastforce simp: history_def update_admissions_Inr forward_rows_refl)
qed (auto simp: history_def forward_rows_refl)

lemma boundary_condition_status:
  "boundary_condition sv j k route t d r \<Longrightarrow> ad_status r = ''claimed'' \<or> ad_status r = ''sending''"
  unfolding boundary_condition_def idempotent_resume_def by blast

lemma cross_boundary_step:
  assumes "boundary_condition sv j k route t d r"
  shows "admission_step r (cross_boundary sv t r)"
proof -
  have "phase_of (ad_status r) \<le> Boundary_Crossed" "\<not> admission_terminal (ad_status r)"
    using boundary_condition_status [OF assms] by (elim disjE; simp add: phase_of_def less_eq_phase_def admission_terminal_def)+
  then show ?thesis
    by (auto simp: admission_step_def cross_boundary_def admission_identity_def admission_claim_def phase_of_def
        split: option.splits)
qed

lemma claim_statement_history:
  "claim_boundary_statement sv j k route t d = Inr (n, d') \<Longrightarrow> history (d, m) (d', m)"
  unfolding claim_boundary_statement_def
  using admission_update_step [OF _ cross_boundary_step]
  by (fastforce simp: history_def update_admissions_Inr forward_rows_refl)

lemma emailSend_history: "preserves (under history) (emailSend m)"
  unfolding emailSend_def
  by (rule history.call)
     (auto simp: under_def seen_def history_def forward_rows_refl Let_def split: list.splits mail_reply.splits)

lemma httpPost_history: "preserves (under history) (httpPost i b)"
  unfolding httpPost_def
  by (rule history.call)
     (auto simp: under_def seen_def history_def forward_rows_refl Let_def split: list.splits http_reply.splits)

lemma deliver_history: "preserves (under history) (deliver sv j name n)"
  by (auto simp: deliver_def call_provider_def sendWithResend_def Let_def
      intro!: history.if_split history.run_rules history.record_attempt emailSend_history httpPost_history)

lemma claimOutboundProviderBoundary_history: "preserves (under history) (claimOutboundProviderBoundary sv j route)"
  using claim_statement_history
  by (auto simp: claimOutboundProviderBoundary_def
      intro!: history.if_split history.run_rules history.d1 split: option.splits)

lemma sendOutboundReply_history: "preserves (under history) (sendOutboundReply sv j n)"
  by (auto simp: sendOutboundReply_def claim_and_deliver_def Let_def
      intro!: history.if_split history.run_rules history.send_relay claimOutboundProviderBoundary_history
        deliver_history history.lost_boundary)

interpretation history_run: queue_run "under history" "\<lambda>d d'. \<forall>n. history (d, n) (d', n)" sv "\<lambda>_. True" "\<lambda>_. True" for sv
  by unfold_locales (simp_all add: sendOutboundReply_history)

section \<open>Every send is paid for by an admission\<close>

text \<open>
  An admission is open until it crosses the provider boundary. The budget of a set of admission ids is
  the number of provider calls made so far plus the number of its admissions that are still open; no run
  of the consumer with a provider that is called at most once per claim raises it.
\<close>

definition open_for :: "(string \<Rightarrow> bool) \<Rightarrow> admission_row \<Rightarrow> bool" where
  "open_for K r \<longleftrightarrow> K (ad_id r) \<and> ad_status r \<in> {''admitted'', ''claimed''}"

definition open_count :: "(string \<Rightarrow> bool) \<Rightarrow> db \<Rightarrow> nat" where
  "open_count K d = length (filter (open_for K) (db_admissions d))"

definition budget :: "(string \<Rightarrow> bool) \<Rightarrow> db \<times> nat \<Rightarrow> nat" where
  "budget K s = snd s + open_count K (fst s)"

definition spend :: "(string \<Rightarrow> bool) \<Rightarrow> db \<times> nat \<Rightarrow> db \<times> nat \<Rightarrow> bool" where
  "spend K s t \<longleftrightarrow> budget K t \<le> budget K s"

lemma filter_update_where:
  "(\<And>r. P r \<Longrightarrow> Q (f r) \<Longrightarrow> Q r) \<Longrightarrow> length (filter Q (update_where P f rows)) \<le> length (filter Q rows)"
  by (induction rows) (auto simp: update_where_def)

lemma filter_update_where_closing:
  "(\<And>r. P r \<Longrightarrow> Q r \<and> \<not> Q (f r)) \<Longrightarrow>
   length (filter Q (update_where P f rows)) + changes P rows = length (filter Q rows)"
  by (induction rows) (auto simp: update_where_def changes_def)

lemma terminal_not_open: "admission_terminal s \<Longrightarrow> s \<notin> {''admitted'', ''claimed''}"
  by (auto simp: admission_terminal_def)

lemma closes_not_open: "closes r r' \<Longrightarrow> \<not> open_for K r'"
  unfolding closes_def open_for_def using terminal_not_open by blast

lemma open_count_update:
  "update_admissions k P f t d = Inr (n, d') \<Longrightarrow> (\<And>r. P r \<Longrightarrow> closes r (f r)) \<Longrightarrow> open_count K d' \<le> open_count K d"
  using closes_not_open by (auto simp: update_admissions_Inr open_count_def intro!: filter_update_where)

interpretation spend: trace_relation "spend K" for K
  by unfold_locales (auto simp: spend_def)

interpretation spend: reply_tables "under (spend K)" "\<lambda>d d'. \<forall>n. spend K (d, n) (d', n)" for K
proof
  show "update_attempts P f t d = Inr (n, d') \<Longrightarrow> \<forall>n. spend K (d, n) (d', n)" for P f t d n d'
    by (auto simp: update_attempts_Inr spend_def budget_def open_count_def)
  show "update_admissions k Q g t d = Inr (n, d') \<Longrightarrow> (\<And>r. Q r \<Longrightarrow> closes r (g r)) \<Longrightarrow>
      \<forall>n. spend K (d, n) (d', n)" for k Q g t d n d'
    using open_count_update by (fastforce simp: spend_def budget_def)
qed (auto simp: spend_def budget_def open_count_def)

definition within :: "(string \<Rightarrow> bool) \<Rightarrow> nat \<Rightarrow> 'a act \<Rightarrow> bool" where
  \<comment> \<open>a run that raises the budget by at most the given number\<close>
  "within K c m \<longleftrightarrow> (\<forall>w. others_respect (spend K) w \<longrightarrow>
     budget K (seen (snd (m w))) \<le> budget K (seen w) + c \<and> set (w_ticks (snd (m w))) \<subseteq> set (w_ticks w))"

lemma within_0: "within K 0 m \<longleftrightarrow> preserves (under (spend K)) m"
  by (auto simp: within_def preserves_def under_def spend_def)

lemma within_mono: "within K a m \<Longrightarrow> a \<le> b \<Longrightarrow> within K b m"
  unfolding within_def by (meson add_left_mono order_trans)

lemma within_andThen:
  assumes "within K a m" "\<And>x. within K b (f x)"
  shows "within K (a + b) (andThen m f)"
  unfolding within_def
proof (intro allI impI)
  fix w
  assume o: "others_respect (spend K) w"
  obtain r v where m: "m w = (r, v)" by (cases "m w")
  have v: "budget K (seen v) \<le> budget K (seen w) + a" "set (w_ticks v) \<subseteq> set (w_ticks w)"
    using assms(1) o m unfolding within_def by (metis snd_conv)+
  then have "others_respect (spend K) v" using o others_respect_mono by blast
  then have "\<And>x. budget K (seen (snd (f x v))) \<le> budget K (seen v) + b \<and> set (w_ticks (snd (f x v))) \<subseteq> set (w_ticks v)"
    using assms(2) unfolding within_def by blast
  then show "budget K (seen (snd (andThen m f w))) \<le> budget K (seen w) + (a + b) \<and>
      set (w_ticks (snd (andThen m f w))) \<subseteq> set (w_ticks w)"
    using v m by (cases r) (fastforce simp: andThen_def intro: order_trans)+
qed

lemma within_followedBy: "within K 0 m \<Longrightarrow> within K b k \<Longrightarrow> within K b (followedBy m k)"
  using within_andThen [of K 0 m b "\<lambda>_. k"] by (simp add: followedBy_def)

lemma within_ret: "within K c (ret x)"
  by (simp add: within_def)

lemma within_tryCatch:
  assumes "within K a m" "\<And>e. within K 0 (h e)"
  shows "within K a (tryCatch m h)"
  unfolding within_def
proof (intro allI impI)
  fix w
  assume o: "others_respect (spend K) w"
  obtain r v where m: "m w = (r, v)" by (cases "m w")
  have v: "budget K (seen v) \<le> budget K (seen w) + a" "set (w_ticks v) \<subseteq> set (w_ticks w)"
    using assms(1) o m unfolding within_def by (metis snd_conv)+
  then have "others_respect (spend K) v" using o others_respect_mono by blast
  then have "\<And>e. budget K (seen (snd (h e v))) \<le> budget K (seen v) \<and> set (w_ticks (snd (h e v))) \<subseteq> set (w_ticks v)"
    using assms(2) unfolding within_def by fastforce
  then show "budget K (seen (snd (tryCatch m h w))) \<le> budget K (seen w) + a \<and>
      set (w_ticks (snd (tryCatch m h w))) \<subseteq> set (w_ticks w)"
    using v m by (cases r) (fastforce simp: tryCatch_def intro: order_trans)+
qed

lemma within_call:
  assumes "\<And>v. w_db (snd (eff v)) = w_db v \<and> length (w_calls (snd (eff v))) \<le> Suc (length (w_calls v)) \<and>
      w_ticks (snd (eff v)) = w_ticks v"
  shows "within K 1 (call eff)"
  unfolding within_def
proof (intro allI impI)
  fix w
  assume o: "others_respect (spend K) w"
  define v where "v = snd (begin_call w)"
  have v: "budget K (seen v) \<le> budget K (seen w)" "set (w_ticks v) \<subseteq> set (w_ticks w)"
    using spend.elapse [of K w] o by (auto simp: under_def v_def spend_def)
  have e: "budget K (seen (snd (eff v))) \<le> budget K (seen v) + 1" "w_ticks (snd (eff v)) = w_ticks v"
    using assms [of v] by (auto simp: budget_def seen_def)
  have "snd (call eff w) = v \<or> snd (call eff w) = snd (eff v)"
    by (auto simp: call_def v_def split: prod.splits call_end.splits)
  with v e show "budget K (seen (snd (call eff w))) \<le> budget K (seen w) + 1 \<and>
      set (w_ticks (snd (call eff w))) \<subseteq> set (w_ticks w)"
    by auto
qed

lemma within_emailSend: "within K 1 (emailSend m)"
  unfolding emailSend_def by (rule within_call) (auto simp: Let_def split: list.splits mail_reply.splits)

lemma within_deliver:
  assumes "configuredOutboundMode (sv_env sv) \<noteq> Mode_Resend"
  shows "within K 1 (deliver sv j name n)"
proof -
  have "within K (1 + 0) (andThen (emailSend m) (\<lambda>i. ret (accepted_by_cloudflare i)))" for m
    by (rule within_andThen) (rule within_emailSend, rule within_ret)
  then have "within K 1 (call_provider sv j name)"
    using assms by (auto simp: call_provider_def Let_def intro!: within_ret within_tryCatch)
  then show ?thesis
    unfolding deliver_def by (rule within_followedBy [rotated]) (simp add: within_0 spend.record_attempt)
qed

definition single_call_mode :: "services \<Rightarrow> bool" where
  \<comment> \<open>the inbox relay with a provider that is called at most once per claim\<close>
  "single_call_mode sv \<longleftrightarrow>
     odc_mode (operatorDeliveryConfig (sv_env sv)) = Inbox_Relay \<and> configuredOutboundMode (sv_env sv) \<noteq> Mode_Resend"

definition admission_in :: "(string \<Rightarrow> bool) \<Rightarrow> outbound_job \<Rightarrow> bool" where
  "admission_in K j \<longleftrightarrow> (case oj_admissionId j of None \<Rightarrow> True | Some i \<Rightarrow> K i)"

lemma claim_statement_budget:
  assumes "claim_boundary_statement sv j k route t d = Inr (n, d')"
    and "configuredOutboundMode (sv_env sv) \<noteq> Mode_Resend" and "admission_in K j"
  shows "open_count K d' + n = open_count K d"
proof -
  let ?Q = "\<lambda>r. ad_kind r = k \<and> boundary_condition sv j k route t d r"
  have d: "n = changes ?Q (db_admissions d)"
    "db_admissions d' = update_where ?Q (cross_boundary sv t) (db_admissions d)"
    using assms(1) by (auto simp: claim_boundary_statement_def update_admissions_Inr)
  have "open_for K r \<and> \<not> open_for K (cross_boundary sv t r)" if "?Q r" for r
  proof -
    have "oj_admissionId j = Some (ad_id r)" "ad_status r = ''claimed''"
      using that assms(2) unfolding boundary_condition_def by (metis, blast)
    then show ?thesis
      using assms(3) by (simp add: open_for_def admission_in_def cross_boundary_def)
  qed
  then show ?thesis
    unfolding open_count_def d by (rule filter_update_where_closing)
qed

lemma claim_pays:
  assumes "claimOutboundProviderBoundary sv j route w = (r, v)" and "others_respect (spend K) w"
    and "configuredOutboundMode (sv_env sv) \<noteq> Mode_Resend" and "admission_in K j"
  shows "budget K (seen v) + (if r = Inr True then 1 else 0) \<le> budget K (seen w) \<and> set (w_ticks v) \<subseteq> set (w_ticks w)"
proof -
  have b: "budget K (seen (snd (begin_call w))) \<le> budget K (seen w)"
    "set (w_ticks (snd (begin_call w))) \<subseteq> set (w_ticks w)"
    using spend.elapse [of K w] assms(2) by (auto simp: under_def spend_def)
  have d: "budget K (seen y) + (if x = Inr n \<and> 0 < n then 1 else 0) \<le> budget K (seen w) \<and> set (w_ticks y) \<subseteq> set (w_ticks w)"
    if "d1 (claim_boundary_statement sv j k route) w = (x, y)" for k x y n
  proof -
    obtain e u where u: "begin_call w = (e, u)" by (cases "begin_call w")
    show ?thesis
    proof (cases "claim_boundary_statement sv j k route (w_now u) (w_db u)")
      case (Inl a)
      with that b u show ?thesis
        by (cases e) (auto simp: d1_def call_def)
    next
      case (Inr nd)
      obtain m d' where nd: "nd = (m, d')" by (cases nd)
      have "open_count K d' + m = open_count K (w_db u)"
        using claim_statement_budget [OF _ assms(3,4)] Inr nd by blast
      with that b u Inr nd show ?thesis
        by (cases e) (auto simp: d1_def call_def budget_def seen_def)
    qed
  qed
  show ?thesis
  proof (cases "hasInboxRelayTransactionBindings j \<and> truthy (oj_policySha256 j) \<and> outbound_authorization j \<noteq> None \<and>
      (\<exists>x. routeReplyIdentityBindings route = Inr x)")
    case True
    then obtain k x where k: "outbound_authorization j = Some k" "routeReplyIdentityBindings route = Inr x"
      "hasInboxRelayTransactionBindings j" "truthy (oj_policySha256 j)" by auto
    obtain z y where z: "d1 (claim_boundary_statement sv j k route) w = (z, y)"
      by (cases "d1 (claim_boundary_statement sv j k route) w")
    show ?thesis
      using assms(1) k z d [OF z, of "projr z"]
      by (cases z) (auto simp: claimOutboundProviderBoundary_def andThen_def split: if_splits)
  next
    case False
    with assms(1) show ?thesis
      by (cases "routeReplyIdentityBindings route")
         (auto simp: claimOutboundProviderBoundary_def split: if_splits option.splits)
  qed
qed

lemma claim_and_deliver_spend:
  assumes "configuredOutboundMode (sv_env sv) \<noteq> Mode_Resend" and "admission_in K j"
  shows "preserves (under (spend K)) (claim_and_deliver sv j route profile n)"
  unfolding within_0 [symmetric] within_def
proof (intro allI impI)
  fix w
  assume o: "others_respect (spend K) w"
  obtain r v where c: "claimOutboundProviderBoundary sv j route w = (r, v)"
    by (cases "claimOutboundProviderBoundary sv j route w")
  note p = claim_pays [OF c o assms]
  have ov: "others_respect (spend K) v" using p o others_respect_mono by blast
  show "budget K (seen (snd (claim_and_deliver sv j route profile n w))) \<le> budget K (seen w) + 0 \<and>
      set (w_ticks (snd (claim_and_deliver sv j route profile n w))) \<subseteq> set (w_ticks w)"
  proof (cases "r = Inr True")
    case True
    then have "claim_and_deliver sv j route profile n w = deliver sv j (Some (ip_displayName profile)) n v"
      using c by (simp add: claim_and_deliver_def andThen_def)
    then show ?thesis
      using True p ov within_deliver [OF assms(1), of K j "Some (ip_displayName profile)" n]
      unfolding within_def by fastforce
  next
    case False
    then have "claim_and_deliver sv j route profile n w = (case r of Inl e \<Rightarrow> (Inl e, v) | Inr _ \<Rightarrow> lost_boundary sv j v)"
      using c by (auto simp: claim_and_deliver_def andThen_def split: sum.splits)
    moreover have "within K 0 (lost_boundary sv j)" by (simp add: within_0 spend.lost_boundary)
    ultimately show ?thesis
      using False p ov unfolding within_def by (cases r) (fastforce intro: order_trans)+
  qed
qed

lemma sendOutboundReply_spend:
  assumes "single_call_mode sv" and "admission_in K j"
  shows "preserves (under (spend K)) (sendOutboundReply sv j n)"
  using assms
  by (auto simp: sendOutboundReply_def Let_def single_call_mode_def
      intro!: spend.if_split spend.run_rules spend.send_relay claim_and_deliver_spend)

interpretation spend_run: queue_run "under (spend K)" "\<lambda>d d'. \<forall>n. spend K (d, n) (d', n)" sv
    "\<lambda>j. single_call_mode sv \<and> admission_in K j" "\<lambda>j. single_call_mode sv \<and> K (ij_admissionId j)" for K sv
  by unfold_locales (auto simp: sendOutboundReply_spend admission_in_def outbound_of_reply_def)

section \<open>Every send is checked\<close>

definition checked_send :: "services \<Rightarrow> outbound_job \<Rightarrow> identity_profile \<Rightarrow> bool" where
  \<comment> \<open>the job passed every check that does not read the claim: the policy is genuine and the one the job was
      claimed under, it authorizes the operator to write as the sender, the payload is the claimed one,
      and nothing in it names an operator that the policy protects\<close>
  "checked_send sv j profile \<longleftrightarrow>
     hasInboxRelayTransactionBindings j \<and> transaction_shape sv j \<and>
     (\<exists>policy. genuine_policy sv policy \<and> authorized_profile sv j policy = Inr profile \<and>
        outboundPrivacyFailure sv j (ap_policy policy) = None)"

definition checked_call :: "services \<Rightarrow> provider_call \<Rightarrow> bool" where
  "checked_call sv c \<longleftrightarrow>
     (\<exists>j profile. checked_send sv j profile \<and>
        (c = Email_Send (email_of_job j (Some (ip_displayName profile))) \<or>
         c = Resend_Post (oj_messageId j) (resendRequestBody j (Some (ip_displayName profile)))))"

interpretation calls: reply_tables "calls_by good" "\<lambda>d d'. True" for good
  by unfold_locales simp_all

lemma claim_and_deliver_calls:
  assumes "checked_send sv j profile"
  shows "preserves (calls_by (checked_call sv)) (claim_and_deliver sv j route profile n)"
proof -
  have good: "checked_call sv (Email_Send (email_of_job j (Some (ip_displayName profile))))"
    "checked_call sv (Resend_Post (oj_messageId j) (resendRequestBody j (Some (ip_displayName profile))))"
    using assms by (auto simp: checked_call_def)
  then show ?thesis
    by (auto simp: claim_and_deliver_def claimOutboundProviderBoundary_def deliver_def call_provider_def
        sendWithResend_def Let_def
        intro!: calls.if_split calls.run_rules calls.d1 calls.record_attempt calls.lost_boundary
          emailSend_calls httpPost_calls split: option.splits)
qed

lemma sendOutboundReply_calls:
  assumes "odc_mode (operatorDeliveryConfig (sv_env sv)) = Inbox_Relay"
  shows "preserves (calls_by (checked_call sv)) (sendOutboundReply sv j n)"
  using assms loadActivePolicy_genuine
  by (auto simp: sendOutboundReply_def Let_def
      intro!: calls.if_split calls.run_rules calls.send_relay claim_and_deliver_calls)
     (auto simp: checked_send_def)

interpretation calls_run: queue_run "calls_by (checked_call sv)" "\<lambda>d d'. True" sv
    "\<lambda>_. odc_mode (operatorDeliveryConfig (sv_env sv)) = Inbox_Relay"
    "\<lambda>_. odc_mode (operatorDeliveryConfig (sv_env sv)) = Inbox_Relay" for sv
  by unfold_locales (simp_all add: sendOutboundReply_calls)

end
