(* ===== verification/Consumer_System.thy ===== *)
theory Consumer_System
  imports Delivery_Safety
begin

text \<open>
  The consumer over its whole life: a step relation whose steps are batches of deliveries, each with its own
  schedule of delays, failures and interference, and changes of the database by the other workers. At-least-once
  delivery is the freedom to take the same batch again. A consumer that is killed is one whose remaining calls
  all fail without effect.
\<close>

definition names_admission :: "(string \<Rightarrow> bool) \<Rightarrow> mail_job \<Rightarrow> bool" where
  \<comment> \<open>a job that could claim an admission claims one of the given set\<close>
  "names_admission K job =
     (case job of
        Outbound_Reply_Requested j \<Rightarrow> admission_in K j
      | Inbox_Reply_Received j \<Rightarrow> K (ij_admissionId j)
      | _ \<Rightarrow> True)"

definition batch_names :: "(string \<Rightarrow> bool) \<Rightarrow> (jv \<times> nat) list \<Rightarrow> bool" where
  "batch_names K = list_all (\<lambda>m. case decodeMailJob (fst m) of None \<Rightarrow> True | Some v \<Rightarrow> names_admission K (as_mail_job v))"

definition run_batch :: "services \<Rightarrow> (jv \<times> nat) list \<Rightarrow> world \<Rightarrow> world" where
  "run_batch sv ms w = snd (processQueueBatch sv ms w)"

lemma batch_spends:
  assumes "single_call_mode sv" "batch_names K ms" "others_respect (spend K) w"
  shows "budget K (seen (run_batch sv ms w)) \<le> budget K (seen w)"
proof -
  have "preserves (under (spend K)) (processQueueBatch sv ms)"
    by (rule spend_run.processQueueBatch)
       (unfold spend_run.acceptable_def, use assms(1,2) in \<open>fastforce simp: batch_names_def names_admission_def list_all_iff
          split: mail_job.splits option.splits\<close>)
  from preserves_underD [OF this assms(3)] show ?thesis
    by (simp add: spend_def run_batch_def)
qed

lemma batch_history: "others_respect history w \<Longrightarrow> history (seen w) (seen (run_batch sv ms w))"
proof -
  have "preserves (under history) (processQueueBatch sv ms)"
    by (rule history_run.processQueueBatch) (unfold history_run.acceptable_def, simp split: mail_job.splits)
  then show "others_respect history w \<Longrightarrow> ?thesis"
    using preserves_underD unfolding run_batch_def by blast
qed

lemma batch_calls:
  assumes "odc_mode (operatorDeliveryConfig (sv_env sv)) = Inbox_Relay"
  shows "calls_by (checked_call sv) w (run_batch sv ms w)"
  unfolding run_batch_def
  by (rule preservesD, rule calls_run.processQueueBatch)
     (unfold calls_run.acceptable_def, simp add: assms split: mail_job.splits)

section \<open>Runs\<close>

inductive consumer_step :: "services \<Rightarrow> (string \<Rightarrow> bool) \<Rightarrow> world \<Rightarrow> world \<Rightarrow> bool" for sv K where
  batch: "batch_names K ms \<Longrightarrow> others_respect (spend K) (w\<lparr>w_ticks := ts\<rparr>) \<Longrightarrow>
    consumer_step sv K w (run_batch sv ms (w\<lparr>w_ticks := ts\<rparr>))"
| others: "(\<And>n. spend K (w_db w, n) (d, n)) \<Longrightarrow> consumer_step sv K w (w\<lparr>w_db := d\<rparr>)"
| replies: "consumer_step sv K w (w\<lparr>w_mail := ms, w_http := hs\<rparr>)"
| time: "consumer_step sv K w (w\<lparr>w_now := w_now w + int n\<rparr>)"

inductive_cases consumer_stepE: "consumer_step sv K w w'"

inductive_simps consumer_step_batch: "consumer_step sv K w (run_batch sv ms w')"

abbreviation consumer_steps :: "services \<Rightarrow> (string \<Rightarrow> bool) \<Rightarrow> world \<Rightarrow> world \<Rightarrow> bool" where
  "consumer_steps sv K \<equiv> (consumer_step sv K)\<^sup>*\<^sup>*"

lemma step_spends: "consumer_step sv K w w' \<Longrightarrow> single_call_mode sv \<Longrightarrow> budget K (seen w') \<le> budget K (seen w)"
proof (erule consumer_stepE)
  fix ms ts
  assume "single_call_mode sv" "batch_names K ms" "others_respect (spend K) (w\<lparr>w_ticks := ts\<rparr>)"
    "w' = run_batch sv ms (w\<lparr>w_ticks := ts\<rparr>)"
  then show ?thesis using batch_spends [of sv K ms "w\<lparr>w_ticks := ts\<rparr>"] by (simp add: seen_def)
qed (auto simp: seen_def spend_def budget_def)

lemma steps_spend: "consumer_steps sv K w w' \<Longrightarrow> single_call_mode sv \<Longrightarrow> budget K (seen w') \<le> budget K (seen w)"
  by (induction rule: rtranclp_induct) (auto dest: step_spends)

lemma open_count_one: "distinct (map ad_id (db_admissions d)) \<Longrightarrow> open_count (\<lambda>i. i = a) d \<le> 1"
proof -
  assume d: "distinct (map ad_id (db_admissions d))"
  have "length (filter (\<lambda>r. ad_id r = a) rows) \<le> 1" if "distinct (map ad_id rows)" for rows
    using that by (induction rows) (auto simp: filter_empty_conv image_iff)
  moreover have "length (filter (open_for (\<lambda>i. i = a)) rows) \<le> length (filter (\<lambda>r. ad_id r = a) rows)" for rows
    by (induction rows) (auto simp: open_for_def)
  ultimately show ?thesis using d by (fastforce simp: open_count_def intro: order_trans)
qed

lemma audit_lookup_prefix:
  assumes "prefix (db_audit d) (db_audit d')" "audit_lookup k d = Some r"
  shows "audit_lookup k d' = Some r"
proof -
  obtain ext where "db_audit d' = db_audit d @ ext" using assms(1) by (auto simp: prefix_def)
  moreover have "List.find P xs = Some r \<Longrightarrow> List.find P (xs @ ys) = Some r" for P xs ys
    by (induction xs) (auto split: if_splits)
  ultimately show ?thesis using assms(2) by (simp add: audit_lookup_def first_row_def)
qed

end
