(* ===== verification/Settlement.thy ===== *)
theory Settlement
  imports Consumer_System
begin

text \<open>
  What a completed run has achieved: the functional behaviour of the terminal projection and of the inbound
  result projection on a quiet schedule, one on which no call fails and nothing else writes.
\<close>

section \<open>Quiet runs\<close>

named_theorems quiet_simps "evaluation of an effect on an empty schedule"

lemma call_quiet [quiet_simps]: "w_ticks w = [] \<Longrightarrow> call eff w = eff w"
  by (simp add: call_def begin_call_def)

lemma d1_quiet [quiet_simps]:
  "w_ticks w = [] \<Longrightarrow>
   d1 stmt w = (case stmt (w_now w) (w_db w) of Inl e \<Rightarrow> (Inl e, w) | Inr (x, d) \<Rightarrow> (Inr x, w\<lparr>w_db := d\<rparr>))"
  by (simp add: d1_def call_quiet)

declare query_def [quiet_simps]

lemma spoolDelete_quiet [quiet_simps]:
  "w_ticks w = [] \<Longrightarrow> spoolDelete k w = (Inr (), w\<lparr>w_spool := alist_del k (w_spool w)\<rparr>)"
  by (simp add: spoolDelete_def call_quiet)

lemma andThen_Inr: "andThen m f w = (Inr y, w') \<longleftrightarrow> (\<exists>x v. m w = (Inr x, v) \<and> f x v = (Inr y, w'))"
  by (auto simp: andThen_def split: prod.splits sum.splits)

lemma followedBy_Inr: "followedBy m k w = (Inr y, w') \<longleftrightarrow> (\<exists>v. m w = (Inr (), v) \<and> k v = (Inr y, w'))"
  by (simp add: followedBy_def andThen_Inr)

lemma unless_Inr: "unless c m w = (Inr (), w') \<longleftrightarrow> (if c then w' = w else m w = (Inr (), w'))"
  by (auto simp: unless_def)

lemma forEach_spoolDelete_quiet:
  "w_ticks w = [] \<Longrightarrow> forEach spoolDelete ks w = (Inr (), w\<lparr>w_spool := fold alist_del ks (w_spool w)\<rparr>)"
  by (induction ks arbitrary: w) (simp_all add: followedBy_def andThen_def spoolDelete_quiet)

lemma map_of_fold_alist_del: "map_of (fold alist_del ks kvs) k = (if k \<in> set ks then None else map_of kvs k)"
  by (induction ks arbitrary: kvs) (auto simp: map_of_alist_del)

section \<open>Inbound results\<close>

text \<open>A result without its claim: a no-op when the receipt of the very same result is there, an error otherwise.\<close>

lemma unclaimed_result:
  assumes "w_ticks w = []" "claimed_inbound_result job (w_db w) = None"
  shows "projectInboundDeliveryResult sv job w =
    (if receipt_matches sv job (audit_lookup (cleanup_key job) (w_db w)) then (Inr (), w)
     else (Inl (Err ''inbound result does not match its durable delivery claim''), w))"
  using assms
  by (simp add: projectInboundDeliveryResult_def loadClaimedInboundResult_def inboundCleanupAlreadyComplete_def
      andThen_def quiet_simps)

lemma insertAudit_Inr:
  "insertAudit i key thread actor action detail t d = Inr (n, d') \<longleftrightarrow>
   (if audit_conflict i key d then n = 0 \<and> d' = d
    else n = 1 \<and> d' = d\<lparr>db_audit := db_audit d @ [\<lparr> ae_id = i, ae_dedupe_key = key, ae_thread_id = thread d,
             ae_actor = actor, ae_action = action, ae_detail = Some (json_clean detail) \<rparr>]\<rparr>)"
  by (auto simp: insertAudit_def)

lemma recordAuditEvent_quiet:
  assumes "w_ticks w = []" "recordAuditEvent sv actor action detail (Some key) thread w = (Inr inserted, v)"
  shows "w_ticks v = [] \<and> w_spool v = w_spool w \<and> db_deliveries (w_db v) = db_deliveries (w_db w) \<and>
    db_attempts (w_db v) = db_attempts (w_db w) \<and>
    (inserted \<longrightarrow> (\<exists>r. audit_lookup key (w_db v) = Some r \<and> ae_action r = action \<and> ae_detail r = Some (json_clean detail)))"
proof -
  let ?i = "sv_uuid sv (w_uuids w)"
  show ?thesis
  proof (cases "audit_conflict ?i (Some key) (w_db w)")
    case True
    with assms show ?thesis
      by (auto simp: recordAuditEvent_def andThen_def randomUUID_def quiet_simps insertAudit_def)
  next
    case False
    then have "audit_lookup key (w_db w) = None"
      by (auto simp: audit_conflict_def audit_lookup_None list_ex_iff)
    with False assms show ?thesis
      by (auto simp: recordAuditEvent_def andThen_def randomUUID_def quiet_simps insertAudit_def audit_lookup_append)
  qed
qed

lemma recordInboundCleanupComplete_quiet:
  assumes "w_ticks w = []" "recordInboundCleanupComplete sv job w = (Inr (), v)"
  shows "w_ticks v = [] \<and> w_spool v = w_spool w \<and> db_deliveries (w_db v) = db_deliveries (w_db w) \<and>
    receipt_matches sv job (audit_lookup (cleanup_key job) (w_db v))"
proof -
  let ?detail = "JObject [(''deliveryId'', JString (rj_deliveryId job)), (''resultSha256'', JString (inboundResultSha256 sv job))]"
  obtain inserted u where u: "recordAuditEvent sv ''system'' ''operator_delivery_cleanup_complete'' ?detail
      (Some (cleanup_key job)) (Some (rj_threadId job)) w = (Inr inserted, u)"
    and rest: "andThen (if inserted then ret True else inboundCleanupAlreadyComplete sv job)
      (\<lambda>complete. if complete then ret () else throw (Err ''inbound result cleanup receipt conflicts with durable state'')) u = (Inr (), v)"
    using assms(2) unfolding recordInboundCleanupComplete_def andThen_Inr by blast
  note q = recordAuditEvent_quiet [OF assms(1) u]
  have "receipt_matches sv job (audit_lookup (cleanup_key job) (w_db v)) \<and> v = u"
  proof (cases inserted)
    case True
    with rest have "v = u" by simp
    moreover obtain r where "audit_lookup (cleanup_key job) (w_db u) = Some r"
      "ae_action r = ''operator_delivery_cleanup_complete''" "ae_detail r = Some (json_clean ?detail)"
      using q True by blast
    ultimately show ?thesis by (simp add: receipt_matches_def)
  next
    case False
    with rest q show ?thesis
      by (auto simp: inboundCleanupAlreadyComplete_def andThen_def quiet_simps split: if_splits)
  qed
  then show ?thesis using q by metis
qed

text \<open>The tail of a successful projection.\<close>

definition settled :: "services \<Rightarrow> result_job \<Rightarrow> claimed_result_row \<Rightarrow> world \<Rightarrow> bool" where
  "settled sv job claimed w \<longleftrightarrow>
     list_all (\<lambda>k. map_of (w_spool w) k = None) (cl_acceptedPayloadKeys claimed) \<and>
     list_all (\<lambda>dl. dl_id dl = rj_deliveryId job \<and> dl_policy_sha256 dl = rj_policySha256 job \<longrightarrow> dl_status dl = rj_status job)
       (db_deliveries (w_db w)) \<and>
     (rj_status job = ''provider_accepted'' \<longrightarrow>
        map_of (w_spool w) (cl_rawR2Key claimed) = None \<and>
        list_all (\<lambda>dl. dl_id dl = rj_deliveryId job \<and> dl_policy_sha256 dl = rj_policySha256 job \<longrightarrow>
            dl_raw_r2_key dl \<noteq> Some (rj_relaySpoolKey job)) (db_deliveries (w_db w)) \<and>
        receipt_matches sv job (audit_lookup (cleanup_key job) (w_db w)))"

lemma persist_quiet:
  assumes "w_ticks w = []" "persistInboundDeliveryProjection job w = (Inr (), v)"
  shows "w_ticks v = [] \<and> w_spool v = w_spool w \<and>
    list_all (\<lambda>dl. dl_id dl = rj_deliveryId job \<and> dl_policy_sha256 dl = rj_policySha256 job \<longrightarrow> dl_status dl = rj_status job)
       (db_deliveries (w_db v))"
  using assms
  by (auto simp: persistInboundDeliveryProjection_def andThen_def quiet_simps update_deliveries_def list_all_iff
      set_update_where split: if_splits)

lemma clear_quiet:
  assumes "w_ticks w = []" "clearInboundCleanupAuthority job w = (Inr (), v)" "rj_status job = ''provider_accepted''"
    "list_all (\<lambda>dl. dl_id dl = rj_deliveryId job \<and> dl_policy_sha256 dl = rj_policySha256 job \<longrightarrow> dl_status dl = rj_status job)
       (db_deliveries (w_db w))"
  shows "w_spool v = w_spool w \<and> db_audit (w_db v) = db_audit (w_db w) \<and>
    list_all (\<lambda>dl. dl_id dl = rj_deliveryId job \<and> dl_policy_sha256 dl = rj_policySha256 job \<longrightarrow>
       dl_status dl = rj_status job \<and> dl_raw_r2_key dl \<noteq> Some (rj_relaySpoolKey job)) (db_deliveries (w_db v))"
  using assms
  by (auto simp: clearInboundCleanupAuthority_def andThen_def quiet_simps update_deliveries_def list_all_iff
      set_update_where split: if_splits)

lemma deleteAccepted_quiet:
  assumes "w_ticks w = []" "deleteAcceptedInboundPayloads sv keys w = (Inr (), v)"
  shows "v = w\<lparr>w_spool := fold alist_del keys (w_spool w)\<rparr>"
  using assms by (auto simp: deleteAcceptedInboundPayloads_def forEach_spoolDelete_quiet split: if_splits)

lemma settle_delivery_settles:
  assumes "w_ticks w = []" "settle_delivery sv job claimed w = (Inr (), w')"
  shows "settled sv job claimed w'"
proof -
  obtain a b where a: "persistInboundDeliveryProjection job w = (Inr (), a)"
    and b: "deleteAcceptedInboundPayloads sv (cl_acceptedPayloadKeys claimed) a = (Inr (), b)"
    and tail: "unless (rj_status job \<noteq> ''provider_accepted'')
        (if \<not> env_RELAY_SPOOL (sv_env sv) then throw (Err ''relay spool binding unavailable'')
         else followedBy (spoolDelete (cl_rawR2Key claimed))
           (followedBy (recordInboundCleanupComplete sv job) (clearInboundCleanupAuthority job))) b = (Inr (), w')"
    using assms(2) unfolding settle_delivery_def followedBy_Inr by blast
  note p = persist_quiet [OF assms(1) a]
  have bb: "b = a\<lparr>w_spool := fold alist_del (cl_acceptedPayloadKeys claimed) (w_spool a)\<rparr>"
    using deleteAccepted_quiet p b by blast
  show ?thesis
  proof (cases "rj_status job = ''provider_accepted''")
    case False
    with tail p bb show ?thesis
      by (simp add: unless_Inr settled_def list_all_iff map_of_fold_alist_del)
  next
    case True
    define c where "c = b\<lparr>w_spool := alist_del (cl_rawR2Key claimed) (w_spool b)\<rparr>"
    have bt: "w_ticks b = []" and ct: "w_ticks c = []" using p bb by (simp_all add: c_def)
    obtain e where e: "recordInboundCleanupComplete sv job c = (Inr (), e)"
      and w': "clearInboundCleanupAuthority job e = (Inr (), w')"
      using tail True spoolDelete_quiet [OF bt]
      by (auto simp: unless_Inr followedBy_Inr c_def split: if_splits)
    note q = recordInboundCleanupComplete_quiet [OF ct e]
    have "db_deliveries (w_db e) = db_deliveries (w_db a)" using q bb by (simp add: c_def)
    with p q have r: "w_spool w' = w_spool e \<and> db_audit (w_db w') = db_audit (w_db e) \<and>
      list_all (\<lambda>dl. dl_id dl = rj_deliveryId job \<and> dl_policy_sha256 dl = rj_policySha256 job \<longrightarrow>
         dl_status dl = rj_status job \<and> dl_raw_r2_key dl \<noteq> Some (rj_relaySpoolKey job)) (db_deliveries (w_db w'))"
      using clear_quiet [OF _ w' True] by simp
    moreover have "audit_lookup (cleanup_key job) (w_db w') = audit_lookup (cleanup_key job) (w_db e)"
      using r by (simp add: audit_lookup_def)
    ultimately show ?thesis
      using q bb by (auto simp: settled_def list_all_iff map_of_alist_del map_of_fold_alist_del c_def)
  qed
qed

lemma quiet_preserved:
  \<comment> \<open>a quiet run stays quiet\<close>
  assumes "preserves (under P) m" "w_ticks w = []"
  shows "w_ticks (snd (m w)) = []"
  using preservesD [OF assms(1), of w] assms(2) by (simp add: under_def)

section \<open>The terminal projection\<close>

definition attempt_states :: "db \<Rightarrow> (string \<times> string) list" where
  "attempt_states d = map (\<lambda>r. (ra_id r, ra_status r)) (db_attempts d)"

interpretation attempt_states: trace_relation "\<lambda>s t. attempt_states (fst t) = attempt_states (fst s)"
  by unfold_locales auto

lemma update_attempts_keeps_status:
  assumes "update_attempts P f t d = Inr (n, d')" "\<And>r. ra_id (f r) = ra_id r \<and> ra_status (f r) = ra_status r"
  shows "attempt_states d' = attempt_states d"
  using assms by (auto simp: update_attempts_def attempt_states_def update_where_def split: if_splits)

text \<open>After the first statement no step of the projection changes the status of an attempt.\<close>

lemma finalize_tail:
  "preserves (under (\<lambda>s t. attempt_states (fst t) = attempt_states (fst s)))
     (followedBy (unless a (andThen (d1 (finish_admission sv job kind status result)) (\<lambda>_. ret ())))
       (andThen (d1 (project_reply_health sv job status result)) (\<lambda>n.
          followedBy (unless (0 < n) (superseded_result sv job result)) (cleanup_spool sv job action))))"
  by (auto simp: superseded_result_def cleanup_spool_def recordEvent_def recordAuditEvent_def retire_spool_def
      finish_admission_def project_reply_health_def update_health_def update_admissions_def insertAudit_def
      intro!: attempt_states.if_split attempt_states.run_rules attempt_states.effect_rules attempt_states.d1
      dest!: update_attempts_keeps_status split: if_splits)
     (auto simp: attempt_states_def Let_def split: if_splits)

lemma finalize_sets_status:
  assumes "w_ticks w = []" "finalizeTerminalSendState sv job action result w = (Inr (), w')"
    and "truthy (oj_relayAttemptId job)"
  shows "list_all (\<lambda>r. Some (ra_id r) = oj_relayAttemptId job \<longrightarrow> ra_status r = terminal_status action) (db_attempts (w_db w'))"
proof -
  let ?ok = "\<lambda>d. \<forall>p \<in> set (attempt_states d). Some (fst p) = oj_relayAttemptId job \<longrightarrow> snd p = terminal_status action"
  obtain n v where v: "d1 (finish_attempt job (terminal_status action) result) w = (Inr n, v)"
    and tail: "snd (followedBy (unless (\<not> (truthy (oj_admissionId job) \<and> truthy (oj_transactionSha256 job)))
        (andThen (d1 (finish_admission sv job (case outbound_authorization job of None \<Rightarrow> Canary | Some k \<Rightarrow> k)
           (terminal_status action) result)) (\<lambda>_. ret ())))
       (andThen (d1 (project_reply_health sv job (terminal_status action) result)) (\<lambda>n.
          followedBy (unless (0 < n) (superseded_result sv job result)) (cleanup_spool sv job action))) v) = w'"
    using assms(2,3) by (auto simp: finalizeTerminalSendState_def Let_def andThen_Inr split: if_splits)
  have "?ok (w_db v)" "w_ticks v = []"
    using v assms(1)
    by (auto simp: quiet_simps finish_attempt_def update_attempts_def attempt_states_def update_where_def
        split: sum.splits if_splits)
  moreover have "attempt_states (w_db w') = attempt_states (w_db v)"
    using preserves_underD [OF finalize_tail, of v] tail calculation(2) by (auto simp: seen_def)
  ultimately have "?ok (w_db w')" by simp
  then show ?thesis by (auto simp: attempt_states_def list_all_iff)
qed

text \<open>The recorded outcome and the state of the attempt agree, whichever delivery recorded it.\<close>

lemma terminal_name_action: "isTerminalSendAction (terminal_name a) = Some a"
  by (cases a) (simp_all add: isTerminalSendAction_def)

lemma terminal_of_row_Some:
  "terminal_of_row row = Inr (Some (a, r)) \<Longrightarrow> \<exists>e. row = Some e \<and> isTerminalSendAction (ae_action e) = Some a"
  by (auto simp: terminal_of_row_def split: option.splits if_splits)

lemma recordTerminal_agrees:
  assumes "w_ticks w = []" "recordTerminalSendEvent sv job action result w = (Inr (), w')" "truthy (oj_relayAttemptId job)"
  shows "\<exists>e a. audit_lookup (oj_messageId job @ '':outbound_reply_result'') (w_db w') = Some e \<and>
    isTerminalSendAction (ae_action e) = Some a \<and>
    list_all (\<lambda>r. Some (ra_id r) = oj_relayAttemptId job \<longrightarrow> ra_status r = terminal_status a) (db_attempts (w_db w'))"
proof -
  let ?key = "oj_messageId job @ '':outbound_reply_result''"
  obtain recorded u where u: "\<exists>actor detail. recordAuditEvent sv actor (terminal_name action) detail (Some ?key)
      (Some (oj_threadId job)) w = (Inr recorded, u)"
    and rest: "andThen (if recorded then ret (Some (action, result)) else terminalSendRecordForDedupeKey ?key)
      (\<lambda>durable. case durable of None \<Rightarrow> throw (Err ''terminal send result is unavailable'')
         | Some (a, r) \<Rightarrow> finalizeTerminalSendState sv job a r) u = (Inr (), w')"
    using assms(2) unfolding recordTerminalSendEvent_def Let_def andThen_Inr by blast
  from u recordAuditEvent_quiet [OF assms(1)] have q: "w_ticks u = []"
    "recorded \<longrightarrow> (\<exists>r. audit_lookup ?key (w_db u) = Some r \<and> ae_action r = terminal_name action)"
    by blast+
  have "\<exists>e a r. audit_lookup ?key (w_db u) = Some e \<and> isTerminalSendAction (ae_action e) = Some a \<and>
      finalizeTerminalSendState sv job a r u = (Inr (), w')"
  proof (cases recorded)
    case True
    with rest q(2) show ?thesis by (auto simp: terminal_name_action)
  next
    case False
    then have "\<exists>a r. terminal_of_row (audit_lookup ?key (w_db u)) = Inr (Some (a, r)) \<and>
        finalizeTerminalSendState sv job a r u = (Inr (), w')"
      using rest q(1)
      by (auto simp: andThen_Inr terminalSendRecordForDedupeKey_def quiet_simps liftE_def split: sum.splits option.splits)
    then show ?thesis using terminal_of_row_Some by blast
  qed
  then obtain e a r where e: "audit_lookup ?key (w_db u) = Some e" "isTerminalSendAction (ae_action e) = Some a"
    and f: "finalizeTerminalSendState sv job a r u = (Inr (), w')" by blast
  have "history (seen u) (seen w')"
    using preserves_underD [OF history.finalizeTerminalSendState [of sv job a r], of u] f q(1) by simp
  then have "audit_lookup ?key (w_db w') = Some e"
    using e(1) by (auto simp: history_def seen_def intro: audit_lookup_prefix)
  with e finalize_sets_status [OF q(1) f assms(3)] show ?thesis by blast
qed

end
