(* ===== verification/Example_Data.thy ===== *)
theory Example_Data
  imports Consumer_System
begin

text \<open>
  One small concrete installation: a route with one operator, its policy, and an operator reply whose
  claim is waiting in the queue. The theorems of the root theory are applied to it to show that their
  hypotheses can hold together. The parameters that stand for code outside the repository (the digest,
  the router core, the parsers) are simple functions here.
\<close>

definition ex_digest :: string where
  "ex_digest = replicate 64 (CHR ''0'')"

definition ex_claim_id :: string where
  "ex_claim_id = attempt_prefix @ ex_digest"

definition ex_route_json :: jv where
  "ex_route_json = JObject
     [(''domain'', JString ''example.com''), (''local_part'', JString ''team''),
      (''route_kind'', JString ''role_alias''), (''operators'', jstrings [''op@corp.test'']),
      (''default_reply_identity'', JString ''team@example.com''),
      (''allowed_reply_identities'', jstrings [''team@example.com'']),
      (''route_ref'', JString ''route:team'')]"

definition ex_profile :: identity_profile where
  "ex_profile = \<lparr> ip_profileRef = ''profile:team'', ip_publicAddress = ''team@example.com'',
     ip_displayName = ''Team'', ip_signatureProfileRef = ''signature:team'', ip_signatureText = ''The team'',
     ip_senderAdapter = Cloudflare_Email_Service \<rparr>"

definition ok_json :: "jv \<Rightarrow> string + jv" where
  "ok_json v = Inr (JObject [(''status'', JString ''ok''), (''value'', v)])"

definition ex_core :: router_core where
  "ex_core = \<lparr> core_project_policy = (\<lambda>_. ok_json (JObject
       [(''schema_version'', JInt 1), (''protected_operators'', jstrings [''op@corp.test'']),
        (''routes'', JArray [ex_route_json])])),
     core_route_message = (\<lambda>_. ok_json ex_route_json),
     core_authorize_reply = (\<lambda>_. ok_json (JObject
       [(''from_identity'', JString ''team@example.com''), (''envelope_sender'', JString ''team@example.com''),
        (''identity_profile'', profile_json ex_profile)])),
     core_resolve_reply_target = (\<lambda>_. ok_json (JObject [(''recipient'', JString ''client@remote.test'')])) \<rparr>"

definition ex_instant :: "string \<Rightarrow> int option" where
  "ex_instant s = (if s = ''later'' then Some 1000000 else Some 0)"

definition ex_platform :: platform where
  "ex_platform = \<lparr> pf_digest = (\<lambda>_. replicate 32 0), pf_date_parse = ex_instant, pf_to_iso = (\<lambda>_. ''now''),
     pf_locale_le = (\<lambda>a b. lexordp_eq (map code a) (map code b)) \<rparr>"

definition ex_env :: maildesk_env where
  "ex_env = empty_env \<lparr> env_DB := True, env_POLICY_STORE := True, env_RELAY_SPOOL := True, env_MAIL_JOBS := True,
     env_EMAIL := True, env_OUTBOUND_MODE := Some ''cloudflare_email_service'',
     env_VERIFIED_SENDER_DOMAINS := Some ''example.com'', env_OPERATOR_DELIVERY_MODE := Some ''inbox_relay'',
     env_INBOUND_RELAY_MODE := Some ''enabled'', env_REPLY_RELAY_MODE := Some ''enabled'',
     env_REPLY_DOMAIN := Some ''reply.example.com'' \<rparr>"

definition ex_mime :: postal_email where
  "ex_mime = \<lparr> po_from = Some (Postal_Mailbox \<lparr> mb_name = [], mb_address = ''op@corp.test'' \<rparr>),
     po_subject = Some ''Hi'', po_text = Some ''Yes'', po_html = None, po_messageId = None, po_inReplyTo = None,
     po_references = None, po_attachments = [] \<rparr>"

definition ex_services :: services where
  "ex_services = \<lparr> sv_platform = ex_platform, sv_core = ex_core, sv_env = ex_env,
     sv_uuid = (\<lambda>n. ''uuid'' @ replicate n (CHR ''i'')), sv_random = (\<lambda>_. replicate 31 0), sv_julian = ex_instant,
     sv_timestamp = (\<lambda>_. ''now''), sv_json_parse = (\<lambda>_. Some (JObject [(''domains'', JObject [])])),
     sv_mime = (\<lambda>_. Inr ex_mime), sv_nfkc = id, sv_utf8_decode = (\<lambda>_. []), sv_code_point = (\<lambda>_. []),
     sv_number = (\<lambda>_. None), sv_addresses = (\<lambda>s. [Some s]), sv_rsa_bits = (\<lambda>_. Some 2048), sv_rsa_verify = (\<lambda>_ _ _. True),
     sv_url = (\<lambda>_. None) \<rparr>"

definition ex_admission :: admission_row where
  "ex_admission = \<lparr> ad_kind = Canary, ad_activation_id = None, ad_id = ''adm'', ad_transaction_sha256 = ex_digest,
     ad_relay_id = ''rel'', ad_thread_id = ''th'', ad_route_id = ''route:example.com:team'',
     ad_policy_sha256 = ex_digest, ad_desired_state_sha256 = ex_digest, ad_operator_set_sha256 = ex_digest,
     ad_admitted_operator_ref = ex_digest, ad_operator_id = None, ad_inbound_delivery_id = None, ad_public_identity = ''team@example.com'',
     ad_sender_domain = ''example.com'', ad_identity_profile_ref = ''profile:team'',
     ad_identity_profile_sha256 = ex_digest, ad_display_name = ''Team'',
     ad_signature_profile_ref = ''signature:team'', ad_signature_sha256 = ex_digest,
     ad_sender_adapter = ''cloudflare_email_service'', ad_admitted_at = ''earlier'', ad_expires_at = ''later'',
     ad_status = ''claimed'', ad_claimed_attempt_id = Some ex_claim_id,
     ad_claimed_attempt_sha256 = Some ex_digest, ad_claimed_payload_sha256 = Some ex_digest,
     ad_claimed_at = Some ''earlier'', ad_provider_boundary_at = None, ad_terminal_at = None, ad_error_code = None \<rparr>"

definition ex_attempt :: attempt_row where
  "ex_attempt = \<lparr> ra_id = ex_claim_id, ra_relay_id = ''rel'', ra_operator = ''op@corp.test'',
     ra_operator_message_id = ''<a@b>'', ra_raw_r2_key = Some ''key'', ra_raw_sha256 = Some ex_digest,
     ra_status = ''queued'', ra_provider_message_id = None, ra_error_code = None, ra_identity_version = 2,
     ra_payload_version = 2, ra_admission_kind = Some Canary, ra_admission_id = Some ''adm'',
     ra_transaction_sha256 = Some ex_digest, ra_attempt_sha256 = Some ex_digest,
     ra_claimed_payload_sha256 = Some ex_digest, ra_desired_state_sha256 = Some ex_digest,
     ra_identity_profile_sha256 = Some ex_digest, ra_policy_sha256 = Some ex_digest,
     ra_operator_ref = Some ex_digest, ra_operator_set_sha256 = Some ex_digest,
     ra_dispatch_received_at = Some ''earlier'' \<rparr>"

definition ex_db :: db where
  "ex_db = empty_db
     \<lparr> db_threads := [\<lparr> th_id = ''th'', th_domain_id = ''domain:example.com'', th_route_id = ''route:example.com:team'',
          th_external_sender = ''client@remote.test'', th_subject = Some ''Hi'' \<rparr>],
       db_relays := [\<lparr> rr_id = ''rel'', rr_token_sha256 = ''t'', rr_thread_id = ''th'', rr_route_id = ''route:example.com:team'',
          rr_external_recipient = ''client@remote.test'', rr_reply_identity = ''team@example.com'',
          rr_original_message_id = Some ''<o@remote.test>'', rr_references = Some (JArray []), rr_expires_at = ''later'',
          rr_revoked_at = None, rr_superseded_by = None \<rparr>],
       db_attempts := [ex_attempt], db_admissions := [ex_admission],
       db_routes := [\<lparr> ar_id = ''route:example.com:team'', ar_domain_id = ''domain:example.com'', ar_local_part = ''team'',
          ar_kind = ''role'', ar_decision_kind = ''role_alias'',
          ar_default_reply_identity_id = policyStorageId ''identity'' [''team@example.com''], ar_enabled = True,
          ar_policy_sha256 = Some ex_digest, ar_status_generation = 1 \<rparr>],
       db_domains := [\<lparr> dm_id = ''domain:example.com'', dm_domain = ''example.com'' \<rparr>],
       db_operators := [\<lparr> op_id = ''op'', op_email = ''op@corp.test'' \<rparr>],
       db_identities := [\<lparr> id_id = policyStorageId ''identity'' [''team@example.com''], id_domain_id = ''domain:example.com'',
          id_address = ''team@example.com'', id_kind = ''role'' \<rparr>],
       db_route_operators := [(''route:example.com:team'', ''op'')],
       db_bindings := [\<lparr> bi_route_id = ''route:example.com:team'', bi_operator_id = ''op'',
          bi_public_identity_id = policyStorageId ''identity'' [''team@example.com''],
          bi_policy_sha256 = ex_digest, bi_reply_mode = ''role_first'' \<rparr>],
       db_revisions := [\<lparr> pr_policy_sha256 = ex_digest, pr_r2_object_key = ''config/policy/'' @ ex_digest @ ''.json'',
          pr_expected_domain_count = 1, pr_expected_route_count = 1 \<rparr>],
       db_runtime := Some \<lparr> rt_active_policy_sha256 = ex_digest,
          rt_active_policy_r2_key = ''config/policy/'' @ ex_digest @ ''.json'' \<rparr>,
       db_projection_state := [(''active_desired_state_sha256'', ex_digest)],
       db_health := [\<lparr> rh_route_id = ''route:example.com:team'', rh_policy_sha256 = Some ex_digest,
          rh_desired_provider = ''cloudflare'', rh_last_inbox_verified_at = None, rh_last_reply_verified_at = None,
          rh_inbound_status = ''unobserved'', rh_reply_status = ''unobserved'', rh_last_reply_at = None,
          rh_last_inbound_at = None, rh_last_inbound_provider_accepted_at = None,
          rh_last_inbound_provider_message_ids = [], rh_last_reply_provider_accepted_at = None,
          rh_last_reply_provider_message_id = None, rh_last_error_code = None \<rparr>] \<rparr>"

definition ex_world :: world where
  "ex_world = (world_of 1000 ex_db)
     \<lparr> w_spool := [(''key'', [])], w_policy := [(''config/policy/'' @ ex_digest @ ''.json'', [])] \<rparr>"

definition ex_job :: inbox_job where
  "ex_job = \<lparr> ij_schemaVersion = JInt 2, ij_payloadVersion = JInt 2, ij_admissionKind = JString ''canary'',
     ij_activationId = JUndefined, ij_attemptId = ex_claim_id, ij_admissionId = ''adm'',
     ij_transactionSha256 = ex_digest, ij_attemptSha256 = ex_digest, ij_claimedPayloadSha256 = ex_digest,
     ij_desiredStateSha256 = ex_digest, ij_identityProfileSha256 = ex_digest, ij_relayId = ''rel'',
     ij_operator = ''op@corp.test'', ij_operatorMessageId = ''<a@b>'', ij_rawR2Key = ''key'',
     ij_rawSha256 = ex_digest, ij_receivedAt = ''earlier'' \<rparr>"

section \<open>What the examples satisfy\<close>

lemma ex_digest_hex [simp]: "is_sha256_hex ex_digest"
  by (simp add: ex_digest_def is_sha256_hex_def js_defs list_all_iff)

lemma ex_config [simp]: "odc_mode (operatorDeliveryConfig (sv_env ex_services)) = Inbox_Relay"
  by (simp add: operatorDeliveryConfig_def ex_services_def ex_env_def empty_env_def Let_def)

lemma ex_single_call: "single_call_mode ex_services"
  by (simp add: single_call_mode_def configuredOutboundMode_def Let_def with_default_def) (simp add: ex_services_def ex_env_def empty_env_def)

lemma ex_claim_id_length [simp]: "length ex_claim_id = 78" "ex_claim_id \<noteq> []"
  by (simp_all add: ex_claim_id_def attempt_prefix_def ex_digest_def)

lemma ex_job_ok: "inbox_job_ok ex_job"
  unfolding inbox_job_ok_def authorizationShape_def replyAuthorizationKind_def inbox_job_fields
  by (simp add: ex_job_def bounded_text_def)

abbreviation ex_batch :: "(jv \<times> nat) list" where
  \<comment> \<open>the job, and the job again\<close>
  "ex_batch \<equiv> [(inbox_job_json ex_job, 1), (inbox_job_json ex_job, 2)]"

lemma ex_batch_named: "batch_names (\<lambda>i. i = ''adm'') ex_batch"
  by (simp add: batch_names_def inbox_job_decodes [OF ex_job_ok] inbox_job_roundtrip names_admission_def)
     (simp add: ex_job_def)

lemma ex_world_fields [simp]: "w_calls ex_world = []" "w_ticks ex_world = []" "w_db ex_world = ex_db"
  by (simp_all add: ex_world_def world_of_def)

lemma ex_open_count: "open_count (\<lambda>i. i = ''adm'') ex_db = 1"
  by (simp add: open_count_def ex_db_def open_for_def ex_admission_def empty_db_def)

end
