(* ===== verification/Example_Policy.thy ===== *)
theory Example_Policy
  imports Example_Data Settlement
begin

text \<open>
  The evaluated examples. The installation loads its policy: the pointer, the object, the projection and the route table
  agree. A reply passes the privacy check, and a text is rendered. Evaluated in the
  kernel, which takes a minute or two; they have a theory of their own for that reason.
\<close>

definition ex_loads :: bool where
  "ex_loads =
     (case fst (loadActivePolicy ex_services ex_world) of
        Inr (Some v) \<Rightarrow> map (\<lambda>(r, _). (de_domain r, de_localPart r, de_operators r)) (pp_routes (ap_projection v)) =
          [(''example.com'', ''team'', [''op@corp.test''])]
      | _ \<Rightarrow> False)"

lemma ex_loads: ex_loads
  by code_simp

lemma ex_policy_route:
  obtains v r ref where "fst (loadActivePolicy ex_services ex_world) = Inr (Some v)" "pp_routes (ap_projection v) = [(r, ref)]"
    "de_domain r = ''example.com''" "de_localPart r = ''team''" "de_operators r = [''op@corp.test'']"
proof -
  obtain v where v: "fst (loadActivePolicy ex_services ex_world) = Inr (Some v)"
    "map (\<lambda>(r, _). (de_domain r, de_localPart r, de_operators r)) (pp_routes (ap_projection v)) =
       [(''example.com'', ''team'', [''op@corp.test''])]"
    using ex_loads unfolding ex_loads_def by (auto split: sum.splits option.splits)
  from v(2) obtain p where "pp_routes (ap_projection v) = [p]"
    "(de_domain (fst p), de_localPart (fst p), de_operators (fst p)) = (''example.com'', ''team'', [''op@corp.test''])"
    by (auto simp: case_prod_unfold)
  with that [of v "fst p" "snd p"] v(1) show thesis by simp
qed

lemma ex_policy_loads:
  obtains v where "fst (loadActivePolicy ex_services ex_world) = Inr (Some v)" "length (pp_routes (ap_projection v)) = 1"
  by (rule ex_policy_route) (simp add: that)

lemma ex_mode: "env_OPERATOR_DELIVERY_MODE (sv_env ex_services) = Some ''inbox_relay''"
  by (simp add: ex_services_def ex_env_def)

definition ex_reply :: outbound_job where
  "ex_reply = (as_outbound_job JNull)\<lparr>oj_fromIdentity := ''t@x'', oj_to := [''c@r''], oj_text := Some ''Yes''\<rparr>"

lemma ex_reply_private: "outboundPrivacyFailure ex_services ex_reply JNull = None"
  by code_simp

lemma ex_public_text: "renderPublicReplyText ''Yes'' ''Team'' = Inr (''Yes'' @ signature_block ''Team'')"
  by code_simp

lemma ex_collation: "locale_order (pf_locale_le ex_platform)"
  unfolding locale_order_def by (simp add: ex_platform_def) (metis lexordp_eq_linear lexordp_eq_trans)

definition ex_terminal_job :: outbound_job where
  "ex_terminal_job = (as_outbound_job JNull)\<lparr>oj_messageId := ''m'', oj_relayAttemptId := Some ex_claim_id,
     oj_admissionId := None, oj_policySha256 := Some ex_digest\<rparr>"

definition ex_failure :: send_result where
  "ex_failure = (send_failure ''resend'' ''e'')\<lparr>sr_retryable := Some True\<rparr>"

lemma ex_terminal_job_fields:
  "oj_relayAttemptId ex_terminal_job = Some ex_claim_id" "oj_admissionId ex_terminal_job = None"
  "oj_policySha256 ex_terminal_job = Some ex_digest" "ex_digest \<noteq> []"
  by (simp_all add: ex_terminal_job_def ex_digest_def)

lemma ex_terminal_records: "fst (recordTerminalSendEvent ex_services ex_terminal_job Reply_Failed ex_failure ex_world) = Inr ()"
  by (simp add: recordTerminalSendEvent_def Let_def andThen_def recordAuditEvent_def randomUUID_def quiet_simps
      insertAudit_def audit_conflict_def finalizeTerminalSendState_def followedBy_def unless_def ex_terminal_job_fields
      truthy_def finish_attempt_def update_attempts_def attempt_aborts_def cleanup_spool_def)
     (simp add: project_reply_health_def update_health_def changes_def sql_eq_def route_of_attempt_def attempt_by_id_def
      relay_by_id_def active_policy_def ex_terminal_job_fields first_row_def ex_db_def empty_db_def update_where_def
      ex_attempt_def attempt_terminal_def)

definition ex_status_input :: route_status_input where
  "ex_status_input = \<lparr> si_policySha256 = ex_digest, si_sourceGeneration = Some 1, si_bindingCurrent = True,
     si_enabled = True, si_routeKind = ''role_alias'', si_enrollment = Required, si_inboundProcessing = P_Enabled,
     si_replyProcessing = P_Enabled, si_ordinaryProcessing = P_Enabled, si_activationId = Some ''a'',
     si_quarantined = False, si_inboundStatus = None, si_replyStatus = None,
     si_inboxObservedAt = Some ''2026-01-01T00:00:00Z'', si_replyObservedAt = Some ''2026-01-01T00:00:00Z'',
     si_pendingDispatch = 0, si_pendingQueue = 0, si_unknownProviderAttempts = 0 \<rparr>"

lemma ex_fresh: "proofFreshness ex_platform (Some ''2026-01-01T00:00:00Z'') 1000 86400000 = Fresh"
  by code_simp

definition ex_clock :: platform where
  \<comment> \<open>instants written in unary\<close>
  "ex_clock = ex_platform
     \<lparr> pf_to_iso := \<lambda>t. (if t < 0 then CHR ''-'' # replicate (nat (- t)) (CHR ''i'') else replicate (nat t) (CHR ''i'')),
       pf_date_parse := \<lambda>s. Some (case s of CHR ''-'' # r \<Rightarrow> - int (length r) | _ \<Rightarrow> int (length s)) \<rparr>"

lemma ex_clock_ok: "clock_ok ex_clock"
proof -
  have "pf_date_parse ex_clock (pf_to_iso ex_clock t) = Some t" for t
  proof (cases "t < 0")
    case True
    then show ?thesis by (simp add: ex_clock_def)
  next
    case False
    then show ?thesis by (cases "nat t") (auto simp: ex_clock_def ex_platform_def)
  qed
  then show ?thesis by (simp add: clock_ok_def)
qed

definition ex_status_row :: status_input_row where
  "ex_status_row = \<lparr> sw_route_id = ''route:example.com:team'', sw_source_generation = 1, sw_enabled = True,
     sw_policy_sha256 = Some ex_digest, sw_desired_provider = ''cloudflare'', sw_inbound_status = None,
     sw_reply_status = None, sw_last_inbox_verified_at = None, sw_last_reply_verified_at = None,
     sw_authorizations = JArray [], sw_pending_dispatch = 0, sw_pending_queue = 0,
     sw_unknown_provider_attempts = 0, sw_quarantined = False \<rparr>"

end
