(* ===== verification/Reply_Repository.thy ===== *)
theory Reply_Repository
  imports Queue
begin

text \<open>
  \<^verbatim>\<open>workers/shared/reply-repository.ts\<close> and \<^verbatim>\<open>claimOrdinaryReply\<close> of \<^verbatim>\<open>ordinary-reply.ts\<close>: the reads by which the
  mail router finds the relay of a token, and the two statements that claim an admission for a reply. The
  triggers of \<^verbatim>\<open>migrations/0012\<close> to \<^verbatim>\<open>0014\<close> that run with these statements are part of them: a statement that a
  constraint or a trigger aborts changes nothing.
\<close>

section \<open>Relays\<close>

definition active_relay :: "string \<Rightarrow> db \<Rightarrow> relay_view option" where
  \<comment> \<open>the query of \<^verbatim>\<open>loadActiveRelay\<close>\<close>
  "active_relay tokenHash d =
     (case first_row (\<lambda>rr. rr_token_sha256 rr = tokenHash) (db_relays d) of
        None \<Rightarrow> None
      | Some rr \<Rightarrow>
          if relay_open rr \<and> \<not> route_quarantined (rr_route_id rr) d then relay_view_of rr d else None)"

definition loadActiveRelay :: "services \<Rightarrow> string \<Rightarrow> relay_view option act" where
  "loadActiveRelay sv tokenHash =
     andThen (d1 (query (\<lambda>_ d. active_relay tokenHash d))) (\<lambda>relay.
     andThen readClock (\<lambda>now.
       ret (case relay of
              None \<Rightarrow> None
            | Some v \<Rightarrow>
                if relayRecordIsActive (sv_platform sv) (rr_expires_at (rv_relay v)) (rr_revoked_at (rv_relay v)) now
                then Some v else None)))"

definition reconciliation_relay :: "string \<Rightarrow> db \<Rightarrow> relay_view option" where
  "reconciliation_relay tokenHash d =
     (case first_row (\<lambda>rr. rr_token_sha256 rr = tokenHash) (db_relays d) of
        None \<Rightarrow> None
      | Some rr \<Rightarrow>
          (case (thread_by_id (rr_thread_id rr) d, route_by_id (rr_route_id rr) d) of
             (Some th, Some ar) \<Rightarrow>
               if th_route_id th = rr_route_id rr
               then map_option (\<lambda>address. \<lparr> rv_relay = rr, rv_thread_external_sender = sql_lower (th_external_sender th),
                      rv_route_address = address \<rparr>) (route_address d ar)
               else None
           | _ \<Rightarrow> None))"

definition loadRelayForReconciliation :: "string \<Rightarrow> relay_view option act" where
  "loadRelayForReconciliation tokenHash = d1 (query (\<lambda>_ d. reconciliation_relay tokenHash d))"

definition loadRelayContainmentBlocker :: "string \<Rightarrow> string option act" where
  \<comment> \<open>\<^verbatim>\<open>RELAY_CONTAINMENT_BY_TOKEN_SQL\<close>\<close>
  "loadRelayContainmentBlocker tokenHash =
     tryCatch
       (d1 (query (\<lambda>_ d. Option.bind (first_row (\<lambda>rr. rr_token_sha256 rr = tokenHash) (db_relays d)) (\<lambda>rr. blocker_of rr d))))
       (\<lambda>_. ret (Some ''containment_state_unavailable''))"

definition isValidRelayMessageId :: "string \<Rightarrow> bool" where
  "isValidRelayMessageId value \<longleftrightarrow> length value \<le> 998 \<and> is_angle_id value"

definition storedRelayReferences :: "jv option \<Rightarrow> string list" where
  \<comment> \<open>the argument is what \<^verbatim>\<open>JSON.parse\<close> makes of the column, \<^const>\<open>None\<close> when it throws\<close>
  "storedRelayReferences value =
     (case value of
        Some (JArray vs) \<Rightarrow> filter isValidRelayMessageId (List.map_filter as_string vs)
      | _ \<Rightarrow> [])"

definition relayConversationHeaders :: "relay_row \<Rightarrow> (string \<times> string) list" where
  "relayConversationHeaders rr =
     (let original = (case rr_original_message_id rr of
            None \<Rightarrow> [] | Some m \<Rightarrow> if m \<noteq> [] \<and> isValidRelayMessageId m then [m] else []);
          references = storedRelayReferences (rr_references rr) @ original in
      map (\<lambda>i. (''In-Reply-To'', i)) original @
      (if references \<noteq> [] then [(''References'', join '' '' (uniq references))] else []))"

definition loadRelayAttempt :: "string \<Rightarrow> attempt_row option act" where
  "loadRelayAttempt attemptId = d1 (query (\<lambda>_ d. attempt_by_id (Some attemptId) d))"

definition replyAttemptStagingKey :: "string \<Rightarrow> string \<Rightarrow> string \<Rightarrow> string" where
  \<comment> \<open>the last argument is the nonce\<close>
  "replyAttemptStagingKey attemptId receivedAt nonce = relaySpoolKey (attemptId @ ''.'' @ nonce) receivedAt"

section \<open>Canary admissions\<close>

definition active_reply_admission ::
  "services \<Rightarrow> string \<Rightarrow> string \<Rightarrow> string \<Rightarrow> string \<Rightarrow> string \<Rightarrow> string \<Rightarrow> int \<Rightarrow> db \<Rightarrow> admission_row option" where
  \<comment> \<open>\<^verbatim>\<open>ACTIVE_REPLY_ADMISSION_SQL\<close>: relay, operator, operator set, identity profile, identity, policy\<close>
  "active_reply_admission sv relayId operatorRef operatorSet identityProfile publicIdentity policy t d =
     first_row (\<lambda>ra.
       ad_kind ra = Canary \<and> ad_relay_id ra = relayId \<and> ad_admitted_operator_ref ra = operatorRef \<and>
       ad_operator_set_sha256 ra = operatorSet \<and> ad_identity_profile_sha256 ra = identityProfile \<and>
       sql_lower (ad_public_identity ra) = publicIdentity \<and> ad_policy_sha256 ra = policy \<and>
       ad_status ra = ''admitted'' \<and> admission_window sv t ra \<and>
       active_policy d = Some (ad_policy_sha256 ra) \<and>
       projection_value ''active_desired_state_sha256'' d = Some (ad_desired_state_sha256 ra) \<and>
       (case relay_by_id (ad_relay_id ra) d of
          None \<Rightarrow> False
        | Some rr \<Rightarrow>
            ad_thread_id ra = rr_thread_id rr \<and> ad_route_id ra = rr_route_id rr \<and> relay_open rr \<and>
            relay_unexpired sv t rr \<and> \<not> route_quarantined (rr_route_id rr) d \<and>
            list_ex (\<lambda>dl. Some (dl_id dl) = ad_inbound_delivery_id ra \<and> dl_relay_id dl = rr_id rr \<and>
               dl_thread_id dl = rr_thread_id rr \<and> dl_route_id dl = rr_route_id rr \<and>
               dl_policy_sha256 dl = ad_policy_sha256 ra) (db_deliveries d) \<and>
            (case route_by_id (rr_route_id rr) d of
               None \<Rightarrow> False
             | Some ar \<Rightarrow> ar_enabled ar \<and> ar_policy_sha256 ar = Some (ad_policy_sha256 ra)))) (db_admissions d)"

definition loadActiveReplyAdmission ::
  "services \<Rightarrow> string \<Rightarrow> string \<Rightarrow> string \<Rightarrow> string \<Rightarrow> string \<Rightarrow> string \<Rightarrow> admission_row option act" where
  "loadActiveReplyAdmission sv relayId operatorRef operatorSet identityProfile publicIdentity policy =
     d1 (query (active_reply_admission sv relayId operatorRef operatorSet identityProfile
       (normalizeMailbox publicIdentity) policy))"

section \<open>The insertion of an attempt\<close>

definition attempt_insertable :: "services \<Rightarrow> attempt_row \<Rightarrow> db \<Rightarrow> bool" where
  \<comment> \<open>the keys of \<^verbatim>\<open>relay_attempts\<close>, its foreign keys and checks, \<^verbatim>\<open>relay_attempts_require_bound_dispatch\<close> and
      \<^verbatim>\<open>relay_attempts_route_quarantine\<close>, for a row whose bound columns are all given\<close>
  "attempt_insertable sv rat d \<longleftrightarrow>
     \<not> list_ex (\<lambda>r. ra_id r = ra_id rat \<or>
          (ra_relay_id r = ra_relay_id rat \<and> ra_operator_message_id r = ra_operator_message_id rat) \<or>
          (sql_eq (ra_admission_kind r) (ra_admission_kind rat) \<and> sql_eq (ra_admission_id r) (ra_admission_id rat)))
        (db_attempts d) \<and>
     (case relay_by_id (ra_relay_id rat) d of None \<Rightarrow> False | Some rr \<Rightarrow> \<not> route_quarantined (rr_route_id rr) d) \<and>
     list_ex (\<lambda>p. Some (pr_policy_sha256 p) = ra_policy_sha256 rat) (db_revisions d) \<and>
     list_all digest [ra_transaction_sha256 rat, ra_attempt_sha256 rat, ra_claimed_payload_sha256 rat,
       ra_desired_state_sha256 rat, ra_identity_profile_sha256 rat, ra_operator_ref rat, ra_operator_set_sha256 rat] \<and>
     pred_option (\<lambda>r. length r = 64) (ra_raw_sha256 rat) \<and> julian sv (ra_dispatch_received_at rat) \<noteq> None"

definition canary_claimable :: "services \<Rightarrow> attempt_row \<Rightarrow> int \<Rightarrow> db \<Rightarrow> admission_row \<Rightarrow> bool" where
  \<comment> \<open>the WHERE clause of the trigger \<^verbatim>\<open>relay_attempts_claim_canary\<close>\<close>
  "canary_claimable sv rat t d ra \<longleftrightarrow>
     Some (ad_id ra) = ra_admission_id rat \<and> Some (ad_transaction_sha256 ra) = ra_transaction_sha256 rat \<and>
     ad_status ra = ''admitted'' \<and> ad_relay_id ra = ra_relay_id rat \<and>
     Some (ad_policy_sha256 ra) = ra_policy_sha256 rat \<and>
     Some (ad_desired_state_sha256 ra) = ra_desired_state_sha256 rat \<and>
     Some (ad_identity_profile_sha256 ra) = ra_identity_profile_sha256 rat \<and>
     Some (ad_admitted_operator_ref ra) = ra_operator_ref rat \<and>
     Some (ad_operator_set_sha256 ra) = ra_operator_set_sha256 rat \<and> admission_window sv t ra \<and>
     sql_eq (active_policy d) (ra_policy_sha256 rat) \<and>
     sql_eq (projection_value ''active_desired_state_sha256'' d) (ra_desired_state_sha256 rat) \<and>
     (case relay_by_id (ra_relay_id rat) d of
        None \<Rightarrow> False
      | Some rr \<Rightarrow>
          rr_route_id rr = ad_route_id ra \<and> rr_thread_id rr = ad_thread_id ra \<and> relay_open rr \<and> relay_unexpired sv t rr \<and>
          (case route_by_id (rr_route_id rr) d of
             None \<Rightarrow> False
           | Some ar \<Rightarrow>
               ar_enabled ar \<and> sql_eq (ar_policy_sha256 ar) (ra_policy_sha256 rat) \<and>
               list_ex (\<lambda>(r, i). r = ar_id ar \<and> operator_email d i = Some (ra_operator rat) \<and>
                 list_ex (\<lambda>bi. bi_route_id bi = rr_route_id rr \<and> bi_operator_id bi = i \<and>
                   Some (bi_policy_sha256 bi) = ra_policy_sha256 rat \<and>
                   identity_address d (bi_public_identity_id bi) = Some (ad_public_identity ra)) (db_bindings d))
                 (db_route_operators d)))"

definition claimed_by :: "services \<Rightarrow> attempt_row \<Rightarrow> int \<Rightarrow> admission_row \<Rightarrow> admission_row" where
  "claimed_by sv rat t ra =
     ra\<lparr>ad_status := ''claimed'', ad_claimed_attempt_id := Some (ra_id rat),
        ad_claimed_attempt_sha256 := ra_attempt_sha256 rat, ad_claimed_payload_sha256 := ra_claimed_payload_sha256 rat,
        ad_claimed_at := Some (sv_timestamp sv t)\<rparr>"

definition claim_canary :: "services \<Rightarrow> attempt_row \<Rightarrow> nat statement" where
  \<comment> \<open>the trigger; \<^verbatim>\<open>claimed_attempt_id\<close> is unique\<close>
  "claim_canary sv rat t d =
     (if list_ex (\<lambda>ra. ad_kind ra = Canary \<and> ad_claimed_attempt_id ra = Some (ra_id rat)) (db_admissions d)
      then Inl (Err ''UNIQUE constraint failed: reply_admissions.claimed_attempt_id'')
      else (case update_admissions Canary (canary_claimable sv rat t d) (claimed_by sv rat t) t d of
              Inl e \<Rightarrow> Inl e
            | Inr (n, d') \<Rightarrow> if n \<noteq> 1 then Inl (Err ''canary admission claim lost'') else Inr (n, d')))"

definition canary_attempt ::
  "string \<Rightarrow> relay_row \<Rightarrow> string \<Rightarrow> string \<Rightarrow> string \<Rightarrow> string \<Rightarrow> string \<Rightarrow> string \<Rightarrow> string \<Rightarrow> admission_row \<Rightarrow> attempt_row" where
  \<comment> \<open>the row that \<^verbatim>\<open>INSERT_ADMITTED_RELAY_ATTEMPT_SQL\<close> selects for an admission\<close>
  "canary_attempt attemptId relay operator messageId rawKey raw attemptSha payloadSha receivedAt ra =
     \<lparr> ra_id = attemptId, ra_relay_id = rr_id relay, ra_operator = operator, ra_operator_message_id = messageId,
       ra_raw_r2_key = Some rawKey, ra_raw_sha256 = Some raw, ra_status = ''receiving'', ra_provider_message_id = None,
       ra_error_code = None, ra_identity_version = 2, ra_payload_version = 2, ra_admission_kind = Some Canary,
       ra_admission_id = Some (ad_id ra), ra_transaction_sha256 = Some (ad_transaction_sha256 ra),
       ra_attempt_sha256 = Some attemptSha, ra_claimed_payload_sha256 = Some payloadSha,
       ra_desired_state_sha256 = Some (ad_desired_state_sha256 ra),
       ra_identity_profile_sha256 = Some (ad_identity_profile_sha256 ra), ra_policy_sha256 = Some (ad_policy_sha256 ra),
       ra_operator_ref = Some (ad_admitted_operator_ref ra), ra_operator_set_sha256 = Some (ad_operator_set_sha256 ra),
       ra_dispatch_received_at = Some receivedAt \<rparr>"

record canary_claim =
  \<comment> \<open>the first argument of \<^verbatim>\<open>claimRelayAttemptAndAdmission\<close>; the policy digest in it is not used\<close>
  cc_attemptId :: string
  cc_relay :: relay_row
  cc_operator :: string
  cc_operatorMessageId :: string
  cc_rawR2Key :: string
  cc_rawSha256 :: string
  cc_claimedPayloadSha256 :: string
  cc_attemptSha256 :: string
  cc_admission :: admission_row
  cc_expectedRoute :: route_decision
  cc_receivedAt :: string

definition insert_admitted_attempt :: "services \<Rightarrow> canary_claim \<Rightarrow> nat statement" where
  \<comment> \<open>\<^verbatim>\<open>INSERT_ADMITTED_RELAY_ATTEMPT_SQL\<close>\<close>
  "insert_admitted_attempt sv c t d =
     (case first_row (\<lambda>ra.
             ad_kind ra = Canary \<and> ad_id ra = ad_id (cc_admission c) \<and>
             ad_transaction_sha256 ra = ad_transaction_sha256 (cc_admission c) \<and> ad_relay_id ra = rr_id (cc_relay c) \<and>
             ad_status ra = ''admitted'' \<and> admission_window sv t ra \<and> active_policy d = Some (ad_policy_sha256 ra) \<and>
             projection_value ''active_desired_state_sha256'' d = Some (ad_desired_state_sha256 ra) \<and>
             (case relay_by_id (ad_relay_id ra) d of None \<Rightarrow> False | Some rr \<Rightarrow> relay_open rr) \<and>
             guarded_route (ad_route_id ra) (cc_expectedRoute c) d \<and> \<not> route_quarantined (ad_route_id ra) d)
           (db_admissions d) of
        None \<Rightarrow> Inr (0, d)
      | Some ra \<Rightarrow>
          let rat = canary_attempt (cc_attemptId c) (cc_relay c) (cc_operator c) (cc_operatorMessageId c) (cc_rawR2Key c)
                (cc_rawSha256 c) (cc_attemptSha256 c) (cc_claimedPayloadSha256 c) (cc_receivedAt c) ra in
          if \<not> attempt_insertable sv rat d then Inl (Err ''reply dispatch requires immutable authorization'')
          else claim_canary sv rat t (d\<lparr>db_attempts := db_attempts d @ [rat]\<rparr>))"

definition claimRelayAttemptAndAdmission :: "services \<Rightarrow> canary_claim \<Rightarrow> (string \<times> string \<times> string) option act" where
  \<comment> \<open>the status, the key and the digest of the inserted row\<close>
  "claimRelayAttemptAndAdmission sv c =
     andThen (liftE (routeReplyIdentityBindings (cc_expectedRoute c))) (\<lambda>_.
     andThen (d1 (insert_admitted_attempt sv c)) (\<lambda>n.
       ret (if n = 0 then None else Some (''receiving'', cc_rawR2Key c, cc_rawSha256 c))))"

definition exact_duplicate_claim :: "services \<Rightarrow> canary_claim \<Rightarrow> int \<Rightarrow> db \<Rightarrow> attempt_row option" where
  \<comment> \<open>\<^verbatim>\<open>EXACT_DUPLICATE_REPLY_CLAIM_SQL\<close>\<close>
  "exact_duplicate_claim sv c t d =
     (case attempt_by_id (Some (cc_attemptId c)) d of
        None \<Rightarrow> None
      | Some rat \<Rightarrow>
          if ra_relay_id rat = rr_id (cc_relay c) \<and> sql_lower (ra_operator rat) = normalizeMailbox (cc_operator c) \<and>
             ra_operator_message_id rat = cc_operatorMessageId c \<and> ra_raw_sha256 rat = Some (cc_rawSha256 c) \<and>
             list_ex (\<lambda>rad. ad_id rad = ad_id (cc_admission c) \<and>
               ad_transaction_sha256 rad = ad_transaction_sha256 (cc_admission c) \<and>
               ad_claimed_attempt_sha256 rad = Some (cc_attemptSha256 c) \<and>
               ad_claimed_payload_sha256 rad = Some (cc_claimedPayloadSha256 c) \<and>
               ad_desired_state_sha256 rad = ad_desired_state_sha256 (cc_admission c) \<and>
               ad_identity_profile_sha256 rad = ad_identity_profile_sha256 (cc_admission c) \<and>
               ad_status rad \<in> {''claimed'', ''sending'', ''provider_accepted'', ''failed'', ''recovery_required''} \<and>
               sql_le (sv_julian sv (ad_admitted_at rad)) (Some t)) (admissions_of_attempt rat d)
          then Some rat else None)"

definition loadExactDuplicateReplyClaim :: "services \<Rightarrow> canary_claim \<Rightarrow> attempt_row option act" where
  "loadExactDuplicateReplyClaim sv c = d1 (query (exact_duplicate_claim sv c))"

definition recordReplyDuplicateSuppressed ::
  "services \<Rightarrow> string \<Rightarrow> relay_row \<Rightarrow> admission_row \<Rightarrow> string \<Rightarrow> string \<Rightarrow> unit act" where
  "recordReplyDuplicateSuppressed sv attemptId relay admission attemptSha256 operator =
     recordAudit sv (attemptId @ '':inbox_reply_duplicate_suppressed'') (Some (rr_thread_id relay))
       (''operator:'' @ sha sv (normalizeMailbox operator)) ''inbox_reply_duplicate_suppressed''
       (JObject [(''attemptId'', JString attemptId), (''relayId'', JString (rr_id relay)),
                 (''transactionSha256'', JString (ad_transaction_sha256 admission)),
                 (''attemptSha256'', JString attemptSha256), (''outcome'', JString ''duplicate_suppressed''),
                 (''providerReplay'', JBool False)])"

section \<open>Ordinary admissions\<close>

datatype authentication_status = Verified | Rejected | Indeterminate

record ordinary_binding =
  ob_recipientSha256 :: string
  ob_messageIdSha256 :: string

record operator_authentication =
  au_status :: authentication_status
  au_signingDomain :: "string option"
  au_selectorHash :: "string option"
  au_alignedOperatorId :: "string option"
  au_boundedErrorCode :: "string option"
  au_verifiedAt :: string
  au_ordinaryBinding :: "ordinary_binding option"
  au_ordinaryBindingError :: "string option"

record ordinary_claim =
  oc_activation :: activation_row
  oc_relay :: relay_row
  oc_profile :: identity_profile
  oc_authentication :: operator_authentication
  oc_operator :: string
  oc_operatorRef :: string
  oc_attemptId :: string
  oc_messageId :: string
  oc_rawSha256 :: string
  oc_rawR2Key :: string
  oc_payloadSha256 :: string
  oc_receivedAt :: string
  oc_expectedRoute :: route_decision

definition ordinary_expiry :: "services \<Rightarrow> ordinary_claim \<Rightarrow> string option" where
  \<comment> \<open>\<^const>\<open>None\<close> when \<^verbatim>\<open>toISOString\<close> throws on an invalid date\<close>
  "ordinary_expiry sv c =
     (case pf_date_parse (sv_platform sv) (rr_expires_at (oc_relay c)) of
        None \<Rightarrow> None
      | Some relayEnd \<Rightarrow>
          if \<not> truthy (ac_expires_at (oc_activation c)) then Some (pf_to_iso (sv_platform sv) relayEnd)
          else (case pf_date_parse (sv_platform sv) (the (ac_expires_at (oc_activation c))) of
                  None \<Rightarrow> None
                | Some activationEnd \<Rightarrow> Some (pf_to_iso (sv_platform sv) (min relayEnd activationEnd))))"

definition ordinary_transaction :: "services \<Rightarrow> ordinary_claim \<Rightarrow> ordinary_binding \<Rightarrow> string \<Rightarrow> string" where
  "ordinary_transaction sv c b expiresAt =
     (let a = oc_activation c; r = oc_relay c in
      sha sv (json_stringify (JObject
        [(''schema_version'', JInt 2), (''admission_kind'', JString ''ordinary''), (''activation_id'', JString (ac_id a)),
         (''relay_id'', JString (rr_id r)), (''thread_id'', JString (rr_thread_id r)), (''route_id'', JString (rr_route_id r)),
         (''operator_ref'', JString (oc_operatorRef c)), (''raw_sha256'', JString (oc_rawSha256 c)),
         (''message_id_sha256'', JString (ob_messageIdSha256 b)),
         (''signed_recipient_sha256'', JString (ob_recipientSha256 b)),
         (''claimed_payload_sha256'', JString (oc_payloadSha256 c)),
         (''external_recipient'', JString (rr_external_recipient r)),
         (''identity_profile_sha256'', JString (ac_identity_profile_sha256 a)),
         (''policy_sha256'', JString (ac_policy_sha256 a)), (''desired_state_sha256'', JString (ac_desired_state_sha256 a)),
         (''sender_adapter'', JString (ac_sender_adapter a)), (''admitted_at'', JString (oc_receivedAt c)),
         (''expires_at'', JString expiresAt)])))"

definition ordinary_attempt_sha :: "services \<Rightarrow> ordinary_claim \<Rightarrow> ordinary_binding \<Rightarrow> string \<Rightarrow> string" where
  "ordinary_attempt_sha sv c b transactionSha256 =
     sha sv (join [CHR 0x00] [''maildesk-reply-attempt-v2'', transactionSha256, ob_messageIdSha256 b, oc_rawSha256 c,
       oc_payloadSha256 c])"

definition ordinary_admission ::
  "services \<Rightarrow> ordinary_claim \<Rightarrow> ordinary_binding \<Rightarrow> string \<Rightarrow> admission_row" where
  \<comment> \<open>the inserted row\<close>
  "ordinary_admission sv c b expiresAt =
     (let a = oc_activation c; r = oc_relay c; p = oc_profile c;
          transactionSha256 = ordinary_transaction sv c b expiresAt in
      \<lparr> ad_kind = Ordinary, ad_activation_id = Some (ac_id a), ad_id = ''ordinary-admission:'' @ transactionSha256,
        ad_transaction_sha256 = transactionSha256, ad_relay_id = rr_id r, ad_thread_id = rr_thread_id r,
        ad_route_id = rr_route_id r, ad_policy_sha256 = ac_policy_sha256 a,
        ad_desired_state_sha256 = ac_desired_state_sha256 a, ad_operator_set_sha256 = ac_operator_set_sha256 a,
        ad_admitted_operator_ref = oc_operatorRef c, ad_operator_id = Some (policyStorageId ''operator'' [oc_operator c]),
        ad_inbound_delivery_id = None, ad_public_identity = rr_reply_identity r, ad_sender_domain = ac_sender_domain a,
        ad_identity_profile_ref = ip_profileRef p, ad_identity_profile_sha256 = ac_identity_profile_sha256 a,
        ad_display_name = ip_displayName p, ad_signature_profile_ref = ip_signatureProfileRef p,
        ad_signature_sha256 = sha sv (ip_signatureText p), ad_sender_adapter = adapter_name (ip_senderAdapter p),
        ad_admitted_at = oc_receivedAt c, ad_expires_at = expiresAt, ad_status = ''claimed'',
        ad_claimed_attempt_id = Some (oc_attemptId c),
        ad_claimed_attempt_sha256 = Some (ordinary_attempt_sha sv c b transactionSha256),
        ad_claimed_payload_sha256 = Some (oc_payloadSha256 c), ad_claimed_at = Some (oc_receivedAt c),
        ad_provider_boundary_at = None, ad_terminal_at = None, ad_error_code = None \<rparr>)"

definition ordinary_authorized :: "services \<Rightarrow> ordinary_claim \<Rightarrow> admission_row \<Rightarrow> int \<Rightarrow> db \<Rightarrow> bool" where
  \<comment> \<open>the condition of the trigger \<^verbatim>\<open>ordinary_reply_admission_require_current\<close>\<close>
  "ordinary_authorized sv c ra t d \<longleftrightarrow>
     list_ex (\<lambda>a. Some (ac_id a) = ad_activation_id ra \<and> ac_policy_sha256 a = ad_policy_sha256 ra \<and>
       ac_desired_state_sha256 a = ad_desired_state_sha256 ra \<and> ac_route_id a = ad_route_id ra \<and>
       ac_public_identity a = ad_public_identity ra \<and> ac_identity_profile_ref a = ad_identity_profile_ref ra \<and>
       ac_identity_profile_sha256 a = ad_identity_profile_sha256 ra \<and>
       ac_operator_set_sha256 a = ad_operator_set_sha256 ra \<and> ac_sender_adapter a = ad_sender_adapter ra \<and>
       ac_sender_domain a = ad_sender_domain ra \<and>
       list_ex (\<lambda>(r, i). r = ac_route_id a \<and> Some i = ad_operator_id ra \<and>
         list_ex (\<lambda>bi. bi_route_id bi = ac_route_id a \<and> bi_operator_id bi = i \<and>
           bi_policy_sha256 bi = ad_policy_sha256 ra \<and>
           identity_address d (bi_public_identity_id bi) = Some (ad_public_identity ra)) (db_bindings d))
         (db_route_operators d) \<and>
       (case relay_by_id (ad_relay_id ra) d of
          None \<Rightarrow> False
        | Some rr \<Rightarrow>
            rr_route_id rr = ac_route_id a \<and> rr_thread_id rr = ad_thread_id ra \<and> relay_open rr \<and>
            rr_external_recipient rr = rr_external_recipient (oc_relay c) \<and>
            sql_le (sv_julian sv (ad_expires_at ra)) (sv_julian sv (rr_expires_at rr)) \<and>
            (case thread_by_id (rr_thread_id rr) d of
               None \<Rightarrow> False
             | Some th \<Rightarrow>
                 th_route_id th = rr_route_id rr \<and>
                 sql_lower (th_external_sender th) = rr_external_recipient (oc_relay c))) \<and>
       (ac_expires_at a = None \<or> sql_le (sv_julian sv (ad_expires_at ra)) (julian sv (ac_expires_at a))) \<and>
       sql_le (sv_julian sv (ad_admitted_at ra)) (Some (t + 60000)) \<and>
       sql_less (Some t) (sv_julian sv (ad_expires_at ra))) (db_activations d)"

definition ordinary_insertable :: "services \<Rightarrow> admission_row \<Rightarrow> ordinary_claim \<Rightarrow> db \<Rightarrow> bool" where
  \<comment> \<open>the keys and checks of \<^verbatim>\<open>ordinary_reply_admissions\<close>; \<^verbatim>\<open>LIKE\<close> ignores the case of ASCII letters\<close>
  "ordinary_insertable sv ra c d \<longleftrightarrow>
     \<not> list_ex (\<lambda>r. ad_kind r = Ordinary \<and>
          (ad_id r = ad_id ra \<or> ad_transaction_sha256 r = ad_transaction_sha256 ra \<or>
           sql_eq (ad_claimed_attempt_id r) (ad_claimed_attempt_id ra))) (db_admissions d) \<and>
     list_ex (\<lambda>p. pr_policy_sha256 p = ad_policy_sha256 ra) (db_revisions d) \<and>
     sql_lower (ad_public_identity ra) = ad_public_identity ra \<and> sql_lower (ad_sender_domain ra) = ad_sender_domain ra \<and>
     suffix (''@'' @ ad_sender_domain ra) (ad_public_identity ra) \<and>
     list_all is_sha256_hex [ad_transaction_sha256 ra, ad_desired_state_sha256 ra, ad_operator_set_sha256 ra,
       ad_admitted_operator_ref ra, ad_identity_profile_sha256 ra, ad_signature_sha256 ra, oc_rawSha256 c,
       oc_payloadSha256 c] \<and>
     pred_option (\<lambda>b. is_sha256_hex (ob_messageIdSha256 b) \<and> is_sha256_hex (ob_recipientSha256 b))
       (au_ordinaryBinding (oc_authentication c)) \<and>
     digest (ad_claimed_attempt_sha256 ra) \<and> sql_less (sv_julian sv (ad_admitted_at ra)) (sv_julian sv (ad_expires_at ra)) \<and>
     ad_sender_adapter ra \<in> {''cloudflare_email_service'', ''resend''}"

definition ordinary_attempt :: "ordinary_claim \<Rightarrow> admission_row \<Rightarrow> string \<Rightarrow> attempt_row" where
  \<comment> \<open>the row of the trigger \<^verbatim>\<open>ordinary_reply_admission_dispatch\<close>, for the operator's address\<close>
  "ordinary_attempt c ra email =
     \<lparr> ra_id = oc_attemptId c, ra_relay_id = ad_relay_id ra, ra_operator = email,
       ra_operator_message_id = oc_messageId c, ra_raw_r2_key = Some (oc_rawR2Key c),
       ra_raw_sha256 = Some (oc_rawSha256 c), ra_status = ''receiving'', ra_provider_message_id = None,
       ra_error_code = None, ra_identity_version = 2, ra_payload_version = 2, ra_admission_kind = Some Ordinary,
       ra_admission_id = Some (ad_id ra), ra_transaction_sha256 = Some (ad_transaction_sha256 ra),
       ra_attempt_sha256 = ad_claimed_attempt_sha256 ra, ra_claimed_payload_sha256 = ad_claimed_payload_sha256 ra,
       ra_desired_state_sha256 = Some (ad_desired_state_sha256 ra),
       ra_identity_profile_sha256 = Some (ad_identity_profile_sha256 ra), ra_policy_sha256 = Some (ad_policy_sha256 ra),
       ra_operator_ref = Some (ad_admitted_operator_ref ra), ra_operator_set_sha256 = Some (ad_operator_set_sha256 ra),
       ra_dispatch_received_at = Some (ad_admitted_at ra) \<rparr>"

definition insert_ordinary_admission :: "services \<Rightarrow> ordinary_claim \<Rightarrow> admission_row \<Rightarrow> nat statement" where
  \<comment> \<open>the INSERT with both of its triggers\<close>
  "insert_ordinary_admission sv c ra t d =
     (if \<not> (list_ex (\<lambda>a. Some (ac_id a) = ad_activation_id ra) (db_activations d) \<and>
            guarded_route (ad_route_id ra) (oc_expectedRoute c) d) then Inr (0, d)
      else if \<not> ordinary_authorized sv c ra t d
      then Inl (Err ''ordinary reply authority is unavailable or mismatched'')
      else if \<not> ordinary_insertable sv ra c d then Inl (Err ''constraint failed: ordinary_reply_admissions'')
      else (case Option.bind (ad_operator_id ra) (operator_email d) of
              None \<Rightarrow> Inl (Err ''ordinary dispatch claim lost'')
            | Some email \<Rightarrow>
                let rat = ordinary_attempt c ra email in
                if \<not> attempt_insertable sv rat d then Inl (Err ''reply dispatch requires immutable authorization'')
                else Inr (1, d\<lparr>db_admissions := db_admissions d @ [ra], db_attempts := db_attempts d @ [rat]\<rparr>)))"

definition claimOrdinaryReply :: "services \<Rightarrow> ordinary_claim \<Rightarrow> unit act" where
  "claimOrdinaryReply sv c =
     (case (au_status (oc_authentication c), au_ordinaryBinding (oc_authentication c)) of
        (Verified, Some b) \<Rightarrow>
          if ob_messageIdSha256 b \<noteq> sha sv (oc_messageId c)
          then throw (Err ''ordinary message signing shape is unsupported'')
          else (case ordinary_expiry sv c of
                  None \<Rightarrow> throw (Err ''Invalid time value'')
                | Some expiresAt \<Rightarrow>
                    andThen (liftE (routeReplyIdentityBindings (oc_expectedRoute c))) (\<lambda>_.
                    andThen (d1 (insert_ordinary_admission sv c (ordinary_admission sv c b expiresAt))) (\<lambda>_. ret ())))
      | _ \<Rightarrow> throw (Err ''ordinary message signing shape is unsupported''))"

end
