(* ===== verification/Reply_Dispatch.thy ===== *)
theory Reply_Dispatch
  imports Reply_Repository Delivery_Safety
begin

text \<open>
  \<^verbatim>\<open>workers/shared/reply-recovery.ts\<close>: the submission of a claimed reply to the queue, first or again, from
  the durable claim alone; and what the claim statements of \<open>Reply_Repository\<close> establish. An attempt of the
  second identity version is linked to the one admission that paid for it, and stays linked whatever the
  router, the recovery and the queue consumer do.
\<close>

section \<open>Recovery of a dispatch\<close>

definition isExactReplyRedelivery :: "stored_claim \<Rightarrow> string \<Rightarrow> string \<Rightarrow> string \<Rightarrow> string \<Rightarrow> bool" where
  \<comment> \<open>the relay, the operator, the message id and the digest of the raw message\<close>
  "isExactReplyRedelivery claim relayId operator messageId rawSha256 \<longleftrightarrow>
     ra_relay_id (sc_attempt claim) = relayId \<and> normalizeMailbox (ra_operator (sc_attempt claim)) = operator \<and>
     ra_operator_message_id (sc_attempt claim) = messageId \<and> ra_raw_sha256 (sc_attempt claim) = Some rawSha256"

definition pending_reply_dispatch :: "services \<Rightarrow> string \<Rightarrow> int \<Rightarrow> db \<Rightarrow> string option" where
  \<comment> \<open>\<^verbatim>\<open>PENDING_REPLY_DISPATCH_SQL\<close>\<close>
  "pending_reply_dispatch sv attemptId t d =
     (case attempt_by_id (Some attemptId) d of
        None \<Rightarrow> None
      | Some rat \<Rightarrow>
          (case relay_by_id (ra_relay_id rat) d of
             None \<Rightarrow> None
           | Some rr \<Rightarrow>
               (case route_by_id (rr_route_id rr) d of
                  None \<Rightarrow> None
                | Some ar \<Rightarrow>
                    if ra_status rat \<in> {''receiving'', ''queued'', ''authorized''} \<and> ra_raw_r2_key rat \<noteq> None \<and>
                       relay_open rr \<and> relay_unexpired sv t rr \<and> ar_enabled ar \<and> \<not> route_quarantined (rr_route_id rr) d \<and>
                       list_ex (\<lambda>rad. Some (ad_id rad) = ra_admission_id rat \<and> ad_status rad = ''claimed'' \<and>
                         ra_policy_sha256 rat = Some (ad_policy_sha256 rad) \<and> Some (ad_kind rad) = ra_admission_kind rat \<and>
                         ra_transaction_sha256 rat = Some (ad_transaction_sha256 rad) \<and>
                         sql_eq (ra_attempt_sha256 rat) (ad_claimed_attempt_sha256 rad) \<and>
                         sql_eq (ra_claimed_payload_sha256 rat) (ad_claimed_payload_sha256 rad) \<and>
                         admission_window sv t rad \<and> active_policy d = Some (ad_policy_sha256 rad) \<and>
                         projection_value ''active_desired_state_sha256'' d = Some (ad_desired_state_sha256 rad) \<and>
                         ar_policy_sha256 ar = Some (ad_policy_sha256 rad)) (admissions_of_attempt rat d)
                    then Some (ra_id rat) else None)))"

datatype dispatch_state = Dispatch_Queued | Dispatch_Unconfirmed | Reconciliation_Required | Dispatch_Blocked

definition dispatch_job :: "stored_claim \<Rightarrow> string \<Rightarrow> inbox_job" where
  \<comment> \<open>the job rebuilt from the claim, for the given key; a bound attempt has all of its columns\<close>
  "dispatch_job claim rawKey =
     (let rat = sc_attempt claim; rad = sc_admission claim in
      \<lparr> ij_schemaVersion = JInt 2, ij_payloadVersion = JInt (int (ra_payload_version rat)),
        ij_admissionKind = JString (kind_text (ad_kind rad)),
        ij_activationId = (if ad_kind rad = Ordinary \<and> truthy (ad_activation_id rad)
                           then jundef (ad_activation_id rad) else JUndefined),
        ij_attemptId = ra_id rat, ij_admissionId = ad_id rad, ij_transactionSha256 = ad_transaction_sha256 rad,
        ij_attemptSha256 = with_default [] (ra_attempt_sha256 rat),
        ij_claimedPayloadSha256 = with_default [] (ra_claimed_payload_sha256 rat),
        ij_desiredStateSha256 = with_default [] (ra_desired_state_sha256 rat),
        ij_identityProfileSha256 = with_default [] (ra_identity_profile_sha256 rat), ij_relayId = ra_relay_id rat,
        ij_operator = ra_operator rat, ij_operatorMessageId = ra_operator_message_id rat, ij_rawR2Key = rawKey,
        ij_rawSha256 = with_default [] (ra_raw_sha256 rat),
        ij_receivedAt = with_default [] (ra_dispatch_received_at rat) \<rparr>)"

definition is_claim_id :: "string \<Rightarrow> bool" where
  \<comment> \<open>\<^verbatim>\<open>/^relay-attempt:[a-f0-9]{64}$/\<close>\<close>
  "is_claim_id i \<longleftrightarrow> prefix attempt_prefix i \<and> is_sha256_hex (drop (length attempt_prefix) i)"

definition claim_authorized :: "services \<Rightarrow> active_policy_value \<Rightarrow> stored_claim \<Rightarrow> bool" where
  \<comment> \<open>the current policy still authorizes what was claimed\<close>
  "claim_authorized sv active claim \<longleftrightarrow>
     (let rat = sc_attempt claim in
      case (authorizeReplyWithPolicy (sv_core sv) (ap_policy active) (sc_route_address claim) (ra_operator rat)
              (Some (ad_public_identity (sc_admission claim))), projected_route active (sc_route_address claim)) of
        (Inr a, Some route) \<Rightarrow>
          (case ra_identityProfile a of
             None \<Rightarrow> False
           | Some profile \<Rightarrow>
               Some (publicIdentityProfileSha256 (sv_platform sv) profile) = ra_identity_profile_sha256 rat \<and>
               Some (sha sv (json_stringify (jstrings (de_operators route)))) = ra_operator_set_sha256 rat \<and>
               Some (adapter_name (ip_senderAdapter profile)) = env_OUTBOUND_MODE (sv_env sv))
      | _ \<Rightarrow> False)"

definition claim_activation_current :: "services \<Rightarrow> stored_claim \<Rightarrow> bool act" where
  \<comment> \<open>an ordinary claim needs the activation it was made under\<close>
  "claim_activation_current sv claim =
     (let rat = sc_attempt claim; rad = sc_admission claim in
      if ad_kind rad \<noteq> Ordinary then ret True
      else andThen (loadOrdinaryRouteAuthorization sv (ad_route_id rad) (with_default [] (ra_policy_sha256 rat))
             (with_default [] (ra_identity_profile_sha256 rat)) (with_default [] (ra_operator_set_sha256 rat))) (\<lambda>activation.
             ret (sql_eq (map_option ac_id activation) (ad_activation_id rad))))"

definition submit_dispatch :: "stored_claim \<Rightarrow> string \<Rightarrow> (dispatch_state \<times> string) act" where
  \<comment> \<open>the queue first, then the journal\<close>
  "submit_dispatch claim rawKey =
     andThen (tryCatch (followedBy (queueSend (inbox_job_json (dispatch_job claim rawKey))) (ret True)) (\<lambda>_. ret False)) (\<lambda>sent.
       if \<not> sent then ret (Dispatch_Unconfirmed, ''queue_acceptance_unknown'')
       else tryCatch
         (andThen (d1 (update_attempts (\<lambda>r. ra_id r = ra_id (sc_attempt claim) \<and> ra_status r = ''receiving'')
            (\<lambda>r. r\<lparr>ra_status := ''queued''\<rparr>))) (\<lambda>_. ret (Dispatch_Queued, ''durable_dispatch_submitted'')))
         (\<lambda>_. ret (Dispatch_Unconfirmed, ''queue_accepted_journal_pending'')))"

definition dispatch_claim :: "services \<Rightarrow> string \<Rightarrow> stored_claim \<Rightarrow> (dispatch_state \<times> string) act" where
  \<comment> \<open>from the check of the activation on\<close>
  "dispatch_claim sv attemptId claim =
     (let blocked = (\<lambda>reason. ret (Dispatch_Blocked, reason)) in
      andThen (claim_activation_current sv claim) (\<lambda>current.
        if \<not> current then blocked ''ordinary_activation_unavailable''
        else if \<not> truthy (ra_raw_r2_key (sc_attempt claim)) \<or> \<not> env_RELAY_SPOOL (sv_env sv) \<or> \<not> env_MAIL_JOBS (sv_env sv)
        then blocked ''dispatch_storage_unavailable''
        else
          (let rawKey = the (ra_raw_r2_key (sc_attempt claim)) in
           andThen (spoolGet rawKey) (\<lambda>object.
             case object of
               None \<Rightarrow> blocked ''dispatch_spool_unavailable''
             | Some bytes \<Rightarrow>
                 if odc_maxEncodedMessageBytes (operatorDeliveryConfig (sv_env sv)) < length bytes \<or>
                    Some (sha256Hex_bytes (sv_platform sv) bytes) \<noteq> ra_raw_sha256 (sc_attempt claim)
                 then blocked ''dispatch_spool_unavailable''
                 else andThen (d1 (query (pending_reply_dispatch sv attemptId))) (\<lambda>pending.
                   if pending = None then blocked ''dispatch_safety_changed''
                   else submit_dispatch claim rawKey)))))"

definition recoverKnownUnsentDispatch :: "services \<Rightarrow> string \<Rightarrow> (dispatch_state \<times> string) act" where
  "recoverKnownUnsentDispatch sv attemptId =
     (let blocked = (\<lambda>reason. ret (Dispatch_Blocked, reason)); config = operatorDeliveryConfig (sv_env sv) in
      if \<not> is_claim_id attemptId then blocked ''invalid_claim_id''
      else if odc_mode config \<noteq> Inbox_Relay \<or> odc_replyProcessingMode config \<noteq> Processing_Enabled
      then blocked ''reply_processing_disabled''
      else andThen (loadStoredReplyClaim attemptId) (\<lambda>stored.
        case stored of
          None \<Rightarrow> blocked ''immutable_claim_missing''
        | Some claim \<Rightarrow>
            if ra_status (sc_attempt claim) \<notin> {''receiving'', ''queued'', ''authorized''} \<or>
               ad_status (sc_admission claim) \<noteq> ''claimed''
            then ret (Reconciliation_Required, ''claim_already_crossed_or_terminal'')
            else andThen (loadActivePolicy sv) (\<lambda>policy.
              case policy of
                None \<Rightarrow> blocked ''policy_binding_changed''
              | Some active \<Rightarrow>
                  if Some (ap_sha256 active) \<noteq> ra_policy_sha256 (sc_attempt claim) then blocked ''policy_binding_changed''
                  else if \<not> claim_authorized sv active claim then blocked ''current_authorization_mismatch''
                  else dispatch_claim sv attemptId claim)))"

end
