(* ===== verification/Claims_Linked.thy ===== *)
theory Claims_Linked
  imports Reply_Dispatch Settlement
begin

text \<open>
  The link between attempts and admissions. An attempt of the second identity version was paid for by one
  admission, which names it and carries the digests it was claimed with. The claim statements establish the
  link, and neither the recovery nor the queue consumer breaks it.
\<close>

section \<open>The invariant\<close>

definition claim_matches :: "attempt_row \<Rightarrow> admission_row \<Rightarrow> bool" where
  "claim_matches rat rad \<longleftrightarrow>
     Some (ad_kind rad) = ra_admission_kind rat \<and> Some (ad_id rad) = ra_admission_id rat \<and>
     ad_claimed_attempt_id rad = Some (ra_id rat) \<and> Some (ad_transaction_sha256 rad) = ra_transaction_sha256 rat \<and>
     ra_attempt_sha256 rat \<noteq> None \<and> ad_claimed_attempt_sha256 rad = ra_attempt_sha256 rat \<and>
     ra_claimed_payload_sha256 rat \<noteq> None \<and> ad_claimed_payload_sha256 rad = ra_claimed_payload_sha256 rat \<and>
     Some (ad_desired_state_sha256 rad) = ra_desired_state_sha256 rat \<and>
     Some (ad_identity_profile_sha256 rad) = ra_identity_profile_sha256 rat \<and>
     Some (ad_policy_sha256 rad) = ra_policy_sha256 rat \<and> Some (ad_operator_set_sha256 rad) = ra_operator_set_sha256 rat"

definition bound :: "attempt_row \<Rightarrow> bool" where
  "bound rat \<longleftrightarrow> ra_identity_version rat = 2"

definition payer :: "attempt_row \<Rightarrow> authorization_kind option \<times> string option" where
  "payer rat = (ra_admission_kind rat, ra_admission_id rat)"

definition claims_linked :: "db \<Rightarrow> bool" where
  "claims_linked d \<longleftrightarrow>
     distinct (map ra_id (db_attempts d)) \<and> distinct (map payer (filter bound (db_attempts d))) \<and>
     (\<forall>rad \<in> set (db_admissions d). ad_status rad = ''admitted'' \<longrightarrow> ad_claimed_attempt_id rad = None) \<and>
     (\<forall>rat \<in> set (db_attempts d). bound rat \<longrightarrow> (\<exists>rad \<in> set (db_admissions d). claim_matches rat rad))"

section \<open>Updates of rows\<close>

definition same_attempt :: "attempt_row \<Rightarrow> attempt_row \<Rightarrow> bool" where
  "same_attempt r r' \<longleftrightarrow> attempt_identity r' = attempt_identity r"

definition same_claim :: "admission_row \<Rightarrow> admission_row \<Rightarrow> bool" where
  "same_claim r r' \<longleftrightarrow>
     admission_identity r' = admission_identity r \<and> admission_claim r' = admission_claim r \<and>
     (ad_status r' = ''admitted'' \<longrightarrow> ad_status r = ''admitted'')"

lemma attempt_identity_fields:
  assumes "attempt_identity r' = attempt_identity r"
  shows "ra_id r' = ra_id r" "bound r' = bound r" "payer r' = payer r" "claim_matches r' = claim_matches r"
proof -
  note f = assms [unfolded attempt_identity_def]
  show i: "ra_id r' = ra_id r" using arg_cong [OF f, of ra_id] by simp
  show "bound r' = bound r" using arg_cong [OF f, of ra_identity_version] by (simp add: bound_def)
  show p: "payer r' = payer r"
    using arg_cong [OF f, of ra_admission_kind] arg_cong [OF f, of ra_admission_id] by (simp add: payer_def)
  show "claim_matches r' = claim_matches r"
    using i p arg_cong [OF f, of ra_transaction_sha256] arg_cong [OF f, of ra_attempt_sha256]
      arg_cong [OF f, of ra_claimed_payload_sha256] arg_cong [OF f, of ra_desired_state_sha256]
      arg_cong [OF f, of ra_identity_profile_sha256] arg_cong [OF f, of ra_policy_sha256]
      arg_cong [OF f, of ra_operator_set_sha256]
    by (simp add: fun_eq_iff claim_matches_def payer_def)
qed

lemma same_claim_matches:
  assumes "same_claim r r'"
  shows "claim_matches rat r' = claim_matches rat r"
proof -
  note f = assms [unfolded same_claim_def admission_identity_def, THEN conjunct1]
  show ?thesis
    using assms arg_cong [OF f, of ad_kind] arg_cong [OF f, of ad_id] arg_cong [OF f, of ad_transaction_sha256]
      arg_cong [OF f, of ad_desired_state_sha256] arg_cong [OF f, of ad_identity_profile_sha256]
      arg_cong [OF f, of ad_policy_sha256] arg_cong [OF f, of ad_operator_set_sha256]
    by (simp add: claim_matches_def same_claim_def admission_claim_def)
qed

lemma same_refl [simp]: "same_attempt r r" "same_claim a a"
  by (simp_all add: same_attempt_def same_claim_def)

lemma list_all2_map_eq: "list_all2 P xs ys \<Longrightarrow> (\<And>x y. P x y \<Longrightarrow> f y = f x) \<Longrightarrow> map f ys = map f xs"
  by (induction rule: list_all2_induct) auto

lemma list_all2_filter_map_eq:
  "list_all2 P xs ys \<Longrightarrow> (\<And>x y. P x y \<Longrightarrow> Q y = Q x \<and> f y = f x) \<Longrightarrow> map f (filter Q ys) = map f (filter Q xs)"
  by (induction rule: list_all2_induct) auto

lemma list_all2_in: "list_all2 P xs ys \<Longrightarrow> y \<in> set ys \<Longrightarrow> \<exists>x \<in> set xs. P x y"
  by (metis in_set_conv_nth list_all2_conv_all_nth)

lemma list_all2_in': "list_all2 P xs ys \<Longrightarrow> x \<in> set xs \<Longrightarrow> \<exists>y \<in> set ys. P x y"
  by (metis in_set_conv_nth list_all2_conv_all_nth)

lemma claims_linked_rows:
  assumes "claims_linked d" "list_all2 same_attempt (db_attempts d) (db_attempts d')"
    "list_all2 same_claim (db_admissions d) (db_admissions d')"
  shows "claims_linked d'"
proof -
  note id = attempt_identity_fields [unfolded atomize_imp, folded same_attempt_def, rule_format]
  have "map ra_id (db_attempts d') = map ra_id (db_attempts d)"
    "map payer (filter bound (db_attempts d')) = map payer (filter bound (db_attempts d))"
    using list_all2_map_eq [OF assms(2)] list_all2_filter_map_eq [OF assms(2)] id by metis+
  moreover have "\<exists>rad \<in> set (db_admissions d'). claim_matches rat rad" if rat: "rat \<in> set (db_attempts d')" "bound rat" for rat
  proof -
    obtain r where "r \<in> set (db_attempts d)" "same_attempt r rat" using list_all2_in [OF assms(2) rat(1)] by blast
    then show ?thesis
      using assms(1) rat(2) id same_claim_matches list_all2_in' [OF assms(3)] unfolding claims_linked_def by metis
  qed
  moreover have "ad_claimed_attempt_id rad = None" if r: "rad \<in> set (db_admissions d')" "ad_status rad = ''admitted''" for rad
  proof -
    obtain r where "r \<in> set (db_admissions d)" "same_claim r rad" using list_all2_in [OF assms(3) r(1)] by blast
    then show ?thesis using assms(1) r(2) by (auto simp: claims_linked_def same_claim_def admission_claim_def)
  qed
  ultimately show ?thesis using assms(1) by (simp add: claims_linked_def)
qed

lemma list_all2_update_where:
  "(\<And>r. r \<in> set xs \<Longrightarrow> P r \<Longrightarrow> R r (f r)) \<Longrightarrow> (\<And>r. R r r) \<Longrightarrow> list_all2 R xs (update_where P f xs)"
  by (auto simp: update_where_def list_all2_conv_all_nth)

lemma claims_linked_attempts:
  "update_attempts P f t d = Inr (n, d') \<Longrightarrow> (\<And>r. attempt_identity (f r) = attempt_identity r) \<Longrightarrow>
   claims_linked d \<Longrightarrow> claims_linked d'"
  by (rule claims_linked_rows)
     (auto simp: update_attempts_Inr same_attempt_def list.rel_refl intro!: list_all2_update_where)

lemma claims_linked_admissions:
  "update_admissions k Q g t d = Inr (n, d') \<Longrightarrow> (\<And>r. Q r \<Longrightarrow> same_claim r (g r)) \<Longrightarrow>
   claims_linked d \<Longrightarrow> claims_linked d'"
  by (rule claims_linked_rows) (auto simp: update_admissions_Inr list.rel_refl intro!: list_all2_update_where)

lemma claims_linked_other_tables [simp]:
  "claims_linked (d\<lparr>db_audit := a\<rparr>) = claims_linked d" "claims_linked (d\<lparr>db_health := h\<rparr>) = claims_linked d"
  "claims_linked (d\<lparr>db_deliveries := l\<rparr>) = claims_linked d" "claims_linked (d\<lparr>db_status := s\<rparr>) = claims_linked d"
  by (simp_all add: claims_linked_def)

lemma closes_same_claim: "closes r r' \<Longrightarrow> same_claim r r'"
proof -
  assume c: "closes r r'"
  have "ad_status r' \<noteq> ''admitted''"
  proof
    assume "ad_status r' = ''admitted''"
    moreover have "admission_terminal (ad_status r')" using c by (simp only: closes_def)
    ultimately show False by (simp add: admission_terminal_def)
  qed
  with c show ?thesis by (simp only: closes_def same_claim_def) blast
qed

lemma cross_boundary_same_claim: "same_claim r (cross_boundary sv t r)"
  by (simp add: same_claim_def cross_boundary_def admission_identity_def admission_claim_def)

section \<open>The claim statements\<close>

lemma changes_one: "changes P rows = 1 \<Longrightarrow> \<exists>r \<in> set rows. P r"
  by (metis (no_types, lifting) One_nat_def changes_def filter_False less_numeral_extra(3) list.size(3) zero_less_Suc)

lemma claims_linked_snoc:
  assumes "claims_linked d" "attempt_insertable sv rat d" "\<exists>rad \<in> set (db_admissions d'). claim_matches rat rad"
    "db_attempts d' = db_attempts d @ [rat]"
    "\<And>rad. rad \<in> set (db_admissions d') \<Longrightarrow> ad_status rad = ''admitted'' \<Longrightarrow> ad_claimed_attempt_id rad = None"
    "\<And>r rad. claim_matches r rad \<Longrightarrow> rad \<in> set (db_admissions d) \<Longrightarrow> \<exists>rad \<in> set (db_admissions d'). claim_matches r rad"
  shows "claims_linked d'"
proof -
  obtain rad where rad: "claim_matches rat rad" using assms(3) by blast
  have "ra_id rat \<notin> ra_id ` set (db_attempts d)" "payer rat \<notin> payer ` set (db_attempts d)"
    using assms(2) rad
    by (auto simp: attempt_insertable_def list_ex_iff payer_def sql_eq_def claim_matches_def)
  then have "distinct (map ra_id (db_attempts d'))" "distinct (map payer (filter bound (db_attempts d')))"
    using assms(1,4) by (auto simp: claims_linked_def)
  moreover have "\<exists>rad \<in> set (db_admissions d'). claim_matches r rad" if "r \<in> set (db_attempts d')" "bound r" for r
    using that assms(1,3,4,6) unfolding claims_linked_def by auto
  ultimately show ?thesis using assms(5) by (simp add: claims_linked_def)
qed

lemma claimed_by_matches:
  "canary_claimable sv (canary_attempt i rr o' m k s a p t' ra) t d r \<Longrightarrow> ad_kind r = Canary \<Longrightarrow>
   claim_matches (canary_attempt i rr o' m k s a p t' ra) (claimed_by sv (canary_attempt i rr o' m k s a p t' ra) t r)"
  by (simp add: canary_claimable_def claim_matches_def claimed_by_def canary_attempt_def)

lemma insert_admitted_cases:
  assumes "insert_admitted_attempt sv c t d = Inr (n, d')" "d' \<noteq> d"
  obtains ra rat where "rat = canary_attempt (cc_attemptId c) (cc_relay c) (cc_operator c) (cc_operatorMessageId c)
      (cc_rawR2Key c) (cc_rawSha256 c) (cc_attemptSha256 c) (cc_claimedPayloadSha256 c) (cc_receivedAt c) ra"
    "attempt_insertable sv rat d" "n = 1"
    "update_admissions Canary (canary_claimable sv rat t (d\<lparr>db_attempts := db_attempts d @ [rat]\<rparr>)) (claimed_by sv rat t) t
       (d\<lparr>db_attempts := db_attempts d @ [rat]\<rparr>) = Inr (1, d')"
  using assms
  by (auto simp: insert_admitted_attempt_def Let_def claim_canary_def split: option.splits if_splits sum.splits)

lemma insert_admitted_linked:
  assumes "insert_admitted_attempt sv c t d = Inr (n, d')" "claims_linked d"
  shows "claims_linked d'"
proof (cases "d' = d")
  case True
  with assms(2) show ?thesis by simp
next
  case False
  then obtain ra rat where rat: "rat = canary_attempt (cc_attemptId c) (cc_relay c) (cc_operator c) (cc_operatorMessageId c)
      (cc_rawR2Key c) (cc_rawSha256 c) (cc_attemptSha256 c) (cc_claimedPayloadSha256 c) (cc_receivedAt c) ra"
    and ins: "attempt_insertable sv rat d"
    and upd: "update_admissions Canary (canary_claimable sv rat t (d\<lparr>db_attempts := db_attempts d @ [rat]\<rparr>)) (claimed_by sv rat t) t
       (d\<lparr>db_attempts := db_attempts d @ [rat]\<rparr>) = Inr (1, d')"
    by (rule insert_admitted_cases [OF assms(1)])
  let ?P = "\<lambda>r. ad_kind r = Canary \<and> canary_claimable sv rat t (d\<lparr>db_attempts := db_attempts d @ [rat]\<rparr>) r"
  have adm: "db_admissions d' = update_where ?P (claimed_by sv rat t) (db_admissions d)"
    and att: "db_attempts d' = db_attempts d @ [rat]" and one: "changes ?P (db_admissions d) = 1"
    using upd by (auto simp: update_admissions_Inr)
  obtain r where "r \<in> set (db_admissions d)" "?P r" using changes_one [OF one] by blast
  then have "claim_matches rat (claimed_by sv rat t r)" "claimed_by sv rat t r \<in> set (db_admissions d')"
    using claimed_by_matches rat adm by (auto simp: update_where_def)
  moreover have "ad_claimed_attempt_id rad = None" if "rad \<in> set (db_admissions d')" "ad_status rad = ''admitted''" for rad
    using that assms(2) adm by (auto simp: update_where_def claims_linked_def claimed_by_def split: if_splits)
  moreover have "rad \<in> set (db_admissions d')" if "claim_matches r rad" "rad \<in> set (db_admissions d)" for r rad
  proof -
    have "\<not> ?P rad" using that assms(2) by (auto simp: claims_linked_def claim_matches_def canary_claimable_def)
    then show ?thesis using that(2) adm by (force simp: update_where_def)
  qed
  ultimately show ?thesis
    by (intro claims_linked_snoc [OF assms(2) ins _ att]) blast+
qed

lemma insert_ordinary_linked:
  assumes "insert_ordinary_admission sv c (ordinary_admission sv c b e) t d = Inr (n, d')" "claims_linked d"
  shows "claims_linked d'"
proof (cases "d' = d")
  case True
  with assms(2) show ?thesis by simp
next
  case False
  let ?ra = "ordinary_admission sv c b e"
  obtain email where ins: "attempt_insertable sv (ordinary_attempt c ?ra email) d"
    and d': "d' = d\<lparr>db_admissions := db_admissions d @ [?ra], db_attempts := db_attempts d @ [ordinary_attempt c ?ra email]\<rparr>"
    using assms(1) False by (auto simp: insert_ordinary_admission_def Let_def split: option.splits if_splits)
  have "claim_matches (ordinary_attempt c ?ra email) ?ra"
    by (simp add: claim_matches_def ordinary_attempt_def ordinary_admission_def Let_def)
  moreover have "ad_status ?ra \<noteq> ''admitted''" by (simp add: ordinary_admission_def Let_def)
  ultimately show ?thesis
    using assms(2) by (intro claims_linked_snoc [OF assms(2) ins]) (auto simp: d' claims_linked_def)
qed

section \<open>Whole runs\<close>

definition keeps_links :: "db \<times> nat \<Rightarrow> db \<times> nat \<Rightarrow> bool" where
  "keeps_links s t \<longleftrightarrow> (claims_linked (fst s) \<longrightarrow> claims_linked (fst t))"

interpretation links: trace_relation keeps_links
  by unfold_locales (auto simp: keeps_links_def)

interpretation links: reply_tables "under keeps_links" "\<lambda>d d'. \<forall>n. keeps_links (d, n) (d', n)"
  by unfold_locales (auto simp: keeps_links_def intro: claims_linked_attempts claims_linked_admissions closes_same_claim)

lemma emailSend_links: "preserves (under keeps_links) (emailSend m)"
  unfolding emailSend_def
  by (rule links.call) (auto simp: under_def seen_def keeps_links_def Let_def split: list.splits mail_reply.splits)

lemma httpPost_links: "preserves (under keeps_links) (httpPost i b)"
  unfolding httpPost_def
  by (rule links.call) (auto simp: under_def seen_def keeps_links_def Let_def split: list.splits http_reply.splits)

lemma sendOutboundReply_links: "preserves (under keeps_links) (sendOutboundReply sv j n)"
proof -
  have "preserves (under keeps_links) (claimOutboundProviderBoundary sv j route)" for route
    using claims_linked_admissions [OF _ cross_boundary_same_claim]
    by (auto simp: claimOutboundProviderBoundary_def claim_boundary_statement_def keeps_links_def
        intro!: links.if_split links.run_rules links.d1 split: option.splits)
  moreover have "preserves (under keeps_links) (deliver sv j name n)" for name
    by (auto simp: deliver_def call_provider_def sendWithResend_def Let_def
        intro!: links.if_split links.run_rules links.record_attempt emailSend_links httpPost_links)
  ultimately show ?thesis
    by (auto simp: sendOutboundReply_def claim_and_deliver_def Let_def
        intro!: links.if_split links.run_rules links.send_relay links.lost_boundary)
qed

interpretation links_run: queue_run "under keeps_links" "\<lambda>d d'. \<forall>n. keeps_links (d, n) (d', n)" sv "\<lambda>_. True" "\<lambda>_. True" for sv
  by unfold_locales (simp_all add: sendOutboundReply_links)

lemma batch_links:
  assumes "others_respect keeps_links w" "claims_linked (w_db w)"
  shows "claims_linked (w_db (run_batch sv ms w))"
proof -
  have "preserves (under keeps_links) (processQueueBatch sv ms)"
    by (rule links_run.processQueueBatch) (unfold links_run.acceptable_def, simp split: mail_job.splits)
  from preserves_underD [OF this assms(1)] assms(2) show ?thesis
    by (simp add: keeps_links_def seen_def run_batch_def)
qed

lemma recoverKnownUnsentDispatch_links: "preserves (under keeps_links) (recoverKnownUnsentDispatch sv i)"
proof -
  have "preserves (under keeps_links) (submit_dispatch claim k)" for claim k
    unfolding submit_dispatch_def
    by (intro links.run_rules links.if_split allI impI links.queueSend)
       (rule links.d1, auto simp: keeps_links_def attempt_identity_def intro: claims_linked_attempts)
  then show ?thesis
    by (auto simp: recoverKnownUnsentDispatch_def dispatch_claim_def claim_activation_current_def loadStoredReplyClaim_def
        loadOrdinaryRouteAuthorization_def Let_def
        intro!: links.if_split links.run_rules links.effect_rules links.loadActivePolicy split: option.splits)
qed

end
