(* ===== verification/Dispatch_Exact.thy ===== *)
theory Dispatch_Exact
  imports Claims_Linked
begin

text \<open>
  What the recovery of a dispatch submits: on a quiet schedule exactly the job of the durable claim, whose raw
  message is the one that was claimed, and nothing otherwise; the queue consumer accepts that job and finds it
  to match the claim. The headers that are claimed with a reply are those that the consumer sends.
\<close>

section \<open>What is submitted\<close>

definition reading :: "world \<Rightarrow> world \<Rightarrow> bool" where
  \<comment> \<open>on a quiet schedule nothing is changed\<close>
  "reading w w' \<longleftrightarrow> (w_ticks w = [] \<longrightarrow> w' = w)"

interpretation reading: world_relation reading
  by unfold_locales (auto simp: reading_def)

lemma reading_call: "(\<And>w. snd (eff w) = w) \<Longrightarrow> preserves reading (call eff)"
  by (rule preservesI) (simp add: reading_def quiet_simps)

lemma reading_query: "preserves reading (d1 (query f))"
  by (rule preservesI) (simp add: reading_def quiet_simps)

lemma reading_policyGet: "preserves reading (policyGet k)"
  unfolding policyGet_def by (rule reading_call) simp

lemma reading_spoolGet: "preserves reading (spoolGet k)"
  unfolding spoolGet_def by (rule reading_call) simp

lemmas reading_rules = reading.run_rules reading_query reading_policyGet reading_spoolGet

lemma loadActivePolicy_reads: "preserves reading (loadActivePolicy sv)"
  by (auto simp: loadActivePolicy_def checkInventory_def Let_def intro!: reading.if_split reading_rules split: option.splits)

lemma claim_activation_current_reads: "preserves reading (claim_activation_current sv claim)"
  by (auto simp: claim_activation_current_def loadOrdinaryRouteAuthorization_def Let_def intro!: reading.if_split reading_rules)

lemma reads_same: "preserves reading m \<Longrightarrow> w_ticks w = [] \<Longrightarrow> m w = (r, w') \<Longrightarrow> w' = w"
  by (metis preservesD reading_def snd_conv)

lemma submit_quiet:
  assumes "w_ticks w = []"
  obtains d where "submit_dispatch claim k w =
    (Inr (Dispatch_Queued, ''durable_dispatch_submitted''),
     w\<lparr>w_jobs := w_jobs w @ [inbox_job_json (dispatch_job claim k)], w_db := d\<rparr>)"
proof -
  have "update_attempts (\<lambda>r. ra_id r = i \<and> ra_status r = ''receiving'') (\<lambda>r. r\<lparr>ra_status := ''queued''\<rparr>) t d =
     Inr (changes (\<lambda>r. ra_id r = i \<and> ra_status r = ''receiving'') (db_attempts d),
       d\<lparr>db_attempts := update_where (\<lambda>r. ra_id r = i \<and> ra_status r = ''receiving'') (\<lambda>r. r\<lparr>ra_status := ''queued''\<rparr>) (db_attempts d)\<rparr>)"
    for i t d
    by (auto simp: update_attempts_Inr list_all_iff attempt_aborts_def attempt_terminal_def)
  then show thesis
    using assms
    by (intro that) (simp add: submit_dispatch_def tryCatch_def followedBy_def andThen_def queueSend_def quiet_simps)
qed

lemma dispatch_claim_quiet:
  assumes "w_ticks w = []" "dispatch_claim sv i claim w = (Inr (st, reason), w')"
  shows "(st = Dispatch_Queued \<and> (\<exists>key bytes d. ra_raw_r2_key (sc_attempt claim) = Some key \<and> map_of (w_spool w) key = Some bytes \<and>
      ra_raw_sha256 (sc_attempt claim) = Some (sha256Hex_bytes (sv_platform sv) bytes) \<and>
      w' = w\<lparr>w_jobs := w_jobs w @ [inbox_job_json (dispatch_job claim key)], w_db := d\<rparr>)) \<or>
    (st = Dispatch_Blocked \<and> w' = w)"
proof -
  from assms(2) obtain c v where c: "claim_activation_current sv claim w = (Inr c, v)"
    by (auto simp: dispatch_claim_def Let_def andThen_Inr)
  with assms have v: "v = w" using reads_same [OF claim_activation_current_reads] by blast
  show ?thesis
  proof (cases "c \<and> truthy (ra_raw_r2_key (sc_attempt claim)) \<and> env_RELAY_SPOOL (sv_env sv) \<and> env_MAIL_JOBS (sv_env sv)")
    case False
    then have "dispatch_claim sv i claim w = (Inr (Dispatch_Blocked, if c then ''dispatch_storage_unavailable'' else ''ordinary_activation_unavailable''), w)"
      using c v by (auto simp: dispatch_claim_def Let_def andThen_def)
    then show ?thesis using assms(2) by simp
  next
    case True
    then obtain key where key: "ra_raw_r2_key (sc_attempt claim) = Some key"
      by (auto simp: truthy_def split: option.splits)
    obtain d where sub: "submit_dispatch claim key w =
      (Inr (Dispatch_Queued, ''durable_dispatch_submitted''),
       w\<lparr>w_jobs := w_jobs w @ [inbox_job_json (dispatch_job claim key)], w_db := d\<rparr>)"
      using submit_quiet [OF assms(1)] by metis
    let ?P = "\<lambda>bytes. odc_maxEncodedMessageBytes (operatorDeliveryConfig (sv_env sv)) < length bytes \<or>
        Some (sha256Hex_bytes (sv_platform sv) bytes) \<noteq> ra_raw_sha256 (sc_attempt claim)"
    have "dispatch_claim sv i claim w =
      (case map_of (w_spool w) key of
         None \<Rightarrow> (Inr (Dispatch_Blocked, ''dispatch_spool_unavailable''), w)
       | Some bytes \<Rightarrow>
           if ?P bytes then (Inr (Dispatch_Blocked, ''dispatch_spool_unavailable''), w)
           else if pending_reply_dispatch sv i (w_now w) (w_db w) = None
           then (Inr (Dispatch_Blocked, ''dispatch_safety_changed''), w) else submit_dispatch claim key w)"
      using True c v key
      by (simp add: dispatch_claim_def Let_def andThen_def spoolGet_def call_quiet [OF assms(1)] d1_quiet [OF assms(1)] query_def
          split: option.split)
    then show ?thesis
      using assms(2) sub key by (auto split: option.splits if_splits)
  qed
qed

lemma recover_quiet:
  assumes "w_ticks w = []" "recoverKnownUnsentDispatch sv i w = (Inr (st, reason), w')"
  shows "(st = Dispatch_Queued \<and> (\<exists>claim key bytes d. stored_reply_claim i (w_db w) = Some claim \<and>
      ra_raw_r2_key (sc_attempt claim) = Some key \<and> map_of (w_spool w) key = Some bytes \<and>
      ra_raw_sha256 (sc_attempt claim) = Some (sha256Hex_bytes (sv_platform sv) bytes) \<and>
      w' = w\<lparr>w_jobs := w_jobs w @ [inbox_job_json (dispatch_job claim key)], w_db := d\<rparr>)) \<or>
    (st \<noteq> Dispatch_Queued \<and> w' = w)"
proof -
  have load: "loadStoredReplyClaim i w = (Inr (stored_reply_claim i (w_db w)), w)"
    using assms(1) by (simp add: loadStoredReplyClaim_def quiet_simps)
  show ?thesis
  proof (cases "stored_reply_claim i (w_db w)")
    case None
    with assms load show ?thesis by (auto simp: recoverKnownUnsentDispatch_def Let_def andThen_Inr split: if_splits)
  next
    case (Some claim)
    have same: "v = w" if "loadActivePolicy sv w = (r, v)" for r v
      using reads_same [OF loadActivePolicy_reads assms(1) that] .
    show ?thesis
      using assms load Some dispatch_claim_quiet [OF assms(1), of sv i claim st reason w']
      by (auto simp: recoverKnownUnsentDispatch_def Let_def andThen_Inr split: if_splits option.splits dest!: same)
  qed
qed

definition claim_wf :: "stored_claim \<Rightarrow> bool" where
  \<comment> \<open>the columns as the claim statements write them, within the limits of the queue contract\<close>
  "claim_wf claim \<longleftrightarrow>
     (let rat = sc_attempt claim; rad = sc_admission claim in
      claim_matches rat rad \<and> bound rat \<and> ra_payload_version rat = 2 \<and>
      (case ad_kind rad of Canary \<Rightarrow> ad_activation_id rad = None
       | Ordinary \<Rightarrow> (\<exists>a. ad_activation_id rad = Some a \<and> a \<noteq> [] \<and> bounded_text a)) \<and>
      list_all bounded_text [ra_id rat, ad_id rad, ra_relay_id rat, ra_operator rat, ra_operator_message_id rat,
        with_default [] (ra_dispatch_received_at rat)] \<and>
      list_all digest [ra_transaction_sha256 rat, ra_attempt_sha256 rat, ra_claimed_payload_sha256 rat,
        ra_desired_state_sha256 rat, ra_identity_profile_sha256 rat, ra_raw_sha256 rat])"

lemma dispatch_job_authorization:
  assumes "claim_wf claim"
  shows "inbox_authorization (dispatch_job claim key) = Some (ad_kind (sc_admission claim))"
    "as_string (ij_activationId (dispatch_job claim key)) = ad_activation_id (sc_admission claim)"
    "authorizationShape (inbox_job_json (dispatch_job claim key))"
proof -
  have v: "ra_payload_version (sc_attempt claim) = 2"
    and k: "case ad_kind (sc_admission claim) of Canary \<Rightarrow> ad_activation_id (sc_admission claim) = None
       | Ordinary \<Rightarrow> (\<exists>a. ad_activation_id (sc_admission claim) = Some a \<and> a \<noteq> [] \<and> bounded_text a)"
    using assms unfolding claim_wf_def Let_def by blast+
  note f = dispatch_job_def Let_def as_string_def truthy_def jundef_def v
  have j: "ij_schemaVersion (dispatch_job claim key) = JInt 2" "ij_payloadVersion (dispatch_job claim key) = JInt 2"
    "ij_admissionKind (dispatch_job claim key) = JString (kind_text (ad_kind (sc_admission claim)))"
    "ij_activationId (dispatch_job claim key) = jundef (ad_activation_id (sc_admission claim))"
    using k by (cases "ad_kind (sc_admission claim)"; auto simp: f)+
  show "as_string (ij_activationId (dispatch_job claim key)) = ad_activation_id (sc_admission claim)"
    by (cases "ad_activation_id (sc_admission claim)") (simp_all add: j as_string_def jundef_def)
  show "inbox_authorization (dispatch_job claim key) = Some (ad_kind (sc_admission claim))"
    using k by (cases "ad_kind (sc_admission claim)")
      (auto simp: inbox_authorization_def replyAuthorizationKind_def Let_def j jundef_def js_is_string_iff)
  show "authorizationShape (inbox_job_json (dispatch_job claim key))"
    using k by (cases "ad_kind (sc_admission claim)")
      (auto simp: authorizationShape_def replyAuthorizationKind_def inbox_job_fields Let_def j jundef_def js_is_string_iff)
qed

lemma dispatch_job_accepted:
  assumes "claim_wf claim" "bounded_text key"
  shows "decodeMailJob (inbox_job_json (dispatch_job claim key)) = Some (inbox_job_json (dispatch_job claim key))"
    "as_mail_job (inbox_job_json (dispatch_job claim key)) = Inbox_Reply_Received (dispatch_job claim key)"
    "inboxJobMatchesClaim (dispatch_job claim key) claim"
proof -
  have dig: "is_sha256_hex (with_default [] v) \<and> Some (with_default [] v) = v" if "digest v" for v
    using that by (cases v) (simp_all add: digest_def with_default_def)
  have d: "digest (ra_transaction_sha256 (sc_attempt claim))" "digest (ra_attempt_sha256 (sc_attempt claim))"
    "digest (ra_claimed_payload_sha256 (sc_attempt claim))" "digest (ra_desired_state_sha256 (sc_attempt claim))"
    "digest (ra_identity_profile_sha256 (sc_attempt claim))" "digest (ra_raw_sha256 (sc_attempt claim))"
    "Some (ad_transaction_sha256 (sc_admission claim)) = ra_transaction_sha256 (sc_attempt claim)"
    using assms(1) unfolding claim_wf_def Let_def claim_matches_def list.pred_inject by blast+
  note digests = dig [OF d(1)] dig [OF d(2)] dig [OF d(3)] dig [OF d(4)] dig [OF d(5)] dig [OF d(6)]
  have "list_all is_sha256_hex [ij_transactionSha256 (dispatch_job claim key), ij_attemptSha256 (dispatch_job claim key),
      ij_claimedPayloadSha256 (dispatch_job claim key), ij_desiredStateSha256 (dispatch_job claim key),
      ij_identityProfileSha256 (dispatch_job claim key), ij_rawSha256 (dispatch_job claim key)]"
    using digests d(7) by (simp add: dispatch_job_def Let_def) (metis option.inject)
  moreover have "list_all bounded_text [ij_attemptId (dispatch_job claim key), ij_admissionId (dispatch_job claim key),
      ij_relayId (dispatch_job claim key), ij_operator (dispatch_job claim key),
      ij_operatorMessageId (dispatch_job claim key), ij_rawR2Key (dispatch_job claim key), ij_receivedAt (dispatch_job claim key)]"
    using assms by (simp add: claim_wf_def Let_def dispatch_job_def)
  ultimately have "inbox_job_ok (dispatch_job claim key)"
    unfolding inbox_job_ok_def using dispatch_job_authorization(3) [OF assms(1), of key] by blast
  then show "decodeMailJob (inbox_job_json (dispatch_job claim key)) = Some (inbox_job_json (dispatch_job claim key))"
    by (rule inbox_job_decodes)
  show "as_mail_job (inbox_job_json (dispatch_job claim key)) = Inbox_Reply_Received (dispatch_job claim key)"
    by (rule inbox_job_roundtrip)
  show "inboxJobMatchesClaim (dispatch_job claim key) claim"
    using assms digests d(7) dispatch_job_authorization(1,2) [OF assms(1), of key]
    unfolding inboxJobMatchesClaim_def Let_def
    by (simp add: claim_wf_def Let_def claim_matches_def dispatch_job_def version_or_1_def)
qed

section \<open>Conversation headers at both ends\<close>

lemma uniq_append_uniq: "uniq (uniq xs @ ys) = uniq (xs @ ys)"
  by (simp add: uniq_def remdups_append2)

lemma last_n_all: "length xs \<le> n \<Longrightarrow> last_n n xs = xs"
  by (simp add: last_n_def)

lemma conversation_headers_agree:
  assumes "length (uniq (storedRelayReferences (rr_references rr))) \<le> 50"
  shows "relayConversationHeaders rr = reply_headers rr"
proof -
  have valid: "validMessageId (Some v) = isValidRelayMessageId v" for v
    by (auto simp: validMessageId_def isValidRelayMessageId_def is_angle_id_def)
  have "storedReferences (rr_references rr) = uniq (storedRelayReferences (rr_references rr))"
    using assms by (auto simp: storedReferences_def storedRelayReferences_def last_n_all valid uniq_def
        split: option.splits jv.splits)
  moreover have "(if validMessageId (rr_original_message_id rr) then [the (rr_original_message_id rr)] else []) =
      (case rr_original_message_id rr of None \<Rightarrow> [] | Some m \<Rightarrow> if m \<noteq> [] \<and> isValidRelayMessageId m then [m] else [])"
    by (auto simp: validMessageId_def isValidRelayMessageId_def is_angle_id_def split: option.split)
  moreover have "uniq xs @ ys = [] \<longleftrightarrow> xs @ ys = []" for xs ys :: "string list"
    by (simp add: uniq_def)
  ultimately show ?thesis
    unfolding relayConversationHeaders_def reply_headers_def Let_def by (simp only: uniq_append_uniq)
qed
end
