(* ===== verification/Example_Dispatch.thy ===== *)
theory Example_Dispatch
  imports Example_Policy Dispatch_Exact
begin

text \<open>The recovery of a dispatch, run on the concrete installation: its claim is authorized and submitted.\<close>

definition ex_claim :: stored_claim where
  "ex_claim = \<lparr>sc_attempt = ex_attempt, sc_admission = ex_admission, sc_route_address = ''team@example.com''\<rparr>"

lemmas ex_rows = ex_world_def world_of_def ex_claim_def ex_db_def empty_db_def ex_attempt_def ex_admission_def
  attempt_by_id_def relay_by_id_def route_by_id_def first_row_def admissions_of_attempt_def

lemma ex_claim_bounded: "bounded_text ex_claim_id"
  by code_simp

lemma ex_claim_wf: "claim_wf ex_claim"
  using ex_claim_bounded
  by (simp add: claim_wf_def ex_claim_def ex_attempt_def ex_admission_def claim_matches_def bound_def bounded_text_def
      with_default_def digest_def)

lemma ex_claim_stored: "stored_reply_claim ex_claim_id ex_db = Some ex_claim"
  by (simp add: stored_reply_claim_def ex_rows sql_eq_def route_address_def domain_name_def)

lemma ex_dispatched: "\<exists>w. dispatch_claim ex_services ex_claim_id ex_claim ex_world = (Inr (Dispatch_Queued, ''durable_dispatch_submitted''), w)"
proof -
  have e: "env_RELAY_SPOOL (sv_env ex_services)" "env_MAIL_JOBS (sv_env ex_services)" "sv_julian ex_services = ex_instant"
    by (simp_all add: ex_services_def ex_env_def)
  have w: "w_now ex_world = 1000" "map_of (w_spool ex_world) ''key'' = Some []"
    by (simp_all add: ex_world_def world_of_def)
  have c: "ad_kind (sc_admission ex_claim) = Canary" "ra_raw_r2_key (sc_attempt ex_claim) = Some ''key''"
    "ra_raw_sha256 (sc_attempt ex_claim) = Some ex_digest"
    by (simp_all add: ex_claim_def ex_admission_def ex_attempt_def)
  have "sha256Hex_bytes (sv_platform ex_services) [] = ex_digest"
    by code_simp
  moreover have "pending_reply_dispatch ex_services ex_claim_id 1000 ex_db = Some ex_claim_id"
    by (simp add: pending_reply_dispatch_def ex_rows relay_open_def relay_unexpired_def route_quarantined_def
       sql_eq_def admission_window_def active_policy_def projection_value_def e(3) ex_instant_def sql_less_def sql_le_def)
  moreover obtain d where "submit_dispatch ex_claim ''key'' (ex_world\<lparr>w_db := ex_db\<rparr>) =
    (Inr (Dispatch_Queued, ''durable_dispatch_submitted''), d)"
    using submit_quiet [of "ex_world\<lparr>w_db := ex_db\<rparr>"] by simp metis
  ultimately show ?thesis using e(1,2) w c
    by (simp add: dispatch_claim_def claim_activation_current_def Let_def andThen_def spoolGet_def call_quiet d1_quiet
        query_def truthy_def)
qed

definition ex_projection :: policy_projection where
  "ex_projection = (case projectPolicy ex_core JNull of Inr p \<Rightarrow> p | Inl _ \<Rightarrow> \<lparr> pp_protectedOperators = [], pp_routes = [] \<rparr>)"

definition ex_authorized :: bool where
  "ex_authorized = claim_authorized ex_services
     \<lparr> ap_policy = JNull, ap_sha256 = [], ap_r2ObjectKey = [], ap_projection = ex_projection \<rparr> ex_claim"

lemma ex_authorized: ex_authorized
  by code_simp

lemma ex_claim_authorized:
  assumes "projectPolicy (sv_core ex_services) (ap_policy v) = Inr (ap_projection v)"
  shows "claim_authorized ex_services v ex_claim"
proof -
  have "projectPolicy (sv_core ex_services) (ap_policy v) = projectPolicy ex_core JNull"
    by (simp add: projectPolicy_def ex_services_def ex_core_def)
  then have "projectPolicy ex_core JNull = Inr (ap_projection v)"
    using assms by simp
  then have p: "ap_projection v = ex_projection"
    by (simp add: ex_projection_def)
  have "authorizeReplyWithPolicy (sv_core ex_services) q a b c = authorizeReplyWithPolicy (sv_core ex_services) JNull a b c" for q a b c
    by (simp add: authorizeReplyWithPolicy_def ex_services_def ex_core_def)
  with p ex_authorized show ?thesis
    unfolding ex_authorized_def claim_authorized_def projected_route_def by simp metis
qed

lemma ex_recovered:
  "\<exists>w. recoverKnownUnsentDispatch ex_services ex_claim_id ex_world = (Inr (Dispatch_Queued, ''durable_dispatch_submitted''), w)"
proof -
  obtain v w where v: "loadActivePolicy ex_services ex_world = (Inr (Some v), w)"
    using ex_policy_loads by (metis prod.collapse)
  then have w: "w = ex_world" using reads_same [OF loadActivePolicy_reads] by simp
  from loadActivePolicy_stored [of ex_services ex_world v] v ex_mode
  have p: "projectPolicy (sv_core ex_services) (ap_policy v) = Inr (ap_projection v)" "active_policy ex_db = Some (ap_sha256 v)"
    by (auto simp: ex_world_fields)
  have "is_claim_id ex_claim_id" by (simp add: is_claim_id_def ex_claim_id_def)
  moreover have "odc_replyProcessingMode (operatorDeliveryConfig (sv_env ex_services)) = Processing_Enabled"
    by (simp add: operatorDeliveryConfig_def ex_services_def ex_env_def empty_env_def Let_def relayMode_def)
  moreover have "ap_sha256 v = ex_digest" using p(2) by (simp add: active_policy_def ex_db_def)
  moreover obtain u where "dispatch_claim ex_services ex_claim_id ex_claim ex_world =
    (Inr (Dispatch_Queued, ''durable_dispatch_submitted''), u)" using ex_dispatched by blast
  moreover have "loadStoredReplyClaim ex_claim_id ex_world = (Inr (Some ex_claim), ex_world)"
    using ex_claim_stored by (simp add: loadStoredReplyClaim_def quiet_simps)
  ultimately show ?thesis
    using v w ex_claim_authorized [OF p(1)]
    by (simp add: recoverKnownUnsentDispatch_def Let_def andThen_def)
       (simp add: ex_claim_def ex_attempt_def ex_admission_def)
qed

end
