(* ===== verification/Work_Destination.thy ===== *)
theory Work_Destination
  imports Router
begin

text \<open>
  \<^verbatim>\<open>workers/shared/work-destination.ts\<close>: the choice of the destination of an inbound message and the
  handoff of a message to a work queue. A work-queue adapter is code outside the repository: its record
  has the contract it declares, its queue and its \<^verbatim>\<open>handoff\<close>, \<^const>\<open>None\<close> when the call throws.
\<close>

record handoff_receipt =
  hr_deliveryId :: string
  hr_receiptId :: string
  hr_outcome :: string

record work_adapter =
  wa_contract :: string
  wa_queueRef :: string
  wa_handoff :: "(string \<Rightarrow> string \<Rightarrow> string \<Rightarrow> handoff_receipt option) option"

record selected_destination =
  sd_destinationRef :: string
  sd_accountableRef :: string
  sd_target :: disposition_target
  sd_routeRef :: string
  sd_fallbackUsed :: bool
  sd_adapter :: "work_adapter option"

definition select_candidate :: "disposition_candidate \<Rightarrow> string \<Rightarrow> nat \<Rightarrow> work_adapter option \<Rightarrow> selected_destination" where
  "select_candidate c routeRef index adapter =
     \<lparr> sd_destinationRef = dc_destinationRef c, sd_accountableRef = dc_accountableRef c,
       sd_target = dc_target c, sd_routeRef = routeRef, sd_fallbackUsed = (0 < index), sd_adapter = adapter \<rparr>"

definition usable_adapter :: "(string \<times> work_adapter) list \<Rightarrow> string \<Rightarrow> work_adapter option" where
  "usable_adapter adapters queueRef =
     (case map_of adapters queueRef of
        None \<Rightarrow> None
      | Some a \<Rightarrow>
          if wa_contract a = ''durable-work-handoff-v1'' \<and> wa_queueRef a = queueRef \<and> wa_handoff a \<noteq> None
          then Some a else None)"

fun select_from ::
  "string \<Rightarrow> (string \<times> work_adapter) list \<Rightarrow> nat \<Rightarrow> disposition_candidate list \<Rightarrow> selected_destination option" where
  "select_from routeRef adapters index [] = None"
| "select_from routeRef adapters index (c # cs) =
     (case dc_target c of
        Mailbox_Target recipients \<Rightarrow>
          if recipients \<noteq> [] then Some (select_candidate c routeRef index None)
          else select_from routeRef adapters (Suc index) cs
      | Work_Queue_Target queueRef \<Rightarrow>
          (case usable_adapter adapters queueRef of
             Some a \<Rightarrow> Some (select_candidate c routeRef index (Some a))
           | None \<Rightarrow> select_from routeRef adapters (Suc index) cs))"

definition selectDestination ::
  "route_decision \<Rightarrow> (string \<times> work_adapter) list \<Rightarrow> selected_destination option" where
  "selectDestination route adapters =
     (case de_disposition route of
        None \<Rightarrow>
          if de_operators route \<noteq> [] \<or> de_routeKind route = Sink then
            Some \<lparr> sd_destinationRef = ''legacy:'' @ de_domain route @ '':'' @ de_localPart route,
                   sd_accountableRef = ''legacy:operators'', sd_target = Mailbox_Target (de_operators route),
                   sd_routeRef = ''route:'' @ de_domain route @ '':'' @ de_localPart route,
                   sd_fallbackUsed = False, sd_adapter = None \<rparr>
          else None
      | Some disposition \<Rightarrow> select_from (rd_routeRef disposition) adapters 0 (rd_candidates disposition))"

datatype handoff_outcome = Durably_Accepted | Handoff_Recovery_Required

definition handoffSelectedWork ::
  "selected_destination \<Rightarrow> string \<Rightarrow> string \<Rightarrow> string + handoff_outcome" where
  "handoffSelectedWork selected deliveryId rawR2Key =
     (case (sd_target selected, sd_adapter selected) of
        (Work_Queue_Target queueRef, Some adapter) \<Rightarrow>
          if wa_queueRef adapter \<noteq> queueRef then Inl ''work destination adapter unavailable''
          else Inr (case wa_handoff adapter of
                      None \<Rightarrow> Handoff_Recovery_Required
                    | Some handoff \<Rightarrow>
                        (case handoff deliveryId (sd_routeRef selected) rawR2Key of
                           None \<Rightarrow> Handoff_Recovery_Required
                         | Some r \<Rightarrow>
                             if hr_outcome r = ''durably_accepted'' \<and> hr_deliveryId r = deliveryId \<and> hr_receiptId r \<noteq> []
                             then Durably_Accepted else Handoff_Recovery_Required))
      | _ \<Rightarrow> Inl ''work destination adapter unavailable'')"

section \<open>Lemmas\<close>

definition deliverable :: "(string \<times> work_adapter) list \<Rightarrow> disposition_candidate \<Rightarrow> bool" where
  \<comment> \<open>the specification of a usable candidate\<close>
  "deliverable adapters c =
     (case dc_target c of
        Mailbox_Target recipients \<Rightarrow> recipients \<noteq> []
      | Work_Queue_Target queueRef \<Rightarrow> usable_adapter adapters queueRef \<noteq> None)"

definition select_deliverable ::
  "string \<Rightarrow> (string \<times> work_adapter) list \<Rightarrow> nat \<Rightarrow> disposition_candidate \<Rightarrow> selected_destination" where
  "select_deliverable routeRef adapters index c = select_candidate c routeRef index
     (case dc_target c of Mailbox_Target _ \<Rightarrow> None | Work_Queue_Target q \<Rightarrow> usable_adapter adapters q)"

lemma select_from_Cons:
  "select_from routeRef adapters index (c # cs) =
     (if deliverable adapters c then Some (select_deliverable routeRef adapters index c)
      else select_from routeRef adapters (Suc index) cs)"
  by (auto simp: deliverable_def select_deliverable_def split: disposition_target.splits option.splits)

lemma select_from_first:
  assumes "select_from routeRef adapters index cs = Some s"
  obtains pre c post where "cs = pre @ c # post" "deliverable adapters c" "list_all (\<lambda>b. \<not> deliverable adapters b) pre"
    and "s = select_deliverable routeRef adapters (index + length pre) c"
  using assms
proof (induction cs arbitrary: index thesis)
  case (Cons c cs)
  show ?case
  proof (cases "deliverable adapters c")
    case True
    with Cons.prems(2) Cons.prems(1) [of "[]" c cs] show ?thesis
      by (simp add: select_from_Cons del: select_from.simps)
  next
    case False
    then have "select_from routeRef adapters (Suc index) cs = Some s"
      using Cons.prems(2) by (simp add: select_from_Cons del: select_from.simps)
    then obtain pre b post where "cs = pre @ b # post" "deliverable adapters b"
      "list_all (\<lambda>b. \<not> deliverable adapters b) pre" "s = select_deliverable routeRef adapters (Suc index + length pre) b"
      using Cons.IH by blast
    with False Cons.prems(1) [of "c # pre" b post] show ?thesis by simp
  qed
qed simp

lemma select_from_None: "select_from routeRef adapters index cs = None \<longleftrightarrow> list_all (\<lambda>c. \<not> deliverable adapters c) cs"
  by (induction cs arbitrary: index) (auto simp: deliverable_def split: disposition_target.splits option.splits)

lemma select_from_adapter:
  "select_from routeRef adapters index cs = Some s \<Longrightarrow>
   (case sd_target s of
      Mailbox_Target recipients \<Rightarrow> recipients \<noteq> [] \<and> sd_adapter s = None
    | Work_Queue_Target queueRef \<Rightarrow> \<exists>a. sd_adapter s = Some a \<and> usable_adapter adapters queueRef = Some a)"
  by (induction cs arbitrary: index)
     (auto simp: select_candidate_def split: disposition_target.splits option.splits if_splits)

lemma usable_adapter_Some:
  "usable_adapter adapters q = Some a \<Longrightarrow>
   map_of adapters q = Some a \<and> wa_contract a = ''durable-work-handoff-v1'' \<and> wa_queueRef a = q \<and> wa_handoff a \<noteq> None"
  by (auto simp: usable_adapter_def split: option.splits if_splits)

definition first_deliverable ::
  "(string \<times> work_adapter) list \<Rightarrow> disposition_candidate list \<Rightarrow> selected_destination \<Rightarrow> bool" where
  \<comment> \<open>the specification of a selection from the candidates of a disposition\<close>
  "first_deliverable adapters cs s \<longleftrightarrow>
     (\<exists>pre c post. cs = pre @ c # post \<and> list_all (\<lambda>b. \<not> deliverable adapters b) pre \<and> deliverable adapters c \<and>
        sd_target s = dc_target c \<and> sd_fallbackUsed s = (pre \<noteq> []) \<and>
        (\<forall>q. dc_target c = Work_Queue_Target q \<longrightarrow> (\<exists>a. sd_adapter s = Some a \<and> map_of adapters q = Some a \<and>
           wa_contract a = ''durable-work-handoff-v1'' \<and> wa_queueRef a = q)))"

lemma select_deliverable_adapter:
  assumes "deliverable adapters c" "dc_target c = Work_Queue_Target q"
  shows "\<exists>a. sd_adapter (select_deliverable r adapters n c) = Some a \<and> map_of adapters q = Some a \<and>
    wa_contract a = ''durable-work-handoff-v1'' \<and> wa_queueRef a = q"
proof -
  obtain a where a: "usable_adapter adapters q = Some a"
    using assms by (auto simp: deliverable_def)
  then have "sd_adapter (select_deliverable r adapters n c) = Some a"
    using assms(2) by (simp add: select_deliverable_def select_candidate_def)
  with usable_adapter_Some [OF a] show ?thesis by simp
qed

lemma select_from_spec:
  assumes "select_from routeRef adapters 0 cs = Some s"
  shows "first_deliverable adapters cs s"
proof -
  obtain pre c post where p: "cs = pre @ c # post" "deliverable adapters c" "list_all (\<lambda>b. \<not> deliverable adapters b) pre"
    "s = select_deliverable routeRef adapters (0 + length pre) c"
    using select_from_first [OF assms] by blast
  have "sd_target s = dc_target c" "sd_fallbackUsed s = (pre \<noteq> [])"
    by (simp_all add: p(4) select_deliverable_def select_candidate_def)
  with p select_deliverable_adapter [OF p(2)] show ?thesis
    unfolding first_deliverable_def by (metis p(4))
qed

end
