(* ===== verification/Inbound_Repository.thy ===== *)
theory Inbound_Repository
  imports Reply_Repository Status_Store Work_Destination
begin

text \<open>
  \<^verbatim>\<open>workers/mail-router/src/inbound-repository.ts\<close>: what the mail router reads and writes about incoming
  mail. A message for operators is persisted in one batch: thread, relay, delivery and one row per recipient.
\<close>

section \<open>Data\<close>

record inbound_mail =
  \<comment> \<open>\<^verbatim>\<open>ForwardableEmailMessage\<close>; the raw stream is \<^const>\<open>None\<close> when reading it fails\<close>
  ml_from :: string
  ml_to :: string
  ml_raw :: "byte list option"
  ml_rawSize :: nat
  ml_header :: "string \<Rightarrow> string option"

record inbound_view =                               \<comment> \<open>\<^verbatim>\<open>InboundDeliveryRow\<close>\<close>
  iw_id :: string
  iw_relay_id :: string
  iw_thread_id :: string
  iw_route_id :: string
  iw_policy_sha256 :: string
  iw_raw_r2_key :: "string option"
  iw_reply_identity :: string
  iw_token_sha256 :: string
  iw_received_at :: string
  iw_status :: string

record persisted_inbound =
  pi_deliveryId :: string
  pi_relayId :: string
  pi_routeId :: string
  pi_threadId :: string
  pi_policySha256 :: string

record operator_result =                            \<comment> \<open>\<^verbatim>\<open>OperatorDeliveryResult\<close>\<close>
  or_operator :: string
  or_deliveryPayloadR2Key :: "string option"
  or_ok :: bool
  or_providerMessageId :: "string option"
  or_errorCode :: "string option"

record delivery_spool =                             \<comment> \<open>\<^verbatim>\<open>OperatorDeliverySpool\<close>\<close>
  sp_key :: string
  sp_value :: string
  sp_sha256 :: string
  sp_operatorRef :: string

record relay_binding =                              \<comment> \<open>the argument \<open>relay\<close> of \<^verbatim>\<open>persistInboxRelay\<close>\<close>
  rb_deliveryId :: string
  rb_messageId :: string
  rb_relayId :: string
  rb_tokenHash :: string
  rb_expiresAt :: string
  rb_receivedAt :: string
  rb_fingerprintSha256 :: string
  rb_spoolKey :: string
  rb_operatorRefs :: "string list"
  rb_deliveryMessageIds :: "string list"
  rb_deliveryPayloadKeys :: "string list"
  rb_deliveryPayloadSha256s :: "string list"

section \<open>Addresses and message ids\<close>

definition parseMailbox :: "string \<Rightarrow> (string \<times> string) option" where
  \<comment> \<open>the local part and the domain\<close>
  "parseMailbox address =
     (let normalized = normalizeMailbox address; atIndex = last_index_of (CHR ''@'') normalized in
      if atIndex \<le> 0 then None else Some (take (nat atIndex) normalized, drop (nat atIndex + 1) normalized))"

definition extractMessageIds :: "string option \<Rightarrow> string list" where
  "extractMessageIds value =
     (case value of None \<Rightarrow> [] | Some v \<Rightarrow> if v = [] \<or> 8000 < length v then [] else angle_ids v)"

definition referencedMessageIds :: "string option \<Rightarrow> string option \<Rightarrow> string list" where
  \<comment> \<open>the answered message first, then the references from the last to the first\<close>
  "referencedMessageIds inReplyTo references = uniq (extractMessageIds inReplyTo @ rev (extractMessageIds references))"

definition collisionResistantId :: "services \<Rightarrow> string \<Rightarrow> string list \<Rightarrow> string" where
  "collisionResistantId sv pre parts = pre @ '':'' @ sha sv (join [CHR 0x00] parts)"

section \<open>Threads\<close>

definition thread_of_message :: "string \<Rightarrow> string \<Rightarrow> string \<Rightarrow> db \<Rightarrow> string option" where
  "thread_of_message referencedId routeId externalSender d =
     map_option ms_thread_id (first_row (\<lambda>m. ms_header_message_id m = Some referencedId \<and>
       (case thread_by_id (ms_thread_id m) d of
          None \<Rightarrow> False
        | Some th \<Rightarrow> th_route_id th = routeId \<and> sql_lower (th_external_sender th) = sql_lower externalSender))
       (db_messages d))"

fun find_thread :: "string \<Rightarrow> string \<Rightarrow> string list \<Rightarrow> string option act" where
  \<comment> \<open>the loop of \<^verbatim>\<open>resolveThreadId\<close>\<close>
  "find_thread routeId externalSender [] = ret None"
| "find_thread routeId externalSender (referencedId # rest) =
     andThen (d1 (query (\<lambda>_. thread_of_message referencedId routeId externalSender))) (\<lambda>existing.
       if truthy existing then ret existing else find_thread routeId externalSender rest)"

definition resolveThreadId ::
  "services \<Rightarrow> string \<Rightarrow> string \<Rightarrow> string \<Rightarrow> string \<Rightarrow> string option \<Rightarrow> string option \<Rightarrow> string act" where
  "resolveThreadId sv routeId externalSender envelopeTo messageId inReplyTo references =
     andThen (find_thread routeId externalSender (referencedMessageIds inReplyTo references)) (\<lambda>existing.
       ret (case existing of
              Some i \<Rightarrow> i
            | None \<Rightarrow> collisionResistantId sv ''thread'' [envelopeTo, externalSender, trim messageId]))"

section \<open>Persisting a message for operators\<close>

definition active_route :: "string \<Rightarrow> string \<Rightarrow> (route_row \<Rightarrow> bool) \<Rightarrow> db \<Rightarrow> bool" where
  \<comment> \<open>an enabled route of the policy, which is the active one\<close>
  "active_route routeId policySha256 P d \<longleftrightarrow>
     active_policy d = Some policySha256 \<and>
     list_ex (\<lambda>ar. ar_id ar = routeId \<and> ar_enabled ar \<and> ar_policy_sha256 ar = Some policySha256 \<and> P ar) (db_routes d)"

definition upsert_thread :: "thread_row \<Rightarrow> nat statement" where
  \<comment> \<open>\<^verbatim>\<open>ON CONFLICT(id) DO UPDATE SET updated_at\<close>\<close>
  "upsert_thread th t d =
     (if thread_by_id (th_id th) d \<noteq> None then Inr (1, d)
      else if \<not> list_ex (\<lambda>r. dm_id r = th_domain_id th) (db_domains d) \<or> route_by_id (th_route_id th) d = None
      then Inl (Err ''FOREIGN KEY constraint failed'')
      else Inr (1, d\<lparr>db_threads := db_threads d @ [th]\<rparr>))"

definition insert_inbound_thread :: "thread_row \<Rightarrow> string \<Rightarrow> route_kind \<Rightarrow> string \<Rightarrow> nat statement" where
  "insert_inbound_thread th identityId kind policySha256 t d =
     (if active_route (th_route_id th) policySha256
           (\<lambda>ar. ar_domain_id ar = th_domain_id th \<and> ar_default_reply_identity_id ar = identityId \<and>
                 ar_decision_kind ar = kind_name kind) d
      then upsert_thread th t d else Inr (0, d))"

definition insert_relay :: "relay_row \<Rightarrow> string \<Rightarrow> nat statement" where
  "insert_relay rr policySha256 t d =
     (if \<not> active_route (rr_route_id rr) policySha256 (\<lambda>_. True) d then Inr (0, d)
      else if list_ex (\<lambda>r. rr_id r = rr_id rr \<or> rr_token_sha256 r = rr_token_sha256 rr) (db_relays d) \<or>
              length (rr_token_sha256 rr) \<noteq> 64 \<or> thread_by_id (rr_thread_id rr) d = None
      then Inl (Err ''constraint failed: reply_relays'')
      else Inr (1, d\<lparr>db_relays := db_relays d @ [rr]\<rparr>))"

definition insert_delivery :: "delivery_row \<Rightarrow> nat statement" where
  "insert_delivery dl t d =
     (if list_ex (\<lambda>r. dl_id r = dl_id dl \<or> dl_fingerprint_sha256 r = dl_fingerprint_sha256 dl \<or>
             dl_relay_id r = dl_relay_id dl) (db_deliveries d) \<or>
         length (dl_fingerprint_sha256 dl) \<noteq> 64 \<or> length (dl_policy_sha256 dl) \<noteq> 64 \<or>
         relay_by_id (dl_relay_id dl) d = None \<or> thread_by_id (dl_thread_id dl) d = None \<or>
         route_by_id (dl_route_id dl) d = None
      then Inl (Err ''constraint failed: inbound_deliveries'')
      else Inr (1, d\<lparr>db_deliveries := db_deliveries d @ [dl]\<rparr>))"

definition insert_recipient :: "recipient_row \<Rightarrow> nat statement" where
  "insert_recipient rd t d =
     (if list_ex (\<lambda>r. rd_delivery_id r = rd_delivery_id rd \<and> rd_operator_ref r = rd_operator_ref rd) (db_recipients d) \<or>
         length (rd_operator_ref rd) \<noteq> 64 \<or> length (rd_delivery_payload_sha256 rd) \<noteq> 64 \<or>
         \<not> list_ex (\<lambda>dl. dl_id dl = rd_delivery_id rd) (db_deliveries d)
      then Inl (Err ''constraint failed: inbound_recipient_deliveries'')
      else Inr (1, d\<lparr>db_recipients := db_recipients d @ [rd]\<rparr>))"

definition note_inbound :: "string \<Rightarrow> string \<Rightarrow> string \<Rightarrow> nat statement" where
  \<comment> \<open>the time of the last inbound message, in the active policy only\<close>
  "note_inbound receivedAt routeId policySha256 t d =
     update_health (\<lambda>r. rh_route_id r = routeId \<and> rh_policy_sha256 r = Some policySha256 \<and>
         active_policy d = Some policySha256)
       (\<lambda>r. r\<lparr>rh_last_inbound_at := Some receivedAt\<rparr>) t d"

definition recipient_rows :: "relay_binding \<Rightarrow> recipient_row list" where
  "recipient_rows relay =
     map (\<lambda>i. \<lparr> rd_delivery_id = rb_deliveryId relay, rd_operator_ref = rb_operatorRefs relay ! i,
            rd_delivery_message_id = rb_deliveryMessageIds relay ! i,
            rd_delivery_payload_r2_key = rb_deliveryPayloadKeys relay ! i,
            rd_delivery_payload_sha256 = rb_deliveryPayloadSha256s relay ! i,
            rd_status = ''pending'', rd_provider_message_id = None, rd_error_code = None \<rparr>)
       [0..<length (rb_operatorRefs relay)]"

definition inbound_batch ::
  "relay_email \<Rightarrow> route_decision \<Rightarrow> relay_binding \<Rightarrow> string \<Rightarrow> string \<Rightarrow> string \<Rightarrow> string \<Rightarrow> string \<Rightarrow> string \<Rightarrow> nat statement list" where
  "inbound_batch parsed route relay policySha256 domainId identityId routeId threadId externalSender =
     [insert_inbound_thread \<lparr> th_id = threadId, th_domain_id = domainId, th_route_id = routeId,
        th_external_sender = externalSender, th_subject = None \<rparr> identityId (de_routeKind route) policySha256,
      insert_relay \<lparr> rr_id = rb_relayId relay, rr_token_sha256 = rb_tokenHash relay, rr_thread_id = threadId,
        rr_route_id = routeId, rr_external_recipient = externalSender,
        rr_reply_identity = de_defaultReplyIdentity route,
        rr_original_message_id = Some (with_default (rb_messageId relay) (pe_messageId parsed)),
        rr_references = Some (jstrings (pe_references parsed)), rr_expires_at = rb_expiresAt relay,
        rr_revoked_at = None, rr_superseded_by = None \<rparr> policySha256,
      insert_delivery \<lparr> dl_id = rb_deliveryId relay, dl_fingerprint_sha256 = rb_fingerprintSha256 relay,
        dl_relay_id = rb_relayId relay, dl_thread_id = threadId, dl_route_id = routeId,
        dl_policy_sha256 = policySha256, dl_raw_r2_key = Some (rb_spoolKey relay),
        dl_received_at = rb_receivedAt relay, dl_status = ''pending'' \<rparr>] @
     map insert_recipient (recipient_rows relay) @
     [note_inbound (rb_receivedAt relay) routeId policySha256]"

definition persistInboxRelay ::
  "services \<Rightarrow> inbound_mail \<Rightarrow> relay_email \<Rightarrow> route_decision \<Rightarrow> relay_binding \<Rightarrow> string \<Rightarrow> persisted_inbound act" where
  "persistInboxRelay sv message parsed route relay policySha256 =
     (case parseMailbox (ml_to message) of
        None \<Rightarrow> throw (Err ''invalid envelope recipient'')
      | Some (_, domain) \<Rightarrow>
          let domainId = stableId ''domain'' [domain];
              identityId = stableId ''identity'' [de_defaultReplyIdentity route];
              routeId = stableId ''route'' [domain, de_localPart route];
              externalSender = normalizeMailbox (mb_address (pe_from parsed));
              references = join '' '' (pe_references parsed) in
          andThen (resolveThreadId sv routeId externalSender (normalizeMailbox (ml_to message)) (rb_messageId relay)
                     (pe_inReplyTo parsed) (if references = [] then None else Some references)) (\<lambda>threadId.
          andThen (d1 (batch (inbound_batch parsed route relay policySha256 domainId identityId routeId threadId externalSender))) (\<lambda>persisted.
            if list_ex (\<lambda>n. n = 0) (take (3 + length (rb_operatorRefs relay)) persisted)
            then throw (Err ''active policy revision changed during inbound persistence'')
            else followedBy
              (recordAudit sv (rb_deliveryId relay @ '':inbox_relay_created'') (Some threadId) ''system'' ''inbox_relay_created''
                (JObject [(''deliveryId'', JString (rb_deliveryId relay)), (''routeKind'', JString (kind_name (de_routeKind route))),
                          (''operatorCount'', JInt (int (length (de_operators route)))),
                          (''replyIdentity'', JString (de_defaultReplyIdentity route)),
                          (''relayId'', JString (rb_relayId relay))]))
              (ret \<lparr> pi_deliveryId = rb_deliveryId relay, pi_relayId = rb_relayId relay, pi_routeId = routeId,
                     pi_threadId = threadId, pi_policySha256 = policySha256 \<rparr>))))"

section \<open>Results\<close>

definition route_error_code :: "operator_result list \<Rightarrow> string \<Rightarrow> string option" where
  "route_error_code results status =
     (let errorCodes = uniq (List.map_filter (\<lambda>r. nonempty (or_errorCode r)) results) in
      if status = ''provider_accepted'' then None
      else if length errorCodes = 1 then Some (hd errorCodes) else Some status)"

definition operator_provider_ids :: "operator_result list \<Rightarrow> string list" where
  "operator_provider_ids results = List.map_filter (\<lambda>r. nonempty (or_providerMessageId r)) results"

definition project_operator_health :: "services \<Rightarrow> persisted_inbound \<Rightarrow> operator_result list \<Rightarrow> string \<Rightarrow> nat statement" where
  "project_operator_health sv inbound results status t d =
     update_health
       (\<lambda>r. rh_route_id r = pi_routeId inbound \<and> rh_policy_sha256 r = Some (pi_policySha256 inbound) \<and>
            active_policy d = Some (pi_policySha256 inbound))
       (\<lambda>r. let accepted = list_ex or_ok results in
          r\<lparr>rh_inbound_status :=
              (if status = ''provider_accepted'' \<and> rh_inbound_status r = ''inbox_verified'' then rh_inbound_status r else status),
            rh_last_inbound_provider_accepted_at :=
              (if accepted then Some (sv_timestamp sv t) else rh_last_inbound_provider_accepted_at r),
            rh_last_inbound_provider_message_ids :=
              (if accepted then operator_provider_ids results else rh_last_inbound_provider_message_ids r),
            rh_last_error_code := route_error_code results status\<rparr>) t d"

definition audit_operator_result :: "services \<Rightarrow> persisted_inbound \<Rightarrow> nat \<times> operator_result \<Rightarrow> unit act" where
  "audit_operator_result sv inbound entry =
     (let result = snd entry in
      recordAudit sv (pi_deliveryId inbound @ '':operator_delivery:'' @ show_nat (fst entry)) (Some (pi_threadId inbound)) ''system''
        (if or_ok result then ''operator_delivery_recipient_provider_accepted''
         else ''operator_delivery_recipient_recovery_required'')
        (JObject [(''deliveryId'', JString (pi_deliveryId inbound)), (''relayId'', JString (pi_relayId inbound)),
                  (''operatorRef'', JString (sha sv (or_operator result))),
                  (''providerMessageId'', jundef (or_providerMessageId result)),
                  (''errorCode'', jundef (or_errorCode result))]))"

definition recordDeliveryResults ::
  "services \<Rightarrow> persisted_inbound \<Rightarrow> operator_result list \<Rightarrow> string \<Rightarrow> string option \<Rightarrow> unit act" where
  "recordDeliveryResults sv inbound results status spoolKey =
     andThen (d1 (update_deliveries (\<lambda>dl. dl_id dl = pi_deliveryId inbound \<and> dl_policy_sha256 dl = pi_policySha256 inbound)
                    (\<lambda>dl. dl\<lparr>dl_status := status\<rparr>))) (\<lambda>n.
       if n = 0 then throw (Err ''inbound delivery result has no durable claim'')
       else andThen (d1 (project_operator_health sv inbound results status)) (\<lambda>m.
         if m = 0 then throw (Err ''inbound provider result belongs to a superseded policy revision'')
         else followedBy (allOf (audit_operator_result sv inbound) (List.enumerate 0 results))
           (recordAudit sv (pi_deliveryId inbound @ '':operator_delivery_result'') (Some (pi_threadId inbound)) ''system''
             (if status = ''provider_accepted'' then ''operator_delivery_provider_accepted'' else status)
             (JObject [(''deliveryId'', JString (pi_deliveryId inbound)), (''relayId'', JString (pi_relayId inbound)),
                       (''acceptedCount'', JInt (int (length (filter or_ok results)))),
                       (''failedCount'', JInt (int (length (filter (\<lambda>r. \<not> or_ok r) results)))),
                       (''providerMessageIds'', jstrings (operator_provider_ids results)),
                       (''recoverySpool'', JBool (truthy spoolKey))]))))"

definition inboundDeliveryResultJob ::
  "services \<Rightarrow> persisted_inbound \<Rightarrow> operator_result list \<Rightarrow> string \<Rightarrow> string \<Rightarrow> string \<Rightarrow> string + result_job" where
  "inboundDeliveryResultJob sv inbound results status rawSpoolKey receivedAt =
     bindE (traverse (\<lambda>r.
         if \<not> truthy (or_deliveryPayloadR2Key r) then Inl ''inbox relay result is missing its recovery payload key''
         else Inr \<lparr> rr_operatorRef = sha sv (or_operator r), rr_deliveryPayloadR2Key = the (or_deliveryPayloadR2Key r),
                    rr_ok = or_ok r, rr_providerMessageId = or_providerMessageId r, rr_errorCode = or_errorCode r \<rparr>) results) (\<lambda>rs.
       Inr \<lparr> rj_deliveryId = pi_deliveryId inbound, rj_relayId = pi_relayId inbound, rj_threadId = pi_threadId inbound,
             rj_routeId = pi_routeId inbound, rj_policySha256 = pi_policySha256 inbound, rj_status = status,
             rj_results = rs, rj_relaySpoolKey = rawSpoolKey, rj_receivedAt = receivedAt \<rparr>)"

section \<open>Deliveries and recipients\<close>

definition inbound_delivery :: "string \<Rightarrow> db \<Rightarrow> inbound_view option" where
  "inbound_delivery fingerprint d =
     (case first_row (\<lambda>dl. dl_fingerprint_sha256 dl = fingerprint \<and> relay_by_id (dl_relay_id dl) d \<noteq> None) (db_deliveries d) of
        None \<Rightarrow> None
      | Some dl \<Rightarrow>
          map_option (\<lambda>rr. \<lparr> iw_id = dl_id dl, iw_relay_id = dl_relay_id dl, iw_thread_id = dl_thread_id dl,
              iw_route_id = dl_route_id dl, iw_policy_sha256 = dl_policy_sha256 dl, iw_raw_r2_key = dl_raw_r2_key dl,
              iw_reply_identity = rr_reply_identity rr, iw_token_sha256 = rr_token_sha256 rr,
              iw_received_at = dl_received_at dl, iw_status = dl_status dl \<rparr>) (relay_by_id (dl_relay_id dl) d))"

definition loadInboundDelivery :: "string \<Rightarrow> inbound_view option act" where
  "loadInboundDelivery fingerprint = d1 (query (\<lambda>_. inbound_delivery fingerprint))"

definition recipients_of :: "string \<Rightarrow> db \<Rightarrow> recipient_row list" where
  \<comment> \<open>\<^verbatim>\<open>WHERE delivery_id = ?1 ORDER BY operator_ref\<close>\<close>
  "recipients_of deliveryId d = order_by rd_operator_ref (filter (\<lambda>r. rd_delivery_id r = deliveryId) (db_recipients d))"

definition discard_unsent :: "string \<Rightarrow> string \<Rightarrow> string \<Rightarrow> nat statement" where
  \<comment> \<open>\<^verbatim>\<open>DISCARD_SUPERSEDED_UNSENT_RELAY_SQL\<close> with the cascades and the restrictions of the foreign keys\<close>
  "discard_unsent relayId policySha256 deliveryId t d =
     (let unsent = (\<lambda>dl. dl_relay_id dl = relayId \<and> dl_id dl = deliveryId \<and> dl_policy_sha256 dl = policySha256 \<and>
            \<not> list_ex (\<lambda>r. rd_delivery_id r = dl_id dl \<and> rd_status r \<noteq> ''pending'') (db_recipients d));
          gone = (\<lambda>i. list_ex (\<lambda>dl. dl_id dl = i \<and> dl_relay_id dl = relayId) (db_deliveries d)) in
      if relay_by_id relayId d = None \<or> active_policy d = None \<or> active_policy d = Some policySha256 \<or>
         \<not> list_ex unsent (db_deliveries d)
      then Inr (0, d)
      else if list_ex (\<lambda>ra. ad_relay_id ra = relayId \<or> (\<exists>i \<in> set_option (ad_inbound_delivery_id ra). gone i)) (db_admissions d) \<or>
              list_ex (\<lambda>rr. rr_id rr \<noteq> relayId \<and> rr_superseded_by rr = Some relayId) (db_relays d)
      then Inl (Err ''FOREIGN KEY constraint failed'')
      else Inr (1, d\<lparr>db_relays := filter (\<lambda>r. rr_id r \<noteq> relayId) (db_relays d),
             db_attempts := filter (\<lambda>r. ra_relay_id r \<noteq> relayId) (db_attempts d),
             db_recipients := filter (\<lambda>r. \<not> gone (rd_delivery_id r)) (db_recipients d),
             db_deliveries := filter (\<lambda>dl. dl_relay_id dl \<noteq> relayId) (db_deliveries d)\<rparr>))"

definition discardSupersededUnsentInbound :: "services \<Rightarrow> inbound_view \<Rightarrow> string list option act" where
  "discardSupersededUnsentInbound sv inbound =
     andThen (loadActivePolicy sv) (\<lambda>active.
       case active of
         None \<Rightarrow> ret None
       | Some policy \<Rightarrow>
           if ap_sha256 policy = iw_policy_sha256 inbound then ret None
           else andThen (d1 (query (\<lambda>_. recipients_of (iw_id inbound)))) (\<lambda>rows.
             let payloadKeys = map rd_delivery_payload_r2_key rows in
             if payloadKeys = [] then ret None
             else andThen (d1 (discard_unsent (iw_relay_id inbound) (iw_policy_sha256 inbound) (iw_id inbound))) (\<lambda>n.
               ret (if 0 < n then Some payloadKeys else None))))"

definition loadInboundRecipient :: "string \<Rightarrow> string \<Rightarrow> recipient_row option act" where
  "loadInboundRecipient deliveryId operatorRef =
     d1 (query (\<lambda>_ d. first_row (\<lambda>r. rd_delivery_id r = deliveryId \<and> rd_operator_ref r = operatorRef) (db_recipients d)))"

definition update_recipients :: "(recipient_row \<Rightarrow> bool) \<Rightarrow> (recipient_row \<Rightarrow> recipient_row) \<Rightarrow> nat statement" where
  "update_recipients P f t d =
     Inr (changes P (db_recipients d), d\<lparr>db_recipients := update_where P f (db_recipients d)\<rparr>)"

definition recipient_claimable :: "string \<Rightarrow> string \<Rightarrow> string \<Rightarrow> string \<Rightarrow> db \<Rightarrow> recipient_row \<Rightarrow> bool" where
  \<comment> \<open>\<^verbatim>\<open>CLAIM_ACTIVE_INBOUND_RECIPIENT_SQL\<close>\<close>
  "recipient_claimable deliveryId operatorRef policySha256 spoolKey d r \<longleftrightarrow>
     rd_delivery_id r = deliveryId \<and> rd_operator_ref r = operatorRef \<and> rd_status r = ''pending'' \<and>
     list_ex (\<lambda>dl. dl_id dl = rd_delivery_id r \<and> dl_policy_sha256 dl = policySha256 \<and> dl_raw_r2_key dl = Some spoolKey \<and>
       active_route (dl_route_id dl) (dl_policy_sha256 dl) (\<lambda>_. True) d) (db_deliveries d)"

definition claim_recipient :: "string \<Rightarrow> string \<Rightarrow> string \<Rightarrow> string \<Rightarrow> nat statement" where
  "claim_recipient deliveryId operatorRef policySha256 spoolKey t d =
     update_recipients (recipient_claimable deliveryId operatorRef policySha256 spoolKey d)
       (\<lambda>r. r\<lparr>rd_status := ''sending''\<rparr>) t d"

definition claimInboundRecipient :: "string \<Rightarrow> string \<Rightarrow> string \<Rightarrow> string \<Rightarrow> bool act" where
  "claimInboundRecipient deliveryId operatorRef policySha256 spoolKey =
     andThen (d1 (claim_recipient deliveryId operatorRef policySha256 spoolKey)) (\<lambda>n. ret (0 < n))"

definition projectInboundRecipientResult :: "string \<Rightarrow> string \<Rightarrow> operator_result \<Rightarrow> unit act" where
  "projectInboundRecipientResult deliveryId operatorRef result =
     andThen (d1 (update_recipients
         (\<lambda>r. rd_delivery_id r = deliveryId \<and> rd_operator_ref r = operatorRef \<and> rd_status r = ''sending'')
         (\<lambda>r. r\<lparr>rd_status := (if or_ok result then ''provider_accepted'' else ''recovery_required''),
                rd_provider_message_id := or_providerMessageId result, rd_error_code := or_errorCode result\<rparr>))) (\<lambda>n.
       if n = 0 then throw (Err ''inbound recipient result has no sending claim'') else ret ())"

section \<open>Sinks and the web desk\<close>

definition sink_health :: "services \<Rightarrow> string \<Rightarrow> string \<Rightarrow> nat statement" where
  "sink_health sv routeId policySha256 t d =
     update_health
       (\<lambda>r. rh_route_id r = routeId \<and> rh_policy_sha256 r = Some policySha256 \<and>
            active_route routeId policySha256 (\<lambda>ar. ar_decision_kind ar = ''sink'') d)
       (\<lambda>r. r\<lparr>rh_inbound_status := ''intentionally_excluded'', rh_reply_status := ''intentionally_excluded'',
              rh_last_inbound_at := Some (sv_timestamp sv t)\<rparr>) t d"

definition persistSinkRoute :: "services \<Rightarrow> inbound_mail \<Rightarrow> route_decision \<Rightarrow> string \<Rightarrow> unit act" where
  "persistSinkRoute sv message route policySha256 =
     (case parseMailbox (ml_to message) of
        None \<Rightarrow> ret ()
      | Some (_, domain) \<Rightarrow>
          andThen (d1 (sink_health sv (stableId ''route'' [domain, de_localPart route]) policySha256)) (\<lambda>n.
            if n = 0 then throw (Err ''active sink policy changed'') else ret ()))"

definition insert_domain :: "string \<Rightarrow> string \<Rightarrow> nat statement" where
  "insert_domain i name t d =
     (if list_ex (\<lambda>r. dm_id r = i \<or> dm_domain r = name) (db_domains d) then Inr (0, d)
      else Inr (1, d\<lparr>db_domains := db_domains d @ [\<lparr> dm_id = i, dm_domain = name \<rparr>]\<rparr>))"

definition insert_identity :: "identity_row \<Rightarrow> nat statement" where
  \<comment> \<open>\<^verbatim>\<open>OR IGNORE\<close> does not cover foreign keys\<close>
  "insert_identity row t d =
     (if list_ex (\<lambda>r. id_id r = id_id row \<or> id_address r = id_address row) (db_identities d) then Inr (0, d)
      else if \<not> list_ex (\<lambda>r. dm_id r = id_domain_id row) (db_domains d)
      then Inl (Err ''FOREIGN KEY constraint failed'')
      else Inr (1, d\<lparr>db_identities := db_identities d @ [row]\<rparr>))"

definition insert_route :: "route_row \<Rightarrow> nat statement" where
  "insert_route row t d =
     (if list_ex (\<lambda>r. ar_id r = ar_id row \<or> (ar_domain_id r = ar_domain_id row \<and> ar_local_part r = ar_local_part row)) (db_routes d)
      then Inr (0, d)
      else if \<not> list_ex (\<lambda>r. dm_id r = ar_domain_id row) (db_domains d) \<or>
              \<not> list_ex (\<lambda>r. id_id r = ar_default_reply_identity_id row) (db_identities d)
      then Inl (Err ''FOREIGN KEY constraint failed'')
      else Inr (1, d\<lparr>db_routes := db_routes d @ [row]\<rparr>))"

definition update_route :: "string \<Rightarrow> string \<Rightarrow> string \<Rightarrow> string \<Rightarrow> nat statement" where
  "update_route storageKind identityId decisionKind routeId t d =
     (let P = (\<lambda>r. ar_id r = routeId) in
      if list_ex P (db_routes d) \<and> \<not> list_ex (\<lambda>r. id_id r = identityId) (db_identities d)
      then Inl (Err ''FOREIGN KEY constraint failed'')
      else Inr (changes P (db_routes d), d\<lparr>db_routes := update_where P (\<lambda>r. r\<lparr>ar_kind := storageKind,
             ar_default_reply_identity_id := identityId, ar_decision_kind := decisionKind\<rparr>) (db_routes d)\<rparr>))"

definition insert_operator :: "string \<Rightarrow> string \<Rightarrow> nat statement" where
  "insert_operator i email t d =
     (if list_ex (\<lambda>r. op_id r = i \<or> op_email r = email) (db_operators d) then Inr (0, d)
      else Inr (1, d\<lparr>db_operators := db_operators d @ [\<lparr> op_id = i, op_email = email \<rparr>]\<rparr>))"

definition insert_route_operator :: "string \<Rightarrow> string \<Rightarrow> nat statement" where
  "insert_route_operator routeId operatorId t d =
     (if (routeId, operatorId) \<in> set (db_route_operators d) then Inr (0, d)
      else if route_by_id routeId d = None \<or> \<not> list_ex (\<lambda>r. op_id r = operatorId) (db_operators d)
      then Inl (Err ''FOREIGN KEY constraint failed'')
      else Inr (1, d\<lparr>db_route_operators := db_route_operators d @ [(routeId, operatorId)]\<rparr>))"

definition insert_message :: "message_row \<Rightarrow> nat statement" where
  "insert_message row t d =
     (if list_ex (\<lambda>r. ms_id r = ms_id row) (db_messages d) then Inr (0, d)
      else if thread_by_id (ms_thread_id row) d = None then Inl (Err ''FOREIGN KEY constraint failed'')
      else Inr (1, d\<lparr>db_messages := db_messages d @ [row]\<rparr>))"

definition run_statement :: "nat statement \<Rightarrow> unit act" where
  "run_statement stmt = andThen (d1 stmt) (\<lambda>_. ret ())"

fun target_kind :: "disposition_target \<Rightarrow> string" where
  "target_kind (Mailbox_Target _) = ''mailbox''"
| "target_kind (Work_Queue_Target _) = ''work_queue''"

definition selection_detail :: "selected_destination \<Rightarrow> (string \<times> jv) list" where
  "selection_detail disp =
     [(''routeRef'', JString (sd_routeRef disp)), (''destinationRef'', JString (sd_destinationRef disp)),
      (''accountableRef'', JString (sd_accountableRef disp)), (''targetKind'', JString (target_kind (sd_target disp))),
      (''fallbackUsed'', JBool (sd_fallbackUsed disp))]"

definition project_web_desk_route :: "route_decision \<Rightarrow> string \<Rightarrow> string \<Rightarrow> string \<Rightarrow> string \<Rightarrow> unit act" where
  \<comment> \<open>the domain, the identity, the route and its operators\<close>
  "project_web_desk_route route domain domainId identityId routeId =
     followedBy (run_statement (insert_domain domainId domain))
     (followedBy (run_statement (insert_identity \<lparr> id_id = identityId, id_domain_id = domainId,
         id_address = de_defaultReplyIdentity route, id_kind = storage_kind route \<rparr>))
     (followedBy (run_statement (insert_route \<lparr> ar_id = routeId, ar_domain_id = domainId, ar_local_part = de_localPart route,
         ar_kind = storage_kind route, ar_decision_kind = kind_name (de_routeKind route),
         ar_default_reply_identity_id = identityId, ar_enabled = True, ar_policy_sha256 = None, ar_status_generation = 0 \<rparr>))
     (followedBy (run_statement (update_route (storage_kind route) identityId (kind_name (de_routeKind route)) routeId))
        (forEach (\<lambda>operator.
           followedBy (run_statement (insert_operator (stableId ''operator'' [operator]) operator))
             (run_statement (insert_route_operator routeId (stableId ''operator'' [operator])))) (de_operators route)))))"

definition persistWebDeskMetadata ::
  "services \<Rightarrow> inbound_mail \<Rightarrow> string \<Rightarrow> string \<Rightarrow> string \<Rightarrow> route_decision \<Rightarrow> operator_result list \<Rightarrow> selected_destination \<Rightarrow> unit act" where
  "persistWebDeskMetadata sv message messageId deliveryId rawR2Key route results disp =
     (case parseMailbox (ml_to message) of
        None \<Rightarrow> ret ()
      | Some (_, domain) \<Rightarrow>
          let domainId = stableId ''domain'' [domain];
              identityId = stableId ''identity'' [de_defaultReplyIdentity route];
              routeId = stableId ''route'' [domain, de_localPart route];
              sender = normalizeMailbox (ml_from message); to = normalizeMailbox (ml_to message) in
          andThen (resolveThreadId sv routeId sender to messageId (ml_header message ''in-reply-to'') (ml_header message ''references'')) (\<lambda>threadId.
          followedBy (project_web_desk_route route domain domainId identityId routeId)
          (followedBy (run_statement (upsert_thread \<lparr> th_id = threadId, th_domain_id = domainId, th_route_id = routeId,
              th_external_sender = sender, th_subject = ml_header message ''subject'' \<rparr>))
          (followedBy (run_statement (insert_message \<lparr> ms_id = stableId ''message'' [deliveryId], ms_thread_id = threadId,
              ms_direction = ''inbound'', ms_envelope_from = Some sender, ms_envelope_to = to,
              ms_header_message_id = Some messageId, ms_in_reply_to = ml_header message ''in-reply-to'',
              ms_raw_r2_key = Some rawR2Key, ms_delivery_status = ''received'', ms_retention_class = ''archive'' \<rparr>))
          (followedBy (recordAudit sv (deliveryId @ '':inbound_email_accepted'') (Some threadId) ''system'' ''inbound_email_accepted''
              (JObject [(''deliveryId'', JString deliveryId), (''routeKind'', JString (kind_name (de_routeKind route))),
                        (''acceptedCount'', JInt (int (length (filter or_ok results)))),
                        (''failedCount'', JInt (int (length (filter (\<lambda>r. \<not> or_ok r) results))))]))
            (unless (de_disposition route = None)
               (recordAudit sv (deliveryId @ '':route_disposition_selected'') (Some threadId) ''system'' ''route_disposition_selected''
                 (JObject (selection_detail disp)))))))))"

end
