(* ===== verification/Base64.thy ===== *)
theory Base64
  imports Js_Prelude
begin

text \<open>
  \<^verbatim>\<open>btoa\<close> and \<^verbatim>\<open>atob\<close> as the HTML standard defines them, and the two helpers of
  \<^verbatim>\<open>workers/mail-router/src/inbound-recovery.ts\<close> that carry attachments through JSON. A binary string is a
  string whose code units are the bytes.
\<close>

section \<open>Bytes and code units\<close>

definition byte_char :: "byte \<Rightarrow> char" where
  "byte_char b = char_of (unat b)"

definition char_byte :: "char \<Rightarrow> byte" where
  "char_byte c = of_nat (code c)"

lemma char_byte_inverse [simp]: "char_byte (byte_char b) = b"
proof -
  have "unat b < 256" using unsigned_less [of b, where ?'a = nat] by simp
  then show ?thesis by (simp add: char_byte_def byte_char_def code_def)
qed

section \<open>The alphabet\<close>

definition base64_char :: "nat \<Rightarrow> char" where
  "base64_char n =
     (if n < 26 then char_of (65 + n) else if n < 52 then char_of (71 + n)
      else if n < 62 then char_of (n - 4) else if n = 62 then CHR ''+'' else CHR ''/'')"

definition base64_value :: "char \<Rightarrow> nat option" where
  "base64_value c =
     (if is_upper_az c then Some (code c - 65) else if is_lower_az c then Some (code c - 71)
      else if is_digit c then Some (code c + 4) else if c = CHR ''+'' then Some 62
      else if c = CHR ''/'' then Some 63 else None)"

lemma base64_value_char: "n < 64 \<Longrightarrow> base64_value (base64_char n) = Some n"
  by (auto simp: base64_value_def base64_char_def is_upper_az_def is_lower_az_def is_digit_def)
     (auto simp: code_def)

lemma base64_char_plain:
  assumes "n < 64"
  shows "base64_char n \<noteq> CHR ''=''" "\<not> is_ws (base64_char n)"
proof -
  show "base64_char n \<noteq> CHR ''=''"
    using base64_value_char [OF assms] by (auto simp: base64_value_def is_upper_az_def is_lower_az_def is_digit_def code_def)
  show "\<not> is_ws (base64_char n)"
    using base64_value_char [OF assms]
    by (auto simp: base64_value_def is_upper_az_def is_lower_az_def is_digit_def is_ws_def code_def split: if_splits)
qed

section \<open>Encoding\<close>

fun base64_encode :: "byte list \<Rightarrow> string" where
  "base64_encode [] = []"
| "base64_encode [a] = [base64_char (unat a div 4), base64_char (unat a mod 4 * 16), CHR ''='', CHR ''='']"
| "base64_encode [a, b] =
     [base64_char (unat a div 4), base64_char (unat a mod 4 * 16 + unat b div 16), base64_char (unat b mod 16 * 4), CHR ''='']"
| "base64_encode (a # b # c # rest) =
     base64_char (unat a div 4) # base64_char (unat a mod 4 * 16 + unat b div 16) #
     base64_char (unat b mod 16 * 4 + unat c div 64) # base64_char (unat c mod 64) # base64_encode rest"

definition btoa :: "string \<Rightarrow> string" where
  "btoa s = base64_encode (map char_byte s)"

section \<open>Decoding\<close>

fun base64_bytes :: "nat list \<Rightarrow> byte list" where
  \<comment> \<open>the bits of the values, the last incomplete byte dropped\<close>
  "base64_bytes (p # q # r # s # rest) =
     of_nat (p * 4 + q div 16) # of_nat (q mod 16 * 16 + r div 4) # of_nat (r mod 4 * 64 + s) # base64_bytes rest"
| "base64_bytes [p, q, r] = [of_nat (p * 4 + q div 16), of_nat (q mod 16 * 16 + r div 4)]"
| "base64_bytes [p, q] = [of_nat (p * 4 + q div 16)]"
| "base64_bytes _ = []"

definition ascii_ws :: "char \<Rightarrow> bool" where
  "ascii_ws c \<longleftrightarrow> code c \<in> {9, 10, 12, 13, 32}"

definition strip_padding :: "string \<Rightarrow> string" where
  \<comment> \<open>at most two equals signs at the end of a text of whole groups\<close>
  "strip_padding s =
     (if length s mod 4 \<noteq> 0 \<or> s = [] \<or> last s \<noteq> CHR ''='' then s
      else (let s' = butlast s in if s' \<noteq> [] \<and> last s' = CHR ''='' then butlast s' else s'))"

definition base64_decode :: "string \<Rightarrow> byte list option" where
  "base64_decode value =
     (let s = strip_padding (filter (\<lambda>c. \<not> ascii_ws c) value) in
      if length s mod 4 = 1 then None else map_option base64_bytes (those (map base64_value s)))"

definition atob :: "string \<Rightarrow> string option" where
  \<comment> \<open>\<^const>\<open>None\<close> when it throws\<close>
  "atob value = map_option (map byte_char) (base64_decode value)"

section \<open>The helpers\<close>

function binary_string :: "byte list \<Rightarrow> string" where
  \<comment> \<open>in pieces of 32 KiB\<close>
  "binary_string bytes =
     (if bytes = [] then [] else map byte_char (take 32768 bytes) @ binary_string (drop 32768 bytes))"
  by pat_completeness auto
termination by (relation "measure length") auto

declare binary_string.simps [simp del]

definition arrayBufferToBase64 :: "byte list \<Rightarrow> string" where
  "arrayBufferToBase64 bytes = btoa (binary_string bytes)"

definition base64ToArrayBuffer :: "string \<Rightarrow> byte list option" where
  "base64ToArrayBuffer value = map_option (map char_byte) (atob value)"

section \<open>Round trip\<close>

lemma binary_string_map: "binary_string bytes = map byte_char bytes"
proof (induction bytes rule: binary_string.induct)
  case (1 bytes)
  then show ?case
    by (subst binary_string.simps) (auto simp: map_append [symmetric] simp del: map_append)
qed

lemma unat_byte [simp]: "unat (b :: byte) < 256"
  using unsigned_less [of b, where ?'a = nat] by simp

lemma word_unat_eq: "of_nat (unat (b :: byte)) = b"
  by simp

lemma those_map_value: "list_all (\<lambda>n. n < 64) ns \<Longrightarrow> those (map base64_value (map base64_char ns)) = Some ns"
  by (induction ns) (simp_all add: base64_value_char)

text \<open>What the encoder writes: the characters of the values, and padding to whole groups.\<close>

fun sextets :: "byte list \<Rightarrow> nat list" where
  "sextets [] = []"
| "sextets [a] = [unat a div 4, unat a mod 4 * 16]"
| "sextets [a, b] = [unat a div 4, unat a mod 4 * 16 + unat b div 16, unat b mod 16 * 4]"
| "sextets (a # b # c # rest) =
     unat a div 4 # (unat a mod 4 * 16 + unat b div 16) # (unat b mod 16 * 4 + unat c div 64) # unat c mod 64 # sextets rest"

lemma pack_bound1: "y < 256 \<Longrightarrow> x mod 4 * 16 + y div 16 < 64" for x y :: nat
proof -
  assume "y < 256"
  then have "y div 16 < 16" by (simp add: less_mult_imp_div_less)
  moreover have "x mod 4 < 4" by simp
  ultimately show ?thesis by linarith
qed

lemma pack_bound2: "z < 256 \<Longrightarrow> y mod 16 * 4 + z div 64 < 64" for y z :: nat
proof -
  assume "z < 256"
  then have "z div 64 < 4" by (simp add: less_mult_imp_div_less)
  moreover have "y mod 16 < 16" by simp
  ultimately show ?thesis by linarith
qed

lemma first_bound: "unat (a :: byte) div 4 < 64"
  using unat_byte [of a] by (simp add: less_mult_imp_div_less)

lemmas sextet_bounds = pack_bound1 pack_bound2 first_bound

lemma sextets_range: "list_all (\<lambda>n. n < 64) (sextets bs)"
proof (induction bs rule: sextets.induct)
  case (2 a)
  show ?case using sextet_bounds(1) [of 0 "unat a"] by (simp add: first_bound)
next
  case (3 a b)
  show ?case using sextet_bounds(2) [of 0 "unat b"] by (simp add: sextet_bounds)
qed (simp_all add: sextet_bounds)

lemma join_split: "y < 16 \<Longrightarrow> (x * 16 + y) div 16 = x" "y < 16 \<Longrightarrow> (x * 16 + y) mod 16 = y"
  "z < 4 \<Longrightarrow> (x * 4 + z) div 4 = x" "z < 4 \<Longrightarrow> (x * 4 + z) mod 4 = z" for x y z :: nat
  by simp_all

lemma byte_parts: "b < 256 \<Longrightarrow> b div 16 < 16" "b < 256 \<Longrightarrow> b div 64 < 4" for b :: nat
  by (simp_all add: less_mult_imp_div_less)

lemma regroup1: "b < 256 \<Longrightarrow> a div 4 * 4 + (a mod 4 * 16 + b div 16) div 16 = a" for a b :: nat
  by (simp only: join_split byte_parts div_mult_mod_eq)

lemma regroup2: "b < 256 \<Longrightarrow> c < 256 \<Longrightarrow> (a mod 4 * 16 + b div 16) mod 16 * 16 + (b mod 16 * 4 + c div 64) div 4 = b"
  for a b c :: nat
  by (simp only: join_split byte_parts div_mult_mod_eq)

lemma regroup3: "c < 256 \<Longrightarrow> (b mod 16 * 4 + c div 64) mod 4 * 64 + c mod 64 = c" for b c :: nat
  by (simp only: join_split byte_parts div_mult_mod_eq)

lemma sextets_bytes: "base64_bytes (sextets bs) = bs"
proof (induction bs rule: sextets.induct)
  case (2 a)
  have "unat a div 4 * 4 + unat a mod 4 * 16 div 16 = unat a" using regroup1 [of 0 "unat a"] by simp
  then show ?case by (simp del: of_nat_add of_nat_mult)
next
  case (3 a b)
  have "unat a div 4 * 4 + (unat a mod 4 * 16 + unat b div 16) div 16 = unat a"
    "(unat a mod 4 * 16 + unat b div 16) mod 16 * 16 + unat b mod 16 * 4 div 4 = unat b"
    using regroup1 [of "unat b" "unat a"] regroup2 [of "unat b" 0 "unat a"] by simp_all
  then show ?case by (simp del: of_nat_add of_nat_mult)
next
  case (4 a b c rest)
  then show ?case
    by (simp only: sextets.simps base64_bytes.simps regroup1 regroup2 regroup3 unat_byte word_unat_eq)
qed simp

fun padding :: "byte list \<Rightarrow> nat" where
  "padding (_ # _ # _ # rest) = padding rest"
| "padding [_, _] = 1"
| "padding [_] = 2"
| "padding [] = 0"

lemma base64_encode_form: "base64_encode bs = map base64_char (sextets bs) @ replicate (padding bs) (CHR ''='')"
  by (induction bs rule: sextets.induct) (simp_all add: numeral_2_eq_2)

lemma sextets_whole: "(length (sextets bs) + padding bs) mod 4 = 0"
proof (induction bs rule: sextets.induct)
  case (4 a b c rest)
  have "length (sextets (a # b # c # rest)) + padding (a # b # c # rest) = length (sextets rest) + padding rest + 4" by simp
  with 4 show ?case by (simp only: mod_add_self2)
qed simp_all

lemma padding_le: "padding bs \<le> 2"
  by (induction bs rule: sextets.induct) simp_all

lemma sextets_nonempty: "padding bs \<noteq> 0 \<Longrightarrow> sextets bs \<noteq> []"
  by (cases bs rule: sextets.cases) simp_all

lemma strip_padding_snoc:
  assumes "CHR ''='' \<notin> set s" "n \<le> 2" "(length s + n) mod 4 = 0" "n \<noteq> 0 \<longrightarrow> s \<noteq> []"
  shows "strip_padding (s @ replicate n (CHR ''='')) = s"
proof -
  have l: "s \<noteq> [] \<Longrightarrow> last s \<noteq> CHR ''=''" using assms(1) last_in_set by metis
  consider "n = 0" | "n = 1" | "n = 2" using assms(2) by linarith
  then show ?thesis
  proof cases
    case 1
    then show ?thesis by (cases "s = []") (simp_all add: strip_padding_def l)
  next
    case 2
    then show ?thesis using assms l by (simp add: strip_padding_def Let_def)
  next
    case 3
    then have "replicate n (CHR ''='') = [CHR ''='', CHR ''='']" by (simp add: numeral_2_eq_2)
    then show ?thesis using assms l 3 by (simp add: strip_padding_def Let_def butlast_append)
  qed
qed

lemma ascii_ws_ws: "ascii_ws c \<Longrightarrow> is_ws c"
  by (auto simp: ascii_ws_def is_ws_def)

lemma base64_encode_no_ws: "filter (\<lambda>c. \<not> ascii_ws c) (base64_encode bs) = base64_encode bs"
proof (rule filter_True, rule ballI)
  fix c assume "c \<in> set (base64_encode bs)"
  then consider n where "n \<in> set (sextets bs)" "c = base64_char n" | "c = CHR ''=''"
    by (fastforce simp: base64_encode_form)
  then show "\<not> ascii_ws c"
  proof cases
    case 1
    then have "n < 64" using sextets_range [of bs] by (simp add: list_all_iff)
    then show ?thesis using 1 base64_char_plain(2) ascii_ws_ws by blast
  qed (simp add: ascii_ws_def code_def)
qed

lemma base64_roundtrip: "base64_decode (base64_encode bs) = Some bs"
proof -
  have "CHR ''='' \<notin> base64_char ` set (sextets bs)"
    using sextets_range [of bs] base64_char_plain(1) by (force simp: list_all_iff)
  then have "strip_padding (base64_encode bs) = map base64_char (sextets bs)"
    using strip_padding_snoc [of "map base64_char (sextets bs)" "padding bs"] padding_le sextets_whole sextets_nonempty
    by (simp add: base64_encode_form)
  moreover have "length (sextets bs) mod 4 \<noteq> 1"
    using padding_le [of bs] sextets_whole [of bs] by presburger
  moreover have "those (map base64_value (map base64_char (sextets bs))) = Some (sextets bs)"
    by (rule those_map_value) (rule sextets_range)
  ultimately show ?thesis
    unfolding base64_decode_def base64_encode_no_ws Let_def by (simp add: sextets_bytes del: map_map)
qed

theorem arrayBuffer_roundtrip: "base64ToArrayBuffer (arrayBufferToBase64 bytes) = Some bytes"
  by (simp add: base64ToArrayBuffer_def arrayBufferToBase64_def atob_def btoa_def binary_string_map base64_roundtrip comp_def)

end
