(* ===== verification/Inbound_Recovery.thy ===== *)
theory Inbound_Recovery
  imports Inbound_Repository Base64
begin

text \<open>
  \<^verbatim>\<open>workers/mail-router/src/inbound-recovery.ts\<close>: the copies for the operators as recovery objects in the
  spool, read back under the digest and the addresses they were stored with; and the recovery of a delivery,
  which sends the copies that nobody has claimed yet.
\<close>

section \<open>The stored copy\<close>

definition stored_attachment_json :: "attachment \<Rightarrow> jv" where
  "stored_attachment_json a = JObject
     ([(''filename'', JString (at_filename a)), (''type'', JString (at_type a)),
       (''content'', JString (arrayBufferToBase64 (at_content a)))] @
      (case at_disposition a of
         Inline cid \<Rightarrow> [(''disposition'', JString ''inline''), (''contentId'', JString cid)]
       | Attached \<Rightarrow> [(''disposition'', JString ''attachment'')]))"

definition delivery_json :: "operator_delivery \<Rightarrow> jv" where
  \<comment> \<open>a delivery without attachments has no such property\<close>
  "delivery_json d = JObject
     ([(''from'', JObject [(''name'', JString (od_from_name d)), (''email'', JString (od_from_email d))]),
       (''to'', JString (od_to d)), (''replyTo'', JString (od_replyTo d)), (''subject'', JString (od_subject d)),
       (''text'', JString (od_text d)), (''html'', JString (od_html d)),
       (''headers'', JObject (map (\<lambda>(k, v). (k, JString v)) (od_headers d)))] @
      (if od_attachments d = [] then []
       else [(''attachments'', JArray (map stored_attachment_json (od_attachments d)))]))"

definition serializeOperatorDelivery :: "operator_delivery \<Rightarrow> string" where
  "serializeOperatorDelivery d = json_stringify (delivery_json d)"

definition js_falsy :: "jv \<Rightarrow> bool" where
  "js_falsy v \<longleftrightarrow> v \<in> {JUndefined, JNull, JBool False, JInt 0, JString []}"

definition stored_attachment :: "jv \<Rightarrow> attachment option" where
  \<comment> \<open>the check of one attachment, then its content from base64\<close>
  "stored_attachment v =
     (case (js_get v ''filename'', js_get v ''type'', js_get v ''content'') of
        (JString filename, JString ty, JString content) \<Rightarrow>
          let build = (\<lambda>disp. map_option (\<lambda>bytes. \<lparr> at_disposition = disp, at_filename = filename, at_type = ty,
                at_content = bytes \<rparr>) (base64ToArrayBuffer content)) in
          if js_get v ''disposition'' = JString ''attachment'' then build Attached
          else if js_get v ''disposition'' = JString ''inline''
          then (case js_get v ''contentId'' of JString cid \<Rightarrow> build (Inline cid) | _ \<Rightarrow> None)
          else None
      | _ \<Rightarrow> None)"

definition stored_attachments :: "jv \<Rightarrow> attachment list option" where
  "stored_attachments v =
     (case v of
        JUndefined \<Rightarrow> Some [] | JNull \<Rightarrow> Some []
      | JArray vs \<Rightarrow> those (map stored_attachment vs)
      | _ \<Rightarrow> None)"

definition delivery_of_json :: "jv \<Rightarrow> operator_delivery option" where
  "delivery_of_json parsed =
     (if js_is_string (js_get (js_get parsed ''from'') ''email'') \<and>
         list_all (\<lambda>k. js_is_string (js_get parsed k)) [''to'', ''replyTo'', ''subject'', ''text'', ''html''] \<and>
         \<not> js_falsy (js_get parsed ''headers'') \<and>
         list_all (\<lambda>(name, header). name \<noteq> [] \<and> js_is_string header) (js_entries (js_get parsed ''headers''))
      then map_option (\<lambda>attachments.
             \<lparr> od_from_name = str_field (js_get parsed ''from'') ''name'',
               od_from_email = str_field (js_get parsed ''from'') ''email'',
               od_to = str_field parsed ''to'', od_replyTo = str_field parsed ''replyTo'',
               od_subject = str_field parsed ''subject'', od_text = str_field parsed ''text'',
               od_html = str_field parsed ''html'',
               od_headers = map (\<lambda>(name, header). (name, with_default [] (as_string header)))
                 (js_entries (js_get parsed ''headers'')),
               od_attachments = attachments \<rparr>) (stored_attachments (js_get parsed ''attachments''))
      else None)"

definition deserializeOperatorDelivery :: "services \<Rightarrow> string \<Rightarrow> operator_delivery option" where
  \<comment> \<open>\<^const>\<open>None\<close> when it throws\<close>
  "deserializeOperatorDelivery sv value = Option.bind (sv_json_parse sv value) delivery_of_json"

section \<open>The spool of copies\<close>

definition operatorDeliverySpoolKey :: "string \<Rightarrow> string \<Rightarrow> string" where
  "operatorDeliverySpoolKey rawSpoolKey operatorRef = rawSpoolKey @ ''.operator-'' @ operatorRef @ ''.json''"

definition deleteOperatorDeliverySpools :: "string list \<Rightarrow> unit act" where
  "deleteOperatorDeliverySpools keys = forEach (\<lambda>key. ignoreError (spoolDelete key)) keys"

definition delivery_spools :: "services \<Rightarrow> string \<Rightarrow> operator_delivery list \<Rightarrow> string list \<Rightarrow> delivery_spool list" where
  "delivery_spools sv rawSpoolKey deliveries operatorRefs =
     map (\<lambda>(delivery, operatorRef).
       let val = serializeOperatorDelivery delivery in
       \<lparr> sp_key = operatorDeliverySpoolKey rawSpoolKey operatorRef, sp_value = val, sp_sha256 = sha sv val,
         sp_operatorRef = operatorRef \<rparr>) (zip deliveries operatorRefs)"

definition persistOperatorDeliverySpools ::
  "services \<Rightarrow> string \<Rightarrow> operator_delivery list \<Rightarrow> string list \<Rightarrow> delivery_spool list act" where
  "persistOperatorDeliverySpools sv rawSpoolKey deliveries operatorRefs =
     (let spools = delivery_spools sv rawSpoolKey deliveries operatorRefs in
      followedBy
        (tryCatch (forEach (\<lambda>spool. spoolPut (sp_key spool) (utf8_encode (sp_value spool))) spools)
           (\<lambda>e. followedBy (deleteOperatorDeliverySpools (map sp_key spools)) (throw e)))
        (ret spools))"

definition payload_of_delivery :: "operator_delivery \<Rightarrow> mail_payload" where
  "payload_of_delivery d =
     \<lparr> mp_subject = od_subject d, mp_text = Some (od_text d), mp_html = Some (od_html d), mp_headers = od_headers d,
       mp_attachments = od_attachments d \<rparr>"

definition delivery_authorized :: "services \<Rightarrow> operator_delivery \<Rightarrow> recipient_row \<Rightarrow> inbound_view \<Rightarrow> bool" where
  "delivery_authorized sv delivery row inbound \<longleftrightarrow>
     (let config = operatorDeliveryConfig (sv_env sv);
          token = (if truthy (odc_replyDomain config)
                   then relayTokenFromRecipient (od_replyTo delivery) (the (odc_replyDomain config)) else None) in
      sha sv (normalizeMailbox (od_to delivery)) = rd_operator_ref row \<and>
      map_of (od_headers delivery) ''X-Maildesk-Delivery-ID'' = Some (rd_delivery_message_id row) \<and>
      map_of (od_headers delivery) ''X-Maildesk-Reply-Identity'' = Some (normalizeMailbox (od_from_email delivery)) \<and>
      (case token of None \<Rightarrow> False | Some t \<Rightarrow> t \<noteq> [] \<and> sha sv t = iw_token_sha256 inbound))"

definition read_delivery :: "services \<Rightarrow> recipient_row \<Rightarrow> inbound_view \<Rightarrow> byte list option \<Rightarrow> string + operator_delivery" where
  \<comment> \<open>from the object on\<close>
  "read_delivery sv row inbound object =
     (case object of
        None \<Rightarrow> Inl ''operator delivery recovery payload is missing''
      | Some bytes \<Rightarrow>
          let serialized = sv_utf8_decode sv bytes in
          if sha sv serialized \<noteq> rd_delivery_payload_sha256 row
          then Inl ''operator delivery recovery payload digest drifted''
          else (case deserializeOperatorDelivery sv serialized of
                  None \<Rightarrow> Inl ''operator delivery recovery payload is malformed''
                | Some delivery \<Rightarrow>
                    if \<not> delivery_authorized sv delivery row inbound
                    then Inl ''operator delivery recovery authorization drifted''
                    else bindE (assertWithinRelayLimit (payload_of_delivery delivery) (operatorDeliveryConfig (sv_env sv)))
                           (\<lambda>_. Inr delivery)))"

definition loadOperatorDeliverySpool :: "services \<Rightarrow> recipient_row \<Rightarrow> inbound_view \<Rightarrow> operator_delivery act" where
  "loadOperatorDeliverySpool sv row inbound =
     (if \<not> truthy (iw_raw_r2_key inbound) then throw (Err ''operator delivery recovery generation is missing'')
      else if rd_delivery_payload_r2_key row \<noteq> operatorDeliverySpoolKey (the (iw_raw_r2_key inbound)) (rd_operator_ref row)
      then throw (Err ''operator delivery recovery key drifted'')
      else andThen (spoolGet (rd_delivery_payload_r2_key row)) (\<lambda>object. liftE (read_delivery sv row inbound object)))"

section \<open>Sending a copy\<close>

definition email_of_delivery :: "operator_delivery \<Rightarrow> email_message" where
  "email_of_delivery d =
     \<lparr> em_from_email = od_from_email d, em_from_name = Some (od_from_name d), em_to = [od_to d], em_cc = None,
       em_bcc = None, em_reply_to = od_replyTo d, em_subject = od_subject d, em_text = Some (od_text d),
       em_html = Some (od_html d), em_headers = od_headers d,
       em_attachments = (if od_attachments d = [] then None else Some (od_attachments d)) \<rparr>"

definition cloudflareEmailErrorCode :: "exn \<Rightarrow> string" where
  \<comment> \<open>\<^verbatim>\<open>/^E_[A-Z0-9_]{1,96}$/\<close>\<close>
  "cloudflareEmailErrorCode error =
     (case exn_code error of
        JString c \<Rightarrow> if error_code_text 96 c then c else ''provider_outcome_unknown''
      | _ \<Rightarrow> ''provider_outcome_unknown'')"

definition accepted_copy :: "string \<Rightarrow> string \<Rightarrow> string option \<Rightarrow> operator_result" where
  "accepted_copy operator key i =
     \<lparr> or_operator = operator, or_deliveryPayloadR2Key = Some key, or_ok = True, or_providerMessageId = i, or_errorCode = None \<rparr>"

definition failed_copy :: "string \<Rightarrow> string \<Rightarrow> string \<Rightarrow> operator_result" where
  "failed_copy operator key errorCode =
     \<lparr> or_operator = operator, or_deliveryPayloadR2Key = Some key, or_ok = False, or_providerMessageId = None,
       or_errorCode = Some errorCode \<rparr>"

definition send_recovered :: "inbound_view \<Rightarrow> recipient_row \<Rightarrow> operator_delivery \<Rightarrow> unit act" where
  \<comment> \<open>one \<^verbatim>\<open>try\<close> around the call, its projection and the cleanup\<close>
  "send_recovered inbound row delivery =
     (let key = rd_delivery_payload_r2_key row;
          project = projectInboundRecipientResult (iw_id inbound) (rd_operator_ref row) in
      tryCatch
        (andThen (emailSend (email_of_delivery delivery)) (\<lambda>i.
           followedBy (project (accepted_copy (od_to delivery) key i)) (ignoreError (spoolDelete key))))
        (\<lambda>e. ignoreError (project (failed_copy (od_to delivery) key (cloudflareEmailErrorCode e)))))"

definition recover_recipient :: "services \<Rightarrow> inbound_view \<Rightarrow> recipient_row \<Rightarrow> unit act" where
  "recover_recipient sv inbound row =
     (if rd_status row = ''provider_accepted'' then ignoreError (spoolDelete (rd_delivery_payload_r2_key row))
      else if rd_status row \<noteq> ''pending'' then ret ()
      else andThen (tryCatch (andThen (loadOperatorDeliverySpool sv row inbound) (\<lambda>d. ret (Some d))) (\<lambda>_. ret None)) (\<lambda>loaded.
        case loaded of
          None \<Rightarrow> ret ()
        | Some delivery \<Rightarrow>
            andThen (tryCatch (claimInboundRecipient (iw_id inbound) (rd_operator_ref row) (iw_policy_sha256 inbound)
                       (the (iw_raw_r2_key inbound))) (\<lambda>_. ret False)) (\<lambda>claimed.
              if \<not> claimed then ret () else send_recovered inbound row delivery)))"

section \<open>Recovery of a delivery\<close>

definition recovered_result :: "recipient_row \<Rightarrow> recipient_result" where
  "recovered_result row =
     \<lparr> rr_operatorRef = rd_operator_ref row, rr_deliveryPayloadR2Key = rd_delivery_payload_r2_key row,
       rr_ok = (rd_status row = ''provider_accepted''), rr_providerMessageId = rd_provider_message_id row,
       rr_errorCode = (if rd_status row = ''provider_accepted'' then None
                       else Some (with_default ''provider_outcome_unknown'' (rd_error_code row))) \<rparr>"

definition recovered_status :: "recipient_result list \<Rightarrow> string" where
  "recovered_status results =
     (let accepted = length (filter rr_ok results) in
      if accepted = length results \<and> results \<noteq> [] then ''provider_accepted''
      else if 0 < accepted then ''partial_delivery'' else ''recovery_required'')"

definition recovery_batch :: "inbound_view \<Rightarrow> string \<Rightarrow> nat statement list" where
  "recovery_batch inbound status =
     [update_deliveries (\<lambda>dl. dl_id dl = iw_id inbound) (\<lambda>dl. dl\<lparr>dl_status := status\<rparr>),
      \<lambda>t d. update_health
        (\<lambda>r. rh_route_id r = iw_route_id inbound \<and> rh_policy_sha256 r = Some (iw_policy_sha256 inbound) \<and>
             active_policy d = Some (iw_policy_sha256 inbound))
        (\<lambda>r. r\<lparr>rh_inbound_status := ''recovery_required'',
               rh_last_error_code := Some ''inbound_result_recovery_pending''\<rparr>) t d]"

definition result_of_recovery :: "inbound_view \<Rightarrow> string \<Rightarrow> recipient_result list \<Rightarrow> result_job" where
  "result_of_recovery inbound status results =
     \<lparr> rj_deliveryId = iw_id inbound, rj_relayId = iw_relay_id inbound, rj_threadId = iw_thread_id inbound,
       rj_routeId = iw_route_id inbound, rj_policySha256 = iw_policy_sha256 inbound, rj_status = status,
       rj_results = results, rj_relaySpoolKey = the (iw_raw_r2_key inbound), rj_receivedAt = iw_received_at inbound \<rparr>"

definition report_recovery :: "inbound_view \<Rightarrow> recipient_row list \<Rightarrow> unit act" where
  \<comment> \<open>from the refreshed rows on\<close>
  "report_recovery inbound rows =
     (let results = map recovered_result rows; status = recovered_status results in
      followedBy (ignoreError (andThen (d1 (batch (recovery_batch inbound status))) (\<lambda>_. ret ())))
        (if \<not> truthy (iw_raw_r2_key inbound) \<or> results = [] then ret ()
         else ignoreError (queueSend (result_job_json (result_of_recovery inbound status results)))))"

definition recoverExistingInbound :: "services \<Rightarrow> inbound_view \<Rightarrow> unit act" where
  "recoverExistingInbound sv inbound =
     andThen (d1 (query (\<lambda>_. recipients_of (iw_id inbound)))) (\<lambda>rows.
       followedBy (unless (\<not> truthy (iw_raw_r2_key inbound)) (forEach (recover_recipient sv inbound) rows))
         (andThen (d1 (query (\<lambda>_. recipients_of (iw_id inbound)))) (report_recovery inbound)))"

section \<open>Round trips\<close>

definition storable :: "operator_delivery \<Rightarrow> bool" where
  "storable d \<longleftrightarrow> list_all (\<lambda>h. fst h \<noteq> []) (od_headers d)"

lemma stored_attachment_roundtrip: "stored_attachment (stored_attachment_json a) = Some a"
  by (cases "at_disposition a"; cases a)
     (simp_all add: stored_attachment_def stored_attachment_json_def arrayBuffer_roundtrip)

lemma stored_attachments_roundtrip: "those (map stored_attachment (map stored_attachment_json as)) = Some as"
  by (induction as) (simp_all add: stored_attachment_roundtrip)

lemma delivery_json_roundtrip:
  assumes "storable d"
  shows "delivery_of_json (delivery_json d) = Some d"
proof -
  have h: "map (\<lambda>(name, header). (name, with_default [] (as_string header))) (map (\<lambda>(k, v). (k, JString v)) hs) = hs" for hs
    by (induction hs) (auto simp: as_string_def with_default_def)
  have hd: "js_entries (JObject ps) = ps" for ps by (simp add: js_entries_def)
  have ok: "list_all (\<lambda>(name, header). name \<noteq> [] \<and> js_is_string header) (map (\<lambda>(k, v). (k, JString v)) (od_headers d))"
    using assms by (auto simp: storable_def list_all_iff js_is_string_def)
  show ?thesis
    using stored_attachments_roundtrip [of "od_attachments d"] ok h [of "od_headers d"]
    by (cases d)
       (simp add: delivery_of_json_def delivery_json_def js_is_string_def js_falsy_def str_field_def stored_attachments_def
          hd del: map_map)
qed

end
