(* ===== verification/Inbound.thy ===== *)
theory Inbound
  imports Inbound_Recovery Queue
begin

text \<open>
  \<^verbatim>\<open>workers/mail-router/src/inbound.ts\<close>, for mail that is not an operator's reply. A handler ends with the
  text of \<^verbatim>\<open>message.setReject\<close>, or with \<^const>\<open>None\<close> when the message was accepted; a thrown error leaves the
  message with the sender's server. Every path that accepts a message for the inbox relay has stored it first.
\<close>

section \<open>Small parts\<close>

type_synonym verdict = "string option"              \<comment> \<open>the rejection, if any\<close>

definition reject :: "string \<Rightarrow> verdict act" where
  "reject reason = ret (Some reason)"

definition accept :: "verdict act" where
  "accept = ret None"

definition orNone :: "'a option act \<Rightarrow> 'a option act" where
  \<comment> \<open>\<^verbatim>\<open>.catch(() => null)\<close>\<close>
  "orNone m = tryCatch m (\<lambda>_. ret None)"

definition caught :: "'a act \<Rightarrow> 'a option act" where
  "caught m = tryCatch (andThen m (\<lambda>x. ret (Some x))) (\<lambda>_. ret None)"

definition orFalse :: "bool act \<Rightarrow> bool act" where
  "orFalse m = tryCatch m (\<lambda>_. ret False)"

definition randomToken :: "services \<Rightarrow> string act" where
  "randomToken sv w = (Inr (generateRelayToken (sv_random sv (w_uuids w))), w\<lparr>w_uuids := Suc (w_uuids w)\<rparr>)"

definition nowIso :: "services \<Rightarrow> string act" where
  "nowIso sv = andThen readClock (\<lambda>t. ret (pf_to_iso (sv_platform sv) t))"

definition too_large :: string where
  "too_large = ''maildesk relay accepts messages up to 5 MiB including attachments''"

definition mail_fingerprint :: "services \<Rightarrow> inbound_mail \<Rightarrow> byte list \<Rightarrow> string" where
  "mail_fingerprint sv message raw =
     sha sv (join [CHR 0x00] [normalizeMailbox (ml_from message), normalizeMailbox (ml_to message),
       sha256Hex_bytes (sv_platform sv) raw])"

definition routeMessage :: "services \<Rightarrow> inbound_mail \<Rightarrow> (string + route_decision \<times> string) act" where
  \<comment> \<open>the reason of a rejection, or the route with the digest of its policy\<close>
  "routeMessage sv message =
     andThen (loadActivePolicy sv) (\<lambda>loaded.
       ret (case loaded of
              None \<Rightarrow> Inl ''maildesk policy unavailable''
            | Some active \<Rightarrow>
                (case routeInbound (sv_core sv) (ap_policy active)
                        \<lparr> im_envelopeTo = ml_to message, im_headerFrom = ml_from message,
                          im_messageId = ml_header message ''message-id'', im_subject = ml_header message ''subject'' \<rparr> of
                   Inl e \<Rightarrow> Inl (re_message e)
                 | Inr decision \<Rightarrow>
                     (case find (\<lambda>r. de_domain (fst r) = de_domain decision \<and> de_localPart (fst r) = de_localPart decision)
                             (pp_routes (ap_projection active)) of
                        None \<Rightarrow> Inl ''maildesk selected route is absent from the validated projection''
                      | Some r \<Rightarrow> Inr (fst r, ap_sha256 active)))))"

section \<open>Work queues\<close>

definition work_result :: "services \<Rightarrow> string \<Rightarrow> selected_destination \<Rightarrow> string \<Rightarrow> unit act" where
  \<comment> \<open>the hand-off and its audit record\<close>
  "work_result sv deliveryId selected rawR2Key =
     andThen (liftE (handoffSelectedWork selected deliveryId rawR2Key)) (\<lambda>outcome.
       recordAudit sv (deliveryId @ '':work_destination_result'') None ''system'' ''work_destination_result''
         (JObject [(''deliveryId'', JString deliveryId), (''routeRef'', JString (sd_routeRef selected)),
                   (''destinationRef'', JString (sd_destinationRef selected)),
                   (''outcome'', JString (if outcome = Durably_Accepted then ''durably_accepted'' else ''recovery_required'')),
                   (''nextAction'', JString (if outcome = Handoff_Recovery_Required then ''reconcile_destination_receipt'' else ''none''))]))"

definition admit_work :: "services \<Rightarrow> string \<Rightarrow> byte list \<Rightarrow> string \<Rightarrow> string \<Rightarrow> string \<Rightarrow> string \<Rightarrow> selected_destination \<Rightarrow> unit act" where
  \<comment> \<open>the \<^verbatim>\<open>try\<close> block of the admission\<close>
  "admit_work sv rawR2Key raw receivedAt routeId policySha256 deliveryId selected =
     followedBy (spoolPut rawR2Key raw)
     (andThen (d1 (note_inbound receivedAt routeId policySha256)) (\<lambda>n.
        if n = 0 then throw (Err ''active work queue route is unavailable'')
        else recordAudit sv (deliveryId @ '':route_disposition_selected'') None ''system'' ''route_disposition_selected''
               (JObject (selection_detail selected @ [(''policySha256'', JString policySha256)]))))"

definition acceptInboxWorkQueue ::
  "services \<Rightarrow> inbound_mail \<Rightarrow> route_decision \<Rightarrow> string \<Rightarrow> selected_destination \<Rightarrow> verdict act" where
  "acceptInboxWorkQueue sv message route policySha256 selected =
     (if target_kind (sd_target selected) \<noteq> ''work_queue'' then reject ''maildesk work queue disposition is invalid''
      else if \<not> env_RELAY_SPOOL (sv_env sv) \<or> sd_adapter selected = None
      then reject ''maildesk work queue storage is not configured''
      else if odc_maxEncodedMessageBytes (operatorDeliveryConfig (sv_env sv)) < ml_rawSize message then reject too_large
      else (case ml_raw message of
              None \<Rightarrow> reject ''maildesk could not read the work item''
            | Some raw \<Rightarrow>
                let deliveryId = ''work-item:'' @ mail_fingerprint sv message raw in
                andThen (nowIso sv) (\<lambda>receivedAt.
                  let rawR2Key = relaySpoolKey deliveryId receivedAt;
                      routeId = stableId ''route'' [de_domain route, de_localPart route] in
                  andThen (caught (admit_work sv rawR2Key raw receivedAt routeId policySha256 deliveryId selected)) (\<lambda>admitted.
                    if admitted = None
                    then followedBy (ignoreError (spoolDelete rawR2Key))
                           (reject ''maildesk could not durably admit the work item'')
                    else followedBy (work_result sv deliveryId selected rawR2Key) accept))))"

section \<open>The inbox relay: copies for the operators\<close>

definition operator_profile :: "route_decision \<Rightarrow> string \<Rightarrow> identity_profile option \<times> string" where
  \<comment> \<open>the operator's own public identity, or the route's\<close>
  "operator_profile route operator =
     (case Option.bind (de_operatorReplyIdentities route) (\<lambda>m. map_of m operator) of
        Some binding \<Rightarrow> (oi_identityProfile binding, oi_publicAddress binding)
      | None \<Rightarrow> (de_identityProfile route, de_defaultReplyIdentity route))"

definition operator_copy ::
  "services \<Rightarrow> relay_email \<Rightarrow> inbound_mail \<Rightarrow> route_decision \<Rightarrow> string \<Rightarrow> string \<Rightarrow> bool \<Rightarrow> string \<Rightarrow> string \<times> string \<Rightarrow> operator_delivery act" where
  "operator_copy sv parsed message route routeId policySha256 quarantined replyTo entry =
     (let operator = fst entry; (profile, replyIdentity) = operator_profile route operator;
          operatorSet = sha sv (json_stringify (jstrings (de_operators route))) in
      andThen (case profile of
                 None \<Rightarrow> ret None
               | Some p \<Rightarrow> loadOrdinaryRouteAuthorization sv routeId policySha256
                             (publicIdentityProfileSha256 (sv_platform sv) p) operatorSet) (\<lambda>activation.
        ret (buildOperatorDelivery parsed
          \<lparr> di_operator = operator, di_receivedAddress = normalizeMailbox (ml_to message),
            di_replyIdentity = replyIdentity, di_identityProfile = profile,
            di_replyProcessingMode = odc_replyProcessingMode (operatorDeliveryConfig (sv_env sv)),
            di_replyAvailability = Some (if quarantined then Quarantined
              else if activation \<noteq> None then Ordinary_Activated else Canary_Only),
            di_routeKind = de_routeKind route, di_operatorCount = length (de_operators route),
            di_relayAddress = replyTo, di_deliveryMessageId = snd entry \<rparr>)))"

record staged_inbound =
  \<comment> \<open>what the handler has computed before it persists anything\<close>
  sg_binding :: relay_binding
  sg_deliveries :: "operator_delivery list"
  sg_spools :: "delivery_spool list"

definition delivery_message_id :: "string \<Rightarrow> string \<Rightarrow> string \<Rightarrow> string" where
  "delivery_message_id replyDomain fingerprint operatorRef =
     ''<inbound.'' @ fingerprint @ ''.'' @ take 16 operatorRef @ ''@'' @ replyDomain @ ''>''"

definition bind_inbound ::
  "services \<Rightarrow> inbound_mail \<Rightarrow> relay_email \<Rightarrow> route_decision \<Rightarrow> string \<Rightarrow> string \<Rightarrow> string \<Rightarrow> int \<Rightarrow> relay_binding" where
  \<comment> \<open>the identifiers of a new delivery; the payload columns are filled in when the copies are stored\<close>
  "bind_inbound sv message parsed route fingerprint replyDomain token now =
     (let deliveryId = ''inbound:'' @ fingerprint; tokenHash = sha sv token;
          receivedAt = pf_to_iso (sv_platform sv) now; refs = map (sha sv) (de_operators route) in
      \<lparr> rb_deliveryId = deliveryId,
        rb_messageId = (case ml_header message ''message-id'' of
           Some i \<Rightarrow> i | None \<Rightarrow> with_default (''<'' @ deliveryId @ ''@maildesk.invalid>'') (pe_messageId parsed)),
        rb_relayId = ''relay:'' @ fingerprint, rb_tokenHash = tokenHash,
        rb_expiresAt = tokenExpiresAt (sv_platform sv) now (odc_replyTokenTtlDays (operatorDeliveryConfig (sv_env sv))),
        rb_receivedAt = receivedAt, rb_fingerprintSha256 = fingerprint,
        rb_spoolKey = relaySpoolKey (deliveryId @ ''.'' @ take 16 tokenHash) receivedAt,
        rb_operatorRefs = refs, rb_deliveryMessageIds = map (delivery_message_id replyDomain fingerprint) refs,
        rb_deliveryPayloadKeys = [], rb_deliveryPayloadSha256s = [] \<rparr>)"

definition copies_of_mail ::
  "services \<Rightarrow> inbound_mail \<Rightarrow> relay_email \<Rightarrow> route_decision \<Rightarrow> string \<Rightarrow> relay_binding \<Rightarrow> string \<Rightarrow> operator_delivery list act" where
  "copies_of_mail sv message parsed route policySha256 binding replyTo =
     (let routeId = stableId ''route'' [de_domain route, de_localPart route] in
      andThen (d1 (query (\<lambda>_. route_quarantined routeId))) (\<lambda>quarantined.
        mapAct (operator_copy sv parsed message route routeId policySha256 quarantined replyTo)
          (zip (de_operators route) (rb_deliveryMessageIds binding))))"

definition with_payloads :: "delivery_spool list \<Rightarrow> relay_binding \<Rightarrow> relay_binding" where
  "with_payloads spools binding =
     binding\<lparr>rb_deliveryPayloadKeys := map sp_key spools, rb_deliveryPayloadSha256s := map sp_sha256 spools\<rparr>"

definition stage_inbound ::
  "services \<Rightarrow> byte list \<Rightarrow> relay_binding \<Rightarrow> operator_delivery list \<Rightarrow> (string + delivery_spool list) act" where
  \<comment> \<open>the raw message, then one recovery object per operator\<close>
  "stage_inbound sv raw binding deliveries =
     (let key = rb_spoolKey binding in
      andThen (caught (spoolPut key raw)) (\<lambda>stored.
        if stored = None then ret (Inl ''maildesk could not create a durable operator-delivery spool'')
        else andThen (caught (persistOperatorDeliverySpools sv key deliveries (rb_operatorRefs binding))) (\<lambda>spools.
          case spools of
            None \<Rightarrow> followedBy (ignoreError (spoolDelete key))
                      (ret (Inl ''maildesk could not create durable operator-delivery recovery payloads''))
          | Some s \<Rightarrow> ret (Inr s))))"

section \<open>The inbox relay: sending\<close>

definition send_copy ::
  "persisted_inbound \<Rightarrow> string \<Rightarrow> string \<times> string \<times> string \<times> operator_delivery \<Rightarrow> operator_result act" where
  \<comment> \<open>one turn of the loop: the operator, its reference, the key of its copy and the copy\<close>
  "send_copy inbound spoolKey entry =
     (case entry of (operator, operatorRef, key, delivery) \<Rightarrow>
        andThen (orFalse (claimInboundRecipient (pi_deliveryId inbound) operatorRef (pi_policySha256 inbound) spoolKey)) (\<lambda>claimed.
          if \<not> claimed then ret (failed_copy operator key ''recipient_claim_failed'')
          else andThen (tryCatch
              (andThen (emailSend (email_of_delivery delivery)) (\<lambda>i. ret (accepted_copy operator key i)))
              (\<lambda>e. ret (failed_copy operator key (cloudflareEmailErrorCode e)))) (\<lambda>result.
            followedBy (ignoreError (projectInboundRecipientResult (pi_deliveryId inbound) operatorRef result))
              (if \<not> or_ok result then ret result
               else andThen (orNone (loadInboundRecipient (pi_deliveryId inbound) operatorRef)) (\<lambda>projected.
                 followedBy
                   (if map_option rd_status projected = Some ''provider_accepted''
                    then ignoreError (spoolDelete (operatorDeliverySpoolKey spoolKey operatorRef)) else ret ())
                   (ret result))))))"

definition delivery_status :: "operator_result list \<Rightarrow> string" where
  "delivery_status results =
     (let accepted = length (filter or_ok results) in
      if accepted = length results then ''provider_accepted''
      else if 0 < accepted then ''partial_delivery'' else ''recovery_required'')"

definition finish_inbound :: "services \<Rightarrow> persisted_inbound \<Rightarrow> operator_result list \<Rightarrow> string \<Rightarrow> string \<Rightarrow> unit act" where
  \<comment> \<open>the outcome in the database, or a job that carries it\<close>
  "finish_inbound sv inbound results spoolKey receivedAt =
     (let status = delivery_status results in
      tryCatch
        (followedBy (recordDeliveryResults sv inbound results status (Some spoolKey))
           (unless (status \<noteq> ''provider_accepted'')
              (ignoreError (followedBy (spoolDelete spoolKey)
                 (run_statement (update_deliveries
                    (\<lambda>dl. dl_id dl = pi_deliveryId inbound \<and> dl_policy_sha256 dl = pi_policySha256 inbound)
                    (\<lambda>dl. dl\<lparr>dl_raw_r2_key := None\<rparr>)))))))
        (\<lambda>_. andThen (liftE (inboundDeliveryResultJob sv inbound results status spoolKey receivedAt)) (\<lambda>job.
               ignoreError (queueSend (result_job_json job)))))"

definition unsent_view :: "route_decision \<Rightarrow> relay_binding \<Rightarrow> persisted_inbound \<Rightarrow> inbound_view" where
  "unsent_view route binding inbound =
     \<lparr> iw_id = rb_deliveryId binding, iw_relay_id = rb_relayId binding, iw_thread_id = pi_threadId inbound,
       iw_route_id = pi_routeId inbound, iw_policy_sha256 = pi_policySha256 inbound,
       iw_raw_r2_key = Some (rb_spoolKey binding), iw_reply_identity = de_defaultReplyIdentity route,
       iw_token_sha256 = rb_tokenHash binding, iw_received_at = rb_receivedAt binding, iw_status = ''pending'' \<rparr>"

definition discard_inbound :: "services \<Rightarrow> inbound_view \<Rightarrow> string option \<Rightarrow> bool act" where
  \<comment> \<open>whether an unsent delivery of a superseded policy was retired, with its objects\<close>
  "discard_inbound sv inbound rawKey =
     andThen (orNone (discardSupersededUnsentInbound sv inbound)) (\<lambda>discarded.
       case discarded of
         None \<Rightarrow> ret False
       | Some keys \<Rightarrow>
           followedBy (deleteOperatorDeliverySpools keys)
           (followedBy (unless (\<not> truthy rawKey) (ignoreError (spoolDelete (the rawKey)))) (ret True)))"

definition deliver_inbound ::
  "services \<Rightarrow> route_decision \<Rightarrow> staged_inbound \<Rightarrow> persisted_inbound \<Rightarrow> verdict act" where
  \<comment> \<open>from the second look at the policy on\<close>
  "deliver_inbound sv route staged inbound =
     (let binding = sg_binding staged; view = unsent_view route binding inbound in
      andThen (loadActivePolicy sv) (\<lambda>current.
        if map_option ap_sha256 current = Some (pi_policySha256 inbound)
        then andThen (mapAct (send_copy inbound (rb_spoolKey binding))
                 (zip (de_operators route) (zip (rb_operatorRefs binding) (zip (map sp_key (sg_spools staged)) (sg_deliveries staged)))))
               (\<lambda>results. followedBy (finish_inbound sv inbound results (rb_spoolKey binding) (rb_receivedAt binding)) accept)
        else andThen (if current = None then ret False else discard_inbound sv view (Some (rb_spoolKey binding))) (\<lambda>discarded.
               if discarded then reject ''maildesk policy changed before operator delivery''
               else followedBy (recoverExistingInbound sv view) accept)))"

definition reconcile_persistence :: "services \<Rightarrow> staged_inbound \<Rightarrow> verdict act" where
  \<comment> \<open>after a failed persistence: what, if anything, is durable?\<close>
  "reconcile_persistence sv staged =
     (let binding = sg_binding staged; lost = reject ''maildesk inbound persistence requires reconciliation'' in
      andThen (caught (loadInboundDelivery (rb_fingerprintSha256 binding))) (\<lambda>read.
        case read of
          None \<Rightarrow> lost
        | Some None \<Rightarrow> lost
        | Some (Some committed) \<Rightarrow>
            followedBy
              (unless (iw_raw_r2_key committed = Some (rb_spoolKey binding))
                 (followedBy (deleteOperatorDeliverySpools (map sp_key (sg_spools staged)))
                    (ignoreError (spoolDelete (rb_spoolKey binding)))))
              (followedBy (recoverExistingInbound sv committed) accept)))"

definition admit_inbound ::
  "services \<Rightarrow> inbound_mail \<Rightarrow> byte list \<Rightarrow> relay_email \<Rightarrow> route_decision \<Rightarrow> string \<Rightarrow> string \<Rightarrow> string \<Rightarrow> verdict act" where
  \<comment> \<open>a message that is not known yet\<close>
  "admit_inbound sv message raw parsed route policySha256 replyDomain fingerprint =
     andThen (randomToken sv) (\<lambda>token.
     andThen (liftE (relayAddress token replyDomain)) (\<lambda>replyTo.
     andThen readClock (\<lambda>now.
       let binding = bind_inbound sv message parsed route fingerprint replyDomain token now in
       andThen (copies_of_mail sv message parsed route policySha256 binding replyTo) (\<lambda>deliveries.
         if list_ex (\<lambda>d. assertWithinRelayLimit (payload_of_delivery d) (operatorDeliveryConfig (sv_env sv)) \<noteq> Inr ()) deliveries
         then reject too_large
         else andThen (stage_inbound sv raw binding deliveries) (\<lambda>staged.
           case staged of
             Inl reason \<Rightarrow> reject reason
           | Inr spools \<Rightarrow>
               let st = \<lparr> sg_binding = with_payloads spools binding, sg_deliveries = deliveries, sg_spools = spools \<rparr> in
               andThen (caught (persistInboxRelay sv message parsed route (sg_binding st) policySha256)) (\<lambda>persisted.
                 case persisted of
                   None \<Rightarrow> reconcile_persistence sv st
                 | Some inbound \<Rightarrow> deliver_inbound sv route st inbound))))))"

section \<open>The inbox relay: the handler\<close>

definition parse_inbound :: "services \<Rightarrow> inbound_mail \<Rightarrow> (byte list \<times> relay_email) option" where
  "parse_inbound sv message =
     (case ml_raw message of
        None \<Rightarrow> None
      | Some raw \<Rightarrow> (case parseRelayEmail (sv_mime sv raw) of Inl _ \<Rightarrow> None | Inr parsed \<Rightarrow> Some (raw, parsed)))"

definition receive_inbound ::
  "services \<Rightarrow> inbound_mail \<Rightarrow> byte list \<Rightarrow> relay_email \<Rightarrow> route_decision \<Rightarrow> string \<Rightarrow> string \<Rightarrow> verdict act" where
  \<comment> \<open>a parsed message: known already, known but retired, or new\<close>
  "receive_inbound sv message raw parsed route policySha256 replyDomain =
     (let fingerprint = mail_fingerprint sv message raw;
          admit = admit_inbound sv message raw parsed route policySha256 replyDomain fingerprint in
      andThen (caught (loadInboundDelivery fingerprint)) (\<lambda>read.
        case read of
          None \<Rightarrow> reject ''maildesk could not verify inbound delivery idempotency''
        | Some None \<Rightarrow> admit
        | Some (Some existing) \<Rightarrow>
            andThen (discard_inbound sv existing (iw_raw_r2_key existing)) (\<lambda>discarded.
              if discarded then admit else followedBy (recoverExistingInbound sv existing) accept)))"

definition acceptInboxRelay :: "services \<Rightarrow> inbound_mail \<Rightarrow> route_decision \<Rightarrow> string \<Rightarrow> verdict act" where
  "acceptInboxRelay sv message route policySha256 =
     (let config = operatorDeliveryConfig (sv_env sv) in
      if \<not> truthy (odc_replyDomain config) \<or> \<not> env_EMAIL (sv_env sv) then reject ''maildesk inbox relay is not configured''
      else if \<not> env_RELAY_SPOOL (sv_env sv) \<or> \<not> env_POLICY_STORE (sv_env sv)
      then reject ''maildesk inbox relay storage is not configured''
      else if de_routeKind route = Sink
      then andThen (caught (persistSinkRoute sv message route policySha256)) (\<lambda>done.
             if done = None then reject ''maildesk policy changed before the sink route was recorded'' else accept)
      else if de_operators route = [] then reject ''maildesk route has no authorized operator''
      else if odc_maxEncodedMessageBytes config < ml_rawSize message then reject too_large
      else (case parse_inbound sv message of
              None \<Rightarrow> reject ''maildesk could not safely parse this message''
            | Some (raw, parsed) \<Rightarrow>
                receive_inbound sv message raw parsed route policySha256 (the (odc_replyDomain config))))"

section \<open>The web desk\<close>

definition forwardToOperators :: "inbound_mail \<Rightarrow> route_decision \<Rightarrow> operator_result list act" where
  "forwardToOperators message route =
     (if de_routeKind route = Sink then ret []
      else mapAct (\<lambda>operator.
        tryCatch
          (andThen (messageForward operator
              [(''X-Maildesk-Original-To'', ml_to message), (''X-Maildesk-Route-Kind'', kind_name (de_routeKind route)),
               (''X-Maildesk-Reply-Identity'', de_defaultReplyIdentity route)])
            (\<lambda>i. ret \<lparr> or_operator = operator, or_deliveryPayloadR2Key = None, or_ok = True,
                   or_providerMessageId = i, or_errorCode = None \<rparr>))
          (\<lambda>_. ret \<lparr> or_operator = operator, or_deliveryPayloadR2Key = None, or_ok = False,
                 or_providerMessageId = None, or_errorCode = Some ''forward_failed'' \<rparr>)) (de_operators route))"

definition received_job ::
  "inbound_mail \<Rightarrow> route_decision \<Rightarrow> operator_result list \<Rightarrow> string \<Rightarrow> string \<Rightarrow> string \<Rightarrow> nat \<Rightarrow> string \<Rightarrow> jv" where
  "received_job message route results messageId deliveryId rawR2Key byteLength receivedAt = JObject
     [(''kind'', JString ''inbound_email_received''), (''messageId'', JString messageId), (''deliveryId'', JString deliveryId),
      (''envelopeTo'', JString (ml_to message)), (''envelopeFrom'', JString (ml_from message)),
      (''routeKind'', JString (kind_name (de_routeKind route))),
      (''forwardedTo'', jstrings (map or_operator (filter or_ok results))),
      (''forwardErrors'', JArray (map (\<lambda>r. JObject [(''recipient'', JString (or_operator r)),
         (''error'', JString (with_default ''forward_failed'' (or_errorCode r)))]) (filter (\<lambda>r. \<not> or_ok r) results))),
      (''defaultReplyIdentity'', JString (de_defaultReplyIdentity route)), (''rawR2Key'', JString rawR2Key),
      (''rawSize'', JInt (int byteLength)), (''receivedAt'', JString receivedAt)]"

definition enqueue_web_desk ::
  "services \<Rightarrow> inbound_mail \<Rightarrow> route_decision \<Rightarrow> operator_result list \<Rightarrow> selected_destination \<Rightarrow> string \<Rightarrow> string \<Rightarrow> string \<Rightarrow> nat \<Rightarrow> unit act" where
  "enqueue_web_desk sv message route results selected messageId deliveryId rawR2Key byteLength =
     (if target_kind (sd_target selected) = ''work_queue'' then work_result sv deliveryId selected rawR2Key
      else unless (\<not> env_MAIL_JOBS (sv_env sv))
        (andThen (nowIso sv) (\<lambda>receivedAt.
           queueSend (received_job message route results messageId deliveryId rawR2Key byteLength receivedAt))))"

definition acceptWebDesk ::
  "services \<Rightarrow> inbound_mail \<Rightarrow> route_decision \<Rightarrow> selected_destination option \<Rightarrow> verdict act" where
  "acceptWebDesk sv message route preselected =
     (if \<not> env_RAW_MAIL (sv_env sv) then reject ''maildesk raw archive storage is not configured''
      else (case (case preselected of Some s \<Rightarrow> Some s | None \<Rightarrow> selectDestination route []) of
              None \<Rightarrow> reject ''maildesk route has no available destination''
            | Some selected \<Rightarrow>
                let effective = route\<lparr>de_operators :=
                      (case sd_target selected of Mailbox_Target recipients \<Rightarrow> recipients | Work_Queue_Target _ \<Rightarrow> [])\<rparr> in
                andThen (case ml_header message ''message-id'' of Some i \<Rightarrow> ret i | None \<Rightarrow> randomUUID sv) (\<lambda>messageId.
                andThen (randomUUID sv) (\<lambda>deliveryId.
                andThen (nowIso sv) (\<lambda>nowText.
                  let rawR2Key = rawMailKey nowText messageId deliveryId in
                  andThen (if target_kind (sd_target selected) = ''mailbox'' then forwardToOperators message effective else ret []) (\<lambda>results.
                  andThen (caught
                      (case ml_raw message of
                         None \<Rightarrow> throw (Err ''unreadable message'')
                       | Some raw \<Rightarrow>
                           followedBy (rawPut rawR2Key raw)
                           (followedBy (persistWebDeskMetadata sv message messageId deliveryId rawR2Key effective results selected)
                              (ret (length raw))))) (\<lambda>stored.
                    case stored of
                      None \<Rightarrow> accept
                    | Some byteLength \<Rightarrow>
                        followedBy (ignoreError (enqueue_web_desk sv message effective results selected messageId deliveryId rawR2Key byteLength))
                          accept)))))))"

section \<open>The choice of a handler\<close>

definition accept_routed :: "services \<Rightarrow> inbound_mail \<Rightarrow> route_decision \<times> string \<Rightarrow> verdict act" where
  \<comment> \<open>the end of \<^verbatim>\<open>acceptEmail\<close>, for a message with a route\<close>
  "accept_routed sv message bound =
     (case bound of (route, policySha256) \<Rightarrow>
        if odc_mode (operatorDeliveryConfig (sv_env sv)) = Inbox_Relay
        then (if de_disposition route = None then acceptInboxRelay sv message route policySha256
              else (case selectDestination route [] of
                      None \<Rightarrow> reject ''maildesk route has no available destination''
                    | Some selected \<Rightarrow>
                        (case sd_target selected of
                           Work_Queue_Target _ \<Rightarrow> acceptInboxWorkQueue sv message route policySha256 selected
                         | Mailbox_Target recipients \<Rightarrow>
                             acceptInboxRelay sv message (route\<lparr>de_operators := recipients\<rparr>) policySha256)))
        else acceptWebDesk sv message route None)"

end
