(* ===== verification/Inbound_Run.thy ===== *)
theory Inbound_Run
  imports Inbound Queue_Run
begin

text \<open>
  Whole runs of the inbound handlers. The locale \<open>inbound_tables\<close> lists what the handlers do to the database and to
  the world, and gives one rule per function; \<open>inbound_run\<close> adds the one statement that deletes. A relation
  between worlds that admits the steps is kept by every handler.
\<close>

section \<open>Claim and call\<close>

definition attempted :: "'a act \<Rightarrow> (exn + 'a) act" where
  "attempted m = tryCatch (andThen m (\<lambda>x. ret (Inr x))) (\<lambda>e. ret (Inl e))"

definition claimed_send :: "bool act \<Rightarrow> email_message \<Rightarrow> (exn + string option) option act" where
  \<comment> \<open>the claim of a recipient and, when it succeeds, the one call that it pays for\<close>
  "claimed_send claim m =
     andThen (orFalse claim) (\<lambda>claimed.
       if \<not> claimed then ret None else andThen (attempted (emailSend m)) (\<lambda>r. ret (Some r)))"

lemma claim_then_send:
  "andThen (orFalse claim) (\<lambda>claimed. if \<not> claimed then x else andThen (attempted (emailSend m)) k) =
   andThen (claimed_send claim m) (\<lambda>r. case r of None \<Rightarrow> x | Some s \<Rightarrow> k s)"
  by (auto simp: claimed_send_def andThen_assoc fun_eq_iff andThen_def split: sum.splits prod.splits)

lemma tryCatch_attempted:
  "tryCatch (andThen m f) h = andThen (attempted m) (\<lambda>r. case r of Inl e \<Rightarrow> h e | Inr x \<Rightarrow> tryCatch (f x) h)"
  by (auto simp: attempted_def fun_eq_iff andThen_def tryCatch_def split: sum.splits prod.splits)

lemma batch_step:
  assumes "batch ss t d = Inr (ns, d')"
    and "\<And>s d n d'. s \<in> set ss \<Longrightarrow> s t d = Inr (n, d') \<Longrightarrow> step d d'"
    and "\<And>d. step d d" and "\<And>a b c. step a b \<Longrightarrow> step b c \<Longrightarrow> step a c"
  shows "step d d'"
  using assms(1,2)
proof (induction ss arbitrary: d ns d')
  case Nil
  then show ?case by (simp add: assms(3))
next
  case (Cons s ss)
  from Cons.prems(1) obtain n e ms where s: "s t d = Inr (n, e)" "batch ss t e = Inr (ms, d')"
    by (auto split: sum.splits prod.splits)
  have "step d e" using Cons.prems(2) [of s d n e] s(1) by simp
  moreover have "step e d'" by (rule Cons.IH [OF s(2)]) (meson Cons.prems(2) list.set_intros(2))
  ultimately show ?case by (rule assms(4))
qed

section \<open>The rules\<close>

locale inbound_tables = reply_tables R step for R step +
  fixes ok :: "email_message \<Rightarrow> bool"
  assumes step_trans: "step a b \<Longrightarrow> step b c \<Longrightarrow> step a c"
    and forwards: "R w (w\<lparr>w_forwards := fs, w_forward_replies := gs\<rparr>)"
    and affected: "R w (w\<lparr>w_affected := is\<rparr>)"
    and threads: "step d (d\<lparr>db_threads := th\<rparr>)"
    and relays: "step d (d\<lparr>db_relays := db_relays d @ [rr]\<rparr>)"
    and directory: "step d (d\<lparr>db_domains := x1\<rparr>)" "step d (d\<lparr>db_identities := x2\<rparr>)"
      "step d (d\<lparr>db_routes := x3\<rparr>)" "step d (d\<lparr>db_operators := x4\<rparr>)" "step d (d\<lparr>db_route_operators := x5\<rparr>)"
      "step d (d\<lparr>db_messages := x6\<rparr>)"
    and new_delivery: "insert_delivery dl t d = Inr (n, d') \<Longrightarrow> step d d'"
    and new_recipient: "rd_status rd = ''pending'' \<Longrightarrow> insert_recipient rd t d = Inr (n, d') \<Longrightarrow> step d d'"
    and settle_recipient: "(\<And>r. P r \<Longrightarrow> rd_status r = ''sending'') \<Longrightarrow>
      (\<And>r. rd_status (f r) \<noteq> ''pending'' \<and> rd_delivery_id (f r) = rd_delivery_id r \<and> rd_operator_ref (f r) = rd_operator_ref r) \<Longrightarrow>
      step d (d\<lparr>db_recipients := update_where P f (db_recipients d)\<rparr>)"
    and claimed_send: "ok m \<Longrightarrow> preserves R (claimed_send (claimInboundRecipient i ref pol key) m)"
begin

lemma caught: "preserves R m \<Longrightarrow> preserves R (caught m)"
  by (simp add: caught_def run_rules)

lemma orNone: "preserves R m \<Longrightarrow> preserves R (orNone m)"
  by (simp add: orNone_def run_rules)

lemma orFalse: "preserves R m \<Longrightarrow> preserves R (orFalse m)"
  by (simp add: orFalse_def run_rules)

lemma reject: "preserves R (reject reason)"
  by (simp add: reject_def ret)

lemma accept: "preserves R accept"
  by (simp add: accept_def ret)

lemma nowIso: "preserves R (nowIso sv)"
  by (simp add: nowIso_def run_rules)

lemma randomToken: "preserves R (randomToken sv)"
  by (rule preservesI) (simp add: randomToken_def uuids)

lemma messageForward: "preserves R (messageForward to hs)"
  unfolding messageForward_def by (rule call) (auto simp: Let_def forwards split: list.splits mail_reply.splits)

lemma addAffected: "preserves R (addAffected i)"
  by (rule preservesI) (simp add: addAffected_def affected)

lemma recordAudit: "preserves R (recordAudit sv k th a ac v)"
  by (auto simp: recordAudit_def insertAudit_def same audit intro!: run_rules randomUUID d1 split: if_splits)

lemma run_statement: "(\<And>t d n d'. s t d = Inr (n, d') \<Longrightarrow> step d d') \<Longrightarrow> preserves R (run_statement s)"
  by (auto simp: run_statement_def intro!: run_rules d1)

lemmas handler_rules = run_rules effect_rules caught orNone orFalse reject accept nowIso randomToken recordAudit if_split

lemma find_thread: "preserves R (find_thread routeId sender ids)"
  by (induction ids) (auto intro!: handler_rules)

lemma resolveThreadId: "preserves R (resolveThreadId sv a b c e f g)"
  by (auto simp: resolveThreadId_def intro!: handler_rules find_thread)

lemma inbound_batch_steps:
  assumes "s \<in> set (inbound_batch parsed route relay pol a b c e f)" "s t d = Inr (n, d')"
  shows "step d d'"
proof -
  have up: "upsert_thread th t d = Inr (n, d') \<Longrightarrow> step d d'" for th n d'
    by (auto simp: upsert_thread_def same threads split: if_splits)
  have rec: "rd \<in> set (recipient_rows relay) \<Longrightarrow> insert_recipient rd t d = Inr (n, d') \<Longrightarrow> step d d'" for rd n d'
    by (rule new_recipient) (auto simp: recipient_rows_def)
  show ?thesis
    using assms up rec new_delivery
    by (auto simp: inbound_batch_def insert_inbound_thread_def insert_relay_def note_inbound_def update_health_def
        same relays health split: if_splits)
qed

lemma persistInboxRelay: "preserves R (persistInboxRelay sv message parsed route relay pol)"
proof -
  have "preserves R (d1 (batch (inbound_batch parsed route relay pol a b c e f)))" for a b c e f
    by (rule d1) (rule batch_step [OF _ inbound_batch_steps same step_trans])
  then show ?thesis
    by (auto simp: persistInboxRelay_def Let_def split: option.split prod.split intro!: handler_rules resolveThreadId)
qed

lemma recordDeliveryResults: "preserves R (recordDeliveryResults sv inbound results status key)"
proof -
  have "project_operator_health sv inbound results status = (\<lambda>t d. project_operator_health sv inbound results status t d)" by simp
  then have "preserves R (d1 (project_operator_health sv inbound results status))"
    unfolding project_operator_health_def using update_health by simp
  then show ?thesis
    by (auto simp: recordDeliveryResults_def audit_operator_result_def delivery_identity_def Let_def
        intro!: handler_rules update_deliveries)
qed

lemma projectInboundRecipientResult: "preserves R (projectInboundRecipientResult i ref result)"
  by (auto simp: projectInboundRecipientResult_def update_recipients_def intro!: handler_rules d1 settle_recipient)

lemma deleteOperatorDeliverySpools: "preserves R (deleteOperatorDeliverySpools keys)"
  by (auto simp: deleteOperatorDeliverySpools_def intro!: handler_rules)

lemma persistOperatorDeliverySpools: "preserves R (persistOperatorDeliverySpools sv key ds refs)"
  by (auto simp: persistOperatorDeliverySpools_def Let_def intro!: handler_rules deleteOperatorDeliverySpools)

lemma loadOperatorDeliverySpool: "preserves R (loadOperatorDeliverySpool sv row inbound)"
  by (auto simp: loadOperatorDeliverySpool_def intro!: handler_rules)

lemma load_result:
  "fst (caught (loadOperatorDeliverySpool sv row inbound) w) = Inr (Some d) \<Longrightarrow> \<exists>object. read_delivery sv row inbound object = Inr d"
  by (auto simp: caught_def loadOperatorDeliverySpool_def tryCatch_def andThen_def liftE_def throw_def ret_def
      split: if_splits sum.splits prod.splits)

lemma recover_recipient:
  assumes "\<And>object d. read_delivery sv row inbound object = Inr d \<Longrightarrow> ok (email_of_delivery d)"
  shows "preserves R (recover_recipient sv inbound row)"
proof -
  let ?claim = "claimInboundRecipient (iw_id inbound) (rd_operator_ref row) (iw_policy_sha256 inbound) (the (iw_raw_r2_key inbound))"
  have "preserves R (andThen (orFalse ?claim) (\<lambda>claimed. if \<not> claimed then ret () else send_recovered inbound row d))"
    if "ok (email_of_delivery d)" for d
    unfolding send_recovered_def Let_def tryCatch_attempted claim_then_send
    by (auto intro!: handler_rules claimed_send that projectInboundRecipientResult split: option.split sum.split)
  then have "preserves R (andThen (caught (loadOperatorDeliverySpool sv row inbound)) (\<lambda>loaded. case loaded of None \<Rightarrow> ret ()
      | Some d \<Rightarrow> andThen (orFalse ?claim) (\<lambda>claimed. if \<not> claimed then ret () else send_recovered inbound row d)))"
    using assms
    by (intro andThen_result caught loadOperatorDeliverySpool) (auto intro: ret dest!: load_result split: option.split)
  then show ?thesis
    unfolding recover_recipient_def caught_def [symmetric] orFalse_def [symmetric]
    by (intro if_split ignoreError spoolDelete ret)
qed

lemma recovery_batch_steps:
  "s \<in> set (recovery_batch inbound status) \<Longrightarrow> s t d = Inr (n, d') \<Longrightarrow> step d d'"
  by (auto simp: recovery_batch_def update_deliveries_def update_health_def delivery_identity_def intro!: deliveries health)

lemma report_recovery: "preserves R (report_recovery inbound rows)"
proof -
  have "preserves R (d1 (batch (recovery_batch inbound status)))" for status
    by (rule d1) (rule batch_step [OF _ recovery_batch_steps same step_trans])
  then show ?thesis
    by (auto simp: report_recovery_def Let_def intro!: handler_rules)
qed

lemma recoverExistingInbound:
  assumes "\<And>row object d. read_delivery sv row inbound object = Inr d \<Longrightarrow> ok (email_of_delivery d)"
  shows "preserves R (recoverExistingInbound sv inbound)"
  using assms
  by (auto simp: recoverExistingInbound_def intro!: handler_rules recover_recipient report_recovery)

lemma stage_inbound: "preserves R (stage_inbound sv raw binding ds)"
  by (auto simp: stage_inbound_def Let_def split: option.split intro!: handler_rules persistOperatorDeliverySpools)

lemma operator_copy: "preserves R (operator_copy sv a b c e f g h i)"
  by (auto simp: operator_copy_def Let_def split: option.split prod.split intro!: handler_rules loadOrdinaryRouteAuthorization)

lemma copies_of_mail: "preserves R (copies_of_mail sv a b c e f g)"
  by (auto simp: copies_of_mail_def Let_def intro!: handler_rules operator_copy)

lemma send_copy:
  assumes "ok (email_of_delivery delivery)"
  shows "preserves R (send_copy inbound spoolKey (operator, ref, key, delivery))"
proof -
  let ?accepted = "accepted_copy operator key" and ?failed = "\<lambda>e. failed_copy operator key (cloudflareEmailErrorCode e)"
  have "preserves R (loadInboundRecipient a b)" for a b by (simp add: loadInboundRecipient_def handler_rules)
  moreover have "tryCatch (andThen (emailSend m) (\<lambda>i. ret (?accepted i))) (\<lambda>e. ret (?failed e)) =
      andThen (attempted (emailSend m)) (\<lambda>r. ret (case r of Inl e \<Rightarrow> ?failed e | Inr i \<Rightarrow> ?accepted i))" for m
    by (auto simp: attempted_def fun_eq_iff andThen_def tryCatch_def split: sum.splits prod.splits)
  ultimately show ?thesis
    unfolding send_copy_def prod.case
    by (simp only: andThen_assoc claim_then_send)
       (auto intro!: handler_rules claimed_send assms projectInboundRecipientResult split: option.split sum.split)
qed

lemma finish_inbound: "preserves R (finish_inbound sv inbound results key receivedAt)"
proof -
  have "preserves R (run_statement (update_deliveries P (\<lambda>dl. dl\<lparr>dl_raw_r2_key := None\<rparr>)))" for P
    by (rule run_statement) (auto simp: update_deliveries_def delivery_identity_def intro!: deliveries)
  then show ?thesis
    by (auto simp: finish_inbound_def Let_def intro!: handler_rules recordDeliveryResults)
qed

lemma reconcile_persistence:
  assumes "\<And>inbound row object d. read_delivery sv row inbound object = Inr d \<Longrightarrow> ok (email_of_delivery d)"
  shows "preserves R (reconcile_persistence sv staged)"
  using assms
  by (auto simp: reconcile_persistence_def loadInboundDelivery_def Let_def split: option.split
      intro!: handler_rules recoverExistingInbound deleteOperatorDeliverySpools)

lemma persistSinkRoute: "preserves R (persistSinkRoute sv message route pol)"
proof -
  have "sink_health sv a b = (\<lambda>t d. sink_health sv a b t d)" for a b by simp
  then have "preserves R (d1 (sink_health sv a b))" for a b
    unfolding sink_health_def using update_health by simp
  then show ?thesis
    by (auto simp: persistSinkRoute_def split: option.split prod.split intro!: handler_rules)
qed

lemma acceptInboxWorkQueue: "preserves R (acceptInboxWorkQueue sv message route pol selected)"
proof -
  have n: "note_inbound a b c = (\<lambda>t d. note_inbound a b c t d)" for a b c by simp
  have "preserves R (d1 (note_inbound a b c))" for a b c
    by (subst n) (unfold note_inbound_def, rule update_health)
  then show ?thesis
    by (auto simp: acceptInboxWorkQueue_def admit_work_def work_result_def Let_def split: option.split intro!: handler_rules)
qed

lemma forwardToOperators: "preserves R (forwardToOperators message route)"
  by (auto simp: forwardToOperators_def intro!: handler_rules messageForward)

lemma web_desk_statements:
  "upsert_thread th t d = Inr (n, d') \<Longrightarrow> step d d'" "insert_domain i name t d = Inr (n, d') \<Longrightarrow> step d d'"
  "insert_identity idr t d = Inr (n, d') \<Longrightarrow> step d d'" "insert_route ar t d = Inr (n, d') \<Longrightarrow> step d d'"
  "update_route a b c e t d = Inr (n, d') \<Longrightarrow> step d d'" "insert_operator i email t d = Inr (n, d') \<Longrightarrow> step d d'"
  "insert_route_operator i j t d = Inr (n, d') \<Longrightarrow> step d d'" "insert_message ms t d = Inr (n, d') \<Longrightarrow> step d d'"
  by (auto simp: upsert_thread_def insert_domain_def insert_identity_def insert_route_def update_route_def
      insert_operator_def insert_route_operator_def insert_message_def Let_def same threads directory split: if_splits)

lemma persistWebDeskMetadata: "preserves R (persistWebDeskMetadata sv a b c e f g h)"
  by (auto simp: persistWebDeskMetadata_def project_web_desk_route_def Let_def split: option.split prod.split
      intro!: handler_rules resolveThreadId run_statement elim: web_desk_statements)

lemma acceptWebDesk: "preserves R (acceptWebDesk sv message route preselected)"
  by (auto simp: acceptWebDesk_def enqueue_web_desk_def work_result_def Let_def split: option.split
      intro!: handler_rules forwardToOperators persistWebDeskMetadata)

lemma routeMessage: "preserves R (routeMessage sv message)"
  by (auto simp: routeMessage_def intro!: handler_rules loadActivePolicy)

end

locale inbound_run = inbound_tables R step ok for R step ok +
  assumes discard: "discard_unsent a b c t d = Inr (n, d') \<Longrightarrow> step d d'"
begin

lemma discard_inbound: "preserves R (discard_inbound sv inbound key)"
  by (auto simp: discard_inbound_def discardSupersededUnsentInbound_def Let_def split: option.split
      intro!: handler_rules loadActivePolicy deleteOperatorDeliverySpools d1 discard)

lemma deliver_inbound:
  assumes "\<And>d. ok (email_of_delivery d)"
  shows "preserves R (deliver_inbound sv route staged inbound)"
  by (auto simp: deliver_inbound_def Let_def assms intro!: handler_rules loadActivePolicy discard_inbound
      recoverExistingInbound finish_inbound send_copy)

lemma receive_inbound:
  assumes "\<And>d. ok (email_of_delivery d)"
  shows "preserves R (receive_inbound sv message raw parsed route pol rd)"
proof -
  have "preserves R (admit_inbound sv message raw parsed route pol rd fp)" for fp
    by (auto simp: admit_inbound_def Let_def assms split: option.split sum.split intro!: handler_rules copies_of_mail
        stage_inbound persistInboxRelay reconcile_persistence deliver_inbound)
  then show ?thesis
    by (auto simp: receive_inbound_def loadInboundDelivery_def Let_def assms split: option.split
        intro!: handler_rules discard_inbound recoverExistingInbound)
qed

lemma acceptInboxRelay:
  assumes "\<And>d. ok (email_of_delivery d)"
  shows "preserves R (acceptInboxRelay sv message route pol)"
  by (auto simp: acceptInboxRelay_def Let_def assms split: option.split prod.split
      intro!: handler_rules persistSinkRoute receive_inbound)

lemma accept_routed:
  assumes "\<And>d. ok (email_of_delivery d)"
  shows "preserves R (accept_routed sv message bound)"
  by (auto simp: accept_routed_def assms split: prod.split option.split disposition_target.split
      intro!: handler_rules acceptInboxRelay acceptInboxWorkQueue acceptWebDesk)

end

end
