(* ===== verification/Inbound_Safety.thy ===== *)
theory Inbound_Safety
  imports Inbound_Run
begin

text \<open>
  What holds of every run of the inbound handlers. A copy is sent at most once per recipient row: every call
  takes one row out of \<open>pending\<close>, and no row goes back. And a message that is accepted for the inbox relay is durable.
\<close>

section \<open>Every copy is paid for\<close>

definition settled_rows :: "db \<Rightarrow> nat" where
  "settled_rows d = length (filter (\<lambda>r. rd_status r \<noteq> ''pending'') (db_recipients d))"

definition recipient_key :: "recipient_row \<Rightarrow> string \<times> string" where
  "recipient_key r = (rd_delivery_id r, rd_operator_ref r)"

definition settled_keys :: "db \<Rightarrow> (string \<times> string) set" where
  "settled_keys d = recipient_key ` {r \<in> set (db_recipients d). rd_status r \<noteq> ''pending''}"

definition one_delivery_per_relay :: "db \<Rightarrow> bool" where
  \<comment> \<open>\<^verbatim>\<open>UNIQUE(relay_id)\<close>\<close>
  "one_delivery_per_relay d \<longleftrightarrow> distinct (map dl_relay_id (db_deliveries d))"

definition paid :: "db \<times> nat \<Rightarrow> db \<times> nat \<Rightarrow> bool" where
  "paid s t \<longleftrightarrow> (one_delivery_per_relay (fst s) \<longrightarrow>
     one_delivery_per_relay (fst t) \<and> snd t + settled_rows (fst s) \<le> snd s + settled_rows (fst t) \<and>
     settled_keys (fst s) \<subseteq> settled_keys (fst t))"

lemma paid_rows:
  "db_deliveries d' = db_deliveries d \<Longrightarrow> db_recipients d' = db_recipients d \<Longrightarrow> paid (d, n) (d', n)"
  by (simp add: paid_def one_delivery_per_relay_def settled_rows_def settled_keys_def)

lemma one_delivery_per_relay_update [simp]:
  assumes "\<And>r. delivery_identity (e r) = delivery_identity r"
  shows "one_delivery_per_relay (d\<lparr>db_deliveries := update_where D e (db_deliveries d)\<rparr>) = one_delivery_per_relay d"
proof -
  have "dl_relay_id (e r) = dl_relay_id r" for r
    using arg_cong [OF assms [of r, unfolded delivery_identity_def], of dl_relay_id] by simp
  then have "map dl_relay_id (update_where D e rows) = map dl_relay_id rows" for rows
    by (simp add: update_where_def)
  then show ?thesis by (simp add: one_delivery_per_relay_def)
qed

lemma settled_update:
  assumes "\<And>r. P r \<Longrightarrow> rd_status (f r) \<noteq> ''pending'' \<and> recipient_key (f r) = recipient_key r"
  shows "settled_rows (d\<lparr>db_recipients := update_where P f (db_recipients d)\<rparr>) =
      settled_rows d + changes (\<lambda>r. P r \<and> rd_status r = ''pending'') (db_recipients d)"
    "settled_keys d \<subseteq> settled_keys (d\<lparr>db_recipients := update_where P f (db_recipients d)\<rparr>)"
proof -
  have "length (filter (\<lambda>r. rd_status r \<noteq> ''pending'') (update_where P f rows)) =
      length (filter (\<lambda>r. rd_status r \<noteq> ''pending'') rows) + changes (\<lambda>r. P r \<and> rd_status r = ''pending'') rows" for rows
    by (induction rows) (auto simp: update_where_def changes_def assms)
  then show "settled_rows (d\<lparr>db_recipients := update_where P f (db_recipients d)\<rparr>) =
      settled_rows d + changes (\<lambda>r. P r \<and> rd_status r = ''pending'') (db_recipients d)"
    by (simp add: settled_rows_def)
  show "settled_keys d \<subseteq> settled_keys (d\<lparr>db_recipients := update_where P f (db_recipients d)\<rparr>)"
  proof
    fix k assume "k \<in> settled_keys d"
    then obtain r where r: "r \<in> set (db_recipients d)" "rd_status r \<noteq> ''pending''" "k = recipient_key r"
      by (auto simp: settled_keys_def)
    let ?r = "if P r then f r else r"
    have "?r \<in> set (update_where P f (db_recipients d))" "rd_status ?r \<noteq> ''pending''" "recipient_key ?r = k"
      using r assms by (auto simp: set_update_where)
    then show "k \<in> settled_keys (d\<lparr>db_recipients := update_where P f (db_recipients d)\<rparr>)"
      by (force simp: settled_keys_def)
  qed
qed

lemma filter_unsent:
  assumes "\<And>r. r \<in> set rows \<Longrightarrow> \<not> keep r \<Longrightarrow> rd_status r = ''pending''"
  shows "filter (\<lambda>r. rd_status r \<noteq> ''pending'') (filter keep rows) = filter (\<lambda>r. rd_status r \<noteq> ''pending'') rows"
  using assms by (induction rows) auto

lemma paid_discard:
  assumes "discard_unsent relayId pol i t d = Inr (n, d')"
  shows "paid (d, k) (d', k)"
proof (cases "d' = d")
  case True
  then show ?thesis by (simp add: paid_def)
next
  case False
  let ?gone = "\<lambda>i. list_ex (\<lambda>dl. dl_id dl = i \<and> dl_relay_id dl = relayId) (db_deliveries d)"
  let ?keep = "\<lambda>r. \<not> ?gone (rd_delivery_id r)"
  from assms False obtain dl where dl: "dl \<in> set (db_deliveries d)" "dl_relay_id dl = relayId"
      "\<not> list_ex (\<lambda>r. rd_delivery_id r = dl_id dl \<and> rd_status r \<noteq> ''pending'') (db_recipients d)"
    and d': "db_deliveries d' = filter (\<lambda>dl. dl_relay_id dl \<noteq> relayId) (db_deliveries d)"
      "db_recipients d' = filter ?keep (db_recipients d)"
    unfolding discard_unsent_def Let_def by (fastforce simp: list_ex_iff split: if_splits)
  show ?thesis
  proof (cases "one_delivery_per_relay d")
    case True
    have "?gone j \<Longrightarrow> j = dl_id dl" for j
      using True dl(1,2) unfolding one_delivery_per_relay_def distinct_map
      by (auto simp: list_ex_iff dest: inj_onD)
    then have "rd_status r = ''pending''" if "r \<in> set (db_recipients d)" "\<not> ?keep r" for r
      using that dl(3) by (auto simp: list_ex_iff)
    then have "filter (\<lambda>r. rd_status r \<noteq> ''pending'') (db_recipients d') = filter (\<lambda>r. rd_status r \<noteq> ''pending'') (db_recipients d)"
      unfolding d' by (rule filter_unsent)
    then have "settled_rows d' = settled_rows d" "settled_keys d' = settled_keys d"
      unfolding settled_rows_def settled_keys_def set_filter [symmetric] by simp_all
    moreover have "one_delivery_per_relay d'"
      using True by (simp add: one_delivery_per_relay_def d' distinct_map_filter)
    ultimately show ?thesis by (simp add: paid_def)
  qed (simp add: paid_def)
qed

interpretation paid: trace_relation paid
  by unfold_locales (auto simp: paid_def)

interpretation paid: reply_tables "under paid" "\<lambda>d d'. \<forall>n. paid (d, n) (d', n)"
proof
  show "\<forall>n. paid (d, n) (d, n)" for d by (simp add: paid_def)
  show "update_attempts P f t d = Inr (n, d') \<Longrightarrow> \<forall>n. paid (d, n) (d', n)" for P f t d n d'
    by (auto simp: update_attempts_Inr intro: paid_rows)
  show "update_admissions k Q g t d = Inr (n, d') \<Longrightarrow> \<forall>n. paid (d, n) (d', n)" for k Q g t d n d'
    by (auto simp: update_admissions_Inr intro: paid_rows)
  show "(\<And>r. delivery_identity (e r) = delivery_identity r) \<Longrightarrow>
      \<forall>n. paid (d, n) (d\<lparr>db_deliveries := update_where D e (db_deliveries d)\<rparr>, n)" for e D d
    by (simp add: paid_def) (simp add: settled_rows_def settled_keys_def)
qed (auto intro: paid_rows)

lemma claim_recipient_pays:
  assumes "claim_recipient i ref pol key t d = Inr (n, d')"
  shows "paid (d, k) (d', k)" "0 < n \<Longrightarrow> paid (d, k) (d', Suc k)"
proof -
  let ?P = "recipient_claimable i ref pol key d" and ?f = "\<lambda>r :: recipient_row. r\<lparr>rd_status := ''sending''\<rparr>"
  have d': "d' = d\<lparr>db_recipients := update_where ?P ?f (db_recipients d)\<rparr>" "n = changes ?P (db_recipients d)"
    using assms by (simp_all add: claim_recipient_def update_recipients_def)
  have "settled_rows d' = settled_rows d + changes (\<lambda>r. ?P r \<and> rd_status r = ''pending'') (db_recipients d)"
    "settled_keys d \<subseteq> settled_keys d'"
    unfolding d'(1) by (rule settled_update; simp add: recipient_key_def)+
  moreover have "(\<lambda>r. ?P r \<and> rd_status r = ''pending'') = ?P"
    by (auto simp: fun_eq_iff recipient_claimable_def)
  moreover have "one_delivery_per_relay d' = one_delivery_per_relay d" by (simp add: d' one_delivery_per_relay_def)
  ultimately show "paid (d, k) (d', k)" "0 < n \<Longrightarrow> paid (d, k) (d', Suc k)"
    using d'(2) by (auto simp: paid_def)
qed

lemma insert_delivery_paid:
  assumes "insert_delivery dl t d = Inr (n, d')"
  shows "paid (d, k) (d', k)"
proof -
  have "\<not> list_ex (\<lambda>r. dl_relay_id r = dl_relay_id dl) (db_deliveries d)" "d' = d\<lparr>db_deliveries := db_deliveries d @ [dl]\<rparr>"
    using assms by (auto simp: insert_delivery_def list_ex_iff split: if_splits)
  then have "dl_relay_id dl \<notin> dl_relay_id ` set (db_deliveries d)" by (force simp: list_ex_iff)
  with \<open>d' = _\<close> show ?thesis
    by (simp add: paid_def one_delivery_per_relay_def settled_rows_def settled_keys_def)
qed

text \<open>The call after a claim spends what the claim paid.\<close>

lemma emailSend_seen:
  assumes "others_respect paid w"
  shows "\<exists>d n. paid (seen w) (d, length (w_calls w)) \<and> w_db (snd (emailSend m w)) = d \<and>
    length (w_calls (snd (emailSend m w))) = n \<and> n \<le> Suc (length (w_calls w)) \<and>
    set (w_ticks (snd (emailSend m w))) \<subseteq> set (w_ticks w)"
proof -
  obtain u where u: "snd (begin_call w) = u" by simp
  have b: "under paid w u" using paid.elapse [of w] u by simp
  have c: "w_calls u = w_calls w" using begin_call_snd [of w] u by auto
  have e: "w_db (snd (emailSend m w)) = w_db u" "set (w_ticks (snd (emailSend m w))) = set (w_ticks u)"
    "length (w_calls (snd (emailSend m w))) \<le> Suc (length (w_calls u))"
    using u by (auto simp: emailSend_def call_def Let_def split: prod.splits call_end.splits list.splits mail_reply.splits)
  show ?thesis
    using b assms c e by (auto simp: under_def seen_def)
qed

lemma paid_trans_call:
  "paid (d, k) (d', Suc k) \<Longrightarrow> paid (d', k') (d'', k') \<Longrightarrow> k'' \<le> Suc k \<Longrightarrow> paid (d, k) (d'', k'')"
  by (auto simp: paid_def)

lemma claimed_send_paid: "preserves (under paid) (claimed_send (claimInboundRecipient i ref pol key) m)"
proof (rule preservesI)
  fix w
  let ?stmt = "claim_recipient i ref pol key"
  obtain e u where u: "begin_call w = (e, u)" by (cases "begin_call w")
  have b: "under paid w u" using paid.elapse [of w] u by simp
  have c: "w_calls u = w_calls w" using begin_call_snd [of w] u by auto
  obtain n d' where s: "?stmt (w_now u) (w_db u) = Inr (n, d')"
    by (simp add: claim_recipient_def update_recipients_def)
  let ?v = "u\<lparr>w_db := d'\<rparr>"
  have v: "under paid u ?v"
    using claim_recipient_pays(1) [OF s] by (simp add: under_def seen_def)
  let ?c = "claimInboundRecipient i ref pol key"
  have claim: "orFalse ?c w = (case e of Done \<Rightarrow> (Inr (0 < n), ?v) | Fails _ \<Rightarrow> (Inr False, u) | Fails_After _ \<Rightarrow> (Inr False, ?v))"
    using s u by (auto simp: orFalse_def claimInboundRecipient_def d1_def call_def andThen_def tryCatch_def split: call_end.splits)
  have skip: "claimed_send ?c m w = (Inr None, x)" if "orFalse ?c w = (Inr False, x)" for x
    using that by (simp add: claimed_send_def andThen_def)
  show "under paid w (snd (claimed_send ?c m w))"
  proof (cases "e = Done \<and> 0 < n")
    case False
    then have "orFalse ?c w = (Inr False, u) \<or> orFalse ?c w = (Inr False, ?v)"
      using claim by (cases e) auto
    then have "snd (claimed_send ?c m w) \<in> {u, ?v}" by (elim disjE) (simp_all add: skip)
    moreover have "under paid w ?v" by (rule paid.transitive [OF b v])
    ultimately show ?thesis using b by (metis insertE singletonD)
  next
    case True
    let ?x = "snd (emailSend m ?v)"
    have "orFalse ?c w = (Inr True, ?v)" using claim True by simp
    moreover obtain r x where "emailSend m ?v = (r, x)" by (cases "emailSend m ?v")
    ultimately have run: "snd (claimed_send ?c m w) = ?x"
      by (cases r) (simp_all add: claimed_send_def andThen_def attempted_def tryCatch_def)
    show ?thesis
      unfolding under_def run
    proof (intro impI conjI)
      assume o: "others_respect paid w"
      have ov: "others_respect paid ?v" using under_others [OF v under_others [OF b o]] .
      obtain d n' where x: "paid (seen ?v) (d, length (w_calls ?v))" "w_db ?x = d" "length (w_calls ?x) = n'"
          "n' \<le> Suc (length (w_calls ?v))" "set (w_ticks ?x) \<subseteq> set (w_ticks ?v)"
        using emailSend_seen [OF ov, of m] by blast
      have "paid (seen u) (seen ?x)"
        using paid_trans_call [OF claim_recipient_pays(2) [OF s]] True x by (simp add: seen_def)
      then show "paid (seen w) (seen ?x)"
        using underD [OF b o] paid.seen_trans by blast
      show "set (w_ticks ?x) \<subseteq> set (w_ticks w)"
        using x(5) b o by (auto simp: under_def)
    qed
  qed
qed

interpretation paid: inbound_run "under paid" "\<lambda>d d'. \<forall>n. paid (d, n) (d', n)" "\<lambda>_. True"
proof
  show "\<forall>n. paid (a, n) (b, n) \<Longrightarrow> \<forall>n. paid (b, n) (c, n) \<Longrightarrow> \<forall>n. paid (a, n) (c, n)" for a b c
    using paid.seen_trans by blast
  show "insert_delivery dl t d = Inr (n, d') \<Longrightarrow> \<forall>n. paid (d, n) (d', n)" for dl t d n d'
    using insert_delivery_paid by blast
  show "rd_status rd = ''pending'' \<Longrightarrow> insert_recipient rd t d = Inr (n, d') \<Longrightarrow> \<forall>n. paid (d, n) (d', n)" for rd t d n d'
    by (auto simp: insert_recipient_def paid_def one_delivery_per_relay_def settled_rows_def settled_keys_def split: if_splits)
  show "(\<And>r. P r \<Longrightarrow> rd_status r = ''sending'') \<Longrightarrow>
      (\<And>r. rd_status (f r) \<noteq> ''pending'' \<and> rd_delivery_id (f r) = rd_delivery_id r \<and> rd_operator_ref (f r) = rd_operator_ref r) \<Longrightarrow>
      \<forall>n. paid (d, n) (d\<lparr>db_recipients := update_where P f (db_recipients d)\<rparr>, n)" for P f d
    using settled_update [of P f d] by (auto simp: paid_def one_delivery_per_relay_def recipient_key_def)
  show "discard_unsent a b c t d = Inr (n, d') \<Longrightarrow> \<forall>n. paid (d, n) (d', n)" for a b c t d n d'
    using paid_discard by blast
qed (auto simp: under_def seen_def paid_def one_delivery_per_relay_def settled_rows_def settled_keys_def
    intro: claimed_send_paid)

theorem accept_routed_paid: "preserves (under paid) (accept_routed sv message bound)"
  by (rule paid.accept_routed) simp

end
