(* ===== verification/Dkim_Text.thy ===== *)
theory Dkim_Text
  imports Relay_Mail Base64
begin

text \<open>
  The text level of \<^verbatim>\<open>workers/shared/dkim.ts\<close>: the raw message as a binary string, its headers and body, the
  tag lists, and both canonicalizations of RFC 6376. The regular expressions are written out as list functions.
\<close>

section \<open>Characters and lines\<close>

abbreviation CR :: char where "CR \<equiv> CHR 0x0D"
abbreviation LF :: char where "LF \<equiv> CHR 0x0A"

definition blank :: "char \<Rightarrow> bool" where
  \<comment> \<open>the class \<^verbatim>\<open>[ \t]\<close>\<close>
  "blank c \<longleftrightarrow> c = CHR 0x20 \<or> c = CHR 0x09"

definition word_char :: "char \<Rightarrow> bool" where
  \<comment> \<open>the class \<^verbatim>\<open>\w\<close>\<close>
  "word_char c \<longleftrightarrow> is_alnum c \<or> c = CHR 0x5F"

definition byteString :: "byte list \<Rightarrow> string" where
  "byteString bytes = map byte_char bytes"

definition byteArray :: "string \<Rightarrow> byte list" where
  "byteArray value = map char_byte value"

fun lone_cr :: "string \<Rightarrow> bool" where
  \<comment> \<open>\<^verbatim>\<open>/\r(?!\n)/\<close>\<close>
  "lone_cr [] = False"
| "lone_cr (c # cs) = ((c = CR \<and> (cs = [] \<or> hd cs \<noteq> LF)) \<or> lone_cr cs)"

fun to_crlf :: "string \<Rightarrow> string" where
  \<comment> \<open>\<^verbatim>\<open>replace(/\r?\n/g, "\r\n")\<close>\<close>
  "to_crlf [] = []"
| "to_crlf [c] = (if c = LF then [CR, LF] else [c])"
| "to_crlf (c # d # cs) =
     (if c = CR \<and> d = LF then CR # LF # to_crlf cs
      else if c = LF then CR # LF # to_crlf (d # cs) else c # to_crlf (d # cs))"

fun split_crlf :: "string \<Rightarrow> string list" where
  \<comment> \<open>\<^verbatim>\<open>split("\r\n")\<close>\<close>
  "split_crlf [] = [[]]"
| "split_crlf [c] = [[c]]"
| "split_crlf (c # d # cs) =
     (if c = CR \<and> d = LF then [] # split_crlf cs
      else (case split_crlf (d # cs) of [] \<Rightarrow> [[c]] | l # ls \<Rightarrow> (c # l) # ls))"

fun header_boundary :: "string \<Rightarrow> (string \<times> string) option" where
  \<comment> \<open>the text before and after the first empty line\<close>
  "header_boundary [] = None"
| "header_boundary (c # cs) =
     (if take 4 (c # cs) = [CR, LF, CR, LF] then Some ([], drop 4 (c # cs))
      else map_option (\<lambda>(h, b). (c # h, b)) (header_boundary cs))"

fun squeeze_blanks :: "string \<Rightarrow> string" where
  \<comment> \<open>\<^verbatim>\<open>replace(/[ \t]+/g, " ")\<close>\<close>
  "squeeze_blanks [] = []"
| "squeeze_blanks (c # cs) =
     (if blank c then (if cs \<noteq> [] \<and> blank (hd cs) then squeeze_blanks cs else CHR 0x20 # squeeze_blanks cs)
      else c # squeeze_blanks cs)"

definition trim_blanks_end :: "string \<Rightarrow> string" where
  \<comment> \<open>\<^verbatim>\<open>replace(/[ \t]+$/g, "")\<close>\<close>
  "trim_blanks_end s = rev (dropWhile blank (rev s))"

definition folded :: "string \<Rightarrow> bool" where
  \<comment> \<open>a line break that a blank follows\<close>
  "folded s \<longleftrightarrow> 3 \<le> length s \<and> s ! 0 = CR \<and> s ! 1 = LF \<and> blank (s ! 2)"

function unfold_header :: "string \<Rightarrow> string" where
  \<comment> \<open>\<^verbatim>\<open>replace(/\r\n[ \t]+/g, " ")\<close>\<close>
  "unfold_header [] = []"
| "unfold_header (c # cs) =
     (if folded (c # cs) then CHR 0x20 # unfold_header (dropWhile blank (tl cs)) else c # unfold_header cs)"
  by pat_completeness auto
termination
proof (relation "measure length", simp_all)
  show "length (dropWhile blank (tl cs)) < Suc (length cs)" for cs
    using length_dropWhile_le [of blank "tl cs"] by simp
qed

section \<open>The raw message\<close>

record raw_header =
  hd_name :: string
  hd_raw :: string
  hd_unfolded :: string

function header_blocks :: "string \<Rightarrow> string list" where
  \<comment> \<open>\<^verbatim>\<open>split(/\r\n(?=[^ \t])/)\<close>\<close>
  "header_blocks [] = [[]]"
| "header_blocks (c # cs) =
     (if c = CR \<and> 2 \<le> length cs \<and> hd cs = LF \<and> \<not> blank (cs ! 1) then [] # header_blocks (tl cs)
      else (case header_blocks cs of [] \<Rightarrow> [[c]] | l # ls \<Rightarrow> (c # l) # ls))"
  by pat_completeness auto
termination by (relation "measure length") auto

definition field_char :: "char \<Rightarrow> bool" where
  \<comment> \<open>the class \<^verbatim>\<open>[!#-9;-~]\<close>\<close>
  "field_char c \<longleftrightarrow> code c = 33 \<or> (35 \<le> code c \<and> code c \<le> 57) \<or> (59 \<le> code c \<and> code c \<le> 126)"

definition after_colon :: "string \<Rightarrow> string" where
  "after_colon raw = drop (nat (index_of (CHR '':'') raw + 1)) raw"

definition header_of_block :: "string \<Rightarrow> string + raw_header" where
  "header_of_block raw =
     (let colon = index_of (CHR '':'') raw; name = take (nat colon) raw in
      if colon \<le> 0 \<or> \<not> list_all field_char name then Inl ''header_malformed''
      else Inr \<lparr> hd_name = lower (trim name), hd_raw = raw, hd_unfolded = trim (unfold_header (after_colon raw)) \<rparr>)"

definition parseRawMessage :: "byte list \<Rightarrow> string + raw_header list \<times> byte list" where
  "parseRawMessage rawMessage =
     (if 5242880 < length rawMessage then Inl ''message_limit''
      else if lone_cr (byteString rawMessage) then Inl ''ambiguous_line_endings''
      else (case header_boundary (to_crlf (byteString rawMessage)) of
              None \<Rightarrow> Inl ''header_boundary_missing''
            | Some (headerText, bodyText) \<Rightarrow>
                if 262144 < length headerText then Inl ''header_limit''
                else bindE (traverse header_of_block (header_blocks headerText)) (\<lambda>headers.
                       Inr (headers, byteArray bodyText))))"

definition singletonHeader :: "string \<Rightarrow> bool" where
  "singletonHeader name \<longleftrightarrow>
     name \<in> {''from'', ''sender'', ''to'', ''cc'', ''bcc'', ''reply-to'', ''message-id'', ''subject'', ''date'', ''mime-version'',
       ''in-reply-to'', ''references''} \<or> prefix ''content-'' name"

definition ambiguous_headers :: "raw_header list \<Rightarrow> bool" where
  \<comment> \<open>a header that may occur once occurs twice\<close>
  "ambiguous_headers headers \<longleftrightarrow> \<not> distinct (filter singletonHeader (map hd_name headers))"

section \<open>Tag lists\<close>

type_synonym tags = "(string \<times> string) list"

definition put_tag :: "string \<Rightarrow> string \<Rightarrow> tags \<Rightarrow> tags" where
  \<comment> \<open>\<^verbatim>\<open>Map.set\<close>: a known key keeps its place\<close>
  "put_tag k v ts =
     (if k \<in> fst ` set ts then map (\<lambda>(k', v'). (k', if k' = k then v else v')) ts else ts @ [(k, v)])"

definition add_section :: "tags \<Rightarrow> string \<Rightarrow> tags" where
  "add_section ts section_text =
     (let equals = index_of (CHR ''='') section_text; name = lower (trim (take (nat equals) section_text)) in
      if equals \<le> 0 then ts
      else if name \<in> fst ` set ts then put_tag ''invalid-duplicate-tag'' ''true'' ts
      else put_tag name (trim (drop (nat (equals + 1)) section_text)) ts)"

definition parseTags :: "string \<Rightarrow> tags" where
  "parseTags value = foldl add_section [] (split_on (CHR '';'') value)"

section \<open>Canonicalization\<close>

datatype canon = Simple | Relaxed

definition canon_mode :: "string \<Rightarrow> canon option" where
  "canon_mode value = (if value = ''simple'' then Some Simple else if value = ''relaxed'' then Some Relaxed else None)"

definition canonicalization :: "string option \<Rightarrow> canon option \<times> canon option" where
  \<comment> \<open>of the header and of the body\<close>
  "canonicalization value =
     (let parts = split_on (CHR ''/'') (lower (case value of None \<Rightarrow> ''simple/simple'' | Some v \<Rightarrow> v)) in
      (canon_mode (hd parts), canon_mode (case parts of _ # body # _ \<Rightarrow> body | _ \<Rightarrow> ''simple'')))"

definition canonicalizeBody :: "byte list \<Rightarrow> canon \<Rightarrow> byte list" where
  "canonicalizeBody body mode =
     (let lines = split_crlf (to_crlf (byteString body));
          canonical = (case mode of Relaxed \<Rightarrow> map (\<lambda>line. trim_blanks_end (squeeze_blanks line)) lines | Simple \<Rightarrow> lines);
          kept = rev (dropWhile (\<lambda>line. line = []) (rev canonical)) in
      byteArray (join [CR, LF] kept @ [CR, LF]))"

definition canonicalizeHeader :: "string \<Rightarrow> canon \<Rightarrow> string" where
  \<comment> \<open>without the line break at its end\<close>
  "canonicalizeHeader raw mode =
     (case mode of
        Simple \<Rightarrow> raw
      | Relaxed \<Rightarrow> lower (trim (take (nat (index_of (CHR '':'') raw)) raw)) @ '':'' @
          trim (squeeze_blanks (unfold_header (after_colon raw))))"

function skip_tag_value :: "string \<Rightarrow> string" where
  \<comment> \<open>what follows \<^verbatim>\<open>[^;\r\n]*(?:\r\n[ \t]+[^;\r\n]*)*\<close>\<close>
  "skip_tag_value s =
     (let rest = dropWhile (\<lambda>c. c \<noteq> CHR '';'' \<and> c \<noteq> CR \<and> c \<noteq> LF) s in
      if folded rest then skip_tag_value (dropWhile blank (drop 2 rest)) else rest)"
  by pat_completeness auto
termination
proof (relation "measure length", simp, clarsimp)
  fix s :: string
  let ?r = "dropWhile (\<lambda>c. c \<noteq> CHR '';'' \<and> c \<noteq> CR \<and> c \<noteq> LF) s"
  assume "folded ?r"
  then have "length (drop 2 ?r) < length ?r" by (auto simp: folded_def)
  then show "length (dropWhile blank (drop 2 ?r)) < length s"
    using length_dropWhile_le [of blank "drop 2 ?r"] length_dropWhile_le [of "\<lambda>c. c \<noteq> CHR '';'' \<and> c \<noteq> CR \<and> c \<noteq> LF" s]
    by linarith
qed

declare skip_tag_value.simps [simp del]

fun strip_signature :: "bool \<Rightarrow> string \<Rightarrow> string" where
  \<comment> \<open>\<^verbatim>\<open>replace(/\bb\s*=\s*([^;\r\n]*(?:\r\n[ \t]+[^;\r\n]*)*)/i, "b=")\<close>; the flag says that a word character
      stands before\<close>
  "strip_signature inside [] = []"
| "strip_signature inside (c # cs) =
     (let rest = dropWhile is_ws cs in
      if \<not> inside \<and> lower_char c = CHR ''b'' \<and> rest \<noteq> [] \<and> hd rest = CHR ''=''
      then ''b='' @ skip_tag_value (dropWhile is_ws (tl rest))
      else c # strip_signature (word_char c) cs)"

fun select_signed :: "raw_header list \<Rightarrow> string list \<Rightarrow> (string \<Rightarrow> nat) \<Rightarrow> raw_header list" where
  \<comment> \<open>each name takes the last occurrence that is not consumed yet; one more than there are takes none\<close>
  "select_signed headers [] consumed = []"
| "select_signed headers (name # names) consumed =
     (let matches = filter (\<lambda>h. hd_name h = name) headers; used = consumed name;
          rest = select_signed headers names (consumed(name := Suc used)) in
      if used < length matches then (matches ! (length matches - 1 - used)) # rest else rest)"

definition canonicalizeSignedHeaders :: "raw_header list \<Rightarrow> raw_header \<Rightarrow> string list \<Rightarrow> canon \<Rightarrow> byte list" where
  \<comment> \<open>the source's result is never null\<close>
  "canonicalizeSignedHeaders headers signature signedNames mode =
     byteArray (concat (map (\<lambda>h. canonicalizeHeader (hd_raw h) mode @ [CR, LF]) (select_signed headers signedNames (\<lambda>_. 0))) @
       canonicalizeHeader (strip_signature False (hd_raw signature)) mode)"

section \<open>Comparison and Base64\<close>

unbundle bit_operations_syntax

fun mismatch_from :: "nat \<Rightarrow> string \<Rightarrow> string \<Rightarrow> 32 word \<Rightarrow> 32 word" where
  \<comment> \<open>the rounds of the loop; \<^verbatim>\<open>charCodeAt(index) || 0\<close> past the end\<close>
  "mismatch_from 0 left right mismatch = mismatch"
| "mismatch_from (Suc n) left right mismatch =
     (let unit = (\<lambda>s. case s of [] \<Rightarrow> 0 | c # _ \<Rightarrow> of_nat (code c)) in
      mismatch_from n (tl left) (tl right) (mismatch OR (unit left XOR unit right)))"

definition constantTimeEqual :: "string \<Rightarrow> string \<Rightarrow> bool" where
  "constantTimeEqual left right \<longleftrightarrow>
     mismatch_from (max (length left) (length right)) left right (of_nat (length left) XOR of_nat (length right)) = 0"

definition decodeBase64 :: "string \<Rightarrow> byte list option" where
  "decodeBase64 value = map_option (map char_byte) (atob (filter (\<lambda>c. \<not> is_ws c) value))"

definition encodeBase64 :: "byte list \<Rightarrow> string" where
  "encodeBase64 value = btoa (map byte_char value)"

end
