(* ===== verification/Dkim.thy ===== *)
theory Dkim
  imports Dkim_Text Reply_Repository
begin

text \<open>
  \<^verbatim>\<open>workers/shared/dkim.ts\<close> and \<^verbatim>\<open>request-deadline.ts\<close>: the verification of an operator's message by a DKIM
  signature of the operator's own domain. The resolver answers from the world, where the cache of keys lives
  too; RSA and the address parser of postal-mime are fields of \<^typ>\<open>services\<close>.
\<close>

section \<open>Results\<close>

definition rejected :: "string \<Rightarrow> string \<Rightarrow> operator_authentication" where
  "rejected errorCode verifiedAt =
     \<lparr> au_status = Rejected, au_signingDomain = None, au_selectorHash = None, au_alignedOperatorId = None,
       au_boundedErrorCode = Some errorCode, au_verifiedAt = verifiedAt, au_ordinaryBinding = None,
       au_ordinaryBindingError = None \<rparr>"

definition indeterminate :: "string \<Rightarrow> string \<Rightarrow> string option \<Rightarrow> operator_authentication" where
  "indeterminate errorCode verifiedAt signingDomain =
     \<lparr> au_status = Indeterminate, au_signingDomain = signingDomain, au_selectorHash = None, au_alignedOperatorId = None,
       au_boundedErrorCode = Some errorCode, au_verifiedAt = verifiedAt, au_ordinaryBinding = None,
       au_ordinaryBindingError = None \<rparr>"

section \<open>The key\<close>

fun find_txt :: "jv list \<Rightarrow> jv option" where
  \<comment> \<open>the first TXT answer; an entry without properties makes the search throw\<close>
  "find_txt [] = None"
| "find_txt (e # es) =
     (if e \<in> {JNull, JUndefined} then None
      else if js_get e ''type'' = JInt 16 \<and> js_is_string (js_get e ''data'') then Some e else find_txt es)"

definition numeric :: "services \<Rightarrow> jv \<Rightarrow> int" where
  \<comment> \<open>\<^verbatim>\<open>Number(value) || 0\<close>\<close>
  "numeric sv v =
     (case v of JInt n \<Rightarrow> n | JBool True \<Rightarrow> 1 | JString s \<Rightarrow> (case sv_number sv s of Some n \<Rightarrow> n | None \<Rightarrow> 0) | _ \<Rightarrow> 0)"

function join_chunks :: "string \<Rightarrow> string" where
  \<comment> \<open>\<^verbatim>\<open>replace(/"\s*"/g, "")\<close>\<close>
  "join_chunks [] = []"
| "join_chunks (c # cs) =
     (let rest = dropWhile is_ws cs in
      if c = CHR 0x22 \<and> rest \<noteq> [] \<and> hd rest = CHR 0x22 then join_chunks (tl (dropWhile is_ws cs)) else c # join_chunks cs)"
  by pat_completeness auto
termination
proof (relation "measure length", simp_all)
  show "length (dropWhile is_ws cs) - Suc 0 < Suc (length cs)" for cs
    using length_dropWhile_le [of is_ws cs] by linarith
qed

definition unquote :: "string \<Rightarrow> string" where
  \<comment> \<open>\<^verbatim>\<open>replace(/^"|"$/g, "")\<close>\<close>
  "unquote s =
     (let s' = (if s \<noteq> [] \<and> hd s = CHR 0x22 then tl s else s) in
      if s' \<noteq> [] \<and> last s' = CHR 0x22 then butlast s' else s')"

definition key_of_answer :: "services \<Rightarrow> bool \<Rightarrow> jv option \<Rightarrow> string + byte list \<times> int" where
  \<comment> \<open>the key and its time to live in seconds\<close>
  "key_of_answer sv ok body =
     (case body of
        None \<Rightarrow> Inl ''dns_http_error''
      | Some payload \<Rightarrow>
          let answer = (case js_get payload ''Answer'' of JArray es \<Rightarrow> find_txt es | _ \<Rightarrow> None) in
          if \<not> ok then Inl ''dns_http_error''
          else if js_get payload ''Status'' \<noteq> JInt 0 then Inl ''dns_status_error''
          else (case nonempty (Option.bind answer (\<lambda>e. as_string (js_get e ''data''))) of
                  None \<Rightarrow> Inl ''dns_key_missing''
                | Some txt \<Rightarrow>
                    let ts = parseTags (unquote (join_chunks txt)) in
                    if lower (with_default ''DKIM1'' (map_of ts ''v'')) \<noteq> ''dkim1'' then Inl ''dns_key_version''
                    else if lower (with_default ''rsa'' (map_of ts ''k'')) \<noteq> ''rsa'' then Inl ''dns_key_algorithm''
                    else (case decodeBase64 (with_default [] (map_of ts ''p'')) of
                            None \<Rightarrow> Inl ''dns_key_invalid''
                          | Some spki \<Rightarrow>
                              if length spki < 128 then Inl ''dns_key_invalid''
                              else Inr (spki, max 0 (min 300 (numeric sv (js_get (the answer) ''TTL'')))))))"

definition dkim_name :: "string \<Rightarrow> string \<Rightarrow> string" where
  "dkim_name selector domain = selector @ ''._domainkey.'' @ domain"

definition checkDeadline :: "int \<Rightarrow> unit act" where
  \<comment> \<open>\<^verbatim>\<open>signal.throwIfAborted()\<close>\<close>
  "checkDeadline deadline =
     andThen readClock (\<lambda>now. if deadline \<le> now then throw (Err ''request deadline exceeded'') else ret ())"

definition cached_key :: "string \<Rightarrow> int \<Rightarrow> byte list option act" where
  "cached_key name now w =
     (Inr (case map_of (w_keys w) name of
             None \<Rightarrow> None | Some (expiresAt, spki) \<Rightarrow> if now < expiresAt then Some spki else None), w)"

definition cache_key :: "string \<Rightarrow> int \<Rightarrow> byte list \<Rightarrow> unit act" where
  \<comment> \<open>at most 512 entries\<close>
  "cache_key name expiresAt spki w =
     (Inr (), w\<lparr>w_keys := alist_put name (expiresAt, spki) (if 512 \<le> length (w_keys w) then [] else w_keys w)\<rparr>)"

definition resolveDkimKey :: "services \<Rightarrow> string \<Rightarrow> string \<Rightarrow> int \<Rightarrow> int \<Rightarrow> byte list act" where
  "resolveDkimKey sv selector domain now deadline =
     (let name = dkim_name selector domain in
      followedBy (checkDeadline deadline)
      (andThen (cached_key name now) (\<lambda>cached.
         case cached of
           Some spki \<Rightarrow> ret spki
         | None \<Rightarrow>
             andThen (dnsQuery deadline name) (\<lambda>(ok, body).
             andThen (liftE (key_of_answer sv ok body)) (\<lambda>(spki, ttl).
               followedBy (checkDeadline deadline)
               (followedBy (cache_key name (now + ttl * 1000) spki) (ret spki)))))))"

section \<open>One signature\<close>

definition singleHeaderMailbox :: "services \<Rightarrow> raw_header list \<Rightarrow> string \<Rightarrow> string option" where
  "singleHeaderMailbox sv headers name =
     (case filter (\<lambda>h. hd_name h = name) headers of
        [h] \<Rightarrow> (case sv_addresses sv (hd_unfolded h) of
                  [Some address] \<Rightarrow> if address = [] then None else nonempty (Some (normalizeMailbox address))
                | _ \<Rightarrow> None)
      | _ \<Rightarrow> None)"

definition signed_names :: "tags \<Rightarrow> string list" where
  "signed_names ts =
     (case map_of ts ''h'' of
        None \<Rightarrow> [] | Some v \<Rightarrow> filter (\<lambda>name. name \<noteq> []) (map trim (split_on (CHR '':'') (lower v))))"

definition valid_selector :: "string \<Rightarrow> bool" where
  \<comment> \<open>\<^verbatim>\<open>/^[a-z0-9_-]{1,63}$/\<close>\<close>
  "valid_selector s \<longleftrightarrow> s \<noteq> [] \<and> length s \<le> 63 \<and> list_all (\<lambda>c. is_alnum_lower c \<or> c = CHR ''-'' \<or> c = CHR 0x5F) s"

definition signature_expired :: "services \<Rightarrow> tags \<Rightarrow> int \<Rightarrow> bool" where
  "signature_expired sv ts now \<longleftrightarrow>
     (case map_of ts ''x'' of
        None \<Rightarrow> False | Some v \<Rightarrow> (case sv_number sv v of None \<Rightarrow> True | Some n \<Rightarrow> n * 1000 \<le> now))"

record signed_mail =
  \<comment> \<open>what the signature claims, once the message is found to agree with it\<close>
  sm_domain :: string
  sm_selector :: string
  sm_signature :: "byte list"
  sm_data :: "byte list"

definition body_hash :: "services \<Rightarrow> byte list \<Rightarrow> canon \<Rightarrow> string" where
  "body_hash sv body mode = encodeBase64 (pf_digest (sv_platform sv) (canonicalizeBody body mode))"

definition signature_subject ::
  "services \<Rightarrow> raw_header list \<Rightarrow> byte list \<Rightarrow> raw_header \<Rightarrow> tags \<Rightarrow> string \<Rightarrow> string \<Rightarrow> int \<Rightarrow> string + signed_mail" where
  \<comment> \<open>the checks before the key is looked up\<close>
  "signature_subject sv headers body signature ts operator operatorDomain now =
     (let algorithm = map_option lower (map_of ts ''a''); signingDomain = map_option lower (map_of ts ''d'');
          selector = map_option lower (map_of ts ''s''); signedNames = signed_names ts in
      if map_of ts ''l'' \<noteq> None then Inl ''dkim_partial_body_unsupported''
      else if algorithm \<noteq> Some ''rsa-sha256'' then Inl ''dkim_algorithm_rejected''
      else if \<not> truthy signingDomain \<or> signingDomain \<noteq> Some operatorDomain then Inl ''dkim_domain_unaligned''
      else if \<not> pred_option valid_selector selector \<or> selector = None then Inl ''dkim_selector_invalid''
      else if \<not> list_ex (\<lambda>h. hd_name h = ''from'') headers then Inl ''dkim_from_missing''
      else if ''from'' \<notin> set signedNames then Inl ''dkim_from_unsigned''
      else if singleHeaderMailbox sv headers ''from'' \<noteq> Some operator then Inl ''dkim_from_operator_mismatch''
      else if signature_expired sv ts now then Inl ''dkim_signature_expired''
      else (case (nonempty (map_of ts ''bh''), decodeBase64 (with_default [] (map_of ts ''b''))) of
              (Some bodyHash, Some signatureBytes) \<Rightarrow>
                (case canonicalization (map_of ts ''c'') of
                   (Some headerMode, Some bodyMode) \<Rightarrow>
                     if \<not> constantTimeEqual (body_hash sv body bodyMode) (filter (\<lambda>c. \<not> is_ws c) bodyHash)
                     then Inl ''dkim_body_hash_mismatch''
                     else Inr \<lparr> sm_domain = operatorDomain, sm_selector = the selector, sm_signature = signatureBytes,
                            sm_data = canonicalizeSignedHeaders headers signature signedNames headerMode \<rparr>
                 | _ \<Rightarrow> Inl ''dkim_canonicalization_unsupported'')
            | _ \<Rightarrow> Inl ''dkim_signature_malformed''))"

definition consumed_names :: "raw_header list \<Rightarrow> string list" where
  \<comment> \<open>the headers that the reply is built from\<close>
  "consumed_names headers =
     [''from'', ''to'', ''message-id''] @
     filter (\<lambda>name. name \<in> {''subject'', ''mime-version''} \<or> prefix ''content-'' name) (map hd_name headers)"

definition ordinaryBinding ::
  "services \<Rightarrow> raw_header list \<Rightarrow> string list \<Rightarrow> (string \<times> string) option \<Rightarrow> string + ordinary_binding option" where
  \<comment> \<open>the binding is the recipient and the message id of the envelope\<close>
  "ordinaryBinding sv headers signedNames binding =
     (case binding of
        None \<Rightarrow> Inr None
      | Some (bindingRecipient, bindingMessageId) \<Rightarrow>
          let recipient = singleHeaderMailbox sv headers ''to'';
              messageId = map_option hd_unfolded (find (\<lambda>h. hd_name h = ''message-id'') headers) in
          if list_ex (\<lambda>name. name \<notin> set signedNames) (consumed_names headers) then Inl ''ordinary_consumed_header_unsigned''
          else if recipient = None \<or> recipient \<noteq> Some (normalizeMailbox bindingRecipient)
          then Inl ''ordinary_relay_recipient_mismatch''
          else if messageIdentity messageId = None \<or> messageId \<noteq> Some bindingMessageId
          then Inl ''ordinary_message_identity_mismatch''
          else Inr (Some \<lparr> ob_recipientSha256 = sha sv (the recipient), ob_messageIdSha256 = sha sv (the messageId) \<rparr>))"

definition verified ::
  "services \<Rightarrow> raw_header list \<Rightarrow> string list \<Rightarrow> string \<Rightarrow> signed_mail \<Rightarrow> (string \<times> string) option \<Rightarrow> string \<Rightarrow> operator_authentication" where
  "verified sv headers signedNames operator mail binding verifiedAt =
     (let bound = ordinaryBinding sv headers signedNames binding in
      \<lparr> au_status = Verified, au_signingDomain = Some (sm_domain mail), au_selectorHash = Some (sha sv (sm_selector mail)),
        au_alignedOperatorId = Some (sha sv (''operator'' @ [CHR 0x00] @ operator)), au_boundedErrorCode = None,
        au_verifiedAt = verifiedAt, au_ordinaryBinding = (case bound of Inr b \<Rightarrow> b | Inl _ \<Rightarrow> None),
        au_ordinaryBindingError = (case bound of Inl e \<Rightarrow> Some e | Inr _ \<Rightarrow> None) \<rparr>)"

definition verifySignature ::
  "services \<Rightarrow> raw_header list \<Rightarrow> byte list \<Rightarrow> raw_header \<times> tags \<Rightarrow> string \<Rightarrow> string \<Rightarrow> (string \<times> string) option \<Rightarrow>
     string \<Rightarrow> int \<Rightarrow> operator_authentication act" where
  "verifySignature sv headers body signature operator operatorDomain binding verifiedAt deadline =
     andThen readClock (\<lambda>now.
       case signature_subject sv headers body (fst signature) (snd signature) operator operatorDomain now of
         Inl errorCode \<Rightarrow> ret (rejected errorCode verifiedAt)
       | Inr mail \<Rightarrow>
           andThen (tryCatch (andThen (resolveDkimKey sv (sm_selector mail) (sm_domain mail) now deadline) (\<lambda>spki. ret (Some spki)))
                      (\<lambda>_. ret None)) (\<lambda>key.
             ret (case key of
                    None \<Rightarrow> indeterminate ''dkim_key_unavailable'' verifiedAt (Some (sm_domain mail))
                  | Some spki \<Rightarrow>
                      (case sv_rsa_bits sv spki of
                         None \<Rightarrow> rejected ''dkim_key_invalid'' verifiedAt
                       | Some bits \<Rightarrow>
                           if bits < 2048 then rejected ''dkim_key_weak'' verifiedAt
                           else if \<not> sv_rsa_verify sv spki (sm_signature mail) (sm_data mail)
                           then rejected ''dkim_signature_invalid'' verifiedAt
                           else verified sv headers (signed_names (snd signature)) operator mail binding verifiedAt))))"

section \<open>The message\<close>

fun verify_each ::
  "(raw_header \<times> tags \<Rightarrow> operator_authentication act) \<Rightarrow> bool \<Rightarrow> int \<Rightarrow> string \<Rightarrow> (raw_header \<times> tags) list \<Rightarrow>
     operator_authentication option \<Rightarrow> bool \<Rightarrow> operator_authentication option \<Rightarrow> operator_authentication act" where
  \<comment> \<open>the loop, with \<^verbatim>\<open>verifiedWithoutBinding\<close>, \<^verbatim>\<open>sawIndeterminate\<close> and \<^verbatim>\<open>lastRejection\<close>\<close>
  "verify_each verify bound deadline verifiedAt [] unbound saw lastRejection =
     ret (case unbound of
            Some r \<Rightarrow> r
          | None \<Rightarrow> if saw then indeterminate ''dkim_key_unavailable'' verifiedAt None
                    else (case lastRejection of Some r \<Rightarrow> r | None \<Rightarrow> rejected ''dkim_verification_failed'' verifiedAt))"
| "verify_each verify bound deadline verifiedAt (signature # rest) unbound saw lastRejection =
     followedBy (checkDeadline deadline)
     (andThen (verify signature) (\<lambda>result.
      followedBy (checkDeadline deadline)
        (if au_status result = Verified \<and> (\<not> bound \<or> au_ordinaryBinding result \<noteq> None) then ret result
         else verify_each verify bound deadline verifiedAt rest
           (if au_status result = Verified then Some result else unbound)
           (saw \<or> au_status result = Indeterminate)
           (if au_status result = Rejected then Some result else lastRejection))))"

definition dkim_signatures :: "raw_header list \<Rightarrow> (raw_header \<times> tags) list" where
  "dkim_signatures headers = map (\<lambda>h. (h, parseTags (hd_unfolded h))) (filter (\<lambda>h. hd_name h = ''dkim-signature'') headers)"

definition checked_message :: "byte list \<Rightarrow> string + (raw_header list \<times> byte list \<times> (raw_header \<times> tags) list)" where
  \<comment> \<open>the message with its signatures, or why it is rejected\<close>
  "checked_message rawMessage =
     (case parseRawMessage rawMessage of
        Inl _ \<Rightarrow> Inl ''malformed_message''
      | Inr (headers, body) \<Rightarrow>
          let signatures = dkim_signatures headers in
          if ambiguous_headers headers then Inl ''ambiguous_singleton_headers''
          else if 8 < length signatures then Inl ''dkim_signature_limit''
          else if list_ex (\<lambda>s. map_of (snd s) ''invalid-duplicate-tag'' \<noteq> None) signatures then Inl ''dkim_duplicate_tag''
          else if signatures = [] then Inl ''dkim_missing''
          else Inr (headers, body, signatures))"

definition mailbox_domain :: "string \<Rightarrow> string" where
  \<comment> \<open>\<^verbatim>\<open>mailbox.split("@")[1]\<close>\<close>
  "mailbox_domain m = (case split_on (CHR ''@'') m of _ # second # _ \<Rightarrow> second | _ \<Rightarrow> [])"

definition DKIM_VERIFICATION_TIMEOUT_MS :: int where
  "DKIM_VERIFICATION_TIMEOUT_MS = 5000"

definition verifyOperatorDkim ::
  "services \<Rightarrow> byte list \<Rightarrow> string \<Rightarrow> (string \<times> string) option \<Rightarrow> operator_authentication act" where
  "verifyOperatorDkim sv rawMessage operator binding =
     andThen readClock (\<lambda>started.
       let verifiedAt = pf_to_iso (sv_platform sv) started; mailbox = normalizeMailbox operator;
           operatorDomain = mailbox_domain mailbox; deadline = started + DKIM_VERIFICATION_TIMEOUT_MS in
       if operatorDomain = [] then ret (rejected ''invalid_operator'' verifiedAt)
       else (case checked_message rawMessage of
               Inl errorCode \<Rightarrow> ret (rejected errorCode verifiedAt)
             | Inr (headers, body, signatures) \<Rightarrow>
                 tryCatch
                   (verify_each (\<lambda>s. verifySignature sv headers body s mailbox operatorDomain binding verifiedAt deadline)
                      (binding \<noteq> None) deadline verifiedAt signatures None False None)
                   (\<lambda>e. if e = Err ''request deadline exceeded'' then ret (indeterminate ''dkim_key_unavailable'' verifiedAt None)
                        else throw e)))"

end
