(* ===== verification/Operator_Reply.thy ===== *)
theory Operator_Reply
  imports Inbound Dkim Reply_Dispatch
begin

text \<open>
  \<^verbatim>\<open>workers/mail-router/src/operator-reply.ts\<close>: an operator's answer to a relay address. The message is opened,
  authenticated, matched with an earlier claim, authorized by the active policy, and claimed; only a durable
  claim is dispatched to the queue. Verdicts are as in \<open>Inbound\<close>.
\<close>

section \<open>Opening the message\<close>

definition reply_too_large :: string where
  "reply_too_large = ''maildesk replies may not exceed 5 MiB including attachments''"

record opened_reply =
  op_raw :: "byte list"
  op_parsed :: relay_email
  op_sender :: string                               \<comment> \<open>\<^verbatim>\<open>operator\<close>\<close>
  op_messageId :: string

definition open_reply :: "services \<Rightarrow> inbound_mail \<Rightarrow> string + opened_reply" where
  "open_reply sv message =
     (let config = operatorDeliveryConfig (sv_env sv) in
      if odc_mode config \<noteq> Inbox_Relay \<or> odc_replyProcessingMode config \<noteq> Processing_Enabled \<or>
         \<not> truthy (odc_replyDomain config)
      then Inl ''maildesk reply relay is disabled''
      else if \<not> env_RELAY_SPOOL (sv_env sv) \<or> \<not> env_POLICY_STORE (sv_env sv)
      then Inl ''maildesk reply relay storage is not configured''
      else if odc_maxEncodedMessageBytes config < ml_rawSize message then Inl reply_too_large
      else (case parse_inbound sv message of
              None \<Rightarrow> Inl ''maildesk could not safely parse this reply''
            | Some (raw, parsed) \<Rightarrow>
                let operator = normalizeMailbox (mb_address (pe_from parsed)) in
                if operator = [] \<or> normalizeMailbox (ml_from message) \<noteq> operator
                then Inl ''maildesk reply sender identity does not match the authenticated envelope''
                else (case nonempty (pe_messageId parsed) of
                        None \<Rightarrow> Inl ''maildesk replies require a valid Message-ID''
                      | Some messageId \<Rightarrow>
                          Inr \<lparr> op_raw = raw, op_parsed = parsed, op_sender = operator, op_messageId = messageId \<rparr>)))"

section \<open>An earlier claim\<close>

fun dispatch_name :: "dispatch_state \<Rightarrow> string" where
  "dispatch_name Dispatch_Queued = ''queued''"
| "dispatch_name Dispatch_Unconfirmed = ''dispatch_unconfirmed''"
| "dispatch_name Reconciliation_Required = ''reconciliation_required''"
| "dispatch_name Dispatch_Blocked = ''blocked''"

definition redispatch :: "services \<Rightarrow> relay_view \<Rightarrow> string \<Rightarrow> string \<Rightarrow> verdict act" where
  \<comment> \<open>of an exact redelivery\<close>
  "redispatch sv relay operator i =
     andThen (recoverKnownUnsentDispatch sv i) (\<lambda>(state, reason).
     followedBy (recordAudit sv (i @ '':exact_reply_redelivery:'' @ dispatch_name state) (Some (rr_thread_id (rv_relay relay)))
        (''operator:'' @ sha sv operator) ''exact_reply_redelivery''
        (JObject [(''attemptId'', JString i), (''dispatchState'', JString (dispatch_name state)),
                  (''reason'', JString reason), (''providerReplay'', JBool False)]))
       (if state = Dispatch_Unconfirmed then reject ''maildesk reply dispatch remains unconfirmed'' else accept))"

fun earlier_claim :: "services \<Rightarrow> opened_reply \<Rightarrow> relay_view \<Rightarrow> string list \<Rightarrow> verdict option act" where
  \<comment> \<open>the loop over the identities; \<^const>\<open>None\<close> when the message is new\<close>
  "earlier_claim sv opened relay [] = ret None"
| "earlier_claim sv opened relay (i # rest) =
     andThen (loadRelayAttempt i) (\<lambda>stored.
       if stored = None then earlier_claim sv opened relay rest
       else andThen (loadStoredReplyClaim i) (\<lambda>existing.
         andThen
           (if (case existing of
                  None \<Rightarrow> False
                | Some claim \<Rightarrow> isExactReplyRedelivery claim (rr_id (rv_relay relay)) (op_sender opened) (op_messageId opened)
                    (sha256Hex_bytes (sv_platform sv) (op_raw opened)))
            then redispatch sv relay (op_sender opened) i
            else reject ''maildesk reply conflicts with an existing attempt'') (\<lambda>v. ret (Some v))))"

section \<open>Authorization\<close>

record authorized_reply =
  ay_relay :: relay_row                             \<comment> \<open>with the identity of this reply\<close>
  ay_profile :: identity_profile
  ay_route :: route_decision                        \<comment> \<open>\<^verbatim>\<open>projected\<close>\<close>
  ay_policySha256 :: string

definition authorize_operator :: "services \<Rightarrow> active_policy_value \<Rightarrow> relay_view \<Rightarrow> string \<Rightarrow> string + authorized_reply" where
  "authorize_operator sv active relay operator =
     (case authorizeReplyWithPolicy (sv_core sv) (ap_policy active) (rv_route_address relay) operator None of
        Inl e \<Rightarrow> Inl (if re_kind e = ''ambiguous_identity_profile''
                      then ''maildesk public reply identity profile is ambiguous''
                      else ''maildesk operator is not authorized for this reply identity'')
      | Inr a \<Rightarrow>
          let current = Option.bind (projected_route active (rv_route_address relay)) (\<lambda>r.
                Option.bind (de_operatorReplyIdentities r) (\<lambda>m. map_option oi_publicAddress (map_of m operator))) in
          if ra_fromIdentity a \<noteq> rr_reply_identity (rv_relay relay) \<and> Some (ra_fromIdentity a) \<noteq> current
          then Inl ''maildesk operator is not authorized for this reply identity''
          else (case ra_identityProfile a of
                  None \<Rightarrow> Inl ''maildesk public reply identity profile is unavailable''
                | Some profile \<Rightarrow>
                    (case routeInbound (sv_core sv) (ap_policy active)
                            \<lparr> im_envelopeTo = rv_route_address relay, im_headerFrom = operator, im_messageId = None,
                              im_subject = None \<rparr> of
                       Inl _ \<Rightarrow> Inl ''maildesk route policy is unavailable for this reply''
                     | Inr decision \<Rightarrow>
                         (case find (\<lambda>r. de_domain (fst r) = de_domain decision \<and> de_localPart (fst r) = de_localPart decision)
                                 (pp_routes (ap_projection active)) of
                            None \<Rightarrow> Inl ''maildesk route projection is unavailable''
                          | Some r \<Rightarrow>
                              Inr \<lparr> ay_relay = (rv_relay relay)\<lparr>rr_reply_identity := ra_fromIdentity a\<rparr>,
                                ay_profile = profile, ay_route = fst r, ay_policySha256 = ap_sha256 active \<rparr>))))"

definition current_relay :: "services \<Rightarrow> string \<Rightarrow> (string + relay_view) act" where
  \<comment> \<open>neither contained, expired nor revoked, and with one external target\<close>
  "current_relay sv tokenHash =
     andThen (loadRelayContainmentBlocker tokenHash) (\<lambda>blocker.
       if truthy blocker then ret (Inl ''maildesk reply route is quarantined or terminal'')
       else andThen (loadActiveRelay sv tokenHash) (\<lambda>loaded.
         ret (case loaded of
                None \<Rightarrow> Inl ''maildesk reply route is unknown, expired, or revoked''
              | Some relay \<Rightarrow>
                  (case resolveReplyTarget (sv_core sv)
                          [rr_external_recipient (rv_relay relay), rv_thread_external_sender relay] of
                     Inl e \<Rightarrow> Inl (if re_kind e = ''recipient_ambiguous''
                                   then ''maildesk stored thread has multiple external reply targets''
                                   else ''maildesk stored thread has no external reply target'')
                   | Inr _ \<Rightarrow> Inr relay))))"

definition authorized_now :: "services \<Rightarrow> relay_view \<Rightarrow> string \<Rightarrow> (string + authorized_reply) act" where
  "authorized_now sv relay operator =
     andThen (loadActivePolicy sv) (\<lambda>loaded.
       ret (case loaded of
              None \<Rightarrow> Inl ''maildesk policy unavailable''
            | Some active \<Rightarrow> authorize_operator sv active relay operator))"

section \<open>Admission and content\<close>

definition profile_digest :: "services \<Rightarrow> authorized_reply \<Rightarrow> string" where
  "profile_digest sv au = publicIdentityProfileSha256 (sv_platform sv) (ay_profile au)"

definition operator_set_digest :: "services \<Rightarrow> authorized_reply \<Rightarrow> string" where
  "operator_set_digest sv au = sha sv (json_stringify (jstrings (de_operators (ay_route au))))"

definition reply_admission ::
  "services \<Rightarrow> opened_reply \<Rightarrow> operator_authentication \<Rightarrow> authorized_reply \<Rightarrow>
     (string + admission_row option \<times> activation_row option) act" where
  \<comment> \<open>a canary admission, or an ordinary authorization with a signed binding\<close>
  "reply_admission sv opened authentication au =
     (let relay = ay_relay au; policy = ay_policySha256 au in
      andThen (loadActiveReplyAdmission sv (rr_id relay) (sha sv (op_sender opened)) (operator_set_digest sv au)
                 (profile_digest sv au) (rr_reply_identity relay) policy) (\<lambda>admission.
      andThen (if admission \<noteq> None then ret None
               else loadOrdinaryRouteAuthorization sv (rr_route_id relay) policy (profile_digest sv au) (operator_set_digest sv au)) (\<lambda>activation.
        ret (if admission = None \<and> activation = None
             then Inl ''maildesk reply requires a current canary admission or explicit ordinary route authorization''
             else if activation \<noteq> None \<and> au_ordinaryBinding authentication = None
             then Inl ''maildesk ordinary reply requires signed recipient, Message-ID and MIME headers''
             else Inr (admission, activation)))))"

definition reply_content :: "services \<Rightarrow> opened_reply \<Rightarrow> authorized_reply \<Rightarrow> string + mail_payload" where
  "reply_content sv opened au =
     (case outboundReplyPayload (op_parsed opened) (Some (ay_profile au)) V2 of
        Inl _ \<Rightarrow> Inl ''maildesk reply content cannot be normalized for public delivery''
      | Inr payload \<Rightarrow>
          if assertWithinRelayLimit payload (operatorDeliveryConfig (sv_env sv)) \<noteq> Inr () then Inl reply_too_large
          else Inr payload)"

section \<open>The claim\<close>

definition reply_attempt_sha :: "services \<Rightarrow> opened_reply \<Rightarrow> admission_row option \<Rightarrow> string \<Rightarrow> string" where
  "reply_attempt_sha sv opened admission payloadSha256 =
     sha sv (join [CHR 0x00] [''maildesk-reply-attempt-v2'',
       (case admission of None \<Rightarrow> ''ordinary'' | Some a \<Rightarrow> ad_transaction_sha256 a), sha sv (op_messageId opened),
       sha256Hex_bytes (sv_platform sv) (op_raw opened), payloadSha256])"

definition claim_reply ::
  "services \<Rightarrow> opened_reply \<Rightarrow> operator_authentication \<Rightarrow> authorized_reply \<Rightarrow> admission_row option \<times> activation_row option \<Rightarrow>
     string \<Rightarrow> string \<Rightarrow> string \<Rightarrow> string \<Rightarrow> unit act" where
  \<comment> \<open>for an attempt id, a spool key, the digest of the payload and the time of receipt\<close>
  "claim_reply sv opened authentication au variant attemptId rawKey payloadSha256 receivedAt =
     (let raw = sha256Hex_bytes (sv_platform sv) (op_raw opened) in
      case variant of
        (Some admission, _) \<Rightarrow>
          andThen (claimRelayAttemptAndAdmission sv
            \<lparr> cc_attemptId = attemptId, cc_relay = ay_relay au, cc_operator = op_sender opened,
              cc_operatorMessageId = op_messageId opened, cc_rawR2Key = rawKey, cc_rawSha256 = raw,
              cc_claimedPayloadSha256 = payloadSha256,
              cc_attemptSha256 = reply_attempt_sha sv opened (Some admission) payloadSha256,
              cc_admission = admission, cc_expectedRoute = ay_route au, cc_receivedAt = receivedAt \<rparr>) (\<lambda>_. ret ())
      | (None, Some activation) \<Rightarrow>
          claimOrdinaryReply sv
            \<lparr> oc_activation = activation, oc_relay = ay_relay au, oc_profile = ay_profile au,
              oc_authentication = authentication, oc_operator = op_sender opened,
              oc_operatorRef = sha sv (op_sender opened), oc_attemptId = attemptId, oc_messageId = op_messageId opened,
              oc_rawSha256 = raw, oc_rawR2Key = rawKey, oc_payloadSha256 = payloadSha256, oc_receivedAt = receivedAt,
              oc_expectedRoute = ay_route au \<rparr>
      | (None, None) \<Rightarrow> throw (Err ''reply authorization variant missing''))"

definition dispatch_durable ::
  "services \<Rightarrow> opened_reply \<Rightarrow> operator_authentication \<Rightarrow> authorized_reply \<Rightarrow> string \<Rightarrow> verdict act" where
  "dispatch_durable sv opened authentication au attemptId =
     andThen (recoverKnownUnsentDispatch sv attemptId) (\<lambda>(state, _).
       if state \<noteq> Dispatch_Queued then reject ''maildesk reply is retained for dispatch recovery''
       else followedBy
         (recordAudit sv (attemptId @ '':inbox_reply_received'') (Some (rr_thread_id (ay_relay au)))
            (''operator:'' @ sha sv (op_sender opened)) ''inbox_reply_received''
            (JObject [(''attemptId'', JString attemptId), (''relayId'', JString (rr_id (ay_relay au))),
               (''authentication'', JObject [(''status'', JString ''verified''), (''method'', JString ''dkim''),
                  (''signingDomain'', jundef (au_signingDomain authentication)),
                  (''selectorHash'', jundef (au_selectorHash authentication)),
                  (''alignedOperatorId'', jundef (au_alignedOperatorId authentication)),
                  (''verifiedAt'', JString (au_verifiedAt authentication))])]))
         accept)"

definition settle_claim ::
  "services \<Rightarrow> opened_reply \<Rightarrow> operator_authentication \<Rightarrow> authorized_reply \<Rightarrow> string \<Rightarrow> string \<Rightarrow> bool \<Rightarrow> verdict act" where
  \<comment> \<open>what is durable decides; an unknown outcome keeps the spooled message\<close>
  "settle_claim sv opened authentication au attemptId rawKey certain =
     andThen (caught (loadStoredReplyClaim attemptId)) (\<lambda>read.
       case read of
         None \<Rightarrow> reject ''maildesk reply claim requires reconciliation''
       | Some durable \<Rightarrow>
           if (case durable of
                 None \<Rightarrow> False
               | Some claim \<Rightarrow> isExactReplyRedelivery claim (rr_id (ay_relay au)) (op_sender opened) (op_messageId opened)
                   (sha256Hex_bytes (sv_platform sv) (op_raw opened)))
           then followedBy
             (unless (map_option (\<lambda>c. ra_raw_r2_key (sc_attempt c)) durable = Some (Some rawKey)) (ignoreError (spoolDelete rawKey)))
             (dispatch_durable sv opened authentication au attemptId)
           else followedBy (unless (\<not> certain) (ignoreError (spoolDelete rawKey)))
             (reject ''maildesk could not durably claim this reply''))"

definition submit_reply ::
  "services \<Rightarrow> opened_reply \<Rightarrow> operator_authentication \<Rightarrow> authorized_reply \<Rightarrow> admission_row option \<times> activation_row option \<Rightarrow>
     mail_payload \<Rightarrow> string \<Rightarrow> verdict act" where
  \<comment> \<open>the spooled message, the claim, and what became of it\<close>
  "submit_reply sv opened authentication au variant payload attemptId =
     andThen (nowIso sv) (\<lambda>receivedAt.
     andThen (randomUUID sv) (\<lambda>nonce.
       let rawKey = replyAttemptStagingKey attemptId receivedAt nonce;
           payloadSha256 = outboundRelayPayloadSha256 (sv_platform sv)
             (payload\<lparr>mp_headers := relayConversationHeaders (ay_relay au)\<rparr>) in
       andThen (caught (spoolPut rawKey (op_raw opened))) (\<lambda>stored.
         if stored = None then reject ''maildesk could not durably spool this reply''
         else andThen (caught (claim_reply sv opened authentication au variant attemptId rawKey payloadSha256 receivedAt)) (\<lambda>claimed.
           settle_claim sv opened authentication au attemptId rawKey (claimed \<noteq> None)))))"

section \<open>The handler\<close>

definition new_reply ::
  "services \<Rightarrow> opened_reply \<Rightarrow> operator_authentication \<Rightarrow> string \<Rightarrow> string \<Rightarrow> verdict act" where
  \<comment> \<open>a reply that no attempt is known of\<close>
  "new_reply sv opened authentication tokenHash attemptId =
     andThen (current_relay sv tokenHash) (\<lambda>relay.
       case relay of
         Inl reason \<Rightarrow> reject reason
       | Inr view \<Rightarrow>
           andThen (authorized_now sv view (op_sender opened)) (\<lambda>authorization.
             case authorization of
               Inl reason \<Rightarrow> reject reason
             | Inr au \<Rightarrow>
                 andThen (reply_admission sv opened authentication au) (\<lambda>admitted.
                   case admitted of
                     Inl reason \<Rightarrow> reject reason
                   | Inr variant \<Rightarrow>
                       (case reply_content sv opened au of
                          Inl reason \<Rightarrow> reject reason
                        | Inr payload \<Rightarrow> submit_reply sv opened authentication au variant payload attemptId))))"

definition authenticated_reply :: "services \<Rightarrow> opened_reply \<Rightarrow> operator_authentication \<Rightarrow> string \<Rightarrow> verdict act" where
  "authenticated_reply sv opened authentication token =
     (let tokenHash = sha sv token in
      andThen (loadRelayForReconciliation tokenHash) (\<lambda>historical.
        case historical of
          None \<Rightarrow> reject ''maildesk reply route is unknown''
        | Some relay \<Rightarrow>
            followedBy (addAffected (rr_route_id (rv_relay relay)))
            (andThen (liftE (replyAttemptIdentities (sv_platform sv) (rr_id (rv_relay relay)) (op_messageId opened))) (\<lambda>(current, legacy).
             andThen (earlier_claim sv opened relay [legacy, current]) (\<lambda>earlier.
               case earlier of
                 Some v \<Rightarrow> ret v
               | None \<Rightarrow> new_reply sv opened authentication tokenHash current)))))"

definition acceptOperatorReply :: "services \<Rightarrow> inbound_mail \<Rightarrow> string \<Rightarrow> verdict act" where
  "acceptOperatorReply sv message token =
     (case open_reply sv message of
        Inl reason \<Rightarrow> reject reason
      | Inr opened \<Rightarrow>
          andThen (verifyOperatorDkim sv (op_raw opened) (op_sender opened) (Some (ml_to message, op_messageId opened))) (\<lambda>authentication.
            if au_status authentication \<noteq> Verified
            then reject ''maildesk reply sender did not pass aligned email authentication''
            else authenticated_reply sv opened authentication token))"

end
