(* ===== verification/Mail_Router.thy ===== *)
theory Mail_Router
  imports Operator_Reply
begin

text \<open>
  \<^verbatim>\<open>acceptEmail\<close> of \<^verbatim>\<open>workers/mail-router/src/inbound.ts\<close> and the \<^verbatim>\<open>email\<close> handler of \<^verbatim>\<open>index.ts\<close>: the choice between a
  reply and incoming mail, the switches of both, and the refresh of the routes the message touched.
\<close>

definition reply_token :: "services \<Rightarrow> inbound_mail \<Rightarrow> string option" where
  "reply_token sv message =
     (let config = operatorDeliveryConfig (sv_env sv) in
      if truthy (odc_replyDomain config)
      then nonempty (relayTokenFromRecipient (ml_to message) (the (odc_replyDomain config))) else None)"

definition selected_mode :: "services \<Rightarrow> inbound_mail \<Rightarrow> processing_mode" where
  "selected_mode sv message =
     (let config = operatorDeliveryConfig (sv_env sv) in
      if reply_token sv message \<noteq> None then odc_replyProcessingMode config else odc_inboundProcessingMode config)"

definition acceptEmail :: "services \<Rightarrow> inbound_mail \<Rightarrow> verdict act" where
  "acceptEmail sv message =
     (let mode = odc_mode (operatorDeliveryConfig (sv_env sv)); selected = selected_mode sv message in
      if mode = Delivery_Invalid then reject ''maildesk operator delivery mode is invalid''
      else if mode = Inbox_Relay \<and> selected \<noteq> Processing_Enabled
      then reject (if selected = Processing_Invalid then ''maildesk relay processing mode is invalid''
                   else if reply_token sv message \<noteq> None then ''maildesk reply relay is disabled''
                   else ''maildesk inbound relay is disabled'')
      else (case reply_token sv message of
              Some token \<Rightarrow> acceptOperatorReply sv message token
            | None \<Rightarrow>
                andThen (routeMessage sv message) (\<lambda>routed.
                  case routed of
                    Inl reason \<Rightarrow> reject reason
                  | Inr bound \<Rightarrow>
                      followedBy (addAffected (stableId ''route'' [de_domain (fst bound), de_localPart (fst bound)]))
                        (accept_routed sv message bound))))"

definition refresh_affected :: "services \<Rightarrow> unit act" where
  "refresh_affected sv w =
     andThen readClock (\<lambda>now. andThen (refreshRouteStatuses sv now (Some (w_affected w)) None) (\<lambda>_. ret ())) w"

definition email :: "services \<Rightarrow> inbound_mail \<Rightarrow> verdict act" where
  "email sv message w =
     tryFinally (acceptEmail sv message)
       (unless (odc_mode (operatorDeliveryConfig (sv_env sv)) \<noteq> Inbox_Relay \<or> selected_mode sv message \<noteq> Processing_Enabled)
          (ignoreError (refresh_affected sv)))
       (w\<lparr>w_affected := []\<rparr>)"

end
