(* ===== verification/Router_Run.thy ===== *)
theory Router_Run
  imports Inbound_Safety Mail_Router Claims_Linked
begin

text \<open>
  Whole runs of the \<^verbatim>\<open>email\<close> handler. The locale \<open>router_run\<close> adds the lookup of a key and the two claim statements
  to the steps of \<open>Inbound_Run\<close>, with one rule per function of \<open>Dkim\<close>, \<open>Operator_Reply\<close> and \<open>Mail_Router\<close>. It is
  interpreted for the payment of copies, for the links between attempts and admissions, and, without any provider
  call, for replies.
\<close>

section \<open>The rules\<close>

locale router_run = inbound_run R step ok for R step ok +
  assumes lookups: "R w (w\<lparr>w_lookups := ls, w_dns := ds\<rparr>)"
    and keys: "R w (w\<lparr>w_keys := ks\<rparr>)"
    and canary_claims: "insert_admitted_attempt sv c t d = Inr (n, d') \<Longrightarrow> step d d'"
    and ordinary_claims: "insert_ordinary_admission sv o' (ordinary_admission sv o' b e) t d = Inr (n, d') \<Longrightarrow> step d d'"
begin

lemma checkDeadline: "preserves R (checkDeadline deadline)"
  by (auto simp: checkDeadline_def intro!: run_rules)

lemma dnsQuery: "preserves R (dnsQuery deadline name)"
  unfolding dnsQuery_def by (rule call) (auto simp: Let_def lookups split: list.splits dns_reply.splits)

lemma resolveDkimKey: "preserves R (resolveDkimKey sv a b c e)"
proof -
  have "preserves R (cached_key a b)" "preserves R (cache_key a b c)" for a b c
    by (simp_all add: preserves_def cached_key_def cache_key_def reflexive keys)
  then show ?thesis
    by (auto simp: resolveDkimKey_def Let_def split: option.split prod.split
        intro!: run_rules checkDeadline dnsQuery)
qed

lemma verifySignature: "preserves R (verifySignature sv a b c e f g h i)"
  by (auto simp: verifySignature_def split: sum.split intro!: run_rules resolveDkimKey)

lemma verify_each:
  "(\<And>s. preserves R (verify s)) \<Longrightarrow> preserves R (verify_each verify b deadline t ss u saw r)"
  by (induction ss arbitrary: u saw r) (auto intro!: run_rules checkDeadline if_split)

lemma verifyOperatorDkim: "preserves R (verifyOperatorDkim sv raw operator binding)"
  by (auto simp: verifyOperatorDkim_def Let_def split: sum.split prod.split
      intro!: run_rules if_split verify_each verifySignature)

lemma recoverKnownUnsentDispatch: "preserves R (recoverKnownUnsentDispatch sv i)"
proof -
  have "preserves R (d1 (update_attempts (\<lambda>r. ra_id r = i \<and> ra_status r = ''receiving'') (\<lambda>r. r\<lparr>ra_status := ''queued''\<rparr>)))" for i
    by (rule d1) (erule attempts, auto simp: attempt_identity_def)
  then show ?thesis
    by (auto simp: recoverKnownUnsentDispatch_def dispatch_claim_def submit_dispatch_def claim_activation_current_def
        loadStoredReplyClaim_def Let_def split: option.split
        intro!: handler_rules loadActivePolicy loadOrdinaryRouteAuthorization)
qed

lemma earlier_claim: "preserves R (earlier_claim sv opened relay ids)"
proof -
  have "preserves R (redispatch sv relay operator i)" for operator i
    by (auto simp: redispatch_def split: prod.split intro!: handler_rules recoverKnownUnsentDispatch)
  then show ?thesis
    by (induction ids) (auto simp: loadRelayAttempt_def loadStoredReplyClaim_def intro!: handler_rules)
qed

lemma claim_reply: "preserves R (claim_reply sv opened authentication au variant i k p t)"
proof -
  have c: "preserves R (d1 (insert_admitted_attempt sv c))" for c by (rule d1) (erule canary_claims)
  have o': "preserves R (d1 (insert_ordinary_admission sv c (ordinary_admission sv c b e)))" for c b e
    by (rule d1) (erule ordinary_claims)
  show ?thesis
    by (auto simp: claim_reply_def claimRelayAttemptAndAdmission_def claimOrdinaryReply_def Let_def
        split: prod.split option.split authentication_status.split intro!: handler_rules c o')
qed

lemma settle_claim: "preserves R (settle_claim sv opened authentication au i k certain)"
  by (auto simp: settle_claim_def dispatch_durable_def loadStoredReplyClaim_def split: option.split prod.split
      intro!: handler_rules recoverKnownUnsentDispatch)

lemma submit_reply: "preserves R (submit_reply sv opened authentication au variant payload i)"
  by (auto simp: submit_reply_def Let_def intro!: handler_rules claim_reply settle_claim)

lemma new_reply: "preserves R (new_reply sv opened authentication tokenHash i)"
  by (auto simp: new_reply_def current_relay_def loadRelayContainmentBlocker_def loadActiveRelay_def authorized_now_def
      reply_admission_def loadActiveReplyAdmission_def Let_def split: sum.split option.split
      intro!: handler_rules loadActivePolicy loadOrdinaryRouteAuthorization submit_reply)

lemma acceptOperatorReply: "preserves R (acceptOperatorReply sv message token)"
  by (auto simp: acceptOperatorReply_def authenticated_reply_def loadRelayForReconciliation_def Let_def
      simp del: earlier_claim.simps split: sum.split option.split prod.split
      intro!: handler_rules addAffected verifyOperatorDkim earlier_claim new_reply)

lemma acceptEmail:
  assumes "\<And>d. ok (email_of_delivery d)"
  shows "preserves R (acceptEmail sv message)"
  by (auto simp: acceptEmail_def Let_def assms split: sum.split option.split
      intro!: handler_rules addAffected routeMessage acceptOperatorReply accept_routed)

lemma email:
  assumes "\<And>d. ok (email_of_delivery d)"
  shows "preserves R (email sv message)"
proof (rule preservesI)
  fix w
  have r: "preserves R (andThen readClock (\<lambda>now. andThen (refreshRouteStatuses sv now ids after) (\<lambda>_. ret ())))" for ids after
    by (intro run_rules refreshRouteStatuses)
  have "preserves R (refresh_affected sv)"
    unfolding preserves_def refresh_affected_def using preservesD [OF r] by blast
  then have run: "preserves R (tryFinally (acceptEmail sv message)
     (unless (odc_mode (operatorDeliveryConfig (sv_env sv)) \<noteq> Inbox_Relay \<or> selected_mode sv message \<noteq> Processing_Enabled)
          (ignoreError (refresh_affected sv))))"
    by (intro tryFinally unless ignoreError acceptEmail assms)
  show "R w (snd (email sv message w))"
    unfolding email_def
    by (rule transitive [where v = "w\<lparr>w_affected := []\<rparr>"]) (rule affected, rule preservesD [OF run])
qed

end

section \<open>The interpretations\<close>

interpretation paid: router_run "under paid" "\<lambda>d d'. \<forall>n. paid (d, n) (d', n)" "\<lambda>_. True"
proof
  show "insert_admitted_attempt sv c t d = Inr (n, d') \<Longrightarrow> \<forall>n. paid (d, n) (d', n)" for sv c t d n d'
    by (auto elim!: insert_admitted_cases simp: update_admissions_Inr intro: paid_rows)
  show "insert_ordinary_admission sv o' (ordinary_admission sv o' b e) t d = Inr (n, d') \<Longrightarrow> \<forall>n. paid (d, n) (d', n)"
    for sv o' b e t d n d'
    by (auto simp: insert_ordinary_admission_def Let_def split: option.splits if_splits intro: paid_rows)
qed (auto simp: under_def seen_def paid_def)

theorem email_paid: "preserves (under paid) (email sv message)"
  by (rule paid.email) simp

text \<open>The links between attempts and the admissions that paid for them.\<close>

lemma claims_linked_directory [simp]:
  "claims_linked (d\<lparr>db_threads := x1\<rparr>) = claims_linked d" "claims_linked (d\<lparr>db_relays := x2\<rparr>) = claims_linked d"
  "claims_linked (d\<lparr>db_domains := x3\<rparr>) = claims_linked d" "claims_linked (d\<lparr>db_identities := x4\<rparr>) = claims_linked d"
  "claims_linked (d\<lparr>db_routes := x5\<rparr>) = claims_linked d" "claims_linked (d\<lparr>db_operators := x6\<rparr>) = claims_linked d"
  "claims_linked (d\<lparr>db_route_operators := x7\<rparr>) = claims_linked d" "claims_linked (d\<lparr>db_messages := x8\<rparr>) = claims_linked d"
  "claims_linked (d\<lparr>db_recipients := x9\<rparr>) = claims_linked d"
  by (simp_all add: claims_linked_def)

lemma claims_linked_filter:
  assumes "claims_linked d" "db_attempts d' = filter P (db_attempts d)" "db_admissions d' = db_admissions d"
  shows "claims_linked d'"
proof -
  have "filter bound (filter P rows) = filter P (filter bound rows)" for rows by (induction rows) simp_all
  then have "distinct (map payer (filter bound (db_attempts d')))"
    using assms by (simp only: claims_linked_def distinct_map_filter)
  then show ?thesis
    using assms by (simp add: claims_linked_def distinct_map_filter)
qed

lemma discard_links:
  assumes "discard_unsent a b c t d = Inr (n, d')" "claims_linked d"
  shows "claims_linked d'"
proof (cases "d' = d")
  case False
  then show ?thesis
    using assms(1) by (intro claims_linked_filter [OF assms(2)]) (auto simp: discard_unsent_def Let_def split: if_splits)
qed (simp add: assms(2))

lemma claimed_send_links: "preserves (under keeps_links) (claimed_send (claimInboundRecipient i ref pol key) m)"
proof -
  have "preserves (under keeps_links) (claimInboundRecipient i ref pol key)"
    by (auto simp: claimInboundRecipient_def claim_recipient_def update_recipients_def keeps_links_def
        intro!: links.run_rules links.d1)
  then show ?thesis
    by (auto simp: claimed_send_def attempted_def orFalse_def intro!: links.run_rules emailSend_links)
qed

interpretation links: router_run "under keeps_links" "\<lambda>d d'. \<forall>n. keeps_links (d, n) (d', n)" "\<lambda>_. True"
proof
  show "discard_unsent a b c t d = Inr (n, d') \<Longrightarrow> \<forall>n. keeps_links (d, n) (d', n)" for a b c t d n d'
    using discard_links by (auto simp: keeps_links_def)
  show "insert_admitted_attempt sv c t d = Inr (n, d') \<Longrightarrow> \<forall>n. keeps_links (d, n) (d', n)" for sv c t d n d'
    using insert_admitted_linked by (auto simp: keeps_links_def)
  show "insert_ordinary_admission sv o' (ordinary_admission sv o' b e) t d = Inr (n, d') \<Longrightarrow> \<forall>n. keeps_links (d, n) (d', n)"
    for sv o' b e t d n d'
    using insert_ordinary_linked by (auto simp: keeps_links_def)
qed (auto simp: under_def seen_def keeps_links_def insert_delivery_def insert_recipient_def claimed_send_links split: if_splits)

theorem email_links: "preserves (under keeps_links) (email sv message)"
  by (rule links.email) simp

text \<open>A reply is handled without any call of the mail service.\<close>

interpretation silent: router_run "calls_by (\<lambda>_. False)" "\<lambda>_ _. True" "\<lambda>_. False"
  by unfold_locales (auto simp: calls_by_def)

theorem acceptOperatorReply_silent: "preserves (calls_by (\<lambda>_. False)) (acceptOperatorReply sv message token)"
  by (rule silent.acceptOperatorReply)

end
