(* ===== verification/Dkim_Safety.thy ===== *)
theory Dkim_Safety
  imports Router_Run
begin

text \<open>
  What a verified operator message is: the conditions under which \<^verbatim>\<open>verifyOperatorDkim\<close> says so, as one predicate
  over the raw message. The comparison of body hashes is the equality of strings, because no tag of a message
  within the limit is long enough for the 32-bit arithmetic of the comparison to wrap.
\<close>

section \<open>The comparison\<close>

lemma word_xor_0_iff: "(a XOR b = 0) = (a = b)" for a b :: "32 word"
proof
  assume "a XOR b = 0"
  then have "(a XOR b) XOR b = 0 XOR b" by simp
  then show "a = b" by (simp add: xor.assoc)
qed simp

lemma mismatch_0D: "mismatch_from n l r m = 0 \<Longrightarrow> m = 0"
  by (induction n l r m rule: mismatch_from.induct) (auto simp: or_eq_0_iff Let_def)

lemma code_word_inject: "(of_nat (code c) :: 32 word) = of_nat (code d) \<longleftrightarrow> c = d"
proof -
  have "unat (of_nat (code c) :: 32 word) = code c" for c
  proof -
    have "code c < 2 ^ LENGTH(32)" using code_less [of c] by (rule less_trans) simp
    then show ?thesis by (simp only: unat_of_nat mod_less)
  qed
  then show ?thesis by (metis code_inject)
qed

lemma mismatch_equal_lengths: "length l = length r \<Longrightarrow> (mismatch_from (length l) l r m = 0) = (m = 0 \<and> l = r)"
proof (induction l arbitrary: r m)
  case (Cons c l)
  then obtain d r' where r: "r = d # r'" "length l = length r'" by (cases r) auto
  show ?case
    using Cons.IH [OF r(2)] by (auto simp: r(1) or_eq_0_iff word_xor_0_iff code_word_inject)
qed simp

lemma constantTimeEqual_iff:
  assumes "length l < 2 ^ 32" "length r < 2 ^ 32"
  shows "constantTimeEqual l r = (l = r)"
proof (cases "length l = length r")
  case True
  then show ?thesis using mismatch_equal_lengths [OF True, of 0] by (simp add: constantTimeEqual_def)
next
  case False
  have "unat (of_nat (length s) :: 32 word) = length s" if "length s < 2 ^ 32" for s :: string
    using that by (simp add: unat_of_nat)
  then have "(of_nat (length l) :: 32 word) \<noteq> of_nat (length r)" using assms False by metis
  then have "\<not> constantTimeEqual l r" by (auto simp: constantTimeEqual_def word_xor_0_iff dest!: mismatch_0D)
  with False show ?thesis by auto
qed

section \<open>Lengths\<close>

lemma length_trim_le: "length (trim s) \<le> length s"
  unfolding trim_def trim_end_def trim_start_def by (metis length_dropWhile_le length_rev order_trans)

lemma length_to_crlf: "length (to_crlf s) \<le> 2 * length s"
  by (induction s rule: to_crlf.induct) auto

lemma header_boundary_length: "header_boundary s = Some (h, b) \<Longrightarrow> length h \<le> length s"
  by (induction s arbitrary: h) (auto split: if_splits)

lemma header_blocks_length: "b \<in> set (header_blocks s) \<Longrightarrow> length b \<le> length s"
proof (induction s arbitrary: b rule: header_blocks.induct)
  case (2 c cs)
  then show ?case by (fastforce split: if_splits list.splits dest: le_SucI)
qed simp

lemma length_unfold_header: "length (unfold_header s) \<le> length s"
proof (induction s rule: unfold_header.induct)
  case (2 c cs)
  then show ?case
    using length_dropWhile_le [of blank "tl cs"] by (auto dest: order_trans)
qed simp

lemma split_on_length: "p \<in> set (split_on c s) \<Longrightarrow> length p \<le> length s"
  by (induction s arbitrary: p) (fastforce split: if_splits list.splits dest: le_SucI)+

lemma add_section_length:
  assumes "\<forall>t \<in> set ts. length (snd t) \<le> n" "length s \<le> n" "4 \<le> n"
  shows "\<forall>t \<in> set (add_section ts s). length (snd t) \<le> n"
proof -
  have put: "\<forall>t \<in> set (put_tag k v ts). length (snd t) \<le> n" if "length v \<le> n" for k v
    using assms(1) that by (auto simp: put_tag_def)
  have "length (trim (drop k s)) \<le> n" for k
    using length_trim_le [of "drop k s"] assms(2) by simp
  moreover have "length ''true'' \<le> n" using assms(3) by simp
  ultimately show ?thesis
    unfolding add_section_def Let_def by (simp only: split: if_split) (intro conjI impI assms(1) put; assumption)
qed

lemma parseTags_length:
  assumes "map_of (parseTags value) k = Some v"
  shows "length v \<le> length value + 4"
proof -
  have "\<forall>t \<in> set (foldl add_section ts ss). length (snd t) \<le> length value + 4"
    if "\<forall>t \<in> set ts. length (snd t) \<le> length value + 4" "\<forall>s \<in> set ss. length s \<le> length value + 4" for ts ss
    using that
  proof (induction ss arbitrary: ts)
    case (Cons s ss)
    have "\<forall>t \<in> set (add_section ts s). length (snd t) \<le> length value + 4"
      by (rule add_section_length) (use Cons.prems in simp_all)
    then show ?case using Cons.IH Cons.prems(2) by simp
  qed simp
  from this [of "[]" "split_on (CHR '';'') value"] show ?thesis
    using map_of_SomeD [OF assms] split_on_length by (fastforce simp: parseTags_def dest: le_trans)
qed

lemma header_of_block_length: "header_of_block raw = Inr h \<Longrightarrow> length (hd_unfolded h) \<le> length raw"
  using length_trim_le [of "unfold_header (after_colon raw)"] length_unfold_header [of "after_colon raw"]
  by (auto simp: header_of_block_def Let_def after_colon_def split: if_splits)

lemma parseRawMessage_lengths:
  assumes "parseRawMessage raw = Inr (headers, body)" "h \<in> set headers"
  shows "length (hd_unfolded h) \<le> 262144"
proof -
  obtain headerText bodyText where t: "header_boundary (to_crlf (byteString raw)) = Some (headerText, bodyText)"
      "length headerText \<le> 262144" "traverse header_of_block (header_blocks headerText) = Inr headers"
    using assms(1) by (auto simp: parseRawMessage_def bindE_def split: if_splits option.splits sum.splits)
  obtain b where "b \<in> set (header_blocks headerText)" "header_of_block b = Inr h"
    using traverse_Inr [THEN iffD1, OF t(3)] assms(2) by (auto simp: list_all2_conv_all_nth in_set_conv_nth) (metis nth_mem)
  then show ?thesis using header_of_block_length header_blocks_length t(2) by (meson le_trans)
qed

section \<open>A verified message\<close>

definition authentic :: "services \<Rightarrow> byte list \<Rightarrow> string \<Rightarrow> bool" where
  \<comment> \<open>some signature of the operator's own domain covers the body and the one From header, which names the
      operator, and verifies under a key of at least 2048 bits\<close>
  "authentic sv raw operator \<longleftrightarrow>
     (\<exists>headers body signature bodyHash bodyMode headerMode sig key bits.
        let ts = parseTags (hd_unfolded signature) in
        parseRawMessage raw = Inr (headers, body) \<and> \<not> ambiguous_headers headers \<and>
        signature \<in> set headers \<and> hd_name signature = ''dkim-signature'' \<and>
        map_option lower (map_of ts ''a'') = Some ''rsa-sha256'' \<and> map_of ts ''l'' = None \<and>
        mailbox_domain operator \<noteq> [] \<and> map_option lower (map_of ts ''d'') = Some (mailbox_domain operator) \<and>
        ''from'' \<in> set (signed_names ts) \<and> singleHeaderMailbox sv headers ''from'' = Some operator \<and>
        map_of ts ''bh'' = Some bodyHash \<and>
        filter (\<lambda>c. \<not> is_ws c) bodyHash = body_hash sv body bodyMode \<and>
        decodeBase64 (with_default [] (map_of ts ''b'')) = Some sig \<and>
        sv_rsa_bits sv key = Some bits \<and> 2048 \<le> bits \<and>
        sv_rsa_verify sv key sig (canonicalizeSignedHeaders headers signature (signed_names ts) headerMode))"

lemma signature_subject_Inr:
  assumes "signature_subject sv headers body signature ts operator home now = Inr mail"
  obtains bodyHash bodyMode headerMode where
    "map_option lower (map_of ts ''a'') = Some ''rsa-sha256''" "map_of ts ''l'' = None"
    "map_option lower (map_of ts ''d'') = Some home" "''from'' \<in> set (signed_names ts)"
    "singleHeaderMailbox sv headers ''from'' = Some operator" "map_of ts ''bh'' = Some bodyHash"
    "constantTimeEqual (body_hash sv body bodyMode) (filter (\<lambda>c. \<not> is_ws c) bodyHash)"
    "decodeBase64 (with_default [] (map_of ts ''b'')) = Some (sm_signature mail)"
    "sm_data mail = canonicalizeSignedHeaders headers signature (signed_names ts) headerMode"
proof -
  have n: "nonempty v = Some x \<Longrightarrow> v = Some x" for v x by (auto simp: nonempty_def split: option.splits if_splits)
  show ?thesis
    using assms that
    by (auto simp: signature_subject_def Let_def split: if_splits option.splits prod.splits dest!: n)
qed

lemma verifySignature_verified:
  assumes "verifySignature sv headers body signature operator home binding at deadline w = (Inr result, w')"
    "au_status result = Verified"
  shows "\<exists>now mail key bits. signature_subject sv headers body (fst signature) (snd signature) operator home now = Inr mail \<and>
    sv_rsa_bits sv key = Some bits \<and> 2048 \<le> bits \<and> sv_rsa_verify sv key (sm_signature mail) (sm_data mail)"
  using assms
  by (auto simp: verifySignature_def andThen_def readClock_def rejected_def indeterminate_def not_less
      split: sum.splits prod.splits option.splits if_splits)

lemma verify_each_verified:
  assumes "verify_each verify b deadline at ss unbound saw lastRejection w = (Inr result, w')" "au_status result = Verified"
    "\<And>r. unbound = Some r \<Longrightarrow> G r" "\<And>r. lastRejection = Some r \<Longrightarrow> au_status r \<noteq> Verified"
    "\<And>s r u u'. s \<in> set ss \<Longrightarrow> verify s u = (Inr r, u') \<Longrightarrow> au_status r = Verified \<Longrightarrow> G r"
  shows "G result"
  using assms
proof (induction ss arbitrary: unbound saw lastRejection w)
  case Nil
  then show ?case
    by (auto simp: rejected_def indeterminate_def split: option.splits if_splits)
next
  case (Cons s ss)
  obtain r u u' where r: "verify s u = (Inr r, u')" and rest:
      "(if au_status r = Verified \<and> (\<not> b \<or> au_ordinaryBinding r \<noteq> None) then (Inr r, u')
        else verify_each verify b deadline at ss (if au_status r = Verified then Some r else unbound)
           (saw \<or> au_status r = Indeterminate) (if au_status r = Rejected then Some r else lastRejection) u') = (Inr result, w')"
    using Cons.prems(1)
    by (auto simp: followedBy_def andThen_def checkDeadline_def readClock_def split: prod.splits sum.splits if_splits)
  have good: "au_status r = Verified \<Longrightarrow> G r" using Cons.prems(5) [of s u r u'] r by simp
  show ?case
  proof (cases "au_status r = Verified \<and> (\<not> b \<or> au_ordinaryBinding r \<noteq> None)")
    case True
    then show ?thesis using rest good by simp
  next
    case False
    show ?thesis
    proof (rule Cons.IH [OF _ Cons.prems(2)])
      show "verify_each verify b deadline at ss (if au_status r = Verified then Some r else unbound)
          (saw \<or> au_status r = Indeterminate) (if au_status r = Rejected then Some r else lastRejection) u' = (Inr result, w')"
        using rest unfolding if_not_P [OF False] .
      show "(if au_status r = Verified then Some r else unbound) = Some x \<Longrightarrow> G x" for x
        using good Cons.prems(3) by (auto split: if_splits)
      show "(if au_status r = Rejected then Some r else lastRejection) = Some x \<Longrightarrow> au_status x \<noteq> Verified" for x
        using Cons.prems(4) by (auto split: if_splits)
      show "t \<in> set ss \<Longrightarrow> verify t v = (Inr x, v') \<Longrightarrow> au_status x = Verified \<Longrightarrow> G x" for t x v v'
        using Cons.prems(5) [of t v x v'] by simp
    qed
  qed
qed

lemma bodyHash_compared:
  assumes "checked_message raw = Inr (headers, body, signatures)" "signature \<in> set signatures"
    "map_of (snd signature) ''bh'' = Some bodyHash" "digest_ok (sv_platform sv)"
    "constantTimeEqual (body_hash sv body mode) (filter (\<lambda>c. \<not> is_ws c) bodyHash)"
  shows "filter (\<lambda>c. \<not> is_ws c) bodyHash = body_hash sv body mode"
proof -
  obtain h where h: "h \<in> set headers" "signature = (h, parseTags (hd_unfolded h))"
      "parseRawMessage raw = Inr (headers, body)"
    using assms(1,2) by (auto simp: checked_message_def dkim_signatures_def Let_def split: sum.splits if_splits)
  have "length bodyHash \<le> 262144 + 4"
    using parseTags_length [of "hd_unfolded h" "''bh''" bodyHash] parseRawMessage_lengths [OF h(3,1)] assms(3) h(2) by simp
  then have "length (filter (\<lambda>c. \<not> is_ws c) bodyHash) < 2 ^ 32"
    by (intro le_less_trans [OF length_filter_le]) simp
  moreover have "length (body_hash sv body mode) < 2 ^ 32"
  proof -
    have "length (base64_encode bs) \<le> 2 * length bs + 4" for bs
      by (induction bs rule: base64_encode.induct) auto
    from this [of "pf_digest (sv_platform sv) (canonicalizeBody body mode)"] show ?thesis
      using assms(4) by (simp add: body_hash_def encodeBase64_def btoa_def digest_ok_def o_def)
  qed
  ultimately show ?thesis using assms(5) constantTimeEqual_iff by simp
qed

theorem verified_is_authentic:
  assumes "verifyOperatorDkim sv raw operator binding w = (Inr result, w')" "au_status result = Verified"
    "digest_ok (sv_platform sv)"
  shows "authentic sv raw (normalizeMailbox operator)"
proof -
  let ?m = "normalizeMailbox operator"
  obtain headers body signatures at deadline where c: "checked_message raw = Inr (headers, body, signatures)"
    and home: "mailbox_domain ?m \<noteq> []"
    and run: "verify_each (\<lambda>s. verifySignature sv headers body s ?m (mailbox_domain ?m) binding at deadline) (binding \<noteq> None)
        deadline at signatures None False None w = (Inr result, w')"
    using assms(1,2)
    by (auto simp: verifyOperatorDkim_def andThen_def readClock_def Let_def tryCatch_def rejected_def indeterminate_def
        split: if_splits sum.splits prod.splits)
  have "authentic sv raw ?m"
    if s: "signature \<in> set signatures"
      "verifySignature sv headers body signature ?m (mailbox_domain ?m) binding at deadline u = (Inr r, u')"
      "au_status r = Verified" for signature r u u'
  proof -
    obtain now mail key bits where k: "sv_rsa_bits sv key = Some bits" "2048 \<le> bits"
        "sv_rsa_verify sv key (sm_signature mail) (sm_data mail)"
      and subj: "signature_subject sv headers body (fst signature) (snd signature) ?m (mailbox_domain ?m) now = Inr mail"
      using verifySignature_verified [OF s(2,3)] by blast
    have h: "fst signature \<in> set headers" "hd_name (fst signature) = ''dkim-signature''"
        "snd signature = parseTags (hd_unfolded (fst signature))" "parseRawMessage raw = Inr (headers, body)"
        "\<not> ambiguous_headers headers"
      using c s(1) by (auto simp: checked_message_def dkim_signatures_def Let_def split: sum.splits if_splits)
    from subj show ?thesis
    proof (rule signature_subject_Inr)
      fix bodyHash bodyMode headerMode
      assume f: "map_option lower (map_of (snd signature) ''a'') = Some ''rsa-sha256''" "map_of (snd signature) ''l'' = None"
        "map_option lower (map_of (snd signature) ''d'') = Some (mailbox_domain ?m)"
        "''from'' \<in> set (signed_names (snd signature))" "singleHeaderMailbox sv headers ''from'' = Some ?m"
        "map_of (snd signature) ''bh'' = Some bodyHash"
        "constantTimeEqual (body_hash sv body bodyMode) (filter (\<lambda>c. \<not> is_ws c) bodyHash)"
        "decodeBase64 (with_default [] (map_of (snd signature) ''b'')) = Some (sm_signature mail)"
        "sm_data mail = canonicalizeSignedHeaders headers (fst signature) (signed_names (snd signature)) headerMode"
      show ?thesis
        unfolding authentic_def Let_def
        by (rule exI [of _ headers], rule exI [of _ body], rule exI [of _ "fst signature"], rule exI [of _ bodyHash],
            rule exI [of _ bodyMode], rule exI [of _ headerMode], rule exI [of _ "sm_signature mail"], rule exI [of _ key],
            rule exI [of _ bits])
           (use bodyHash_compared [OF c s(1) f(6) assms(3) f(7)] f k h home in simp)
    qed
  qed
  then show ?thesis
    using verify_each_verified [OF run assms(2), where G = "\<lambda>_. authentic sv raw ?m"] by blast
qed

lemma accepted_reply:
  assumes "acceptOperatorReply sv message token w = (Inr None, w')" "digest_ok (sv_platform sv)"
  shows "\<exists>raw. ml_raw message = Some raw \<and> authentic sv raw (normalizeMailbox (ml_from message))"
proof -
  obtain opened where o': "open_reply sv message = Inr opened"
    using assms(1) by (auto simp: acceptOperatorReply_def reject_def split: sum.splits)
  then have m: "ml_raw message = Some (op_raw opened)" "normalizeMailbox (ml_from message) = op_sender opened"
    by (auto simp: open_reply_def parse_inbound_def Let_def split: if_splits option.splits sum.splits prod.splits)
  obtain result u where "verifyOperatorDkim sv (op_raw opened) (op_sender opened) (Some (ml_to message, op_messageId opened)) w = (Inr result, u)"
      "au_status result = Verified"
    using assms(1) o'
    by (auto simp: acceptOperatorReply_def andThen_def reject_def split: sum.splits prod.splits if_splits)
  from verified_is_authentic [OF this assms(2)] show ?thesis
    using m normalizeMailbox_idem [of "ml_from message"] by auto
qed

end
