(* ===== verification/Inbound_Durable.thy ===== *)
theory Inbound_Durable
  imports Inbound_Run Delivery_Safety
begin

text \<open>
  A message that the inbox relay accepts is durable: a delivery with its fingerprint is in the database. The rules
  are those of partial correctness over runs, for the one assertion that a fingerprint is stored; other
  invocations may do anything but delete it, and every acknowledgement of a deletion must arrive (the findings
  describe what happens when it does not).
\<close>

section \<open>The assertion\<close>

definition stored :: "string \<Rightarrow> db \<Rightarrow> bool" where
  "stored fp d \<longleftrightarrow> fp \<in> dl_fingerprint_sha256 ` set (db_deliveries d)"

definition keeps_stored :: "string \<Rightarrow> db \<times> nat \<Rightarrow> db \<times> nat \<Rightarrow> bool" where
  "keeps_stored fp s t \<longleftrightarrow> (stored fp (fst s) \<longrightarrow> stored fp (fst t))"

definition acknowledged :: "world \<Rightarrow> bool" where
  \<comment> \<open>a call that takes effect is acknowledged\<close>
  "acknowledged w \<longleftrightarrow> list_all (\<lambda>k. case tk_end k of Fails_After _ \<Rightarrow> False | _ \<Rightarrow> True) (w_ticks w)"

definition steady :: "string \<Rightarrow> world \<Rightarrow> bool" where
  "steady fp w \<longleftrightarrow> others_respect (keeps_stored fp) w \<and> acknowledged w"

lemma stored_rows: "db_deliveries d' = db_deliveries d \<Longrightarrow> stored fp d' = stored fp d"
  by (simp add: stored_def)

lemma stored_update:
  assumes "\<And>r. delivery_identity (e r) = delivery_identity r"
  shows "stored fp (d\<lparr>db_deliveries := update_where P e (db_deliveries d)\<rparr>) = stored fp d"
proof -
  have "dl_fingerprint_sha256 (e r) = dl_fingerprint_sha256 r" for r
    using arg_cong [OF assms [of r, unfolded delivery_identity_def], of dl_fingerprint_sha256] by simp
  then have "map dl_fingerprint_sha256 (update_where P e rows) = map dl_fingerprint_sha256 rows" for rows
    by (simp add: update_where_def)
  then show ?thesis by (simp add: stored_def set_map [symmetric] del: set_map)
qed

lemma stored_insert: "insert_delivery dl t d = Inr (n, d') \<Longrightarrow> stored fp d \<or> dl_fingerprint_sha256 dl = fp \<Longrightarrow> stored fp d'"
  by (auto simp: insert_delivery_def stored_def split: if_splits)

section \<open>What keeps it\<close>

interpretation keeping: trace_relation "keeps_stored fp" for fp
  by unfold_locales (auto simp: keeps_stored_def)

interpretation keeping: reply_tables "under (keeps_stored fp)" "\<lambda>d d'. \<forall>n. keeps_stored fp (d, n) (d', n)" for fp
proof
  show "(\<And>r. delivery_identity (e r) = delivery_identity r) \<Longrightarrow>
      \<forall>n. keeps_stored fp (d, n) (d\<lparr>db_deliveries := update_where D e (db_deliveries d)\<rparr>, n)" for e D d
    by (simp add: keeps_stored_def stored_update)
qed (auto simp: keeps_stored_def update_attempts_Inr update_admissions_Inr stored_def)

lemma emailSend_stored: "preserves (under (keeps_stored fp)) (emailSend m)"
  unfolding emailSend_def
  by (rule keeping.call) (auto simp: under_def seen_def keeps_stored_def Let_def split: list.splits mail_reply.splits)

lemma claimed_send_stored: "preserves (under (keeps_stored fp)) (claimed_send (claimInboundRecipient i ref pol key) m)"
proof -
  have "preserves (under (keeps_stored fp)) (claimInboundRecipient i ref pol key)"
    unfolding claimInboundRecipient_def
    by (intro keeping.run_rules keeping.d1)
       (auto simp: claim_recipient_def update_recipients_def keeps_stored_def stored_def)
  then show ?thesis
    by (auto simp: claimed_send_def attempted_def orFalse_def intro!: keeping.run_rules emailSend_stored)
qed

interpretation keeping: inbound_tables "under (keeps_stored fp)" "\<lambda>d d'. \<forall>n. keeps_stored fp (d, n) (d', n)" "\<lambda>_. True" for fp
proof
  show "insert_delivery dl t d = Inr (n, d') \<Longrightarrow> \<forall>n. keeps_stored fp (d, n) (d', n)" for dl t d n d'
    by (auto simp: keeps_stored_def intro: stored_insert)
qed (auto simp: under_def seen_def keeps_stored_def insert_recipient_def claimed_send_stored stored_def split: if_splits)

text \<open>Every run of a handler leaves the rest of its schedule.\<close>

abbreviation anything :: "db \<times> nat \<Rightarrow> db \<times> nat \<Rightarrow> bool" where
  "anything \<equiv> \<lambda>_ _. True"

interpretation anything: trace_relation anything
  by unfold_locales auto

lemma emailSend_anything: "preserves (under anything) (emailSend m)"
  unfolding emailSend_def
  by (rule anything.call) (auto simp: under_def Let_def others_respect_def split: list.splits mail_reply.splits)

interpretation anything: reply_tables "under anything" "\<lambda>_ _. \<forall>n :: nat. True"
  by unfold_locales auto

interpretation anything: inbound_run "under anything" "\<lambda>_ _. \<forall>n :: nat. True" "\<lambda>_. True"
proof
  show "preserves (under anything) (claimed_send (claimInboundRecipient i ref pol key) m)" for i ref pol key m
    by (auto simp: claimed_send_def attempted_def orFalse_def claimInboundRecipient_def
        intro!: anything.run_rules anything.d1 emailSend_anything)
qed (auto simp: under_def)

lemma steady_after:
  assumes "preserves (under anything) m" "steady fp w"
  shows "steady fp (snd (m w))"
proof -
  have "set (w_ticks (snd (m w))) \<subseteq> set (w_ticks w)"
    using preservesD [OF assms(1), of w] by (simp add: under_def others_respect_def)
  then show ?thesis
    using assms(2) by (auto simp: steady_def acknowledged_def others_respect_def list_all_iff)
qed

section \<open>The rules\<close>

definition durably :: "string \<Rightarrow> bool \<Rightarrow> 'a act \<Rightarrow> ('a \<Rightarrow> bool) \<Rightarrow> bool" where
  \<comment> \<open>from a world that stores the fingerprint, if \<open>pre\<close> says so, to one that does, if the result is in \<open>post\<close>\<close>
  "durably fp pre m post \<longleftrightarrow>
     (\<forall>w x w'. steady fp w \<longrightarrow> (pre \<longrightarrow> stored fp (w_db w)) \<longrightarrow> m w = (Inr x, w') \<longrightarrow> post x \<longrightarrow> stored fp (w_db w'))"

named_theorems durable_rules "rules for what stores a fingerprint"

lemma durably_keep: "preserves (under (keeps_stored fp)) m \<Longrightarrow> durably fp True m post"
  unfolding durably_def steady_def
  by (metis fst_conv keeps_stored_def preserves_underD seen_def snd_conv)

lemma durably_andThen:
  assumes "preserves (under anything) m" "durably fp pre m mid" "\<And>x. durably fp (mid x) (f x) post"
  shows "durably fp pre (andThen m f) post"
  unfolding durably_def
proof (intro allI impI)
  fix w y w'
  assume w: "steady fp w" "pre \<longrightarrow> stored fp (w_db w)" and r: "andThen m f w = (Inr y, w')" and y: "post y"
  obtain x u where x: "m w = (Inr x, u)" "f x u = (Inr y, w')"
    using r by (auto simp: andThen_def split: prod.splits sum.splits)
  have "steady fp u" using steady_after [OF assms(1) w(1)] x(1) by simp
  moreover have "mid x \<longrightarrow> stored fp (w_db u)" using assms(2) w x(1) unfolding durably_def by blast
  ultimately show "stored fp (w_db w')" using assms(3) x(2) y unfolding durably_def by blast
qed

lemma durably_skip: "preserves (under anything) m \<Longrightarrow> (\<And>x. durably fp False (f x) post) \<Longrightarrow> durably fp pre (andThen m f) post"
  by (rule durably_andThen [where mid = "\<lambda>_. False"]) (auto simp: durably_def)

lemma durably_result: "\<not> post x \<Longrightarrow> durably fp pre (ret x) post"
  by (simp add: durably_def)

lemma durably_throw: "durably fp pre (throw e) post"
  by (simp add: durably_def)

lemma durably_if:
  "(c \<Longrightarrow> durably fp pre a post) \<Longrightarrow> (\<not> c \<Longrightarrow> durably fp pre b post) \<Longrightarrow> durably fp pre (if c then a else b) post"
  by simp

lemma durably_caught: "durably fp pre m post \<Longrightarrow> durably fp pre (caught m) (\<lambda>r. \<exists>x. r = Some x \<and> post x)"
  by (fastforce simp: durably_def caught_def tryCatch_def andThen_def split: prod.splits sum.splits)

lemma durably_weaken: "durably fp pre m post \<Longrightarrow> (pre \<Longrightarrow> pre') \<Longrightarrow> durably fp pre' m post"
  by (auto simp: durably_def)

section \<open>The handler\<close>

lemma inbound_batch_shape:
  "\<exists>x y dl rest. inbound_batch parsed route relay pol a b c e f = x # y # insert_delivery dl # rest \<and>
     dl_fingerprint_sha256 dl = rb_fingerprintSha256 relay"
  unfolding inbound_batch_def append_Cons append_Nil by (intro exI conjI, rule refl) simp

lemma persist_stores:
  assumes "rb_fingerprintSha256 relay = fp"
  shows "durably fp pre (persistInboxRelay sv message parsed route relay pol) post"
proof -
  have batch: "durably fp pre (d1 (batch (inbound_batch parsed route relay pol a b c e f))) (\<lambda>_. True)" for pre a b c e f
  proof -
    let ?ss = "inbound_batch parsed route relay pol a b c e f"
    have "stored fp d'" if r: "batch ?ss t d = Inr (ns, d')" for t d ns d'
    proof -
      obtain x y dl rest where ss: "?ss = x # y # insert_delivery dl # rest" "dl_fingerprint_sha256 dl = fp"
        using inbound_batch_shape assms by metis
      then obtain d1 n d2 ms where "insert_delivery dl t d1 = Inr (n, d2)" and rest: "batch rest t d2 = Inr (ms, d')"
        using r by (auto split: sum.splits prod.splits)
      then have "stored fp d2" using stored_insert ss(2) by blast
      moreover have "\<forall>k. keeps_stored fp (d2, k) (d', k)"
      proof (rule batch_step [OF rest])
        show "s \<in> set rest \<Longrightarrow> s t d = Inr (n, d') \<Longrightarrow> \<forall>k. keeps_stored fp (d, k) (d', k)" for s d n d'
          using keeping.inbound_batch_steps [of s parsed route relay pol a b c e f] ss(1) by simp
      qed (auto simp: keeps_stored_def)
      ultimately show ?thesis by (simp add: keeps_stored_def)
    qed
    then show ?thesis
      by (auto simp: durably_def d1_def call_def split: prod.splits call_end.splits sum.splits)
  qed
  have steps: "preserves (under anything) (d1 (batch (inbound_batch parsed route relay pol a b c e f)))" for a b c e f
    by (rule anything.d1) simp
  have tail: "durably fp True (if P then throw x else followedBy (recordAudit sv k th a ac v) (ret y)) post" for P x k th a ac v y
    by (rule durably_keep) (auto intro!: keeping.handler_rules)
  show ?thesis
    by (auto simp: persistInboxRelay_def Let_def split: option.split prod.split
        intro!: durably_skip anything.resolveThreadId durably_andThen [OF steps batch] tail durably_throw)
qed

lemma load_finds: "durably fp pre (loadInboundDelivery fp) (\<lambda>r. r \<noteq> None)"
proof -
  have "inbound_delivery fp d \<noteq> None \<Longrightarrow> stored fp d" for d
    by (auto simp: inbound_delivery_def stored_def dest!: first_row_SomeD split: option.splits)
  then show ?thesis
    by (auto simp: durably_def loadInboundDelivery_def d1_def query_def call_def split: prod.splits call_end.splits)
qed

lemma discard_refused: "discard_unsent a b c t d = Inr (0, d') \<Longrightarrow> d' = d"
  by (auto simp: discard_unsent_def Let_def split: if_splits)

lemma d1_refused:
  assumes "steady fp w" "stored fp (w_db w)" "d1 stmt w = (r, w')" "\<And>n. r = Inr n \<Longrightarrow> n = 0"
    "\<And>t d d'. stmt t d = Inr (0 :: nat, d') \<Longrightarrow> d' = d"
  shows "stored fp (w_db w')"
proof -
  obtain ending u where u: "begin_call w = (ending, u)" by (cases "begin_call w")
  have kept: "stored fp (w_db u)"
    using keeping.elapse [of fp w] u assms(1,2) by (auto simp: under_def steady_def keeps_stored_def seen_def)
  have "\<not> (\<exists>e. ending = Fails_After e)"
    using u assms(1) by (auto simp: begin_call_def steady_def acknowledged_def split: list.splits)
  then show ?thesis
  proof (cases ending)
    case Done
    show ?thesis
    proof (cases "stmt (w_now u) (w_db u)")
      case (Inr xd)
      obtain x d where xd: "xd = (x, d)" by (cases xd)
      have e: "r = Inr x" "w' = u\<lparr>w_db := d\<rparr>" using assms(3) u Done Inr xd by (simp_all add: d1_def call_def)
      have "d = w_db u" using assms(4) [OF e(1)] Inr xd by (intro assms(5)) simp
      then show ?thesis using e(2) kept by simp
    qed (use assms(3) u Done kept in \<open>simp add: d1_def call_def\<close>)
  qed (use assms(3) u kept in \<open>simp_all add: d1_def call_def\<close>)
qed

definition refused :: "string \<Rightarrow> 'a option act \<Rightarrow> bool" where
  \<comment> \<open>without a result the fingerprint is still stored\<close>
  "refused fp m \<longleftrightarrow>
     (\<forall>w r w'. steady fp w \<longrightarrow> stored fp (w_db w) \<longrightarrow> m w = (r, w') \<longrightarrow> (\<forall>x. r = Inr x \<longrightarrow> x = None) \<longrightarrow> stored fp (w_db w'))"

lemma refused_ret: "refused fp (ret x)"
  by (simp add: refused_def)

lemma refused_andThen:
  assumes "preserves (under (keeps_stored fp)) m" "preserves (under anything) m" "\<And>x. refused fp (f x)"
  shows "refused fp (andThen m f)"
  unfolding refused_def
proof (intro allI impI)
  fix w r w'
  assume w: "steady fp w" "stored fp (w_db w)" and run: "andThen m f w = (r, w')" and none: "\<forall>x. r = Inr x \<longrightarrow> x = None"
  obtain s u where u: "m w = (s, u)" by (cases "m w")
  have "steady fp u" using steady_after [OF assms(2) w(1)] u by simp
  moreover have kept: "stored fp (w_db u)"
    using preserves_underD [OF assms(1), of w] w u by (simp add: steady_def keeps_stored_def seen_def)
  ultimately show "stored fp (w_db w')"
  proof (cases s)
    case (Inl e)
    then show ?thesis using run u kept by (simp add: andThen_def)
  next
    case (Inr x)
    then have "f x u = (r, w')" using run u by (simp add: andThen_def)
    then show ?thesis using assms(3) \<open>steady fp u\<close> kept none unfolding refused_def by blast
  qed
qed

lemma discard_refuses: "refused fp (discardSupersededUnsentInbound sv inbound)"
proof -
  have "refused fp (andThen (d1 (discard_unsent a b c)) (\<lambda>n. ret (if 0 < n then Some x else None)))" for a b c and x :: "string list"
    unfolding refused_def andThen_def
    by (auto split: prod.splits sum.splits if_splits elim!: d1_refused dest: discard_refused)
  then show ?thesis
    by (auto simp: discardSupersededUnsentInbound_def Let_def split: option.split
        intro!: refused_andThen refused_ret keeping.loadActivePolicy anything.loadActivePolicy keeping.d1_query anything.d1_query)
qed

lemma discard_inbound_keeps: "durably fp True (discard_inbound sv inbound key) (\<lambda>gone. \<not> gone)"
proof -
  let ?d = "discardSupersededUnsentInbound sv inbound"
  have "preserves (under anything) (orNone ?d)"
    by (auto simp: discardSupersededUnsentInbound_def Let_def split: option.split
        intro!: anything.handler_rules anything.loadActivePolicy anything.d1)
  moreover have "durably fp True (orNone ?d) (\<lambda>r. r = None)"
    using discard_refuses [of fp sv inbound] unfolding refused_def durably_def orNone_def tryCatch_def
    by (auto split: prod.splits sum.splits)
  moreover have "durably fp (r = None)
      (case r of None \<Rightarrow> ret False
       | Some keys \<Rightarrow> followedBy (deleteOperatorDeliverySpools keys)
           (followedBy (unless (\<not> truthy key) (ignoreError (spoolDelete (the key)))) (ret True))) (\<lambda>gone. \<not> gone)" for r
  proof (cases r)
    case None
    then show ?thesis by (simp add: durably_keep keeping.ret)
  next
    case (Some keys)
    then show ?thesis
      by (auto simp: followedBy_def intro!: durably_skip durably_result anything.deleteOperatorDeliverySpools anything.handler_rules)
  qed
  ultimately show ?thesis
    unfolding discard_inbound_def by (rule durably_andThen)
qed

lemma accept_keeps: "preserves (under (keeps_stored fp)) m \<Longrightarrow> durably fp True (followedBy m accept) post"
  by (rule durably_keep) (auto intro!: keeping.handler_rules)

lemma reject_fails: "durably fp pre (reject reason) (\<lambda>v. v = None)"
  by (simp add: reject_def durably_result)

lemma reconcile_stores:
  assumes "rb_fingerprintSha256 (sg_binding staged) = fp"
  shows "durably fp pre (reconcile_persistence sv staged) (\<lambda>v. v = None)"
proof -
  have "preserves (under anything) (caught (loadInboundDelivery fp))"
    by (auto simp: loadInboundDelivery_def intro!: anything.handler_rules)
  moreover have "durably fp (\<exists>x. r = Some x \<and> x \<noteq> None)
      (case r of Some (Some committed) \<Rightarrow>
         followedBy (unless (iw_raw_r2_key committed = Some key) (followedBy (deleteOperatorDeliverySpools ks) (ignoreError (spoolDelete key))))
           (followedBy (recoverExistingInbound sv committed) accept)
       | _ \<Rightarrow> reject reason) (\<lambda>v. v = None)" for r reason ks and key
    by (auto split: option.split intro!: reject_fails durably_keep keeping.handler_rules
        keeping.deleteOperatorDeliverySpools keeping.recoverExistingInbound)
  ultimately show ?thesis
    unfolding reconcile_persistence_def Let_def assms
    by (intro durably_andThen [OF _ durably_caught [OF load_finds]]) (auto split: option.split)
qed

lemma deliver_keeps: "durably fp True (deliver_inbound sv route staged inbound) (\<lambda>v. v = None)"
proof -
  let ?view = "unsent_view route (sg_binding staged) inbound" and ?key = "Some (rb_spoolKey (sg_binding staged))"
  have discard: "preserves (under anything) (if c then ret False else discard_inbound sv ?view ?key)"
    "durably fp True (if c then ret False else discard_inbound sv ?view ?key) (\<lambda>gone. \<not> gone)" for c
    by (auto intro: anything.ret anything.discard_inbound durably_keep keeping.ret discard_inbound_keeps)
  have after: "durably fp (\<not> gone) (if gone then reject reason else followedBy (recoverExistingInbound sv ?view) accept) (\<lambda>v. v = None)"
    for gone reason
    by (cases gone) (auto intro: reject_fails accept_keeps keeping.recoverExistingInbound)
  have send: "preserves (under (keeps_stored fp)) (andThen (mapAct (send_copy inbound k) xs) (\<lambda>rs. followedBy (f rs) accept))"
    if "\<And>rs. preserves (under (keeps_stored fp)) (f rs)" for k xs f
    by (auto intro!: keeping.handler_rules that keeping.send_copy)
  show ?thesis
    unfolding deliver_inbound_def Let_def
  proof (rule durably_andThen [where mid = "\<lambda>_. True"])
    show "preserves (under anything) (loadActivePolicy sv)" by (rule anything.loadActivePolicy)
    show "durably fp True (loadActivePolicy sv) (\<lambda>_. True)" by (rule durably_keep, rule keeping.loadActivePolicy)
  qed (rule durably_if, rule durably_keep, rule send, rule keeping.finish_inbound, rule durably_andThen [OF discard after])
qed

lemma admit_stores:
  assumes "fp = fingerprint"
  shows "durably fp pre (admit_inbound sv message raw parsed route pol rd fingerprint) (\<lambda>v. v = None)"
proof -
  have fp: "rb_fingerprintSha256 (with_payloads s (bind_inbound sv message parsed route fp rd token now)) = fp" for s token now
    by (simp add: with_payloads_def bind_inbound_def Let_def)
  have persist: "durably fp pre
      (andThen (caught (persistInboxRelay sv message parsed route (with_payloads s b) pol)) (\<lambda>persisted.
         case persisted of
           None \<Rightarrow> reconcile_persistence sv \<lparr> sg_binding = with_payloads s b, sg_deliveries = ds, sg_spools = s \<rparr>
         | Some inbound \<Rightarrow> deliver_inbound sv route \<lparr> sg_binding = with_payloads s b, sg_deliveries = ds, sg_spools = s \<rparr> inbound))
      (\<lambda>v. v = None)" if "b = bind_inbound sv message parsed route fp rd token now" for pre s b ds token now
    by (rule durably_andThen [OF _ durably_caught [OF persist_stores [where post = "\<lambda>_. True"]]])
       (auto simp: fp that split: option.split intro!: anything.caught anything.persistInboxRelay reconcile_stores
          durably_weaken [OF deliver_keeps])
  show ?thesis
    unfolding admit_inbound_def Let_def assms [symmetric]
    by (intro durably_skip)
       (auto split: sum.split intro!: anything.handler_rules anything.copies_of_mail anything.stage_inbound
          reject_fails durably_skip persist)
qed

theorem acceptInboxRelay_durable:
  assumes "acceptInboxRelay sv message route pol w = (Inr None, w')" "de_routeKind route \<noteq> Sink"
    "\<And>raw. ml_raw message = Some raw \<Longrightarrow> steady (mail_fingerprint sv message raw) w"
  shows "\<exists>raw. ml_raw message = Some raw \<and> stored (mail_fingerprint sv message raw) (w_db w')"
proof -
  obtain raw parsed where p: "parse_inbound sv message = Some (raw, parsed)"
    and run: "receive_inbound sv message raw parsed route pol (the (odc_replyDomain (operatorDeliveryConfig (sv_env sv)))) w = (Inr None, w')"
    using assms(1,2) by (auto simp: acceptInboxRelay_def Let_def reject_def split: if_splits option.splits prod.splits)
  have raw: "ml_raw message = Some raw"
    using p by (auto simp: parse_inbound_def split: option.splits sum.splits)
  let ?fp = "mail_fingerprint sv message raw"
  have "preserves (under anything) (caught (loadInboundDelivery ?fp))"
    by (auto simp: loadInboundDelivery_def intro!: anything.handler_rules)
  moreover have "durably ?fp True
      (andThen (discard_inbound sv existing key) (\<lambda>discarded.
         if discarded then admit_inbound sv message raw parsed route pol rd ?fp
         else followedBy (recoverExistingInbound sv existing) accept)) (\<lambda>v. v = None)" for existing key rd
    by (rule durably_andThen [OF anything.discard_inbound discard_inbound_keeps])
       (auto intro: admit_stores accept_keeps keeping.recoverExistingInbound)
  ultimately have "durably ?fp False
      (receive_inbound sv message raw parsed route pol (the (odc_replyDomain (operatorDeliveryConfig (sv_env sv))))) (\<lambda>v. v = None)"
    unfolding receive_inbound_def Let_def
    by (intro durably_andThen [OF _ durably_caught [OF load_finds]])
       (auto split: option.split intro: reject_fails admit_stores durably_weaken)
  then show ?thesis using run assms(3) [OF raw] raw unfolding durably_def by blast
qed

end
