(* ===== verification/Inbound_Spool.thy ===== *)
theory Inbound_Spool
  imports Inbound_Recovery Settlement
begin

text \<open>
  The spool of copies as a round trip: what \<^verbatim>\<open>persistOperatorDeliverySpools\<close> stored, \<^verbatim>\<open>loadOperatorDeliverySpool\<close>
  reads back, copy by copy, when the row of the recipient carries the key and the digest of the stored object.
\<close>

lemma spoolPut_quiet: "w_ticks w = [] \<Longrightarrow> spoolPut k v w = (Inr (), w\<lparr>w_spool := alist_put k v (w_spool w)\<rparr>)"
  by (simp add: spoolPut_def call_quiet)

lemma forEach_spoolPut_quiet:
  "w_ticks w = [] \<Longrightarrow> forEach (\<lambda>s. spoolPut (f s) (g s)) xs w =
     (Inr (), w\<lparr>w_spool := fold (\<lambda>s. alist_put (f s) (g s)) xs (w_spool w)\<rparr>)"
  by (induction xs arbitrary: w) (simp_all add: followedBy_def andThen_def spoolPut_quiet)

lemma map_of_fold_put:
  assumes "distinct (map f xs)" "x \<in> set xs"
  shows "map_of (fold (\<lambda>s. alist_put (f s) (g s)) xs kvs) (f x) = Some (g x)"
proof -
  have other: "k \<notin> f ` set ys \<Longrightarrow> map_of (fold (\<lambda>s. alist_put (f s) (g s)) ys kvs) k = map_of kvs k" for ys kvs k
    by (induction ys arbitrary: kvs) (simp_all add: map_of_alist_put)
  show ?thesis
    using assms
  proof (induction xs arbitrary: kvs)
    case (Cons y ys)
    then show ?case by (cases "x \<in> set ys") (auto simp: other map_of_alist_put)
  qed simp
qed

lemma operatorDeliverySpoolKey_inject [simp]:
  "operatorDeliverySpoolKey key a = operatorDeliverySpoolKey key b \<longleftrightarrow> a = b"
  by (simp add: operatorDeliverySpoolKey_def)

lemma delivery_spools_nth:
  assumes "length refs = length ds" "i < length ds"
  shows "\<lparr> sp_key = operatorDeliverySpoolKey key (refs ! i), sp_value = serializeOperatorDelivery (ds ! i),
      sp_sha256 = sha sv (serializeOperatorDelivery (ds ! i)), sp_operatorRef = refs ! i \<rparr> \<in> set (delivery_spools sv key ds refs)"
  using assms by (auto simp: delivery_spools_def Let_def set_zip image_iff intro!: exI [of _ i])

lemma delivery_spools_keys:
  "length refs = length ds \<Longrightarrow> map sp_key (delivery_spools sv key ds refs) = map (operatorDeliverySpoolKey key) refs"
  by (induction refs ds rule: list_induct2) (simp_all add: delivery_spools_def Let_def)

lemma read_delivery_stored:
  assumes "storable d" "sv_json_parse sv (serializeOperatorDelivery d) = Some (delivery_json d)"
    "sv_utf8_decode sv (utf8_encode (serializeOperatorDelivery d)) = serializeOperatorDelivery d"
    "rd_delivery_payload_sha256 row = sha sv (serializeOperatorDelivery d)" "delivery_authorized sv d row inbound"
    "assertWithinRelayLimit (payload_of_delivery d) (operatorDeliveryConfig (sv_env sv)) = Inr ()"
  shows "read_delivery sv row inbound (Some (utf8_encode (serializeOperatorDelivery d))) = Inr d"
  using assms
  by (simp add: read_delivery_def Let_def deserializeOperatorDelivery_def delivery_json_roundtrip)

lemma spooled_copy_is_read:
  assumes "w_ticks w = []" "distinct refs" "length refs = length ds" "i < length ds"
    and "iw_raw_r2_key inbound = Some key" "key \<noteq> []" "rd_operator_ref row = refs ! i"
    and "rd_delivery_payload_r2_key row = operatorDeliverySpoolKey key (refs ! i)"
    and read: "read_delivery sv row inbound (Some (utf8_encode (serializeOperatorDelivery (ds ! i)))) = Inr (ds ! i)"
  shows "\<exists>spools w'. persistOperatorDeliverySpools sv key ds refs w = (Inr spools, w') \<and>
    loadOperatorDeliverySpool sv row inbound w' = (Inr (ds ! i), w')"
proof -
  let ?ss = "delivery_spools sv key ds refs"
  let ?w = "w\<lparr>w_spool := fold (\<lambda>s. alist_put (sp_key s) (utf8_encode (sp_value s))) ?ss (w_spool w)\<rparr>"
  have p: "persistOperatorDeliverySpools sv key ds refs w = (Inr ?ss, ?w)"
    using assms(1)
    by (simp add: persistOperatorDeliverySpools_def Let_def followedBy_def andThen_def tryCatch_def forEach_spoolPut_quiet)
  have "map_of (w_spool ?w) (operatorDeliverySpoolKey key (refs ! i)) = Some (utf8_encode (serializeOperatorDelivery (ds ! i)))"
    using map_of_fold_put [OF _ delivery_spools_nth [OF assms(3,4)], where f = sp_key and g = "\<lambda>s. utf8_encode (sp_value s)"
        and kvs = "w_spool w" and sv1 = sv and key1 = key]
      assms(2) delivery_spools_keys [OF assms(3), of sv key]
    by (simp add: distinct_map inj_on_def)
  then have "loadOperatorDeliverySpool sv row inbound ?w = (Inr (ds ! i), ?w)"
    using assms(1,5-8) read
    by (simp add: loadOperatorDeliverySpool_def truthy_def andThen_def spoolGet_def call_quiet)
  with p show ?thesis by blast
qed

end
