(* ===== verification/Example_Mail.thy ===== *)
theory Example_Mail
  imports Example_Dispatch Dkim_Safety Inbound_Durable Inbound_Spool
begin

text \<open>Messages that the mail router handles on the concrete installation: one it knows already, and an operator's reply.\<close>

section \<open>A message that is known\<close>

definition ex_mail :: inbound_mail where
  "ex_mail = \<lparr> ml_from = ''c@r.test'', ml_to = ''t@e.test'', ml_raw = Some [], ml_rawSize = 0, ml_header = (\<lambda>_. None) \<rparr>"

definition ex_route :: route_decision where
  "ex_route = fst (hd (pp_routes ex_projection))"

definition ex_delivered :: db where
  \<comment> \<open>a delivery with the fingerprint of the message, under a policy that is no longer there\<close>
  "ex_delivered = empty_db
     \<lparr> db_relays := [\<lparr> rr_id = ''rel'', rr_token_sha256 = ''t'', rr_thread_id = ''th'', rr_route_id = ''route:example.com:team'',
          rr_external_recipient = ''client@remote.test'', rr_reply_identity = ''team@example.com'',
          rr_original_message_id = None, rr_references = None, rr_expires_at = ''later'',
          rr_revoked_at = None, rr_superseded_by = None \<rparr>],
       db_deliveries := [\<lparr> dl_id = ''d'', dl_fingerprint_sha256 = ex_digest, dl_relay_id = ''rel'', dl_thread_id = ''th'',
          dl_route_id = ''route:example.com:team'', dl_policy_sha256 = ex_digest, dl_raw_r2_key = None,
          dl_received_at = ''earlier'', dl_status = ''pending'' \<rparr>] \<rparr>"

lemma ex_sha: "sha ex_services v = ex_digest"
proof -
  have "sha ex_services v = sha ex_services []"
    by (simp add: sha_def sha256Hex_def ex_services_def ex_platform_def)
  also have "\<dots> = ex_digest" by code_simp
  finally show ?thesis .
qed

lemma ex_fingerprint: "mail_fingerprint ex_services ex_mail [] = ex_digest"
  by (simp add: mail_fingerprint_def ex_sha)

lemma ex_route_kind: "de_routeKind ex_route \<noteq> Sink \<and> de_operators ex_route \<noteq> []"
  by code_simp

lemma ex_reply_domain: "odc_replyDomain (operatorDeliveryConfig (sv_env ex_services)) = Some ''reply.example.com''"
proof -
  have "valid_domain ''reply.example.com''" by (simp add: valid_domain_def valid_label_def js_defs)
  then show ?thesis
    by (simp add: operatorDeliveryConfig_def ex_services_def ex_env_def empty_env_def normalizeDomain_of_valid)
qed

lemma ex_bindings: "env_EMAIL (sv_env ex_services)" "env_RELAY_SPOOL (sv_env ex_services)" "env_POLICY_STORE (sv_env ex_services)"
  by (simp_all add: ex_services_def ex_env_def)

lemmas ex_relay_config = ex_reply_domain ex_bindings truthy_def

lemma ex_parsed: "\<exists>parsed. parse_inbound ex_services ex_mail = Some ([], parsed)"
proof -
  have "sv_mime ex_services [] = Inr ex_mime" by (simp add: ex_services_def)
  moreover have "is_mailbox ''op@corp.test''" by code_simp
  then obtain e where "parseRelayEmail (Inr ex_mime) = Inr e"
    by (simp add: parseRelayEmail_def ex_mime_def singleMailbox_def is_mailbox_normal)
  ultimately show ?thesis by (simp add: parse_inbound_def ex_mail_def)
qed

abbreviation ex_delivered_world :: world where
  "ex_delivered_world \<equiv> world_of 0 ex_delivered"

lemma ex_no_policy: "w_ticks w = [] \<Longrightarrow> db_runtime (w_db w) = None \<Longrightarrow> loadActivePolicy ex_services w = (Inr None, w)"
  by (simp add: loadActivePolicy_def Let_def ex_relay_config andThen_def d1_quiet query_def policy_pointer_of_def ex_mode)

definition ex_view :: inbound_view where
  "ex_view = the (inbound_delivery ex_digest ex_delivered)"

lemma ex_known: "inbound_delivery ex_digest ex_delivered = Some ex_view"
  by (simp add: ex_view_def inbound_delivery_def ex_delivered_def empty_db_def first_row_def relay_by_id_def)

lemma ex_unspooled: "iw_raw_r2_key ex_view = None"
  by (simp add: ex_view_def inbound_delivery_def ex_delivered_def empty_db_def first_row_def relay_by_id_def)

lemma ex_recovers: "\<exists>w. recoverExistingInbound ex_services ex_view ex_delivered_world = (Inr (), w)"
proof -
  have "recipients_of i ex_delivered = []" for i
    by (simp add: recipients_of_def ex_delivered_def empty_db_def order_by_def)
  then show ?thesis
    by (simp add: recoverExistingInbound_def andThen_def followedBy_def unless_def d1_quiet query_def world_of_def ex_unspooled
        truthy_def report_recovery_def Let_def ignoreError_def tryCatch_def ret_def split: sum.split prod.split)
qed

lemma ex_accepted: "fst (acceptInboxRelay ex_services ex_mail ex_route ex_digest ex_delivered_world) = Inr None"
proof -
  obtain parsed where p: "parse_inbound ex_services ex_mail = Some ([], parsed)" using ex_parsed by blast
  obtain w where w: "recoverExistingInbound ex_services ex_view ex_delivered_world = (Inr (), w)" using ex_recovers by blast
  have t: "w_ticks ex_delivered_world = []" "w_db ex_delivered_world = ex_delivered" "db_runtime ex_delivered = None"
    by (simp_all add: world_of_def ex_delivered_def empty_db_def)
  have l: "caught (loadInboundDelivery ex_digest) ex_delivered_world = (Inr (Some (Some ex_view)), ex_delivered_world)"
    using t by (simp add: caught_def loadInboundDelivery_def tryCatch_def andThen_def d1_quiet query_def ex_known ret_def)
  have d: "discard_inbound ex_services ex_view k ex_delivered_world = (Inr False, ex_delivered_world)" for k
    using ex_no_policy [of ex_delivered_world] t
    by (simp add: discard_inbound_def orNone_def tryCatch_def andThen_def discardSupersededUnsentInbound_def ret_def)
  show ?thesis
    using ex_relay_config ex_route_kind l d w
    by (simp add: acceptInboxRelay_def Let_def p receive_inbound_def ex_fingerprint andThen_def followedBy_def accept_def ret_def)
       (simp add: ex_mail_def)
qed

section \<open>A copy in the spool\<close>

definition ex_token :: string where
  "ex_token = generateRelayToken (replicate 31 7)"

definition ex_copy :: operator_delivery where
  "ex_copy = \<lparr> od_from_name = ''Team'', od_from_email = ''team@example.com'', od_to = ''op@corp.test'',
     od_replyTo = ''r+'' @ ex_token @ ''@reply.example.com'', od_subject = ''Hi'', od_text = ''Yes'', od_html = ''Yes'',
     od_headers = [(''X-Maildesk-Delivery-ID'', ''<d>''), (''X-Maildesk-Reply-Identity'', ''team@example.com'')],
     od_attachments = [\<lparr> at_disposition = Attached, at_filename = ''a'', at_type = ''text/plain'', at_content = [0] \<rparr>] \<rparr>"

definition ex_recipient :: recipient_row where
  "ex_recipient = \<lparr> rd_delivery_id = ''d'', rd_operator_ref = ex_digest, rd_delivery_message_id = ''<d>'',
     rd_delivery_payload_r2_key = operatorDeliverySpoolKey ''key'' ex_digest, rd_delivery_payload_sha256 = ex_digest,
     rd_status = ''pending'', rd_provider_message_id = None, rd_error_code = None \<rparr>"

definition ex_inbound :: inbound_view where
  "ex_inbound = ex_view\<lparr>iw_raw_r2_key := Some ''key'', iw_token_sha256 := ex_digest\<rparr>"

definition ex_spool_services :: services where
  "ex_spool_services = ex_services\<lparr>sv_json_parse := (\<lambda>_. Some (delivery_json ex_copy)),
     sv_utf8_decode := (\<lambda>_. serializeOperatorDelivery ex_copy)\<rparr>"

lemma ex_spool_sha: "sha ex_spool_services v = ex_digest"
  using ex_sha [of v] by (simp add: sha_def ex_spool_services_def)

lemma ex_copy_storable: "storable ex_copy"
  by (simp add: storable_def ex_copy_def)

lemma ex_token_valid: "is_relay_token ex_token"
  unfolding ex_token_def by (rule generateRelayToken_valid) simp

lemma ex_copy_authorized: "delivery_authorized ex_spool_services ex_copy ex_recipient ex_inbound"
proof -
  have "normalizeMailbox ''team@example.com'' = ''team@example.com''" by (rule is_mailbox_normal) code_simp
  moreover have "relayTokenFromRecipient (''r+'' @ ex_token @ ''@reply.example.com'') ''reply.example.com'' = Some ex_token"
  proof -
    have "valid_domain ''reply.example.com''" by (simp add: valid_domain_def valid_label_def js_defs)
    then have "normalizeMailbox (''r+'' @ ex_token @ ''@'' @ ''reply.example.com'') = ''r+'' @ ex_token @ ''@'' @ ''reply.example.com''"
      by (intro is_mailbox_normal relay_mailbox ex_token_valid)
    then show ?thesis using relayTokenFromRecipient_of [OF _ ex_token_valid, of _ "''reply.example.com''"] by simp
  qed
  moreover have "ex_token \<noteq> []" using ex_token_valid by (auto simp: is_relay_token_def)
  moreover have "sv_env ex_spool_services = sv_env ex_services" by (simp add: ex_spool_services_def)
  ultimately show ?thesis
    by (simp add: delivery_authorized_def Let_def ex_spool_sha ex_copy_def ex_recipient_def ex_inbound_def ex_reply_domain truthy_def)
qed

lemma ex_copy_small: "assertWithinRelayLimit (payload_of_delivery ex_copy) (operatorDeliveryConfig (sv_env ex_spool_services)) = Inr ()"
proof -
  have "odc_maxEncodedMessageBytes (operatorDeliveryConfig (sv_env ex_spool_services)) = 5 * 1024 * 1024"
    by (simp add: operatorDeliveryConfig_def ex_spool_services_def ex_services_def ex_env_def empty_env_def boundedPositiveInteger_def)
  then show ?thesis
    by (simp add: assertWithinRelayLimit_def payload_of_delivery_def ex_copy_def encodedMessageUpperBound_def encodedTextCeiling_def
        utf8_length_def code_def attachmentCeiling_def ceil_div_def content_id_def opt_or_def or_else_def Let_def)
qed

section \<open>A reply of the operator\<close>

definition ex_headers :: string where
  "ex_headers = ''From:op@corp.test'' @ [CR, LF] @
     ''DKIM-Signature:a=rsa-sha256;d=corp.test;s=k;h=from;b=;bh=AAAAAAAAAAAAAAAAAAAAAAAAAAAAAAAAAAAAAAAAAAA=''"

definition ex_raw :: "byte list" where
  "ex_raw = byteArray (ex_headers @ [CR, LF, CR, LF])"

definition ex_signature :: raw_header where
  "ex_signature = \<lparr> hd_name = ''dkim-signature'', hd_raw = drop 19 ex_headers, hd_unfolded = drop 34 ex_headers \<rparr>"

definition ex_from :: raw_header where
  "ex_from = \<lparr> hd_name = ''from'', hd_raw = ''From:op@corp.test'', hd_unfolded = ''op@corp.test'' \<rparr>"

lemma byteString_byteArray: "byteString (byteArray s) = s"
  by (simp add: byteString_def byteArray_def byte_char_def char_byte_def o_def unat_of_nat code_def map_idI)

lemma ex_lines: "\<not> lone_cr (ex_headers @ [CR, LF, CR, LF])"
  by code_simp

lemma ex_crlf: "to_crlf (ex_headers @ [CR, LF, CR, LF]) = ex_headers @ [CR, LF, CR, LF]"
  by code_simp

lemma ex_boundary: "header_boundary (ex_headers @ [CR, LF, CR, LF]) = Some (ex_headers, [])"
  by code_simp

lemma ex_blocks: "header_blocks ex_headers = [''From:op@corp.test'', drop 19 ex_headers]"
  by code_simp

lemma ex_block1: "header_of_block ''From:op@corp.test'' = Inr ex_from"
  by code_simp

lemma ex_block2: "header_of_block (drop 19 ex_headers) = Inr ex_signature"
  by code_simp

lemma ex_tags: "parseTags (hd_unfolded ex_signature) =
  [(''a'', ''rsa-sha256''), (''d'', ''corp.test''), (''s'', ''k''), (''h'', ''from''), (''b'', []),
   (''bh'', ''AAAAAAAAAAAAAAAAAAAAAAAAAAAAAAAAAAAAAAAAAAA='')]"
  by code_simp

lemma ex_names: "signed_names (parseTags (hd_unfolded ex_signature)) = [''from'']"
  unfolding ex_tags by code_simp

lemma ex_unambiguous: "\<not> ambiguous_headers [ex_from, ex_signature]"
  by code_simp

lemma ex_hash: "encodeBase64 (replicate 32 0) = ''AAAAAAAAAAAAAAAAAAAAAAAAAAAAAAAAAAAAAAAAAAA=''"
  by code_simp

lemma ex_no_bytes: "decodeBase64 [] = Some []"
  by code_simp

definition ex_reply_services :: services where
  "ex_reply_services = ex_services\<lparr>sv_mime := (\<lambda>_. Inr (ex_mime\<lparr>po_messageId := Some ''<a@b>''\<rparr>))\<rparr>"

definition ex_answer :: inbound_mail where
  "ex_answer = \<lparr> ml_from = ''op@corp.test'', ml_to = ''r@reply.example.com'', ml_raw = Some ex_raw, ml_rawSize = 0, ml_header = (\<lambda>_. None) \<rparr>"

definition ex_sent_db :: db where
  \<comment> \<open>the attempt has reached the provider\<close>
  "ex_sent_db = ex_db\<lparr>db_attempts := [ex_attempt\<lparr>ra_status := ''provider_accepted''\<rparr>],
     db_relays := map (\<lambda>r. r\<lparr>rr_token_sha256 := ex_digest\<rparr>) (db_relays ex_db)\<rparr>"

definition ex_reply_world :: world where
  "ex_reply_world = (world_of 1000 ex_sent_db)\<lparr>w_keys := [(''k._domainkey.corp.test'', 100000, [])]\<rparr>"

lemma ex_reply_sv [simp]:
  "sv_env ex_reply_services = sv_env ex_services" "sv_platform ex_reply_services = ex_platform"
  "sv_rsa_bits ex_reply_services = (\<lambda>_. Some 2048)" "sv_rsa_verify ex_reply_services = (\<lambda>_ _ _. True)"
  "sha ex_reply_services v = ex_digest"
  using ex_sha [of v] by (simp_all add: ex_reply_services_def ex_services_def sha_def)

lemma ex_reply_world_simps [simp]:
  "w_ticks ex_reply_world = []" "w_now ex_reply_world = 1000" "w_db ex_reply_world = ex_sent_db"
  "w_keys ex_reply_world = [(''k._domainkey.corp.test'', 100000, [])]"
  by (simp_all add: ex_reply_world_def world_of_def)

lemma ex_operator: "normalizeMailbox ''op@corp.test'' = ''op@corp.test''"
  by (rule is_mailbox_normal) code_simp

lemma ex_checked: "checked_message ex_raw = Inr ([ex_from, ex_signature], [], [(ex_signature, parseTags (hd_unfolded ex_signature))])"
proof -
  have l: "length ex_raw \<le> 5242880" "length ex_headers \<le> 262144"
    by (simp_all add: ex_raw_def ex_headers_def byteArray_def)
  have "parseRawMessage ex_raw = Inr ([ex_from, ex_signature], [])"
    using l by (simp add: parseRawMessage_def ex_raw_def byteString_byteArray ex_lines ex_crlf ex_boundary ex_blocks
        ex_block1 ex_block2 bindE_def) (simp add: byteArray_def)
  moreover have "dkim_signatures [ex_from, ex_signature] = [(ex_signature, parseTags (hd_unfolded ex_signature))]"
    by (simp add: dkim_signatures_def) (simp add: ex_from_def ex_signature_def)
  ultimately show ?thesis
    by (simp add: checked_message_def ex_unambiguous) (simp add: ex_tags)
qed

lemma ex_subject: "\<exists>mail. signature_subject ex_reply_services [ex_from, ex_signature] [] ex_signature
    (parseTags (hd_unfolded ex_signature)) ''op@corp.test'' ''corp.test'' now = Inr mail \<and> sm_domain mail = ''corp.test'' \<and>
    sm_selector mail = ''k''"
proof -
  have m: "singleHeaderMailbox ex_reply_services [ex_from, ex_signature] ''from'' = Some ''op@corp.test''"
    by (simp add: singleHeaderMailbox_def ex_from_def ex_signature_def ex_reply_services_def ex_services_def ex_operator nonempty_def truthy_def)
  have h: "body_hash ex_reply_services [] m = ''AAAAAAAAAAAAAAAAAAAAAAAAAAAAAAAAAAAAAAAAAAA=''" for m
    by (simp add: body_hash_def ex_platform_def ex_hash)
  have f: "\<not> is_ws CHR ''A''" "\<not> is_ws CHR ''=''"
    by code_simp+
  have e: "constantTimeEqual ''AAAAAAAAAAAAAAAAAAAAAAAAAAAAAAAAAAAAAAAAAAA='' ''AAAAAAAAAAAAAAAAAAAAAAAAAAAAAAAAAAAAAAAAAAA=''"
    by (simp add: constantTimeEqual_iff)
  have l: "lower ''rsa-sha256'' = ''rsa-sha256''" "lower ''corp.test'' = ''corp.test''" "lower ''k'' = ''k''" "valid_selector ''k''"
    "canonicalization None = (Some Simple, Some Simple)"
    by code_simp+
  have n: "hd_name ex_from = ''from''" by (simp add: ex_from_def)
  show ?thesis
    unfolding signature_subject_def ex_names Let_def unfolding ex_tags
    by (simp add: m f h e l n ex_no_bytes with_default_def signature_expired_def nonempty_def truthy_def)
qed

lemma ex_verified:
  "\<exists>r. verifyOperatorDkim ex_reply_services ex_raw ''op@corp.test'' (Some b) ex_reply_world = (Inr r, ex_reply_world) \<and> au_status r = Verified"
proof -
  define headers where "headers = [ex_from, ex_signature]"
  define ts where "ts = parseTags (hd_unfolded ex_signature)"
  obtain mail where m: "signature_subject ex_reply_services headers [] ex_signature ts ''op@corp.test'' ''corp.test'' 1000 = Inr mail"
      "sm_domain mail = ''corp.test''" "sm_selector mail = ''k''"
    using ex_subject headers_def ts_def by blast
  have key: "resolveDkimKey ex_reply_services ''k'' ''corp.test'' 1000 6000 ex_reply_world = (Inr [], ex_reply_world)"
    by (simp add: resolveDkimKey_def Let_def dkim_name_def checkDeadline_def followedBy_def andThen_def readClock_def cached_key_def)
  have dead: "checkDeadline 6000 ex_reply_world = (Inr (), ex_reply_world)"
    by (simp add: checkDeadline_def andThen_def readClock_def)
  define r where "r t = verified ex_reply_services headers (signed_names ts) ''op@corp.test'' mail (Some b) t" for t
  have status: "au_status (r t) = Verified" for t by (simp add: r_def verified_def Let_def)
  have "''to'' \<notin> set (signed_names ts)" by (simp add: ts_def ex_names)
  then have unbound: "au_ordinaryBinding (r t) = None" for t
    by (cases b) (simp add: r_def verified_def ordinaryBinding_def consumed_names_def Let_def)
  have verify: "verifySignature ex_reply_services headers [] (ex_signature, ts) ''op@corp.test'' ''corp.test'' (Some b) t 6000 ex_reply_world =
      (Inr (r t), ex_reply_world)" for t
    by (simp add: verifySignature_def andThen_def readClock_def m key tryCatch_def r_def)
  have domain: "mailbox_domain ''op@corp.test'' = ''corp.test''" by code_simp
  show ?thesis
    using ex_checked unfolding headers_def [symmetric] ts_def [symmetric]
    by (simp add: verifyOperatorDkim_def andThen_def readClock_def ex_operator domain Let_def DKIM_VERIFICATION_TIMEOUT_MS_def
        tryCatch_def followedBy_def dead verify status unbound)
qed

lemma ex_opened: "\<exists>opened. open_reply ex_reply_services ex_answer = Inr opened \<and> op_raw opened = ex_raw \<and>
    op_sender opened = ''op@corp.test'' \<and> op_messageId opened = ''<a@b>''"
proof -
  have "sv_mime ex_reply_services ex_raw = Inr (ex_mime\<lparr>po_messageId := Some ''<a@b>''\<rparr>)" by (simp add: ex_reply_services_def)
  moreover have "validMessageId (Some ''<a@b>'')" by code_simp
  ultimately obtain parsed where p: "parse_inbound ex_reply_services ex_answer = Some (ex_raw, parsed)"
      "mb_address (pe_from parsed) = ''op@corp.test''" "pe_messageId parsed = Some ''<a@b>''"
    by (simp add: parse_inbound_def ex_answer_def parseRelayEmail_def ex_mime_def singleMailbox_def ex_operator bindE_def)
  have "odc_replyProcessingMode (operatorDeliveryConfig (sv_env ex_services)) = Processing_Enabled"
    by (simp add: operatorDeliveryConfig_def ex_services_def ex_env_def empty_env_def Let_def relayMode_def)
  moreover have "odc_maxEncodedMessageBytes (operatorDeliveryConfig (sv_env ex_services)) = 5 * 1024 * 1024"
    by (simp add: operatorDeliveryConfig_def ex_services_def ex_env_def empty_env_def boundedPositiveInteger_def)
  ultimately show ?thesis
    using p by (simp add: open_reply_def ex_relay_config ex_operator) (simp add: ex_answer_def ex_operator nonempty_def truthy_def)
qed

definition ex_view_db :: relay_view where
  "ex_view_db = the (reconciliation_relay ex_digest ex_sent_db)"

lemma ex_relay_known: "reconciliation_relay ex_digest ex_sent_db = Some ex_view_db \<and> rr_id (rv_relay ex_view_db) = ''rel'' \<and>
    rr_thread_id (rv_relay ex_view_db) = ''th''"
  by (simp add: ex_view_db_def reconciliation_relay_def ex_sent_db_def ex_db_def empty_db_def first_row_def thread_by_id_def
      route_by_id_def route_address_def domain_name_def)

lemma ex_sent_claim: "stored_reply_claim ex_claim_id ex_sent_db = Some (ex_claim\<lparr>sc_attempt := ex_attempt\<lparr>ra_status := ''provider_accepted''\<rparr>\<rparr>) \<and>
    attempt_by_id (Some ex_claim_id) ex_sent_db = Some (ex_attempt\<lparr>ra_status := ''provider_accepted''\<rparr>)"
  by (simp add: stored_reply_claim_def ex_rows ex_sent_db_def sql_eq_def route_address_def domain_name_def)

lemma ex_reply_accepted: "fst (acceptOperatorReply ex_reply_services ex_answer ''t'' ex_reply_world) = Inr None"
proof -
  obtain opened where o': "open_reply ex_reply_services ex_answer = Inr opened" "op_raw opened = ex_raw"
      "op_sender opened = ''op@corp.test''" "op_messageId opened = ''<a@b>''"
    using ex_opened by blast
  obtain r where r: "verifyOperatorDkim ex_reply_services ex_raw ''op@corp.test'' (Some (ml_to ex_answer, ''<a@b>'')) ex_reply_world =
      (Inr r, ex_reply_world)" "au_status r = Verified" using ex_verified by blast
  define w where "w = ex_reply_world\<lparr>w_affected := [rr_route_id (rv_relay ex_view_db)]\<rparr>"
  have t [simp]: "w_ticks w = []" "w_db w = ex_sent_db" "w_db (w\<lparr>w_db := d\<rparr>) = d" "w\<lparr>w_db := ex_sent_db\<rparr> = w" for d
    by (simp_all add: w_def)
  have affected: "addAffected (rr_route_id (rv_relay ex_view_db)) ex_reply_world = (Inr (), w)"
    by (simp add: addAffected_def w_def) (simp add: ex_reply_world_def world_of_def uniq_def)
  have "messageIdentity (Some ''<a@b>'') = Some ''<a@b>''" by code_simp
  then have ids: "replyAttemptIdentities ex_platform i ''<a@b>'' = Inr (ex_claim_id, ex_claim_id)" for i
    using ex_sha by (simp add: replyAttemptIdentities_def ex_claim_id_def attempt_prefix_def sha_def ex_services_def)
  have "sha256Hex_bytes ex_platform ex_raw = sha256Hex_bytes ex_platform []" by (simp add: sha256Hex_bytes_def ex_platform_def)
  also have "\<dots> = ex_digest" by code_simp
  finally have raw: "sha256Hex_bytes ex_platform ex_raw = ex_digest" .
  have c: "is_claim_id ex_claim_id" by (simp add: is_claim_id_def ex_claim_id_def)
  have "odc_replyProcessingMode (operatorDeliveryConfig (sv_env ex_services)) = Processing_Enabled"
    by (simp add: operatorDeliveryConfig_def ex_services_def ex_env_def empty_env_def Let_def relayMode_def)
  then have rec: "recoverKnownUnsentDispatch ex_reply_services ex_claim_id w = (Inr (Reconciliation_Required, ''claim_already_crossed_or_terminal''), w)"
    using c ex_sent_claim
    by (simp add: recoverKnownUnsentDispatch_def Let_def loadStoredReplyClaim_def andThen_def d1_quiet query_def ex_claim_def)
  have exact: "isExactReplyRedelivery (ex_claim\<lparr>sc_attempt := ex_attempt\<lparr>ra_status := ''provider_accepted''\<rparr>\<rparr>)
      (rr_id (rv_relay ex_view_db)) ''op@corp.test'' ''<a@b>'' ex_digest"
    using ex_relay_known by (simp add: isExactReplyRedelivery_def ex_claim_def ex_attempt_def ex_operator)
  have audit: "\<exists>u. recordAudit ex_reply_services k (Some ''th'') a b e w = (Inr (), u)" for k a b e
    by (simp add: recordAudit_def andThen_def randomUUID_def d1_quiet audit_conflict_def insertAudit_def existing_thread_def)
       (simp add: ex_sent_db_def ex_db_def empty_db_def first_row_def)
  have "\<exists>u. redispatch ex_reply_services ex_view_db ''op@corp.test'' ex_claim_id w = (Inr None, u)"
    using audit ex_relay_known by (simp add: redispatch_def andThen_def rec followedBy_def accept_def split: prod.split sum.split) (metis (no_types, lifting) Inr_not_Inl prod.inject)
  then obtain u where u: "redispatch ex_reply_services ex_view_db ''op@corp.test'' ex_claim_id w = (Inr None, u)" by blast
  have earlier: "earlier_claim ex_reply_services opened ex_view_db [ex_claim_id, ex_claim_id] w = (Inr (Some None), u)"
    using ex_sent_claim exact u o' raw
    by (simp add: loadRelayAttempt_def loadStoredReplyClaim_def andThen_def d1_quiet query_def)
  have known: "loadRelayForReconciliation ex_digest ex_reply_world = (Inr (Some ex_view_db), ex_reply_world)"
    using ex_relay_known by (simp add: loadRelayForReconciliation_def d1_quiet query_def ex_reply_world_def world_of_def)
  show ?thesis
    using o' r
    by (simp add: acceptOperatorReply_def andThen_def authenticated_reply_def Let_def known followedBy_def affected ids liftE_def
        earlier del: earlier_claim.simps)
qed

end
