(* ===== verification/Canary_Report.thy ===== *)
theory Canary_Report
  imports Status_Store
begin

text \<open>
  \<^verbatim>\<open>workers/mail-canary/src/report.ts\<close>, \<^verbatim>\<open>policy-routes.ts\<close> and \<^verbatim>\<open>notificationText\<close>: the report over the active routes and
  the choice of the next routes to probe.
\<close>

section \<open>The snapshot\<close>

record canary_route =                               \<comment> \<open>\<^verbatim>\<open>RouteInventoryRow\<close>\<close>
  cr_inventory :: inventory_row
  cr_status_generation :: int
  cr_operational_status :: jv
  cr_health_policy_sha256 :: "string option"
  cr_inbound_status :: "string option"
  cr_reply_status :: "string option"
  cr_last_inbox_verified_at :: "string option"
  cr_last_reply_verified_at :: "string option"
  cr_edge_verified_at :: "string option"

abbreviation cr_route_id :: "canary_route \<Rightarrow> string" where
  "cr_route_id r \<equiv> iv_route_id (cr_inventory r)"

abbreviation cr_decision_kind :: "canary_route \<Rightarrow> string" where
  "cr_decision_kind r \<equiv> iv_decision_kind (cr_inventory r)"

record canary_snapshot =
  cs_policy_sha256 :: string
  cs_expected_routes :: int
  cs_routes :: "canary_route list"

definition assertPolicyRoutes :: "services \<Rightarrow> jv \<Rightarrow> canary_route list \<Rightarrow> string + unit" where
  "assertPolicyRoutes sv policy rows =
     (case projectPolicy (sv_core sv) policy of
        Inl _ \<Rightarrow> Inl ''policy projection failed''
      | Inr projection \<Rightarrow> assertPolicyInventory projection (map cr_inventory rows) None)"

section \<open>The rotation\<close>

definition ROUTE_KINDS :: "string list" where
  "ROUTE_KINDS = [''role_alias'', ''personal_alias'', ''catch_all'']"

record probe =
  pb_route_id :: string
  pb_oldest :: "int option"
  pb_reason :: string

definition probe_of :: "platform \<Rightarrow> int \<Rightarrow> canary_route \<Rightarrow> probe" where
  "probe_of pf now route =
     (case (proofMillis pf (cr_last_inbox_verified_at route) now, proofMillis pf (cr_last_reply_verified_at route) now) of
        (Some inbox, Some reply) \<Rightarrow>
          \<lparr> pb_route_id = cr_route_id route, pb_oldest = Some (min inbox reply), pb_reason = ''oldest_proof'' \<rparr>
      | _ \<Rightarrow> \<lparr> pb_route_id = cr_route_id route, pb_oldest = None, pb_reason = ''never_proven'' \<rparr>)"

definition string_le :: "string \<Rightarrow> string \<Rightarrow> bool" where
  \<comment> \<open>\<^verbatim>\<open>left <= right\<close> on strings\<close>
  "string_le a b \<longleftrightarrow> lexordp_eq (map code a) (map code b)"

definition probe_le :: "probe \<Rightarrow> probe \<Rightarrow> bool" where
  \<comment> \<open>the comparator does not give a positive number\<close>
  "probe_le l r \<longleftrightarrow>
     (case (pb_oldest l, pb_oldest r) of
        (None, Some _) \<Rightarrow> True
      | (Some _, None) \<Rightarrow> False
      | (Some a, Some b) \<Rightarrow> if a \<noteq> b then a < b else string_le (pb_route_id l) (pb_route_id r)
      | (None, None) \<Rightarrow> string_le (pb_route_id l) (pb_route_id r))"

definition eligible_route :: "canary_route \<Rightarrow> bool" where
  "eligible_route route \<longleftrightarrow> cr_decision_kind route \<noteq> ''sink'' \<and> cr_decision_kind route \<in> set ROUTE_KINDS"

definition selectProbeRotation :: "platform \<Rightarrow> canary_route list \<Rightarrow> int \<Rightarrow> nat \<Rightarrow> (string \<times> string) list" where
  \<comment> \<open>the route ids and the reasons\<close>
  "selectProbeRotation pf routes now limit =
     map (\<lambda>p. (pb_route_id p, pb_reason p))
       (take limit (sort_by probe_le (map (probe_of pf now) (filter eligible_route routes))))"

section \<open>The report\<close>

datatype canary_status = Canary_Failed | Canary_Unverified | Configuration_Current | Receipts_Current

fun canary_status_name :: "canary_status \<Rightarrow> string" where
  "canary_status_name Canary_Failed = ''failed''"
| "canary_status_name Canary_Unverified = ''unverified''"
| "canary_status_name Configuration_Current = ''configuration_current''"
| "canary_status_name Receipts_Current = ''receipts_current''"

record canary_report =
  rp_checked_at :: string
  rp_status :: canary_status
  rp_policy_sha256 :: string
  rp_expected_routes :: int
  rp_observed_routes :: nat
  rp_excluded_routes :: nat
  rp_current_routes :: nat
  rp_configuration_routes :: nat
  rp_inbox_proofs_fresh :: nat
  rp_reply_proofs_fresh :: nat
  rp_inbox_proofs_recorded :: nat
  rp_reply_proofs_recorded :: nat
  rp_probe_due :: nat
  rp_issues :: "(string \<times> nat) list"
  rp_operational :: "(string \<times> status_read) list"

record tally =
  \<comment> \<open>the variables of the loop\<close>
  ta_issues :: "(string \<times> nat) list"
  ta_operational :: "(string \<times> status_read) list"
  ta_failed :: bool
  ta_excluded :: nat
  ta_current :: nat
  ta_configuration :: nat
  ta_eligible :: nat
  ta_inboxFresh :: nat
  ta_replyFresh :: nat
  ta_inboxRecorded :: nat
  ta_replyRecorded :: nat

fun bump :: "string \<Rightarrow> (string \<times> nat) list \<Rightarrow> (string \<times> nat) list" where
  \<comment> \<open>\<^verbatim>\<open>issues[code] = (issues[code] ?? 0) + 1\<close>\<close>
  "bump k [] = [(k, 1)]"
| "bump k ((j, n) # kvs) = (if j = k then (j, Suc n) # kvs else (j, n) # bump k kvs)"

definition bump_if :: "bool \<Rightarrow> string \<Rightarrow> (string \<times> nat) list \<Rightarrow> (string \<times> nat) list" where
  "bump_if c k kvs = (if c then bump k kvs else kvs)"

definition issue :: "string \<Rightarrow> tally \<Rightarrow> tally" where
  "issue k t = t\<lparr>ta_issues := bump k (ta_issues t)\<rparr>"

definition snapshot_issues :: "canary_snapshot \<Rightarrow> string \<Rightarrow> string \<Rightarrow> (string \<times> nat) list" where
  \<comment> \<open>what is wrong before any route is looked at\<close>
  "snapshot_issues s inbound reply =
     bump_if (reply \<noteq> ''enabled'') ''reply_processing_disabled''
    (bump_if (inbound \<noteq> ''enabled'') ''inbound_processing_disabled''
    (bump_if (\<not> safe_count (cs_expected_routes s) \<or> cs_expected_routes s \<le> 0 \<or>
              cs_expected_routes s \<noteq> int (length (cs_routes s)) \<or> \<not> distinct (map cr_route_id (cs_routes s)))
       ''route_inventory_incomplete''
    (bump_if (\<not> is_sha256_hex (cs_policy_sha256 s)) ''active_policy_missing'' [])))"

definition route_failed :: "canary_route \<Rightarrow> bool" where
  "route_failed route \<longleftrightarrow>
     outcome_bad (deliveryOutcome (cr_inbound_status route)) \<or> outcome_bad (deliveryOutcome (cr_reply_status route))"

definition fresh_proof :: "platform \<Rightarrow> string option \<Rightarrow> int \<Rightarrow> int \<Rightarrow> bool" where
  "fresh_proof pf value now maxAge \<longleftrightarrow> proofFreshness pf value now maxAge = Fresh"

definition route_read :: "services \<Rightarrow> string \<Rightarrow> int \<Rightarrow> canary_route \<Rightarrow> status_read" where
  "route_read sv policySha256 now route =
     readRouteStatusProjection (sv_platform sv) (sv_json_parse sv) (cr_operational_status route) policySha256
       (JInt (cr_status_generation route)) (Some now)"

definition count_proofs :: "platform \<Rightarrow> int \<Rightarrow> int \<Rightarrow> canary_route \<Rightarrow> tally \<Rightarrow> tally" where
  \<comment> \<open>a route that is in order\<close>
  "count_proofs pf now maxAge route t =
     (let inbox = cr_last_inbox_verified_at route; reply = cr_last_reply_verified_at route;
          one = (\<lambda>c. if c then Suc 0 else 0) in
      t\<lparr>ta_configuration := Suc (ta_configuration t), ta_eligible := Suc (ta_eligible t),
        ta_inboxRecorded := ta_inboxRecorded t + one (proofMillis pf inbox now \<noteq> None),
        ta_replyRecorded := ta_replyRecorded t + one (proofMillis pf reply now \<noteq> None),
        ta_inboxFresh := ta_inboxFresh t + one (fresh_proof pf inbox now maxAge),
        ta_replyFresh := ta_replyFresh t + one (fresh_proof pf reply now maxAge),
        ta_current := ta_current t + one (fresh_proof pf inbox now maxAge \<and> fresh_proof pf reply now maxAge)\<rparr>)"

definition tally_route :: "services \<Rightarrow> string \<Rightarrow> int \<Rightarrow> int \<Rightarrow> tally \<Rightarrow> canary_route \<Rightarrow> tally" where
  \<comment> \<open>the body of the loop\<close>
  "tally_route sv policySha256 now maxAge t0 route =
     (let read = route_read sv policySha256 now route;
          t1 = t0\<lparr>ta_operational := ta_operational t0 @ [(cr_route_id route, read)]\<rparr>;
          t = (case operationalReadinessBlocker read of None \<Rightarrow> t1 | Some blocker \<Rightarrow> issue blocker t1) in
      if cr_health_policy_sha256 route \<noteq> Some policySha256 then issue ''route_health_revision_missing'' t
      else if cr_decision_kind route = ''sink'' then
        (let t' = t\<lparr>ta_excluded := Suc (ta_excluded t)\<rparr> in
         if cr_inbound_status route \<noteq> Some ''intentionally_excluded'' \<or> cr_reply_status route \<noteq> Some ''intentionally_excluded''
         then issue ''sink_disposition_missing'' t'
         else t'\<lparr>ta_configuration := Suc (ta_configuration t')\<rparr>)
      else if cr_decision_kind route \<notin> set ROUTE_KINDS then issue ''route_kind_invalid'' t
      else if route_failed route then issue ''route_delivery_failed'' (t\<lparr>ta_failed := True\<rparr>)
      else count_proofs (sv_platform sv) now maxAge route t)"

definition empty_tally :: "(string \<times> nat) list \<Rightarrow> tally" where
  "empty_tally issues =
     \<lparr> ta_issues = issues, ta_operational = [], ta_failed = False, ta_excluded = 0, ta_current = 0, ta_configuration = 0,
       ta_eligible = 0, ta_inboxFresh = 0, ta_replyFresh = 0, ta_inboxRecorded = 0, ta_replyRecorded = 0 \<rparr>"

definition tally_snapshot :: "services \<Rightarrow> canary_snapshot \<Rightarrow> int \<Rightarrow> int \<Rightarrow> string \<Rightarrow> string \<Rightarrow> tally" where
  "tally_snapshot sv s now maxAge inbound reply =
     foldl (tally_route sv (cs_policy_sha256 s) now maxAge) (empty_tally (snapshot_issues s inbound reply)) (cs_routes s)"

definition tally_status :: "tally \<Rightarrow> canary_status" where
  "tally_status t =
     (if ta_failed t then Canary_Failed
      else if ta_issues t \<noteq> [] then Canary_Unverified
      else if 0 < ta_eligible t \<and> ta_current t < ta_eligible t then Configuration_Current
      else Receipts_Current)"

definition reportRoutes ::
  "services \<Rightarrow> canary_snapshot \<Rightarrow> int \<Rightarrow> int \<Rightarrow> string \<Rightarrow> string \<Rightarrow> int \<Rightarrow> string + canary_report" where
  \<comment> \<open>the two strings are the processing modes, the last number the size of the rotation\<close>
  "reportRoutes sv s now maxProofAgeMs inbound reply probeBatch =
     (if maxProofAgeMs \<le> 0 then Inl ''invalid canary clock or proof age''
      else if probeBatch < 1 \<or> 8 < probeBatch then Inl ''invalid canary probe batch''
      else (let t = tally_snapshot sv s now maxProofAgeMs inbound reply in
        Inr \<lparr> rp_checked_at = pf_to_iso (sv_platform sv) now, rp_status = tally_status t,
          rp_policy_sha256 = cs_policy_sha256 s, rp_expected_routes = cs_expected_routes s,
          rp_observed_routes = length (cs_routes s), rp_excluded_routes = ta_excluded t, rp_current_routes = ta_current t,
          rp_configuration_routes = ta_configuration t, rp_inbox_proofs_fresh = ta_inboxFresh t,
          rp_reply_proofs_fresh = ta_replyFresh t, rp_inbox_proofs_recorded = ta_inboxRecorded t,
          rp_reply_proofs_recorded = ta_replyRecorded t,
          rp_probe_due = length (selectProbeRotation (sv_platform sv) (cs_routes s) now (nat probeBatch)),
          rp_issues = ta_issues t, rp_operational = ta_operational t \<rparr>))"

section \<open>The report as text\<close>

definition read_state_name :: "read_state \<Rightarrow> string" where
  "read_state_name s = (case s of Read_Current \<Rightarrow> ''current'' | Read_Stale \<Rightarrow> ''stale'' | Read_Unknown \<Rightarrow> ''unknown'')"

definition report_fields :: "canary_report \<Rightarrow> (string \<times> jv) list" where
  \<comment> \<open>without \<^verbatim>\<open>checked_at\<close>, in the order of the object\<close>
  "report_fields r =
     (let n = (\<lambda>k. JInt (int k)) in
      [(''schema_version'', JInt 2), (''status'', JString (canary_status_name (rp_status r))),
       (''policy_sha256'', JString (rp_policy_sha256 r)), (''expected_routes'', JInt (rp_expected_routes r)),
       (''observed_routes'', n (rp_observed_routes r)), (''excluded_routes'', n (rp_excluded_routes r)),
       (''current_routes'', n (rp_current_routes r)), (''configuration_routes'', n (rp_configuration_routes r)),
       (''inbox_proofs_fresh'', n (rp_inbox_proofs_fresh r)), (''reply_proofs_fresh'', n (rp_reply_proofs_fresh r)),
       (''inbox_proofs_recorded'', n (rp_inbox_proofs_recorded r)), (''reply_proofs_recorded'', n (rp_reply_proofs_recorded r)),
       (''probe_due'', n (rp_probe_due r)), (''issues'', JObject (map (\<lambda>(k, v). (k, n v)) (rp_issues r))),
       (''operational_status'', JArray (map (\<lambda>(i, read). JObject
          [(''route_id'', JString i), (''state'', JString (read_state_name (sr_state read))),
           (''status'', case sr_status read of None \<Rightarrow> JNull | Some v \<Rightarrow> v), (''reason'', jopt (sr_reason read))]) (rp_operational r))),
       (''provider_inventory_checked'', JBool False), (''live_probe_sent'', JBool False)])"

definition stable_report :: "canary_report \<Rightarrow> jv" where
  "stable_report r = JObject (report_fields r)"

definition report_json :: "canary_report \<Rightarrow> jv" where
  "report_json r = JObject
     (hd (report_fields r) # (''checked_at'', JString (rp_checked_at r)) # tl (report_fields r))"

definition operational_word :: "string \<times> status_read \<Rightarrow> string" where
  \<comment> \<open>an undefined entry of \<^verbatim>\<open>join\<close> is empty\<close>
  "operational_word row =
     (case row of (_, read) \<Rightarrow>
        if sr_state read = Read_Current
        then with_default [] (Option.bind (sr_status read) (\<lambda>s. as_string (js_get s ''classification'')))
        else read_state_name (sr_state read))"

definition notificationText :: "canary_report \<Rightarrow> string" where
  "notificationText r =
     (let n = (\<lambda>k. show_int (int k)) in
      join [CHR 0x0A]
        ([''Maildesk route canary at '' @ rp_checked_at r,
          ''Status: '' @ canary_status_name (rp_status r),
          ''Active routes: '' @ n (rp_observed_routes r) @ ''/'' @ show_int (rp_expected_routes r),
          ''Configuration reads: '' @ n (rp_configuration_routes r),
          ''Operational states: '' @ (case join '', '' (map operational_word (rp_operational r)) of [] \<Rightarrow> ''unknown'' | s \<Rightarrow> s),
          ''Independent inbox proofs inside the window: '' @ n (rp_inbox_proofs_fresh r) @ ''; recorded: '' @ n (rp_inbox_proofs_recorded r),
          ''Independent reply proofs inside the window: '' @ n (rp_reply_proofs_fresh r) @ ''; recorded: '' @ n (rp_reply_proofs_recorded r),
          ''Independent receipt pairs inside the window: '' @ n (rp_current_routes r) @ ''; intentionally excluded: '' @ n (rp_excluded_routes r),
          ''Probe rotation selected: '' @ n (rp_probe_due r)] @
         map (\<lambda>(k, v). k @ '': '' @ n v) (rp_issues r) @
         [''This run read every active route's configuration and recorded the last independent proof per path.'',
          ''It selected the next inbox and reply probe rotation and did not send those probes.'',
          ''It did not check live provider inventory.'',
          ''Provider acceptance of this notification is separate from receipt in your inbox.'']))"

end
