(* ===== verification/Canary.thy ===== *)
theory Canary
  imports Canary_Report
begin

text \<open>
  \<^verbatim>\<open>workers/mail-canary/src/index.ts\<close>: the scheduled run that reads every active route, records the ledger of proofs and
  sends a notification, and \<^verbatim>\<open>workers/mail-heartbeat/src/index.ts\<close>, which pings an external monitor while the ledger
  is recent. One row of \<^verbatim>\<open>mail_canary_state\<close> is shared by both: an attempt is claimed before its message is sent.
\<close>

section \<open>The environment\<close>

record canary_env =
  ce_POLICY_STORE :: bool
  ce_EMAIL :: bool
  ce_MODE :: "string option"
  ce_FROM :: "string option"
  ce_TO :: "string option"
  ce_MAX_PROOF_AGE_HOURS :: "string option"
  ce_PROBE_BATCH :: "string option"
  ce_INBOUND_MODE :: "string option"
  ce_REPLY_MODE :: "string option"

definition HOUR :: int where
  "HOUR = 3600000"

definition canary_services :: "services \<Rightarrow> canary_env \<Rightarrow> services" where
  \<comment> \<open>\<^verbatim>\<open>{ ...env, MAILDESK_OPERATOR_DELIVERY_MODE: "inbox_relay" }\<close>\<close>
  "canary_services sv env = sv\<lparr>sv_env := empty_env\<lparr>env_DB := True, env_POLICY_STORE := ce_POLICY_STORE env,
     env_OPERATOR_DELIVERY_MODE := Some ''inbox_relay''\<rparr>\<rparr>"

definition mailbox_local_char :: "char \<Rightarrow> bool" where
  "mailbox_local_char c \<longleftrightarrow> is_alnum c \<or> c \<in> set ''.!#$%&'*+/=?^_`{|}~-''"

definition mailbox_domain_char :: "char \<Rightarrow> bool" where
  "mailbox_domain_char c \<longleftrightarrow> is_alnum c \<or> c = CHR ''.'' \<or> c = CHR ''-''"

definition mailbox_shape :: "string \<Rightarrow> bool" where
  \<comment> \<open>the regular expression; the last dot stands before the top-level domain\<close>
  "mailbox_shape value \<longleftrightarrow>
     (case split_on (CHR ''@'') value of
        [local_part, domain] \<Rightarrow>
          local_part \<noteq> [] \<and> list_all mailbox_local_char local_part \<and>
          (let dot = last_index_of (CHR ''.'') domain; top = drop (nat (dot + 1)) domain in
           0 < dot \<and> list_all mailbox_domain_char (take (nat dot) domain) \<and>
           2 \<le> length top \<and> list_all (\<lambda>c. is_lower_az c \<or> is_upper_az c) top)
      | _ \<Rightarrow> False)"

definition canary_mailbox :: "string option \<Rightarrow> string + string" where
  "canary_mailbox value =
     (case value of
        None \<Rightarrow> Inl ''canary requires explicit notification addresses''
      | Some v \<Rightarrow> if mailbox_shape v then Inr (lower v) else Inl ''canary requires explicit notification addresses'')"

definition bounded_number :: "services \<Rightarrow> string option \<Rightarrow> int \<Rightarrow> int \<Rightarrow> int \<Rightarrow> string \<Rightarrow> string + int" where
  \<comment> \<open>\<^verbatim>\<open>Number(value ?? default)\<close> between the bounds\<close>
  "bounded_number sv value initial lo hi message =
     (case (case value of None \<Rightarrow> Some initial | Some v \<Rightarrow> sv_number sv v) of
        None \<Rightarrow> Inl message
      | Some n \<Rightarrow> if n < lo \<or> hi < n then Inl message else Inr n)"

section \<open>Reading the routes\<close>

definition role_sender :: "string \<Rightarrow> db \<Rightarrow> bool" where
  \<comment> \<open>the query for the sender finds it\<close>
  "role_sender address d \<longleftrightarrow>
     list_ex (\<lambda>ar. ar_enabled ar \<and> ar_decision_kind ar \<noteq> ''sink'' \<and>
       ar_policy_sha256 ar \<noteq> None \<and> ar_policy_sha256 ar = active_policy d \<and>
       list_ex (\<lambda>i. id_id i = ar_default_reply_identity_id ar \<and> id_kind i = ''role'' \<and> id_address i = address) (db_identities d))
     (db_routes d)"

fun max_text :: "string list \<Rightarrow> string option" where
  \<comment> \<open>\<^verbatim>\<open>MAX\<close> of a TEXT column\<close>
  "max_text [] = None"
| "max_text (x # xs) = (case max_text xs of None \<Rightarrow> Some x | Some y \<Rightarrow> Some (if string_le x y then y else x))"

definition canary_route_of :: "string \<Rightarrow> db \<Rightarrow> route_row \<Rightarrow> canary_route option" where
  "canary_route_of policySha256 d ar =
     (case inventory_of d ar of
        None \<Rightarrow> None
      | Some row \<Rightarrow>
          let rh = first_row (\<lambda>h. rh_route_id h = ar_id ar \<and> rh_policy_sha256 h = Some policySha256) (db_health d);
              sp = first_row (\<lambda>s. st_route_id s = ar_id ar) (db_status d) in
          Some \<lparr> cr_inventory = row, cr_status_generation = ar_status_generation ar,
            cr_operational_status = (case sp of None \<Rightarrow> JNull | Some s \<Rightarrow> JString (json_stringify (st_projection s))),
            cr_health_policy_sha256 = Option.bind rh rh_policy_sha256,
            cr_inbound_status = map_option rh_inbound_status rh, cr_reply_status = map_option rh_reply_status rh,
            cr_last_inbox_verified_at = Option.bind rh rh_last_inbox_verified_at,
            cr_last_reply_verified_at = Option.bind rh rh_last_reply_verified_at,
            cr_edge_verified_at = max_text (map pv_verified_at (filter (\<lambda>p. pv_route_id p = ar_id ar \<and>
              pv_policy_sha256 p = policySha256 \<and> pv_proof_kind p = ''edge_verified'') (db_proofs d))) \<rparr>)"

definition canary_routes :: "string \<Rightarrow> db \<Rightarrow> canary_route list" where
  \<comment> \<open>\<^verbatim>\<open>ROUTES_SQL\<close>\<close>
  "canary_routes policySha256 d =
     take 10001 (order_by cr_route_id (List.map_filter (canary_route_of policySha256 d)
       (filter (\<lambda>ar. ar_enabled ar \<and> ar_policy_sha256 ar = Some policySha256 \<and> active_policy d = Some policySha256) (db_routes d))))"

definition expected_route_count :: "string \<Rightarrow> db \<Rightarrow> int option" where
  "expected_route_count policySha256 d =
     (if active_policy d \<noteq> Some policySha256 then None
      else map_option (\<lambda>p. int (pr_expected_route_count p)) (first_row (\<lambda>p. pr_policy_sha256 p = policySha256) (db_revisions d)))"

definition unverified_report :: "services \<Rightarrow> int \<Rightarrow> canary_report" where
  \<comment> \<open>when the inventory cannot be read\<close>
  "unverified_report sv now =
     \<lparr> rp_checked_at = pf_to_iso (sv_platform sv) now, rp_status = Canary_Unverified, rp_policy_sha256 = [],
       rp_expected_routes = 0, rp_observed_routes = 0, rp_excluded_routes = 0, rp_current_routes = 0,
       rp_configuration_routes = 0, rp_inbox_proofs_fresh = 0, rp_reply_proofs_fresh = 0, rp_inbox_proofs_recorded = 0,
       rp_reply_proofs_recorded = 0, rp_probe_due = 0, rp_issues = [(''policy_or_route_inventory_unavailable'', 1)],
       rp_operational = [] \<rparr>"

definition report_of_routes ::
  "services \<Rightarrow> canary_env \<Rightarrow> active_policy_value \<Rightarrow> int \<Rightarrow> canary_route list \<Rightarrow> int \<Rightarrow> int \<Rightarrow> int \<Rightarrow> string + canary_report" where
  "report_of_routes sv env active expected routes now hours limit =
     (if 10000 < length routes then Inl ''route inventory unavailable''
      else bindE (assertPolicyRoutes sv (ap_policy active) routes) (\<lambda>_.
        reportRoutes sv \<lparr> cs_policy_sha256 = ap_sha256 active, cs_expected_routes = expected, cs_routes = routes \<rparr> now
          (hours * HOUR) (with_default ''disabled'' (ce_INBOUND_MODE env)) (with_default ''disabled'' (ce_REPLY_MODE env)) limit))"

definition read_inventory ::
  "services \<Rightarrow> canary_env \<Rightarrow> int \<Rightarrow> int \<Rightarrow> int \<Rightarrow> (canary_report \<times> (string \<times> canary_route list) option) act" where
  \<comment> \<open>the report, and the routes when they could be read\<close>
  "read_inventory sv env now hours limit =
     (let csv = canary_services sv env in
      tryCatch
        (andThen (loadActivePolicy csv) (\<lambda>loaded.
           case loaded of
             None \<Rightarrow> throw (Err ''active policy unavailable'')
           | Some active \<Rightarrow>
               andThen (d1 (query (\<lambda>_ d. expected_route_count (ap_sha256 active) d))) (\<lambda>revision.
                 case revision of
                   None \<Rightarrow> throw (Err ''policy changed during canary'')
                 | Some expected \<Rightarrow>
                     andThen (d1 (query (\<lambda>_ d. canary_routes (ap_sha256 active) d))) (\<lambda>routes.
                     andThen (liftE (report_of_routes csv env active expected routes now hours limit)) (\<lambda>report.
                       ret (report, Some (ap_sha256 active, routes)))))))
        (\<lambda>_. ret (unverified_report sv now, None)))"

section \<open>The ledger\<close>

type_synonym ledger_entry = "string \<times> string \<times> int option"

definition LEDGER_CHUNK :: nat where
  "LEDGER_CHUNK = 2000"

definition coverage_rows :: "platform \<Rightarrow> canary_route list \<Rightarrow> int \<Rightarrow> ledger_entry list" where
  "coverage_rows pf routes now =
     concat (map (\<lambda>route.
       [(cr_route_id route, ''configuration'', Some now),
        (cr_route_id route, ''inbox'', proofMillis pf (cr_last_inbox_verified_at route) now),
        (cr_route_id route, ''reply'', proofMillis pf (cr_last_reply_verified_at route) now),
        (cr_route_id route, ''edge'', proofMillis pf (cr_edge_verified_at route) now)]) routes)"

function chunks :: "nat \<Rightarrow> 'a list \<Rightarrow> 'a list list" where
  \<comment> \<open>the slices of the loop; the size is positive\<close>
  "chunks n xs = (if xs = [] \<or> n = 0 then [] else take n xs # chunks n (drop n xs))"
  by pat_completeness auto
termination by (relation "measure (\<lambda>(n, xs). length xs)") auto

declare chunks.simps [simp del]

definition known_route :: "string \<Rightarrow> db \<Rightarrow> bool" where
  "known_route i d \<longleftrightarrow> list_ex (\<lambda>ar. ar_id ar = i) (db_routes d)"

definition known_policy :: "string \<Rightarrow> db \<Rightarrow> bool" where
  "known_policy p d \<longleftrightarrow> list_ex (\<lambda>r. pr_policy_sha256 r = p) (db_revisions d)"

definition at_entry :: "ledger_entry \<Rightarrow> ledger_row \<Rightarrow> bool" where
  "at_entry e r \<longleftrightarrow> lg_route_id r = fst e \<and> lg_plane r = fst (snd e)"

definition entry_changes :: "string \<Rightarrow> ledger_entry \<Rightarrow> ledger_row \<Rightarrow> bool" where
  \<comment> \<open>the condition of the update\<close>
  "entry_changes policySha256 e r \<longleftrightarrow>
     lg_policy_sha256 r \<noteq> policySha256 \<or> (lg_plane r \<noteq> ''configuration'' \<and> lg_verified_at_ms r \<noteq> snd (snd e))"

definition entry_row :: "string \<Rightarrow> int \<Rightarrow> ledger_entry \<Rightarrow> ledger_row" where
  "entry_row policySha256 now e =
     \<lparr> lg_route_id = fst e, lg_plane = fst (snd e), lg_policy_sha256 = policySha256, lg_verified_at_ms = snd (snd e),
       lg_updated_at_ms = now \<rparr>"

definition upsert_entry :: "string \<Rightarrow> int \<Rightarrow> ledger_entry \<Rightarrow> nat statement" where
  \<comment> \<open>one row of \<^verbatim>\<open>LEDGER_UPSERT\<close>, with the foreign keys\<close>
  "upsert_entry policySha256 now e t d =
     (case first_row (at_entry e) (db_ledger d) of
        None \<Rightarrow>
          if \<not> known_route (fst e) d \<or> \<not> known_policy policySha256 d then Inl (Err ''FOREIGN KEY constraint failed'')
          else Inr (1, d\<lparr>db_ledger := db_ledger d @ [entry_row policySha256 now e]\<rparr>)
      | Some r \<Rightarrow>
          if \<not> entry_changes policySha256 e r then Inr (0, d)
          else if \<not> known_policy policySha256 d then Inl (Err ''FOREIGN KEY constraint failed'')
          else Inr (1, d\<lparr>db_ledger := update_where (at_entry e) (\<lambda>_. entry_row policySha256 now e) (db_ledger d)\<rparr>))"

definition ledger_upsert :: "string \<Rightarrow> int \<Rightarrow> ledger_entry list \<Rightarrow> nat statement" where
  "ledger_upsert policySha256 now rows t d =
     (case batch (map (upsert_entry policySha256 now) rows) t d of
        Inl e \<Rightarrow> Inl e | Inr (ns, d') \<Rightarrow> Inr (sum_list ns, d'))"

definition clear_rotation :: "nat statement" where
  "clear_rotation t d = Inr (length (db_rotation d), d\<lparr>db_rotation := []\<rparr>)"

definition insert_rotation :: "int \<Rightarrow> (string \<times> string) list \<Rightarrow> nat statement" where
  "insert_rotation now rotation t d =
     (if \<not> distinct (map fst (db_rotation d) @ map fst rotation) then Inl (Err ''UNIQUE constraint failed'')
      else if \<not> list_all (\<lambda>p. known_route (fst p) d) rotation then Inl (Err ''FOREIGN KEY constraint failed'')
      else Inr (length rotation, d\<lparr>db_rotation := db_rotation d @ map (\<lambda>(i, reason). (i, now, reason)) rotation\<rparr>))"

definition update_canary :: "(canary_row \<Rightarrow> bool) \<Rightarrow> (canary_row \<Rightarrow> canary_row) \<Rightarrow> nat statement" where
  "update_canary P f t d =
     (case db_canary d of
        Some r \<Rightarrow> if P r then Inr (1, d\<lparr>db_canary := Some (f r)\<rparr>) else Inr (0, d)
      | None \<Rightarrow> Inr (0, d))"

definition coverage_batch :: "platform \<Rightarrow> string \<Rightarrow> canary_route list \<Rightarrow> int \<Rightarrow> nat \<Rightarrow> nat statement list" where
  "coverage_batch pf policySha256 routes now limit =
     [clear_rotation, insert_rotation now (selectProbeRotation pf routes now limit)] @
     map (ledger_upsert policySha256 now) (chunks LEDGER_CHUNK (coverage_rows pf routes now)) @
     [update_canary (\<lambda>_. True) (\<lambda>r. r\<lparr>cn_last_coverage_at_ms := now\<rparr>)]"

definition recordCoverage :: "services \<Rightarrow> string \<Rightarrow> canary_route list \<Rightarrow> int \<Rightarrow> nat \<Rightarrow> unit act" where
  "recordCoverage sv policySha256 routes now limit =
     andThen (d1 (batch (coverage_batch (sv_platform sv) policySha256 routes now limit))) (\<lambda>changes.
       if last changes = 0 then throw (Err ''proof ledger persistence failed'') else ret ())"

section \<open>The notification\<close>

definition claim_attempt :: "string \<Rightarrow> string \<Rightarrow> int \<Rightarrow> nat statement" where
  \<comment> \<open>before the external send: competing runs cannot send twice\<close>
  "claim_attempt attempt hash before =
     update_canary (\<lambda>r. cn_attempt_state r = ''idle'' \<and>
         (cn_last_report_sha256 r \<noteq> Some hash \<or> cn_last_notified_at_ms r \<le> before))
       (\<lambda>r. r\<lparr>cn_attempt_id := Some attempt, cn_attempt_state := ''sending''\<rparr>)"

definition sending_attempt :: "string \<Rightarrow> canary_row \<Rightarrow> bool" where
  "sending_attempt attempt r \<longleftrightarrow> cn_attempt_id r = Some attempt \<and> cn_attempt_state r = ''sending''"

definition finish_attempt_row :: "string \<Rightarrow> string \<Rightarrow> int \<Rightarrow> nat statement" where
  "finish_attempt_row attempt hash now =
     update_canary (sending_attempt attempt)
       (\<lambda>r. r\<lparr>cn_attempt_state := ''idle'', cn_last_report_sha256 := Some hash, cn_last_notified_at_ms := now\<rparr>)"

definition audit_notification :: "string \<Rightarrow> canary_report \<Rightarrow> string \<Rightarrow> nat statement" where
  "audit_notification attempt report messageId t d =
     (if list_ex (\<lambda>r. ae_id r = attempt) (db_audit d) then Inl (Err ''UNIQUE constraint failed'')
      else Inr (1, d\<lparr>db_audit := db_audit d @ [\<lparr> ae_id = attempt, ae_dedupe_key = None, ae_thread_id = None,
             ae_actor = ''mail_canary'', ae_action = ''canary_notification_provider_accepted'',
             ae_detail = Some (JObject [(''report'', report_json report), (''provider_message_id'', JString messageId)]) \<rparr>]\<rparr>))"

definition mark_uncertain :: "string \<Rightarrow> nat statement" where
  "mark_uncertain attempt = update_canary (sending_attempt attempt) (\<lambda>r. r\<lparr>cn_attempt_state := ''uncertain''\<rparr>)"

definition notification_email :: "string \<Rightarrow> string \<Rightarrow> canary_report \<Rightarrow> email_message" where
  \<comment> \<open>it has no reply address, which is the empty text here\<close>
  "notification_email from_address to_address report =
     \<lparr> em_from_email = from_address, em_from_name = None, em_to = [to_address], em_cc = None, em_bcc = None, em_reply_to = [],
       em_subject = ''Maildesk canary: '' @ canary_status_name (rp_status report),
       em_text = Some (notificationText report), em_html = None, em_headers = [], em_attachments = None \<rparr>"

definition send_notification :: "string \<Rightarrow> string \<Rightarrow> string \<Rightarrow> string \<Rightarrow> canary_report \<Rightarrow> int \<Rightarrow> unit act" where
  \<comment> \<open>a claimed attempt: the message and its receipt\<close>
  "send_notification attempt hash from_address to_address report now =
     andThen (emailSend (notification_email from_address to_address report)) (\<lambda>messageId.
       if \<not> truthy messageId then throw (Err ''notification acceptance missing'')
       else andThen (d1 (batch [finish_attempt_row attempt hash now, audit_notification attempt report (the messageId)])) (\<lambda>saved.
         if hd saved = 0 then throw (Err ''notification receipt persistence failed'') else ret ()))"

definition uncertain_outcome :: "string \<Rightarrow> unit act" where
  \<comment> \<open>a timeout or failed persistence may follow acceptance: never replay it\<close>
  "uncertain_outcome attempt =
     andThen (d1 (mark_uncertain attempt)) (\<lambda>_.
       throw (Err ''canary notification outcome uncertain; inspect provider evidence before recovery''))"

definition notify_canary :: "services \<Rightarrow> string \<Rightarrow> string \<Rightarrow> canary_report \<Rightarrow> int \<Rightarrow> unit act" where
  "notify_canary sv from_address to_address report now =
     (let hash = sha sv (json_stringify (stable_report report)) in
      andThen (d1 (query (\<lambda>_ d. db_canary d))) (\<lambda>previous.
        if map_option cn_attempt_state previous \<noteq> Some ''idle''
        then throw (Err ''canary notification requires reconciliation of an incomplete attempt'')
        else andThen (randomUUID sv) (\<lambda>attempt.
             andThen (d1 (claim_attempt attempt hash (now - 24 * HOUR))) (\<lambda>claimed.
               if claimed = 0 then ret ()
               else tryCatch (send_notification attempt hash from_address to_address report now)
                      (\<lambda>_. uncertain_outcome attempt)))))"

section \<open>The run\<close>

definition ledger_failed :: "canary_report \<Rightarrow> canary_report" where
  "ledger_failed report =
     report\<lparr>rp_status := (if rp_status report = Canary_Failed then Canary_Failed else Canary_Unverified),
       rp_issues := (if map_of (rp_issues report) ''proof_ledger_unavailable'' = None
                     then rp_issues report @ [(''proof_ledger_unavailable'', 1)]
                     else map (\<lambda>(k, n). (k, if k = ''proof_ledger_unavailable'' then 1 else n)) (rp_issues report))\<rparr>"

definition with_coverage ::
  "services \<Rightarrow> canary_report \<Rightarrow> (string \<times> canary_route list) option \<Rightarrow> int \<Rightarrow> nat \<Rightarrow> canary_report act" where
  "with_coverage sv report coverage now limit =
     (case coverage of
        None \<Rightarrow> ret report
      | Some (policySha256, routes) \<Rightarrow>
          tryCatch (andThen (recordCoverage sv policySha256 routes now limit) (\<lambda>_. ret report)) (\<lambda>_. ret (ledger_failed report)))"

definition canary_settings :: "services \<Rightarrow> canary_env \<Rightarrow> string + (string \<times> string \<times> int \<times> int)" where
  \<comment> \<open>the sender, the recipient, the age of proofs in hours and the size of the rotation\<close>
  "canary_settings sv env =
     bindE (canary_mailbox (ce_FROM env)) (\<lambda>from_address.
     bindE (canary_mailbox (ce_TO env)) (\<lambda>to_address.
     bindE (bounded_number sv (ce_MAX_PROOF_AGE_HOURS env) 24 1 720 ''invalid canary proof age'') (\<lambda>hours.
     bindE (bounded_number sv (ce_PROBE_BATCH env) 3 1 8 ''invalid canary probe batch'') (\<lambda>limit.
       if \<not> ce_EMAIL env then Inl ''canary notification binding missing''
       else Inr (from_address, to_address, hours, limit)))))"

definition runCanary :: "services \<Rightarrow> canary_env \<Rightarrow> int \<Rightarrow> canary_report option act" where
  "runCanary sv env now =
     (if ce_MODE env = Some ''disabled'' then ret None
      else if ce_MODE env \<noteq> Some ''enabled'' then throw (Err ''canary mode must be explicit'')
      else andThen (liftE (canary_settings sv env)) (\<lambda>(from_address, to_address, hours, limit).
        andThen (d1 (query (\<lambda>_ d. role_sender from_address d))) (\<lambda>sender.
          if \<not> sender then throw (Err ''canary sender must be an active public role identity'')
          else andThen (read_inventory sv env now hours limit) (\<lambda>(report, coverage).
               andThen (with_coverage sv report coverage now (nat limit)) (\<lambda>final.
               andThen (notify_canary sv from_address to_address final now) (\<lambda>_. ret (Some final)))))))"

definition scheduled_canary :: "services \<Rightarrow> canary_env \<Rightarrow> canary_report option act" where
  \<comment> \<open>the cron trigger; \<^verbatim>\<open>now = Date.now()\<close>\<close>
  "scheduled_canary sv env = andThen readClock (runCanary sv env)"

section \<open>The heartbeat\<close>

record heartbeat_env =
  hb_MODE :: "string option"
  hb_URL :: "string option"
  hb_MAX_AGE_HOURS :: "string option"

definition HEARTBEAT_REQUEST_TIMEOUT_MS :: int where
  "HEARTBEAT_REQUEST_TIMEOUT_MS = 5000"

definition heartbeatUrl :: "services \<Rightarrow> string option \<Rightarrow> string + string" where
  "heartbeatUrl sv value =
     (case sv_url sv (with_default [] value) of
        None \<Rightarrow> Inl ''heartbeat URL must be explicit https''
      | Some u \<Rightarrow>
          if ur_protocol u \<noteq> ''https:'' \<or> ur_username u \<noteq> [] \<or> ur_password u \<noteq> []
          then Inl ''heartbeat URL must be explicit https'' else Inr (ur_href u))"

definition coverage_recent :: "int \<Rightarrow> int \<Rightarrow> db \<Rightarrow> bool" where
  \<comment> \<open>\<^verbatim>\<open>configurationReady\<close>, on the row it reads\<close>
  "coverage_recent now maxAgeMs d \<longleftrightarrow>
     (case db_canary d of
        None \<Rightarrow> False
      | Some r \<Rightarrow> cn_attempt_state r = ''idle'' \<and> 0 < cn_last_notified_at_ms r \<and> 0 < cn_last_coverage_at_ms r \<and>
          cn_last_coverage_at_ms r \<le> now \<and> now - cn_last_coverage_at_ms r \<le> maxAgeMs)"

definition configurationReady :: "int \<Rightarrow> int \<Rightarrow> bool act" where
  "configurationReady now maxAgeMs = d1 (query (\<lambda>_ d. coverage_recent now maxAgeMs d))"

definition runHeartbeat :: "services \<Rightarrow> heartbeat_env \<Rightarrow> bool act" where
  \<comment> \<open>whether a ping was sent\<close>
  "runHeartbeat sv env =
     andThen readClock (\<lambda>now.
       if hb_MODE env = Some ''disabled'' then ret False
       else if hb_MODE env \<noteq> Some ''enabled'' then throw (Err ''heartbeat mode must be explicit'')
       else andThen (liftE (heartbeatUrl sv (hb_URL env))) (\<lambda>url.
            andThen (liftE (bounded_number sv (hb_MAX_AGE_HOURS env) 2 1 24 ''invalid heartbeat age'')) (\<lambda>hours.
            andThen (configurationReady now (hours * HOUR)) (\<lambda>ready.
              if \<not> ready
              then throw (Err ''heartbeat withheld; configuration ledger is stale or notification attempt is incomplete'')
              else andThen readClock (\<lambda>started.
                   andThen (pingPost (started + HEARTBEAT_REQUEST_TIMEOUT_MS) url) (\<lambda>status.
                     if status < 200 \<or> 299 < status then throw (Err ''heartbeat endpoint rejected the ping'')
                     else ret True))))))"

end
