(* ===== verification/Canary_Checks.thy ===== *)
theory Canary_Checks
  imports Canary
begin

text \<open>
  What the canary computes: when its report says that all receipts are current, which routes its rotation takes,
  and what one run of the ledger leaves behind.
\<close>

section \<open>The rotation\<close>

lemma string_le_linear: "string_le a b \<or> string_le b a"
  by (simp add: string_le_def lexordp_eq_linear)

lemma string_le_trans: "string_le a b \<Longrightarrow> string_le b c \<Longrightarrow> string_le a c"
  unfolding string_le_def by (rule lexordp_eq_trans)

lemma probe_le_linear: "probe_le p q \<or> probe_le q p"
  using string_le_linear [of "pb_route_id p" "pb_route_id q"]
  by (auto simp: probe_le_def split: option.splits)

lemma probe_le_trans: "probe_le p q \<Longrightarrow> probe_le q r \<Longrightarrow> probe_le p r"
  using string_le_trans [of "pb_route_id p" "pb_route_id q" "pb_route_id r"]
  by (auto simp: probe_le_def split: option.splits if_splits)

lemma rotation_prefix:
  fixes pf routes now
  defines "ps \<equiv> map (probe_of pf now) (filter eligible_route routes)"
  shows "\<exists>chosen rest. mset (chosen @ rest) = mset ps \<and> length chosen = min limit (length ps) \<and>
    selectProbeRotation pf routes now limit = map (\<lambda>p. (pb_route_id p, pb_reason p)) chosen \<and>
    sorted_wrt probe_le chosen \<and> (\<forall>p \<in> set chosen. \<forall>q \<in> set rest. probe_le p q)"
proof -
  let ?s = "sort_by probe_le ps"
  have m: "mset ?s = mset ps" by simp
  then have l: "length ?s = length ps" by (rule mset_eq_length)
  have "sorted_wrt probe_le ?s"
    by (rule sort_by_sorted) (rule probe_le_linear, rule probe_le_trans)
  then have w: "sorted_wrt probe_le (take limit ?s @ drop limit ?s)" by simp
  have a: "mset (take limit ?s @ drop limit ?s) = mset ps" using m by (simp only: append_take_drop_id)
  show ?thesis
  proof (intro exI conjI)
    show "mset (take limit ?s @ drop limit ?s) = mset ps" by (rule a)
    show "length (take limit ?s) = min limit (length ps)" by (simp add: l min.commute)
    show "selectProbeRotation pf routes now limit = map (\<lambda>p. (pb_route_id p, pb_reason p)) (take limit ?s)"
      by (simp add: selectProbeRotation_def ps_def)
    show "sorted_wrt probe_le (take limit ?s)" "\<forall>p \<in> set (take limit ?s). \<forall>q \<in> set (drop limit ?s). probe_le p q"
      using w unfolding sorted_wrt_append by blast+
  qed
qed

section \<open>The report\<close>

definition reports_no_issue :: "services \<Rightarrow> string \<Rightarrow> int \<Rightarrow> canary_route \<Rightarrow> bool" where
  "reports_no_issue sv policySha256 now route \<longleftrightarrow>
     operationalReadinessBlocker (route_read sv policySha256 now route) = None \<and>
     cr_health_policy_sha256 route = Some policySha256 \<and>
     (if cr_decision_kind route = ''sink''
      then cr_inbound_status route = Some ''intentionally_excluded'' \<and> cr_reply_status route = Some ''intentionally_excluded''
      else cr_decision_kind route \<in> set ROUTE_KINDS \<and> \<not> route_failed route)"

definition counted :: "string \<Rightarrow> canary_route \<Rightarrow> bool" where
  \<comment> \<open>an eligible route\<close>
  "counted policySha256 route \<longleftrightarrow>
     cr_health_policy_sha256 route = Some policySha256 \<and> eligible_route route \<and> \<not> route_failed route"

definition found_failed :: "string \<Rightarrow> canary_route \<Rightarrow> bool" where
  "found_failed policySha256 route \<longleftrightarrow>
     cr_health_policy_sha256 route = Some policySha256 \<and> eligible_route route \<and> route_failed route"

definition both_fresh :: "platform \<Rightarrow> int \<Rightarrow> int \<Rightarrow> canary_route \<Rightarrow> bool" where
  "both_fresh pf now maxAge route \<longleftrightarrow>
     fresh_proof pf (cr_last_inbox_verified_at route) now maxAge \<and> fresh_proof pf (cr_last_reply_verified_at route) now maxAge"

lemma bump_not_Nil [simp]: "bump k kvs \<noteq> []"
  by (induction k kvs rule: bump.induct) simp_all

lemma issue_fields [simp]:
  "ta_issues (issue k t) \<noteq> []" "ta_failed (issue k t) = ta_failed t" "ta_eligible (issue k t) = ta_eligible t"
  "ta_current (issue k t) = ta_current t"
  by (simp_all add: issue_def)

lemma sink_not_kind: "''sink'' \<notin> set ROUTE_KINDS"
  by (simp add: ROUTE_KINDS_def)

lemma tally_route_fields:
  "ta_issues (tally_route sv p now maxAge t route) = [] \<longleftrightarrow> ta_issues t = [] \<and> reports_no_issue sv p now route"
  "ta_failed (tally_route sv p now maxAge t route) \<longleftrightarrow> ta_failed t \<or> found_failed p route"
  "ta_eligible (tally_route sv p now maxAge t route) = ta_eligible t + (if counted p route then 1 else 0)"
  "ta_current (tally_route sv p now maxAge t route) =
     ta_current t + (if counted p route \<and> both_fresh (sv_platform sv) now maxAge route then 1 else 0)"
  using sink_not_kind
  by (auto simp: tally_route_def Let_def count_proofs_def reports_no_issue_def counted_def found_failed_def both_fresh_def
      eligible_route_def split: option.split)

lemma tally_fold:
  defines "run \<equiv> \<lambda>sv p now maxAge. foldl (tally_route sv p now maxAge)"
  shows "ta_issues (run sv p now maxAge t rs) = [] \<longleftrightarrow> ta_issues t = [] \<and> list_all (reports_no_issue sv p now) rs"
    "ta_failed (run sv p now maxAge t rs) \<longleftrightarrow> ta_failed t \<or> list_ex (found_failed p) rs"
    "ta_eligible (run sv p now maxAge t rs) = ta_eligible t + length (filter (counted p) rs)"
    "ta_current (run sv p now maxAge t rs) =
       ta_current t + length (filter (\<lambda>r. counted p r \<and> both_fresh (sv_platform sv) now maxAge r) rs)"
  unfolding run_def by (induction rs arbitrary: t; simp add: tally_route_fields conj_assoc disj_assoc)+

lemma filter_all_iff: "length (filter (\<lambda>r. P r \<and> Q r) rs) < length (filter P rs) \<longleftrightarrow> \<not> list_all (\<lambda>r. P r \<longrightarrow> Q r) rs"
proof -
  have "length (filter (\<lambda>r. P r \<and> Q r) rs) \<le> length (filter P rs)" for rs
    by (induction rs) auto
  then show ?thesis by (induction rs) (auto simp: not_less less_Suc_eq_le le_less)
qed

lemma report_status:
  assumes "reportRoutes sv s now maxAge inbound reply limit = Inr r"
  shows "rp_status r = Receipts_Current \<longleftrightarrow> snapshot_issues s inbound reply = [] \<and>
      list_all (\<lambda>route. reports_no_issue sv (cs_policy_sha256 s) now route \<and>
        (counted (cs_policy_sha256 s) route \<longrightarrow> both_fresh (sv_platform sv) now maxAge route)) (cs_routes s)"
    "rp_status r = Canary_Failed \<longleftrightarrow> list_ex (found_failed (cs_policy_sha256 s)) (cs_routes s)"
proof -
  let ?t = "tally_snapshot sv s now maxAge inbound reply"
  have r: "rp_status r = tally_status ?t"
    using assms by (auto simp: reportRoutes_def Let_def split: if_splits)
  have n: "reports_no_issue sv p now route \<Longrightarrow> \<not> found_failed p route" for p route
    using sink_not_kind by (auto simp: reports_no_issue_def found_failed_def eligible_route_def split: if_splits)
  have t: "ta_issues ?t = [] \<longleftrightarrow> snapshot_issues s inbound reply = [] \<and> list_all (reports_no_issue sv (cs_policy_sha256 s) now) (cs_routes s)"
    "ta_failed ?t \<longleftrightarrow> list_ex (found_failed (cs_policy_sha256 s)) (cs_routes s)"
    "ta_eligible ?t = length (filter (counted (cs_policy_sha256 s)) (cs_routes s))"
    "ta_current ?t = length (filter (\<lambda>r. counted (cs_policy_sha256 s) r \<and> both_fresh (sv_platform sv) now maxAge r) (cs_routes s))"
    by (simp_all add: tally_snapshot_def tally_fold empty_tally_def)
  show "rp_status r = Canary_Failed \<longleftrightarrow> list_ex (found_failed (cs_policy_sha256 s)) (cs_routes s)"
    by (simp add: r tally_status_def t(2))
  have "ta_current ?t < ta_eligible ?t \<longleftrightarrow>
      \<not> list_all (\<lambda>route. counted (cs_policy_sha256 s) route \<longrightarrow> both_fresh (sv_platform sv) now maxAge route) (cs_routes s)"
    unfolding t(3,4) by (rule filter_all_iff)
  then show "rp_status r = Receipts_Current \<longleftrightarrow> snapshot_issues s inbound reply = [] \<and>
      list_all (\<lambda>route. reports_no_issue sv (cs_policy_sha256 s) now route \<and>
        (counted (cs_policy_sha256 s) route \<longrightarrow> both_fresh (sv_platform sv) now maxAge route)) (cs_routes s)"
    using n by (auto simp: r tally_status_def t(1,2) list_all_iff list_ex_iff)
qed

lemma snapshot_issues_Nil:
  "snapshot_issues s inbound reply = [] \<longleftrightarrow> is_sha256_hex (cs_policy_sha256 s) \<and> safe_count (cs_expected_routes s) \<and>
     0 < cs_expected_routes s \<and> cs_expected_routes s = int (length (cs_routes s)) \<and>
     distinct (map cr_route_id (cs_routes s)) \<and> inbound = ''enabled'' \<and> reply = ''enabled''"
  by (auto simp: snapshot_issues_def bump_if_def)

end
