(* ===== verification/Canary_Safety.thy ===== *)
theory Canary_Safety
  imports Canary_Checks Inbound_Safety
begin

text \<open>
  Runs of the canary and of the heartbeat under failing calls and interference: a message is sent at most once
  per claimed attempt, an attempt whose outcome is open stops all further messages, the stamp of the ledger moves
  with the whole ledger, and a ping is sent only while that stamp is recent.
\<close>

section \<open>The attempt\<close>

definition canary_attempt :: "db \<Rightarrow> (string option \<times> int \<times> string option \<times> string) option" where
  \<comment> \<open>the row without the stamp of the ledger\<close>
  "canary_attempt d = map_option (\<lambda>r. (cn_last_report_sha256 r, cn_last_notified_at_ms r, cn_attempt_id r, cn_attempt_state r)) (db_canary d)"

definition idle :: "db \<Rightarrow> bool" where
  "idle d \<longleftrightarrow> map_option cn_attempt_state (db_canary d) = Some ''idle''"

definition untouched :: "db \<times> nat \<Rightarrow> db \<times> nat \<Rightarrow> bool" where
  "untouched s t \<longleftrightarrow> canary_attempt (fst t) = canary_attempt (fst s) \<and> snd t = snd s"

definition frozen :: "db \<times> nat \<Rightarrow> db \<times> nat \<Rightarrow> bool" where
  "frozen s t \<longleftrightarrow> idle (fst s) \<or> untouched s t"

definition reported :: "string \<Rightarrow> int \<Rightarrow> db \<Rightarrow> bool" where
  \<comment> \<open>an attempt is open, or the last one is on record\<close>
  "reported hash now d \<longleftrightarrow>
     (\<exists>r. db_canary d = Some r \<and>
        (cn_attempt_state r \<noteq> ''idle'' \<or> (cn_last_report_sha256 r = Some hash \<and> cn_last_notified_at_ms r = now)))"

definition keeps_reported :: "string \<Rightarrow> int \<Rightarrow> db \<times> nat \<Rightarrow> db \<times> nat \<Rightarrow> bool" where
  "keeps_reported hash now s t \<longleftrightarrow> (reported hash now (fst s) \<longrightarrow> reported hash now (fst t))"

lemma idle_attempt: "canary_attempt d' = canary_attempt d \<Longrightarrow> idle d' = idle d"
  by (cases "db_canary d"; cases "db_canary d'") (simp_all add: canary_attempt_def idle_def)

lemma reported_attempt: "canary_attempt d' = canary_attempt d \<Longrightarrow> reported hash now d' = reported hash now d"
  by (cases "db_canary d"; cases "db_canary d'") (simp_all add: canary_attempt_def reported_def)

lemma untouched_frozen: "others_respect untouched w \<Longrightarrow> others_respect frozen w"
  by (simp add: others_respect_def frozen_def)

lemma untouched_reported: "others_respect untouched w \<Longrightarrow> others_respect (keeps_reported hash now) w"
  unfolding others_respect_def untouched_def keeps_reported_def
  using reported_attempt [of _ _ hash now] by (metis fst_conv)

section \<open>Everything before the notification\<close>

locale canary_tables = effect_relation R step for R step +
  assumes unchanged: "step d d"
    and composed: "step a b \<Longrightarrow> step b c \<Longrightarrow> step a c"
    and rotation: "step d (d\<lparr>db_rotation := x1\<rparr>)"
    and ledger: "step d (d\<lparr>db_ledger := x2\<rparr>)"
    and stamp: "db_canary d = Some r \<Longrightarrow> step d (d\<lparr>db_canary := Some (r\<lparr>cn_last_coverage_at_ms := t\<rparr>)\<rparr>)"
begin

lemma ledger_upsert:
  assumes "Canary.ledger_upsert p now rows t d = Inr (n, d')"
  shows "step d d'"
proof -
  obtain ns where b: "batch (map (upsert_entry p now) rows) t d = Inr (ns, d')"
    using assms by (auto simp: Canary.ledger_upsert_def split: sum.splits prod.splits)
  show ?thesis
    by (rule batch_step [OF b])
       (auto simp: upsert_entry_def unchanged composed ledger split: option.splits if_splits)
qed

lemma recordCoverage: "preserves R (recordCoverage sv p routes now limit)"
proof -
  have "step d d'" if b: "batch (coverage_batch pf p routes now limit) t d = Inr (ns, d')" for pf t d ns d'
    by (rule batch_step [OF b])
       (auto simp: coverage_batch_def clear_rotation_def insert_rotation_def update_canary_def unchanged rotation stamp
         intro: ledger_upsert composed split: if_splits option.splits)
  then show ?thesis
    by (auto simp: recordCoverage_def intro!: run_rules if_split d1)
qed

lemma with_coverage: "preserves R (with_coverage sv report coverage now limit)"
  by (auto simp: with_coverage_def intro!: run_rules recordCoverage split: option.split)

lemma read_inventory: "preserves R (read_inventory sv env now hours limit)"
  by (auto simp: read_inventory_def Let_def intro!: run_rules d1_query loadActivePolicy split: option.split)

lemma scheduled_canary:
  assumes "\<And>from_address to_address report now. preserves R (notify_canary sv from_address to_address report now)"
  shows "preserves R (scheduled_canary sv env)"
  by (auto simp: scheduled_canary_def runCanary_def intro!: run_rules if_split d1_query read_inventory with_coverage assms split: prod.split)

end

lemma attempt_stamp:
  "db_canary d = Some r \<Longrightarrow> canary_attempt (d\<lparr>db_canary := Some (r\<lparr>cn_last_coverage_at_ms := t\<rparr>)\<rparr>) = canary_attempt d"
  "canary_attempt (d\<lparr>db_rotation := x1\<rparr>) = canary_attempt d" "canary_attempt (d\<lparr>db_ledger := x2\<rparr>) = canary_attempt d"
  by (simp_all add: canary_attempt_def)

interpretation untouched: trace_relation untouched
  by unfold_locales (auto simp: untouched_def)

interpretation untouched: canary_tables "under untouched" "\<lambda>d d'. \<forall>n. untouched (d, n) (d', n)"
  by unfold_locales (auto simp: untouched_def attempt_stamp)

interpretation frozen: trace_relation frozen
  by unfold_locales (auto simp: frozen_def untouched_def dest: idle_attempt)

interpretation frozen: canary_tables "under frozen" "\<lambda>d d'. \<forall>n. frozen (d, n) (d', n)"
  by unfold_locales (auto simp: frozen_def untouched_def attempt_stamp dest: idle_attempt)

interpretation reporting: trace_relation "keeps_reported hash now" for hash now
  by unfold_locales (auto simp: keeps_reported_def)

interpretation anything: trace_relation "\<lambda>_ _. True"
  by unfold_locales auto

section \<open>The notification\<close>

lemma update_canary_cases:
  assumes "update_canary P f t d = Inr (n, d')"
  obtains r where "db_canary d = Some r" "P r" "d' = d\<lparr>db_canary := Some (f r)\<rparr>" "n = 1"
  | "d' = d" "n = 0"
proof (cases "db_canary d")
  case None
  then show thesis using assms that(2) by (simp add: update_canary_def)
next
  case (Some r)
  show thesis
  proof (cases "P r")
    case True
    then show thesis using assms Some that(1) [of r] by (simp add: update_canary_def)
  next
    case False
    then show thesis using assms Some that(2) by (simp add: update_canary_def)
  qed
qed

lemma audit_canary: "audit_notification a report m t d = Inr (n, d') \<Longrightarrow> db_canary d' = db_canary d"
  by (auto simp: audit_notification_def split: if_splits)

lemma receipt_reported:
  assumes "batch [finish_attempt_row a hash now, audit_notification a report m] t d = Inr (ns, d')"
  shows "\<forall>n. keeps_reported hash now (d, n) (d', n)"
proof -
  obtain k e where s: "finish_attempt_row a hash now t d = Inr (k, e)" "\<exists>j. audit_notification a report m t e = Inr (j, d')"
    using assms by (auto split: sum.splits)
  have "db_canary d' = db_canary e" using s(2) audit_canary by blast
  then show ?thesis
    using s(1) unfolding finish_attempt_row_def
    by (elim update_canary_cases) (simp_all add: keeps_reported_def reported_def)
qed

lemma uncertain_reported: "mark_uncertain a t d = Inr (n, d') \<Longrightarrow> \<forall>n. keeps_reported hash now (d, n) (d', n)"
  unfolding mark_uncertain_def by (elim update_canary_cases) (simp_all add: keeps_reported_def reported_def)

lemma emailSend_reported: "preserves (under (keeps_reported hash now)) (emailSend m)"
  unfolding emailSend_def
  by (rule reporting.call) (auto simp: under_def seen_def keeps_reported_def Let_def split: list.splits mail_reply.splits)

lemma send_reported:
  "preserves (under (keeps_reported hash now))
     (tryCatch (send_notification a hash from_address to_address report now) (\<lambda>_. uncertain_outcome a))"
  by (auto simp: send_notification_def uncertain_outcome_def
      intro!: reporting.run_rules reporting.if_split reporting.d1 emailSend_reported
      dest: receipt_reported uncertain_reported [of _ _ _ _ _ hash now])

definition few_calls :: "db \<times> nat \<Rightarrow> db \<times> nat \<Rightarrow> bool" where
  "few_calls s t \<longleftrightarrow> snd t = snd s"

interpretation few_calls: trace_relation few_calls
  by unfold_locales (auto simp: few_calls_def)

lemma emailSend_count: "length (w_calls (snd (emailSend m w))) \<le> Suc (length (w_calls w))"
proof -
  obtain ending u where u: "begin_call w = (ending, u)" by (cases "begin_call w")
  have "w_calls u = w_calls w" using begin_call_snd [of w] u by auto
  then show ?thesis
    by (cases ending) (auto simp: emailSend_def call_def u Let_def split: list.splits mail_reply.splits)
qed

lemma silent_calls:
  assumes "preserves (under few_calls) m"
  shows "length (w_calls (snd (m w))) = length (w_calls w)"
  using preserves_underD [OF assms, of w] by (simp add: others_respect_def few_calls_def seen_def)

lemma send_count:
  "length (w_calls (snd (tryCatch (send_notification a hash from_address to_address report now) (\<lambda>_. uncertain_outcome a) w)))
     \<le> Suc (length (w_calls w))"
proof -
  let ?e = "emailSend (notification_email from_address to_address report)"
  let ?rest = "\<lambda>messageId. if \<not> truthy messageId then throw (Err ''notification acceptance missing'')
       else andThen (d1 (batch [finish_attempt_row a hash now, audit_notification a report (the messageId)])) (\<lambda>saved.
         if hd saved = 0 then throw (Err ''notification receipt persistence failed'') else ret ())"
  have d: "preserves (under few_calls) (d1 s)" for s :: "'a statement"
    by (rule few_calls.d1) (simp add: few_calls_def)
  have rest: "preserves (under few_calls) (?rest i)" for i
    by (auto intro!: few_calls.run_rules few_calls.if_split few_calls.d1 simp: few_calls_def)
  have unc: "preserves (under few_calls) (uncertain_outcome a :: unit act)"
    by (auto simp: uncertain_outcome_def few_calls_def intro!: few_calls.run_rules few_calls.d1)
  obtain r v where e: "?e w = (r, v)" by (cases "?e w")
  have v: "length (w_calls v) \<le> Suc (length (w_calls w))" using emailSend_count [of "notification_email from_address to_address report" w] e by simp
  show ?thesis
  proof (cases r)
    case (Inl x)
    then have "tryCatch (send_notification a hash from_address to_address report now) (\<lambda>_. uncertain_outcome a) w = uncertain_outcome a v"
      by (simp add: tryCatch_def send_notification_def andThen_def e)
    then show ?thesis using v silent_calls [OF unc, of v] by simp
  next
    case (Inr i)
    have "tryCatch (send_notification a hash from_address to_address report now) (\<lambda>_. uncertain_outcome a) w =
        tryCatch (?rest i) (\<lambda>_. uncertain_outcome a) v"
      using e Inr by (simp add: tryCatch_def send_notification_def andThen_def)
    moreover have "preserves (under few_calls) (tryCatch (?rest i) (\<lambda>_. uncertain_outcome a))"
      by (intro few_calls.tryCatch rest unc)
    ultimately show ?thesis using v silent_calls [of _ v] by metis
  qed
qed

lemma send_anything:
  "preserves (under (\<lambda>_ _. True)) (tryCatch (send_notification a hash from_address to_address report now) (\<lambda>_. uncertain_outcome a))"
proof -
  have "preserves (under (\<lambda>_ _. True)) (emailSend m)" for m
    unfolding emailSend_def by (rule anything.call) (auto simp: under_def Let_def split: list.splits mail_reply.splits)
  then show ?thesis
    by (auto simp: send_notification_def uncertain_outcome_def intro!: anything.run_rules anything.if_split anything.d1)
qed

lemma claim_refused: "\<not> idle d \<Longrightarrow> claim_attempt a hash before t d = Inr (0, d)"
  by (auto simp: claim_attempt_def update_canary_def idle_def split: option.splits)

lemma claimed_reported: "claim_attempt a hash before t d = Inr (n, d') \<Longrightarrow> n \<noteq> 0 \<Longrightarrow> reported hash now d'"
  unfolding claim_attempt_def by (elim update_canary_cases) (simp_all add: reported_def)

definition claimed_run :: "string \<Rightarrow> string \<Rightarrow> int \<Rightarrow> unit act \<Rightarrow> unit act" where
  \<comment> \<open>the claim and what runs under it\<close>
  "claimed_run a hash before run =
     andThen (d1 (claim_attempt a hash before)) (\<lambda>claimed. if claimed = 0 then ret () else run)"

lemma notify_claimed:
  "notify_canary sv from_address to_address report now =
     (let hash = sha sv (json_stringify (stable_report report)) in
      andThen (d1 (query (\<lambda>_ d. db_canary d))) (\<lambda>previous.
        if map_option cn_attempt_state previous \<noteq> Some ''idle''
        then throw (Err ''canary notification requires reconciliation of an incomplete attempt'')
        else andThen (randomUUID sv) (\<lambda>a. claimed_run a hash (now - 24 * HOUR)
             (tryCatch (send_notification a hash from_address to_address report now) (\<lambda>_. uncertain_outcome a)))))"
  unfolding notify_canary_def claimed_run_def Let_def ..

lemma d1_result: "d1 stmt w = (Inr x, v) \<Longrightarrow> \<exists>t d. stmt t d = Inr (x, w_db v)"
proof -
  assume d: "d1 stmt w = (Inr x, v)"
  obtain ending u where u: "begin_call w = (ending, u)" by (cases "begin_call w")
  show ?thesis
  proof (cases "stmt (w_now u) (w_db u)")
    case (Inl e)
    then show ?thesis using d u by (cases ending) (simp_all add: d1_def call_def)
  next
    case (Inr p)
    obtain y e where "p = (y, e)" by (cases p)
    then have "y = x" "w_db v = e" "stmt (w_now u) (w_db u) = Inr (y, e)"
      using d u Inr by (cases ending; auto simp: d1_def call_def)+
    then show ?thesis by blast
  qed
qed

lemma d1_no_change:
  assumes "\<And>t. stmt t (w_db (snd (begin_call w))) = Inr (x, w_db (snd (begin_call w)))"
  shows "snd (d1 stmt w) = snd (begin_call w) \<and> (\<forall>y. fst (d1 stmt w) = Inr y \<longrightarrow> y = x)"
  using assms by (cases "begin_call w") (auto simp: d1_def call_def split: call_end.splits)

lemma claimed_run_frozen:
  assumes "preserves (under (\<lambda>_ _. True)) run"
  shows "preserves (under frozen) (claimed_run a hash before run)"
proof (rule preservesI)
  fix w
  let ?w' = "snd (claimed_run a hash before run w)"
  have "preserves (under (\<lambda>_ _. True)) (claimed_run a hash before run)"
    by (auto simp: claimed_run_def intro!: anything.run_rules anything.if_split anything.d1 assms)
  then have ticks: "set (w_ticks ?w') \<subseteq> set (w_ticks w)"
    using preservesD [of "under (\<lambda>_ _. True)" "claimed_run a hash before run" w] by (simp add: under_def others_respect_def)
  have "frozen (seen w) (seen ?w')" if o': "others_respect frozen w"
  proof (cases "idle (w_db w)")
    case True
    then show ?thesis by (simp add: frozen_def seen_def)
  next
    case False
    let ?u = "snd (begin_call w)"
    have u: "untouched (seen w) (seen ?u)"
      using underD [OF frozen.elapse o'] False by (simp add: frozen_def seen_def)
    then have "\<not> idle (w_db ?u)" using False idle_attempt [of "w_db ?u" "w_db w"] by (simp add: untouched_def seen_def)
    then have c: "snd (d1 (claim_attempt a hash before) w) = ?u \<and> (\<forall>y. fst (d1 (claim_attempt a hash before) w) = Inr y \<longrightarrow> y = 0)"
      by (intro d1_no_change claim_refused)
    obtain r v where d: "d1 (claim_attempt a hash before) w = (r, v)" by (cases "d1 (claim_attempt a hash before) w")
    have "?w' = ?u"
      using c by (cases r) (simp_all add: claimed_run_def andThen_def d)
    then show ?thesis using u by (simp add: frozen_def)
  qed
  then show "under frozen w ?w'" using ticks by (simp add: under_def)
qed

lemma notify_frozen: "preserves (under frozen) (notify_canary sv from_address to_address report now)"
  unfolding notify_claimed Let_def
  by (intro frozen.run_rules frozen.if_split frozen.d1_query frozen.randomUUID claimed_run_frozen send_anything)

theorem canary_frozen: "preserves (under frozen) (scheduled_canary sv env)"
  by (rule frozen.scheduled_canary) (rule notify_frozen)

definition sends_once :: "(db \<Rightarrow> bool) \<Rightarrow> 'a act \<Rightarrow> bool" where
  \<comment> \<open>at most one call, and then the database satisfies the predicate\<close>
  "sends_once G m \<longleftrightarrow> (\<forall>w. others_respect untouched w \<longrightarrow>
     length (w_calls (snd (m w))) \<le> Suc (length (w_calls w)) \<and>
     (length (w_calls (snd (m w))) \<noteq> length (w_calls w) \<longrightarrow> G (w_db (snd (m w)))))"

lemma sends_once_quiet: "preserves (under untouched) m \<Longrightarrow> sends_once G m"
  using preserves_underD by (fastforce simp: sends_once_def untouched_def seen_def)

lemma sends_once_after:
  assumes "preserves (under untouched) m" "\<And>x. sends_once G (f x)"
  shows "sends_once G (andThen m f)"
  unfolding sends_once_def
proof (intro allI impI)
  fix w assume o': "others_respect untouched w"
  obtain r v where m: "m w = (r, v)" by (cases "m w")
  have v: "length (w_calls v) = length (w_calls w)" "others_respect untouched v"
    using preserves_underD [OF assms(1) o'] m by (simp_all add: untouched_def seen_def)
  show "length (w_calls (snd (andThen m f w))) \<le> Suc (length (w_calls w)) \<and>
    (length (w_calls (snd (andThen m f w))) \<noteq> length (w_calls w) \<longrightarrow> G (w_db (snd (andThen m f w))))"
  proof (cases r)
    case (Inl e)
    then show ?thesis using m v(1) by (simp add: andThen_def)
  next
    case (Inr x)
    have "andThen m f w = f x v" using Inr m by (simp add: andThen_def)
    then show ?thesis using v assms(2) [of x] by (metis sends_once_def)
  qed
qed

lemma claimed_run_once:
  assumes "preserves (under (keeps_reported hash now)) run" "\<And>w. length (w_calls (snd (run w))) \<le> Suc (length (w_calls w))"
  shows "sends_once (reported hash now) (claimed_run a hash before run)"
  unfolding sends_once_def
proof (intro allI impI)
  fix w assume o': "others_respect untouched w"
  let ?c = "d1 (claim_attempt a hash before)"
  obtain r v where c: "?c w = (r, v)" by (cases "?c w")
  have "preserves (under few_calls) ?c" by (rule few_calls.d1) (simp add: few_calls_def)
  then have calls: "length (w_calls v) = length (w_calls w)" using silent_calls [of ?c w] c by simp
  have "preserves (under (\<lambda>_ _. True)) ?c" by (rule anything.d1) simp
  then have "set (w_ticks v) \<subseteq> set (w_ticks w)"
    using preservesD [of "under (\<lambda>_ _. True)" ?c w] c by (simp add: under_def others_respect_def)
  then have v: "others_respect (keeps_reported hash now) v"
    by (rule others_respect_mono [OF untouched_reported [OF o']])
  show "length (w_calls (snd (claimed_run a hash before run w))) \<le> Suc (length (w_calls w)) \<and>
    (length (w_calls (snd (claimed_run a hash before run w))) \<noteq> length (w_calls w) \<longrightarrow>
      reported hash now (w_db (snd (claimed_run a hash before run w))))"
  proof (cases "\<exists>n. r = Inr n \<and> n \<noteq> 0")
    case True
    then obtain n where n: "r = Inr n" "n \<noteq> 0" by blast
    have d: "?c w = (Inr n, v)" using c n(1) by simp
    obtain t d where "claim_attempt a hash before t d = Inr (n, w_db v)" using d1_result [OF d] by blast
    then have "reported hash now (w_db v)" by (rule claimed_reported) (rule n(2))
    then have "reported hash now (w_db (snd (run v)))"
      using preserves_underD [OF assms(1) v] by (simp add: keeps_reported_def seen_def)
    then show ?thesis using n c calls assms(2) [of v] by (simp add: claimed_run_def andThen_def)
  next
    case False
    then have "snd (claimed_run a hash before run w) = v"
      by (cases r) (simp_all add: claimed_run_def andThen_def c)
    then show ?thesis using calls by simp
  qed
qed

lemma sends_once_mono: "sends_once G m \<Longrightarrow> (\<And>d. G d \<Longrightarrow> H d) \<Longrightarrow> sends_once H m"
  by (simp add: sends_once_def)

lemma sends_once_finish: "sends_once G m \<Longrightarrow> sends_once G (andThen m (\<lambda>x. ret (f x)))"
proof -
  assume "sends_once G m"
  moreover have "snd (andThen m (\<lambda>x. ret (f x)) w) = snd (m w)" for w
    by (auto simp: andThen_def split: prod.split sum.split)
  ultimately show ?thesis by (simp add: sends_once_def)
qed

definition report_hash :: "services \<Rightarrow> canary_report \<Rightarrow> string" where
  "report_hash sv report = sha sv (json_stringify (stable_report report))"

lemma notify_once: "sends_once (reported (report_hash sv report) now) (notify_canary sv from_address to_address report now)"
proof -
  let ?refused = "throw (Err ''canary notification requires reconciliation of an incomplete attempt'') :: unit act"
  let ?run = "andThen (randomUUID sv) (\<lambda>a. claimed_run a (report_hash sv report) (now - 24 * HOUR)
     (tryCatch (send_notification a (report_hash sv report) from_address to_address report now) (\<lambda>_. uncertain_outcome a)))"
  have "sends_once (reported (report_hash sv report) now) ?run"
    by (rule sends_once_after [OF untouched.randomUUID]) (rule claimed_run_once [OF send_reported send_count])
  moreover have "sends_once (reported (report_hash sv report) now) ?refused"
    by (rule sends_once_quiet) (rule untouched.throw)
  ultimately show ?thesis
    unfolding notify_claimed Let_def report_hash_def [symmetric]
    by (intro sends_once_after [OF untouched.d1_query]) simp
qed

lemma runCanary_once: "sends_once (\<lambda>d. \<exists>report. reported (report_hash sv report) now d) (runCanary sv env now)"
proof -
  let ?G = "\<lambda>d. \<exists>report. reported (report_hash sv report) now d"
  have n: "sends_once ?G (andThen (notify_canary sv from_address to_address report now) (\<lambda>x. ret (f x)))"
    for from_address to_address report and f :: "unit \<Rightarrow> 'b"
    by (rule sends_once_finish) (rule sends_once_mono [OF notify_once], blast)
  have q: "sends_once ?G (throw e)" "sends_once ?G (ret x)" for e and x :: 'c
    by (rule sends_once_quiet, rule untouched.throw, rule sends_once_quiet, rule untouched.ret)
  have body: "sends_once ?G (andThen (d1 (query (\<lambda>_ d. role_sender a d))) (\<lambda>sender.
          if \<not> sender then throw (Err ''canary sender must be an active public role identity'')
          else andThen (read_inventory sv env now hours limit) (\<lambda>(report, coverage).
               andThen (with_coverage sv report coverage now (nat limit)) (\<lambda>final.
               andThen (notify_canary sv a b final now) (\<lambda>_. ret (Some final))))))" for a b hours limit
  proof (rule sends_once_after [OF untouched.d1_query])
    show "sends_once ?G (if \<not> sender then throw (Err ''canary sender must be an active public role identity'')
          else andThen (read_inventory sv env now hours limit) (\<lambda>(report, coverage).
               andThen (with_coverage sv report coverage now (nat limit)) (\<lambda>final.
               andThen (notify_canary sv a b final now) (\<lambda>_. ret (Some final)))))" for sender
      by (cases sender; simp add: q)
        (rule sends_once_after [OF untouched.read_inventory], clarify,
         rule sends_once_after [OF untouched.with_coverage], rule n)
  qed
  show ?thesis
    unfolding runCanary_def
    by (cases "ce_MODE env = Some ''disabled''"; cases "ce_MODE env \<noteq> Some ''enabled''"; simp add: q)
      (rule sends_once_after [OF untouched.liftE], clarify, rule body)+
qed

theorem canary_once:
  assumes "others_respect untouched w"
  shows "length (w_calls (snd (scheduled_canary sv env w))) \<le> Suc (length (w_calls w)) \<and>
    (length (w_calls (snd (scheduled_canary sv env w))) \<noteq> length (w_calls w) \<longrightarrow>
      (\<exists>report. reported (report_hash sv report) (w_now w) (w_db (snd (scheduled_canary sv env w)))))"
proof -
  have "scheduled_canary sv env w = runCanary sv env (w_now w) w"
    by (simp add: scheduled_canary_def andThen_def readClock_def)
  then show ?thesis using runCanary_once assms unfolding sends_once_def by simp
qed

section \<open>Many runs\<close>

inductive canary_step :: "services \<Rightarrow> canary_env \<Rightarrow> world \<Rightarrow> world \<Rightarrow> bool" for sv env where
  run: "others_respect untouched (w\<lparr>w_now := t, w_ticks := ts\<rparr>) \<Longrightarrow>
    canary_step sv env w (snd (scheduled_canary sv env (w\<lparr>w_now := t, w_ticks := ts\<rparr>)))"
| other: "untouched (w_db w, 0) (d, 0) \<Longrightarrow> canary_step sv env w (w\<lparr>w_db := d\<rparr>)"

abbreviation canary_steps :: "services \<Rightarrow> canary_env \<Rightarrow> world \<Rightarrow> world \<Rightarrow> bool" where
  "canary_steps sv env \<equiv> (canary_step sv env)\<^sup>*\<^sup>*"

lemma canary_step_frozen: "canary_step sv env w w' \<Longrightarrow> frozen (seen w) (seen w')"
proof (induction rule: canary_step.induct)
  case (run w t ts)
  then show ?case
    using preserves_underD [OF canary_frozen untouched_frozen [OF run], of sv env]
    by (simp add: seen_def)
next
  case (other w d)
  then show ?case by (simp add: frozen_def untouched_def seen_def)
qed

theorem canary_steps_frozen: "canary_steps sv env w w' \<Longrightarrow> frozen (seen w) (seen w')"
  by (induction rule: rtranclp_induct) (auto intro: frozen.seen_refl frozen.seen_trans canary_step_frozen)

end
