(* ===== verification/Canary_Ledger.thy ===== *)
theory Canary_Ledger
  imports Canary_Safety Settlement
begin

text \<open>
  The ledger of proofs and the heartbeat: a recorded coverage holds an entry for every plane of every route, its
  stamp moves only with the whole ledger, and the heartbeat pings only while the stamp is recent.
\<close>

section \<open>Slices and batches\<close>

lemma concat_chunks: "0 < n \<Longrightarrow> concat (chunks n xs) = xs"
proof (induction n xs rule: chunks.induct)
  case (1 n xs)
  then show ?case
    by (subst chunks.simps) (cases "xs = []"; simp)
qed

lemma batch_append:
  "batch (a @ b) t d = (case batch a t d of Inl e \<Rightarrow> Inl e | Inr (ns, e) \<Rightarrow>
     (case batch b t e of Inl x \<Rightarrow> Inl x | Inr (ms, d') \<Rightarrow> Inr (ns @ ms, d')))"
  by (induction a arbitrary: d) (auto split: sum.split prod.split)

lemma upserts_of_chunks:
  "batch (map (ledger_upsert p now) rows) t d = Inr (ns, d') \<Longrightarrow>
   \<exists>ms. batch (map (upsert_entry p now) (concat rows)) t d = Inr (ms, d')"
proof (induction rows arbitrary: d ns)
  case (Cons r rows)
  obtain k e ms where e: "ledger_upsert p now r t d = Inr (k, e)" "batch (map (ledger_upsert p now) rows) t e = Inr (ms, d')"
    using Cons.prems by (auto split: sum.splits prod.splits)
  obtain js where "batch (map (upsert_entry p now) r) t d = Inr (js, e)"
    using e(1) by (auto simp: ledger_upsert_def split: sum.splits prod.splits)
  then show ?case using Cons.IH [OF e(2)] by (auto simp: batch_append)
qed simp

section \<open>Entries\<close>

definition recorded :: "string \<Rightarrow> ledger_entry \<Rightarrow> db \<Rightarrow> bool" where
  \<comment> \<open>the ledger holds the entry; the time of a configuration is the first one under its policy\<close>
  "recorded p e d \<longleftrightarrow> (\<exists>r \<in> set (db_ledger d). at_entry e r \<and> lg_policy_sha256 r = p \<and>
     (fst (snd e) \<noteq> ''configuration'' \<longrightarrow> lg_verified_at_ms r = snd (snd e)))"

definition entry_key :: "ledger_entry \<Rightarrow> string \<times> string" where
  "entry_key e = (fst e, fst (snd e))"

lemma upsert_records:
  assumes "upsert_entry p now e t d = Inr (n, d')"
  shows "recorded p e d'"
proof (cases "first_row (at_entry e) (db_ledger d)")
  case None
  then have "d' = d\<lparr>db_ledger := db_ledger d @ [entry_row p now e]\<rparr>"
    using assms by (auto simp: upsert_entry_def split: if_splits)
  then show ?thesis by (simp add: recorded_def at_entry_def entry_row_def)
next
  case (Some r)
  then have r: "r \<in> set (db_ledger d)" "at_entry e r" by (auto dest: first_row_SomeD)
  show ?thesis
  proof (cases "entry_changes p e r")
    case True
    then have "d' = d\<lparr>db_ledger := update_where (at_entry e) (\<lambda>_. entry_row p now e) (db_ledger d)\<rparr>"
      using assms Some by (auto simp: upsert_entry_def split: if_splits)
    moreover have "entry_row p now e \<in> set (update_where (at_entry e) (\<lambda>_. entry_row p now e) (db_ledger d))"
      using r by (force simp: update_where_def)
    ultimately have "entry_row p now e \<in> set (db_ledger d')" by simp
    then show ?thesis
      unfolding recorded_def by (rule bexI [rotated]) (simp add: at_entry_def entry_row_def)
  next
    case False
    then have "d' = d" using assms Some by (simp add: upsert_entry_def)
    then show ?thesis using r False by (auto simp: recorded_def entry_changes_def at_entry_def)
  qed
qed

lemma upsert_keeps:
  assumes "upsert_entry p now e t d = Inr (n, d')" "entry_key e' \<noteq> entry_key e" "recorded p e' d"
  shows "recorded p e' d'"
proof -
  have other: "at_entry e' r \<Longrightarrow> \<not> at_entry e r" for r using assms(2) by (auto simp: at_entry_def entry_key_def)
  have "\<exists>r' \<in> set (db_ledger d'). r' = r" if "r \<in> set (db_ledger d)" "at_entry e' r" for r
    using that assms(1) other
    by (auto simp: upsert_entry_def update_where_def image_iff split: option.splits if_splits)
  then show ?thesis using assms(3) unfolding recorded_def by metis
qed

lemma entries_keep:
  "batch (map (upsert_entry p now) es) t d = Inr (ns, d') \<Longrightarrow> recorded p e' d \<Longrightarrow> entry_key e' \<notin> entry_key ` set es \<Longrightarrow>
   recorded p e' d'"
proof (induction es arbitrary: d ns)
  case (Cons e es)
  then obtain k u ms where u: "upsert_entry p now e t d = Inr (k, u)" "batch (map (upsert_entry p now) es) t u = Inr (ms, d')"
    by (auto split: sum.splits prod.splits)
  have "recorded p e' u" by (rule upsert_keeps [OF u(1)]) (use Cons.prems in auto)
  then show ?case by (rule Cons.IH [OF u(2)]) (use Cons.prems in auto)
qed simp

lemma entries_recorded:
  "batch (map (upsert_entry p now) es) t d = Inr (ns, d') \<Longrightarrow> distinct (map entry_key es) \<Longrightarrow> e \<in> set es \<Longrightarrow> recorded p e d'"
proof (induction es arbitrary: d ns)
  case (Cons e' es)
  then obtain k u ms where u: "upsert_entry p now e' t d = Inr (k, u)" "batch (map (upsert_entry p now) es) t u = Inr (ms, d')"
    by (auto split: sum.splits prod.splits)
  show ?case
  proof (cases "e = e'")
    case True
    then show ?thesis
      using entries_keep [OF u(2) upsert_records [OF u(1)]] Cons.prems(2) by auto
  next
    case False
    then show ?thesis using Cons.IH [OF u(2)] Cons.prems by auto
  qed
qed simp

definition ledger_only :: "db \<Rightarrow> db \<Rightarrow> bool" where
  "ledger_only d d' \<longleftrightarrow> (\<exists>l. d' = d\<lparr>db_ledger := l\<rparr>)"

lemma ledger_onlyI [simp]: "ledger_only d (d\<lparr>db_ledger := l\<rparr>)"
  unfolding ledger_only_def by (rule exI) (rule refl)

lemma ledger_only_refl [simp]: "ledger_only d d"
  unfolding ledger_only_def by (rule exI [of _ "db_ledger d"]) simp

lemma entries_ledger_only:
  assumes "batch (map (upsert_entry p now) es) t d = Inr (ns, d')"
  shows "ledger_only d d'"
proof (rule batch_step [OF assms])
  show "ledger_only a b" if "s \<in> set (map (upsert_entry p now) es)" "s t a = Inr (n, b)" for s a n b
    using that by (auto simp: upsert_entry_def split: option.splits if_splits)
  show "ledger_only a c" if "ledger_only a b" "ledger_only b c" for a b c
    using that by (auto simp: ledger_only_def)
qed simp

section \<open>A recorded coverage\<close>

lemma coverage_keys_distinct:
  assumes "distinct (map cr_route_id routes)"
  shows "distinct (map entry_key (coverage_rows pf routes now))"
  using assms
proof (induction routes)
  case (Cons r rs)
  have keys: "fst k \<in> cr_route_id ` set rs" if "k \<in> set (map entry_key (coverage_rows pf rs now))" for k
    using that by (auto simp: coverage_rows_def entry_key_def)
  let ?r = "[(cr_route_id r, ''configuration''), (cr_route_id r, ''inbox''), (cr_route_id r, ''reply''), (cr_route_id r, ''edge'')]"
  have "map entry_key (coverage_rows pf (r # rs) now) = ?r @ map entry_key (coverage_rows pf rs now)"
    by (simp add: coverage_rows_def entry_key_def)
  moreover have "set ?r \<inter> set (map entry_key (coverage_rows pf rs now)) = {}"
  proof (rule equals0I)
    fix k assume "k \<in> set ?r \<inter> set (map entry_key (coverage_rows pf rs now))"
    then have "fst k = cr_route_id r" "k \<in> set (map entry_key (coverage_rows pf rs now))"
      by (simp_all only: Int_iff) auto
    then show False using keys [of k] Cons.prems by simp
  qed
  ultimately show ?case using Cons.IH Cons.prems by (simp only: distinct_append) simp
qed (simp add: coverage_rows_def)

lemma coverage_batch_Inr:
  assumes "batch (coverage_batch pf p routes now limit) t d = Inr (ns, d')" "distinct (map cr_route_id routes)"
  shows "list_all (\<lambda>e. recorded p e d') (coverage_rows pf routes now) \<and>
    db_rotation d' = map (\<lambda>(i, reason). (i, now, reason)) (selectProbeRotation pf routes now limit) \<and>
    db_canary d' = map_option (\<lambda>r. r\<lparr>cn_last_coverage_at_ms := now\<rparr>) (db_canary d) \<and>
    (last ns = 0 \<longleftrightarrow> db_canary d = None)"
proof -
  let ?sel = "selectProbeRotation pf routes now limit"
  let ?stamp = "update_canary (\<lambda>_. True) (\<lambda>r. r\<lparr>cn_last_coverage_at_ms := now\<rparr>)"
  obtain k1 k2 d2 where i: "insert_rotation now ?sel t (d\<lparr>db_rotation := []\<rparr>) = Inr (k2, d2)"
    and rest: "\<exists>ms. batch (map (ledger_upsert p now) (chunks LEDGER_CHUNK (coverage_rows pf routes now)) @ [?stamp]) t d2 = Inr (ms, d') \<and> ns = k1 # k2 # ms"
    using assms(1) by (auto simp: coverage_batch_def clear_rotation_def split: sum.splits prod.splits)
  have d2: "d2 = d\<lparr>db_rotation := map (\<lambda>(i, reason). (i, now, reason)) ?sel\<rparr>"
    using i by (auto simp: insert_rotation_def split: if_splits)
  obtain js d3 k where b: "batch (map (ledger_upsert p now) (chunks LEDGER_CHUNK (coverage_rows pf routes now))) t d2 = Inr (js, d3)"
    and s: "?stamp t d3 = Inr (k, d')" and ns: "last ns = k"
    using rest by (auto simp: batch_append split: sum.splits prod.splits)
  obtain ms where e: "batch (map (upsert_entry p now) (coverage_rows pf routes now)) t d2 = Inr (ms, d3)"
    using upserts_of_chunks [OF b] by (auto simp: concat_chunks LEDGER_CHUNK_def)
  have "ledger_only d2 d3" by (rule entries_ledger_only [OF e])
  then have d3: "db_rotation d3 = db_rotation d2" "db_canary d3 = db_canary d2"
    by (auto simp: ledger_only_def)
  have d': "db_ledger d' = db_ledger d3" "db_rotation d' = db_rotation d3"
    "db_canary d' = map_option (\<lambda>r. r\<lparr>cn_last_coverage_at_ms := now\<rparr>) (db_canary d3)" "k = 0 \<longleftrightarrow> db_canary d3 = None"
    using s by (cases "db_canary d3"; auto simp: update_canary_def)+
  have "recorded p e d'" if "e \<in> set (coverage_rows pf routes now)" for e
    using entries_recorded [OF e coverage_keys_distinct [OF assms(2)] that] d'(1) by (simp add: recorded_def)
  then show ?thesis
    using d' d3 d2 ns by (simp add: list_all_iff)
qed

theorem recordCoverage_whole:
  assumes "w_ticks w = []" "recordCoverage sv p routes now limit w = (r, w')" "distinct (map cr_route_id routes)"
  shows "(r = Inr () \<longrightarrow> list_all (\<lambda>e. recorded p e (w_db w')) (coverage_rows (sv_platform sv) routes now) \<and>
      db_rotation (w_db w') = map (\<lambda>(i, reason). (i, now, reason)) (selectProbeRotation (sv_platform sv) routes now limit) \<and>
      map_option cn_last_coverage_at_ms (db_canary (w_db w')) = Some now) \<and>
    (r \<noteq> Inr () \<longrightarrow> db_canary (w_db w') = db_canary (w_db w))"
proof -
  let ?b = "batch (coverage_batch (sv_platform sv) p routes now limit) (w_now w) (w_db w)"
  show ?thesis
  proof (cases ?b)
    case (Inl e)
    then have "r = Inl e" "w' = w" using assms(1,2) by (auto simp: recordCoverage_def andThen_def d1_quiet)
    then show ?thesis by simp
  next
    case (Inr q)
    obtain ns d' where q: "?b = Inr (ns, d')" using Inr by (cases q) auto
    have c: "list_all (\<lambda>e. recorded p e d') (coverage_rows (sv_platform sv) routes now)"
      "db_rotation d' = map (\<lambda>(i, reason). (i, now, reason)) (selectProbeRotation (sv_platform sv) routes now limit)"
      "db_canary d' = map_option (\<lambda>r. r\<lparr>cn_last_coverage_at_ms := now\<rparr>) (db_canary (w_db w))"
      "last ns = 0 \<longleftrightarrow> db_canary (w_db w) = None"
      using coverage_batch_Inr [OF q assms(3)] by blast+
    have "w_db w' = d'" "r = (if last ns = 0 then Inl (Err ''proof ledger persistence failed'') else Inr ())"
      using assms(1,2) q by (auto simp: recordCoverage_def andThen_def d1_quiet split: if_splits)
    then show ?thesis using c by (auto split: if_splits)
  qed
qed

section \<open>The heartbeat\<close>

definition same_canary :: "db \<times> nat \<Rightarrow> db \<times> nat \<Rightarrow> bool" where
  "same_canary s t \<longleftrightarrow> db_canary (fst t) = db_canary (fst s)"

interpretation same_canary: trace_relation same_canary
  by unfold_locales (auto simp: same_canary_def)

definition same_pings :: "world \<Rightarrow> world \<Rightarrow> bool" where
  "same_pings w w' \<longleftrightarrow> w_pings w' = w_pings w"

interpretation same_pings: effect_relation same_pings "\<lambda>_ _. True"
proof
  show "same_pings w (snd (begin_call w))" for w
    using begin_call_snd [of w] by (auto simp: same_pings_def)
qed (auto simp: same_pings_def)

lemma pingPost_pings:
  "w_pings (snd (pingPost deadline url w)) = w_pings w \<or> w_pings (snd (pingPost deadline url w)) = w_pings w @ [url]"
proof -
  obtain ending u where u: "begin_call w = (ending, u)" by (cases "begin_call w")
  have "w_pings u = w_pings w" using begin_call_snd [of w] u by auto
  then show ?thesis
    by (cases ending) (auto simp: pingPost_def call_def u Let_def split: list.splits http_reply.splits)
qed

lemma configurationReady_found:
  assumes "others_respect same_canary w" "configurationReady now maxAge w = (Inr b, v)"
  shows "b = coverage_recent now maxAge (w_db w) \<and> w_pings v = w_pings w"
proof -
  have "same_canary (seen w) (seen (snd (configurationReady now maxAge w)))"
    unfolding configurationReady_def by (rule conjunct1 [OF preserves_underD [OF same_canary.d1_query assms(1)]])
  then have "db_canary (w_db v) = db_canary (w_db w)" using assms(2) by (simp add: same_canary_def seen_def)
  moreover have "b = coverage_recent now maxAge (w_db v)"
    using d1_result assms(2) by (fastforce simp: configurationReady_def query_def)
  moreover have "same_pings w (snd (configurationReady now maxAge w))"
    unfolding configurationReady_def by (rule preservesD [OF same_pings.d1_query])
  ultimately show ?thesis using assms(2) by (simp add: coverage_recent_def same_pings_def)
qed

theorem heartbeat_pings:
  assumes "others_respect same_canary w" "runHeartbeat sv env w = (r, w')" "w_pings w' \<noteq> w_pings w"
  shows "\<exists>hours url. 1 \<le> hours \<and> hours \<le> 24 \<and> coverage_recent (w_now w) (hours * HOUR) (w_db w) \<and>
    sv_url sv (with_default [] (hb_URL env)) = Some url \<and> ur_protocol url = ''https:'' \<and>
    w_pings w' = w_pings w @ [ur_href url]"
proof -
  have enabled: "hb_MODE env = Some ''enabled''"
    using assms(2,3) by (auto simp: runHeartbeat_def andThen_def readClock_def split: if_splits)
  obtain url where url: "heartbeatUrl sv (hb_URL env) = Inr (ur_href url)" "sv_url sv (with_default [] (hb_URL env)) = Some url"
      "ur_protocol url = ''https:''"
    using assms(2,3) enabled
    by (auto simp: runHeartbeat_def andThen_def readClock_def heartbeatUrl_def split: option.splits if_splits)
  obtain hours where h: "bounded_number sv (hb_MAX_AGE_HOURS env) 2 1 24 ''invalid heartbeat age'' = Inr hours"
    using assms(2,3) enabled url(1)
    by (cases "bounded_number sv (hb_MAX_AGE_HOURS env) 2 1 24 ''invalid heartbeat age''")
       (auto simp: runHeartbeat_def andThen_def readClock_def)
  then have bounds: "1 \<le> hours" "hours \<le> 24"
    by (auto simp: bounded_number_def not_less split: option.splits if_splits)
  obtain c v where c: "configurationReady (w_now w) (hours * HOUR) w = (c, v)"
    by (cases "configurationReady (w_now w) (hours * HOUR) w")
  have "same_pings w (snd (configurationReady (w_now w) (hours * HOUR) w))"
    unfolding configurationReady_def by (rule preservesD [OF same_pings.d1_query])
  then have v: "w_pings v = w_pings w" using c by (simp add: same_pings_def)
  have "c = Inr True"
    using assms(2,3) enabled url(1) h c v
    by (cases c) (auto simp: runHeartbeat_def andThen_def readClock_def split: if_splits)
  then have recent: "coverage_recent (w_now w) (hours * HOUR) (w_db w)"
    using configurationReady_found [OF assms(1)] c by blast
  have "w' = snd (pingPost (w_now v + HEARTBEAT_REQUEST_TIMEOUT_MS) (ur_href url) v)"
    using assms(2) enabled url(1) h c \<open>c = Inr True\<close>
    by (cases "pingPost (w_now v + HEARTBEAT_REQUEST_TIMEOUT_MS) (ur_href url) v")
       (auto simp: runHeartbeat_def andThen_def readClock_def split: sum.splits if_splits)
  then have "w_pings w' = w_pings w @ [ur_href url]"
    using pingPost_pings [of "w_now v + HEARTBEAT_REQUEST_TIMEOUT_MS" "ur_href url" v] v assms(3) by auto
  then show ?thesis using bounds recent url(2,3) by blast
qed

end
