(* ===== verification/Example_Canary.thy ===== *)
theory Example_Canary
  imports Canary_Ledger Example_Data
begin

text \<open>
  The installation of \<open>Example_Data\<close> with its canary and its heartbeat: an attempt whose outcome is open, a snapshot of
  one route, and a monitor behind an https address.
\<close>

definition ex_canary_row :: canary_row where
  "ex_canary_row = \<lparr> cn_last_report_sha256 = Some ''hash'', cn_last_notified_at_ms = 1, cn_attempt_id = Some ''attempt'',
     cn_attempt_state = ''idle'', cn_last_coverage_at_ms = 900 \<rparr>"

definition ex_canary_world :: "string \<Rightarrow> world" where
  "ex_canary_world state = world_of 1000 (ex_db\<lparr>db_canary := Some (ex_canary_row\<lparr>cn_attempt_state := state\<rparr>)\<rparr>)"

definition ex_canary_env :: canary_env where
  "ex_canary_env = \<lparr> ce_POLICY_STORE = True, ce_EMAIL = True, ce_MODE = Some ''enabled'', ce_FROM = Some ''team@example.com'',
     ce_TO = Some ''op@corp.test'', ce_MAX_PROOF_AGE_HOURS = None, ce_PROBE_BATCH = None, ce_INBOUND_MODE = Some ''enabled'',
     ce_REPLY_MODE = Some ''enabled'' \<rparr>"

definition ex_canary_route :: canary_route where
  "ex_canary_route = \<lparr> cr_inventory = \<lparr> iv_route_id = ''route:example.com:team'', iv_domain_id = ''domain:example.com'',
       iv_domain = ''example.com'', iv_local_part = ''team'', iv_storage_kind = ''role'', iv_decision_kind = ''role_alias'',
       iv_reply_identity_id = ''identity'', iv_reply_identity = ''team@example.com'', iv_policy_sha256 = Some ex_digest,
       iv_operators = [], iv_bindings = [] \<rparr>,
     cr_status_generation = 1, cr_operational_status = JNull, cr_health_policy_sha256 = None, cr_inbound_status = None,
     cr_reply_status = None, cr_last_inbox_verified_at = None, cr_last_reply_verified_at = None, cr_edge_verified_at = None \<rparr>"

definition ex_snapshot :: canary_snapshot where
  "ex_snapshot = \<lparr> cs_policy_sha256 = ex_digest, cs_expected_routes = 1, cs_routes = [ex_canary_route] \<rparr>"

definition ex_monitor :: url where
  "ex_monitor = \<lparr> ur_href = ''https://monitor.test/ping'', ur_protocol = ''https:'', ur_username = [], ur_password = [],
     ur_host = ''monitor.test'', ur_hostname = ''monitor.test'', ur_origin = ''https://monitor.test'',
     ur_pathname = ''/ping'', ur_search = [], ur_hash = [] \<rparr>"

definition ex_heartbeat_env :: heartbeat_env where
  "ex_heartbeat_env = \<lparr> hb_MODE = Some ''enabled'', hb_URL = Some ''https://monitor.test/ping'', hb_MAX_AGE_HOURS = None \<rparr>"

lemma ex_canary_quiet [simp]: "others_respect P (ex_canary_world s)" "w_ticks (ex_canary_world s) = []"
    "w_calls (ex_canary_world s) = []" "w_pings (ex_canary_world s) = []" "w_now (ex_canary_world s) = 1000"
    "db_canary (w_db (ex_canary_world s)) = Some (ex_canary_row\<lparr>cn_attempt_state := s\<rparr>)"
  by (simp_all add: ex_canary_world_def others_respect_def world_of_def)

lemma ex_coverage_recorded:
  "fst (recordCoverage ex_services ex_digest [ex_canary_route] 1000 3 (ex_canary_world ''idle'')) = Inr ()"
  by (simp add: recordCoverage_def andThen_def d1_quiet coverage_batch_def coverage_rows_def chunks.simps LEDGER_CHUNK_def
      clear_rotation_def insert_rotation_def ledger_upsert_def upsert_entry_def update_canary_def selectProbeRotation_def
      known_route_def known_policy_def ex_canary_world_def world_of_def ex_db_def empty_db_def first_row_def at_entry_def
      entry_row_def ex_canary_route_def eligible_route_def ROUTE_KINDS_def probe_of_def proofMillis_def sort_by_def)

lemma ex_heartbeat:
  "w_pings (snd (runHeartbeat (ex_services\<lparr>sv_url := \<lambda>_. Some ex_monitor\<rparr>) ex_heartbeat_env (ex_canary_world ''idle''))) =
     [''https://monitor.test/ping'']"
  by (simp add: runHeartbeat_def andThen_def readClock_def ex_heartbeat_env_def heartbeatUrl_def ex_monitor_def bounded_number_def
      configurationReady_def d1_quiet query_def coverage_recent_def ex_canary_row_def HOUR_def pingPost_def call_def
      begin_call_def HEARTBEAT_REQUEST_TIMEOUT_MS_def ex_canary_world_def world_of_def)

end
