(* ===== verification/Reads.thy ===== *)
theory Reads
  imports Policy
begin

text \<open>
  Operations that only read. Such an operation changes nothing but the time, the schedule and what the others write
  meanwhile; the rules hold for every relation on worlds that tolerates the beginning of a call.
\<close>

locale reading_relation = world_relation R for R +
  assumes begun: "R w (snd (begin_call w))"
begin

lemma call: "(\<And>w. snd (eff w) = w) \<Longrightarrow> preserves R (call eff)"
  unfolding preserves_def call_def
  by (auto split: prod.splits call_end.splits) (metis begun snd_conv)+

lemma d1_query: "preserves R (d1 (query f))"
  unfolding d1_def query_def by (rule call) simp

lemma policyGet: "preserves R (policyGet k)"
  unfolding policyGet_def by (rule call) simp

lemmas reading_rules = run_rules d1_query policyGet

lemma loadActivePolicy: "preserves R (loadActivePolicy sv)"
  by (auto simp: loadActivePolicy_def checkInventory_def Let_def intro!: if_split reading_rules split: option.splits)

end

definition own_part :: "world \<Rightarrow> world" where
  \<comment> \<open>what only this invocation can change\<close>
  "own_part w = w\<lparr>w_now := 0, w_db := empty_db, w_ticks := []\<rparr>"

definition only_reads :: "world \<Rightarrow> world \<Rightarrow> bool" where
  "only_reads w w' \<longleftrightarrow> own_part w' = own_part w"

interpretation only_reads: reading_relation only_reads
proof
  show "only_reads w (snd (begin_call w))" for w
    by (auto simp: only_reads_def own_part_def begin_call_def split: list.split)
qed (simp_all add: only_reads_def)

sublocale effect_relation \<subseteq> read: reading_relation R
  by unfold_locales (rule elapse)

lemma only_reads_fields:
  assumes "only_reads w w'"
  shows "w_jobs w' = w_jobs w" "w_calls w' = w_calls w" "w_spool w' = w_spool w" "w_policy w' = w_policy w"
proof -
  note f = assms [unfolded only_reads_def, THEN arg_cong]
  show "w_jobs w' = w_jobs w" using f [of w_jobs] by (simp add: own_part_def)
  show "w_calls w' = w_calls w" using f [of w_calls] by (simp add: own_part_def)
  show "w_spool w' = w_spool w" using f [of w_spool] by (simp add: own_part_def)
  show "w_policy w' = w_policy w" using f [of w_policy] by (simp add: own_part_def)
qed

lemma query_result: "d1 (query f) w = (Inr x, v) \<Longrightarrow> x = f (w_now v) (w_db v)"
  by (auto simp: d1_def call_def query_def split: prod.splits call_end.splits)

end
