(* ===== verification/Http_Api.thy ===== *)
theory Http_Api
  imports Reads Jobs Status_Store
begin

text \<open>
  Requests and responses, and the two HTTP layers that do not speak MCP: \<^verbatim>\<open>workers/mail-api/src/index.ts\<close> with
  \<^verbatim>\<open>workers/shared/legacy-reply-http.ts\<close>, which queues the replies of the web desk, and \<^verbatim>\<open>workers/ui/access.ts\<close>, which
  admits only requests with a verified Cloudflare Access identity.
\<close>

section \<open>Requests\<close>

record http_request =
  rq_method :: string
  rq_url :: url
  rq_headers :: "string \<Rightarrow> string option"          \<comment> \<open>by lower-case name\<close>
  rq_chunks :: "byte list list option"              \<comment> \<open>the body as the stream gives it\<close>

record http_response =
  hr_status :: nat
  hr_headers :: "(string \<times> string) list"
  hr_body :: jv

definition JSON_TYPE :: "string \<times> string" where
  "JSON_TYPE = (''content-type'', ''application/json; charset=utf-8'')"

definition json_response :: "nat \<Rightarrow> jv \<Rightarrow> http_response" where
  "json_response status v = \<lparr> hr_status = status, hr_headers = [JSON_TYPE], hr_body = v \<rparr>"

definition error_response :: "nat \<Rightarrow> string \<Rightarrow> http_response" where
  "error_response status err = json_response status (JObject [(''error'', JString err)])"

definition notFound :: http_response where
  "notFound = error_response 404 ''not_found''"

definition methodNotAllowed :: http_response where
  "methodNotAllowed = error_response 405 ''method_not_allowed''"

definition js_set :: "string \<Rightarrow> jv \<Rightarrow> jv \<Rightarrow> jv" where
  \<comment> \<open>\<^verbatim>\<open>{ ...value, [key]: item }\<close>: a key that exists keeps its place\<close>
  "js_set k x v =
     (let ps = js_entries v in
      JObject (if k \<in> fst ` set ps then map (\<lambda>(j, y). (j, if j = k then x else y)) ps else ps @ [(k, x)]))"

definition request_json :: "services \<Rightarrow> http_request \<Rightarrow> jv option" where
  \<comment> \<open>\<^verbatim>\<open>await request.json()\<close>, \<^const>\<open>None\<close> when it throws\<close>
  "request_json sv request =
     (case rq_chunks request of
        None \<Rightarrow> None
      | Some chunks \<Rightarrow> sv_json_parse sv (sv_utf8_decode sv (concat chunks)))"

section \<open>The token of the reply interface\<close>

definition is_line_end :: "char \<Rightarrow> bool" where
  \<comment> \<open>what a dot of a regular expression does not match\<close>
  "is_line_end c \<longleftrightarrow> c = CHR 0x0A \<or> c = CHR 0x0D"

definition bearer_token :: "string \<Rightarrow> string option" where
  \<comment> \<open>the group of \<^verbatim>\<open>/^Bearer\s+(.+)$/i\<close>; when only blanks follow, the last of them is the group\<close>
  "bearer_token authorization =
     (let rest = drop 6 authorization; blanks = takeWhile is_ws rest; token = dropWhile is_ws rest in
      if lower (take 6 authorization) \<noteq> ''bearer'' \<or> blanks = [] then None
      else if token \<noteq> [] then (if list_ex is_line_end token then None else Some token)
      else if 2 \<le> length blanks \<and> \<not> is_line_end (last blanks) then Some [last blanks]
      else None)"

definition api_tokens :: "maildesk_env \<Rightarrow> string list" where
  "api_tokens env = filter (\<lambda>t. t \<noteq> []) (List.map_filter id [env_API_TOKEN env, env_PROOF_API_TOKEN env])"

definition isAuthorizedRequest :: "http_request \<Rightarrow> maildesk_env \<Rightarrow> bool" where
  "isAuthorizedRequest request env \<longleftrightarrow>
     (let tokens = api_tokens env;
          bearer = bearer_token (with_default [] (rq_headers request ''authorization''));
          header_token = rq_headers request ''x-maildesk-token'' in
      tokens \<noteq> [] \<and>
      ((truthy bearer \<and> the bearer \<in> set tokens) \<or> (truthy header_token \<and> the header_token \<in> set tokens)))"

section \<open>Queueing a reply\<close>

definition requested_identity :: "jv \<Rightarrow> string option" where
  \<comment> \<open>\<^verbatim>\<open>body.requestedIdentity || body.fromIdentity || undefined\<close>\<close>
  "requested_identity body =
     (if truthy (opt_field body ''requestedIdentity'') then opt_field body ''requestedIdentity''
      else if str_field body ''fromIdentity'' \<noteq> [] then Some (str_field body ''fromIdentity'') else None)"

definition reply_authorization_of :: "services \<Rightarrow> jv \<Rightarrow> jv \<Rightarrow> router_error + reply_authorization" where
  "reply_authorization_of sv policy body =
     authorizeReplyWithPolicy (sv_core sv) policy (str_field body ''envelopeTo'') (str_field body ''operator'')
       (requested_identity body)"

definition authorization_refused :: "router_error \<Rightarrow> http_response" where
  "authorization_refused e =
     (if re_kind e = ''invalid_request'' \<or> re_kind e = ''adapter_failure'' then error_response 503 ''policy_unavailable''
      else json_response 403 (JObject [(''error'', JString ''reply_not_authorized''), (''detail'', JString (re_message e))]))"

definition queued_reply :: "services \<Rightarrow> jv \<Rightarrow> reply_authorization \<Rightarrow> int \<Rightarrow> jv" where
  "queued_reply sv body authorization now =
     js_set ''queuedAt''
       (if str_field body ''queuedAt'' \<noteq> [] then js_get body ''queuedAt'' else JString (pf_to_iso (sv_platform sv) now))
       (js_set ''fromIdentity'' (JString (ra_fromIdentity authorization)) body)"

definition accepted_response :: "jv \<Rightarrow> http_response" where
  "accepted_response job =
     json_response 202 (JObject [(''queued'', JBool True), (''messageId'', js_get job ''messageId''),
       (''fromIdentity'', js_get job ''fromIdentity'')])"

definition submit_body :: "services \<Rightarrow> jv \<Rightarrow> http_response act" where
  \<comment> \<open>a body of the right shape\<close>
  "submit_body sv body =
     andThen (loadActivePolicy sv) (\<lambda>active.
       case active of
         None \<Rightarrow> ret (error_response 503 ''policy_unavailable'')
       | Some v \<Rightarrow>
           (case reply_authorization_of sv (ap_policy v) body of
              Inl e \<Rightarrow> ret (authorization_refused e)
            | Inr authorization \<Rightarrow>
                andThen readClock (\<lambda>now.
                  let job = queued_reply sv body authorization now in
                  followedBy (queueSend job) (ret (accepted_response job)))))"

definition queueReply :: "services \<Rightarrow> http_request \<Rightarrow> http_response act" where
  "queueReply sv request =
     (let mode = odc_mode (operatorDeliveryConfig (sv_env sv)) in
      if mode = Delivery_Invalid then ret (error_response 503 ''operator_delivery_mode_invalid'')
      else if mode = Inbox_Relay then ret notFound
      else if \<not> isAuthorizedRequest request (sv_env sv) then ret (error_response 401 ''unauthorized'')
      else (case request_json sv request of
              None \<Rightarrow> ret (error_response 400 ''invalid_json'')
            | Some body \<Rightarrow>
                if \<not> isOutboundReplyRequestedJob body then ret (error_response 400 ''invalid_reply_request'')
                else submit_body sv body))"

section \<open>The interface of the mail API\<close>

definition check_json :: "readiness_check \<Rightarrow> jv" where
  \<comment> \<open>an undefined detail is not printed\<close>
  "check_json c = JObject ([(''name'', JString (rc_name c)), (''ok'', JBool (rc_ok c))] @
     (case rc_detail c of None \<Rightarrow> [] | Some s \<Rightarrow> [(''detail'', JString s)]))"

definition readiness_json :: "readiness_report \<Rightarrow> jv" where
  "readiness_json r = JObject [(''ok'', JBool (readiness_report.rr_ok r)), (''checks'', JArray (map check_json (rr_checks r)))]"

definition readyz :: "services \<Rightarrow> http_response act" where
  "readyz sv =
     andThen (if env_DB (sv_env sv)
              then tryCatch (andThen (d1 (query (\<lambda>_ _. ()))) (\<lambda>_. ret None)) (\<lambda>e. ret (Some (exn_message e)))
              else ret None) (\<lambda>failure.
       let report = readiness (sv_env sv) failure in
       ret (json_response (if readiness_report.rr_ok report then 200 else 503) (readiness_json report)))"

definition api_fetch :: "services \<Rightarrow> http_request \<Rightarrow> http_response act" where
  "api_fetch sv request =
     (let path = ur_pathname (rq_url request) in
      if path = ''/healthz'' then
        ret \<lparr> hr_status = 200, hr_headers = [(''content-type'', ''application/json'')],
          hr_body = JObject [(''ok'', JBool True), (''service'', JString ''maildesk-cf'')] \<rparr>
      else if path = ''/readyz'' then readyz sv
      else if path = ''/api/replies'' \<and> rq_method request \<noteq> ''POST'' then ret methodNotAllowed
      else if path = ''/api/replies'' then
        (if with_default ''disabled'' (env_REPLY_API_MODE (sv_env sv)) \<noteq> ''token'' then ret notFound
         else queueReply sv request)
      else ret notFound)"

section \<open>Cloudflare Access\<close>

record access_env =
  ac_AUD :: "string option"
  ac_TEAM_DOMAIN :: "string option"

record access_configuration =
  ao_audience :: string
  ao_teamDomain :: string

definition starts_with :: "string \<Rightarrow> string \<Rightarrow> bool" where
  "starts_with p s \<longleftrightarrow> take (length p) s = p"

definition ends_with :: "string \<Rightarrow> string \<Rightarrow> bool" where
  "ends_with p s \<longleftrightarrow> length p \<le> length s \<and> drop (length s - length p) s = p"

definition isDeskPath :: "string \<Rightarrow> bool" where
  "isDeskPath pathname \<longleftrightarrow> pathname = ''/desk'' \<or> starts_with ''/desk/'' pathname"

definition isAccessProtectedPath :: "string \<Rightarrow> string option \<Rightarrow> bool" where
  \<comment> \<open>the second argument is the configured scope\<close>
  "isAccessProtectedPath pathname scope \<longleftrightarrow>
     (let s = with_default ''desk_only'' scope in
      if s = ''all_routes'' then starts_with ''/'' pathname
      else if s = ''desk_only'' then isDeskPath pathname else True)"

definition accessConfiguration :: "services \<Rightarrow> access_env \<Rightarrow> access_configuration option" where
  "accessConfiguration sv env =
     (let audience = map_option trim (ac_AUD env); configured = map_option trim (ac_TEAM_DOMAIN env) in
      if \<not> truthy audience \<or> \<not> truthy configured then None
      else (case sv_url sv (the configured) of
              None \<Rightarrow> None
            | Some u \<Rightarrow>
                if ur_protocol u \<noteq> ''https:'' \<or> \<not> ends_with ''.cloudflareaccess.com'' (ur_hostname u) \<or>
                   ur_pathname u \<noteq> ''/'' \<or> ur_search u \<noteq> [] \<or> ur_hash u \<noteq> []
                then None else Some \<lparr> ao_audience = the audience, ao_teamDomain = ur_origin u \<rparr>))"

definition accessRejection :: "nat \<Rightarrow> string \<Rightarrow> http_response" where
  "accessRejection status message =
     \<lparr> hr_status = status,
       hr_headers = [(''cache-control'', ''no-store''), (''content-type'', ''text/plain; charset=utf-8''),
         (''x-content-type-options'', ''nosniff'')],
       hr_body = JString message \<rparr>"

definition identified_request :: "http_request \<Rightarrow> string \<Rightarrow> http_request" where
  "identified_request request email =
     request\<lparr>rq_headers := ((rq_headers request)(''x-maildesk-access-validated'' := None))
       (''cf-access-authenticated-user-email'' := Some (lower (trim email)), ''x-maildesk-access-validated'' := Some ''1'')\<rparr>"

definition verifiedAccessRequest ::
  "services \<Rightarrow> (string \<Rightarrow> access_configuration \<Rightarrow> jv act) \<Rightarrow> http_request \<Rightarrow> access_env \<Rightarrow> (http_response + http_request) act" where
  \<comment> \<open>the second argument is \<^verbatim>\<open>verifyClaims\<close>: the claims of a token, or the exception of \<^verbatim>\<open>jose\<close>\<close>
  "verifiedAccessRequest sv verifyClaims request env =
     (case accessConfiguration sv env of
        None \<Rightarrow> ret (Inl (accessRejection 503 ''Cloudflare Access validation is not configured.''))
      | Some configuration \<Rightarrow>
          let token = map_option trim (rq_headers request ''cf-access-jwt-assertion'') in
          if \<not> truthy token then ret (Inl (accessRejection 401 ''Cloudflare Access authentication is required.''))
          else tryCatch
            (andThen (verifyClaims (the token) configuration) (\<lambda>payload.
               case js_get payload ''email'' of
                 JString email \<Rightarrow>
                   if trim email = []
                   then ret (Inl (accessRejection 403 ''The Access identity does not include an operator email.''))
                   else ret (Inr (identified_request request email))
               | _ \<Rightarrow> ret (Inl (accessRejection 403 ''The Access identity does not include an operator email.''))))
            (\<lambda>_. ret (Inl (accessRejection 403 ''Cloudflare Access authentication could not be verified.''))))"

section \<open>Who may queue a reply\<close>

lemma js_set_get: "js_get (js_set k x v) j = (if j = k then x else js_get v j)"
proof -
  have "map_of (map (\<lambda>(i, y). (i, if i = k then x else y)) ps) j =
      (if j = k then map_option (\<lambda>_. x) (map_of ps j) else map_of ps j)" for ps
    by (induction ps) auto
  moreover have "k \<in> fst ` set ps \<longleftrightarrow> map_of ps k \<noteq> None" for ps :: "(string \<times> jv) list"
    by (simp add: map_of_eq_None_iff)
  ultimately show ?thesis
    by (cases v) (auto simp: js_set_def js_get_def js_entries_def Let_def map_add_def split: option.splits)
qed

lemma queueSend_jobs: "w_jobs (snd (queueSend j w)) \<in> {w_jobs w, w_jobs w @ [j]}"
proof -
  obtain e u where u: "begin_call w = (e, u)" by (cases "begin_call w")
  have "w_jobs u = w_jobs w" using begin_call_snd [of w] u by auto
  then show ?thesis by (cases e) (auto simp: queueSend_def call_def u)
qed

lemma submit_body_jobs:
  assumes "w_jobs (snd (submit_body sv body w)) \<noteq> w_jobs w"
  shows "\<exists>v authorization at. fst (loadActivePolicy sv w) = Inr (Some v) \<and>
    reply_authorization_of sv (ap_policy v) body = Inr authorization \<and>
    w_jobs (snd (submit_body sv body w)) = w_jobs w @ [queued_reply sv body authorization at]"
proof -
  obtain r u where l: "loadActivePolicy sv w = (r, u)" by (cases "loadActivePolicy sv w")
  have u: "w_jobs u = w_jobs w" using only_reads_fields [OF preservesD [OF only_reads.loadActivePolicy, of w sv]] l by simp
  obtain v where v: "r = Inr (Some v)"
    using assms l u by (cases r) (auto simp: submit_body_def andThen_def split: option.splits)
  obtain authorization where a: "reply_authorization_of sv (ap_policy v) body = Inr authorization"
    using assms l u v by (cases "reply_authorization_of sv (ap_policy v) body") (auto simp: submit_body_def andThen_def)
  let ?job = "queued_reply sv body authorization (w_now u)"
  have "w_jobs (snd (submit_body sv body w)) = w_jobs (snd (queueSend ?job u))"
    by (auto simp: submit_body_def andThen_def l v a readClock_def followedBy_def Let_def split: prod.splits sum.splits)
  then show ?thesis using queueSend_jobs [of ?job u] assms l u v a by auto
qed

lemma queueReply_jobs:
  assumes "w_jobs (snd (queueReply sv request w)) \<noteq> w_jobs w"
  shows "odc_mode (operatorDeliveryConfig (sv_env sv)) = Web_Desk \<and> isAuthorizedRequest request (sv_env sv) \<and>
    (\<exists>body v authorization at. request_json sv request = Some body \<and> isOutboundReplyRequestedJob body \<and>
       fst (loadActivePolicy sv w) = Inr (Some v) \<and> reply_authorization_of sv (ap_policy v) body = Inr authorization \<and>
       w_jobs (snd (queueReply sv request w)) = w_jobs w @ [queued_reply sv body authorization at])"
proof -
  let ?mode = "odc_mode (operatorDeliveryConfig (sv_env sv))"
  have mode: "?mode = Web_Desk"
    using assms by (cases ?mode) (auto simp: queueReply_def Let_def)
  have token: "isAuthorizedRequest request (sv_env sv)"
    using assms by (rule contrapos_np) (simp add: queueReply_def Let_def)
  obtain body where body: "request_json sv request = Some body"
    using assms mode token by (cases "request_json sv request") (auto simp: queueReply_def)
  have shape: "isOutboundReplyRequestedJob body"
    using assms mode token body by (auto simp: queueReply_def split: if_splits)
  have "queueReply sv request = submit_body sv body"
    using mode token body shape by (simp add: queueReply_def)
  then show ?thesis using submit_body_jobs [of sv body w] assms mode token body shape by auto
qed

section \<open>Whose request is admitted\<close>

lemma verifiedAccessRequest_Inr:
  assumes "verifiedAccessRequest sv verifyClaims request env w = (Inr (Inr admitted), w')"
  shows "\<exists>configuration token payload email. accessConfiguration sv env = Some configuration \<and>
    map_option trim (rq_headers request ''cf-access-jwt-assertion'') = Some token \<and>
    verifyClaims token configuration w = (Inr payload, w') \<and> js_get payload ''email'' = JString email \<and> trim email \<noteq> [] \<and>
    admitted = identified_request request email"
proof -
  obtain c where c: "accessConfiguration sv env = Some c"
    using assms by (cases "accessConfiguration sv env") (auto simp: verifiedAccessRequest_def)
  obtain token where t: "map_option trim (rq_headers request ''cf-access-jwt-assertion'') = Some token" "token \<noteq> []"
    using assms c by (auto simp: verifiedAccessRequest_def truthy_def split: if_splits option.splits)
  obtain r v where v: "verifyClaims token c w = (r, v)" by (cases "verifyClaims token c w")
  show ?thesis
    using assms c t v
    by (cases r) (auto simp: verifiedAccessRequest_def tryCatch_def andThen_def truthy_def split: jv.splits if_splits)
qed

end
