(* ===== verification/Mcp.thy ===== *)
theory Mcp
  imports Http_Api Dkim Base64
begin

text \<open>
  \<^verbatim>\<open>workers/mail-mcp/src/\<close>: the read-only MCP server. \<^verbatim>\<open>auth.ts\<close> binds a verified token to an operator, \<^verbatim>\<open>read-model.ts\<close>
  lists the operator's routes page by page and reads the stored status of one, \<^verbatim>\<open>request.ts\<close> bounds the body, and
  \<^verbatim>\<open>index.ts\<close> joins them. Parameters: the verification of a token (\<^verbatim>\<open>jose\<close>) and the MCP handler of the SDK.
\<close>

section \<open>Configuration\<close>

record mcp_env =
  mc_MODE :: "string option"
  mc_RESOURCE :: "string option"
  mc_ISSUER :: "string option"
  mc_JWKS_URL :: "string option"
  mc_BINDINGS_JSON :: "string option"

record mcp_binding =
  bn_subject :: string
  bn_client_id :: string
  bn_operator :: string

record mcp_configuration =
  mg_resource :: url                                \<comment> \<open>the parsed form of \<^verbatim>\<open>config.resource\<close>, which is its \<^verbatim>\<open>href\<close>\<close>
  mg_issuer :: string
  mg_jwks :: string
  mg_bindings :: "mcp_binding list"

definition MCP_SCOPES :: "string list" where
  "MCP_SCOPES = [''maildesk.routes.read'', ''maildesk.status.read'']"

definition plain_https :: "url \<Rightarrow> bool" where
  "plain_https u \<longleftrightarrow>
     ur_protocol u = ''https:'' \<and> ur_username u = [] \<and> ur_password u = [] \<and> ur_search u = [] \<and> ur_hash u = []"

definition identifier_ok :: "jv \<Rightarrow> bool" where
  "identifier_ok v \<longleftrightarrow>
     (case v of JString s \<Rightarrow> 0 < length s \<and> length s \<le> 256 \<and> \<not> list_ex (\<lambda>c. code c < 32) s | _ \<Rightarrow> False)"

definition operator_shape :: "string \<Rightarrow> bool" where
  \<comment> \<open>\<^verbatim>\<open>/^[^\s@]+@[^\s@]+\.[^\s@]+$/\<close>\<close>
  "operator_shape s \<longleftrightarrow>
     (case split_on (CHR ''@'') s of
        [local_part, domain] \<Rightarrow>
          local_part \<noteq> [] \<and> \<not> list_ex is_ws s \<and> CHR ''.'' \<in> set (butlast (tl domain))
      | _ \<Rightarrow> False)"

definition operator_ok :: "jv \<Rightarrow> bool" where
  "operator_ok v \<longleftrightarrow>
     (case v of JString s \<Rightarrow> length s \<le> 254 \<and> s = lower (trim s) \<and> operator_shape s | _ \<Rightarrow> False)"

definition read_binding :: "jv \<Rightarrow> mcp_binding option" where
  \<comment> \<open>the keys of an array are numbers, so it is refused as other values are\<close>
  "read_binding v =
     (if js_is_record v \<and> join '','' (order_by id (js_keys v)) = ''client_id,operator,subject'' \<and>
         identifier_ok (js_get v ''subject'') \<and> identifier_ok (js_get v ''client_id'') \<and> operator_ok (js_get v ''operator'')
      then Some \<lparr> bn_subject = str_field v ''subject'', bn_client_id = str_field v ''client_id'',
        bn_operator = str_field v ''operator'' \<rparr>
      else None)"

definition binding_key :: "mcp_binding \<Rightarrow> string" where
  "binding_key b = json_stringify (jstrings [bn_subject b, bn_client_id b])"

fun read_bindings :: "string list \<Rightarrow> jv list \<Rightarrow> mcp_binding list option" where
  \<comment> \<open>the first argument is the set \<^verbatim>\<open>seen\<close>\<close>
  "read_bindings used [] = Some []"
| "read_bindings used (v # vs) =
     (case read_binding v of
        None \<Rightarrow> None
      | Some b \<Rightarrow>
          if binding_key b \<in> set used then None
          else map_option (Cons b) (read_bindings (binding_key b # used) vs))"

definition mcp_bindings :: "services \<Rightarrow> string option \<Rightarrow> mcp_binding list option" where
  "mcp_bindings sv text =
     (case text of
        None \<Rightarrow> None
      | Some s \<Rightarrow>
          if 65536 < length s then None
          else (case sv_json_parse sv s of
                  Some (JArray vs) \<Rightarrow> if vs = [] \<or> 100 < length vs then None else read_bindings [] vs
                | _ \<Rightarrow> None))"

definition mcpConfiguration :: "services \<Rightarrow> mcp_env \<Rightarrow> mcp_configuration option" where
  "mcpConfiguration sv env =
     (case (sv_url sv (with_default [] (mc_RESOURCE env)), sv_url sv (with_default [] (mc_ISSUER env)),
            sv_url sv (with_default [] (mc_JWKS_URL env))) of
        (Some resource, Some issuer, Some jwks) \<Rightarrow>
          if \<not> list_all plain_https [resource, issuer, jwks] \<or> ur_pathname resource \<noteq> ''/mcp'' \<or>
             ur_origin jwks \<noteq> ur_origin issuer
          then None
          else map_option (\<lambda>bindings. \<lparr> mg_resource = resource, mg_issuer = with_default [] (mc_ISSUER env), mg_jwks = ur_href jwks,
                 mg_bindings = bindings \<rparr>) (mcp_bindings sv (mc_BINDINGS_JSON env))
      | _ \<Rightarrow> None)"

section \<open>Authentication\<close>

record mcp_principal =
  pn_subject :: string
  pn_clientId :: string
  pn_operator :: string
  pn_scopes :: "string list"
  pn_binding :: string
  pn_expiresAt :: int

record jwt_claims =                                 \<comment> \<open>what \<^verbatim>\<open>jwtVerify\<close> accepted; the times are seconds\<close>
  jw_aud :: jv
  jw_sub :: jv
  jw_client_id :: jv
  jw_scope :: jv
  jw_exp :: int
  jw_iat :: int

type_synonym http_error = "nat \<times> string"            \<comment> \<open>\<^verbatim>\<open>McpAccessError\<close>, \<^verbatim>\<open>McpRequestError\<close>: status and code\<close>

record mcp_deps =
  md_verify :: "string \<Rightarrow> mcp_configuration \<Rightarrow> int \<Rightarrow> jwt_claims act"
  md_type_error :: "exn \<Rightarrow> bool"                      \<comment> \<open>\<^verbatim>\<open>error instanceof TypeError\<close>\<close>
  md_sdk :: "(string \<times> (jv \<Rightarrow> jv act)) list \<Rightarrow> byte list option \<Rightarrow> http_response act"

definition token_char :: "char \<Rightarrow> bool" where
  "token_char c \<longleftrightarrow> is_alnum c \<or> c \<in> set ''._~-''"

definition bearer_shape :: "string \<Rightarrow> bool" where
  \<comment> \<open>\<^verbatim>\<open>/^Bearer [A-Za-z0-9._~-]+$/i\<close>\<close>
  "bearer_shape authorization \<longleftrightarrow>
     lower (take 7 authorization) = ''bearer '' \<and> drop 7 authorization \<noteq> [] \<and> list_all token_char (drop 7 authorization)"

fun words :: "string \<Rightarrow> string \<Rightarrow> string list" where
  \<comment> \<open>\<^verbatim>\<open>split(/\s+/)\<close> without the empty pieces, which no scope equals; the first argument is the piece so far\<close>
  "words piece [] = (if piece = [] then [] else [piece])"
| "words piece (c # cs) =
     (if is_ws c then (if piece = [] then words [] cs else piece # words [] cs) else words (piece @ [c]) cs)"

definition granted_scopes :: "string \<Rightarrow> string list" where
  "granted_scopes scope = order_by id (uniq (filter (\<lambda>s. s \<in> set MCP_SCOPES) (words [] scope)))"

definition principal_of :: "services \<Rightarrow> mcp_configuration \<Rightarrow> jwt_claims \<Rightarrow> http_error + mcp_principal" where
  "principal_of sv config payload =
     (case (jw_sub payload, jw_client_id payload, jw_scope payload) of
        (JString sub, JString client, JString scope) \<Rightarrow>
          if jw_aud payload \<noteq> JString (ur_href (mg_resource config)) \<or> 1024 < length scope then Inl (401, ''invalid_token'')
          else (case find (\<lambda>row. bn_subject row = sub \<and> bn_client_id row = client) (mg_bindings config) of
                  None \<Rightarrow> Inl (403, ''principal_not_bound'')
                | Some binding \<Rightarrow>
                    let scopes = granted_scopes scope in
                    if scopes = [] then Inl (403, ''insufficient_scope'')
                    else Inr \<lparr> pn_subject = bn_subject binding, pn_clientId = bn_client_id binding,
                      pn_operator = bn_operator binding, pn_scopes = scopes,
                      pn_binding = sha sv (json_stringify (JArray [JString (mg_issuer config), JString (bn_subject binding),
                        JString (bn_client_id binding), JString (bn_operator binding), jstrings scopes])),
                      pn_expiresAt = min (jw_exp payload * 1000) ((jw_iat payload + 3600) * 1000) \<rparr>)
      | _ \<Rightarrow> Inl (401, ''invalid_token''))"

definition verification_failed :: "mcp_deps \<Rightarrow> exn \<Rightarrow> http_error" where
  "verification_failed deps e =
     (if exn_code e = JString ''ERR_JWKS_TIMEOUT'' \<or> (md_type_error deps e \<and> exn_code e \<in> {JUndefined, JNull})
      then (503, ''authorization_unavailable'') else (401, ''invalid_token''))"

definition authenticateMcp ::
  "services \<Rightarrow> mcp_deps \<Rightarrow> http_request \<Rightarrow> mcp_configuration \<Rightarrow> int \<Rightarrow> (http_error + mcp_principal) act" where
  "authenticateMcp sv deps request config now =
     (let authorization = with_default [] (rq_headers request ''authorization'') in
      if 16384 < length authorization \<or> \<not> bearer_shape authorization then ret (Inl (401, ''invalid_token''))
      else tryCatch (andThen (md_verify deps (drop 7 authorization) config now) (\<lambda>payload. ret (principal_of sv config payload)))
             (\<lambda>e. ret (Inl (verification_failed deps e))))"

section \<open>The policy behind a read\<close>

definition MCP_ROUTE_PAGE_SIZE :: nat where
  "MCP_ROUTE_PAGE_SIZE = 32"

definition descriptor_json :: "route_decision \<Rightarrow> jv" where
  "descriptor_json route =
     JObject [(''route_id'', JString (route_storage_id route)),
       (''address'', JString (de_localPart route @ ''@'' @ de_domain route)),
       (''kind'', JString (kind_name (de_routeKind route)))]"

definition allowed_routes :: "active_policy_value \<Rightarrow> mcp_principal \<Rightarrow> route_decision list" where
  "allowed_routes active who =
     filter (\<lambda>route. pn_operator who \<in> set (de_operators route)) (map fst (pp_routes (ap_projection active)))"

definition abort_check :: "int option \<Rightarrow> unit act" where
  \<comment> \<open>\<^verbatim>\<open>signal?.throwIfAborted()\<close>, the signal given by its deadline\<close>
  "abort_check signal = (case signal of None \<Rightarrow> ret () | Some deadline \<Rightarrow> checkDeadline deadline)"

definition mcp_policy :: "services \<Rightarrow> int option \<Rightarrow> active_policy_value act" where
  "mcp_policy sv signal =
     followedBy (abort_check signal)
       (if env_OPERATOR_DELIVERY_MODE (sv_env sv) \<noteq> Some ''inbox_relay'' then throw (Err ''policy_unavailable'')
        else tryCatch
          (andThen (loadActivePolicy sv) (\<lambda>active.
             followedBy (abort_check signal) (case active of None \<Rightarrow> throw (Err []) | Some v \<Rightarrow> ret v)))
          (\<lambda>_. throw (Err ''policy_unavailable'')))"

section \<open>Cursors\<close>

definition cursor_json :: "active_policy_value \<Rightarrow> mcp_principal \<Rightarrow> string \<Rightarrow> int \<Rightarrow> jv" where
  "cursor_json active who after now =
     JObject [(''policy'', JString (ap_sha256 active)), (''principal'', JString (pn_binding who)),
       (''after'', JString after), (''expires_at'', JInt (now + 600000))]"

definition url_char :: "char \<Rightarrow> char" where
  "url_char c = (if c = CHR ''+'' then CHR ''-'' else if c = CHR ''/'' then CHR ''_'' else c)"

definition url_unchar :: "char \<Rightarrow> char" where
  "url_unchar c = (if c = CHR ''-'' then CHR ''+'' else if c = CHR ''_'' then CHR ''/'' else c)"

definition cursor_text :: "jv \<Rightarrow> string" where
  \<comment> \<open>\<^verbatim>\<open>btoa\<close> in the URL alphabet, without the padding\<close>
  "cursor_text v = rev (dropWhile (\<lambda>c. c = CHR ''='') (rev (map url_char (btoa (json_stringify v)))))"

definition cursor_char :: "char \<Rightarrow> bool" where
  "cursor_char c \<longleftrightarrow> is_alnum c \<or> c = CHR ''_'' \<or> c = CHR ''-''"

definition cursor_value :: "services \<Rightarrow> string \<Rightarrow> jv option" where
  \<comment> \<open>the JSON value of a cursor\<close>
  "cursor_value sv value =
     (if 2048 < length value \<or> \<not> list_all cursor_char value then None
      else Option.bind (atob (map url_unchar value)) (sv_json_parse sv))"

definition cursor_holds :: "active_policy_value \<Rightarrow> mcp_principal \<Rightarrow> int \<Rightarrow> jv \<Rightarrow> bool" where
  "cursor_holds active who now row \<longleftrightarrow>
     js_is_record row \<and> join '','' (order_by id (js_keys row)) = ''after,expires_at,policy,principal'' \<and>
     js_get row ''policy'' = JString (ap_sha256 active) \<and> js_get row ''principal'' = JString (pn_binding who) \<and>
     js_get row ''after'' \<in> (\<lambda>route. JString (route_storage_id route)) ` set (allowed_routes active who) \<and>
     (case js_get row ''expires_at'' of
        JInt t \<Rightarrow> \<bar>t\<bar> \<le> max_safe_integer \<and> now < t \<and> t \<le> now + 600000 | _ \<Rightarrow> False)"

definition cursorAfter ::
  "services \<Rightarrow> string option \<Rightarrow> active_policy_value \<Rightarrow> mcp_principal \<Rightarrow> int \<Rightarrow> string + string" where
  "cursorAfter sv value active who now =
     (if \<not> truthy value then Inr []
      else (case cursor_value sv (the value) of
              Some row \<Rightarrow> if cursor_holds active who now row then Inr (str_field row ''after'')
                          else Inl ''cursor_invalid_or_stale''
            | None \<Rightarrow> Inl ''cursor_invalid_or_stale''))"

section \<open>Listing routes\<close>

record mcp_page =
  mp_read_at :: string
  mp_policy :: string
  mp_routes :: "route_decision list"
  mp_next :: "string option"

definition comes_after :: "string \<Rightarrow> string \<Rightarrow> bool" where
  \<comment> \<open>\<^verbatim>\<open>id > after\<close> on strings\<close>
  "comes_after after i \<longleftrightarrow> \<not> lexordp_eq (map code i) (map code after)"

definition sorted_routes :: "active_policy_value \<Rightarrow> mcp_principal \<Rightarrow> route_decision list" where
  "sorted_routes active who = order_by route_storage_id (allowed_routes active who)"

definition page_after :: "services \<Rightarrow> active_policy_value \<Rightarrow> mcp_principal \<Rightarrow> string \<Rightarrow> int \<Rightarrow> mcp_page" where
  "page_after sv active who after now =
     (let routes = filter (\<lambda>route. comes_after after (route_storage_id route)) (sorted_routes active who);
          page = take MCP_ROUTE_PAGE_SIZE routes in
      \<lparr> mp_read_at = pf_to_iso (sv_platform sv) now, mp_policy = ap_sha256 active, mp_routes = page,
        mp_next = (if length page < length routes
                   then Some (cursor_text (cursor_json active who (route_storage_id (last page)) now)) else None) \<rparr>)"

definition listAuthorizedRoutes :: "services \<Rightarrow> mcp_principal \<Rightarrow> string option \<Rightarrow> int option \<Rightarrow> mcp_page act" where
  "listAuthorizedRoutes sv who cursor signal =
     andThen (mcp_policy sv signal) (\<lambda>active.
     andThen readClock (\<lambda>now.
     andThen (liftE (cursorAfter sv cursor active who now)) (\<lambda>after.
       ret (page_after sv active who after now))))"

definition page_json :: "mcp_page \<Rightarrow> jv" where
  "page_json p =
     JObject [(''schema_version'', JInt 1), (''read_at'', JString (mp_read_at p)), (''policy_sha256'', JString (mp_policy p)),
       (''routes'', JArray (map descriptor_json (mp_routes p))), (''next_cursor'', jopt (mp_next p))]"

section \<open>The status of one route\<close>

definition active_route :: "string \<Rightarrow> string \<Rightarrow> db \<Rightarrow> route_row option" where
  \<comment> \<open>the rows that both statements join\<close>
  "active_route i policySha256 d =
     first_row (\<lambda>ar. ar_id ar = i \<and> ar_enabled ar \<and> ar_policy_sha256 ar = Some policySha256 \<and>
       active_policy d = Some policySha256) (db_routes d)"

definition stored_status_of :: "string \<Rightarrow> string \<Rightarrow> db \<Rightarrow> (int \<times> status_row option) option" where
  \<comment> \<open>\<^verbatim>\<open>MCP_STATUS_SQL\<close>: the generation of the route, and its stored projection\<close>
  "stored_status_of i policySha256 d =
     map_option (\<lambda>ar. (ar_status_generation ar, first_row (\<lambda>s. st_route_id s = ar_id ar) (db_status d)))
       (active_route i policySha256 d)"

definition generation_of :: "string \<Rightarrow> string \<Rightarrow> db \<Rightarrow> int option" where
  \<comment> \<open>\<^verbatim>\<open>MCP_GENERATION_SQL\<close>\<close>
  "generation_of i policySha256 d = map_option ar_status_generation (active_route i policySha256 d)"

definition row_binds :: "string \<Rightarrow> int \<Rightarrow> status_row \<Rightarrow> jv \<Rightarrow> bool" where
  \<comment> \<open>the columns agree with the object; the table admits no schema version but 1\<close>
  "row_binds policySha256 generation s status \<longleftrightarrow>
     js_get status ''projection_revision'' = JString (st_projection_revision s) \<and> st_source_generation s = generation \<and>
     st_policy_sha256 s = policySha256 \<and> js_get status ''observed_at'' = JString (st_observed_at s) \<and>
     js_get status ''valid_until'' = JString (st_valid_until s)"

definition status_of_row :: "services \<Rightarrow> string \<Rightarrow> int \<times> status_row option \<Rightarrow> int \<Rightarrow> status_read" where
  "status_of_row sv policySha256 row now =
     (case row of (generation, stored_row) \<Rightarrow>
        let read = readRouteStatusProjection (sv_platform sv) (sv_json_parse sv)
              (case stored_row of None \<Rightarrow> JNull | Some s \<Rightarrow> JString (json_stringify (st_projection s)))
              policySha256 (JInt generation) (Some now) in
        (case (sr_status read, stored_row) of
           (Some status, Some s) \<Rightarrow>
             if row_binds policySha256 generation s status then read
             else \<lparr> sr_state = Read_Unknown, sr_status = None, sr_reason = Some ''operational_projection_binding_mismatch'' \<rparr>
         | (Some _, None) \<Rightarrow>
             \<lparr> sr_state = Read_Unknown, sr_status = None, sr_reason = Some ''operational_projection_binding_mismatch'' \<rparr>
         | (None, _) \<Rightarrow> read))"

definition VIEW_FIELDS :: "string list" where
  "VIEW_FIELDS = [''classification'', ''observed_at'', ''valid_until'', ''inbound_outcome'', ''reply_outcome'',
     ''inbox_proof'', ''reply_proof'', ''pending_dispatch'', ''pending_queue'', ''unknown_provider_attempts'',
     ''reason_codes'', ''next_action'']"

definition delivery_view :: "services \<Rightarrow> string \<Rightarrow> route_decision \<Rightarrow> status_read \<Rightarrow> int \<Rightarrow> jv" where
  "delivery_view sv policySha256 route read now =
     JObject [(''schema_version'', JInt 1), (''read_at'', JString (pf_to_iso (sv_platform sv) now)),
       (''policy_sha256'', JString policySha256), (''route'', descriptor_json route),
       (''projection_state'', JString (case sr_state read of Read_Current \<Rightarrow> ''current'' | Read_Stale \<Rightarrow> ''stale''
          | Read_Unknown \<Rightarrow> ''unknown'')),
       (''operational_ready'', JBool (operationalReadinessBlocker read = None)), (''reason'', jopt (sr_reason read)),
       (''status'', case sr_status read of None \<Rightarrow> JNull
          | Some status \<Rightarrow> JObject (map (\<lambda>k. (k, js_get status k)) VIEW_FIELDS))]"

definition read_or :: "string \<Rightarrow> 'a act \<Rightarrow> 'a act" where
  \<comment> \<open>a query whose failure is reported with the code\<close>
  "read_or message m = tryCatch m (\<lambda>_. throw (Err message))"

definition still_authorized :: "active_policy_value \<Rightarrow> active_policy_value \<Rightarrow> mcp_principal \<Rightarrow> string \<Rightarrow> bool" where
  "still_authorized current active who i \<longleftrightarrow>
     ap_sha256 current = ap_sha256 active \<and> i \<in> route_storage_id ` set (allowed_routes current who)"

definition getDeliveryStatus :: "services \<Rightarrow> mcp_principal \<Rightarrow> string \<Rightarrow> int option \<Rightarrow> jv act" where
  "getDeliveryStatus sv who i signal =
     andThen (mcp_policy sv signal) (\<lambda>active.
       case find (\<lambda>route. route_storage_id route = i) (allowed_routes active who) of
         None \<Rightarrow> throw (Err ''route_not_found_or_not_authorized'')
       | Some route \<Rightarrow>
           andThen (read_or ''status_unavailable'' (d1 (query (\<lambda>_ d. stored_status_of i (ap_sha256 active) d)))) (\<lambda>found.
             case found of
               None \<Rightarrow> throw (Err ''policy_changed_or_status_unavailable'')
             | Some row \<Rightarrow>
                 andThen (mcp_policy sv signal) (\<lambda>current.
                   if \<not> still_authorized current active who i then throw (Err ''policy_changed'')
                   else andThen (read_or ''status_unavailable'' (d1 (query (\<lambda>_ d. generation_of i (ap_sha256 active) d)))) (\<lambda>latest.
                     followedBy (abort_check signal)
                       (if latest \<noteq> Some (fst row) then throw (Err ''status_changed_during_read'')
                        else andThen readClock (\<lambda>now.
                          ret (delivery_view sv (ap_sha256 active) route (status_of_row sv (ap_sha256 active) row now) now)))))))"

section \<open>The body of a request\<close>

definition MCP_MAX_REQUEST_BYTES :: nat where
  "MCP_MAX_REQUEST_BYTES = 65536"

definition readChunk :: "'a \<Rightarrow> 'a act" where
  \<comment> \<open>\<^verbatim>\<open>await reader.read()\<close>\<close>
  "readChunk chunk = call (\<lambda>w. (Inr chunk, w))"

fun read_chunks :: "int \<Rightarrow> nat \<Rightarrow> byte list list \<Rightarrow> (http_error + byte list) act" where
  \<comment> \<open>the loop; the size so far is an argument\<close>
  "read_chunks deadline got [] = andThen (readChunk ()) (\<lambda>_. followedBy (checkDeadline deadline) (ret (Inr [])))"
| "read_chunks deadline got (chunk # chunks) =
     andThen (readChunk chunk) (\<lambda>bytes.
       followedBy (checkDeadline deadline)
         (if MCP_MAX_REQUEST_BYTES < got + length bytes then ret (Inl (413, ''mcp_request_too_large''))
          else andThen (read_chunks deadline (got + length bytes) chunks) (\<lambda>rest.
            ret (case rest of Inl e \<Rightarrow> Inl e | Inr tail \<Rightarrow> Inr (bytes @ tail)))))"

definition boundedMcpRequest :: "services \<Rightarrow> http_request \<Rightarrow> int \<Rightarrow> (http_error + byte list option) act" where
  "boundedMcpRequest sv request deadline =
     (let declared = (case rq_headers request ''content-length'' of None \<Rightarrow> Some 0 | Some s \<Rightarrow> sv_number sv s) in
      if (case declared of None \<Rightarrow> False | Some n \<Rightarrow> int MCP_MAX_REQUEST_BYTES < n)
      then ret (Inl (413, ''mcp_request_too_large''))
      else (case rq_chunks request of
              None \<Rightarrow> ret (Inr None)
            | Some chunks \<Rightarrow>
                followedBy (checkDeadline deadline)
                  (andThen (read_chunks deadline 0 chunks) (\<lambda>r. ret (map_sum id Some r)))))"

section \<open>The server\<close>

definition READ_CODES :: "string list" where
  \<comment> \<open>the messages of \<^verbatim>\<open>McpReadError\<close>\<close>
  "READ_CODES = [''policy_unavailable'', ''cursor_invalid_or_stale'', ''route_not_found_or_not_authorized'',
     ''status_unavailable'', ''policy_changed_or_status_unavailable'', ''policy_changed'', ''status_changed_during_read'']"

definition text_content :: "string \<Rightarrow> jv" where
  "text_content s = JArray [JObject [(''type'', JString ''text''), (''text'', JString s)]]"

definition tool_result :: "int \<Rightarrow> jv act \<Rightarrow> jv act" where
  "tool_result deadline operation =
     tryCatch
       (followedBy (checkDeadline deadline) (andThen operation (\<lambda>v. followedBy (checkDeadline deadline)
          (ret (JObject [(''content'', text_content (json_stringify v)), (''structuredContent'', v)])))))
       (\<lambda>e. ret (JObject [(''isError'', JBool True),
          (''content'', text_content (if exn_message e \<in> set READ_CODES then exn_message e else ''maildesk_read_unavailable''))]))"

definition mcp_tools :: "services \<Rightarrow> mcp_principal \<Rightarrow> int \<Rightarrow> (string \<times> (jv \<Rightarrow> jv act)) list" where
  "mcp_tools sv who deadline =
     (if ''maildesk.routes.read'' \<in> set (pn_scopes who)
      then [(''list_authorized_routes'', \<lambda>args. tool_result deadline
             (andThen (listAuthorizedRoutes sv who (opt_field args ''cursor'') (Some deadline)) (\<lambda>p. ret (page_json p))))]
      else []) @
     (if ''maildesk.status.read'' \<in> set (pn_scopes who)
      then [(''get_delivery_status'', \<lambda>args. tool_result deadline
             (getDeliveryStatus sv who (str_field args ''route_id'') (Some deadline)))]
      else [])"

definition mcp_json :: "nat \<Rightarrow> (string \<times> string) list \<Rightarrow> jv \<Rightarrow> http_response" where
  "mcp_json status headers v =
     \<lparr> hr_status = status, hr_headers = [(''content-type'', ''application/json''), (''cache-control'', ''no-store'')] @ headers,
       hr_body = v \<rparr>"

definition mcp_error :: "nat \<Rightarrow> string \<Rightarrow> http_response" where
  "mcp_error status err = mcp_json status [] (JObject [(''error'', JString err)])"

definition METADATA_PATH :: string where
  "METADATA_PATH = ''/.well-known/oauth-protected-resource/mcp''"

definition denied_response :: "mcp_configuration \<Rightarrow> http_error \<Rightarrow> http_response" where
  "denied_response config e =
     mcp_json (fst e)
       [(''www-authenticate'', ''Bearer resource_metadata='' @ [CHR 0x22] @ ur_origin (mg_resource config) @ METADATA_PATH @
          [CHR 0x22] @ '', scope='' @ [CHR 0x22] @ join '' '' MCP_SCOPES @ [CHR 0x22])]
       (JObject [(''error'', JString (snd e))])"

definition metadata_json :: "mcp_configuration \<Rightarrow> jv" where
  "metadata_json config =
     JObject [(''resource'', JString (ur_href (mg_resource config))), (''authorization_servers'', jstrings [mg_issuer config]),
       (''scopes_supported'', jstrings MCP_SCOPES), (''bearer_methods_supported'', jstrings [''header''])]"

definition withRequestDeadline :: "int \<Rightarrow> (int \<Rightarrow> 'a act) \<Rightarrow> 'a act" where
  \<comment> \<open>a result that comes at the deadline or later is lost\<close>
  "withRequestDeadline milliseconds operation =
     andThen readClock (\<lambda>started w.
       (case operation (started + milliseconds) w of
          (r, w') \<Rightarrow> if started + milliseconds \<le> w_now w' then (Inl (Err ''request deadline exceeded''), w') else (r, w')))"

definition served :: "mcp_principal \<Rightarrow> int \<Rightarrow> http_response \<Rightarrow> http_response act" where
  \<comment> \<open>the response is released within the deadline and the life of the token\<close>
  "served who deadline response =
     followedBy (checkDeadline deadline)
       (andThen readClock (\<lambda>now.
          ret (if pn_expiresAt who \<le> now then mcp_error 401 ''invalid_token''
               else response\<lparr>hr_headers := filter (\<lambda>h. fst h \<noteq> ''cache-control'') (hr_headers response) @ [(''cache-control'', ''no-store'')]\<rparr>)))"

definition serve_mcp :: "services \<Rightarrow> mcp_deps \<Rightarrow> mcp_configuration \<Rightarrow> http_request \<Rightarrow> int \<Rightarrow> http_response act" where
  "serve_mcp sv deps config request deadline =
     andThen readClock (\<lambda>now.
     andThen (authenticateMcp sv deps request config now) (\<lambda>authenticated.
       case authenticated of
         Inl e \<Rightarrow> ret (denied_response config e)
       | Inr who \<Rightarrow>
           followedBy (checkDeadline deadline)
             (andThen (boundedMcpRequest sv request deadline) (\<lambda>body.
                case body of
                  Inl (status, err) \<Rightarrow> ret (mcp_error status err)
                | Inr bytes \<Rightarrow>
                    andThen (md_sdk deps (mcp_tools sv who deadline) bytes) (served who deadline)))))"

definition origin_allowed :: "mcp_configuration \<Rightarrow> http_request \<Rightarrow> bool" where
  "origin_allowed config request \<longleftrightarrow>
     ur_origin (rq_url request) = ur_origin (mg_resource config) \<and>
     rq_headers request ''host'' \<in> {None, Some (ur_host (mg_resource config))} \<and>
     rq_headers request ''origin'' \<in> {None, Some (ur_origin (mg_resource config))}"

definition mcp_fetch :: "services \<Rightarrow> mcp_deps \<Rightarrow> mcp_env \<Rightarrow> http_request \<Rightarrow> http_response act" where
  "mcp_fetch sv deps env request =
     (if mc_MODE env \<noteq> Some ''read_only'' then ret (mcp_error 404 ''not_found'')
      else (case mcpConfiguration sv env of
        None \<Rightarrow> ret (mcp_error 503 ''mcp_configuration_unavailable'')
      | Some config \<Rightarrow>
          let u = rq_url request in
          if \<not> origin_allowed config request then ret (mcp_error 403 ''origin_not_allowed'')
          else if ur_pathname u = METADATA_PATH \<and> rq_method request = ''GET'' then ret (mcp_json 200 [] (metadata_json config))
          else if ur_pathname u \<noteq> ur_pathname (mg_resource config) \<or> ur_search u \<noteq> [] then ret (mcp_error 404 ''not_found'')
          else if rq_method request \<noteq> ''POST''
          then ret (mcp_json 405 [(''allow'', ''POST'')] (JObject [(''error'', JString ''method_not_allowed'')]))
          else tryCatch (withRequestDeadline 5000 (serve_mcp sv deps config request))
                 (\<lambda>e. ret (mcp_error 503 (if e = Err ''request deadline exceeded'' then ''mcp_deadline_exceeded''
                                            else ''mcp_request_unavailable'')))))"

end
