(* ===== verification/Mcp_Safety.thy ===== *)
theory Mcp_Safety
  imports Mcp
begin

text \<open>
  What the MCP server grants and answers: cursors read back, following them lists every allowed route once and ends, a
  status is fenced by the policy and the generation it was read under, and only a bound token reaches a tool.
\<close>

section \<open>Cursors read back\<close>

lemma byte_char_inverse [simp]: "byte_char (char_byte c) = c"
proof -
  have "unat (of_nat (code c) :: byte) = code c"
    using code_less [of c] by (simp add: unsigned_of_nat take_bit_eq_mod)
  then show ?thesis by (simp add: byte_char_def char_byte_def code_def)
qed

lemma base64_char_url:
  assumes "n < 64"
  shows "url_unchar (url_char (base64_char n)) = base64_char n" "cursor_char (url_char (base64_char n))"
    "url_char (base64_char n) \<noteq> CHR ''=''"
proof -
  have v: "base64_value (base64_char n) = Some n" using base64_value_char [OF assms] .
  then have "base64_char n \<noteq> CHR ''-''" "base64_char n \<noteq> CHR ''_''"
    by (auto simp: base64_value_def is_upper_az_def is_lower_az_def is_digit_def code_def)
  then show "url_unchar (url_char (base64_char n)) = base64_char n"
    by (simp add: url_unchar_def url_char_def)
  show "cursor_char (url_char (base64_char n))"
    using v by (auto simp: url_char_def cursor_char_def base64_value_def is_alnum_def split: if_splits)
  show "url_char (base64_char n) \<noteq> CHR ''=''"
    using base64_char_plain(1) [OF assms] by (simp add: url_char_def)
qed

lemma dropWhile_replicate_append:
  "\<not> P (hd ys) \<or> ys = [] \<Longrightarrow> P x \<Longrightarrow> dropWhile P (replicate k x @ ys) = ys"
  by (induction k) (cases ys; simp)+

lemma cursor_text_sextets: "cursor_text v = map (\<lambda>n. url_char (base64_char n)) (sextets (map char_byte (json_stringify v)))"
proof -
  let ?bs = "map char_byte (json_stringify v)"
  let ?ys = "map (\<lambda>n. url_char (base64_char n)) (sextets ?bs)"
  have "map url_char (btoa (json_stringify v)) = ?ys @ replicate (padding ?bs) (CHR ''='')"
    by (simp add: btoa_def base64_encode_form url_char_def)
  moreover have "dropWhile (\<lambda>c. c = CHR ''='') (rev (?ys @ replicate (padding ?bs) (CHR ''=''))) = rev ?ys"
  proof -
    have "\<not> hd (rev ?ys) = CHR ''=''" if "?ys \<noteq> []"
    proof -
      have "hd (rev ?ys) \<in> set ?ys" using that by (metis hd_in_set rev_is_Nil_conv set_rev)
      then obtain n where n: "n \<in> set (sextets ?bs)" "hd (rev ?ys) = url_char (base64_char n)" by auto
      have "n < 64" using n(1) sextets_range [of ?bs] by (simp add: list_all_iff)
      then show ?thesis unfolding n(2) by (rule base64_char_url(3))
    qed
    then show ?thesis by (simp only: rev_append rev_replicate) (rule dropWhile_replicate_append, auto)
  qed
  ultimately show ?thesis by (simp add: cursor_text_def)
qed

lemma sextets_count: "length (sextets bs) mod 4 \<noteq> 1"
  using sextets_whole [of bs] padding_le [of bs] by presburger

lemma atob_unpadded: "atob (map base64_char (sextets bs)) = Some (map byte_char bs)"
proof -
  let ?s = "map base64_char (sextets bs)"
  have range: "n \<in> set (sextets bs) \<Longrightarrow> n < 64" for n using sextets_range [of bs] by (simp add: list_all_iff)
  have ws: "filter (\<lambda>c. \<not> ascii_ws c) ?s = ?s"
    using range base64_char_plain(2) ascii_ws_ws by (intro filter_True) fastforce
  have "?s \<noteq> [] \<Longrightarrow> last ?s \<noteq> CHR ''=''"
    using range base64_char_plain(1) by (metis (no_types, lifting) image_iff last_in_set list.set_map)
  then have "strip_padding ?s = ?s" by (auto simp: strip_padding_def)
  then show ?thesis
    using ws sextets_count [of bs] those_map_value [OF sextets_range] sextets_bytes
    by (simp add: atob_def base64_decode_def Let_def del: map_map)
qed

lemma cursor_value_text:
  assumes "length (cursor_text v) \<le> 2048"
  shows "cursor_value sv (cursor_text v) = sv_json_parse sv (json_stringify v)"
proof -
  let ?bs = "map char_byte (json_stringify v)"
  have range: "n \<in> set (sextets ?bs) \<Longrightarrow> n < 64" for n using sextets_range [of ?bs] by (simp add: list_all_iff)
  have "map url_unchar (cursor_text v) = map base64_char (sextets ?bs)"
    by (simp add: cursor_text_sextets base64_char_url(1) range)
  then have "atob (map url_unchar (cursor_text v)) = Some (json_stringify v)"
    using atob_unpadded [of ?bs] by (simp add: o_def)
  moreover have "list_all cursor_char (cursor_text v)"
    by (simp add: cursor_text_sextets list_all_iff base64_char_url(2) range)
  ultimately show ?thesis using assms by (simp add: cursor_value_def)
qed

section \<open>Following the cursors\<close>

definition reads_cursor :: "services \<Rightarrow> active_policy_value \<Rightarrow> mcp_principal \<Rightarrow> string \<Rightarrow> int \<Rightarrow> bool" where
  \<comment> \<open>the JSON of a cursor parses to the cursor, and the cursor is short enough to be sent back\<close>
  "reads_cursor sv active who after now \<longleftrightarrow>
     (let v = cursor_json active who after now in
      sv_json_parse sv (json_stringify v) = Some v \<and> length (cursor_text v) \<le> 2048)"

lemma cursor_keys: "join '','' (order_by id (js_keys (cursor_json active who after now))) = ''after,expires_at,policy,principal''"
  by (simp add: cursor_json_def js_keys_def order_by_def code_def)

lemma cursor_accepted:
  assumes "reads_cursor sv active who after then'" "after \<in> route_storage_id ` set (allowed_routes active who)"
    and "then' \<le> now" "now < then' + 600000" "\<bar>then' + 600000\<bar> \<le> max_safe_integer"
  shows "cursorAfter sv (Some (cursor_text (cursor_json active who after then'))) active who now = Inr after"
proof -
  let ?v = "cursor_json active who after then'"
  have v: "sv_json_parse sv (json_stringify ?v) = Some ?v" "length (cursor_text ?v) \<le> 2048"
    using assms(1) by (simp_all add: reads_cursor_def Let_def)
  have "json_stringify ?v \<noteq> []" by (simp add: cursor_json_def)
  then have "cursor_text ?v \<noteq> []"
    by (cases "json_stringify ?v"; cases "tl (json_stringify ?v)"; cases "tl (tl (json_stringify ?v))")
      (auto simp: cursor_text_sextets)
  moreover have "cursor_holds active who now ?v"
    using assms(2-5) cursor_keys [of active who after then']
    by (auto simp: cursor_holds_def cursor_json_def js_is_record_def js_get_def image_iff)
  moreover have "str_field ?v ''after'' = after" by (simp add: str_field_def cursor_json_def js_get_def)
  ultimately show ?thesis
    using v cursor_value_text [of ?v sv] by (simp add: cursorAfter_def truthy_def)
qed

fun follow :: "services \<Rightarrow> mcp_principal \<Rightarrow> world list \<Rightarrow> string option \<Rightarrow> route_decision list option" where
  \<comment> \<open>a client that asks for page after page, each in its own world, until there is no next cursor\<close>
  "follow sv who [] cursor = None"
| "follow sv who (w # ws) cursor =
     (case fst (listAuthorizedRoutes sv who cursor None w) of
        Inl _ \<Rightarrow> None
      | Inr page \<Rightarrow>
          (case mp_next page of
             None \<Rightarrow> Some (mp_routes page)
           | Some next \<Rightarrow> map_option (\<lambda>rest. mp_routes page @ rest) (follow sv who ws (Some next))))"

definition serves :: "services \<Rightarrow> active_policy_value \<Rightarrow> world \<Rightarrow> bool" where
  \<comment> \<open>a quiet world in which the policy is active\<close>
  "serves sv active w \<longleftrightarrow> w_ticks w = [] \<and> fst (loadActivePolicy sv w) = Inr (Some active)"

fun paced :: "world list \<Rightarrow> bool" where
  \<comment> \<open>each request follows within ten minutes of the one before\<close>
  "paced (v # w # ws) \<longleftrightarrow> w_now v \<le> w_now w \<and> w_now w < w_now v + 600000 \<and> paced (w # ws)"
| "paced _ \<longleftrightarrow> True"

lemma only_reads_now: "w_ticks w = [] \<Longrightarrow> snd (loadActivePolicy sv w) = w"
proof -
  have "preserves (\<lambda>w w'. w_ticks w = [] \<longrightarrow> w' = w) (loadActivePolicy sv)"
  proof -
    have "reading_relation (\<lambda>w w'. w_ticks w = [] \<longrightarrow> w' = w)"
      by unfold_locales (auto simp: begin_call_def)
    then show ?thesis by (rule reading_relation.loadActivePolicy)
  qed
  then show "w_ticks w = [] \<Longrightarrow> snd (loadActivePolicy sv w) = w" by (simp add: preserves_def)
qed

lemma list_run:
  assumes "serves sv active w" "env_OPERATOR_DELIVERY_MODE (sv_env sv) = Some ''inbox_relay''"
    and "cursorAfter sv cursor active who (w_now w) = Inr after"
  shows "fst (listAuthorizedRoutes sv who cursor None w) = Inr (page_after sv active who after (w_now w))"
proof -
  have "loadActivePolicy sv w = (Inr (Some active), w)"
    using assms(1) only_reads_now [of w sv] by (simp add: serves_def prod_eq_iff)
  then show ?thesis
    using assms(2,3)
    by (simp add: listAuthorizedRoutes_def mcp_policy_def abort_check_def followedBy_def andThen_def tryCatch_def readClock_def)
qed

lemma mset_insert_ordered: "mset (insert_ordered key x xs) = add_mset x (mset xs)"
  by (induction xs) simp_all

lemma mset_order_by: "mset (order_by key xs) = mset xs"
  by (induction xs) (simp_all add: order_by_def mset_insert_ordered)

lemma sorted_routes_strict:
  assumes "distinct (map route_storage_id (allowed_routes active who))"
  shows "sorted_wrt (\<lambda>a b. comes_after (route_storage_id a) (route_storage_id b)) (sorted_routes active who)"
proof -
  let ?rs = "sorted_routes active who" and ?k = "\<lambda>r. map code (route_storage_id r)"
  have m: "mset ?rs = mset (allowed_routes active who)" unfolding sorted_routes_def by (rule mset_order_by)
  have "distinct (map route_storage_id ?rs)"
    using assms m by (metis mset_eq_imp_distinct_iff mset_map)
  then have d: "distinct (map ?k ?rs)"
    by (simp add: distinct_map inj_on_def)
  have s: "sorted_wrt (\<lambda>a b. lexordp_eq (?k a) (?k b)) ?rs" unfolding sorted_routes_def by (rule order_by_sorted)
  show ?thesis
    unfolding sorted_wrt_iff_nth_less
  proof (intro allI impI)
    fix i j assume ij: "i < j" "j < length ?rs"
    have "lexordp_eq (?k (?rs ! i)) (?k (?rs ! j))" using s ij by (simp add: sorted_wrt_iff_nth_less)
    moreover have "?k (?rs ! i) \<noteq> ?k (?rs ! j)" using d ij by (auto simp: distinct_conv_nth)
    ultimately show "comes_after (route_storage_id (?rs ! i)) (route_storage_id (?rs ! j))"
      by (metis comes_after_def lexordp_eq_antisym)
  qed
qed

lemma filter_after_drop:
  assumes "sorted_wrt (\<lambda>a b. comes_after (f a) (f b)) xs" "j < length xs"
  shows "filter (\<lambda>x. comes_after (f (xs ! j)) (f x)) xs = drop (Suc j) xs"
proof -
  have le: "\<not> comes_after (f (xs ! j)) (f x)" if x: "x \<in> set (take (Suc j) xs)" for x
  proof -
    obtain i where i: "i \<le> j" "x = xs ! i" using x assms(2) by (auto simp: in_set_conv_nth less_Suc_eq_le)
    show ?thesis
    proof (cases "i = j")
      case True
      then show ?thesis using i by (simp add: comes_after_def lexordp_eq_refl)
    next
      case False
      then have "comes_after (f x) (f (xs ! j))" using assms i by (simp add: sorted_wrt_iff_nth_less)
      then show ?thesis using lexordp_eq_linear by (auto simp: comes_after_def)
    qed
  qed
  have gt: "comes_after (f (xs ! j)) (f x)" if x: "x \<in> set (drop (Suc j) xs)" for x
    using x assms by (auto simp: in_set_conv_nth sorted_wrt_iff_nth_less)
  have "filter (\<lambda>x. comes_after (f (xs ! j)) (f x)) (take (Suc j) xs @ drop (Suc j) xs) = drop (Suc j) xs"
    unfolding filter_append using le gt by (simp add: filter_empty_conv)
  then show ?thesis by simp
qed

lemma storage_id_after_Nil: "comes_after [] (route_storage_id r)"
proof -
  have "route_storage_id r \<noteq> []" by (simp add: route_storage_id_def policyStorageId_def)
  then show ?thesis by (cases "route_storage_id r") (auto simp: comes_after_def)
qed

definition cursors_work :: "services \<Rightarrow> active_policy_value \<Rightarrow> mcp_principal \<Rightarrow> world \<Rightarrow> bool" where
  \<comment> \<open>every cursor that the server can give out in this world\<close>
  "cursors_work sv active who w \<longleftrightarrow>
     \<bar>w_now w + 600000\<bar> \<le> max_safe_integer \<and>
     list_all (\<lambda>route. reads_cursor sv active who (route_storage_id route) (w_now w)) (allowed_routes active who)"

lemma sorted_routes_set [simp]: "set (sorted_routes active who) = set (allowed_routes active who)"
  by (simp add: sorted_routes_def)

lemma follow_page:
  fixes sv active who
  defines "rs \<equiv> sorted_routes active who"
  assumes "serves sv active w" "env_OPERATOR_DELIVERY_MODE (sv_env sv) = Some ''inbox_relay''"
    and "cursorAfter sv cursor active who (w_now w) = Inr after"
    and rest: "filter (\<lambda>r. comes_after after (route_storage_id r)) rs = drop m rs"
  shows "follow sv who (w # ws) cursor =
    (if length rs - m \<le> 32 then Some (drop m rs)
     else map_option (\<lambda>more. take 32 (drop m rs) @ more)
       (follow sv who ws (Some (cursor_text (cursor_json active who (route_storage_id (rs ! (m + 31))) (w_now w))))))"
proof -
  have l: "last (take 32 (drop m rs)) = rs ! (m + 31)" if "32 < length rs - m"
    using that by (simp add: last_conv_nth)
  show ?thesis
    using list_run [OF assms(2,3,4)] rest l
    by (auto simp: page_after_def Let_def rs_def MCP_ROUTE_PAGE_SIZE_def min_def)
qed

lemma follow_rest:
  fixes sv active who
  defines "rs \<equiv> sorted_routes active who"
  assumes mode: "env_OPERATOR_DELIVERY_MODE (sv_env sv) = Some ''inbox_relay''"
    and d: "distinct (map route_storage_id (allowed_routes active who))"
  shows "list_all (serves sv active) (w # ws) \<Longrightarrow> list_all (cursors_work sv active who) (w # ws) \<Longrightarrow> paced (w # ws) \<Longrightarrow>
    (length rs - m) div 32 < length (w # ws) \<Longrightarrow> cursorAfter sv cursor active who (w_now w) = Inr after \<Longrightarrow>
    filter (\<lambda>r. comes_after after (route_storage_id r)) rs = drop m rs \<Longrightarrow>
    follow sv who (w # ws) cursor = Some (drop m rs)"
proof (induction ws arbitrary: w m cursor after)
  case Nil
  have "length rs - m < 32" using Nil.prems(4) by simp
  moreover have "serves sv active w" using Nil.prems(1) by simp
  ultimately show ?case
    using follow_page [of sv active w cursor who after m "[]"] mode Nil.prems(5,6) by (simp add: rs_def)
next
  case (Cons v ws)
  have w: "serves sv active w" using Cons.prems(1) by simp
  note page = follow_page [OF w mode Cons.prems(5) Cons.prems(6) [unfolded rs_def], of "v # ws", folded rs_def]
  show ?case
  proof (cases "length rs - m \<le> 32")
    case True
    then show ?thesis using page by simp
  next
    case False
    let ?i = "m + 31"
    let ?c = "Some (cursor_text (cursor_json active who (route_storage_id (rs ! ?i)) (w_now w)))"
    have i: "?i < length rs" using False by simp
    then have mem: "rs ! ?i \<in> set (allowed_routes active who)"
      using nth_mem [OF i] by (simp add: rs_def)
    then have "cursorAfter sv ?c active who (w_now v) = Inr (route_storage_id (rs ! ?i))"
      using Cons.prems(2,3) by (intro cursor_accepted) (auto simp: cursors_work_def list_all_iff)
    moreover have "filter (\<lambda>r. comes_after (route_storage_id (rs ! ?i)) (route_storage_id r)) rs = drop (Suc ?i) rs"
      by (rule filter_after_drop [OF _ i]) (simp add: rs_def sorted_routes_strict [OF d])
    moreover have "(length rs - Suc ?i) div 32 < length (v # ws)"
      using Cons.prems(4) False by simp
    ultimately have "follow sv who (v # ws) ?c = Some (drop (Suc ?i) rs)"
      using Cons.prems(1-3) by (intro Cons.IH) auto
    moreover have "take 32 (drop m rs) @ drop (Suc ?i) rs = drop m rs"
      using append_take_drop_id [of 32 "drop m rs"] by (simp add: add.commute)
    ultimately show ?thesis using page False by simp
  qed
qed

theorem follow_lists_all:
  assumes "env_OPERATOR_DELIVERY_MODE (sv_env sv) = Some ''inbox_relay''"
    and "distinct (map route_storage_id (allowed_routes active who))"
    and "list_all (serves sv active) ws" "list_all (cursors_work sv active who) ws" "paced ws"
    and "length (allowed_routes active who) div 32 < length ws"
  shows "follow sv who ws None = Some (sorted_routes active who)"
proof -
  obtain w vs where ws: "ws = w # vs" using assms(6) by (cases ws) auto
  have n: "length (sorted_routes active who) = length (allowed_routes active who)"
    unfolding sorted_routes_def using mset_order_by by (metis size_mset)
  have "cursorAfter sv None active who (w_now w) = Inr []" by (simp add: cursorAfter_def truthy_def)
  moreover have "filter (\<lambda>r. comes_after [] (route_storage_id r)) (sorted_routes active who) = drop 0 (sorted_routes active who)"
    by (simp add: storage_id_after_Nil)
  ultimately have "follow sv who (w # vs) None = Some (drop 0 (sorted_routes active who))"
    using assms n unfolding ws by (intro follow_rest) auto
  then show ?thesis by (simp add: ws)
qed

section \<open>A status is fenced\<close>

lemma abort_check_world: "snd (abort_check signal w) = w"
  by (cases signal) (auto simp: abort_check_def checkDeadline_def andThen_def readClock_def)

lemma inbox_relay_mode:
  "env_OPERATOR_DELIVERY_MODE env = Some ''inbox_relay'' \<Longrightarrow> odc_mode (operatorDeliveryConfig env) = Inbox_Relay"
  by (simp add: operatorDeliveryConfig_def Let_def)

lemma mcp_policy_result:
  assumes "mcp_policy sv signal w = (Inr active, v)"
  shows "genuine_policy sv active"
proof -
  have mode: "env_OPERATOR_DELIVERY_MODE (sv_env sv) = Some ''inbox_relay''"
    using assms by (auto simp: mcp_policy_def followedBy_def andThen_def split: prod.splits sum.splits if_splits)
  obtain u u' where "loadActivePolicy sv u = (Inr (Some active), u')"
    using assms mode
    by (auto simp: mcp_policy_def followedBy_def andThen_def tryCatch_def split: prod.splits sum.splits option.splits)
  then have "fst (loadActivePolicy sv u) = Inr (Some active)" by simp
  then show ?thesis by (rule loadActivePolicy_genuine) (rule inbox_relay_mode [OF mode])
qed

lemma read_or_Inr: "read_or m act w = (Inr x, v) \<Longrightarrow> act w = (Inr x, v)"
  by (auto simp: read_or_def tryCatch_def split: prod.splits sum.splits)

theorem status_fenced:
  assumes "getDeliveryStatus sv who i signal w = (Inr v, w')"
  shows "\<exists>active route ar found d. genuine_policy sv active \<and>
    route \<in> set (allowed_routes active who) \<and> route_storage_id route = i \<and>
    active_route i (ap_sha256 active) (w_db w') = Some ar \<and>
    stored_status_of i (ap_sha256 active) d = Some (ar_status_generation ar, found) \<and>
    v = delivery_view sv (ap_sha256 active) route
      (status_of_row sv (ap_sha256 active) (ar_status_generation ar, found) (w_now w')) (w_now w')"
proof -
  obtain active w1 where p: "mcp_policy sv signal w = (Inr active, w1)"
    using assms by (auto simp: getDeliveryStatus_def andThen_def split: prod.splits sum.splits)
  obtain route where r: "find (\<lambda>route. route_storage_id route = i) (allowed_routes active who) = Some route"
    using assms p by (auto simp: getDeliveryStatus_def andThen_def split: option.splits)
  let ?q = "read_or ''status_unavailable'' (d1 (query (\<lambda>_ d. stored_status_of i (ap_sha256 active) d)))"
  let ?g = "read_or ''status_unavailable'' (d1 (query (\<lambda>_ d. generation_of i (ap_sha256 active) d)))"
  obtain row w2 where q: "?q w1 = (Inr (Some row), w2)"
    using assms p r by (auto simp: getDeliveryStatus_def andThen_def split: prod.splits sum.splits option.splits)
  obtain current w3 where c: "mcp_policy sv signal w2 = (Inr current, w3)"
    using assms p r q by (auto simp: getDeliveryStatus_def andThen_def split: prod.splits sum.splits)
  obtain latest w4 where g: "?g w3 = (Inr latest, w4)"
    using assms p r q c by (auto simp: getDeliveryStatus_def andThen_def split: prod.splits sum.splits if_splits)
  obtain e where a: "abort_check signal w4 = (e, w4)"
    using abort_check_world [of signal w4] by (cases "abort_check signal w4") simp
  have last: "latest = Some (fst row)" "w' = w4"
    "v = delivery_view sv (ap_sha256 active) route (status_of_row sv (ap_sha256 active) row (w_now w4)) (w_now w4)"
    using assms p r q c g a
    by (auto simp: getDeliveryStatus_def andThen_def followedBy_def readClock_def split: sum.splits if_splits)
  have "Some row = stored_status_of i (ap_sha256 active) (w_db w2)"
    using query_result [OF read_or_Inr [OF q]] .
  moreover have "generation_of i (ap_sha256 active) (w_db w4) = Some (fst row)"
    using query_result [OF read_or_Inr [OF g]] last(1) by simp
  then obtain ar where "active_route i (ap_sha256 active) (w_db w4) = Some ar" "fst row = ar_status_generation ar"
    by (cases "active_route i (ap_sha256 active) (w_db w4)") (auto simp: generation_of_def)
  moreover have "route \<in> set (allowed_routes active who)" "route_storage_id route = i"
    using r by (auto simp: find_Some_iff)
  ultimately show ?thesis
    using mcp_policy_result [OF p] last by (metis prod.collapse)
qed

section \<open>The tools only read\<close>

context reading_relation
begin

lemma checkDeadline: "preserves R (checkDeadline deadline)"
  unfolding checkDeadline_def by (auto intro!: if_split reading_rules)

lemma abort_check: "preserves R (Mcp.abort_check signal)"
  by (cases signal) (auto simp: abort_check_def intro: ret checkDeadline)

lemma mcp_policy: "preserves R (Mcp.mcp_policy sv signal)"
  unfolding mcp_policy_def
  by (auto intro!: if_split reading_rules abort_check loadActivePolicy split: option.splits)

lemma listAuthorizedRoutes: "preserves R (Mcp.listAuthorizedRoutes sv who cursor signal)"
  unfolding listAuthorizedRoutes_def by (intro reading_rules mcp_policy)

lemma read_or: "preserves R m \<Longrightarrow> preserves R (Mcp.read_or e m)"
  unfolding read_or_def by (intro reading_rules)

lemma getDeliveryStatus: "preserves R (Mcp.getDeliveryStatus sv who i signal)"
  unfolding getDeliveryStatus_def
  by (auto intro!: if_split reading_rules mcp_policy abort_check read_or split: option.splits)

lemma tool_result: "preserves R m \<Longrightarrow> preserves R (Mcp.tool_result deadline m)"
  unfolding tool_result_def by (intro reading_rules checkDeadline)

lemma mcp_tools: "(name, tool) \<in> set (Mcp.mcp_tools sv who deadline) \<Longrightarrow> preserves R (tool args)"
  by (auto simp: mcp_tools_def intro!: tool_result reading_rules listAuthorizedRoutes getDeliveryStatus split: if_splits)

end

interpretation unchanged: trace_relation "\<lambda>s t. t = s"
  by unfold_locales simp_all

lemma tools_write_nothing:
  assumes "(name, tool) \<in> set (mcp_tools sv who deadline)"
  shows "only_reads w (snd (tool args w)) \<and> (others_respect (\<lambda>s t. t = s) w \<longrightarrow> w_db (snd (tool args w)) = w_db w)"
  using preservesD [OF only_reads.mcp_tools [OF assms]] preserves_underD [OF unchanged.read.mcp_tools [OF assms]]
  by (auto simp: seen_def)

section \<open>Who reaches a tool\<close>

lemma granted_scopes_set: "set (granted_scopes scope) \<subseteq> set MCP_SCOPES"
  by (auto simp: granted_scopes_def)

lemma principal_of_Inr:
  assumes "principal_of sv config payload = Inr who"
  shows "jw_aud payload = JString (ur_href (mg_resource config)) \<and>
    (\<exists>binding \<in> set (mg_bindings config). jw_sub payload = JString (bn_subject binding) \<and>
       jw_client_id payload = JString (bn_client_id binding) \<and> pn_operator who = bn_operator binding) \<and>
    pn_scopes who \<noteq> [] \<and> set (pn_scopes who) \<subseteq> set MCP_SCOPES \<and> pn_expiresAt who \<le> (jw_iat payload + 3600) * 1000"
proof -
  obtain sub client scope where j: "jw_sub payload = JString sub" "jw_client_id payload = JString client"
    "jw_scope payload = JString scope"
    using assms by (auto simp: principal_of_def split: jv.splits)
  let ?P = "\<lambda>row. bn_subject row = sub \<and> bn_client_id row = client"
  obtain binding where b: "find ?P (mg_bindings config) = Some binding"
    using assms j by (cases "find ?P (mg_bindings config)") (auto simp: principal_of_def split: if_splits)
  then have m: "binding \<in> set (mg_bindings config)" "bn_subject binding = sub" "bn_client_id binding = client"
    by (auto simp: find_Some_iff)
  have "jw_aud payload = JString (ur_href (mg_resource config))" "pn_operator who = bn_operator binding"
    "pn_scopes who = granted_scopes scope" "granted_scopes scope \<noteq> []" "pn_expiresAt who \<le> (jw_iat payload + 3600) * 1000"
    using assms j b by (auto simp: principal_of_def Let_def split: if_splits)
  then show ?thesis using j m granted_scopes_set by auto
qed

lemma authenticateMcp_Inr:
  assumes "authenticateMcp sv deps request config now w = (Inr (Inr who), w')"
  shows "\<exists>authorization payload. rq_headers request ''authorization'' = Some authorization \<and> bearer_shape authorization \<and>
    md_verify deps (drop 7 authorization) config now w = (Inr payload, w') \<and> principal_of sv config payload = Inr who"
proof -
  obtain authorization where a: "rq_headers request ''authorization'' = Some authorization" "bearer_shape authorization"
    using assms
    by (cases "rq_headers request ''authorization''")
       (auto simp: authenticateMcp_def Let_def with_default_def bearer_shape_def split: if_splits)
  obtain r v where v: "md_verify deps (drop 7 authorization) config now w = (r, v)"
    by (cases "md_verify deps (drop 7 authorization) config now w")
  then show ?thesis
    using assms a
    by (cases r) (auto simp: authenticateMcp_def Let_def with_default_def tryCatch_def andThen_def split: if_splits)
qed

lemma serve_mcp_denied:
  assumes "\<And>who v. authenticateMcp sv deps request config (w_now w) w \<noteq> (Inr (Inr who), v)"
  shows "serve_mcp sv (deps\<lparr>md_sdk := sdk\<rparr>) config request deadline w = serve_mcp sv deps config request deadline w"
proof -
  have same: "authenticateMcp sv (deps\<lparr>md_sdk := sdk\<rparr>) request config now = authenticateMcp sv deps request config now" for now
    by (simp add: authenticateMcp_def verification_failed_def Let_def)
  obtain r v where r: "authenticateMcp sv deps request config (w_now w) w = (r, v)"
    by (cases "authenticateMcp sv deps request config (w_now w) w")
  then have "\<And>who. r \<noteq> Inr (Inr who)" using assms by blast
  then show ?thesis
    using r by (auto simp: serve_mcp_def andThen_def readClock_def same split: sum.splits)
qed

lemma fetch_reaches_sdk:
  assumes "mcp_fetch sv (deps\<lparr>md_sdk := sdk\<rparr>) env request w \<noteq> mcp_fetch sv deps env request w"
  shows "mc_MODE env = Some ''read_only'' \<and>
    (\<exists>config who v. mcpConfiguration sv env = Some config \<and> origin_allowed config request \<and> rq_method request = ''POST'' \<and>
       ur_pathname (rq_url request) = ur_pathname (mg_resource config) \<and>
       authenticateMcp sv deps request config (w_now w) w = (Inr (Inr who), v))"
proof -
  obtain config where c: "mc_MODE env = Some ''read_only''" "mcpConfiguration sv env = Some config"
    using assms by (cases "mcpConfiguration sv env") (auto simp: mcp_fetch_def split: if_splits)
  then have o': "origin_allowed config request" "rq_method request = ''POST''"
    "ur_pathname (rq_url request) = ur_pathname (mg_resource config)"
    using assms by (auto simp: mcp_fetch_def Let_def split: if_splits)
  have "\<exists>who v. authenticateMcp sv deps request config (w_now w) w = (Inr (Inr who), v)"
  proof (rule ccontr)
    assume "\<not> ?thesis"
    then have "serve_mcp sv (deps\<lparr>md_sdk := sdk\<rparr>) config request deadline w = serve_mcp sv deps config request deadline w" for deadline
      using serve_mcp_denied by blast
    then have "mcp_fetch sv (deps\<lparr>md_sdk := sdk\<rparr>) env request w = mcp_fetch sv deps env request w"
      using c by (simp add: mcp_fetch_def Let_def tryCatch_def withRequestDeadline_def andThen_def readClock_def)
    then show False using assms by simp
  qed
  then show ?thesis using c o' by blast
qed

end
