(* ===== verification/Example_Http.thy ===== *)
theory Example_Http
  imports Mcp_Safety Example_Policy
begin

text \<open>
  The installation of \<open>Example_Data\<close> behind its HTTP layers: a web desk with a token, an Access team, and the MCP server
  with one bound operator.
\<close>

section \<open>The reply interface\<close>

definition ex_body :: jv where
  "ex_body = JObject
     [(''kind'', JString ''outbound_reply_requested''), (''messageId'', JString ''m''), (''threadId'', JString ''th''),
      (''operator'', JString ''op@corp.test''), (''envelopeTo'', JString ''team@example.com''),
      (''fromIdentity'', JString ''spoofed@example.com''), (''to'', JArray [JString ''client@remote.test'']),
      (''subject'', JString ''Hi''), (''text'', JString ''Yes''), (''queuedAt'', JString ''earlier'')]"

definition ex_desk_services :: services where
  "ex_desk_services = ex_services
     \<lparr> sv_env := ex_env\<lparr>env_OPERATOR_DELIVERY_MODE := Some ''web_desk'', env_POLICY_JSON := Some ''{}'',
         env_API_TOKEN := Some ''secret''\<rparr>,
       sv_core := ex_core\<lparr>core_project_policy := \<lambda>_. ok_json (JObject
         [(''schema_version'', JInt 1), (''protected_operators'', JArray []), (''routes'', JArray [])])\<rparr>,
       sv_json_parse := \<lambda>s. Some (if s = [] then ex_body else JObject [(''domains'', JObject [])]) \<rparr>"

definition ex_url :: url where
  "ex_url = \<lparr> ur_href = ''https://mail.test/mcp'', ur_protocol = ''https:'', ur_username = [], ur_password = [],
     ur_host = ''mail.test'', ur_hostname = ''mail.test'', ur_origin = ''https://mail.test'', ur_pathname = ''/mcp'',
     ur_search = [], ur_hash = [] \<rparr>"

definition ex_request :: http_request where
  "ex_request = \<lparr> rq_method = ''POST'', rq_url = ex_url, rq_headers = [''authorization'' \<mapsto> ''Bearer secret''],
     rq_chunks = Some [] \<rparr>"

lemma ex_body_shape: "isOutboundReplyRequestedJob ex_body"
proof -
  have "closed_keys ex_body outbound_reply_keys"
    by (simp add: closed_keys_def ex_body_def js_keys_def outbound_reply_keys_def)
  then have "outbound_reply_shape ex_body"
    by (simp add: outbound_reply_shape_def authorizationShape_def replyAuthorizationKind_def ex_body_def js_get_def required_keys_def
        optional_keys_def transactionFields_def authorizationFields_def js_is_string_def text_max_def strings_field_def)
  then show ?thesis
    by (simp add: isOutboundReplyRequestedJob_def decodeMailJob_def ex_body_def js_get_def js_is_record_def text_max_def)
       (simp add: job_shape_def)
qed

lemma ex_token: "isAuthorizedRequest ex_request (sv_env ex_desk_services)"
  by code_simp

lemma ex_desk_policy: "\<exists>v. loadActivePolicy ex_desk_services w = (Inr (Some v), w)"
proof -
  have parsed: "parsePolicy ex_desk_services ''{}'' = Some (JObject [(''domains'', JObject [])])"
    by code_simp
  have "case projectPolicy (sv_core ex_desk_services) p of Inl _ \<Rightarrow> False | Inr _ \<Rightarrow> True" for p
    by code_simp
  then obtain projection where projected: "projectPolicy (sv_core ex_desk_services) (JObject [(''domains'', JObject [])]) = Inr projection"
    by (metis sum.case_eq_if sum.collapse(2))
  have env: "env_OPERATOR_DELIVERY_MODE (sv_env ex_desk_services) = Some ''web_desk''"
    "env_POLICY_JSON (sv_env ex_desk_services) = Some ''{}''"
    by (simp_all add: ex_desk_services_def)
  show ?thesis
    by (simp add: loadActivePolicy_def env truthy_def inlinePolicy_def parsed projected router_value_def)
qed

lemma ex_desk_authorizes: "\<exists>a. reply_authorization_of ex_desk_services p ex_body = Inr a"
proof -
  have "case reply_authorization_of ex_desk_services p ex_body of Inl _ \<Rightarrow> False | Inr _ \<Rightarrow> True"
    by code_simp
  then show ?thesis by (auto split: sum.splits)
qed

lemma ex_desk_queues: "length (w_jobs (snd (queueReply ex_desk_services ex_request (world_of 0 empty_db)))) = 1"
proof -
  obtain w where w: "world_of 0 empty_db = w" "w_ticks w = []" "w_jobs w = []" by (simp add: world_of_def)
  obtain v where v: "loadActivePolicy ex_desk_services w = (Inr (Some v), w)"
    using ex_desk_policy by blast
  obtain a where a: "reply_authorization_of ex_desk_services (ap_policy v) ex_body = Inr a"
    using ex_desk_authorizes by blast
  have mode: "odc_mode (operatorDeliveryConfig (sv_env ex_desk_services)) = Web_Desk"
    by (simp add: ex_desk_services_def operatorDeliveryConfig_def Let_def)
  have json: "request_json ex_desk_services ex_request = Some ex_body"
    by (simp add: request_json_def ex_request_def ex_desk_services_def ex_services_def)
  show ?thesis
    unfolding w(1)
    by (simp add: queueReply_def mode ex_token json ex_body_shape submit_body_def andThen_def v a readClock_def Let_def
        followedBy_def queueSend_def call_def begin_call_def w)
qed

section \<open>Access\<close>

definition ex_team :: url where
  "ex_team = ex_url\<lparr>ur_hostname := ''team.cloudflareaccess.com'', ur_origin := ''https://team.cloudflareaccess.com'',
     ur_pathname := ''/''\<rparr>"

definition ex_access_services :: services where
  "ex_access_services = ex_services\<lparr>sv_url := \<lambda>_. Some ex_team\<rparr>"

definition ex_access_env :: access_env where
  "ex_access_env = \<lparr> ac_AUD = Some ''aud'', ac_TEAM_DOMAIN = Some ''https://team.cloudflareaccess.com'' \<rparr>"

definition ex_claims :: "string \<Rightarrow> access_configuration \<Rightarrow> jv act" where
  "ex_claims token configuration = ret (JObject [(''email'', JString '' Op@Corp.test '')])"

definition ex_spoofed :: http_request where
  "ex_spoofed = ex_request\<lparr>rq_headers := [''cf-access-jwt-assertion'' \<mapsto> ''token'',
     ''cf-access-authenticated-user-email'' \<mapsto> ''root@corp.test'']\<rparr>"

lemma ex_admitted:
  "verifiedAccessRequest ex_access_services ex_claims ex_spoofed ex_access_env w =
     (Inr (Inr (identified_request ex_spoofed '' Op@Corp.test '')), w)"
proof -
  have c: "accessConfiguration ex_access_services ex_access_env =
      Some \<lparr> ao_audience = ''aud'', ao_teamDomain = ''https://team.cloudflareaccess.com'' \<rparr>"
    by code_simp
  have t: "map_option trim (rq_headers ex_spoofed ''cf-access-jwt-assertion'') = Some ''token''" by code_simp
  have e: "trim '' Op@Corp.test '' \<noteq> []" by code_simp
  show ?thesis
    using e by (simp add: verifiedAccessRequest_def c t Let_def truthy_def tryCatch_def ex_claims_def js_get_def)
qed

section \<open>The MCP server\<close>

definition ex_binding_json :: jv where
  "ex_binding_json = JArray [JObject [(''client_id'', JString ''cli''), (''operator'', JString ''op@corp.test''),
     (''subject'', JString ''sub'')]]"

definition ex_mcp_services :: services where
  "ex_mcp_services = ex_services\<lparr>sv_url := \<lambda>_. Some ex_url, sv_json_parse := \<lambda>_. Some ex_binding_json\<rparr>"

definition ex_mcp_env :: mcp_env where
  "ex_mcp_env = \<lparr> mc_MODE = Some ''read_only'', mc_RESOURCE = Some ''https://mail.test/mcp'',
     mc_ISSUER = Some ''https://mail.test/'', mc_JWKS_URL = Some ''https://mail.test/keys'', mc_BINDINGS_JSON = Some ''[]'' \<rparr>"

definition ex_jwt :: jwt_claims where
  "ex_jwt = \<lparr> jw_aud = JString ''https://mail.test/mcp'', jw_sub = JString ''sub'', jw_client_id = JString ''cli'',
     jw_scope = JString ''openid maildesk.status.read'', jw_exp = 4000, jw_iat = 0 \<rparr>"

definition ex_deps :: mcp_deps where
  "ex_deps = \<lparr> md_verify = (\<lambda>_ _ _. ret ex_jwt), md_type_error = (\<lambda>_. False),
     md_sdk = (\<lambda>tools _. ret (mcp_json 200 [] (JInt (int (length tools))))) \<rparr>"

definition other_sdk :: "(string \<times> (jv \<Rightarrow> jv act)) list \<Rightarrow> byte list option \<Rightarrow> http_response act" where
  "other_sdk tools bytes = ret (mcp_json 200 [] JNull)"

lemma ex_bound: "\<exists>who. authenticateMcp ex_mcp_services (ex_deps\<lparr>md_sdk := sdk\<rparr>) ex_request config now w = (Inr (Inr who), w) \<and>
    pn_scopes who = [''maildesk.status.read''] \<and> pn_expiresAt who = 3600000"
  if "ur_href (mg_resource config) = ''https://mail.test/mcp''"
    "mg_bindings config = [\<lparr> bn_subject = ''sub'', bn_client_id = ''cli'', bn_operator = ''op@corp.test'' \<rparr>]" for config
proof -
  have shape: "bearer_shape ''Bearer secret''" by code_simp
  have scopes: "granted_scopes ''openid maildesk.status.read'' = [''maildesk.status.read'']" by code_simp
  show ?thesis
    by (simp add: authenticateMcp_def ex_request_def with_default_def shape ex_deps_def tryCatch_def andThen_def
        principal_of_def ex_jwt_def that scopes Let_def)
qed

lemma ex_mcp_config:
  obtains config where "mcpConfiguration ex_mcp_services ex_mcp_env = Some config" "mg_resource config = ex_url"
    "mg_bindings config = [\<lparr> bn_subject = ''sub'', bn_client_id = ''cli'', bn_operator = ''op@corp.test'' \<rparr>]"
proof -
  have "read_bindings [] [JObject [(''client_id'', JString ''cli''), (''operator'', JString ''op@corp.test''), (''subject'', JString ''sub'')]] =
      Some [\<lparr> bn_subject = ''sub'', bn_client_id = ''cli'', bn_operator = ''op@corp.test'' \<rparr>]"
    by code_simp
  then show thesis
    using that
    by (simp add: mcpConfiguration_def ex_mcp_services_def ex_mcp_env_def with_default_def ex_url_def plain_https_def mcp_bindings_def
        ex_binding_json_def)
qed

definition ex_answer_body :: "mcp_deps \<Rightarrow> jv" where
  "ex_answer_body deps =
     (case fst (mcp_fetch ex_mcp_services deps ex_mcp_env ex_request (world_of 0 empty_db)) of
        Inr response \<Rightarrow> hr_body response | Inl _ \<Rightarrow> JUndefined)"

lemma ex_served:
  assumes "\<And>tools w. fst (sdk tools (Some []) w) = Inr (mcp_json 200 [] (body tools))" "\<And>tools w. snd (sdk tools (Some []) w) = w"
  shows "\<exists>who deadline. ex_answer_body (ex_deps\<lparr>md_sdk := sdk\<rparr>) = body (mcp_tools ex_mcp_services who deadline) \<and>
    pn_scopes who = [''maildesk.status.read'']"
proof -
  let ?w = "world_of 0 empty_db"
  obtain config where config: "mcpConfiguration ex_mcp_services ex_mcp_env = Some config" "mg_resource config = ex_url"
    "mg_bindings config = [\<lparr> bn_subject = ''sub'', bn_client_id = ''cli'', bn_operator = ''op@corp.test'' \<rparr>]"
    by (rule ex_mcp_config)
  obtain who where who: "authenticateMcp ex_mcp_services (ex_deps\<lparr>md_sdk := sdk\<rparr>) ex_request config 0 ?w = (Inr (Inr who), ?w)"
    "pn_scopes who = [''maildesk.status.read'']" "pn_expiresAt who = 3600000"
    using ex_bound [of config sdk 0 ?w] config by (auto simp: ex_url_def)
  have allowed: "origin_allowed config ex_request"
    by (simp add: origin_allowed_def ex_request_def config(2))
  have "sdk tools (Some []) ?w = (Inr (mcp_json 200 [] (body tools)), ?w)" for tools
    using assms [of tools ?w] by (simp add: prod_eq_iff)
  then have "ex_answer_body (ex_deps\<lparr>md_sdk := sdk\<rparr>) = body (mcp_tools ex_mcp_services who 5000)"
    using who(1,3)
    by (simp add: ex_answer_body_def mcp_fetch_def ex_mcp_env_def [THEN arg_cong [of _ _ mc_MODE]] config(1) Let_def allowed)
       (simp add: ex_request_def ex_url_def config(2) METADATA_PATH_def tryCatch_def withRequestDeadline_def andThen_def readClock_def
          serve_mcp_def followedBy_def checkDeadline_def boundedMcpRequest_def readChunk_def call_def begin_call_def
          world_of_def served_def mcp_json_def)
  then show ?thesis using who(2) by blast
qed

lemma ex_sdk_reached:
  "mcp_fetch ex_mcp_services (ex_deps\<lparr>md_sdk := other_sdk\<rparr>) ex_mcp_env ex_request (world_of 0 empty_db) \<noteq>
   mcp_fetch ex_mcp_services ex_deps ex_mcp_env ex_request (world_of 0 empty_db)"
proof -
  have "ex_answer_body (ex_deps\<lparr>md_sdk := other_sdk\<rparr>) = JNull"
    using ex_served [of other_sdk "\<lambda>_. JNull"] by (auto simp: other_sdk_def)
  moreover have "ex_answer_body (ex_deps\<lparr>md_sdk := md_sdk ex_deps\<rparr>) \<noteq> JNull"
    using ex_served [of "md_sdk ex_deps" "\<lambda>tools. JInt (int (length tools))"] by (auto simp: ex_deps_def)
  ultimately show ?thesis by (auto simp: ex_answer_body_def)
qed

section \<open>Reading the routes of the operator\<close>

definition ex_who :: mcp_principal where
  "ex_who = \<lparr> pn_subject = ''sub'', pn_clientId = ''cli'', pn_operator = ''op@corp.test'',
     pn_scopes = [''maildesk.routes.read'', ''maildesk.status.read''], pn_binding = ex_digest, pn_expiresAt = 0 \<rparr>"

lemma ex_route_id: "policyStorageId ''route'' [''example.com'', ''team''] = ''route:example.com:team''"
  by code_simp

lemma ex_active:
  obtains v where "loadActivePolicy ex_services ex_world = (Inr (Some v), ex_world)" "ap_sha256 v = ex_digest"
    "map route_storage_id (allowed_routes v ex_who) = [''route:example.com:team'']"
proof -
  obtain v r ref where v: "fst (loadActivePolicy ex_services ex_world) = Inr (Some v)" "pp_routes (ap_projection v) = [(r, ref)]"
    "de_domain r = ''example.com''" "de_localPart r = ''team''" "de_operators r = [''op@corp.test'']"
    by (rule ex_policy_route)
  have l: "loadActivePolicy ex_services ex_world = (Inr (Some v), ex_world)"
    using v(1) only_reads_now [of ex_world ex_services] by (simp add: prod_eq_iff)
  from v(1) have "active_policy (w_db ex_world) = Some (ap_sha256 v)"
    by (auto elim!: loadActivePolicy_stored [OF _ _ ex_mode])
  then have a: "ap_sha256 v = ex_digest" by (simp add: active_policy_def ex_db_def)
  have b: "map route_storage_id (allowed_routes v ex_who) = [''route:example.com:team'']"
    by (simp add: allowed_routes_def ex_who_def route_storage_id_def v(2-5) ex_route_id)
  show thesis by (rule that [OF l a b])
qed

lemma ex_status_answers:
  obtains v where "getDeliveryStatus ex_services ex_who ''route:example.com:team'' None ex_world = (Inr v, ex_world)"
proof -
  obtain a where a: "loadActivePolicy ex_services ex_world = (Inr (Some a), ex_world)" "ap_sha256 a = ex_digest"
    "map route_storage_id (allowed_routes a ex_who) = [''route:example.com:team'']"
    by (rule ex_active)
  then obtain r where r: "allowed_routes a ex_who = [r]" "route_storage_id r = ''route:example.com:team''" by auto
  have p: "mcp_policy ex_services None ex_world = (Inr a, ex_world)"
    using a(1) by (simp add: mcp_policy_def abort_check_def followedBy_def andThen_def tryCatch_def ex_mode)
  have s: "active_route ''route:example.com:team'' ex_digest ex_db \<noteq> None"
    by (simp add: active_route_def first_row_def ex_db_def active_policy_def empty_db_def)
  then obtain ar where "active_route ''route:example.com:team'' ex_digest ex_db = Some ar" by auto
  moreover have same: "ex_world\<lparr>w_db := ex_db\<rparr> = ex_world" by (simp add: ex_world_def world_of_def)
  ultimately have "\<exists>v. getDeliveryStatus ex_services ex_who ''route:example.com:team'' None ex_world = (Inr v, ex_world)"
    using p r a(2)
    by (simp add: getDeliveryStatus_def andThen_def read_or_def tryCatch_def d1_quiet query_def stored_status_of_def
        generation_of_def same still_authorized_def abort_check_def followedBy_def readClock_def)
  then show thesis using that by blast
qed

definition ex_cursor_services :: services where
  "ex_cursor_services = ex_services
     \<lparr> sv_json_parse := \<lambda>s. Some (if s = [] then JObject [(''domains'', JObject [])]
         else JObject [(''policy'', JString ex_digest), (''principal'', JString ex_digest),
           (''after'', JString ''route:example.com:team''), (''expires_at'', JInt 601000)]) \<rparr>"

definition ex_cursor :: jv where
  "ex_cursor = JObject [(''policy'', JString ex_digest), (''principal'', JString ex_digest),
     (''after'', JString ''route:example.com:team''), (''expires_at'', JInt 601000)]"

lemma ex_cursor_length: "length (json_stringify ex_cursor) \<le> 1024"
proof -
  have d: "length (json_quote ex_digest) = 66"
    by (simp add: json_quote_def ex_digest_def json_char_def code_def length_concat sum_list_replicate)
  have n: "length (show_int 601000) = 6" by (simp add: show_int_def show_nat.simps [of "numeral k" for k])
  have q: "json_quote ''policy'' = CHR 0x22 # ''policy'' @ [CHR 0x22]" "json_quote ''principal'' = CHR 0x22 # ''principal'' @ [CHR 0x22]"
    "json_quote ''after'' = CHR 0x22 # ''after'' @ [CHR 0x22]" "json_quote ''expires_at'' = CHR 0x22 # ''expires_at'' @ [CHR 0x22]"
    "json_quote ''route:example.com:team'' = CHR 0x22 # ''route:example.com:team'' @ [CHR 0x22]"
    by (simp_all add: json_quote_def json_char_def code_def)
  show ?thesis by (simp add: ex_cursor_def q n d)
qed

lemma sextets_length: "length (sextets bs) \<le> 2 * length bs"
  by (induction bs rule: sextets.induct) simp_all

lemma ex_cursor_policy: "loadActivePolicy ex_cursor_services = loadActivePolicy ex_services"
proof -
  have e: "sv_env ex_cursor_services = sv_env ex_services" by (simp add: ex_cursor_services_def)
  have "policy_of_bytes ex_cursor_services = policy_of_bytes ex_services"
    by (simp add: fun_eq_iff policy_of_bytes_def parsePolicy_def ex_cursor_services_def ex_services_def)
  then show ?thesis unfolding loadActivePolicy_def e by (simp only:) (simp add: ex_mode)
qed

lemma ex_listing:
  obtains v where "serves ex_cursor_services v ex_world" "cursors_work ex_cursor_services v ex_who ex_world"
    "map route_storage_id (allowed_routes v ex_who) = [''route:example.com:team'']"
proof -
  obtain v where v: "loadActivePolicy ex_services ex_world = (Inr (Some v), ex_world)" "ap_sha256 v = ex_digest"
    "map route_storage_id (allowed_routes v ex_who) = [''route:example.com:team'']"
    by (rule ex_active)
  have s: "serves ex_cursor_services v ex_world"
    by (simp add: serves_def ex_cursor_policy v(1))
  have now: "w_now ex_world = 1000" by (simp add: ex_world_def world_of_def)
  have j: "cursor_json v ex_who ''route:example.com:team'' 1000 = ex_cursor"
    by (simp add: cursor_json_def ex_cursor_def v(2) ex_who_def)
  have "json_stringify ex_cursor \<noteq> []" by (simp add: ex_cursor_def)
  then have p: "sv_json_parse ex_cursor_services (json_stringify ex_cursor) = Some ex_cursor"
    by (simp add: ex_cursor_services_def) (simp add: ex_cursor_def)
  have "length (cursor_text ex_cursor) \<le> 2048"
    using sextets_length [of "map char_byte (json_stringify ex_cursor)"] ex_cursor_length by (simp add: cursor_text_sextets)
  then have r: "reads_cursor ex_cursor_services v ex_who ''route:example.com:team'' 1000"
    by (simp add: reads_cursor_def j p)
  obtain r where one: "allowed_routes v ex_who = [r]" "route_storage_id r = ''route:example.com:team''"
    using v(3) by auto
  have "cursors_work ex_cursor_services v ex_who ex_world"
    unfolding cursors_work_def now one(1) by (simp add: one(2) r max_safe_integer_def)
  then show thesis using that [OF s _ v(3)] by simp
qed

end
