(* ===== verification/Live_Evidence.thy ===== *)
theory Live_Evidence
  imports Policy
begin

text \<open>
  \<^verbatim>\<open>scripts/live-evidence-coverage.ts\<close>: when a readback of the provider's state counts as evidence. A coverage
  report names the desired state, the domains it selected and observed, the capabilities it read and, in the dark
  profile, the acceptance surfaces; it is valid only if its own verdicts follow from its counts. A readback authorizes
  readiness only with a valid coverage of the full desired state. The reports are parsed JSON, hence \<^typ>\<open>jv\<close>.
\<close>

section \<open>Constants and value tests\<close>

definition DARK_ACCEPTANCE_SURFACES :: "string list" where
  "DARK_ACCEPTANCE_SURFACES =
     [''access_application'', ''access_policies'', ''r2_spool_lifecycle'', ''worker_deployment_identity'',
      ''worker_route_identity'', ''queue_backlog'', ''dead_letter_queue_backlog'', ''spool_emptiness'',
      ''readiness_endpoint'']"

definition DARK_ACCEPTANCE_CAPABILITY_IDS :: "string list" where
  "DARK_ACCEPTANCE_CAPABILITY_IDS =
     [''access-applications-get-an-access-application'', ''access-policies-list-access-app-policies'',
      ''access-policies-get-an-access-policy'', ''r2-get-bucket-lifecycle-configuration'']"

definition coverageDomainSha256 :: "platform \<Rightarrow> string \<Rightarrow> string" where
  "coverageDomainSha256 pf domain = sha256Hex pf (lower (trim domain))"

definition js_is_array :: "jv \<Rightarrow> bool" where
  "js_is_array v = (case v of JArray _ \<Rightarrow> True | _ \<Rightarrow> False)"

definition js_elements :: "jv \<Rightarrow> jv list" where
  "js_elements v = (case v of JArray vs \<Rightarrow> vs | _ \<Rightarrow> [])"

fun isSha256 :: "jv \<Rightarrow> bool" where
  \<comment> \<open>\<^verbatim>\<open>RegExp.test\<close> reads its argument as a string: an array of one element is read as that element\<close>
  "isSha256 (JString s) = is_sha256_hex s"
| "isSha256 (JArray [v]) = isSha256 v"
| "isSha256 _ = False"

definition validCount :: "jv \<Rightarrow> bool" where
  "validCount value = (case value of JInt n \<Rightarrow> 0 \<le> n | _ \<Rightarrow> False)"

definition nonempty_string :: "jv \<Rightarrow> bool" where
  "nonempty_string v = (case v of JString s \<Rightarrow> s \<noteq> [] | _ \<Rightarrow> False)"

definition validStringSet :: "jv \<Rightarrow> bool" where
  \<comment> \<open>a \<^verbatim>\<open>Set\<close> of strings has as many members as the array exactly when the array repeats none\<close>
  "validStringSet values \<longleftrightarrow>
     js_is_array values \<and> list_all nonempty_string (js_elements values) \<and> distinct (js_elements values)"

definition validSha256Set :: "jv \<Rightarrow> jv \<Rightarrow> bool" where
  "validSha256Set values expectedLength \<longleftrightarrow>
     js_is_array values \<and> JInt (int (length (js_elements values))) = expectedLength \<and>
     list_all isSha256 (js_elements values) \<and> distinct (js_elements values)"

definition sameStringSet :: "jv list \<Rightarrow> jv list \<Rightarrow> bool" where
  "sameStringSet left right \<longleftrightarrow> length left = length right \<and> list_all (\<lambda>value. value \<in> set right) left"

definition validProviderId :: "jv \<Rightarrow> bool" where
  "validProviderId value = (case value of JString s \<Rightarrow> s \<noteq> [] \<and> s = trim s | _ \<Rightarrow> False)"

definition among :: "string list \<Rightarrow> jv \<Rightarrow> bool" where
  \<comment> \<open>\<^verbatim>\<open>values.includes(value)\<close> for an array of strings\<close>
  "among values v \<longleftrightarrow> v \<in> JString ` set values"

section \<open>Parts of a coverage report\<close>

definition validAccessIdentityContinuity :: "jv \<Rightarrow> bool" where
  "validAccessIdentityContinuity proof' \<longleftrightarrow>
     js_is_record proof' \<and>
     list_all validProviderId
       [js_get proof' ''retained_app_id'', js_get proof' ''application_readback_app_id'',
        js_get proof' ''retained_policy_id'', js_get proof' ''policy_parent_app_id'',
        js_get proof' ''policy_readback_app_id'', js_get proof' ''policy_readback_policy_id''] \<and>
     js_get proof' ''retained_app_id'' = js_get proof' ''application_readback_app_id'' \<and>
     js_get proof' ''retained_app_id'' = js_get proof' ''policy_parent_app_id'' \<and>
     js_get proof' ''retained_app_id'' = js_get proof' ''policy_readback_app_id'' \<and>
     js_get proof' ''retained_policy_id'' = js_get proof' ''policy_readback_policy_id''"

definition validBlocker :: "jv \<Rightarrow> bool" where
  "validBlocker blocker \<longleftrightarrow>
     (js_is_record blocker \<or> js_is_array blocker) \<and>
     among [''PARTIAL_DESIRED_SCOPE'', ''ACCEPTANCE_PROFILE_INVENTORY_ONLY'',
            ''ACCEPTANCE_SURFACE_UNIMPLEMENTED'', ''PROVIDER_READ_FAILED''] (js_get blocker ''code'') \<and>
     (js_get blocker ''capability_id'' = JUndefined \<or> nonempty_string (js_get blocker ''capability_id'')) \<and>
     (js_get blocker ''surface'' = JUndefined \<or> among DARK_ACCEPTANCE_SURFACES (js_get blocker ''surface''))"

definition validAcceptanceSurfaces :: "jv \<Rightarrow> bool" where
  "validAcceptanceSurfaces coverage =
     (let required = js_get coverage ''required_acceptance_surfaces'';
          successful = js_get coverage ''successful_acceptance_surfaces'';
          missing = js_get coverage ''missing_acceptance_surfaces''
      in list_all (\<lambda>values. js_is_array values \<and> distinct (js_elements values) \<and>
                            list_all (among DARK_ACCEPTANCE_SURFACES) (js_elements values))
           [required, successful, missing] \<and>
         (if js_get coverage ''profile'' = JString ''inventory_v1'' then
            js_elements required = [] \<and> js_elements successful = [] \<and> js_elements missing = [] \<and>
            js_get coverage ''acceptance_complete'' = JBool False
          else
            list_all (\<lambda>capability. JString capability \<in> set (js_elements (js_get coverage ''required_capability_ids'')))
              DARK_ACCEPTANCE_CAPABILITY_IDS \<and>
            list_all (\<lambda>surface. JString surface \<in> set (js_elements required)) DARK_ACCEPTANCE_SURFACES \<and>
            list_all (\<lambda>surface. surface \<in> set (js_elements required)) (js_elements successful) \<and>
            list_all (\<lambda>surface. surface \<in> set (js_elements required)) (js_elements missing)))"

definition valid_scope :: "jv \<Rightarrow> string \<Rightarrow> string list \<Rightarrow> bool" where
  \<comment> \<open>the desired state, the mode, and the selected and observed domains\<close>
  "valid_scope coverage expectedDesiredStateSha256 expectedDomainSha256s =
     (let count = int (length expectedDomainSha256s);
          manifest = js_get coverage ''scope_manifest_sha256'';
          selected = js_get coverage ''selected_domain_sha256s'';
          observed = js_get coverage ''observed_domain_sha256s'';
          n_selected = js_get coverage ''selected_domain_count'';
          n_observed = js_get coverage ''observed_domain_count''
      in isSha256 (js_get coverage ''desired_state_sha256'') \<and>
         js_get coverage ''desired_state_sha256'' = JString expectedDesiredStateSha256 \<and>
         (manifest = JUndefined \<or> isSha256 manifest) \<and>
         among [''canary'', ''full_desired_state''] (js_get coverage ''mode'') \<and>
         among [''inventory_v1'', ''dark_acceptance_v1''] (js_get coverage ''profile'') \<and>
         js_get coverage ''expected_domain_count'' = JInt count \<and>
         validCount n_selected \<and> validCount n_observed \<and>
         (case (n_selected, n_observed) of (JInt s, JInt ob) \<Rightarrow> s \<le> count \<and> ob \<le> s | _ \<Rightarrow> False) \<and>
         validSha256Set selected n_selected \<and> validSha256Set observed n_observed \<and>
         list_all (among expectedDomainSha256s) (js_elements selected) \<and>
         list_all (\<lambda>digest. digest \<in> set (js_elements selected)) (js_elements observed) \<and>
         (if js_get coverage ''mode'' = JString ''canary''
          then manifest \<noteq> JUndefined \<and> (case n_selected of JInt s \<Rightarrow> s < count | _ \<Rightarrow> False)
          else manifest = JUndefined \<and> sameStringSet (js_elements selected) (map JString expectedDomainSha256s)))"

definition valid_capabilities :: "jv \<Rightarrow> bool" where
  "valid_capabilities coverage =
     (let required = js_elements (js_get coverage ''required_capability_ids'');
          successful = js_elements (js_get coverage ''successful_capability_ids'');
          failed = js_elements (js_get coverage ''failed_capability_ids'');
          missing = js_elements (js_get coverage ''missing_capability_ids'');
          classifiedCapabilities = successful @ failed @ missing
      in list_all (\<lambda>k. validStringSet (js_get coverage k))
           [''required_capability_ids'', ''successful_capability_ids'', ''failed_capability_ids'', ''missing_capability_ids''] \<and>
         list_all (\<lambda>i. i \<in> set required) successful \<and>
         list_all (\<lambda>i. i \<in> set required) failed \<and>
         list_all (\<lambda>i. i \<in> set required) missing \<and>
         distinct classifiedCapabilities \<and> sameStringSet classifiedCapabilities required)"

definition selectedScopeComplete :: "jv \<Rightarrow> bool" where
  "selectedScopeComplete coverage \<longleftrightarrow>
     js_get coverage ''observed_domain_count'' = js_get coverage ''selected_domain_count'' \<and>
     js_elements (js_get coverage ''failed_capability_ids'') = [] \<and>
     js_elements (js_get coverage ''missing_capability_ids'') = [] \<and>
     sameStringSet (js_elements (js_get coverage ''successful_capability_ids''))
       (js_elements (js_get coverage ''required_capability_ids''))"

definition desiredScopeComplete :: "jv \<Rightarrow> nat \<Rightarrow> bool" where
  "desiredScopeComplete coverage expectedDomainCount \<longleftrightarrow>
     js_get coverage ''mode'' = JString ''full_desired_state'' \<and> selectedScopeComplete coverage \<and>
     js_get coverage ''selected_domain_count'' = JInt (int expectedDomainCount) \<and>
     js_get coverage ''observed_domain_count'' = JInt (int expectedDomainCount)"

definition acceptanceComplete :: "jv \<Rightarrow> nat \<Rightarrow> bool" where
  "acceptanceComplete coverage expectedDomainCount \<longleftrightarrow>
     js_get coverage ''profile'' = JString ''dark_acceptance_v1'' \<and> desiredScopeComplete coverage expectedDomainCount \<and>
     js_elements (js_get coverage ''failed_capability_ids'') = [] \<and>
     js_elements (js_get coverage ''missing_capability_ids'') = [] \<and>
     js_elements (js_get coverage ''missing_acceptance_surfaces'') = [] \<and>
     validAccessIdentityContinuity (js_get coverage ''access_identity_continuity'') \<and>
     list_all (\<lambda>surface. surface \<in> set (js_elements (js_get coverage ''successful_acceptance_surfaces'')))
       (js_elements (js_get coverage ''required_acceptance_surfaces''))"

section \<open>Valid coverage and the authority of a readback\<close>

definition validReadbackCoverage :: "platform \<Rightarrow> jv \<Rightarrow> string \<Rightarrow> string list \<Rightarrow> bool" where
  \<comment> \<open>no coverage at all, and a value that is no object, have no \<^verbatim>\<open>desired_state_sha256\<close> and are refused by that test\<close>
  "validReadbackCoverage pf coverage expectedDesiredStateSha256 expectedDomains =
     (let expectedDomainSha256s = order_by id (map (coverageDomainSha256 pf) expectedDomains);
          expectedDomainCount = length expectedDomainSha256s;
          continuity = js_get coverage ''access_identity_continuity'';
          blockers = js_get coverage ''blockers''
      in valid_scope coverage expectedDesiredStateSha256 expectedDomainSha256s \<and>
         valid_capabilities coverage \<and>
         validAcceptanceSurfaces coverage \<and>
         (continuity = JUndefined \<or> validAccessIdentityContinuity continuity) \<and>
         js_is_array blockers \<and> list_all validBlocker (js_elements blockers) \<and>
         js_get coverage ''selected_scope_complete'' = JBool (selectedScopeComplete coverage) \<and>
         js_get coverage ''desired_scope_complete'' = JBool (desiredScopeComplete coverage expectedDomainCount) \<and>
         js_get coverage ''acceptance_complete'' = JBool (acceptanceComplete coverage expectedDomainCount) \<and>
         (acceptanceComplete coverage expectedDomainCount \<longrightarrow> js_elements blockers = []))"

definition domainSelectedByCoverage :: "platform \<Rightarrow> jv \<Rightarrow> string \<Rightarrow> string \<Rightarrow> string list \<Rightarrow> bool" where
  "domainSelectedByCoverage pf coverage domain expectedDesiredStateSha256 expectedDomains =
     (if js_get coverage ''mode'' \<noteq> JString ''canary'' then True
      else if \<not> validReadbackCoverage pf coverage expectedDesiredStateSha256 expectedDomains then True
      else JString (coverageDomainSha256 pf domain) \<in> set (js_elements (js_get coverage ''selected_domain_sha256s'')))"

definition readbackAuthorizesReadiness :: "platform \<Rightarrow> jv \<Rightarrow> string \<Rightarrow> string list \<Rightarrow> bool" where
  "readbackAuthorizesReadiness pf readback expectedDesiredStateSha256 expectedDomains =
     (let coverage = js_get readback ''coverage''
      in js_get readback ''required'' = JBool True \<and>
         js_get readback ''attempted'' = JBool True \<and>
         js_get readback ''transaction_complete'' = JBool True \<and>
         js_get readback ''complete'' = JBool True \<and>
         validReadbackCoverage pf coverage expectedDesiredStateSha256 expectedDomains \<and>
         js_get coverage ''mode'' = JString ''full_desired_state'' \<and>
         js_get coverage ''profile'' = JString ''dark_acceptance_v1'' \<and>
         js_get coverage ''selected_scope_complete'' = JBool True \<and>
         js_get coverage ''desired_scope_complete'' = JBool True \<and>
         js_get coverage ''acceptance_complete'' = JBool True \<and>
         validAccessIdentityContinuity (js_get coverage ''access_identity_continuity''))"

section \<open>What a valid coverage says\<close>

lemma sameStringSet_set:
  assumes "sameStringSet xs ys" "distinct xs"
  shows "set xs = set ys" "distinct ys"
proof -
  have sub: "set xs \<subseteq> set ys" using assms(1) by (auto simp: sameStringSet_def list_all_iff)
  have le: "card (set ys) \<le> card (set xs)"
    using assms card_length [of ys] by (simp add: sameStringSet_def distinct_card)
  show eq: "set xs = set ys" using sub le by (simp add: card_seteq)
  then show "distinct ys"
    using assms by (metis card_distinct distinct_card sameStringSet_def)
qed

lemma sameStringSet_mset: "sameStringSet xs ys \<Longrightarrow> distinct xs \<Longrightarrow> mset xs = mset ys"
  using sameStringSet_set [of xs ys] by (simp add: set_eq_iff_mset_eq_distinct)

lemma length_insert_ordered: "length (insert_ordered key x ys) = Suc (length ys)"
  by (induction ys) auto

lemma length_order_by [simp]: "length (order_by key xs) = length xs"
  by (induction xs) (auto simp: order_by_def length_insert_ordered)

lemma valid_coverage_facts:
  assumes "validReadbackCoverage pf c expected domains"
  shows "valid_scope c expected (order_by id (map (coverageDomainSha256 pf) domains))"
    and "valid_capabilities c" and "validAcceptanceSurfaces c"
    and "js_get c ''acceptance_complete'' = JBool (acceptanceComplete c (length domains))"
    and "acceptanceComplete c (length domains) \<Longrightarrow> js_elements (js_get c ''blockers'') = []"
  using assms by (simp_all add: validReadbackCoverage_def Let_def)

lemma capabilities_are_classified:
  assumes "valid_capabilities c"
  shows "mset (js_elements (js_get c ''required_capability_ids'')) =
    mset (js_elements (js_get c ''successful_capability_ids'')) +
    mset (js_elements (js_get c ''failed_capability_ids'')) + mset (js_elements (js_get c ''missing_capability_ids''))"
proof -
  have "mset (js_elements (js_get c ''successful_capability_ids'') @ js_elements (js_get c ''failed_capability_ids'') @
      js_elements (js_get c ''missing_capability_ids'')) = mset (js_elements (js_get c ''required_capability_ids''))"
    by (rule sameStringSet_mset) (use assms in \<open>simp_all add: valid_capabilities_def Let_def del: distinct_append\<close>)
  then show ?thesis by (simp add: add.assoc)
qed

lemma observed_within_selected:
  assumes "valid_scope c expected ds"
  shows "set (js_elements (js_get c ''observed_domain_sha256s'')) \<subseteq> set (js_elements (js_get c ''selected_domain_sha256s''))"
    and "set (js_elements (js_get c ''selected_domain_sha256s'')) \<subseteq> JString ` set ds"
    and "distinct (js_elements (js_get c ''selected_domain_sha256s''))"
    and "distinct (js_elements (js_get c ''observed_domain_sha256s''))"
    and "JInt (int (length (js_elements (js_get c ''selected_domain_sha256s'')))) = js_get c ''selected_domain_count''"
    and "JInt (int (length (js_elements (js_get c ''observed_domain_sha256s'')))) = js_get c ''observed_domain_count''"
  using assms unfolding valid_scope_def Let_def validSha256Set_def
  by (auto simp: list_all_iff among_def)

lemma canary_is_strictly_partial:
  assumes "validReadbackCoverage pf c expected domains" "js_get c ''mode'' = JString ''canary''"
  shows "length (js_elements (js_get c ''selected_domain_sha256s'')) < length domains"
    and "js_get c ''desired_scope_complete'' = JBool False"
proof -
  have v: "valid_scope c expected (order_by id (map (coverageDomainSha256 pf) domains))"
    by (rule valid_coverage_facts [OF assms(1)])
  have "length (order_by id (map (coverageDomainSha256 pf) domains)) = length domains"
    by simp
  then show "length (js_elements (js_get c ''selected_domain_sha256s'')) < length domains"
    using v observed_within_selected(5) [OF v] assms(2)
    by (auto simp: valid_scope_def Let_def split: jv.splits)
  show "js_get c ''desired_scope_complete'' = JBool False"
    using assms by (simp add: validReadbackCoverage_def Let_def desiredScopeComplete_def)
qed

lemma full_scope_is_everything:
  assumes "validReadbackCoverage pf c expected domains" "desiredScopeComplete c (length domains)"
  shows "set (js_elements (js_get c ''selected_domain_sha256s'')) = JString ` coverageDomainSha256 pf ` set domains"
    and "set (js_elements (js_get c ''observed_domain_sha256s'')) = JString ` coverageDomainSha256 pf ` set domains"
proof -
  let ?ds = "order_by id (map (coverageDomainSha256 pf) domains)"
  let ?sel = "js_elements (js_get c ''selected_domain_sha256s'')"
  let ?obs = "js_elements (js_get c ''observed_domain_sha256s'')"
  have v: "valid_scope c expected ?ds" by (rule valid_coverage_facts [OF assms(1)])
  note w = observed_within_selected [OF v]
  have "sameStringSet ?sel (map JString ?ds)"
    using v assms(2) by (simp add: valid_scope_def Let_def desiredScopeComplete_def)
  then show sel: "set ?sel = JString ` coverageDomainSha256 pf ` set domains"
    using sameStringSet_set(1) w(3) by fastforce
  have "length ?obs = length ?sel"
    using w(5,6) assms(2) by (simp add: desiredScopeComplete_def)
  then have "set ?obs = set ?sel"
    using w(1,3,4) by (metis List.finite_set card_subset_eq distinct_card)
  with sel show "set ?obs = JString ` coverageDomainSha256 pf ` set domains" by simp
qed

lemma dark_surfaces_succeeded:
  assumes "validAcceptanceSurfaces c" "acceptanceComplete c n"
  shows "set (js_elements (js_get c ''successful_acceptance_surfaces'')) = JString ` set DARK_ACCEPTANCE_SURFACES"
    and "JString ` set DARK_ACCEPTANCE_CAPABILITY_IDS \<subseteq> set (js_elements (js_get c ''required_capability_ids''))"
  using assms unfolding validAcceptanceSurfaces_def acceptanceComplete_def Let_def among_def list_all_iff
  by (auto simp: subset_iff)

lemma continuity_is_one_identity:
  assumes "validAccessIdentityContinuity p"
  shows "\<exists>app policy. app \<noteq> [] \<and> policy \<noteq> [] \<and>
    js_get p ''retained_app_id'' = JString app \<and> js_get p ''application_readback_app_id'' = JString app \<and>
    js_get p ''policy_parent_app_id'' = JString app \<and> js_get p ''policy_readback_app_id'' = JString app \<and>
    js_get p ''retained_policy_id'' = JString policy \<and> js_get p ''policy_readback_policy_id'' = JString policy"
  using assms unfolding validAccessIdentityContinuity_def
  by (auto simp: validProviderId_def split: jv.splits)

end
