(* ===== verification/Operation_Context.thy ===== *)
theory Operation_Context
  imports Live_Evidence Route_Status
begin

text \<open>
  \<^verbatim>\<open>scripts/operation-context.ts\<close> and \<^verbatim>\<open>scripts/git-candidate.ts\<close>: the identity that a protected operation is bound to.
  The canonical JSON text and its digest, the admission of untrusted values with a closed shape, the clean commit
  that the operation runs from, and the plan envelopes that refer to it. Also \<^verbatim>\<open>scripts/mail-proof-target.ts\<close>,
  \<^verbatim>\<open>scripts/sender-mode.ts\<close> and \<^verbatim>\<open>scripts/desired-topology.ts\<close>. \<open>Inl\<close> carries the message of the thrown \<^verbatim>\<open>Error\<close>.
\<close>

section \<open>Canonical JSON\<close>

fun canonicalJsonV1 :: "jv \<Rightarrow> string" where
  \<comment> \<open>\<^verbatim>\<open>JSON.stringify(undefined)\<close> is undefined, which a template prints and \<^verbatim>\<open>join\<close> leaves out; no buffer is
      ever printed\<close>
  "canonicalJsonV1 (JArray vs) =
     ''['' @ join '','' (map (\<lambda>v. if v = JUndefined then [] else canonicalJsonV1 v) vs) @ '']''"
| "canonicalJsonV1 (JObject ps) =
     ''{'' @ join '','' (map (\<lambda>(k, t). json_quote k @ '':'' @ t)
                         (order_by fst (map (\<lambda>(k, v). (k, canonicalJsonV1 v)) ps))) @ ''}''"
| "canonicalJsonV1 JUndefined = ''undefined''"
| "canonicalJsonV1 v = json_stringify v"

definition digestCanonical :: "platform \<Rightarrow> jv \<Rightarrow> string" where
  "digestCanonical pf value = ''sha256:'' @ sha256Hex pf (canonicalJsonV1 value)"

section \<open>Admission of untrusted values\<close>

definition admit_object :: "jv \<Rightarrow> string \<Rightarrow> string + jv" where
  \<comment> \<open>\<^verbatim>\<open>object(value, label)\<close>\<close>
  "admit_object value label = (if js_is_record value then Inr value else Inl (label @ '' is invalid''))"

definition sorted_keys :: "string list \<Rightarrow> string" where
  \<comment> \<open>\<^verbatim>\<open>keys.sort().join("\0")\<close>\<close>
  "sorted_keys keys = join [CHR 0x00] (order_by id keys)"

definition closedObject :: "jv \<Rightarrow> string list \<Rightarrow> string \<Rightarrow> string + jv" where
  "closedObject value keys label =
     bindE (admit_object value label) (\<lambda>row.
       if sorted_keys (js_keys row) \<noteq> sorted_keys keys then Inl (label @ '' has an unsupported shape'') else Inr row)"

definition is_digest :: "string \<Rightarrow> bool" where
  \<comment> \<open>\<^verbatim>\<open>/^sha256:[a-f0-9]{64}$/\<close>\<close>
  "is_digest s \<longleftrightarrow> take 7 s = ''sha256:'' \<and> is_sha256_hex (drop 7 s)"

definition admit_digest :: "jv \<Rightarrow> string \<Rightarrow> string + string" where
  \<comment> \<open>\<^verbatim>\<open>digest(value, label)\<close>\<close>
  "admit_digest value label =
     (case value of JString s \<Rightarrow> if is_digest s then Inr s else Inl (label @ '' is invalid'')
      | _ \<Rightarrow> Inl (label @ '' is invalid''))"

definition reference_char :: "char \<Rightarrow> bool" where
  "reference_char c \<longleftrightarrow> is_alnum c \<or> c \<in> set '':._%/-''"

definition is_reference :: "string \<Rightarrow> bool" where
  \<comment> \<open>\<^verbatim>\<open>/^[A-Za-z0-9:._%/-]{1,240}$/\<close>\<close>
  "is_reference s \<longleftrightarrow> 1 \<le> length s \<and> length s \<le> 240 \<and> list_all reference_char s"

definition admit_reference :: "jv \<Rightarrow> string \<Rightarrow> string + string" where
  \<comment> \<open>\<^verbatim>\<open>reference(value, label)\<close>\<close>
  "admit_reference value label =
     (case value of JString s \<Rightarrow> if is_reference s then Inr s else Inl (label @ '' is invalid'')
      | _ \<Rightarrow> Inl (label @ '' is invalid''))"

definition utc_instant :: "string \<Rightarrow> bool" where
  \<comment> \<open>\<^verbatim>\<open>/^\d{4}-\d{2}-\d{2}T\d{2}:\d{2}:\d{2}(?:\.\d{1,3})?Z$/\<close>\<close>
  "utc_instant s \<longleftrightarrow>
     matches ''dddd-dd-ddTdd:dd:ddZ'' s \<or> matches ''dddd-dd-ddTdd:dd:dd.dZ'' s \<or>
     matches ''dddd-dd-ddTdd:dd:dd.ddZ'' s \<or> matches ''dddd-dd-ddTdd:dd:dd.dddZ'' s"

definition admit_instant :: "platform \<Rightarrow> jv \<Rightarrow> string \<Rightarrow> string + int" where
  \<comment> \<open>\<^verbatim>\<open>instant(value, label)\<close>\<close>
  "admit_instant pf value label =
     (case value of
        JString s \<Rightarrow>
          (if \<not> utc_instant s then Inl (label @ '' is invalid'')
           else (case pf_date_parse pf s of None \<Rightarrow> Inl (label @ '' is invalid'') | Some t \<Rightarrow> Inr t))
      | _ \<Rightarrow> Inl (label @ '' is invalid''))"

section \<open>The commit an operation runs from\<close>

fun isGitId :: "jv \<Rightarrow> bool" where
  \<comment> \<open>\<^verbatim>\<open>GIT_ID.test(String(value))\<close>: an array of one element is read as that element\<close>
  "isGitId (JString s) = (length s = 40 \<and> list_all is_hex s)"
| "isGitId (JArray [v]) = isGitId v"
| "isGitId _ = False"

record git_candidate =
  gc_head :: jv                                  \<comment> \<open>\<^verbatim>\<open>value.head as string\<close>: the cast checks nothing\<close>
  gc_tree :: jv
  gc_dirty :: bool

record git_candidate_binding =
  gb_candidate :: git_candidate
  gb_candidate_sha256 :: string

definition git_candidate_json :: "git_candidate \<Rightarrow> jv" where
  "git_candidate_json c = JObject [(''head'', gc_head c), (''tree'', gc_tree c), (''dirty'', JBool (gc_dirty c))]"

definition candidateSha256 :: "platform \<Rightarrow> git_candidate \<Rightarrow> string" where
  \<comment> \<open>the \<^verbatim>\<open>canonicalJson\<close> of this file is the same text as that of the other\<close>
  "candidateSha256 pf candidate = sha256Hex pf (canonicalJsonV1 (git_candidate_json candidate))"

definition git_output :: "(string list \<Rightarrow> int option \<times> string) \<Rightarrow> string list \<Rightarrow> string + string" where
  \<comment> \<open>\<^verbatim>\<open>git(root, args)\<close>; the parameter is \<^verbatim>\<open>spawnSync\<close>: exit status and standard output\<close>
  "git_output spawn args =
     (let (status, stdout) = spawn args;
          value = trim stdout
      in if status \<noteq> Some 0 then Inl ''git candidate identity is unavailable''
         else if take 1 args = [''rev-parse''] \<and> \<not> isGitId (JString value) then Inl ''git candidate identity is invalid''
         else Inr value)"

definition collectGitCandidate :: "platform \<Rightarrow> (string list \<Rightarrow> int option \<times> string) \<Rightarrow> string + git_candidate_binding" where
  "collectGitCandidate pf spawn =
     bindE (git_output spawn [''rev-parse'', ''HEAD'']) (\<lambda>head.
     bindE (git_output spawn [''rev-parse'', ''HEAD^{tree}'']) (\<lambda>tree.
     bindE (git_output spawn [''status'', ''--porcelain=v1'', ''--untracked-files=all'']) (\<lambda>changes.
       let candidate = \<lparr> gc_head = JString head, gc_tree = JString tree, gc_dirty = changes \<noteq> [] \<rparr>
       in Inr \<lparr> gb_candidate = candidate, gb_candidate_sha256 = candidateSha256 pf candidate \<rparr>)))"

definition admitGitCandidateBinding :: "platform \<Rightarrow> jv \<Rightarrow> jv \<Rightarrow> string + git_candidate_binding" where
  "admitGitCandidateBinding pf candidate expectedSha256 =
     (if \<not> js_is_record candidate then Inl ''candidate binding is missing''
      else if join '','' (order_by id (js_keys candidate)) \<noteq> ''dirty,head,tree'' then Inl ''candidate binding shape is invalid''
      else if \<not> isGitId (js_get candidate ''head'') \<or> \<not> isGitId (js_get candidate ''tree'')
        then Inl ''candidate HEAD or tree is invalid''
      else (case js_get candidate ''dirty'' of
        JBool dirty \<Rightarrow>
          (case expectedSha256 of
             JString expected \<Rightarrow>
               (if \<not> is_sha256_hex expected then Inl ''candidate digest is invalid''
                else let admitted = \<lparr> gc_head = js_get candidate ''head'', gc_tree = js_get candidate ''tree'', gc_dirty = dirty \<rparr>
                     in if candidateSha256 pf admitted \<noteq> expected then Inl ''candidate digest mismatch''
                        else Inr \<lparr> gb_candidate = admitted, gb_candidate_sha256 = expected \<rparr>)
           | _ \<Rightarrow> Inl ''candidate digest is invalid'')
      | _ \<Rightarrow> Inl ''candidate dirty state is invalid''))"

section \<open>The operation context\<close>

record control_plane =
  cp_profile_id :: string
  cp_account_id :: string
  cp_database_id :: string
  cp_cfctl_build_sha256 :: string
  cp_capability_contract_sha256 :: string

record operation_context =
  oc_binding :: git_candidate_binding
  oc_policy_sha256 :: string
  oc_desired_state_sha256 :: string
  oc_scope_manifest_sha256 :: string
  oc_runtime_artifacts_sha256 :: string
  oc_topology_sha256 :: string
  oc_control_plane :: control_plane

definition CONTEXT_KEYS :: "string list" where
  "CONTEXT_KEYS =
     [''schema_version'', ''candidate'', ''candidate_sha256'', ''policy_sha256'', ''desired_state_sha256'',
      ''scope_manifest_sha256'', ''runtime_artifacts_sha256'', ''topology_sha256'', ''control_plane'']"

definition CONTROL_KEYS :: "string list" where
  "CONTROL_KEYS = [''profile_id'', ''account_id'', ''database_id'', ''cfctl_build_sha256'', ''capability_contract_sha256'']"

definition admit_control_plane :: "jv \<Rightarrow> string + control_plane" where
  "admit_control_plane control =
     bindE (admit_reference (js_get control ''profile_id'') ''profile'') (\<lambda>profile.
     bindE (admit_reference (js_get control ''account_id'') ''account'') (\<lambda>account.
     bindE (admit_reference (js_get control ''database_id'') ''database'') (\<lambda>database.
     bindE (admit_digest (js_get control ''cfctl_build_sha256'') ''cfctl build'') (\<lambda>build.
     bindE (admit_digest (js_get control ''capability_contract_sha256'') ''capability contract'') (\<lambda>contract.
       Inr \<lparr> cp_profile_id = profile, cp_account_id = account, cp_database_id = database,
             cp_cfctl_build_sha256 = build, cp_capability_contract_sha256 = contract \<rparr>)))))"

definition admitOperationContext :: "platform \<Rightarrow> jv \<Rightarrow> string + operation_context" where
  "admitOperationContext pf value =
     bindE (closedObject value CONTEXT_KEYS ''operation context'') (\<lambda>row.
     bindE (throwIf (js_get row ''schema_version'' \<noteq> JInt 1) ''operation context version is unsupported'') (\<lambda>_.
     bindE (admitGitCandidateBinding pf (js_get row ''candidate'') (js_get row ''candidate_sha256'')) (\<lambda>candidate.
     bindE (throwIf (gc_dirty (gb_candidate candidate)) ''protected operation requires a clean candidate'') (\<lambda>_.
     bindE (closedObject (js_get row ''control_plane'') CONTROL_KEYS ''operation control plane'') (\<lambda>control.
     bindE (admit_digest (js_get row ''policy_sha256'') ''policy digest'') (\<lambda>policy.
     bindE (admit_digest (js_get row ''desired_state_sha256'') ''desired-state digest'') (\<lambda>desired.
     bindE (admit_digest (js_get row ''scope_manifest_sha256'') ''scope digest'') (\<lambda>scope.
     bindE (admit_digest (js_get row ''runtime_artifacts_sha256'') ''runtime artifact digest'') (\<lambda>runtime.
     bindE (admit_digest (js_get row ''topology_sha256'') ''topology digest'') (\<lambda>topology.
     bindE (admit_control_plane control) (\<lambda>plane.
       Inr \<lparr> oc_binding = candidate, oc_policy_sha256 = policy, oc_desired_state_sha256 = desired,
             oc_scope_manifest_sha256 = scope, oc_runtime_artifacts_sha256 = runtime,
             oc_topology_sha256 = topology, oc_control_plane = plane \<rparr>)))))))))))"

definition control_plane_json :: "control_plane \<Rightarrow> jv" where
  "control_plane_json p =
     JObject [(''profile_id'', JString (cp_profile_id p)), (''account_id'', JString (cp_account_id p)),
              (''database_id'', JString (cp_database_id p)),
              (''cfctl_build_sha256'', JString (cp_cfctl_build_sha256 p)),
              (''capability_contract_sha256'', JString (cp_capability_contract_sha256 p))]"

definition context_json :: "operation_context \<Rightarrow> jv" where
  \<comment> \<open>the context as the object that \<^verbatim>\<open>digestCanonical\<close> reads\<close>
  "context_json c =
     JObject [(''schema_version'', JInt 1),
       (''candidate'', git_candidate_json (gb_candidate (oc_binding c))),
       (''candidate_sha256'', JString (gb_candidate_sha256 (oc_binding c))),
       (''policy_sha256'', JString (oc_policy_sha256 c)),
       (''desired_state_sha256'', JString (oc_desired_state_sha256 c)),
       (''scope_manifest_sha256'', JString (oc_scope_manifest_sha256 c)),
       (''runtime_artifacts_sha256'', JString (oc_runtime_artifacts_sha256 c)),
       (''topology_sha256'', JString (oc_topology_sha256 c)),
       (''control_plane'', control_plane_json (oc_control_plane c))]"

record expected_envelope =
  ee_command :: string
  ee_performed :: bool
  ee_capabilityId :: string
  ee_operationId :: string

definition admitPlanEnvelopeIdentity :: "jv \<Rightarrow> expected_envelope \<Rightarrow> string + jv" where
  "admitPlanEnvelopeIdentity input expected =
     bindE (admit_object input ''PlanV2 envelope'') (\<lambda>envelope.
       if js_get envelope ''schema_version'' \<noteq> JInt 2 \<or> js_get envelope ''ok'' \<noteq> JBool True \<or>
          js_get envelope ''error'' \<noteq> JNull \<or>
          js_get envelope ''command'' \<noteq> JString (ee_command expected) \<or>
          js_get envelope ''performed'' \<noteq> JBool (ee_performed expected) \<or>
          js_get envelope ''capability_id'' \<noteq> JString (ee_capabilityId expected) \<or>
          js_get envelope ''operation_id'' \<noteq> JString (ee_operationId expected)
       then Inl ''PlanV2 envelope identity drift'' else Inr envelope)"

section \<open>Proof targets, sender modes and the desired topology\<close>

record role_proof_alias =
  rp_reply_identity :: string
  rp_sink :: "bool option"

definition roleProofTarget :: "string \<Rightarrow> (string \<times> role_proof_alias) list \<Rightarrow> string list \<Rightarrow> (string \<times> string) option" where
  \<comment> \<open>the address and its reply identity; the code's default for the last argument is \<^term>\<open>map fst roles\<close>\<close>
  "roleProofTarget domain roles declaredAliases =
     (let aliases = order_by id (filter (\<lambda>alias. case map_of roles alias of None \<Rightarrow> False
                                                 | Some r \<Rightarrow> rp_sink r \<noteq> Some True) declaredAliases)
      in case (if ''founders'' \<in> set aliases then Some ''founders'' else case aliases of [] \<Rightarrow> None | a # _ \<Rightarrow> Some a) of
           None \<Rightarrow> None
         | Some alias \<Rightarrow>
             if alias = [] then None
             else map_option (\<lambda>r. (alias @ ''@'' @ domain, rp_reply_identity r)) (map_of roles alias))"

definition senderModes :: "string list" where
  "senderModes = [''disabled'', ''cloudflare_email_service'', ''resend'']"

definition isSenderMode :: "jv \<Rightarrow> bool" where
  "isSenderMode value = (case value of JString s \<Rightarrow> s \<in> set senderModes | _ \<Rightarrow> False)"

definition senderModeOrDefault :: "jv \<Rightarrow> string" where
  "senderModeOrDefault value =
     (case value of JString s \<Rightarrow> if isSenderMode value then s else ''disabled'' | _ \<Rightarrow> ''disabled'')"

definition senderModeList :: string where
  "senderModeList = join '', '' senderModes"

definition senderModeNeedsProviderReadback :: "string \<Rightarrow> bool" where
  "senderModeNeedsProviderReadback m \<longleftrightarrow> m \<noteq> ''disabled''"

definition topology_object :: "jv \<Rightarrow> string \<Rightarrow> string + jv" where
  \<comment> \<open>\<^verbatim>\<open>object\<close> of \<^verbatim>\<open>desired-topology.ts\<close>\<close>
  "topology_object value label = (if js_is_record value then Inr value else Inl (label @ '' must be an object''))"

definition topology_string :: "jv \<Rightarrow> string \<Rightarrow> string + unit" where
  \<comment> \<open>\<^verbatim>\<open>string(value, label)\<close>\<close>
  "topology_string value label =
     throwIf (case value of JString s \<Rightarrow> trim s = [] | _ \<Rightarrow> True) (label @ '' must be a non-empty string'')"

definition requireExactKeys :: "jv \<Rightarrow> string list \<Rightarrow> string \<Rightarrow> string list \<Rightarrow> string + unit" where
  "requireExactKeys value allowed label optional =
     (let extra = filter (\<lambda>key. key \<notin> set allowed) (js_keys value);
          missing = filter (\<lambda>key. key \<notin> set optional \<and> key \<notin> set (js_keys value)) allowed
      in throwIf (extra \<noteq> [] \<or> missing \<noteq> []) (label @ '' must use only the canonical topology keys''))"

fun check_all :: "('a \<Rightarrow> string + unit) \<Rightarrow> 'a list \<Rightarrow> string + unit" where
  \<comment> \<open>\<^verbatim>\<open>for (const x of xs) f(x)\<close>, when \<open>f\<close> can throw\<close>
  "check_all f [] = Inr ()"
| "check_all f (x # xs) = bindE (f x) (\<lambda>_. check_all f xs)"

definition check_worker :: "jv \<Rightarrow> string \<Rightarrow> string + unit" where
  "check_worker workers role =
     bindE (topology_object (js_get workers role) (''workers.'' @ role)) (\<lambda>worker.
     bindE (requireExactKeys worker [''config'', ''script_name''] (''workers.'' @ role) []) (\<lambda>_.
     bindE (topology_string (js_get worker ''script_name'') (''workers.'' @ role @ ''.script_name'')) (\<lambda>_.
       topology_string (js_get worker ''config'') (''workers.'' @ role @ ''.config''))))"

definition requireCanonicalDesiredTopology :: "jv \<Rightarrow> string + unit" where
  "requireCanonicalDesiredTopology value =
     bindE (topology_object value ''desired state'') (\<lambda>root.
     bindE (topology_object (js_get root ''workers'') ''workers'') (\<lambda>workers.
     bindE (requireExactKeys workers [''relay_outbound'', ''relay_router'', ''routing_health''] ''workers'' []) (\<lambda>_.
     bindE (check_all (check_worker workers) [''relay_router'', ''relay_outbound'', ''routing_health'']) (\<lambda>_.
     bindE (topology_object (js_get root ''storage'') ''storage'') (\<lambda>storage.
     bindE (requireExactKeys storage
              [''d1_database'', ''d1_preview_database'', ''dead_letter_queue'', ''queue'', ''r2_policy_bucket'', ''r2_spool_bucket'']
              ''storage'' [''d1_preview_database'']) (\<lambda>_.
     bindE (check_all (\<lambda>key. topology_string (js_get storage key) (''storage.'' @ key))
              [''d1_database'', ''r2_policy_bucket'', ''r2_spool_bucket'', ''queue'', ''dead_letter_queue'']) (\<lambda>_.
       if js_get storage ''d1_preview_database'' \<noteq> JUndefined
       then topology_string (js_get storage ''d1_preview_database'') ''storage.d1_preview_database'' else Inr ())))))))"

end
