(* ===== verification/Route_Control.thy ===== *)
theory Route_Control
  imports Operation_Context
begin

text \<open>
  \<^verbatim>\<open>scripts/route-reply-control-contract.ts\<close>: the proposals that an operator compiles to give a route ordinary reply
  authority, to dispatch a claim that is known to be unsent, and to quarantine or release a route. Nothing is
  performed here: a proposal binds the policy, the proof of a golden thread, the owner's authorization and the commit
  into one digest, and a readback is admitted only against it. \<open>Inl\<close> carries the message of the thrown \<^verbatim>\<open>Error\<close>.
\<close>

section \<open>Records\<close>

definition bare :: "string \<Rightarrow> string" where
  "bare value = drop 7 value"

definition MAX_QUALIFICATION_AGE :: int where
  "MAX_QUALIFICATION_AGE = 600000"

record activation_record =                       \<comment> \<open>\<^verbatim>\<open>record\<close>, but for its constant fields and its \<^verbatim>\<open>id\<close>\<close>
  at_route_id :: string
  at_policy_sha256 :: string
  at_desired_state_sha256 :: string
  at_public_identity :: string
  at_identity_profile_ref :: string
  at_identity_profile_sha256 :: string
  at_operator_set_sha256 :: string
  at_operator_set_json :: string
  at_sender_adapter :: string
  at_sender_domain :: string
  at_runtime_artifacts_sha256 :: string
  at_topology_sha256 :: string
  at_canary_admission_id :: string
  at_inbox_proof_id :: string
  at_reply_proof_id :: string
  at_qualification_receipt_sha256 :: string
  at_qualification_valid_until :: string
  at_owner_authorization_sha256 :: string
  at_activated_by_ref :: string
  at_requested_at :: string
  at_expires_at :: jv                            \<comment> \<open>a string or null\<close>

record route_activation_proposal =               \<comment> \<open>but for the constants that say that nothing was performed\<close>
  ap_proposal_sha256 :: string
  ap_context :: operation_context
  ap_record_id :: string
  ap_record :: activation_record
  ap_compatibility_receipt_sha256 :: string

definition activation_fields :: "activation_record \<Rightarrow> (string \<times> jv) list" where
  "activation_fields r =
     [(''schema_version'', JInt 1), (''route_id'', JString (at_route_id r)),
      (''policy_sha256'', JString (at_policy_sha256 r)), (''desired_state_sha256'', JString (at_desired_state_sha256 r)),
      (''public_identity'', JString (at_public_identity r)),
      (''identity_profile_ref'', JString (at_identity_profile_ref r)),
      (''identity_profile_sha256'', JString (at_identity_profile_sha256 r)),
      (''operator_set_sha256'', JString (at_operator_set_sha256 r)),
      (''operator_set_json'', JString (at_operator_set_json r)),
      (''sender_adapter'', JString (at_sender_adapter r)), (''sender_domain'', JString (at_sender_domain r)),
      (''runtime_artifacts_sha256'', JString (at_runtime_artifacts_sha256 r)),
      (''topology_sha256'', JString (at_topology_sha256 r)), (''qualification_kind'', JString ''golden_thread''),
      (''canary_admission_id'', JString (at_canary_admission_id r)),
      (''inbox_proof_id'', JString (at_inbox_proof_id r)), (''reply_proof_id'', JString (at_reply_proof_id r)),
      (''qualification_receipt_sha256'', JString (at_qualification_receipt_sha256 r)),
      (''qualification_valid_until'', JString (at_qualification_valid_until r)),
      (''owner_authorization_sha256'', JString (at_owner_authorization_sha256 r)),
      (''activated_by_ref'', JString (at_activated_by_ref r)), (''requested_at'', JString (at_requested_at r)),
      (''expires_at'', at_expires_at r)]"

definition proposal_record_json :: "route_activation_proposal \<Rightarrow> jv" where
  \<comment> \<open>\<^verbatim>\<open>{ id, ...record }\<close>\<close>
  "proposal_record_json p = JObject ((''id'', JString (ap_record_id p)) # activation_fields (ap_record p))"

section \<open>The owner's authorization\<close>

definition admitOwner ::
  "platform \<Rightarrow> jv \<Rightarrow> operation_context \<Rightarrow> string \<Rightarrow> string \<Rightarrow> int \<Rightarrow> string option \<Rightarrow> string + string \<times> string" where
  \<comment> \<open>the digests of the receipt and of the actor\<close>
  "admitOwner pf value context routeId effect now publicIdentity =
     bindE (closedObject value
        ([''effect'', ''route_id'', ''context_sha256'', ''authorized_at'', ''expires_at'', ''actor_sha256'', ''receipt_sha256'']
         @ (if publicIdentity = None \<or> publicIdentity = Some [] then [] else [''public_identity'']))
        ''owner authorization'') (\<lambda>owner.
     let refused = ''owner authorization does not cover this effect and target'' in
     bindE (throwIf
        (js_get owner ''effect'' \<noteq> JString effect \<or> js_get owner ''route_id'' \<noteq> JString routeId \<or>
         js_get owner ''context_sha256'' \<noteq> JString (digestCanonical pf (context_json context)) \<or>
         (case publicIdentity of None \<Rightarrow> False | Some i \<Rightarrow> js_get owner ''public_identity'' \<noteq> JString i)) refused) (\<lambda>_.
     bindE (admit_instant pf (js_get owner ''authorized_at'') ''owner authorization time'') (\<lambda>authorized.
     bindE (throwIf (now < authorized) refused) (\<lambda>_.
     bindE (admit_instant pf (js_get owner ''expires_at'') ''owner authorization expiry'') (\<lambda>expires.
     bindE (throwIf (expires \<le> now) refused) (\<lambda>_.
     bindE (admit_digest (js_get owner ''receipt_sha256'') ''owner receipt'') (\<lambda>receipt.
     bindE (admit_digest (js_get owner ''actor_sha256'') ''owner actor'') (\<lambda>actor.
       Inr (receipt, actor)))))))))"

section \<open>Route activation\<close>

definition routeReference :: "route_decision \<Rightarrow> string" where
  "routeReference route = stableId ''route'' [de_domain route, de_localPart route]"

definition activation_keys :: "bool \<Rightarrow> string list" where
  "activation_keys operatorSelected =
     [''schema_version'', ''context'', ''policy_source_json'', ''route_id'', ''qualification'', ''owner_authorization'',
      ''compatibility'', ''requested_at'', ''expires_at''] @ (if operatorSelected then [''reply_operator''] else [])"

definition source_policy :: "services \<Rightarrow> jv \<Rightarrow> operation_context \<Rightarrow> string + jv \<times> policy_projection" where
  \<comment> \<open>the policy text must have the digest of the context; the message of a \<^verbatim>\<open>SyntaxError\<close> is not modelled\<close>
  "source_policy sv source context =
     (case source of
        JString text \<Rightarrow>
          bindE (throwIf (sha sv text \<noteq> bare (oc_policy_sha256 context)) ''immutable policy bytes differ'') (\<lambda>_.
          case sv_json_parse sv text of
            None \<Rightarrow> Inl ''SyntaxError''
          | Some policy \<Rightarrow>
              (case projectPolicy (sv_core sv) policy of
                 Inl e \<Rightarrow> Inl (''Rust policy projection rejected: '' @ re_kind e)
               | Inr projection \<Rightarrow> Inr (policy, projection)))
      | _ \<Rightarrow> Inl ''route activation input version or policy is invalid'')"

definition deliverable_route :: "policy_projection \<Rightarrow> string \<Rightarrow> string + route_decision" where
  "deliverable_route projection routeId =
     (case filter (\<lambda>route. routeReference route = routeId) (map fst (pp_routes projection)) of
        [route] \<Rightarrow> if de_routeKind route = Sink then Inl ''ordinary route requires one deliverable profiled route'' else Inr route
      | _ \<Rightarrow> Inl ''ordinary route requires one deliverable profiled route'')"

definition selected_profile ::
  "services \<Rightarrow> jv \<Rightarrow> route_decision \<Rightarrow> bool \<Rightarrow> jv \<Rightarrow> string + identity_profile" where
  "selected_profile sv policy route operatorSelected replyOperator =
     bindE (throwIf (\<not> operatorSelected \<and> de_operatorReplyIdentities route \<noteq> None)
        ''operator-specific activation requires schema 2 and a selected operator'') (\<lambda>_.
     bindE (if \<not> operatorSelected then Inr (de_identityProfile route)
            else (case replyOperator of
              JString operator \<Rightarrow>
                (if operator \<noteq> lower (trim operator) then Inl ''selected operator must be a normalized mailbox''
                 else (case authorizeReplyWithPolicy (sv_core sv) policy (de_localPart route @ ''@'' @ de_domain route) operator None of
                    Inl _ \<Rightarrow> Inl ''selected operator is not authorized for this route''
                  | Inr selected \<Rightarrow> Inr (ra_identityProfile selected)))
            | _ \<Rightarrow> Inl ''selected operator must be a normalized mailbox'')) (\<lambda>profile.
     case profile of None \<Rightarrow> Inl ''ordinary route requires one deliverable profiled route'' | Some p \<Rightarrow> Inr p))"

definition activation_window :: "platform \<Rightarrow> jv \<Rightarrow> int \<Rightarrow> string + int" where
  \<comment> \<open>the requested time, and the expiry when one is given\<close>
  "activation_window pf value now =
     bindE (admit_instant pf (js_get value ''requested_at'') ''requested activation time'') (\<lambda>requested.
     bindE (throwIf (now < requested \<or> MAX_QUALIFICATION_AGE < now - requested) ''activation request is stale or future'') (\<lambda>_.
     if js_get value ''expires_at'' = JNull then Inr requested
     else bindE (admit_instant pf (js_get value ''expires_at'') ''authority expiry'') (\<lambda>expires.
          if expires \<le> requested then Inl ''authority expiry is invalid'' else Inr requested)))"

definition QUALIFICATION_KEYS :: "string list" where
  "QUALIFICATION_KEYS =
     [''schema_version'', ''kind'', ''context_sha256'', ''route_id'', ''canary_admission_id'', ''canary_transaction_sha256'',
      ''inbox_proof_id'', ''reply_proof_id'', ''identity_profile_sha256'', ''operator_set_sha256'', ''inbox_observed_at'',
      ''provider_accepted_at'', ''reply_observed_at'', ''observed_at'', ''receipt_sha256'', ''match_count'', ''body_free'',
      ''verification_state'']"

definition admit_qualification ::
  "platform \<Rightarrow> jv \<Rightarrow> operation_context \<Rightarrow> string \<Rightarrow> string \<Rightarrow> string \<Rightarrow> int \<Rightarrow> int \<Rightarrow> string + jv \<times> int" where
  \<comment> \<open>the golden thread: who it is about, that it passed, and inbox before acceptance before reply before readback\<close>
  "admit_qualification pf value context routeId profileSha operatorsSha requested now =
     bindE (closedObject value QUALIFICATION_KEYS ''golden-thread qualification'') (\<lambda>q.
     bindE (throwIf
        (js_get q ''schema_version'' \<noteq> JInt 1 \<or> js_get q ''kind'' \<noteq> JString ''maildesk_exact_golden_thread_readback'' \<or>
         js_get q ''context_sha256'' \<noteq> JString (digestCanonical pf (context_json context)) \<or>
         js_get q ''route_id'' \<noteq> JString routeId \<or>
         js_get q ''identity_profile_sha256'' \<noteq> JString (''sha256:'' @ profileSha) \<or>
         js_get q ''operator_set_sha256'' \<noteq> JString (''sha256:'' @ operatorsSha) \<or>
         js_get q ''match_count'' \<noteq> JInt 1 \<or> js_get q ''body_free'' \<noteq> JBool True \<or>
         js_get q ''verification_state'' \<noteq> JString ''passed'') ''golden-thread qualification binding is invalid'') (\<lambda>_.
     bindE (admit_instant pf (js_get q ''inbox_observed_at'') ''inbox proof time'') (\<lambda>inbox.
     bindE (admit_instant pf (js_get q ''provider_accepted_at'') ''provider acceptance time'') (\<lambda>accepted.
     bindE (admit_instant pf (js_get q ''reply_observed_at'') ''external reply proof time'') (\<lambda>reply.
     bindE (admit_instant pf (js_get q ''observed_at'') ''qualification read time'') (\<lambda>observed.
     bindE (throwIf
        (\<not> (inbox \<le> accepted \<and> accepted \<le> reply \<and> reply \<le> observed \<and> observed \<le> requested) \<or>
         MAX_QUALIFICATION_AGE < now - inbox) ''qualification chronology or freshness is invalid'') (\<lambda>_.
     bindE (admit_digest (js_get q ''canary_transaction_sha256'') ''canary transaction'') (\<lambda>_.
       Inr (q, inbox)))))))))"

definition admit_compatibility ::
  "services \<Rightarrow> jv \<Rightarrow> operation_context \<Rightarrow> bool \<Rightarrow> jv \<Rightarrow> identity_profile \<Rightarrow> string + jv" where
  "admit_compatibility sv value context operatorSelected replyOperator profile =
     bindE (closedObject value
        ([''schema_version'', ''kind'', ''runtime_artifacts_sha256'', ''policy_sha256'', ''apple_mail_workspace_verified'',
          ''signed_recipient_and_message_id'', ''receipt_sha256'']
         @ (if operatorSelected then [''reply_operator_sha256'', ''public_identity_sha256''] else []))
        ''message compatibility'') (\<lambda>compatibility.
     bindE (throwIf
        (js_get compatibility ''schema_version'' \<noteq> JInt (if operatorSelected then 2 else 1) \<or>
         js_get compatibility ''kind'' \<noteq> JString ''maildesk_actual_message_compatibility'' \<or>
         js_get compatibility ''runtime_artifacts_sha256'' \<noteq> JString (oc_runtime_artifacts_sha256 context) \<or>
         js_get compatibility ''policy_sha256'' \<noteq> JString (oc_policy_sha256 context) \<or>
         js_get compatibility ''apple_mail_workspace_verified'' \<noteq> JBool True \<or>
         js_get compatibility ''signed_recipient_and_message_id'' \<noteq> JBool True)
        ''actual Apple Mail/Workspace signing compatibility is unqualified'') (\<lambda>_.
     bindE (throwIf
        (operatorSelected \<and>
         ((case replyOperator of JString o' \<Rightarrow> js_get compatibility ''reply_operator_sha256'' \<noteq> JString (''sha256:'' @ sha sv o')
           | _ \<Rightarrow> True) \<or>
          js_get compatibility ''public_identity_sha256'' \<noteq> JString (''sha256:'' @ sha sv (ip_publicAddress profile))))
        ''actual-client compatibility differs from the selected operator identity'') (\<lambda>_.
       Inr compatibility)))"

definition sealed_proposal ::
  "platform \<Rightarrow> operation_context \<Rightarrow> activation_record \<Rightarrow> string \<Rightarrow> route_activation_proposal" where
  "sealed_proposal pf context record' compatibilityReceipt =
     (let proposalSha = digestCanonical pf
            (JObject [(''context'', context_json context), (''record'', JObject (activation_fields record')),
                      (''compatibility_receipt_sha256'', JString compatibilityReceipt)])
      in \<lparr> ap_proposal_sha256 = proposalSha, ap_context = context, ap_record_id = ''activation:'' @ bare proposalSha,
           ap_record = record', ap_compatibility_receipt_sha256 = compatibilityReceipt \<rparr>)"

definition compileRouteActivation :: "services \<Rightarrow> jv \<Rightarrow> int \<Rightarrow> string + route_activation_proposal" where
  "compileRouteActivation sv input now =
     (let pf = sv_platform sv in
     bindE (admit_object input ''route activation input'') (\<lambda>raw.
     let operatorSelected = (js_get raw ''schema_version'' = JInt 2) in
     bindE (closedObject input (activation_keys operatorSelected) ''route activation input'') (\<lambda>value.
     bindE (throwIf ((js_get value ''schema_version'' \<noteq> JInt 1 \<and> js_get value ''schema_version'' \<noteq> JInt 2) \<or>
                     \<not> js_is_string (js_get value ''policy_source_json''))
        ''route activation input version or policy is invalid'') (\<lambda>_.
     bindE (admitOperationContext pf (js_get value ''context'')) (\<lambda>context.
     bindE (source_policy sv (js_get value ''policy_source_json'') context) (\<lambda>(policy, projection).
     bindE (admit_reference (js_get value ''route_id'') ''route ID'') (\<lambda>routeId.
     bindE (deliverable_route projection routeId) (\<lambda>route.
     bindE (selected_profile sv policy route operatorSelected (js_get value ''reply_operator'')) (\<lambda>profile.
     let profileSha = sha sv (json_stringify (identityProfileDigestInputV1 profile (sha sv (ip_signatureText profile))));
         operatorsJson = json_stringify (jstrings (de_operators route)) in
     bindE (activation_window pf value now) (\<lambda>requested.
     bindE (admit_qualification pf (js_get value ''qualification'') context routeId profileSha (sha sv operatorsJson) requested now) (\<lambda>(q, inbox).
     bindE (admit_compatibility sv (js_get value ''compatibility'') context operatorSelected (js_get value ''reply_operator'') profile) (\<lambda>compatibility.
     bindE (admitOwner pf (js_get value ''owner_authorization'') context routeId ''activate_ordinary_route'' now
              (if operatorSelected then Some (ip_publicAddress profile) else None)) (\<lambda>(receipt, actor).
     bindE (admit_reference (js_get q ''canary_admission_id'') ''canary admission'') (\<lambda>admission.
     bindE (admit_reference (js_get q ''inbox_proof_id'') ''inbox proof'') (\<lambda>inboxProof.
     bindE (admit_reference (js_get q ''reply_proof_id'') ''reply proof'') (\<lambda>replyProof.
     bindE (admit_digest (js_get q ''receipt_sha256'') ''qualification receipt'') (\<lambda>qualification.
     bindE (admit_digest (js_get compatibility ''receipt_sha256'') ''compatibility receipt'') (\<lambda>compatibilityReceipt.
       Inr (sealed_proposal pf context
         \<lparr> at_route_id = routeId, at_policy_sha256 = bare (oc_policy_sha256 context),
           at_desired_state_sha256 = bare (oc_desired_state_sha256 context),
           at_public_identity = ip_publicAddress profile, at_identity_profile_ref = ip_profileRef profile,
           at_identity_profile_sha256 = profileSha, at_operator_set_sha256 = sha sv operatorsJson,
           at_operator_set_json = operatorsJson, at_sender_adapter = adapter_name (ip_senderAdapter profile),
           at_sender_domain = de_domain route, at_runtime_artifacts_sha256 = bare (oc_runtime_artifacts_sha256 context),
           at_topology_sha256 = bare (oc_topology_sha256 context), at_canary_admission_id = admission,
           at_inbox_proof_id = inboxProof, at_reply_proof_id = replyProof,
           at_qualification_receipt_sha256 = bare qualification,
           at_qualification_valid_until = pf_to_iso pf (inbox + MAX_QUALIFICATION_AGE),
           at_owner_authorization_sha256 = bare receipt, at_activated_by_ref = bare actor,
           at_requested_at = pf_to_iso pf requested, at_expires_at = js_get value ''expires_at'' \<rparr>
         compatibilityReceipt)))))))))))))))))))"

record activation_readback =                     \<comment> \<open>\<^verbatim>\<open>state\<close> is the constant \<^verbatim>\<open>"active"\<close>\<close>
  rb_activation_id :: string
  rb_receipt_sha256 :: string

definition READBACK_KEYS :: "string list" where
  "READBACK_KEYS =
     [''schema_version'', ''kind'', ''proposal_sha256'', ''context_sha256'', ''activation_id'', ''record_sha256'',
      ''activation_receipt_sha256'', ''activated_at'', ''observed_at'', ''status'', ''match_count'', ''performed'',
      ''body_free'', ''verification_state'']"

definition admitRouteActivationReadback ::
  "platform \<Rightarrow> jv \<Rightarrow> route_activation_proposal \<Rightarrow> int \<Rightarrow> string + activation_readback" where
  "admitRouteActivationReadback pf input proposal now =
     bindE (closedObject input READBACK_KEYS ''route activation readback'') (\<lambda>row.
     bindE (throwIf
        (js_get row ''schema_version'' \<noteq> JInt 1 \<or>
         js_get row ''kind'' \<noteq> JString ''maildesk_exact_route_activation_readback'' \<or>
         js_get row ''proposal_sha256'' \<noteq> JString (ap_proposal_sha256 proposal) \<or>
         js_get row ''context_sha256'' \<noteq> JString (digestCanonical pf (context_json (ap_context proposal))) \<or>
         js_get row ''activation_id'' \<noteq> JString (ap_record_id proposal) \<or>
         js_get row ''record_sha256'' \<noteq> JString (digestCanonical pf (proposal_record_json proposal)) \<or>
         js_get row ''status'' \<noteq> JString ''active'' \<or> js_get row ''match_count'' \<noteq> JInt 1 \<or>
         js_get row ''performed'' \<noteq> JBool True \<or> js_get row ''body_free'' \<noteq> JBool True \<or>
         js_get row ''verification_state'' \<noteq> JString ''passed'') ''route activation readback binding is invalid'') (\<lambda>_.
     let late = ''route activation readback is stale or out of order''; record' = ap_record proposal in
     bindE (admit_instant pf (js_get row ''activated_at'') ''activation time'') (\<lambda>activated.
     bindE (admit_instant pf (js_get row ''observed_at'') ''activation observation'') (\<lambda>observed.
     bindE (admit_instant pf (JString (at_requested_at record')) ''activation request'') (\<lambda>requested.
     bindE (throwIf (activated < requested) late) (\<lambda>_.
     bindE (admit_instant pf (JString (at_qualification_valid_until record')) ''qualification expiry'') (\<lambda>validUntil.
     bindE (throwIf (validUntil \<le> activated \<or> observed < activated \<or> now < observed \<or>
                     MAX_QUALIFICATION_AGE < now - observed) late) (\<lambda>_.
     bindE (if at_expires_at record' = JNull then Inr ()
            else bindE (admit_instant pf (at_expires_at record') ''authority expiry'') (\<lambda>expires. throwIf (expires \<le> now) late)) (\<lambda>_.
     bindE (admit_digest (js_get row ''activation_receipt_sha256'') ''activation receipt'') (\<lambda>receipt.
       Inr \<lparr> rb_activation_id = ap_record_id proposal, rb_receipt_sha256 = receipt \<rparr>))))))))))"

section \<open>Dispatch of a claim that is known to be unsent\<close>

fun shown_text :: "jv \<Rightarrow> string option" where
  \<comment> \<open>\<^verbatim>\<open>String(value)\<close> of a string, and of an array of one element; other values have no text that is compared here\<close>
  "shown_text (JString s) = Some s"
| "shown_text (JArray [v]) = (if v = JNull \<or> v = JUndefined then Some [] else shown_text v)"
| "shown_text _ = None"

definition shown_among :: "string list \<Rightarrow> jv \<Rightarrow> bool" where
  \<comment> \<open>\<^verbatim>\<open>values.includes(String(value))\<close>\<close>
  "shown_among values v = (case shown_text v of None \<Rightarrow> False | Some s \<Rightarrow> s \<in> set values)"

record recovery_proposal =                       \<comment> \<open>but for its constant fields\<close>
  ry_context :: operation_context
  ry_claim_id :: string
  ry_claim_readback_sha256 :: string
  ry_proposal_sha256 :: string

definition CLAIM_KEYS :: "string list" where
  "CLAIM_KEYS =
     [''id'', ''route_id'', ''admission_kind'', ''activation_id'', ''policy_sha256'', ''desired_state_sha256'', ''status'',
      ''admission_status'', ''provider_boundary_at'', ''expires_at'', ''observed_at'', ''receipt_sha256'']"

definition is_attempt_id :: "string \<Rightarrow> bool" where
  \<comment> \<open>\<^verbatim>\<open>/^relay-attempt:[a-f0-9]{64}$/\<close>\<close>
  "is_attempt_id s \<longleftrightarrow> take 14 s = ''relay-attempt:'' \<and> is_sha256_hex (drop 14 s)"

definition known_unsent :: "jv \<Rightarrow> operation_context \<Rightarrow> bool" where
  "known_unsent claim context \<longleftrightarrow>
     shown_among [''receiving'', ''queued'', ''authorized''] (js_get claim ''status'') \<and>
     js_get claim ''admission_status'' = JString ''claimed'' \<and> js_get claim ''provider_boundary_at'' = JNull \<and>
     js_get claim ''policy_sha256'' = JString (oc_policy_sha256 context) \<and>
     js_get claim ''desired_state_sha256'' = JString (oc_desired_state_sha256 context) \<and>
     (js_get claim ''admission_kind'' = JString ''canary'' \<and> js_get claim ''activation_id'' = JNull \<or>
      js_get claim ''admission_kind'' = JString ''ordinary'' \<and> js_is_string (js_get claim ''activation_id''))"

definition compileDispatchRecovery :: "platform \<Rightarrow> jv \<Rightarrow> int \<Rightarrow> string + recovery_proposal" where
  "compileDispatchRecovery pf input now =
     bindE (closedObject input [''schema_version'', ''context'', ''claim'', ''requested_at''] ''dispatch recovery input'') (\<lambda>row.
     bindE (throwIf (js_get row ''schema_version'' \<noteq> JInt 1) ''unsupported dispatch recovery input'') (\<lambda>_.
     bindE (admitOperationContext pf (js_get row ''context'')) (\<lambda>context.
     bindE (closedObject (js_get row ''claim'') CLAIM_KEYS ''dispatch claim readback'') (\<lambda>claim.
     let refused = ''dispatch is not proven current and known-unsent'' in
     case js_get claim ''id'' of
       JString claimId \<Rightarrow>
         bindE (throwIf (\<not> is_attempt_id claimId \<or> \<not> known_unsent claim context) refused) (\<lambda>_.
         bindE (admit_instant pf (js_get claim ''expires_at'') ''claim expiry'') (\<lambda>expires.
         bindE (throwIf (expires \<le> now) refused) (\<lambda>_.
         bindE (admit_instant pf (js_get claim ''observed_at'') ''claim observation'') (\<lambda>observed.
         bindE (throwIf (now < observed \<or> 60000 < now - observed) refused) (\<lambda>_.
         bindE (admit_instant pf (js_get row ''requested_at'') ''recovery request'') (\<lambda>requested.
         bindE (throwIf (now < requested) refused) (\<lambda>_.
         bindE (admit_reference (js_get claim ''route_id'') ''claim route'') (\<lambda>_.
         bindE (admit_digest (js_get claim ''receipt_sha256'') ''claim read receipt'') (\<lambda>_.
           Inr \<lparr> ry_context = context, ry_claim_id = claimId, ry_claim_readback_sha256 = digestCanonical pf claim,
                 ry_proposal_sha256 = digestCanonical pf row \<rparr>)))))))))
     | _ \<Rightarrow> Inl refused))))"

section \<open>Containment\<close>

record containment_proposal =                    \<comment> \<open>but for its constant fields\<close>
  co_context :: operation_context
  co_route_id :: string
  co_action :: jv
  co_reason :: jv
  co_release_of :: jv
  co_source_quarantine_receipt_sha256 :: jv
  co_owner_authorization_sha256 :: string
  co_proposal_sha256 :: string

definition CONTAINMENT_REASONS :: "string list" where
  "CONTAINMENT_REASONS =
     [''wrong_identity'', ''private_identity_exposure'', ''duplicate_send'', ''ambiguous_provider_result'',
      ''unauthorized_operator'', ''policy_changed'', ''controller_recovery'']"

definition compileRouteContainment :: "platform \<Rightarrow> jv \<Rightarrow> int \<Rightarrow> string + containment_proposal" where
  "compileRouteContainment pf input now =
     bindE (closedObject input
        [''schema_version'', ''context'', ''route_id'', ''action'', ''reason'', ''release_of'',
         ''source_quarantine_receipt_sha256'', ''owner_authorization'', ''requested_at''] ''route containment input'') (\<lambda>row.
     let action = js_get row ''action''; release = js_get row ''release_of'';
         source = js_get row ''source_quarantine_receipt_sha256'' in
     bindE (throwIf
        (js_get row ''schema_version'' \<noteq> JInt 1 \<or> \<not> shown_among [''quarantine'', ''release''] action \<or>
         \<not> shown_among CONTAINMENT_REASONS (js_get row ''reason'')) ''route containment shape is invalid'') (\<lambda>_.
     bindE (admitOperationContext pf (js_get row ''context'')) (\<lambda>context.
     bindE (admit_reference (js_get row ''route_id'') ''containment route'') (\<lambda>routeId.
     bindE (throwIf (action = JString ''quarantine'' \<and> (release \<noteq> JNull \<or> source \<noteq> JNull))
        ''quarantine cannot carry release lineage'') (\<lambda>_.
     bindE (if action = JString ''release''
            then bindE (admit_reference release ''exact quarantine ID'') (\<lambda>_.
                 bindE (admit_digest source ''quarantine receipt'') (\<lambda>_. Inr ()))
            else Inr ()) (\<lambda>_.
     bindE (admit_instant pf (js_get row ''requested_at'') ''containment request'') (\<lambda>requested.
     bindE (throwIf (now < requested) ''containment request is future'') (\<lambda>_.
     bindE (admitOwner pf (js_get row ''owner_authorization'') context routeId
              ((case shown_text action of None \<Rightarrow> [] | Some a \<Rightarrow> a) @ ''_route_replies'') now None) (\<lambda>(receipt, actor).
       Inr \<lparr> co_context = context, co_route_id = routeId, co_action = action, co_reason = js_get row ''reason'',
             co_release_of = release, co_source_quarantine_receipt_sha256 = source,
             co_owner_authorization_sha256 = receipt, co_proposal_sha256 = digestCanonical pf row \<rparr>)))))))))"

end
