(* ===== verification/Control_Safety.thy ===== *)
theory Control_Safety
  imports Route_Control
begin

text \<open>
  What an admitted context, proposal and readback say: the commit is clean and bound by its digest, an activation
  follows a golden thread in time, a recovery is for a claim that never reached the provider, and a release names the
  quarantine that it ends.
\<close>

section \<open>Admission\<close>

lemma admit_object_Inr: "admit_object v l = Inr row \<longleftrightarrow> row = v \<and> js_is_record v"
  by (auto simp: admit_object_def)

lemma closedObject_Inr: "closedObject v ks l = Inr row \<longleftrightarrow> row = v \<and> js_is_record v \<and> sorted_keys (js_keys v) = sorted_keys ks"
  by (auto simp: closedObject_def bindE_Inr_iff admit_object_Inr split: if_splits)

lemma admit_digest_Inr: "admit_digest v l = Inr s \<longleftrightarrow> v = JString s \<and> is_digest s"
  by (auto simp: admit_digest_def split: jv.splits if_splits)

lemma admit_reference_Inr: "admit_reference v l = Inr s \<longleftrightarrow> v = JString s \<and> is_reference s"
  by (auto simp: admit_reference_def split: jv.splits if_splits)

lemma admit_instant_Inr:
  "admit_instant pf v l = Inr t \<longleftrightarrow> (\<exists>s. v = JString s \<and> utc_instant s \<and> pf_date_parse pf s = Some t)"
  by (auto simp: admit_instant_def split: jv.splits if_splits option.splits)

lemma admit_instant_label: "NO_MATCH [] l \<Longrightarrow> admit_instant pf v l = Inr t \<longleftrightarrow> admit_instant pf v [] = Inr t"
  by (simp add: admit_instant_Inr)

lemmas admission_simps = closedObject_Inr admit_digest_Inr admit_reference_Inr admit_object_Inr bindE_Inr_iff

lemma closed_keys:
  assumes "closedObject v ks l = Inr row" "\<And>k. k \<in> set (js_keys v) \<union> set ks \<Longrightarrow> CHR 0x00 \<notin> set k"
    and "ks \<noteq> []" "js_keys v \<noteq> []"
  shows "set (js_keys row) = set ks"
proof -
  have e: "row = v" "sorted_keys (js_keys v) = sorted_keys ks" using assms(1) by (simp_all add: closedObject_Inr)
  have s: "split_on (CHR 0x00) (sorted_keys xs) = order_by id xs"
    if "xs \<noteq> []" "\<And>k. k \<in> set xs \<Longrightarrow> CHR 0x00 \<notin> set k" for xs
    unfolding sorted_keys_def by (rule split_on_join) (use that length_order_by [of id xs] in \<open>auto simp del: length_order_by\<close>)
  have "order_by id (js_keys v) = order_by id ks"
    using s [of "js_keys v"] s [of ks] assms(2-4) e(2) by auto
  then show ?thesis using e(1) by (metis set_order_by)
qed

lemma admitted_candidate:
  assumes "admitGitCandidateBinding pf candidate expected = Inr b"
  shows "expected = JString (gb_candidate_sha256 b)" "is_sha256_hex (gb_candidate_sha256 b)"
    "candidateSha256 pf (gb_candidate b) = gb_candidate_sha256 b"
    "isGitId (gc_head (gb_candidate b))" "isGitId (gc_tree (gb_candidate b))"
    "js_get candidate ''dirty'' = JBool (gc_dirty (gb_candidate b))"
  using assms by (auto simp: admitGitCandidateBinding_def Let_def split: if_splits jv.splits)

lemma collected_candidate_is_admitted:
  assumes "collectGitCandidate pf spawn = Inr b" "digest_ok pf"
  shows "admitGitCandidateBinding pf (git_candidate_json (gb_candidate b)) (JString (gb_candidate_sha256 b)) = Inr b"
proof -
  have s: "join '','' (order_by id [''head'', ''tree'', ''dirty'']) = ''dirty,head,tree''" by code_simp
  obtain h t d where b: "b = \<lparr> gb_candidate = \<lparr> gc_head = JString h, gc_tree = JString t, gc_dirty = d \<rparr>,
        gb_candidate_sha256 = candidateSha256 pf \<lparr> gc_head = JString h, gc_tree = JString t, gc_dirty = d \<rparr> \<rparr>"
      and g: "isGitId (JString h)" "isGitId (JString t)"
    using assms(1)
    by (auto simp: collectGitCandidate_def bindE_Inr_iff git_output_def Let_def split: prod.splits if_splits)
  have "is_sha256_hex (candidateSha256 pf c)" for c
    unfolding candidateSha256_def by (rule sha256Hex_is_hex [OF assms(2)])
  with g s show ?thesis
    by (simp add: b admitGitCandidateBinding_def git_candidate_json_def Let_def js_keys_def)
qed

lemma admitted_context:
  assumes "admitOperationContext pf v = Inr c"
  shows "\<not> gc_dirty (gb_candidate (oc_binding c))"
    and "admitGitCandidateBinding pf (js_get v ''candidate'') (js_get v ''candidate_sha256'') = Inr (oc_binding c)"
    and "js_get v ''policy_sha256'' = JString (oc_policy_sha256 c)" "is_digest (oc_policy_sha256 c)"
    and "js_get v ''desired_state_sha256'' = JString (oc_desired_state_sha256 c)"
    and "js_get v ''runtime_artifacts_sha256'' = JString (oc_runtime_artifacts_sha256 c)"
  using assms by (auto simp: admitOperationContext_def admission_simps)

section \<open>The owner\<close>

lemma admitted_owner:
  assumes "admitOwner pf v context routeId effect now public = Inr (receipt, actor)"
  shows "js_get v ''effect'' = JString effect \<and> js_get v ''route_id'' = JString routeId \<and>
    js_get v ''context_sha256'' = JString (digestCanonical pf (context_json context)) \<and>
    (\<exists>authorized expires. admit_instant pf (js_get v ''authorized_at'') [] = Inr authorized \<and>
       admit_instant pf (js_get v ''expires_at'') [] = Inr expires \<and> authorized \<le> now \<and> now < expires)"
  using assms by (auto simp: admitOwner_def Let_def admission_simps not_less not_le simp: admit_instant_label)

section \<open>Activation\<close>

lemma admitted_qualification:
  assumes "admit_qualification pf v context routeId profileSha operatorsSha requested now = Inr (q, inbox)"
  shows "q = v \<and> admit_instant pf (js_get v ''inbox_observed_at'') [] = Inr inbox \<and>
    js_get v ''route_id'' = JString routeId \<and> js_get v ''identity_profile_sha256'' = JString (''sha256:'' @ profileSha) \<and>
    js_get v ''operator_set_sha256'' = JString (''sha256:'' @ operatorsSha) \<and>
    js_get v ''context_sha256'' = JString (digestCanonical pf (context_json context)) \<and>
    (\<exists>accepted reply observed. admit_instant pf (js_get v ''provider_accepted_at'') [] = Inr accepted \<and>
       admit_instant pf (js_get v ''reply_observed_at'') [] = Inr reply \<and>
       admit_instant pf (js_get v ''observed_at'') [] = Inr observed \<and>
       inbox \<le> accepted \<and> accepted \<le> reply \<and> reply \<le> observed \<and> observed \<le> requested) \<and>
    now - inbox \<le> MAX_QUALIFICATION_AGE"
  using assms by (auto simp: admit_qualification_def admission_simps not_less simp: admit_instant_label)

lemma activation_window_Inr:
  assumes "activation_window pf v now = Inr requested"
  shows "admit_instant pf (js_get v ''requested_at'') [] = Inr requested \<and> requested \<le> now \<and>
    now - requested \<le> MAX_QUALIFICATION_AGE"
  using assms
  by (auto simp: activation_window_def bindE_Inr_iff not_less simp: admit_instant_label split: if_splits)

lemma deliverable_route_Inr:
  assumes "deliverable_route projection routeId = Inr route"
  shows "filter (\<lambda>r. routeReference r = routeId) (map fst (pp_routes projection)) = [route]" "de_routeKind route \<noteq> Sink"
  using assms by (auto simp: deliverable_route_def split: list.splits if_splits)

lemma source_policy_Inr:
  assumes "source_policy sv source context = Inr (policy, projection)"
  shows "\<exists>text. source = JString text \<and> sha sv text = bare (oc_policy_sha256 context) \<and>
    sv_json_parse sv text = Some policy \<and> projectPolicy (sv_core sv) policy = Inr projection"
  using assms by (auto simp: source_policy_def bindE_Inr_iff split: jv.splits option.splits sum.splits)

lemma compiled_activation_cases:
  assumes "compileRouteActivation sv input now = Inr p"
    and t: "\<And>ctx policy projection routeId route profile requested q inbox receipt actor admission inboxProof
      replyProof qualification compatReceipt.
      admitOperationContext (sv_platform sv) (js_get input ''context'') = Inr ctx \<Longrightarrow>
      source_policy sv (js_get input ''policy_source_json'') ctx = Inr (policy, projection) \<Longrightarrow>
      deliverable_route projection routeId = Inr route \<Longrightarrow>
      activation_window (sv_platform sv) input now = Inr requested \<Longrightarrow>
      admit_qualification (sv_platform sv) (js_get input ''qualification'') ctx routeId
        (sha sv (json_stringify (identityProfileDigestInputV1 profile (sha sv (ip_signatureText profile)))))
        (sha sv (json_stringify (jstrings (de_operators route)))) requested now = Inr (q, inbox) \<Longrightarrow>
      admitOwner (sv_platform sv) (js_get input ''owner_authorization'') ctx routeId ''activate_ordinary_route'' now
        (if js_get input ''schema_version'' = JInt 2 then Some (ip_publicAddress profile) else None) = Inr (receipt, actor) \<Longrightarrow>
      Q (sealed_proposal (sv_platform sv) ctx
         \<lparr> at_route_id = routeId, at_policy_sha256 = bare (oc_policy_sha256 ctx),
           at_desired_state_sha256 = bare (oc_desired_state_sha256 ctx),
           at_public_identity = ip_publicAddress profile, at_identity_profile_ref = ip_profileRef profile,
           at_identity_profile_sha256 =
             sha sv (json_stringify (identityProfileDigestInputV1 profile (sha sv (ip_signatureText profile)))),
           at_operator_set_sha256 = sha sv (json_stringify (jstrings (de_operators route))),
           at_operator_set_json = json_stringify (jstrings (de_operators route)),
           at_sender_adapter = adapter_name (ip_senderAdapter profile),
           at_sender_domain = de_domain route, at_runtime_artifacts_sha256 = bare (oc_runtime_artifacts_sha256 ctx),
           at_topology_sha256 = bare (oc_topology_sha256 ctx), at_canary_admission_id = admission,
           at_inbox_proof_id = inboxProof, at_reply_proof_id = replyProof,
           at_qualification_receipt_sha256 = bare qualification,
           at_qualification_valid_until = pf_to_iso (sv_platform sv) (inbox + MAX_QUALIFICATION_AGE),
           at_owner_authorization_sha256 = bare receipt, at_activated_by_ref = bare actor,
           at_requested_at = pf_to_iso (sv_platform sv) requested, at_expires_at = js_get input ''expires_at'' \<rparr>
         compatReceipt)"
  shows "Q p"
  using assms(1) unfolding compileRouteActivation_def Let_def
  by (clarsimp simp: bindE_Inr_iff admit_object_Inr closedObject_Inr) (rule t; assumption)

lemma compiled_activation:
  assumes "compileRouteActivation sv input now = Inr p"
  obtains policy projection route profile requested inbox public receipt actor where
    "admitOperationContext (sv_platform sv) (js_get input ''context'') = Inr (ap_context p)"
    "source_policy sv (js_get input ''policy_source_json'') (ap_context p) = Inr (policy, projection)"
    "deliverable_route projection (at_route_id (ap_record p)) = Inr route"
    "activation_window (sv_platform sv) input now = Inr requested"
    "admit_qualification (sv_platform sv) (js_get input ''qualification'') (ap_context p) (at_route_id (ap_record p))
       (at_identity_profile_sha256 (ap_record p)) (at_operator_set_sha256 (ap_record p)) requested now
     = Inr (js_get input ''qualification'', inbox)"
    "admitOwner (sv_platform sv) (js_get input ''owner_authorization'') (ap_context p) (at_route_id (ap_record p))
       ''activate_ordinary_route'' now public = Inr (receipt, actor)"
    "at_operator_set_sha256 (ap_record p) = sha sv (json_stringify (jstrings (de_operators route)))"
    "at_sender_domain (ap_record p) = de_domain route"
    "at_requested_at (ap_record p) = pf_to_iso (sv_platform sv) requested"
    "at_qualification_valid_until (ap_record p) = pf_to_iso (sv_platform sv) (inbox + MAX_QUALIFICATION_AGE)"
    "p = sealed_proposal (sv_platform sv) (ap_context p) (ap_record p) (ap_compatibility_receipt_sha256 p)"
  using assms
proof (rule compiled_activation_cases [where Q = "\<lambda>x. x = p \<longrightarrow> thesis", THEN mp, OF _ _ refl])
  fix ctx policy projection routeId route profile requested q inbox receipt actor admission inboxProof
      replyProof qualification compatReceipt
  assume s: "admitOperationContext (sv_platform sv) (js_get input ''context'') = Inr ctx"
      "source_policy sv (js_get input ''policy_source_json'') ctx = Inr (policy, projection)"
      "deliverable_route projection routeId = Inr route"
      "activation_window (sv_platform sv) input now = Inr requested"
    and q: "admit_qualification (sv_platform sv) (js_get input ''qualification'') ctx routeId
        (sha sv (json_stringify (identityProfileDigestInputV1 profile (sha sv (ip_signatureText profile)))))
        (sha sv (json_stringify (jstrings (de_operators route)))) requested now = Inr (q, inbox)"
    and o': "admitOwner (sv_platform sv) (js_get input ''owner_authorization'') ctx routeId ''activate_ordinary_route'' now
        (if js_get input ''schema_version'' = JInt 2 then Some (ip_publicAddress profile) else None) = Inr (receipt, actor)"
  have "q = js_get input ''qualification''" using admitted_qualification [OF q] by simp
  with s q o' show "sealed_proposal (sv_platform sv) ctx
         \<lparr> at_route_id = routeId, at_policy_sha256 = bare (oc_policy_sha256 ctx),
           at_desired_state_sha256 = bare (oc_desired_state_sha256 ctx),
           at_public_identity = ip_publicAddress profile, at_identity_profile_ref = ip_profileRef profile,
           at_identity_profile_sha256 =
             sha sv (json_stringify (identityProfileDigestInputV1 profile (sha sv (ip_signatureText profile)))),
           at_operator_set_sha256 = sha sv (json_stringify (jstrings (de_operators route))),
           at_operator_set_json = json_stringify (jstrings (de_operators route)),
           at_sender_adapter = adapter_name (ip_senderAdapter profile),
           at_sender_domain = de_domain route, at_runtime_artifacts_sha256 = bare (oc_runtime_artifacts_sha256 ctx),
           at_topology_sha256 = bare (oc_topology_sha256 ctx), at_canary_admission_id = admission,
           at_inbox_proof_id = inboxProof, at_reply_proof_id = replyProof,
           at_qualification_receipt_sha256 = bare qualification,
           at_qualification_valid_until = pf_to_iso (sv_platform sv) (inbox + MAX_QUALIFICATION_AGE),
           at_owner_authorization_sha256 = bare receipt, at_activated_by_ref = bare actor,
           at_requested_at = pf_to_iso (sv_platform sv) requested, at_expires_at = js_get input ''expires_at'' \<rparr>
         compatReceipt = p \<longrightarrow> thesis"
    by (intro impI that [of policy projection route requested inbox _ receipt actor])
       (auto simp: sealed_proposal_def Let_def)
qed

lemma admitted_readback:
  assumes "admitRouteActivationReadback pf row p now = Inr r"
  shows "js_get row ''proposal_sha256'' = JString (ap_proposal_sha256 p) \<and>
    js_get row ''record_sha256'' = JString (digestCanonical pf (proposal_record_json p)) \<and>
    js_get row ''context_sha256'' = JString (digestCanonical pf (context_json (ap_context p))) \<and>
    rb_activation_id r = ap_record_id p \<and>
    (\<exists>activated observed requested validUntil.
       admit_instant pf (js_get row ''activated_at'') [] = Inr activated \<and>
       admit_instant pf (js_get row ''observed_at'') [] = Inr observed \<and>
       admit_instant pf (JString (at_requested_at (ap_record p))) [] = Inr requested \<and>
       admit_instant pf (JString (at_qualification_valid_until (ap_record p))) [] = Inr validUntil \<and>
       requested \<le> activated \<and> activated < validUntil \<and> activated \<le> observed \<and> observed \<le> now \<and>
       now - observed \<le> MAX_QUALIFICATION_AGE)"
  using assms
  by (auto simp: admitRouteActivationReadback_def Let_def admission_simps not_less not_le simp: admit_instant_label)

definition clock_faithful :: "platform \<Rightarrow> bool" where
  \<comment> \<open>the contract of \<^verbatim>\<open>Date\<close>: what \<^verbatim>\<open>toISOString\<close> printed is not read back as another instant\<close>
  "clock_faithful pf \<longleftrightarrow> (\<forall>t v. pf_date_parse pf (pf_to_iso pf t) = Some v \<longrightarrow> v = t)"

section \<open>Recovery and containment\<close>

lemma compiled_recovery:
  assumes "compileDispatchRecovery pf input now = Inr p"
  shows "js_get (js_get input ''claim'') ''id'' = JString (ry_claim_id p) \<and> is_attempt_id (ry_claim_id p) \<and>
    known_unsent (js_get input ''claim'') (ry_context p) \<and>
    ry_claim_readback_sha256 p = digestCanonical pf (js_get input ''claim'') \<and>
    ry_proposal_sha256 p = digestCanonical pf input \<and>
    (\<exists>expires observed. admit_instant pf (js_get (js_get input ''claim'') ''expires_at'') [] = Inr expires \<and>
       admit_instant pf (js_get (js_get input ''claim'') ''observed_at'') [] = Inr observed \<and>
       now < expires \<and> observed \<le> now \<and> now - observed \<le> 60000)"
  using assms unfolding compileDispatchRecovery_def Let_def bindE_Inr_iff
  by (cases "js_get (js_get input ''claim'') ''id''")
     (auto simp: admission_simps not_less not_le simp: admit_instant_label)

lemma compiled_containment:
  assumes "compileRouteContainment pf input now = Inr p"
  shows "co_action p = js_get input ''action''"
    and "co_action p = JString ''quarantine'' \<Longrightarrow> co_release_of p = JNull \<and> co_source_quarantine_receipt_sha256 p = JNull"
    and "co_action p = JString ''release'' \<Longrightarrow>
      (\<exists>i d. co_release_of p = JString i \<and> is_reference i \<and> co_source_quarantine_receipt_sha256 p = JString d \<and> is_digest d)"
    and "co_action p = JString a \<Longrightarrow>
      js_get (js_get input ''owner_authorization'') ''effect'' = JString (a @ ''_route_replies'')"
proof -
  obtain actor where
    o': "admitOwner pf (js_get input ''owner_authorization'') (co_context p) (co_route_id p)
       ((case shown_text (js_get input ''action'') of None \<Rightarrow> [] | Some a \<Rightarrow> a) @ ''_route_replies'') now None
     = Inr (co_owner_authorization_sha256 p, actor)"
    and a: "co_action p = js_get input ''action''"
    and q: "\<not> (co_action p = JString ''quarantine'' \<and> (co_release_of p \<noteq> JNull \<or> co_source_quarantine_receipt_sha256 p \<noteq> JNull))"
    and r: "co_action p = JString ''release'' \<longrightarrow>
      (\<exists>i d. co_release_of p = JString i \<and> is_reference i \<and> co_source_quarantine_receipt_sha256 p = JString d \<and> is_digest d)"
    using assms unfolding compileRouteContainment_def Let_def
    by (auto simp: admission_simps split: if_splits)
  show "co_action p = js_get input ''action''" by (rule a)
  show "co_action p = JString ''quarantine'' \<Longrightarrow> co_release_of p = JNull \<and> co_source_quarantine_receipt_sha256 p = JNull"
    using q by blast
  show "co_action p = JString ''release'' \<Longrightarrow>
      (\<exists>i d. co_release_of p = JString i \<and> is_reference i \<and> co_source_quarantine_receipt_sha256 p = JString d \<and> is_digest d)"
    using r by blast
  show "co_action p = JString a \<Longrightarrow>
      js_get (js_get input ''owner_authorization'') ''effect'' = JString (a @ ''_route_replies'')"
    using admitted_owner [OF o'] a by simp
qed

end
