(* ===== verification/Canonical_Json.thy ===== *)
theory Canonical_Json
  imports Operation_Context
begin

text \<open>
  The canonical JSON text identifies the value: two values with integral numbers have the same text exactly when they
  are equal up to the order of the properties of their objects. So a digest of the text covers every field of an
  operation context, whatever order the fields were written in.
\<close>

section \<open>Plain values and their normal form\<close>

fun plain_json :: "jv \<Rightarrow> bool" where
  \<comment> \<open>what \<^verbatim>\<open>JSON.parse\<close> returns, when the numbers are integral\<close>
  "plain_json JNull = True"
| "plain_json (JBool _) = True"
| "plain_json (JInt _) = True"
| "plain_json (JString _) = True"
| "plain_json (JArray vs) = list_all plain_json vs"
| "plain_json (JObject ps) = list_all (\<lambda>(k, v). plain_json v) ps"
| "plain_json _ = False"

fun sort_keys :: "jv \<Rightarrow> jv" where
  \<comment> \<open>the same value with the properties of every object in the order of their keys\<close>
  "sort_keys (JArray vs) = JArray (map sort_keys vs)"
| "sort_keys (JObject ps) = JObject (order_by fst (map (\<lambda>(k, v). (k, sort_keys v)) ps))"
| "sort_keys v = v"

lemma insert_ordered_map: "insert_ordered key (g x) (map g ys) = map g (insert_ordered (\<lambda>y. key (g y)) x ys)"
  by (induction ys) auto

lemma order_by_map: "order_by key (map g xs) = map g (order_by (\<lambda>x. key (g x)) xs)"
  by (induction xs) (simp_all add: order_by_def insert_ordered_map)

lemma list_all_order_by [simp]: "list_all P (order_by key xs) = list_all P xs"
  by (simp add: list_all_iff)

lemma order_by_values: "order_by fst (map (\<lambda>(k, v). (k, f v)) ps) = map (\<lambda>(k, v). (k, f v)) (order_by fst ps)"
  by (simp add: order_by_map case_prod_unfold)

lemma plain_sort_keys: "plain_json v \<Longrightarrow> plain_json (sort_keys v)"
  by (induction v rule: sort_keys.induct) (auto simp: order_by_values list_all_iff)

lemma plain_defined [simp]: "\<not> plain_json JUndefined"
  by simp

lemma filter_defined: "list_all (\<lambda>(k, v). plain_json v) ps \<Longrightarrow> filter (\<lambda>(k, v). v \<noteq> JUndefined) ps = ps"
  by (induction ps) auto

lemma canonical_is_sorted_text: "plain_json v \<Longrightarrow> canonicalJsonV1 v = json_stringify (sort_keys v)"
proof (induction v rule: sort_keys.induct)
  case (1 vs)
  then have "map (\<lambda>v. if v = JUndefined then [] else canonicalJsonV1 v) vs = map json_stringify (map sort_keys vs)"
    by (auto simp: list_all_iff)
  then show ?case by (simp only: canonicalJsonV1.simps sort_keys.simps json_stringify.simps)
next
  case (2 ps)
  then have c: "canonicalJsonV1 v = json_stringify (sort_keys v)" if "(k, v) \<in> set ps" for k v
    using that by (auto simp: list_all_iff)
  have "list_all (\<lambda>(k, v). plain_json v) (map (\<lambda>(k, v). (k, sort_keys v)) (order_by fst ps))"
    using 2(2) plain_sort_keys by (fastforce simp: list_all_iff)
  note f = filter_defined [OF this]
  show ?case
    by (simp add: order_by_values f) (auto intro!: arg_cong [where f = "join '',''"] simp: c)
qed simp_all

section \<open>Texts of strings and numbers\<close>

lemma hex_digit_inj: "m < 16 \<Longrightarrow> n < 16 \<Longrightarrow> hex_digit m = hex_digit n \<Longrightarrow> m = n"
proof -
  assume m: "m < 16" and n: "n < 16" and e: "hex_digit m = hex_digit n"
  from e have "code (hex_digit m) = code (hex_digit n)" by simp
  with m n show "m = n" by (auto simp: hex_digit_def split: if_splits)
qed

lemma json_char_inj: "json_char c @ x = json_char d @ y \<Longrightarrow> c = d \<and> x = y"
proof -
  assume e: "json_char c @ x = json_char d @ y"
  have h: "code c = code d" if "hex_digit (code c div 16) = hex_digit (code d div 16)"
      "hex_digit (code c mod 16) = hex_digit (code d mod 16)" "code c < 32" "code d < 32"
  proof -
    have "code c div 16 = code d div 16" by (rule hex_digit_inj [OF _ _ that(1)]) (use that in auto)
    moreover have "code c mod 16 = code d mod 16" by (rule hex_digit_inj [OF _ _ that(2)]) auto
    ultimately show ?thesis by (metis div_mult_mod_eq)
  qed
  have q: "c = d" if "code c = code d" using that by simp
  show ?thesis
    using e unfolding json_char_def by (simp split: if_splits) (use h q in auto)
qed

lemma json_char_head: "json_char c @ x \<noteq> CHR 0x22 # y"
  by (auto simp: json_char_def)

lemma json_quote_inj: "json_quote s @ x = json_quote t @ y \<Longrightarrow> s = t \<and> x = y"
proof (induction s arbitrary: t)
  case Nil
  then show ?case
    by (cases t) (use json_char_head [THEN not_sym] in \<open>auto simp: json_quote_def\<close>)
next
  case (Cons c s)
  show ?case
  proof (cases t)
    case Nil
    with Cons.prems show ?thesis using json_char_head by (auto simp: json_quote_def)
  next
    case (Cons d t')
    with Cons.prems have "c = d \<and> concat (map json_char s) @ CHR 0x22 # x = concat (map json_char t') @ CHR 0x22 # y"
      by (intro json_char_inj) (simp add: json_quote_def)
    then show ?thesis using Cons.IH [of t'] Cons by (simp add: json_quote_def)
  qed
qed

definition digits_value :: "string \<Rightarrow> nat" where
  "digits_value s = foldl (\<lambda>a c. 10 * a + (code c - 48)) 0 s"

lemma digits_value_show_nat: "digits_value (show_nat n) = n"
proof (induction n rule: show_nat.induct)
  case (1 n)
  then show ?case by (subst show_nat.simps) (simp add: digits_value_def)
qed

lemma show_nat_digits: "c \<in> set (show_nat n) \<Longrightarrow> is_digit c"
proof (induction n arbitrary: c rule: show_nat.induct)
  case (1 n)
  then show ?case by (subst (asm) (2) show_nat.simps) (auto simp: is_digit_def split: if_splits)
qed

lemma show_nat_not_Nil: "show_nat n \<noteq> []"
  by (subst show_nat.simps) simp

definition ended :: "string \<Rightarrow> bool" where
  \<comment> \<open>what follows a value inside a text\<close>
  "ended s \<longleftrightarrow> s = [] \<or> hd s \<in> {CHR '','', CHR '']'', CHR ''}''}"

lemma ended_no_digit: "ended s \<Longrightarrow> takeWhile is_digit s = []"
  by (cases s) (auto simp: ended_def js_defs)

lemma show_nat_inj:
  assumes "show_nat m @ x = show_nat n @ y" "ended x" "ended y"
  shows "m = n \<and> x = y"
proof -
  have t: "takeWhile is_digit (show_nat k @ z) = show_nat k" if "ended z" for k z
    using that by (subst takeWhile_append2) (auto simp: show_nat_digits ended_no_digit)
  have e: "show_nat m = show_nat n" using assms t by metis
  then show ?thesis using assms(1) digits_value_show_nat by (metis append_same_eq same_append_eq)
qed

lemma show_int_head: "\<exists>c t. show_int n = c # t \<and> (c = CHR ''-'' \<or> is_digit c)"
proof (cases "n < 0")
  case False
  obtain c t where "show_nat (nat n) = c # t" using show_nat_not_Nil by (cases "show_nat (nat n)") auto
  then show ?thesis using False show_nat_digits [of c "nat n"] by (auto simp: show_int_def)
qed (simp add: show_int_def)

lemma show_int_inj:
  assumes "show_int m @ x = show_int n @ y" "ended x" "ended y"
  shows "m = n \<and> x = y"
proof -
  have minus: "show_nat k @ z \<noteq> CHR ''-'' # z'" for k z z'
    using show_nat_digits [of _ k] show_nat_not_Nil [of k] by (cases "show_nat k") (force simp: js_defs)+
  show ?thesis
    using assms minus not_sym [OF minus] by (auto simp: show_int_def split: if_splits dest!: show_nat_inj)
qed

section \<open>Texts of values\<close>

definition starts_value :: "string \<Rightarrow> bool" where
  "starts_value s \<longleftrightarrow> s \<noteq> [] \<and> hd s \<notin> {CHR '','', CHR '']'', CHR ''}''}"

fun leads :: "jv \<Rightarrow> char \<Rightarrow> bool" where
  \<comment> \<open>the first character of a text\<close>
  "leads JNull c = (c = CHR ''n'')"
| "leads (JBool b) c = (c = (if b then CHR ''t'' else CHR ''f''))"
| "leads (JInt _) c = (c = CHR ''-'' \<or> is_digit c)"
| "leads (JString _) c = (c = CHR 0x22)"
| "leads (JArray _) c = (c = CHR ''['')"
| "leads (JObject _) c = (c = CHR ''{'')"
| "leads _ c = False"

lemma json_leads: "plain_json v \<Longrightarrow> \<exists>c t. json_stringify v = c # t \<and> leads v c"
  using show_int_head by (cases v) (auto simp: json_quote_def)

lemma not_digit_chars [simp]:
  "\<not> is_digit (CHR ''n'')" "\<not> is_digit (CHR ''t'')" "\<not> is_digit (CHR ''f'')" "\<not> is_digit (CHR 0x22)"
  "\<not> is_digit (CHR ''['')" "\<not> is_digit (CHR ''{'')" "\<not> is_digit (CHR '','')" "\<not> is_digit (CHR '']'')"
  "\<not> is_digit (CHR ''}'')" "\<not> is_digit (CHR ''-'')"
  by (simp_all add: js_defs)

lemma value_starts: "plain_json v \<Longrightarrow> starts_value (json_stringify v)"
  using json_leads [of v] by (cases v) (auto simp: starts_value_def split: if_splits)

lemma same_lead:
  assumes "plain_json a" "plain_json b" "json_stringify a @ x = json_stringify b @ y"
  obtains c where "leads a c" "leads b c"
  using json_leads [OF assms(1)] json_leads [OF assms(2)] assms(3) that by fastforce

lemma join_tail: "join '','' (x # xs) = x @ concat (map (\<lambda>t. CHR '','' # t) xs)"
  by (induction xs arbitrary: x) auto

lemma joined_tail_inj:
  assumes "concat (map (\<lambda>z. CHR '','' # f z) xs) @ c # r = concat (map (\<lambda>z. CHR '','' # f z) ys) @ c # s"
    and "\<And>z y u v. z \<in> set xs \<Longrightarrow> y \<in> set ys \<Longrightarrow> ended u \<Longrightarrow> ended v \<Longrightarrow> f z @ u = f y @ v \<Longrightarrow> z = y \<and> u = v"
    and c: "c \<in> {CHR '']'', CHR ''}''}"
  shows "xs = ys \<and> r = s"
  using assms(1,2)
proof (induction xs arbitrary: ys)
  case Nil
  then show ?case using c by (cases ys) auto
next
  case (Cons z xs)
  show ?case
  proof (cases ys)
    case Nil
    with Cons.prems c show ?thesis by auto
  next
    case (Cons y ys')
    let ?t = "\<lambda>ws. concat (map (\<lambda>z. CHR '','' # f z) ws)"
    have "ended (?t ws @ c # w)" for ws w using c by (cases ws) (auto simp: ended_def)
    moreover have "f z @ (?t xs @ c # r) = f y @ (?t ys' @ c # s)"
      using Cons.prems(1) Cons by simp
    ultimately have "z = y \<and> ?t xs @ c # r = ?t ys' @ c # s"
      using Cons by (intro Cons.prems(2)) auto
    then have "z = y" "?t xs @ c # r = ?t ys' @ c # s" by auto
    moreover have "xs = ys' \<and> r = s"
      by (rule Cons.IH [OF calculation(2)]) (use Cons.prems(2) Cons in auto)
    ultimately show ?thesis using Cons by simp
  qed
qed

lemma joined_inj:
  assumes "join '','' (map f xs) @ c # r = join '','' (map f ys) @ c # s"
    and "\<And>z y u v. z \<in> set xs \<Longrightarrow> y \<in> set ys \<Longrightarrow> ended u \<Longrightarrow> ended v \<Longrightarrow> f z @ u = f y @ v \<Longrightarrow> z = y \<and> u = v"
    and st: "\<And>z. z \<in> set xs \<union> set ys \<Longrightarrow> starts_value (f z)"
    and c: "c \<in> {CHR '']'', CHR ''}''}"
  shows "xs = ys \<and> r = s"
proof (cases "xs = [] \<or> ys = []")
  case True
  have "f z @ w \<noteq> c # w'" if "z \<in> set xs \<union> set ys" for z w w'
    using st [OF that] c by (cases "f z") (auto simp: starts_value_def)
  then show ?thesis
    using assms(1) True c by (cases xs; cases ys) (auto simp: join_tail simp del: join.simps(3) dest: sym)
next
  case False
  have "CHR '','' # join '','' (map f xs) = concat (map (\<lambda>z. CHR '','' # f z) xs)" if "xs \<noteq> []" for xs
    using that by (cases xs) (auto simp: join_tail o_def simp del: join.simps(3))
  then have "concat (map (\<lambda>z. CHR '','' # f z) xs) @ c # r = concat (map (\<lambda>z. CHR '','' # f z) ys) @ c # s"
    using False assms(1) by (metis append_Cons)
  then show ?thesis by (rule joined_tail_inj [OF _ assms(2) c])
qed

lemma json_stringify_inj:
  "plain_json a \<Longrightarrow> plain_json b \<Longrightarrow> ended x \<Longrightarrow> ended y \<Longrightarrow> json_stringify a @ x = json_stringify b @ y \<Longrightarrow> a = b \<and> x = y"
proof (induction a arbitrary: b x y)
  case (JInt n)
  obtain c where l: "leads (JInt n) c" "leads b c" by (rule same_lead [OF JInt(1,2,5)])
  then obtain m where "b = JInt m" by (cases b) (auto split: if_splits)
  with JInt show ?case by (auto dest: show_int_inj)
next
  case (JString s)
  obtain c where l: "leads (JString s) c" "leads b c" by (rule same_lead [OF JString(1,2,5)])
  then obtain t where "b = JString t" by (cases b) (auto split: if_splits)
  with JString(5) show ?case using json_quote_inj [of s x t y] by simp
next
  case (JArray vs)
  obtain c where l: "leads (JArray vs) c" "leads b c" by (rule same_lead [OF JArray(2,3,6)])
  then obtain ws where b: "b = JArray ws" by (cases b) (auto split: if_splits)
  have "vs = ws \<and> x = y"
  proof (rule joined_inj [where f = json_stringify and c = "CHR '']''"])
    show "join '','' (map json_stringify vs) @ CHR '']'' # x = join '','' (map json_stringify ws) @ CHR '']'' # y"
      using JArray(6) b by simp
    show "z = w \<and> u = v" if "z \<in> set vs" "w \<in> set ws" "ended u" "ended v"
        "json_stringify z @ u = json_stringify w @ v" for z w u v
      by (rule JArray(1) [OF that(1) _ _ that(3-5)]) (use JArray(2,3) b that in \<open>auto simp: list_all_iff\<close>)
    show "starts_value (json_stringify z)" if "z \<in> set vs \<union> set ws" for z
      by (rule value_starts) (use JArray(2,3) b that in \<open>auto simp: list_all_iff\<close>)
  qed simp
  with b show ?case by simp
next
  case (JObject ps)
  obtain c where l: "leads (JObject ps) c" "leads b c" by (rule same_lead [OF JObject(2,3,6)])
  then obtain qs where b: "b = JObject qs" by (cases b) (auto split: if_splits)
  let ?f = "\<lambda>(k, v). json_quote k @ '':'' @ json_stringify v"
  have pl: "plain_json v" if "(k, v) \<in> set ps \<union> set qs" for k v
    using that JObject(2,3) b by (auto simp: list_all_iff)
  have "ps = qs \<and> x = y"
  proof (rule joined_inj [where f = ?f and c = "CHR ''}''"])
    show "join '','' (map ?f ps) @ CHR ''}'' # x = join '','' (map ?f qs) @ CHR ''}'' # y"
      using JObject(2,3,6) b by (simp add: filter_defined)
    show "z = w \<and> u = v" if "z \<in> set ps" "w \<in> set qs" "ended u" "ended v" "?f z @ u = ?f w @ v" for z w u v
    proof -
      obtain k t where z: "z = (k, t)" by force
      obtain l t' where w: "w = (l, t')" by force
      have "json_quote k @ (CHR '':'' # json_stringify t @ u) = json_quote l @ (CHR '':'' # json_stringify t' @ v)"
        using that(5) z w by simp
      then have "k = l" "json_stringify t @ u = json_stringify t' @ v" by (auto dest: json_quote_inj)
      moreover have "t = t' \<and> u = v"
        by (rule JObject(1) [of "(k, t)"]) (use that z w pl calculation in auto)
      ultimately show ?thesis using z w by simp
    qed
    show "starts_value (?f z)" for z by (cases z) (simp add: starts_value_def json_quote_def)
  qed simp
  with b show ?case by simp
next
  case JNull
  obtain c where l: "leads JNull c" "leads b c" by (rule same_lead [OF JNull(1,2,5)])
  then have "b = JNull" by (cases b) (auto split: if_splits)
  with JNull show ?case by simp
next
  case (JBool t)
  obtain c where l: "leads (JBool t) c" "leads b c" by (rule same_lead [OF JBool(1,2,5)])
  then have "b = JBool t" by (cases b) (auto split: if_splits)
  with JBool show ?case by simp
qed simp_all

lemma canonical_inj:
  assumes "plain_json a" "plain_json b"
  shows "canonicalJsonV1 a = canonicalJsonV1 b \<longleftrightarrow> sort_keys a = sort_keys b"
  using json_stringify_inj [of "sort_keys a" "sort_keys b" "[]" "[]"] assms
  by (auto simp: canonical_is_sorted_text plain_sort_keys ended_def)

section \<open>Contexts\<close>

lemma distinct_order_by [simp]: "distinct (order_by key xs) = distinct xs"
  by (metis card_distinct distinct_card length_order_by set_order_by)

lemma map_of_order_by: "distinct (map fst ps) \<Longrightarrow> map_of (order_by fst ps) = map_of ps"
proof -
  assume d: "distinct (map fst ps)"
  have "map fst (order_by fst ps) = order_by (\<lambda>x. x) (map fst ps)" by (simp add: order_by_map)
  then have "distinct (map fst (order_by fst ps))" using d by simp
  then show ?thesis using d by (simp add: map_of_inject_set)
qed

lemma js_get_sort_keys:
  assumes "distinct (map fst ps)"
  shows "js_get (sort_keys (JObject ps)) k = sort_keys (js_get (JObject ps) k)"
proof -
  have "map_of (map (\<lambda>(k, v). (k, sort_keys v)) (order_by fst ps)) k = map_option sort_keys (map_of ps k)"
    using map_of_order_by [OF assms] by (simp add: map_of_map)
  then show ?thesis by (simp add: order_by_values js_get_def split: option.splits)
qed

lemma field_of_sorted:
  assumes "sort_keys (JObject ps) = sort_keys (JObject qs)" "distinct (map fst ps)" "distinct (map fst qs)"
  shows "sort_keys (js_get (JObject ps) k) = sort_keys (js_get (JObject qs) k)"
  using assms by (metis js_get_sort_keys)

lemma git_id_plain: "isGitId v \<Longrightarrow> plain_json v \<and> sort_keys v = v"
  by (induction v rule: isGitId.induct) auto

definition commit_identified :: "operation_context \<Rightarrow> bool" where
  \<comment> \<open>what the admission of a context establishes of its commit\<close>
  "commit_identified c \<longleftrightarrow> isGitId (gc_head (gb_candidate (oc_binding c))) \<and> isGitId (gc_tree (gb_candidate (oc_binding c)))"

lemma context_plain: "commit_identified c \<Longrightarrow> plain_json (context_json c)"
  by (simp add: context_json_def git_candidate_json_def control_plane_json_def commit_identified_def git_id_plain)

lemma context_sorted_inj:
  assumes "sort_keys (context_json a) = sort_keys (context_json b)" "commit_identified a" "commit_identified b"
  shows "a = b"
proof -
  note f = field_of_sorted [OF assms(1) [unfolded context_json_def], simplified]
  let ?ca = "gb_candidate (oc_binding a)" and ?cb = "gb_candidate (oc_binding b)"
  have "sort_keys (git_candidate_json ?ca) = sort_keys (git_candidate_json ?cb)" using f [of "''candidate''"] by simp
  note g = field_of_sorted [OF this [unfolded git_candidate_json_def], simplified]
  have c: "?ca = ?cb"
    using g [of "''head''"] g [of "''tree''"] g [of "''dirty''"] assms(2,3)
    by (intro git_candidate.equality) (simp_all add: commit_identified_def git_id_plain)
  have "sort_keys (control_plane_json (oc_control_plane a)) = sort_keys (control_plane_json (oc_control_plane b))"
    using f [of "''control_plane''"] by simp
  note h = field_of_sorted [OF this [unfolded control_plane_json_def], simplified]
  have p: "oc_control_plane a = oc_control_plane b"
    using h [of "''profile_id''"] h [of "''account_id''"] h [of "''database_id''"] h [of "''cfctl_build_sha256''"]
      h [of "''capability_contract_sha256''"] by simp
  show ?thesis
    using c p f [of "''candidate_sha256''"] f [of "''policy_sha256''"] f [of "''desired_state_sha256''"]
      f [of "''scope_manifest_sha256''"] f [of "''runtime_artifacts_sha256''"] f [of "''topology_sha256''"]
    by (intro operation_context.equality git_candidate_binding.equality) simp_all
qed

lemma context_text_inj:
  assumes "canonicalJsonV1 (context_json a) = canonicalJsonV1 (context_json b)" "commit_identified a" "commit_identified b"
  shows "a = b"
  using assms canonical_inj context_plain context_sorted_inj by blast

end
