(* ===== verification/Example_Control.thy ===== *)
theory Example_Control
  imports Control_Safety Canonical_Json Example_Data
begin

text \<open>
  A route whose golden thread was read back at midnight, the activation that is compiled for it and the readback a
  minute later; a complete readback of a one-domain installation; and one value written in two key orders.
\<close>

section \<open>A clock and a context\<close>

definition ex_midnight :: string where
  "ex_midnight = ''2026-01-01T00:00:00.000Z''"

definition ex_minute :: string where
  "ex_minute = ''2026-01-01T00:01:00.000Z''"

definition ex_ten :: string where
  "ex_ten = ''2026-01-01T00:10:00.000Z''"

definition ex_control_platform :: platform where
  "ex_control_platform = ex_platform
     \<lparr> pf_to_iso := \<lambda>t. (if t = 0 then ex_midnight else if t = 600000 then ex_ten else []),
       pf_date_parse := map_of [(ex_midnight, 0), (ex_minute, 60000), (ex_ten, 600000)] \<rparr>"

definition ex_control_services :: services where
  "ex_control_services = ex_services
     \<lparr> sv_platform := ex_control_platform, sv_json_parse := \<lambda>_. Some JNull \<rparr>"

definition ex_dg :: string where
  "ex_dg = ''sha256:'' @ ex_digest"

lemma ex_stamps [simp]: "utc_instant ex_midnight" "utc_instant ex_minute" "utc_instant ex_ten"
  by code_simp+

lemma ex_stamps_distinct [simp]: "ex_midnight \<noteq> ex_minute" "ex_midnight \<noteq> ex_ten" "ex_minute \<noteq> ex_ten" "ex_midnight \<noteq> []"
  by (simp_all add: ex_midnight_def ex_minute_def ex_ten_def)

lemma ex_times [simp]:
  "pf_date_parse ex_control_platform ex_midnight = Some 0" "pf_date_parse ex_control_platform ex_minute = Some 60000"
  "pf_date_parse ex_control_platform ex_ten = Some 600000" "pf_to_iso ex_control_platform 0 = ex_midnight"
  "pf_to_iso ex_control_platform 600000 = ex_ten"
  using ex_stamps_distinct [THEN not_sym] by (simp_all add: ex_control_platform_def)

lemma ex_clock_faithful: "clock_faithful ex_control_platform"
  using ex_stamps_distinct [THEN not_sym]
  by (auto simp: clock_faithful_def ex_control_platform_def ex_minute_def ex_midnight_def ex_ten_def split: if_splits)

lemma ex_control_sha [simp]: "sha256Hex ex_control_platform v = ex_digest" "sha ex_control_services v = ex_digest"
proof -
  have "hex (replicate 32 0) = ex_digest" by code_simp
  then show "sha256Hex ex_control_platform v = ex_digest" "sha ex_control_services v = ex_digest"
    by (simp_all add: sha256Hex_def sha_def ex_control_services_def ex_control_platform_def ex_platform_def)
qed

lemma ex_control_fields [simp]:
  "sv_platform ex_control_services = ex_control_platform" "sv_core ex_control_services = ex_core"
  "sv_json_parse ex_control_services s = Some JNull"
  by (simp_all add: ex_control_services_def ex_services_def)

lemma ex_dg_simps [simp]: "is_digest ex_dg" "bare ex_dg = ex_digest" "digestCanonical ex_control_platform v = ex_dg"
  by (simp_all add: is_digest_def ex_dg_def bare_def digestCanonical_def)

lemma ex_dg_text: "''sha256:'' @ ex_digest = ex_dg"
  by (simp add: ex_dg_def)

lemmas ex_dg_cons [simp] = ex_dg_text [simplified]

definition ex_git_id :: string where
  "ex_git_id = replicate 40 (CHR ''a'')"

definition ex_candidate :: git_candidate where
  "ex_candidate = \<lparr> gc_head = JString ex_git_id, gc_tree = JString ex_git_id, gc_dirty = False \<rparr>"

definition ex_binding :: git_candidate_binding where
  "ex_binding = \<lparr> gb_candidate = ex_candidate, gb_candidate_sha256 = ex_digest \<rparr>"

definition ex_op_context :: operation_context where
  "ex_op_context = \<lparr> oc_binding = ex_binding, oc_policy_sha256 = ex_dg, oc_desired_state_sha256 = ex_dg,
     oc_scope_manifest_sha256 = ex_dg, oc_runtime_artifacts_sha256 = ex_dg, oc_topology_sha256 = ex_dg,
     oc_control_plane = \<lparr> cp_profile_id = ''p'', cp_account_id = ''a'', cp_database_id = ''d'',
       cp_cfctl_build_sha256 = ex_dg, cp_capability_contract_sha256 = ex_dg \<rparr> \<rparr>"

lemma ex_git_id [simp]: "isGitId (JString ex_git_id)"
  by (simp add: ex_git_id_def is_hex_def js_defs list_all_iff)

lemma ex_references [simp]: "is_reference ''p''" "is_reference ''a''" "is_reference ''d''" "is_reference ''route:example.com:team''"
  by code_simp+

lemma ex_binding_admitted [simp]:
  "admitGitCandidateBinding ex_control_platform (git_candidate_json ex_candidate) (JString ex_digest) = Inr ex_binding"
proof -
  have "join '','' (order_by id [''head'', ''tree'', ''dirty'']) = ''dirty,head,tree''" by code_simp
  then show ?thesis
    by (simp add: admitGitCandidateBinding_def git_candidate_json_def ex_candidate_def ex_binding_def js_keys_def
        candidateSha256_def Let_def del: isGitId.simps)
qed

lemma ex_binding_fields [simp]:
  "gb_candidate ex_binding = ex_candidate" "gb_candidate_sha256 ex_binding = ex_digest" "\<not> gc_dirty ex_candidate"
  by (simp_all add: ex_binding_def ex_candidate_def)

lemma ex_context_admitted [simp]: "admitOperationContext ex_control_platform (context_json ex_op_context) = Inr ex_op_context"
  by (simp add: admitOperationContext_def closedObject_def admit_object_def context_json_def CONTEXT_KEYS_def CONTROL_KEYS_def
      js_keys_def admit_control_plane_def control_plane_json_def admit_digest_def admit_reference_def ex_op_context_def)

section \<open>An activation and its readback\<close>

definition ex_qualification :: jv where
  "ex_qualification = JObject
     [(''schema_version'', JInt 1), (''kind'', JString ''maildesk_exact_golden_thread_readback''),
      (''context_sha256'', JString ex_dg), (''route_id'', JString ''route:example.com:team''),
      (''canary_admission_id'', JString ''a''), (''canary_transaction_sha256'', JString ex_dg),
      (''inbox_proof_id'', JString ''a''), (''reply_proof_id'', JString ''a''),
      (''identity_profile_sha256'', JString ex_dg), (''operator_set_sha256'', JString ex_dg),
      (''inbox_observed_at'', JString ex_midnight), (''provider_accepted_at'', JString ex_midnight),
      (''reply_observed_at'', JString ex_midnight), (''observed_at'', JString ex_midnight),
      (''receipt_sha256'', JString ex_dg), (''match_count'', JInt 1), (''body_free'', JBool True),
      (''verification_state'', JString ''passed'')]"

definition ex_compatibility :: jv where
  "ex_compatibility = JObject
     [(''schema_version'', JInt 2), (''kind'', JString ''maildesk_actual_message_compatibility''),
      (''runtime_artifacts_sha256'', JString ex_dg), (''policy_sha256'', JString ex_dg),
      (''apple_mail_workspace_verified'', JBool True), (''signed_recipient_and_message_id'', JBool True),
      (''receipt_sha256'', JString ex_dg), (''reply_operator_sha256'', JString ex_dg),
      (''public_identity_sha256'', JString ex_dg)]"

definition ex_owner :: jv where
  "ex_owner = JObject
     [(''effect'', JString ''activate_ordinary_route''), (''route_id'', JString ''route:example.com:team''),
      (''context_sha256'', JString ex_dg), (''authorized_at'', JString ex_midnight), (''expires_at'', JString ex_ten),
      (''actor_sha256'', JString ex_dg), (''receipt_sha256'', JString ex_dg),
      (''public_identity'', JString ''team@example.com'')]"

definition ex_activation_input :: jv where
  "ex_activation_input = JObject
     [(''schema_version'', JInt 2), (''context'', context_json ex_op_context), (''policy_source_json'', JString ''null''),
      (''route_id'', JString ''route:example.com:team''), (''qualification'', ex_qualification),
      (''owner_authorization'', ex_owner), (''compatibility'', ex_compatibility),
      (''requested_at'', JString ex_midnight), (''expires_at'', JNull), (''reply_operator'', JString ''op@corp.test'')]"

definition ex_projects :: bool where
  "ex_projects = (case projectPolicy ex_core JNull of Inl _ \<Rightarrow> False | Inr projection \<Rightarrow>
     (case deliverable_route projection ''route:example.com:team'' of Inl _ \<Rightarrow> False | Inr route \<Rightarrow>
       selected_profile (ex_control_services) JNull route True (JString ''op@corp.test'') = Inr ex_profile))"

lemma ex_projects: ex_projects
  by code_simp

lemma ex_activation_route:
  obtains projection route where "projectPolicy ex_core JNull = Inr projection"
    "deliverable_route projection ''route:example.com:team'' = Inr route"
    "selected_profile ex_control_services JNull route True (JString ''op@corp.test'') = Inr ex_profile"
  using ex_projects by (auto simp: ex_projects_def split: sum.splits)

lemma ex_activation_parts [simp]:
  "activation_window ex_control_platform ex_activation_input 0 = Inr 0"
  "admit_qualification ex_control_platform ex_qualification ex_op_context ''route:example.com:team'' ex_digest ex_digest 0 0
     = Inr (ex_qualification, 0)"
  "admit_compatibility ex_control_services ex_compatibility ex_op_context True (JString ''op@corp.test'') ex_profile
     = Inr ex_compatibility"
  "admitOwner ex_control_platform ex_owner ex_op_context ''route:example.com:team'' ''activate_ordinary_route'' 0
     (Some ''team@example.com'') = Inr (ex_dg, ex_dg)"
  by (simp_all add: activation_window_def ex_activation_input_def admit_instant_def MAX_QUALIFICATION_AGE_def
      admit_qualification_def ex_qualification_def closedObject_def admit_object_def js_keys_def QUALIFICATION_KEYS_def
      admit_digest_def admit_compatibility_def ex_compatibility_def ex_op_context_def admitOwner_def ex_owner_def)

lemma ex_compiled: "\<exists>p. compileRouteActivation ex_control_services ex_activation_input 0 = Inr p"
proof -
  obtain projection route where r: "projectPolicy ex_core JNull = Inr projection"
    "deliverable_route projection ''route:example.com:team'' = Inr route"
    "selected_profile ex_control_services JNull route True (JString ''op@corp.test'') = Inr ex_profile"
    by (rule ex_activation_route)
  have i: "js_get ex_activation_input ''schema_version'' = JInt 2"
    "js_get ex_activation_input ''context'' = context_json ex_op_context"
    "js_get ex_activation_input ''policy_source_json'' = JString ''null''"
    "js_get ex_activation_input ''route_id'' = JString ''route:example.com:team''"
    "js_get ex_activation_input ''qualification'' = ex_qualification"
    "js_get ex_activation_input ''owner_authorization'' = ex_owner"
    "js_get ex_activation_input ''compatibility'' = ex_compatibility"
    "js_get ex_activation_input ''reply_operator'' = JString ''op@corp.test''"
    "js_is_record ex_activation_input" "js_keys ex_activation_input = activation_keys True"
    by (simp_all add: ex_activation_input_def js_keys_def activation_keys_def)
  have s: "source_policy ex_control_services (JString ''null'') ex_op_context = Inr (JNull, projection)"
    by (simp add: source_policy_def ex_op_context_def r)
  have f: "ip_publicAddress ex_profile = ''team@example.com''" by (simp add: ex_profile_def)
  have q: "js_get ex_qualification ''canary_admission_id'' = JString ''a''" "js_get ex_qualification ''inbox_proof_id'' = JString ''a''"
    "js_get ex_qualification ''reply_proof_id'' = JString ''a''" "js_get ex_qualification ''receipt_sha256'' = JString ex_dg"
    "js_get ex_compatibility ''receipt_sha256'' = JString ex_dg"
    by (simp_all add: ex_qualification_def ex_compatibility_def)
  show ?thesis
    by (simp add: compileRouteActivation_def Let_def admit_object_def closedObject_def i s r f q js_is_string_def
        admit_reference_def admit_digest_def)
qed

definition ex_readback :: "route_activation_proposal \<Rightarrow> jv" where
  "ex_readback p = JObject
     [(''schema_version'', JInt 1), (''kind'', JString ''maildesk_exact_route_activation_readback''),
      (''proposal_sha256'', JString (ap_proposal_sha256 p)), (''context_sha256'', JString ex_dg),
      (''activation_id'', JString (ap_record_id p)), (''record_sha256'', JString ex_dg),
      (''activation_receipt_sha256'', JString ex_dg), (''activated_at'', JString ex_minute),
      (''observed_at'', JString ex_minute), (''status'', JString ''active''), (''match_count'', JInt 1),
      (''performed'', JBool True), (''body_free'', JBool True), (''verification_state'', JString ''passed'')]"

lemma ex_readback_admitted:
  assumes "compileRouteActivation ex_control_services ex_activation_input 0 = Inr p"
  shows "\<exists>r. admitRouteActivationReadback ex_control_platform (ex_readback p) p 60000 = Inr r"
proof -
  obtain requested inbox where
    w: "activation_window ex_control_platform ex_activation_input 0 = Inr requested"
    and q: "admit_qualification ex_control_platform ex_qualification (ap_context p) (at_route_id (ap_record p))
       (at_identity_profile_sha256 (ap_record p)) (at_operator_set_sha256 (ap_record p)) requested 0 = Inr (ex_qualification, inbox)"
    and r: "at_requested_at (ap_record p) = pf_to_iso ex_control_platform requested"
      "at_qualification_valid_until (ap_record p) = pf_to_iso ex_control_platform (inbox + MAX_QUALIFICATION_AGE)"
    by (rule compiled_activation [OF assms]) (simp add: ex_activation_input_def)
  have "requested = 0" using w by simp
  moreover have "inbox = 0" using admitted_qualification [OF q] by (simp add: ex_qualification_def admit_instant_def)
  moreover have "at_expires_at (ap_record p) = JNull"
    by (rule compiled_activation_cases [OF assms]) (simp add: sealed_proposal_def Let_def ex_activation_input_def)
  ultimately show ?thesis
    using r by (simp add: admitRouteActivationReadback_def Let_def closedObject_def admit_object_def ex_readback_def js_keys_def
        READBACK_KEYS_def admit_instant_def MAX_QUALIFICATION_AGE_def admit_digest_def)
qed

section \<open>A complete readback\<close>

definition ex_coverage :: jv where
  "ex_coverage = JObject
     [(''mode'', JString ''full_desired_state''), (''profile'', JString ''dark_acceptance_v1''),
      (''desired_state_sha256'', JString ex_digest), (''expected_domain_count'', JInt 1),
      (''selected_domain_count'', JInt 1), (''observed_domain_count'', JInt 1),
      (''selected_domain_sha256s'', JArray [JString ex_digest]), (''observed_domain_sha256s'', JArray [JString ex_digest]),
      (''required_capability_ids'', jstrings DARK_ACCEPTANCE_CAPABILITY_IDS),
      (''successful_capability_ids'', jstrings DARK_ACCEPTANCE_CAPABILITY_IDS),
      (''failed_capability_ids'', JArray []), (''missing_capability_ids'', JArray []),
      (''required_acceptance_surfaces'', jstrings DARK_ACCEPTANCE_SURFACES),
      (''successful_acceptance_surfaces'', jstrings DARK_ACCEPTANCE_SURFACES),
      (''missing_acceptance_surfaces'', JArray []), (''selected_scope_complete'', JBool True),
      (''desired_scope_complete'', JBool True), (''acceptance_complete'', JBool True),
      (''access_identity_continuity'', JObject
         [(''retained_app_id'', JString ''a''), (''application_readback_app_id'', JString ''a''),
          (''retained_policy_id'', JString ''p''), (''policy_parent_app_id'', JString ''a''),
          (''policy_readback_app_id'', JString ''a''), (''policy_readback_policy_id'', JString ''p'')]),
      (''blockers'', JArray [])]"

definition ex_full_readback :: jv where
  "ex_full_readback = JObject
     [(''required'', JBool True), (''attempted'', JBool True), (''transaction_complete'', JBool True),
      (''complete'', JBool True), (''coverage'', ex_coverage)]"

lemma ex_coverage_parts:
  "valid_scope ex_coverage ex_digest [ex_digest]" "valid_capabilities ex_coverage" "validAcceptanceSurfaces ex_coverage"
  "validAccessIdentityContinuity (js_get ex_coverage ''access_identity_continuity'')"
  "selectedScopeComplete ex_coverage"
proof -
  have t: "trim ''a'' = ''a''" "trim ''p'' = ''p''" by code_simp+
  show "valid_scope ex_coverage ex_digest [ex_digest]"
    by (simp add: valid_scope_def ex_coverage_def among_def validCount_def validSha256Set_def js_is_array_def js_elements_def
        sameStringSet_def)
  show "valid_capabilities ex_coverage" "validAcceptanceSurfaces ex_coverage" "selectedScopeComplete ex_coverage"
    by (simp_all add: valid_capabilities_def validAcceptanceSurfaces_def selectedScopeComplete_def ex_coverage_def
        validStringSet_def js_is_array_def js_elements_def jstrings_def DARK_ACCEPTANCE_CAPABILITY_IDS_def
        DARK_ACCEPTANCE_SURFACES_def nonempty_string_def sameStringSet_def among_def)
  show "validAccessIdentityContinuity (js_get ex_coverage ''access_identity_continuity'')"
    by (simp add: validAccessIdentityContinuity_def ex_coverage_def validProviderId_def t)
qed

lemma ex_authorizes_readiness:
  "readbackAuthorizesReadiness ex_control_platform ex_full_readback ex_digest [''example.com'']"
proof -
  have d: "order_by id [coverageDomainSha256 ex_control_platform ''example.com''] = [ex_digest]"
    by (simp add: coverageDomainSha256_def order_by_def)
  have e: "js_elements (js_get ex_coverage ''required_acceptance_surfaces'') = js_elements (js_get ex_coverage ''successful_acceptance_surfaces'')"
    by (simp add: ex_coverage_def)
  have c: "desiredScopeComplete ex_coverage 1" "acceptanceComplete ex_coverage 1"
    using ex_coverage_parts(4,5) e
    by (simp_all add: desiredScopeComplete_def acceptanceComplete_def list_all_iff)
       (simp_all add: ex_coverage_def js_elements_def)
  show ?thesis
    using ex_coverage_parts c d
    by (simp add: readbackAuthorizesReadiness_def validReadbackCoverage_def Let_def ex_full_readback_def)
       (simp add: ex_coverage_def js_is_array_def js_elements_def)
qed

section \<open>Two key orders\<close>

definition ex_ordered :: jv where
  "ex_ordered = JObject [(''a'', JInt 1), (''b'', JArray [JString ''x''])]"

definition ex_reordered :: jv where
  "ex_reordered = JObject [(''b'', JArray [JString ''x'']), (''a'', JInt 1)]"

lemma ex_same_value: "sort_keys ex_ordered = sort_keys ex_reordered"
  by code_simp

end
