(* ===== verification/Spec2Isabelle.thy ===== *)
theory Spec2Isabelle
  imports Settlement Example_Mail Example_Canary Example_Http Example_Control
begin

text \<open>
  Maildesk on Cloudflare Workers: a verification of the mail path, from the parsed message to the provider
  call and back to the recorded outcome.

  \<^bold>\<open>The program.\<close> The workers share a D1 database, three R2 buckets and a queue. Inbound mail for a public
  address is routed by a policy, stored, and forwarded to operators with a Reply-To address that carries an
  opaque token. An operator's answer to such an address is checked, claimed in the database under an admission
  that is good for one reply, and queued. The queue consumer (\<^verbatim>\<open>workers/shared/outbound/queue.ts\<close>) renders the
  public reply, checks it again under the active policy, claims the provider boundary, hands the message to
  the provider once, and records the outcome. Results of inbound deliveries come back on the same queue. The
  operational status of each route is projected from the database and read by the displays.

  \<^bold>\<open>How the model corresponds to the code.\<close>
  \<^item> \<open>Js_Prelude\<close>, \<open>Platform\<close>: JavaScript strings, arrays, values (type \<open>jv\<close>, with insertion-ordered objects) and
    JSON text; hexadecimal digests and storage ids. What the runtime supplies is a field of \<open>platform\<close>.
  \<^item> \<open>Contracts\<close>: \<^verbatim>\<open>contracts.ts\<close>, the environment as a record and the configuration read from it.
  \<^item> \<open>Reply_Text\<close>: \<^verbatim>\<open>reply-text.ts\<close>, \<^verbatim>\<open>reply-text-legacy.ts\<close>.
  \<^item> \<open>Router\<close>: \<^verbatim>\<open>router.ts\<close>, the adapter; the WASM core behind it is the parameter \<open>router_core\<close>.
  \<^item> \<open>Relay_Mail\<close>: \<^verbatim>\<open>inbox-relay.ts\<close>, \<^verbatim>\<open>message-identity.ts\<close>, \<^verbatim>\<open>identity-profile-contract.ts\<close>.
  \<^item> \<open>Job_Codec\<close>, \<open>Jobs\<close>: \<^verbatim>\<open>job-codec.ts\<close> and the job types of \<^verbatim>\<open>contracts.ts\<close>.
  \<^item> \<open>Route_Status\<close>, \<open>Status_Store\<close>: \<^verbatim>\<open>route-status.ts\<close>, \<^verbatim>\<open>route-status-reader.ts\<close>, \<^verbatim>\<open>status-store.ts\<close>.
  \<^item> \<open>Database\<close>: the tables of \<^verbatim>\<open>migrations/\<close> that the statements name, one record per row. An SQL statement of
    the sources is a function from the time and the database to an error or a result and the next database;
    \<open>NULL\<close> is \<open>None\<close> and \<open>sql_eq\<close> its comparison.
  \<^item> \<open>Effects\<close>: the world (clock, database, buckets, queue, calls made so far, scripted provider answers, and a
    schedule) and the sequencing of effects as explicit state passing; a thrown value is \<open>Inl\<close>. Every awaited
    call takes one tick of the schedule, which says how long it took, what others wrote meanwhile and whether
    the call failed before or after its effect.
  \<^item> \<open>Outbound_Content\<close>, \<open>Audit_Log\<close>, \<open>Reply_Claims\<close>, \<open>Terminal\<close>, \<open>Provider\<close>, \<open>Inbound_Results\<close>, \<open>Queue\<close>: the files of
    \<^verbatim>\<open>workers/shared/outbound/\<close>, function by function; \<open>Policy\<close>: \<^verbatim>\<open>policy-inventory.ts\<close>, \<^verbatim>\<open>policy-store.ts\<close>;
    \<open>Work_Destination\<close>: \<^verbatim>\<open>work-destination.ts\<close>; \<open>Reply_Repository\<close>, \<open>Reply_Dispatch\<close>: \<^verbatim>\<open>reply-repository.ts\<close>,
    \<^verbatim>\<open>ordinary-reply.ts\<close> and \<^verbatim>\<open>reply-recovery.ts\<close>, with the triggers of migrations 0013 and 0014.
  \<^item> \<open>Base64\<close>, \<open>Inbound_Repository\<close>, \<open>Inbound_Recovery\<close>, \<open>Inbound\<close>: \<^verbatim>\<open>inbound-repository.ts\<close>, \<^verbatim>\<open>inbound-recovery.ts\<close> and
    \<^verbatim>\<open>inbound.ts\<close> of the mail router. A handler ends with the reason of a rejection or with \<open>None\<close>.
  \<^item> \<open>Dkim_Text\<close>, \<open>Dkim\<close>: \<^verbatim>\<open>dkim.ts\<close> and \<^verbatim>\<open>request-deadline.ts\<close>; \<open>Operator_Reply\<close>: \<^verbatim>\<open>operator-reply.ts\<close>; \<open>Mail_Router\<close>:
    \<^verbatim>\<open>acceptEmail\<close> and the \<^verbatim>\<open>email\<close> handler of \<^verbatim>\<open>index.ts\<close>.
  \<^item> \<open>Interference\<close>, \<open>Queue_Run\<close>, \<open>Delivery_Safety\<close>, \<open>Consumer_System\<close>, \<open>Settlement\<close>: the reasoning about whole runs.
    A locale lists the statements of the consumer and gives one rule per function; it is interpreted for the
    order of the durable history, for the budget of provider calls and for the checks before a call. The
    consumer's life is the step relation \<open>consumer_step\<close>, with redelivered batches and other workers.
  \<^item> \<open>Claims_Linked\<close>, \<open>Dispatch_Exact\<close>: the link between an attempt and its payer, and what a dispatch submits.
    \<open>Inbound_Run\<close>, \<open>Inbound_Safety\<close>, \<open>Router_Run\<close>: the same method for the mail router, with a locale for each level
    of its handlers; it is interpreted for the payment of copies, for the links of \<open>Claims_Linked\<close>, and for the
    absence of provider calls in replies. \<open>Inbound_Durable\<close>: what an accepted message leaves in the database.
    \<open>Inbound_Spool\<close>: the spool of copies as a round trip. \<open>Dkim_Safety\<close>: what a verified message is.
  \<^item> \<open>Canary_Report\<close>, \<open>Canary\<close>: \<^verbatim>\<open>workers/mail-canary/src/\<close> (\<^verbatim>\<open>report.ts\<close>, \<^verbatim>\<open>policy-routes.ts\<close>, \<^verbatim>\<open>index.ts\<close>) and
    \<^verbatim>\<open>workers/mail-heartbeat/src/index.ts\<close>. \<open>Canary_Checks\<close>: what the report and the rotation say; \<open>Canary_Safety\<close>: runs
    under interference, as the step relation \<open>canary_step\<close>; \<open>Canary_Ledger\<close>: the batch of the ledger, and the pings.
  \<^item> \<open>Http_Api\<close>: \<^verbatim>\<open>workers/mail-api/src/index.ts\<close>, \<^verbatim>\<open>workers/shared/legacy-reply-http.ts\<close> and \<^verbatim>\<open>workers/ui/access.ts\<close>;
    \<open>Mcp\<close>: \<^verbatim>\<open>workers/mail-mcp/src/\<close>. \<open>Reads\<close>: a locale for operations that only read. \<open>Mcp_Safety\<close>: cursors, fenced
    answers, and who reaches a tool.
  \<^item> \<open>Live_Evidence\<close>: \<^verbatim>\<open>scripts/live-evidence-coverage.ts\<close>; \<open>Operation_Context\<close>: \<^verbatim>\<open>scripts/operation-context.ts\<close>,
    \<^verbatim>\<open>git-candidate.ts\<close>, \<^verbatim>\<open>mail-proof-target.ts\<close>, \<^verbatim>\<open>sender-mode.ts\<close>, \<^verbatim>\<open>desired-topology.ts\<close>; \<open>Route_Control\<close>:
    \<^verbatim>\<open>route-reply-control-contract.ts\<close>. These compile and admit the evidence for protected operations; they are pure.
    \<open>Control_Safety\<close>, \<open>Canonical_Json\<close>: what an admitted value says, and that the digested text identifies it.
  \<^item> \<open>Example_Data\<close>, \<open>Example_Policy\<close>, \<open>Example_Dispatch\<close>, \<open>Example_Mail\<close>, \<open>Example_Canary\<close>, \<open>Example_Http\<close>,
    \<open>Example_Control\<close>: an installation on which hypotheses are discharged.

  \<^bold>\<open>What is shown.\<close> C1 to C4 are about the consumer as a whole: at most one provider call per admission under
  any redelivery, failure and interference; every call checked; the history monotone; recorded outcomes final.
  The sections below follow the mail: the policy, the contract of the queue, addresses and tokens, the router
  adapter, messages, what is visible to the recipient, outcomes, status, claimed replies, incoming mail, the
  authentication of operators, the canary with its heartbeat, the HTTP layers, and the admission of protected operations. A theorem without a claim
  number is a fact of its section that other readers of the code may want.

  \<^bold>\<open>Bounds and termination.\<close> Every definition is total and no fuel is used, except where the code itself counts:
  \<open>normalizedVisibleValue\<close> decodes at most the four rounds of the source and reports whether it was done. Loops
  over text recurse on a measure of its length. An exhausted schedule means that calls succeed undisturbed, so
  no run is cut short. The loop of a client over the pages of the MCP server is bounded by the requests it makes, and C39 shows
  how many are enough. Numbers of the sources that are safe integers are \<open>int\<close> or \<open>nat\<close>, with
  \<open>safe_count\<close> where the code checks \<^verbatim>\<open>Number.isSafeInteger\<close>.

  \<^bold>\<open>Not modelled.\<close> Characters above U+00FF, apart from the em dash that the sources print (strings are lists of
  256 values); floating-point numbers in JSON, beyond integers. Parameters, because their code is not in the
  repository's TypeScript: SHA-256, \<^verbatim>\<open>Date.parse\<close>, the collation, NFKC, UTF-8 decoding, \<^verbatim>\<open>JSON.parse\<close>, the MIME
  parser and its address parser, \<^verbatim>\<open>Number\<close> on strings, RSA, the answers of the DNS resolver, random values and the
  router core (Rust, compiled to WASM when the program is built), and \<^verbatim>\<open>new URL\<close>. Left out are console messages, the triggers
  that count status generations (migrations 0015 and 0017) and those of the governance ledgers. The
  verification of JSON web tokens (\<^verbatim>\<open>jose\<close>) and the MCP handler of the SDK are arguments of the definitions that use them.
  The other operator scripts are not modelled: they collect, print and compare files and the output of other tools.
\<close>

section \<open>Sending a reply\<close>

text \<open>C1. At most once: over any history of the consumer, with redelivered batches, failing and unacknowledged
  calls, delays and interference by other workers, every provider call is paid for by an admission that was
  still open. With a provider that is called at most once per claim, the calls made plus the admissions still
  open never grow, for the admissions of any set \<open>K\<close> that the jobs of the batches name.\<close>

theorem at_most_one_call_per_admission:
  assumes "consumer_steps sv K w w'" and "single_call_mode sv"
  shows "length (w_calls w') + open_count K (w_db w') \<le> length (w_calls w) + open_count K (w_db w)"
  using steps_spend [OF assms] by (simp add: budget_def seen_def)

theorem at_most_one_call_per_admission_witness:
  "length (w_calls (run_batch ex_services ex_batch ex_world)) \<le> 1"
proof -
  have "consumer_step ex_services (\<lambda>i. i = ''adm'') ex_world (run_batch ex_services ex_batch (ex_world\<lparr>w_ticks := []\<rparr>))"
    by (rule consumer_step.batch [OF ex_batch_named]) simp
  then have "consumer_steps ex_services (\<lambda>i. i = ''adm'') ex_world (run_batch ex_services ex_batch ex_world)"
    by (simp add: ex_world_def world_of_def)
  from at_most_one_call_per_admission [OF this ex_single_call] show ?thesis
    by (simp add: ex_open_count)
qed

text \<open>C2. In the inbox relay, whatever the queue delivers and whatever the other invocations do, every message
  that reaches a provider passed the checks: the active policy was genuine and is the one it was claimed
  under, it authorizes the operator to write as that sender with that profile, the payload has the claimed
  digest, and nothing visible in it names an operator that the policy protects.\<close>

theorem every_call_is_checked:
  assumes "odc_mode (operatorDeliveryConfig (sv_env sv)) = Inbox_Relay"
  shows "\<exists>cs. w_calls (run_batch sv ms w) = w_calls w @ cs \<and> list_all (checked_call sv) cs"
  using batch_calls [OF assms] by (simp add: calls_by_def)

theorem every_call_is_checked_witness:
  "\<exists>cs. w_calls (run_batch ex_services ex_batch ex_world) = cs \<and> list_all (checked_call ex_services) cs"
  using every_call_is_checked [of ex_services ex_batch ex_world] by simp

text \<open>C3. A batch only moves the durable record forward: no audit row, attempt or admission is deleted, a
  terminal attempt or admission keeps its status, a claim is never reassigned, a provider boundary time is
  never rewritten, and an admission never goes back in its life.\<close>

theorem batch_only_moves_forward:
  assumes "others_respect history w"
  shows "history (w_db w, length (w_calls w)) (w_db (run_batch sv ms w), length (w_calls (run_batch sv ms w)))"
  using batch_history [OF assms, of sv ms] by (simp add: seen_def)

theorem batch_only_moves_forward_witness:
  "history (ex_db, 0) (w_db (run_batch ex_services ex_batch ex_world), length (w_calls (run_batch ex_services ex_batch ex_world)))"
  using batch_only_moves_forward [of ex_world ex_services ex_batch] by simp

text \<open>C4. The first recorded outcome of a key is final: an audit event found under a dedupe key before a batch is
  found unchanged after it, so a replayed job reads the result that the first delivery wrote.\<close>

theorem recorded_outcome_is_final:
  assumes "others_respect history w" and "audit_lookup k (w_db w) = Some r"
  shows "audit_lookup k (w_db (run_batch sv ms w)) = Some r"
  using batch_history [OF assms(1), of sv ms] audit_lookup_prefix assms(2)
  by (auto simp: history_def seen_def)

definition ex_audit :: audit_row where
  "ex_audit = \<lparr> ae_id = ''e'', ae_dedupe_key = Some ''k'', ae_thread_id = None, ae_actor = ''system'',
     ae_action = ''outbound_reply_delivered'', ae_detail = Some JNull \<rparr>"

theorem recorded_outcome_is_final_witness:
  "audit_lookup ''k'' (w_db (run_batch ex_services ex_batch (ex_world\<lparr>w_db := ex_db\<lparr>db_audit := [ex_audit]\<rparr>\<rparr>))) = Some ex_audit"
  by (rule recorded_outcome_is_final) (simp_all add: audit_lookup_def first_row_def ex_audit_def)

section \<open>Policy\<close>

text \<open>C5. A policy that is loaded for the inbox relay, with nothing else writing meanwhile, is the one that the
  database points at: its digest is the active one and the digest of the stored object, the router projected
  it from the parsed object, and the route table is exactly its projection.\<close>

theorem active_policy_is_the_stored_one:
  assumes "fst (loadActivePolicy sv w) = Inr (Some v)" and "w_ticks w = []"
    and "env_OPERATOR_DELIVERY_MODE (sv_env sv) = Some ''inbox_relay''"
  shows "active_policy (w_db w) = Some (ap_sha256 v) \<and> is_sha256_hex (ap_sha256 v) \<and>
    (\<exists>bytes. map_of (w_policy w) (''config/policy/'' @ ap_sha256 v @ ''.json'') = Some bytes \<and>
       sha256Hex_bytes (sv_platform sv) bytes = ap_sha256 v \<and>
       parsePolicy sv (sv_utf8_decode sv bytes) = Some (ap_policy v)) \<and>
    projectPolicy (sv_core sv) (ap_policy v) = Inr (ap_projection v) \<and>
    assertPolicyInventory (ap_projection v) (policy_inventory (w_db w)) (Some (ap_sha256 v)) = Inr ()"
  using loadActivePolicy_stored [OF assms] by metis

theorem active_policy_is_the_stored_one_witness:
  "active_policy ex_db \<noteq> None"
proof -
  obtain v where "fst (loadActivePolicy ex_services ex_world) = Inr (Some v)" by (rule ex_policy_loads)
  from active_policy_is_the_stored_one [OF this _ ex_mode] show ?thesis by simp
qed

text \<open>C6. The inventory check and the guard inside a claiming statement agree: when the check passes, the route
  table holds exactly the projected routes, and the guard is true of each of them in that database.\<close>

theorem checked_inventory_satisfies_guard:
  assumes "assertPolicyInventory p (policy_inventory d) (Some psha) = Inr ()"
  shows "iv_route_id ` set (policy_inventory d) = fst ` set (expected_routes p) \<and>
    distinct (map iv_route_id (policy_inventory d)) \<and>
    list_all (\<lambda>(i, route). guarded_route i route d) (expected_routes p)"
proof -
  have "guarded_route i route d" if "(i, route) \<in> set (expected_routes p)" for i route
    using inventory_guard [OF assms] that expected_routes_distinct by (metis map_of_eq_Some_iff)
  then show ?thesis
    using assertPolicyInventory_exact [OF assms] by (auto simp: list_all_iff)
qed

theorem checked_inventory_satisfies_guard_witness:
  "\<exists>p. length (pp_routes p) = 1 \<and> list_all (\<lambda>(i, route). guarded_route i route ex_db) (expected_routes p)"
proof -
  obtain v where v: "fst (loadActivePolicy ex_services ex_world) = Inr (Some v)" "length (pp_routes (ap_projection v)) = 1"
    by (rule ex_policy_loads)
  have i: "assertPolicyInventory (ap_projection v) (policy_inventory ex_db) (Some (ap_sha256 v)) = Inr ()"
    using loadActivePolicy_stored [OF v(1) _ ex_mode] by auto
  with checked_inventory_satisfies_guard [OF i] v(2) show ?thesis by blast
qed

section \<open>The queue contract\<close>



text \<open>Authority in a queue message: a reply job that claims ordinary authority carries schema version 2, the
  second payload version and the name of its activation, and one without a version is never ordinary.\<close>

theorem ordinary_authority_is_explicit:
  assumes "decodeMailJob v = Some j"
    and "js_get j ''kind'' \<in> {JString ''inbox_reply_received'', JString ''outbound_reply_requested''}"
  shows "(js_get j ''admissionKind'' = JString ''ordinary'' \<longrightarrow>
      js_get j ''schemaVersion'' = JInt 2 \<and> js_get j ''payloadVersion'' = JInt 2 \<and>
      (\<exists>a. js_get j ''activationId'' = JString a \<and> a \<noteq> [])) \<and>
    (js_get j ''schemaVersion'' = JUndefined \<longrightarrow> replyAuthorizationKind j = Some Canary)"
proof -
  have "authorizationShape j"
    using assms by (auto simp: decodeMailJob_Some job_shape_def inbox_reply_shape_def outbound_reply_shape_def)
  then show ?thesis using ordinary_authorization [OF assms] unversioned_is_canary by blast
qed

theorem ordinary_authority_is_explicit_witness:
  "replyAuthorizationKind (inbox_job_json (ex_job\<lparr>ij_schemaVersion := JUndefined, ij_payloadVersion := JUndefined,
     ij_admissionKind := JUndefined\<rparr>)) = Some Canary"
proof -
  let ?j = "ex_job\<lparr>ij_schemaVersion := JUndefined, ij_payloadVersion := JUndefined, ij_admissionKind := JUndefined\<rparr>"
  have "inbox_job_ok ?j"
    unfolding inbox_job_ok_def authorizationShape_def replyAuthorizationKind_def inbox_job_fields
    by (simp add: ex_job_def bounded_text_def)
  from ordinary_authority_is_explicit [OF inbox_job_decodes [OF this]] show ?thesis
    by (simp add: inbox_job_fields)
qed



section \<open>Addresses and relay tokens\<close>

text \<open>C9. Address normalization is a normal form: the result is empty or a lower-case mailbox with a valid
  domain, without blanks or controls and of at most 320 characters, every such mailbox is its own result, and
  normalizing twice changes nothing.\<close>

theorem mailbox_normal_form:
  "(normalizeMailbox v = [] \<or> is_mailbox (normalizeMailbox v)) \<and>
   (is_mailbox m \<longrightarrow> normalizeMailbox m = m) \<and>
   normalizeMailbox (normalizeMailbox v) = normalizeMailbox v"
  using normalizeMailbox_is_mailbox is_mailbox_normal normalizeMailbox_idem by blast

lemma ex_operator_mailbox: "is_mailbox ''op@corp.test''"
  by (simp add: is_mailbox_def last_index_of_def index_of_def valid_domain_def valid_label_def js_defs lower_def lower_char_def)

theorem mailbox_normal_form_witness: "normalizeMailbox ''op@corp.test'' = ''op@corp.test''"
  using mailbox_normal_form [of _ "''op@corp.test''"] ex_operator_mailbox by blast

text \<open>C10. Relay tokens round trip through the reply address: the address of 31 random bytes gives their token
  back to the receiving side for a valid reply domain, and a token is only read from a recipient that is
  exactly \<open>r+token\<close> at that domain, with a token of 62 or, before the migration, 64 hexadecimal digits.\<close>

theorem relay_token_round_trip:
  assumes "length bytes = 31" and "valid_domain d"
  shows "(\<exists>a. relayAddress (generateRelayToken bytes) d = Inr a \<and>
      relayTokenFromRecipient a d = Some (generateRelayToken bytes)) \<and>
    (relayTokenFromRecipient r d = Some t \<longrightarrow>
      normalizeMailbox r = ''r+'' @ t @ ''@'' @ d \<and> (is_relay_token t \<or> is_legacy_relay_token t))"
proof -
  let ?t = "generateRelayToken bytes"
  have t: "is_relay_token ?t" using generateRelayToken_valid [OF assms(1)] .
  then have "normalizeMailbox (''r+'' @ ?t @ ''@'' @ d) = ''r+'' @ ?t @ ''@'' @ d"
    using is_mailbox_normal relay_mailbox assms(2) by blast
  from relayTokenFromRecipient_of [OF this t] t show ?thesis
    using relayTokenFromRecipient_sound by (auto simp: relayAddress_def)
qed

theorem relay_token_round_trip_witness:
  "\<exists>a. relayAddress (generateRelayToken (replicate 31 7)) ''reply.example.com'' = Inr a \<and>
      relayTokenFromRecipient a ''reply.example.com'' = Some (generateRelayToken (replicate 31 7))"
proof -
  have "valid_domain ''reply.example.com''" by (simp add: valid_domain_def valid_label_def js_defs)
  from relay_token_round_trip [OF _ this, of "replicate 31 7"] show ?thesis by simp
qed

text \<open>Whatever the configuration holds, the limits that the workers use are in their ranges, the reply
  domain is valid, and setting the deprecated switch together with a split switch disables both directions.\<close>

theorem configuration_bounds:
  "let c = operatorDeliveryConfig env in
     1 \<le> odc_replyTokenTtlDays c \<and> odc_replyTokenTtlDays c \<le> 365 \<and>
     1 \<le> odc_spoolRetentionDays c \<and> odc_spoolRetentionDays c \<le> 30 \<and>
     65536 \<le> odc_maxEncodedMessageBytes c \<and> odc_maxEncodedMessageBytes c \<le> 5242880 \<and>
     pred_option valid_domain (odc_replyDomain c) \<and>
     (env_RELAY_PROCESSING_MODE env \<noteq> None \<and> (env_INBOUND_RELAY_MODE env \<noteq> None \<or> env_REPLY_RELAY_MODE env \<noteq> None) \<longrightarrow>
        odc_inboundProcessingMode c = Processing_Invalid \<and> odc_replyProcessingMode c = Processing_Invalid)"
proof -
  have "1 \<le> boundedPositiveInteger a 90 1 365 \<and> boundedPositiveInteger a 90 1 365 \<le> 365" for a
    by (rule boundedPositiveInteger_range) simp_all
  moreover have "1 \<le> boundedPositiveInteger b 7 1 30 \<and> boundedPositiveInteger b 7 1 30 \<le> 30" for b
    by (rule boundedPositiveInteger_range) simp_all
  moreover have "64 * 1024 \<le> boundedPositiveInteger c (5 * 1024 * 1024) (64 * 1024) (5 * 1024 * 1024) \<and>
      boundedPositiveInteger c (5 * 1024 * 1024) (64 * 1024) (5 * 1024 * 1024) \<le> 5 * 1024 * 1024" for c
    by (rule boundedPositiveInteger_range) simp_all
  moreover have "pred_option valid_domain (normalizeDomain e)" for e
    using normalizeDomain_valid by (cases "normalizeDomain e") auto
  ultimately show ?thesis
    by (simp add: operatorDeliveryConfig_def Let_def relayMode_def)
qed

theorem configuration_bounds_witness:
  "odc_replyProcessingMode (operatorDeliveryConfig (empty_env\<lparr>env_RELAY_PROCESSING_MODE := Some ''enabled'',
     env_REPLY_RELAY_MODE := Some ''enabled''\<rparr>)) = Processing_Invalid"
  using configuration_bounds [of "empty_env\<lparr>env_RELAY_PROCESSING_MODE := Some ''enabled'', env_REPLY_RELAY_MODE := Some ''enabled''\<rparr>"]
  by (simp add: Let_def)

section \<open>The router adapter\<close>

text \<open>C11. The adapter reads back every decision that is well formed, and whatever it accepts binds an identity of
  its own only to operators of the route.\<close>

theorem route_decisions_round_trip:
  "(operators_bound d \<longrightarrow> mapRouteDecision (decision_json d) = Inr d) \<and>
   (mapRouteDecision v = Inr d' \<longrightarrow> operators_bound d')"
  using decision_roundtrip mapRouteDecision_bound by blast

theorem route_decisions_round_trip_witness:
  "\<exists>d. mapRouteDecision (decision_json d) = Inr d \<and> de_operators d = [''op@corp.test'']"
proof -
  let ?d = "\<lparr> de_domain = ''example.com'', de_localPart = ''team'', de_routeKind = Role_Alias,
    de_operators = [''op@corp.test''], de_defaultReplyIdentity = ''team@example.com'',
    de_allowedReplyIdentities = [], de_identityProfile = Some ex_profile,
    de_operatorReplyIdentities = Some [(''op@corp.test'',
      \<lparr> oi_publicAddress = ''op@example.com'', oi_identityProfile = None \<rparr>)], de_disposition = None \<rparr>"
  have "operators_bound ?d" by (simp add: operators_bound_def)
  then have "mapRouteDecision (decision_json ?d) = Inr ?d"
    using route_decisions_round_trip [of ?d undefined ?d] by blast
  then show ?thesis by (intro exI [of _ ?d]) simp
qed

text \<open>The choice of a destination: the first candidate that can be delivered to wins, a fallback is marked
  exactly when it is not the first one, nothing is chosen iff no candidate can be delivered to, and a work
  queue is only chosen with the adapter that was registered for it under the durable contract.\<close>

theorem first_deliverable_destination:
  assumes "de_disposition route = Some disp"
  shows "(selectDestination route adapters = None \<longleftrightarrow> list_all (\<lambda>c. \<not> deliverable adapters c) (rd_candidates disp)) \<and>
    (selectDestination route adapters = Some s \<longrightarrow> first_deliverable adapters (rd_candidates disp) s)"
  using assms select_from_None select_from_spec by (simp add: selectDestination_def)

definition ex_work_route :: route_decision where
  "ex_work_route = \<lparr> de_domain = ''d'', de_localPart = ''l'', de_routeKind = Role_Alias, de_operators = [],
     de_defaultReplyIdentity = ''i'', de_allowedReplyIdentities = [], de_identityProfile = None,
     de_operatorReplyIdentities = None, de_disposition = Some \<lparr> rd_routeRef = ''r'', rd_candidates =
       [\<lparr> dc_destinationRef = ''a'', dc_accountableRef = ''b'', dc_target = Work_Queue_Target ''q'' \<rparr>,
        \<lparr> dc_destinationRef = ''c'', dc_accountableRef = ''b'', dc_target = Mailbox_Target [''o''] \<rparr>] \<rparr> \<rparr>"

theorem first_deliverable_destination_witness:
  "\<exists>s. selectDestination ex_work_route [] = Some s \<and>
     first_deliverable [] (rd_candidates (the (de_disposition ex_work_route))) s"
proof -
  obtain disp where d: "de_disposition ex_work_route = Some disp" by (simp add: ex_work_route_def)
  moreover obtain s where "selectDestination ex_work_route [] = Some s"
    by (simp add: selectDestination_def ex_work_route_def usable_adapter_def)
  ultimately show ?thesis using first_deliverable_destination [OF d, of "[]" s] by auto
qed

section \<open>Messages\<close>

text \<open>C12. What the relay reads from a message is safe to put into another one: the sender is a normal mailbox,
  names, subjects and content identifiers carry no control characters and are bounded, message identifiers are
  well formed, there are at most 50 distinct references, attachment names hold no path separator and content
  types have the form type/subtype; and the conversation headers written from it read back as its references.\<close>

theorem parsed_mail_is_safe:
  assumes "parseRelayEmail outcome = Inr e"
  shows "relay_email_ok e \<and>
    ((''References'', v) \<in> set (safeConversationHeaders e) \<longrightarrow> angle_ids v = pe_references e)"
  using parseRelayEmail_ok [OF assms] references_roundtrip [OF assms] by blast

theorem parsed_mail_is_safe_witness: "\<exists>e. parseRelayEmail (Inr ex_mime) = Inr e \<and> relay_email_ok e"
proof -
  obtain e where "parseRelayEmail (Inr ex_mime) = Inr e"
    by (simp add: parseRelayEmail_def ex_mime_def singleMailbox_def is_mailbox_normal [OF ex_operator_mailbox])
  with parsed_mail_is_safe show ?thesis by blast
qed

text \<open>C13. The public text of a reply is what the operator authored followed by the public signature: the authored
  part is a contiguous piece of the message with unified line ends, nothing is inserted into it or reordered,
  and no routing context of the desk is left in the result.\<close>

theorem public_text_is_authored_text:
  assumes "renderPublicReplyText t s = Inr r"
  shows "\<exists>authored. sublist authored (normalize_newlines t) \<and> trim authored \<noteq> [] \<and>
    r = authored @ signature_block (trim s) \<and> trim s \<noteq> [] \<and> \<not> maildesk_context r"
proof -
  obtain p where p: "parseReplyText t = Inr p" "trim s \<noteq> []" "r = rt_authored p @ signature_block (trim s)" "\<not> maildesk_context r"
    using renderPublicReplyText_ok [OF assms] by blast
  moreover have "trim (rt_authored p) \<noteq> []"
    using p(1) by (auto simp: parseReplyText_def Let_def split: if_splits)
  ultimately show ?thesis using parseReplyText_sublist by blast
qed

theorem public_text_is_authored_text_witness:
  "\<exists>authored. sublist authored (normalize_newlines ''Yes'') \<and> ''Yes'' @ signature_block ''Team'' = authored @ signature_block (trim ''Team'')"
  using public_text_is_authored_text [OF ex_public_text] by blast



text \<open>HTML escaping is faithful and safe: the escaped text holds no markup or quote character, and two texts
  with the same escape are equal.\<close>

theorem html_escape_safe_and_faithful:
  "set (escapeHtml s) \<inter> {CHR ''<'', CHR ''>'', CHR 0x22, CHR 0x27} = {} \<and> (escapeHtml s = escapeHtml t \<longleftrightarrow> s = t)"
  using escapeHtml_safe escapeHtml_inj by fastforce

definition ex_payload :: mail_payload where
  "ex_payload = \<lparr> mp_subject = ''Hi'', mp_text = Some ''Yes'', mp_html = None,
     mp_headers = [(''In-Reply-To'', ''<c@d>''), (''References'', ''<a@b>'')], mp_attachments = [] \<rparr>"

text \<open>The digest a reply is claimed under does not depend on the order in which its headers are listed, when the
  collation is a total preorder and no two different headers have names that collate as equal.\<close>

theorem payload_digest_ignores_header_order:
  assumes "locale_order (pf_locale_le pf)" and "mset hs = mset (mp_headers p)"
    and "\<And>h h'. h \<in> set hs \<Longrightarrow> h' \<in> set hs \<Longrightarrow> pf_locale_le pf (fst h) (fst h') \<Longrightarrow> pf_locale_le pf (fst h') (fst h) \<Longrightarrow> h = h'"
  shows "outboundRelayPayloadSha256 pf (p\<lparr>mp_headers := hs\<rparr>) = outboundRelayPayloadSha256 pf p"
  by (rule payload_digest_header_order [OF assms])

theorem payload_digest_ignores_header_order_witness:
  "outboundRelayPayloadSha256 ex_platform (ex_payload\<lparr>mp_headers := [(''References'', ''<a@b>''), (''In-Reply-To'', ''<c@d>'')]\<rparr>) =
   outboundRelayPayloadSha256 ex_platform ex_payload"
proof (rule payload_digest_ignores_header_order [OF ex_collation])
  show "mset [(''References'', ''<a@b>''), (''In-Reply-To'', ''<c@d>'')] = mset (mp_headers ex_payload)"
    by (simp add: ex_payload_def)
  show "h = h'" if "h \<in> set [(''References'', ''<a@b>''), (''In-Reply-To'', ''<c@d>'')]"
    "h' \<in> set [(''References'', ''<a@b>''), (''In-Reply-To'', ''<c@d>'')]"
    "pf_locale_le ex_platform (fst h) (fst h')" "pf_locale_le ex_platform (fst h') (fst h)" for h h'
    using that by (auto simp: ex_platform_def code_def)
qed

text \<open>The private address of the operator reaches an inbound delivery only as its recipient: two deliveries of
  the same message that differ in the operator are equal but for the field \<open>to\<close>.\<close>

theorem operator_address_stays_in_recipient:
  "buildOperatorDelivery e (i\<lparr>di_operator := x\<rparr>) = (buildOperatorDelivery e i)\<lparr>od_to := x\<rparr>"
  by (rule operator_address_only_recipient)

text \<open>Storage identifiers are injective: two identifiers are equal only when their kinds are equal and their
  parts are, up to surrounding blanks and letter case.\<close>

theorem storage_ids_are_injective:
  assumes "policyStorageId p xs = policyStorageId q ys" and "CHR '':'' \<notin> set p" and "CHR '':'' \<notin> set q"
  shows "p = q \<and> map (\<lambda>v. lower (trim v)) xs = map (\<lambda>v. lower (trim v)) ys"
  by (rule policyStorageId_inj [OF assms])

theorem storage_ids_are_injective_witness:
  "map (\<lambda>v. lower (trim v)) [''a''] = map (\<lambda>v. lower (trim v)) [''a'']"
  using storage_ids_are_injective [of "''route''" "[''a'']" "''route''" "[''a'']"] by simp

section \<open>What is visible to the recipient\<close>

text \<open>C15. A reply that passes the privacy check carries no attachment; every outward value is fully decoded, in the
  sense that a further round of decoding leaves it as it is, holds no relay recipient, and does not contain
  the decoded address of any operator that the policy protects.\<close>

theorem private_operators_stay_private:
  assumes "outboundPrivacyFailure sv job policy = None"
  shows "\<exists>projection. projectPolicy (sv_core sv) policy = Inr projection \<and>
    (oj_attachments job = None \<or> oj_attachments job = Some []) \<and>
    (\<forall>s \<in> set (outwardVisibleValues job). \<exists>v. normalizedVisibleValue sv s = (v, True) \<and> decode_round sv v = v \<and>
       \<not> opaque_recipient v \<and>
       (\<forall>p \<in> set (pp_protectedOperators projection). \<exists>q. normalizedVisibleValue sv p = (q, True) \<and>
          (q \<noteq> [] \<longrightarrow> \<not> sublist q v)))"
  using outboundPrivacyFailure_None [OF assms] normalizedVisibleValue_fixpoint by metis

theorem private_operators_stay_private_witness:
  "\<exists>v. normalizedVisibleValue ex_services ''Yes'' = (v, True) \<and> \<not> opaque_recipient v"
  using private_operators_stay_private [OF ex_reply_private]
  by (auto simp: outwardVisibleValues_def ex_reply_def with_default_def)

text \<open>The conversation headers of an outgoing reply hold nothing but message identifiers: a valid one in
  In-Reply-To, and in References the identifiers of the job's header, at most 50 and without repetition.\<close>

theorem conversation_headers_are_message_ids:
  assumes "(k, v) \<in> set (canonicalConversationHeaders job)"
  shows "(k = ''In-Reply-To'' \<and> is_angle_id v) \<or>
    (k = ''References'' \<and> angle_ids v = validMessageIds (messageHeader (oj_headers job) ''references'') \<and>
     length (angle_ids v) \<le> 50 \<and> distinct (angle_ids v))"
  using canonical_headers_valid [OF assms] validMessageIds_bounded by metis

theorem conversation_headers_are_message_ids_witness: "is_angle_id ''<a@b>''"
proof -
  let ?job = "(as_outbound_job JNull)\<lparr>oj_headers := Some [(''in-reply-to'', ''<a@b>'')]\<rparr>"
  have "(''In-Reply-To'', ''<a@b>'') \<in> set (canonicalConversationHeaders ?job)"
    by (simp add: canonicalConversationHeaders_def messageHeader_def validMessageId_def is_angle_id_def id_char_def js_defs
        lower_def lower_char_def Let_def)
  from conversation_headers_are_message_ids [OF this] show ?thesis by simp
qed

text \<open>Every failure of the mail service is settled once: it is never retryable, it is definitive exactly when its
  code is one of the listed rejections and ambiguous otherwise, and a well-formed code is what is recorded.\<close>

theorem mail_service_failures:
  "\<not> sr_ok (cloudflareEmailServiceFailure e) \<and> sr_retryable (cloudflareEmailServiceFailure e) = None \<and>
   (sr_ambiguous (cloudflareEmailServiceFailure e) = None \<longleftrightarrow>
     (\<exists>c \<in> set definitive_rejections. exn_code e = JString c \<and> error_code_text 80 c)) \<and>
   (exn_code e = JString c \<and> error_code_text 80 c \<longrightarrow>
     terminalProviderErrorCode (cloudflareEmailServiceFailure e) status = Some c)"
  using cloudflare_failure_shape terminal_code_of_failure by blast

theorem mail_service_failures_witness:
  "terminalProviderErrorCode (cloudflareEmailServiceFailure (Exn ''m'' (JString ''E_DELIVERY_FAILED''))) ''failed'' = Some ''E_DELIVERY_FAILED''"
proof -
  have "error_code_text 80 ''E_DELIVERY_FAILED''"
    by (simp add: error_code_text_def js_defs)
  then show ?thesis
    using mail_service_failures [of "Exn ''m'' (JString ''E_DELIVERY_FAILED'')" "''E_DELIVERY_FAILED''"] by simp
qed

section \<open>Outcomes\<close>





text \<open>The audit log keeps the first event of a key: after an event has been recorded under a fresh key, with a
  fresh row id, no sequence of later writes changes what is found under the key.\<close>

theorem first_audit_event_wins:
  assumes "audit_event k d = None" and "\<not> audit_id_used i d"
  shows "audit_event k (fold (\<lambda>(i, k, v) s. snd (audit_append i k v s)) ws (snd (audit_append i k v d))) = Some (audit_stored v)"
  using audit_log.first_writer_wins [OF assms, of v ws] by (simp add: audit_log.run_def)

theorem first_audit_event_wins_witness:
  "audit_event ''k'' (fold (\<lambda>(i, k, v) s. snd (audit_append i k v s)) [(''2'', ''k'', (''b'', ''y'', JNull))]
     (snd (audit_append ''1'' ''k'' (''a'', ''x'', JNull) empty_db))) = Some (audit_stored (''a'', ''x'', JNull))"
  by (rule first_audit_event_wins)
     (simp_all add: audit_event_def audit_lookup_def first_row_def audit_id_used_def empty_db_def)

text \<open>C18. A retry is asked for only after a retryable failure that is not ambiguous: the delay is that of the
  attempt, at least five seconds and at most five minutes, before the sixth attempt, and none after it.\<close>

theorem retry_only_after_retryable_failure:
  assumes "fst (finish_send sv job attempt result w) = Inr (Retry delay)"
  shows "\<not> sr_ok result \<and> sr_ambiguous result \<noteq> Some True \<and> sr_retryable result = Some True \<and>
    (if attempt < 6 then delay = retryDelaySeconds attempt \<and> 5 \<le> delay \<and> delay \<le> 300 else delay = 0)"
  using assms
  by (auto simp: finish_send_def Let_def followedBy_def andThen_def MAX_OUTBOUND_ATTEMPTS_def retryDelaySeconds_def
      split: if_splits prod.splits sum.splits)

theorem retry_only_after_retryable_failure_witness: "retryDelaySeconds 1 = 5 \<and> sr_retryable ex_failure = Some True"
proof -
  have "fst (finish_send ex_services (as_outbound_job JNull) 1 ex_failure (world_of 0 empty_db)) = Inr (Retry (retryDelaySeconds 1))"
    by (simp add: finish_send_def followedBy_def andThen_def recordEvent_def recordAuditEvent_def randomUUID_def
        quiet_simps insertAudit_def audit_conflict_def world_of_def empty_db_def ex_failure_def send_failure_def
        MAX_OUTBOUND_ATTEMPTS_def Let_def)
  from retry_only_after_retryable_failure [OF this] show ?thesis by (simp add: retryDelaySeconds_def)
qed

section \<open>Route status\<close>

text \<open>C19. A route is reported as current exactly when everything that was observed says so: the binding, the
  enrolment, the switches, no quarantine, no unresolved provider attempt or outcome, nothing pending, two
  fresh proofs, and an ordinary authority that is active and enabled.\<close>

theorem current_iff_all_evidence:
  assumes "projectRouteStatus pf i (Some now) (Some age) = Inr p"
  shows "rs_classification p = Class_Current \<longleftrightarrow>
     si_bindingCurrent i \<and> si_routeKind i \<noteq> ''sink'' \<and> si_enrollment i = Required \<and> si_enabled i \<and>
     \<not> si_quarantined i \<and> si_unknownProviderAttempts i = 0 \<and> si_pendingDispatch i = 0 \<and> si_pendingQueue i = 0 \<and>
     \<not> outcome_bad (deliveryOutcome (si_inboundStatus i)) \<and> \<not> outcome_bad (deliveryOutcome (si_replyStatus i)) \<and>
     si_inboundProcessing i = P_Enabled \<and> si_replyProcessing i = P_Enabled \<and> si_ordinaryProcessing i = P_Enabled \<and>
     proofFreshness pf (si_inboxObservedAt i) now age = Fresh \<and> proofFreshness pf (si_replyObservedAt i) now age = Fresh \<and>
     si_activationId i \<noteq> None"
proof -
  have "p = classify i (base_status pf i now age)"
    using assms by (simp add: projectRouteStatus_def split: if_splits)
  then show ?thesis
    by (simp add: classify_current_iff) (auto simp: base_status_def Let_def)
qed

theorem current_iff_all_evidence_witness:
  "\<exists>p. projectRouteStatus ex_platform ex_status_input (Some 1000) (Some 86400000) = Inr p \<and> rs_classification p = Class_Current"
proof -
  obtain p where p: "projectRouteStatus ex_platform ex_status_input (Some 1000) (Some 86400000) = Inr p"
    by (simp add: projectRouteStatus_def ex_status_input_def safe_count_def max_safe_integer_def)
  from current_iff_all_evidence [OF p] have "rs_classification p = Class_Current"
    by (simp add: ex_status_input_def ex_fresh deliveryOutcome_def outcome_bad_def)
  with p show ?thesis by blast
qed



text \<open>Readiness is blocked unless the status read is current, nothing is pending or unresolved, no outcome is
  bad, and the classification is current or intentionally excluded.\<close>

theorem readiness_needs_current_status:
  "operationalReadinessBlocker r = None \<longleftrightarrow>
   (\<exists>s. sr_state r = Read_Current \<and> sr_status r = Some s \<and> js_get s ''pending_dispatch'' = JInt 0 \<and>
        js_get s ''unknown_provider_attempts'' = JInt 0 \<and> js_get s ''pending_queue'' = JInt 0 \<and>
        \<not> member_of [''partial_delivery'', ''failed'', ''unknown''] (js_get s ''inbound_outcome'') \<and>
        \<not> member_of [''partial_delivery'', ''failed'', ''unknown''] (js_get s ''reply_outcome'') \<and>
        member_of [''current'', ''intentionally_excluded''] (js_get s ''classification''))"
  by (rule operationalReadinessBlocker_None)

text \<open>C21. Storing a status never overwrites newer evidence: the statement either does nothing, or stores a status
  of the generation and policy that its route has at that moment; there is one status per route, and the
  statuses of other routes and the rest of the database stay as they are.\<close>

theorem status_is_saved_for_the_current_generation:
  assumes "save_projection active row p t d = Inr (n, d')" and "distinct (map st_route_id (db_status d))"
  shows "distinct (map st_route_id (db_status d')) \<and> d'\<lparr>db_status := db_status d\<rparr> = d \<and>
    (\<forall>s \<in> set (db_status d). st_route_id s \<noteq> sw_route_id row \<longrightarrow> s \<in> set (db_status d')) \<and>
    (\<forall>s \<in> set (db_status d'). s \<in> set (db_status d) \<or>
       (st_policy_sha256 s = active \<and> active_policy d = Some active \<and>
        (\<exists>ar \<in> set (db_routes d). ar_id ar = st_route_id s \<and> ar_status_generation ar = st_source_generation s \<and>
           ar_policy_sha256 ar = Some active)))"
  using assms by (auto simp: save_projection_def list_ex_iff distinct_map inj_on_def split: if_splits)

theorem status_is_saved_for_the_current_generation_witness:
  "\<exists>p d'. save_projection ex_digest ex_status_row p 0 ex_db = Inr (1, d') \<and> distinct (map st_route_id (db_status d'))"
proof -
  obtain p d' where d: "save_projection ex_digest ex_status_row p 0 ex_db = Inr (1, d')"
    by (simp add: save_projection_def ex_db_def ex_status_row_def active_policy_def)
  then have "distinct (map st_route_id (db_status d'))"
    using status_is_saved_for_the_current_generation [OF d] by (simp add: ex_db_def empty_db_def)
  with d show ?thesis by blast
qed

section \<open>Claimed replies\<close>

text \<open>C22. On a quiet schedule the recovery of a dispatch either changes nothing, or it found the durable claim and
  the raw message that was claimed, appended exactly the job of that claim to the queue, and changed nothing
  else but the database.\<close>

theorem recovery_submits_exactly_the_claim:
  assumes "w_ticks w = []" and "recoverKnownUnsentDispatch sv i w = (Inr (st, reason), w')"
  shows "(st = Dispatch_Queued \<and> (\<exists>claim key bytes d. stored_reply_claim i (w_db w) = Some claim \<and>
      ra_raw_r2_key (sc_attempt claim) = Some key \<and> map_of (w_spool w) key = Some bytes \<and>
      ra_raw_sha256 (sc_attempt claim) = Some (sha256Hex_bytes (sv_platform sv) bytes) \<and>
      w' = w\<lparr>w_jobs := w_jobs w @ [inbox_job_json (dispatch_job claim key)], w_db := d\<rparr>)) \<or>
    (st \<noteq> Dispatch_Queued \<and> w' = w)"
  by (rule recover_quiet [OF assms])

theorem recovery_submits_exactly_the_claim_witness:
  "\<exists>w' key. snd (recoverKnownUnsentDispatch ex_services ex_claim_id ex_world) = w' \<and>
     w_jobs w' = w_jobs ex_world @ [inbox_job_json (dispatch_job ex_claim key)]"
proof -
  obtain w' where run: "recoverKnownUnsentDispatch ex_services ex_claim_id ex_world = (Inr (Dispatch_Queued, ''durable_dispatch_submitted''), w')"
    using ex_recovered by blast
  from recovery_submits_exactly_the_claim [OF ex_world_fields(2) run]
  obtain claim key d where "stored_reply_claim ex_claim_id ex_db = Some claim"
    "w' = ex_world\<lparr>w_jobs := w_jobs ex_world @ [inbox_job_json (dispatch_job claim key)], w_db := d\<rparr>"
    unfolding ex_world_fields by blast
  then have "w_jobs w' = w_jobs ex_world @ [inbox_job_json (dispatch_job ex_claim key)]"
    by (simp add: ex_claim_stored)
  then show ?thesis using run by (metis snd_conv)
qed

text \<open>C23. Both ends of the queue agree: the job that a dispatch builds from a well-formed claim passes the
  decoder unchanged, is read as an inbox reply with the same fields, and is found by the consumer to match the
  claim it was built from.\<close>

theorem dispatched_job_matches_its_claim:
  assumes "claim_wf claim" and "bounded_text key"
  shows "decodeMailJob (inbox_job_json (dispatch_job claim key)) = Some (inbox_job_json (dispatch_job claim key)) \<and>
    as_mail_job (inbox_job_json (dispatch_job claim key)) = Inbox_Reply_Received (dispatch_job claim key) \<and>
    inboxJobMatchesClaim (dispatch_job claim key) claim"
  using dispatch_job_accepted [OF assms] by blast

theorem dispatched_job_matches_its_claim_witness:
  "inboxJobMatchesClaim (dispatch_job ex_claim ''key'') ex_claim"
  using dispatched_job_matches_its_claim [OF ex_claim_wf, of "''key''"] by (simp add: bounded_text_def)

text \<open>C24. Every bound attempt stays linked to the one admission that paid for it, with the digests it was claimed
  with, and no two attempts share a payer: a queue batch, a message at the mail router, the recovery of a
  dispatch and both claim statements preserve this, whatever else of the same kind runs in between.\<close>

theorem attempts_stay_linked_to_their_payer:
  assumes "claims_linked (w_db w)" and "others_respect keeps_links w"
  shows "claims_linked (w_db (run_batch sv ms w)) \<and>
    claims_linked (w_db (snd (email sv message w))) \<and>
    claims_linked (w_db (snd (recoverKnownUnsentDispatch sv i w))) \<and>
    (\<forall>n d'. insert_admitted_attempt sv c t (w_db w) = Inr (n, d') \<longrightarrow> claims_linked d') \<and>
    (\<forall>n d'. insert_ordinary_admission sv oc (ordinary_admission sv oc b e) t (w_db w) = Inr (n, d') \<longrightarrow> claims_linked d')"
proof -
  have "claims_linked (w_db (snd (recoverKnownUnsentDispatch sv i w)))" "claims_linked (w_db (snd (email sv message w)))"
    using preserves_underD [OF recoverKnownUnsentDispatch_links assms(2), of sv i]
      preserves_underD [OF email_links assms(2), of sv message] assms(1)
    by (simp_all add: keeps_links_def seen_def)
  then show ?thesis
    using batch_links [OF assms(2,1)] insert_admitted_linked insert_ordinary_linked assms(1) by blast
qed

theorem attempts_stay_linked_to_their_payer_witness:
  "claims_linked (w_db (run_batch ex_services ex_batch ex_world))"
proof -
  have "claims_linked (w_db ex_world)"
    by (simp add: claims_linked_def ex_db_def empty_db_def ex_admission_def ex_attempt_def claim_matches_def)
  moreover have "others_respect keeps_links ex_world"
    by simp
  ultimately show ?thesis
    by (rule attempts_stay_linked_to_their_payer [THEN conjunct1])
qed

text \<open>The conversation headers that the mail router claims with a reply are the headers that the queue
  consumer sends, for every relay whose stored list holds at most fifty different references.\<close>

theorem claimed_headers_are_sent_headers:
  assumes "length (uniq (storedRelayReferences (rr_references rr))) \<le> 50"
  shows "relayConversationHeaders rr = reply_headers rr"
  by (rule conversation_headers_agree [OF assms])

theorem claimed_headers_are_sent_headers_witness:
  "relayConversationHeaders (hd (db_relays ex_db)) = reply_headers (hd (db_relays ex_db))"
  by (rule claimed_headers_are_sent_headers) (simp add: ex_db_def storedRelayReferences_def uniq_def)

section \<open>Incoming mail\<close>

text \<open>C25. Copies for operators are sent at most once: whatever a run of the email handler does with a message, and
  whatever the other invocations do meanwhile under the same rule, every new call of the mail service is
  matched by a recipient that was settled by claiming it, settled recipients stay settled, and no relay gets
  a second delivery.\<close>

theorem copies_are_sent_at_most_once:
  assumes "others_respect paid w" and "one_delivery_per_relay (w_db w)"
  shows "let w' = snd (email sv message w) in
    length (w_calls w') + settled_rows (w_db w) \<le> length (w_calls w) + settled_rows (w_db w') \<and>
    settled_keys (w_db w) \<subseteq> settled_keys (w_db w') \<and> one_delivery_per_relay (w_db w')"
  using preserves_underD [OF email_paid assms(1), of sv message] assms(2)
  by (simp add: paid_def seen_def Let_def)

theorem copies_are_sent_at_most_once_witness:
  "one_delivery_per_relay (w_db (snd (email ex_services ex_mail ex_delivered_world)))"
proof -
  have "one_delivery_per_relay (w_db ex_delivered_world)"
    by (simp add: world_of_def ex_delivered_def one_delivery_per_relay_def)
  moreover have "others_respect paid ex_delivered_world"
    by (simp add: others_respect_def world_of_def)
  ultimately show ?thesis
    using copies_are_sent_at_most_once [of ex_delivered_world ex_services ex_mail] by (simp add: Let_def)
qed

text \<open>C26. No message for operators is lost: when the handler accepts it, a delivery with its fingerprint is in the
  database, provided that calls which take effect are acknowledged and that nobody else deletes the delivery.\<close>

theorem accepted_mail_is_stored:
  assumes "acceptInboxRelay sv message route policySha256 w = (Inr None, w')" and "de_routeKind route \<noteq> Sink"
    and "\<And>raw. ml_raw message = Some raw \<Longrightarrow> steady (mail_fingerprint sv message raw) w"
  shows "\<exists>raw. ml_raw message = Some raw \<and> stored (mail_fingerprint sv message raw) (w_db w')"
  by (rule acceptInboxRelay_durable [OF assms])

theorem accepted_mail_is_stored_witness:
  "stored ex_digest (w_db (snd (acceptInboxRelay ex_services ex_mail ex_route ex_digest ex_delivered_world)))"
proof -
  obtain w where w: "acceptInboxRelay ex_services ex_mail ex_route ex_digest ex_delivered_world = (Inr None, w)"
    using ex_accepted by (metis prod.collapse)
  have "steady fp ex_delivered_world" for fp
    by (simp add: steady_def others_respect_def acknowledged_def world_of_def)
  then have "\<exists>raw. ml_raw ex_mail = Some raw \<and> stored (mail_fingerprint ex_services ex_mail raw) (w_db w)"
    using accepted_mail_is_stored [OF w] ex_route_kind by blast
  then have "stored (mail_fingerprint ex_services ex_mail []) (w_db w)"
    by (auto simp: ex_mail_def)
  then show ?thesis using w by (simp add: ex_fingerprint)
qed

text \<open>C27. The spool of copies is a round trip: on a quiet schedule, each copy that was put aside before sending is
  what the recovery reads back for its recipient, if the decoders invert the encoders on its text, the row
  carries its key and digest, and the copy is authorized and within the limit.\<close>

theorem spooled_copies_are_recovered:
  assumes "w_ticks w = []" "distinct refs" "length refs = length ds" "i < length ds"
    and "iw_raw_r2_key inbound = Some key" "key \<noteq> []" "rd_operator_ref row = refs ! i"
    and "rd_delivery_payload_r2_key row = operatorDeliverySpoolKey key (refs ! i)"
    and "rd_delivery_payload_sha256 row = sha sv (serializeOperatorDelivery (ds ! i))"
    and "storable (ds ! i)" "delivery_authorized sv (ds ! i) row inbound"
    and "assertWithinRelayLimit (payload_of_delivery (ds ! i)) (operatorDeliveryConfig (sv_env sv)) = Inr ()"
    and "sv_json_parse sv (serializeOperatorDelivery (ds ! i)) = Some (delivery_json (ds ! i))"
    and "sv_utf8_decode sv (utf8_encode (serializeOperatorDelivery (ds ! i))) = serializeOperatorDelivery (ds ! i)"
  shows "\<exists>spools w'. persistOperatorDeliverySpools sv key ds refs w = (Inr spools, w') \<and>
    loadOperatorDeliverySpool sv row inbound w' = (Inr (ds ! i), w')"
  by (rule spooled_copy_is_read [OF assms(1-8) read_delivery_stored [OF assms(10,13,14,9,11,12)]])

theorem spooled_copies_are_recovered_witness:
  "\<exists>spools w'. persistOperatorDeliverySpools ex_spool_services ''key'' [ex_copy] [ex_digest] (world_of 0 empty_db) = (Inr spools, w') \<and>
     loadOperatorDeliverySpool ex_spool_services ex_recipient ex_inbound w' = (Inr ex_copy, w')"
proof -
  have "\<exists>spools w'. persistOperatorDeliverySpools ex_spool_services ''key'' [ex_copy] [ex_digest] (world_of 0 empty_db) = (Inr spools, w') \<and>
     loadOperatorDeliverySpool ex_spool_services ex_recipient ex_inbound w' = (Inr ([ex_copy] ! 0), w')"
  proof (rule spooled_copies_are_recovered)
    show "sv_json_parse ex_spool_services (serializeOperatorDelivery ([ex_copy] ! 0)) = Some (delivery_json ([ex_copy] ! 0))"
      "sv_utf8_decode ex_spool_services (utf8_encode (serializeOperatorDelivery ([ex_copy] ! 0))) = serializeOperatorDelivery ([ex_copy] ! 0)"
      by (simp_all add: ex_spool_services_def)
    show "rd_delivery_payload_sha256 ex_recipient = sha ex_spool_services (serializeOperatorDelivery ([ex_copy] ! 0))"
      by (simp add: ex_spool_sha ex_recipient_def)
  qed (simp_all add: ex_copy_storable ex_copy_authorized ex_copy_small world_of_def, simp_all add: ex_inbound_def ex_recipient_def)
  then show ?thesis by simp
qed

section \<open>Replies of operators\<close>



section \<open>The canary and the heartbeat\<close>

text \<open>C29. An attempt whose outcome is open stops the canary: while the row is not idle, no history of scheduled runs,
  with failing and delayed calls and with other writers that leave the row alone, sends a message or touches it.\<close>

theorem open_attempt_stops_notifications:
  assumes "canary_steps sv env w w'" and "\<not> idle (w_db w)"
  shows "length (w_calls w') = length (w_calls w) \<and> canary_attempt (w_db w') = canary_attempt (w_db w)"
  using canary_steps_frozen [OF assms(1)] assms(2) by (simp add: frozen_def untouched_def seen_def)

theorem open_attempt_stops_notifications_witness:
  "w_calls (snd (scheduled_canary ex_services ex_canary_env (ex_canary_world ''uncertain''))) = []"
proof -
  have "canary_step ex_services ex_canary_env (ex_canary_world ''uncertain'')
      (snd (scheduled_canary ex_services ex_canary_env ((ex_canary_world ''uncertain'')\<lparr>w_now := 1000, w_ticks := []\<rparr>)))"
    by (rule canary_step.run) (simp add: others_respect_def)
  then have "canary_steps ex_services ex_canary_env (ex_canary_world ''uncertain'')
      (snd (scheduled_canary ex_services ex_canary_env (ex_canary_world ''uncertain'')))"
    by (simp add: ex_canary_world_def world_of_def)
  from open_attempt_stops_notifications [OF this] show ?thesis by (simp add: idle_def)
qed







text \<open>The report says that all receipts are current exactly when the inventory is complete, both directions are
  enabled, every route is without an issue and every eligible one has fresh proofs of both paths; it says that the
  routes failed exactly when a delivery of an eligible route did.\<close>

theorem report_says_what_was_found:
  assumes "reportRoutes sv s now maxAge inbound reply limit = Inr r"
  shows "(rp_status r = Receipts_Current \<longleftrightarrow>
      is_sha256_hex (cs_policy_sha256 s) \<and> 0 < cs_expected_routes s \<and> safe_count (cs_expected_routes s) \<and>
      cs_expected_routes s = int (length (cs_routes s)) \<and> distinct (map cr_route_id (cs_routes s)) \<and>
      inbound = ''enabled'' \<and> reply = ''enabled'' \<and>
      list_all (\<lambda>route. reports_no_issue sv (cs_policy_sha256 s) now route \<and>
        (counted (cs_policy_sha256 s) route \<longrightarrow> both_fresh (sv_platform sv) now maxAge route)) (cs_routes s)) \<and>
    (rp_status r = Canary_Failed \<longleftrightarrow> list_ex (found_failed (cs_policy_sha256 s)) (cs_routes s))"
  using report_status [OF assms] unfolding snapshot_issues_Nil by blast

theorem report_says_what_was_found_witness:
  "\<exists>r. reportRoutes ex_services ex_snapshot 1000 HOUR ''disabled'' ''enabled'' 3 = Inr r \<and> rp_status r \<noteq> Receipts_Current"
proof -
  obtain r where r: "reportRoutes ex_services ex_snapshot 1000 HOUR ''disabled'' ''enabled'' 3 = Inr r"
    by (simp add: reportRoutes_def Let_def HOUR_def)
  with report_says_what_was_found [OF r] show ?thesis by simp
qed

text \<open>The rotation takes the routes whose proofs are the oldest: it selects as many of the eligible routes as
  allowed, in the order of the comparison, and none that it leaves out comes before one that it takes.\<close>

theorem rotation_takes_the_oldest:
  "\<exists>chosen rest. mset (chosen @ rest) = mset (map (probe_of pf now) (filter eligible_route routes)) \<and>
     length chosen = min limit (length (filter eligible_route routes)) \<and>
     selectProbeRotation pf routes now limit = map (\<lambda>p. (pb_route_id p, pb_reason p)) chosen \<and>
     sorted_wrt probe_le chosen \<and> list_all (\<lambda>p. list_all (probe_le p) rest) chosen"
  using rotation_prefix [where limit = limit] unfolding list_all_iff by fastforce

section \<open>The HTTP layers\<close>

text \<open>C33. Only an authorized request queues a reply: if the reply interface puts a job on the queue, the installation is
  a web desk, the request carries one of the configured tokens, its body has the shape of a reply job, and the active
  policy authorizes the operator; exactly one job is queued, under the identity that the policy gave and not the
  one that the caller wrote.\<close>

theorem queued_replies_are_authorized:
  assumes "w_jobs (snd (queueReply sv request w)) \<noteq> w_jobs w"
  shows "odc_mode (operatorDeliveryConfig (sv_env sv)) = Web_Desk \<and> isAuthorizedRequest request (sv_env sv) \<and>
    (\<exists>body v authorization job. request_json sv request = Some body \<and> isOutboundReplyRequestedJob body \<and>
       fst (loadActivePolicy sv w) = Inr (Some v) \<and> reply_authorization_of sv (ap_policy v) body = Inr authorization \<and>
       w_jobs (snd (queueReply sv request w)) = w_jobs w @ [job] \<and>
       js_get job ''fromIdentity'' = JString (ra_fromIdentity authorization) \<and>
       js_get job ''operator'' = js_get body ''operator'')"
  using queueReply_jobs [OF assms] by (fastforce simp: queued_reply_def js_set_get)

theorem queued_replies_are_authorized_witness:
  "\<exists>identity job. w_jobs (snd (queueReply ex_desk_services ex_request (world_of 0 empty_db))) = [job] \<and>
     js_get job ''fromIdentity'' = JString identity"
proof -
  have "w_jobs (snd (queueReply ex_desk_services ex_request (world_of 0 empty_db))) \<noteq> w_jobs (world_of 0 empty_db)"
    using ex_desk_queues by (auto simp: world_of_def)
  moreover have "w_jobs (world_of 0 empty_db) = []" by (simp add: world_of_def)
  ultimately show ?thesis using queued_replies_are_authorized [of ex_desk_services ex_request "world_of 0 empty_db"] by auto
qed





text \<open>C36. Following the cursors ends and lists every route once: a client whose requests follow each other within ten
  minutes, while the policy stays active and every cursor is short enough and survives JSON, receives after at most
  one page for every 32 routes and one more exactly the routes of its operator, in the order of their ids.\<close>

theorem cursors_list_every_route:
  assumes "env_OPERATOR_DELIVERY_MODE (sv_env sv) = Some ''inbox_relay''"
    and "distinct (map route_storage_id (allowed_routes active who))"
    and "list_all (serves sv active) ws" and "list_all (cursors_work sv active who) ws" and "paced ws"
    and "length (allowed_routes active who) div MCP_ROUTE_PAGE_SIZE < length ws"
  shows "\<exists>routes. follow sv who ws None = Some routes \<and> mset routes = mset (allowed_routes active who) \<and>
    sorted_wrt (\<lambda>a b. comes_after (route_storage_id a) (route_storage_id b)) routes"
proof -
  have "follow sv who ws None = Some (sorted_routes active who)"
    by (rule follow_lists_all [OF assms(1-5)]) (use assms(6) in \<open>simp add: MCP_ROUTE_PAGE_SIZE_def\<close>)
  then show ?thesis
    using sorted_routes_strict [OF assms(2)] by (simp add: sorted_routes_def mset_order_by)
qed

theorem cursors_list_every_route_witness:
  "\<exists>routes. follow ex_cursor_services ex_who [ex_world] None = Some routes \<and>
     map route_storage_id routes = [''route:example.com:team'']"
proof -
  obtain v where v: "serves ex_cursor_services v ex_world" "cursors_work ex_cursor_services v ex_who ex_world"
    "map route_storage_id (allowed_routes v ex_who) = [''route:example.com:team'']"
    by (rule ex_listing)
  have mode: "env_OPERATOR_DELIVERY_MODE (sv_env ex_cursor_services) = Some ''inbox_relay''"
    using ex_mode by (simp add: ex_cursor_services_def)
  obtain r where r: "allowed_routes v ex_who = [r]" "route_storage_id r = ''route:example.com:team''" using v(3) by auto
  have "\<exists>routes. follow ex_cursor_services ex_who [ex_world] None = Some routes \<and> mset routes = mset (allowed_routes v ex_who) \<and>
      sorted_wrt (\<lambda>a b. comes_after (route_storage_id a) (route_storage_id b)) routes"
    by (rule cursors_list_every_route [OF mode]) (simp_all add: v r MCP_ROUTE_PAGE_SIZE_def)
  then show ?thesis using r by auto
qed



section \<open>Protected operations\<close>

text \<open>C38. The golden thread comes first: if an activation was compiled and its readback is admitted, then the inbox
  proof, the acceptance by the provider, the reply, its readback, the request, the activation and its observation
  followed each other in this order; the activation was less than ten minutes after the inbox proof; the commit
  was clean; and the route is the only one of that reference in the policy whose text has the digest that the
  operation is bound to, and no sink.\<close>

theorem golden_thread_precedes_activation:
  assumes "clock_faithful (sv_platform sv)"
    and compiled: "compileRouteActivation sv input t = Inr p"
    and readback: "admitRouteActivationReadback (sv_platform sv) row p now = Inr r"
  shows "(\<exists>inbox accepted reply read requested activated observed.
      let q = js_get input ''qualification''; at = (\<lambda>v k x. admit_instant (sv_platform sv) (js_get v k) [] = Inr x)
      in at q ''inbox_observed_at'' inbox \<and> at q ''provider_accepted_at'' accepted \<and> at q ''reply_observed_at'' reply \<and>
         at q ''observed_at'' read \<and> at input ''requested_at'' requested \<and> at row ''activated_at'' activated \<and>
         at row ''observed_at'' observed \<and>
         inbox \<le> accepted \<and> accepted \<le> reply \<and> reply \<le> read \<and> read \<le> requested \<and> requested \<le> activated \<and>
         activated \<le> observed \<and> observed \<le> now \<and> activated < inbox + 600000 \<and> requested \<le> t) \<and>
    \<not> gc_dirty (gb_candidate (oc_binding (ap_context p))) \<and>
    (\<exists>text policy projection route.
      js_get input ''policy_source_json'' = JString text \<and> sha sv text = bare (oc_policy_sha256 (ap_context p)) \<and>
      sv_json_parse sv text = Some policy \<and> projectPolicy (sv_core sv) policy = Inr projection \<and>
      filter (\<lambda>x. routeReference x = at_route_id (ap_record p)) (map fst (pp_routes projection)) = [route] \<and>
      de_routeKind route \<noteq> Sink)"
proof -
  let ?pf = "sv_platform sv"
  obtain policy projection route requested inbox where
    ctx: "admitOperationContext ?pf (js_get input ''context'') = Inr (ap_context p)"
    and s: "source_policy sv (js_get input ''policy_source_json'') (ap_context p) = Inr (policy, projection)"
    and d: "deliverable_route projection (at_route_id (ap_record p)) = Inr route"
    and w: "activation_window ?pf input t = Inr requested"
    and q: "admit_qualification ?pf (js_get input ''qualification'') (ap_context p) (at_route_id (ap_record p))
       (at_identity_profile_sha256 (ap_record p)) (at_operator_set_sha256 (ap_record p)) requested t
     = Inr (js_get input ''qualification'', inbox)"
    and printed: "at_requested_at (ap_record p) = pf_to_iso ?pf requested"
      "at_qualification_valid_until (ap_record p) = pf_to_iso ?pf (inbox + MAX_QUALIFICATION_AGE)"
    by (rule compiled_activation [OF compiled])
  from admitted_readback [OF readback] obtain activated observed where
    "requested \<le> activated" "activated < inbox + MAX_QUALIFICATION_AGE" "activated \<le> observed" "observed \<le> now"
    "admit_instant ?pf (js_get row ''activated_at'') [] = Inr activated"
    "admit_instant ?pf (js_get row ''observed_at'') [] = Inr observed"
    using assms(1) by (auto simp: admit_instant_Inr printed clock_faithful_def)
  then show ?thesis
    using admitted_qualification [OF q] activation_window_Inr [OF w] admitted_context(1) [OF ctx]
      deliverable_route_Inr [OF d] source_policy_Inr [OF s]
    unfolding Let_def MAX_QUALIFICATION_AGE_def by blast
qed

theorem golden_thread_precedes_activation_witness:
  "\<exists>p. compileRouteActivation ex_control_services ex_activation_input 0 = Inr p \<and>
     \<not> gc_dirty (gb_candidate (oc_binding (ap_context p)))"
proof -
  obtain p where p: "compileRouteActivation ex_control_services ex_activation_input 0 = Inr p" using ex_compiled by blast
  obtain r where r: "admitRouteActivationReadback (sv_platform ex_control_services) (ex_readback p) p 60000 = Inr r"
    using ex_readback_admitted [OF p] by auto
  have "clock_faithful (sv_platform ex_control_services)" using ex_clock_faithful by simp
  from golden_thread_precedes_activation [OF this p r] p show ?thesis by blast
qed

text \<open>C39. A readback authorizes readiness only when everything was read: the domains that were selected and those
  that were observed are the domains of the desired state, every required capability was read and those of the
  dark acceptance are among them, every acceptance surface succeeded, nothing failed, is missing or blocks, and
  the application and the policy of Access are the retained ones in each of the readbacks.\<close>

theorem readback_authority_is_earned:
  assumes "readbackAuthorizesReadiness pf readback desired domains"
  shows "let c = js_get readback ''coverage''; items = (\<lambda>k. js_elements (js_get c k)); proof' = js_get c ''access_identity_continuity''
    in js_get c ''desired_state_sha256'' = JString desired \<and>
       set (items ''selected_domain_sha256s'') = JString ` coverageDomainSha256 pf ` set domains \<and>
       set (items ''observed_domain_sha256s'') = JString ` coverageDomainSha256 pf ` set domains \<and>
       mset (items ''successful_capability_ids'') = mset (items ''required_capability_ids'') \<and>
       JString ` set DARK_ACCEPTANCE_CAPABILITY_IDS \<subseteq> set (items ''successful_capability_ids'') \<and>
       set (items ''successful_acceptance_surfaces'') = JString ` set DARK_ACCEPTANCE_SURFACES \<and>
       items ''missing_acceptance_surfaces'' = [] \<and> items ''blockers'' = [] \<and>
       (\<exists>app policy. app \<noteq> [] \<and> policy \<noteq> [] \<and>
          js_get proof' ''retained_app_id'' = JString app \<and> js_get proof' ''application_readback_app_id'' = JString app \<and>
          js_get proof' ''policy_parent_app_id'' = JString app \<and> js_get proof' ''policy_readback_app_id'' = JString app \<and>
          js_get proof' ''retained_policy_id'' = JString policy \<and>
          js_get proof' ''policy_readback_policy_id'' = JString policy)"
proof -
  let ?c = "js_get readback ''coverage''"
  have v: "validReadbackCoverage pf ?c desired domains" and full: "js_get ?c ''acceptance_complete'' = JBool True"
    and i: "validAccessIdentityContinuity (js_get ?c ''access_identity_continuity'')"
    using assms by (simp_all add: readbackAuthorizesReadiness_def Let_def)
  note f = valid_coverage_facts [OF v]
  have a: "acceptanceComplete ?c (length domains)" using f(4) full by simp
  then have d: "desiredScopeComplete ?c (length domains)" and none: "js_elements (js_get ?c ''missing_acceptance_surfaces'') = []"
    "js_elements (js_get ?c ''failed_capability_ids'') = []" "js_elements (js_get ?c ''missing_capability_ids'') = []"
    by (simp_all add: acceptanceComplete_def)
  have m: "mset (js_elements (js_get ?c ''successful_capability_ids'')) = mset (js_elements (js_get ?c ''required_capability_ids''))"
    using capabilities_are_classified [OF f(2)] none by simp
  have w: "js_get ?c ''desired_state_sha256'' = JString desired" using f(1) by (simp add: valid_scope_def Let_def)
  note surfaces = dark_surfaces_succeeded [OF f(3) a]
  have dark: "JString ` set DARK_ACCEPTANCE_CAPABILITY_IDS \<subseteq> set (js_elements (js_get ?c ''successful_capability_ids''))"
    using surfaces(2) mset_eq_setD [OF m] by simp
  show ?thesis
    unfolding Let_def
    by (intro conjI w full_scope_is_everything [OF v d] m dark surfaces(1) none(1) f(5) [OF a]
        continuity_is_one_identity [OF i])
qed

theorem readback_authority_is_earned_witness:
  "set (js_elements (js_get ex_coverage ''observed_domain_sha256s'')) =
     JString ` coverageDomainSha256 ex_control_platform ` {''example.com''}"
proof -
  have "js_get ex_full_readback ''coverage'' = ex_coverage" by (simp add: ex_full_readback_def)
  then show ?thesis
    using readback_authority_is_earned [OF ex_authorizes_readiness] by (simp add: Let_def)
qed

text \<open>C40. The canonical text identifies the value: two values with integral numbers have the same canonical text
  exactly when they are equal up to the order of the properties in their objects. A digest of the text therefore
  does not depend on the order in which the fields were written, and leaves no field out.\<close>

theorem canonical_text_identifies_the_value:
  assumes "plain_json a" and "plain_json b"
  shows "canonicalJsonV1 a = canonicalJsonV1 b \<longleftrightarrow> sort_keys a = sort_keys b"
  by (rule canonical_inj [OF assms])

theorem canonical_text_identifies_the_value_witness:
  "ex_ordered \<noteq> ex_reordered \<and> canonicalJsonV1 ex_ordered = canonicalJsonV1 ex_reordered"
  using canonical_text_identifies_the_value [of ex_ordered ex_reordered] ex_same_value
  by (simp add: ex_ordered_def ex_reordered_def)

text \<open>Two admitted contexts with the same text are the same context.\<close>

theorem context_text_identifies_the_context:
  assumes "admitOperationContext pf v = Inr a" and "admitOperationContext pf u = Inr b"
    and "canonicalJsonV1 (context_json a) = canonicalJsonV1 (context_json b)"
  shows "a = b"
  using context_text_inj [OF assms(3)] admitted_candidate(4,5) admitted_context(2) assms(1,2)
  by (metis commit_identified_def)

text \<open>A recovery is compiled only for a claim that never reached the provider boundary, unexpired and read back in
  the last minute; a release names the quarantine that it ends, and a quarantine names none.\<close>

theorem recovery_is_for_an_unsent_claim:
  assumes "compileDispatchRecovery pf input now = Inr p"
  shows "js_get (js_get input ''claim'') ''provider_boundary_at'' = JNull \<and>
    (\<exists>expires observed. admit_instant pf (js_get (js_get input ''claim'') ''expires_at'') [] = Inr expires \<and>
       admit_instant pf (js_get (js_get input ''claim'') ''observed_at'') [] = Inr observed \<and>
       now < expires \<and> observed \<le> now \<and> now - observed \<le> 60000)"
  using compiled_recovery [OF assms] by (auto simp: known_unsent_def)

end
